(* ===== verification/Gah_Prelude.thy ===== *)
theory Gah_Prelude
  imports
    Main
    "HOL-Library.Char_ord"
    "HOL-Library.List_Lexorder"
    "HOL-Library.Product_Lexorder"
    "HOL-Library.Multiset"
begin

text \<open>
  The part of the Rust language and standard library that the modelled code relies on, and the
  generic lemmas the component theories share.

  A Rust \<open>str\<close> is modelled by its UTF-8 bytes, so \<open>string\<close> (a list of 8-bit characters) is exact:
  \<open>len\<close>, byte comparison and \<open>cmp\<close> of the source are \<open>length\<close>, equality and the lexicographic order
  of \<open>HOL-Library.List_Lexorder\<close> over the unsigned byte order of \<open>HOL-Library.Char_ord\<close>.
  A stable \<open>sort_by\<close> on a key is \<open>sort_key\<close>.  Unsigned integers are \<open>nat\<close> where the code only
  counts and compares; the saturating and checked operations are written out with their width.
\<close>

named_theorems wire_simps \<open>equations of the enumerations and their wire strings\<close>
named_theorems snapshot_simps \<open>unfolding rules of the projections of a status snapshot\<close>
named_theorems route_simps \<open>unfolding rules of the routing predicates\<close>

type_synonym rust_str = string
type_synonym ('e, 'a) rust_result = "'e + 'a"

subsection \<open>Option combinators\<close>

definition unwrap_or :: "'a option \<Rightarrow> 'a \<Rightarrow> 'a" where
  "unwrap_or x d = (case x of None \<Rightarrow> d | Some v \<Rightarrow> v)"

definition opt_or :: "'a option \<Rightarrow> 'a option \<Rightarrow> 'a option" where
  "opt_or x y = (case x of None \<Rightarrow> y | Some v \<Rightarrow> Some v)"

definition is_some_and :: "'a option \<Rightarrow> ('a \<Rightarrow> bool) \<Rightarrow> bool" where
  "is_some_and x p = (case x of None \<Rightarrow> False | Some v \<Rightarrow> p v)"

definition opt_filter :: "('a \<Rightarrow> bool) \<Rightarrow> 'a option \<Rightarrow> 'a option" where
  "opt_filter p x = (case x of None \<Rightarrow> None | Some v \<Rightarrow> if p v then Some v else None)"

definition is_some :: "'a option \<Rightarrow> bool" where
  "is_some x = (case x of None \<Rightarrow> False | Some _ \<Rightarrow> True)"

lemma unwrap_or_simps [simp]: "unwrap_or None d = d" "unwrap_or (Some v) d = v"
  by (simp_all add: unwrap_or_def)

lemma opt_or_simps [simp]: "opt_or None y = y" "opt_or (Some v) y = Some v"
  by (simp_all add: opt_or_def)

lemma opt_or_None_iff [simp]: "opt_or x y = None \<longleftrightarrow> x = None \<and> y = None"
  by (cases x) auto

lemma opt_or_Some_iff: "opt_or x y = Some v \<longleftrightarrow> x = Some v \<or> x = None \<and> y = Some v"
  by (cases x) auto

lemma unwrap_or_eq_iff: "unwrap_or x d = v \<longleftrightarrow> x = Some v \<or> x = None \<and> d = v"
  by (cases x) auto

lemma opt_or_None_right [simp]: "opt_or x None = x"
  by (cases x) auto

lemma opt_or_assoc: "opt_or (opt_or x y) z = opt_or x (opt_or y z)"
  by (cases x) auto

lemma is_some_and_simps [simp]: "is_some_and None p = False" "is_some_and (Some v) p = p v"
  by (simp_all add: is_some_and_def)

lemma is_some_and_iff: "is_some_and x p \<longleftrightarrow> (\<exists>v. x = Some v \<and> p v)"
  by (cases x) auto

lemma opt_filter_simps [simp]:
  "opt_filter p None = None" "opt_filter p (Some v) = (if p v then Some v else None)"
  by (simp_all add: opt_filter_def)

lemma opt_filter_Some_iff [simp]: "opt_filter p x = Some v \<longleftrightarrow> x = Some v \<and> p v"
  by (cases x) auto

lemma is_some_simps [simp]: "is_some None = False" "is_some (Some v) = True"
  by (simp_all add: is_some_def)

lemma is_some_iff: "is_some x \<longleftrightarrow> (\<exists>v. x = Some v)"
  by (cases x) auto

lemma not_is_some_iff [simp]: "\<not> is_some x \<longleftrightarrow> x = None"
  by (cases x) auto

subsection \<open>Slices: first, find, any\<close>

definition first :: "'a list \<Rightarrow> 'a option" where
  "first xs = (case xs of [] \<Rightarrow> None | x # _ \<Rightarrow> Some x)"

lemma first_simps [simp]: "first [] = None" "first (x # xs) = Some x"
  by (simp_all add: first_def)

lemma first_None_iff [simp]: "first xs = None \<longleftrightarrow> xs = []"
  by (cases xs) auto

lemma first_in_set: "first xs = Some x \<Longrightarrow> x \<in> set xs"
  by (cases xs) auto

lemma first_hd: "xs \<noteq> [] \<Longrightarrow> first xs = Some (hd xs)"
  by (cases xs) auto

lemma find_SomeD: "List.find p xs = Some x \<Longrightarrow> x \<in> set xs \<and> p x"
  by (induction xs) (auto split: if_splits)

lemma find_None_iff': "List.find p xs = None \<longleftrightarrow> (\<forall>x\<in>set xs. \<not> p x)"
  by (induction xs) auto

lemma find_first_filter: "List.find p xs = first (filter p xs)"
  by (induction xs) auto

lemma set_map_filter: "y \<in> set (List.map_filter f xs) \<longleftrightarrow> (\<exists>x\<in>set xs. f x = Some y)"
  by (induction xs) (auto split: option.splits)

subsection \<open>Stable sorting and selection of the first element\<close>

text \<open>
  The controller and the router repeatedly collect the elements that satisfy a condition, sort them
  by a key and take the first.  The selected element satisfies the condition and is minimal.
\<close>

lemma sort_key_Nil_iff [simp]: "sort_key f xs = [] \<longleftrightarrow> xs = []"
  by (metis set_empty set_sort)

lemma hd_sort_key_minimal:
  assumes "x \<in> set xs"
  shows "f (hd (sort_key f xs)) \<le> f x"
proof -
  have "sorted (map f (sort_key f xs))" by simp
  moreover have "x \<in> set (sort_key f xs)" using assms by simp
  ultimately show ?thesis
    by (cases "sort_key f xs") auto
qed

lemma first_sort_key_minimal:
  "first (sort_key f xs) = Some y \<Longrightarrow> x \<in> set xs \<Longrightarrow> f y \<le> f x"
  using hd_sort_key_minimal [of x xs f] by (cases "sort_key f xs") auto

lemma first_sort_key_in: "first (sort_key f xs) = Some y \<Longrightarrow> y \<in> set xs"
  using first_in_set by fastforce

lemma first_sort_key_Some: "xs \<noteq> [] \<Longrightarrow> \<exists>y. first (sort_key f xs) = Some y"
  by (cases "sort_key f xs") (use sort_key_Nil_iff in force)+

text \<open>A stable sort depends on the order of its input only within each key.\<close>

lemma sort_key_classes_eq:
  assumes "\<And>k. filter (\<lambda>x. f x = k) xs = filter (\<lambda>x. f x = k) ys"
  shows "sort_key f xs = sort_key f ys"
proof (rule properties_for_sort_key)
  have "count (mset (sort_key f ys)) x = count (mset xs) x" for x
    using arg_cong [OF assms [of "f x"], of "\<lambda>zs. count (mset zs) x"] by simp
  then show "mset (sort_key f ys) = mset xs" by (simp add: multiset_eqI)
  show "sorted (map f (sort_key f ys))" by simp
  show "filter (\<lambda>y. f k = f y) (sort_key f ys) = filter (\<lambda>y. f k = f y) xs" for k
    using assms [of "f k"] sort_key_stable [of f "f k" ys] by (simp add: eq_commute [of "f k"])
qed

subsection \<open>Bounded unsigned arithmetic\<close>

definition u32_max :: nat where "u32_max = 2 ^ 32 - 1"
definition u64_max :: nat where "u64_max = 2 ^ 64 - 1"

definition saturating_sub :: "nat \<Rightarrow> nat \<Rightarrow> nat" where
  "saturating_sub a b = (if a < b then 0 else a - b)"

definition saturating_add_u32 :: "nat \<Rightarrow> nat \<Rightarrow> nat" where
  "saturating_add_u32 a b = min (a + b) u32_max"

definition saturating_mul_u32 :: "nat \<Rightarrow> nat \<Rightarrow> nat" where
  "saturating_mul_u32 a b = min (a * b) u32_max"

lemma saturating_sub_eq [simp]: "saturating_sub a b = a - b"
  by (simp add: saturating_sub_def)

definition saturating_add_u64 :: "nat \<Rightarrow> nat \<Rightarrow> nat" where
  "saturating_add_u64 a b = min (a + b) u64_max"

text \<open>Unchecked \<open>u64\<close> arithmetic in a release build: it wraps.\<close>

definition wrapping_mul_u64 :: "nat \<Rightarrow> nat \<Rightarrow> nat" where
  "wrapping_mul_u64 a b = (a * b) mod 2 ^ 64"

definition wrapping_add_u64 :: "nat \<Rightarrow> nat \<Rightarrow> nat" where
  "wrapping_add_u64 a b = (a + b) mod 2 ^ 64"

lemma saturating_add_u64_exact: "a + b \<le> u64_max \<Longrightarrow> saturating_add_u64 a b = a + b"
  by (simp add: saturating_add_u64_def)

lemma saturating_add_u64_mono: "a \<le> a' \<Longrightarrow> b \<le> b' \<Longrightarrow> saturating_add_u64 a b \<le> saturating_add_u64 a' b'"
  by (auto simp: saturating_add_u64_def intro: min.mono)

lemma wrapping_mul_u64_exact: "a * b < 2 ^ 64 \<Longrightarrow> wrapping_mul_u64 a b = a * b"
  by (simp add: wrapping_mul_u64_def)

lemma saturating_add_u32_bound: "saturating_add_u32 a b \<le> u32_max"
  by (simp add: saturating_add_u32_def)

lemma saturating_add_u32_exact: "a + b \<le> u32_max \<Longrightarrow> saturating_add_u32 a b = a + b"
  by (simp add: saturating_add_u32_def)

lemma saturating_add_u32_ge: "a \<le> u32_max \<Longrightarrow> a \<le> saturating_add_u32 a b"
  by (simp add: saturating_add_u32_def)

subsection \<open>ASCII classes\<close>

abbreviation byte :: "char \<Rightarrow> nat" where "byte c \<equiv> of_char c"

definition is_ascii_digit :: "char \<Rightarrow> bool" where
  "is_ascii_digit c = (48 \<le> byte c \<and> byte c \<le> 57)"

definition is_ascii_upper :: "char \<Rightarrow> bool" where
  "is_ascii_upper c = (65 \<le> byte c \<and> byte c \<le> 90)"

definition is_ascii_lower :: "char \<Rightarrow> bool" where
  "is_ascii_lower c = (97 \<le> byte c \<and> byte c \<le> 122)"

definition to_lower1 :: "char \<Rightarrow> char" where
  "to_lower1 c = (if is_ascii_upper c then char_of (byte c + 32) else c)"

definition to_upper1 :: "char \<Rightarrow> char" where
  "to_upper1 c = (if is_ascii_lower c then char_of (byte c - 32) else c)"

definition to_ascii_lowercase :: "rust_str \<Rightarrow> rust_str" where
  "to_ascii_lowercase s = map to_lower1 s"

definition to_ascii_uppercase :: "rust_str \<Rightarrow> rust_str" where
  "to_ascii_uppercase s = map to_upper1 s"

lemma to_lower1_idem [simp]: "to_lower1 (to_lower1 c) = to_lower1 c"
  by (auto simp: to_lower1_def is_ascii_upper_def)

lemma to_ascii_lowercase_idem [simp]:
  "to_ascii_lowercase (to_ascii_lowercase s) = to_ascii_lowercase s"
  by (simp add: to_ascii_lowercase_def)

lemma length_to_ascii_lowercase [simp]: "length (to_ascii_lowercase s) = length s"
  by (simp add: to_ascii_lowercase_def)

subsection \<open>Trimming\<close>

text \<open>
  \<open>str::trim\<close> removes the Unicode white space at both ends.  The code points with the White_Space
  property are written as their UTF-8 bytes: one byte (tab to carriage return, space), two bytes
  (U+0085, U+00A0) and three bytes (U+1680, U+2000 to U+200A, U+2028, U+2029, U+202F, U+205F,
  U+3000).
\<close>

definition ws1 :: "char \<Rightarrow> bool" where
  "ws1 a = ((9 \<le> byte a \<and> byte a \<le> 13) \<or> byte a = 32)"

definition ws2 :: "char \<Rightarrow> char \<Rightarrow> bool" where
  "ws2 a b = (byte a = 194 \<and> (byte b = 133 \<or> byte b = 160))"

definition ws3 :: "char \<Rightarrow> char \<Rightarrow> char \<Rightarrow> bool" where
  "ws3 a b c =
     ((byte a = 225 \<and> byte b = 154 \<and> byte c = 128)
    \<or> (byte a = 226 \<and> byte b = 128
        \<and> ((128 \<le> byte c \<and> byte c \<le> 138) \<or> byte c = 168 \<or> byte c = 169 \<or> byte c = 175))
    \<or> (byte a = 226 \<and> byte b = 129 \<and> byte c = 159)
    \<or> (byte a = 227 \<and> byte b = 128 \<and> byte c = 128))"

fun trim_start :: "rust_str \<Rightarrow> rust_str" where
  "trim_start (a # b # c # s) =
     (if ws1 a then trim_start (b # c # s)
      else if ws2 a b then trim_start (c # s)
      else if ws3 a b c then trim_start s
      else a # b # c # s)"
| "trim_start [a, b] = (if ws1 a then trim_start [b] else if ws2 a b then [] else [a, b])"
| "trim_start [a] = (if ws1 a then [] else [a])"
| "trim_start [] = []"

text \<open>The same from the end, on the reversed bytes.\<close>

fun trim_rev :: "rust_str \<Rightarrow> rust_str" where
  "trim_rev (a # b # c # s) =
     (if ws1 a then trim_rev (b # c # s)
      else if ws2 b a then trim_rev (c # s)
      else if ws3 c b a then trim_rev s
      else a # b # c # s)"
| "trim_rev [a, b] = (if ws1 a then trim_rev [b] else if ws2 b a then [] else [a, b])"
| "trim_rev [a] = (if ws1 a then [] else [a])"
| "trim_rev [] = []"

definition trim_end :: "rust_str \<Rightarrow> rust_str" where
  "trim_end s = rev (trim_rev (rev s))"

definition trim :: "rust_str \<Rightarrow> rust_str" where
  "trim s = trim_end (trim_start s)"

definition ascii_solid :: "char \<Rightarrow> bool" where
  "ascii_solid c = (33 \<le> byte c \<and> byte c \<le> 126)"

lemma trim_start_solid: "ascii_solid a \<Longrightarrow> trim_start (a # s) = a # s"
  by (cases s rule: trim_start.cases)
     (auto simp: ascii_solid_def ws1_def ws2_def ws3_def)

lemma trim_rev_solid: "ascii_solid a \<Longrightarrow> trim_rev (a # s) = a # s"
  by (cases s rule: trim_rev.cases)
     (auto simp: ascii_solid_def ws1_def ws2_def ws3_def)

lemma trim_solid:
  assumes "s \<noteq> []" "ascii_solid (hd s)" "ascii_solid (last s)"
  shows "trim s = s"
proof -
  from assms have "trim_start s = s" by (cases s) (auto simp: trim_start_solid)
  moreover from assms have "trim_rev (rev s) = rev s"
    by (cases s rule: rev_cases) (auto simp: trim_rev_solid)
  ultimately show ?thesis by (simp add: trim_def trim_end_def)
qed

lemma trim_Nil [simp]: "trim [] = []"
  by (simp add: trim_def trim_end_def)

lemma map_filter_append [simp]: "List.map_filter f (xs @ ys) = List.map_filter f xs @ List.map_filter f ys"
  by (simp add: List.map_filter_def)

subsection \<open>Decimal numbers\<close>

fun digits_value :: "nat \<Rightarrow> rust_str \<Rightarrow> nat option" where
  "digits_value acc [] = Some acc"
| "digits_value acc (c # cs) =
     (if is_ascii_digit c then digits_value (acc * 10 + (byte c - 48)) cs else None)"

text \<open>\<open>str::parse\<close> into an unsigned type whose greatest value is \<open>m\<close>: an optional plus sign, at
  least one digit, and an error on overflow.\<close>

definition parse_unsigned :: "nat \<Rightarrow> rust_str \<Rightarrow> nat option" where
  "parse_unsigned m s =
     (let body = (case s of c # cs \<Rightarrow> if c = CHR ''+'' then cs else s | [] \<Rightarrow> s)
      in if body = [] then None else opt_filter (\<lambda>n. n \<le> m) (digits_value 0 body))"

definition digit_char :: "nat \<Rightarrow> char" where
  "digit_char d = char_of (48 + d)"

fun nat_str :: "nat \<Rightarrow> rust_str" where
  "nat_str n = (if n < 10 then [digit_char n] else nat_str (n div 10) @ [digit_char (n mod 10)])"

declare nat_str.simps [simp del]

definition int_str :: "int \<Rightarrow> rust_str" where
  "int_str n = (if n < 0 then CHR ''-'' # nat_str (nat (- n)) else nat_str (nat n))"

lemma digit_char_byte: "d < 10 \<Longrightarrow> byte (digit_char d) = 48 + d"
  by (simp add: digit_char_def)

lemma digit_char_digit: "d < 10 \<Longrightarrow> is_ascii_digit (digit_char d)"
  by (simp add: is_ascii_digit_def digit_char_byte)

lemma digits_value_append:
  "digits_value acc (xs @ ys) = Option.bind (digits_value acc xs) (\<lambda>a. digits_value a ys)"
  by (induction xs arbitrary: acc) auto

lemma digits_value_nat_str [simp]: "digits_value 0 (nat_str n) = Some n"
proof (induction n rule: nat_str.induct)
  case (1 n)
  show ?case
  proof (cases "n < 10")
    case True
    then show ?thesis by (subst nat_str.simps) (simp add: digit_char_digit digit_char_byte)
  next
    case False
    with 1 have "digits_value 0 (nat_str (n div 10)) = Some (n div 10)" by simp
    with False show ?thesis
      by (subst nat_str.simps)
         (simp add: digits_value_append digit_char_digit digit_char_byte)
  qed
qed

lemma nat_str_nonempty [simp]: "nat_str n \<noteq> []"
  by (subst nat_str.simps) simp

lemma nat_str_digits: "\<forall>c \<in> set (nat_str n). is_ascii_digit c"
proof (induction n rule: nat_str.induct)
  case (1 n)
  then show ?case
    by (cases "n < 10")
       (auto simp: nat_str.simps [of n] digit_char_digit)
qed

lemma nat_str_inj [simp]: "nat_str m = nat_str n \<longleftrightarrow> m = n"
  by (metis digits_value_nat_str option.inject)

lemma digit_solid: "is_ascii_digit c \<Longrightarrow> ascii_solid c"
  by (simp add: is_ascii_digit_def ascii_solid_def)

lemma trim_nat_str [simp]: "trim (nat_str n) = nat_str n"
  using nat_str_digits [of n] by (intro trim_solid) (auto simp: digit_solid)

lemma parse_unsigned_nat_str: "n \<le> m \<Longrightarrow> parse_unsigned m (nat_str n) = Some n"
proof -
  assume "n \<le> m"
  obtain c cs where cs: "nat_str n = c # cs" by (cases "nat_str n") auto
  with nat_str_digits [of n] have "c \<noteq> CHR ''+''" by (auto simp: is_ascii_digit_def)
  with cs \<open>n \<le> m\<close> have "parse_unsigned m (nat_str n) = opt_filter (\<lambda>k. k \<le> m) (digits_value 0 (nat_str n))"
    by (simp add: parse_unsigned_def)
  with \<open>n \<le> m\<close> show ?thesis by simp
qed

text \<open>\<open>str::split_once\<close> on one character.\<close>

fun split_once :: "char \<Rightarrow> rust_str \<Rightarrow> (rust_str \<times> rust_str) option" where
  "split_once c [] = None"
| "split_once c (x # xs) =
     (if x = c then Some ([], xs) else map_option (\<lambda>(a, b). (x # a, b)) (split_once c xs))"

lemma split_once_Some_iff:
  "split_once c s = Some (a, b) \<longleftrightarrow> s = a @ c # b \<and> c \<notin> set a"
proof (induction s arbitrary: a)
  case Nil
  then show ?case by simp
next
  case (Cons x xs)
  then show ?case by (cases a) auto
qed

lemma split_once_None_iff: "split_once c s = None \<longleftrightarrow> c \<notin> set s"
  by (induction s) auto

lemma split_once_append: "c \<notin> set a \<Longrightarrow> split_once c (a @ c # b) = Some (a, b)"
  by (simp add: split_once_Some_iff)

text \<open>\<open>str::split\<close> on one character: the pieces between its occurrences.\<close>

fun split_char :: "char \<Rightarrow> rust_str \<Rightarrow> rust_str list" where
  "split_char c [] = [[]]"
| "split_char c (x # xs) =
     (if x = c then [] # split_char c xs
      else case split_char c xs of p # ps \<Rightarrow> (x # p) # ps | [] \<Rightarrow> [[x]])"

lemma split_char_ne [simp]: "split_char c s \<noteq> []"
  by (cases s) (auto split: list.splits)

lemma split_char_solid: "c \<notin> set s \<Longrightarrow> split_char c s = [s]"
  by (induction s) auto

lemma split_char_append: "c \<notin> set a \<Longrightarrow> split_char c (a @ c # b) = a # split_char c b"
  by (induction a) auto

lemma split_char_piece: "p \<in> set (split_char c s) \<Longrightarrow> c \<notin> set p"
  by (induction s arbitrary: p) (auto split: list.splits if_splits)

subsection \<open>Splitting at white space\<close>

text \<open>The length of the white space character a string starts with, \<open>0\<close> when there is none.\<close>

fun ws_len :: "rust_str \<Rightarrow> nat" where
  "ws_len (a # b # c # s) = (if ws1 a then 1 else if ws2 a b then 2 else if ws3 a b c then 3 else 0)"
| "ws_len [a, b] = (if ws1 a then 1 else if ws2 a b then 2 else 0)"
| "ws_len [a] = (if ws1 a then 1 else 0)"
| "ws_len [] = 0"

text \<open>\<open>str::split_whitespace\<close>: the fields, none of them empty; \<open>acc\<close> is the field being read.\<close>

function split_ws :: "rust_str \<Rightarrow> rust_str \<Rightarrow> rust_str list" where
  "split_ws acc s =
     (case s of
        [] \<Rightarrow> (if acc = [] then [] else [acc])
      | c # t \<Rightarrow>
          if 0 < ws_len s
          then (if acc = [] then [] else [acc]) @ split_ws [] (drop (ws_len s) s)
          else split_ws (acc @ [c]) t)"
  by pat_completeness auto

termination by (relation "measure (\<lambda>(acc, s). length s)") auto

declare split_ws.simps [simp del]

definition split_whitespace :: "rust_str \<Rightarrow> rust_str list" where
  "split_whitespace s = split_ws [] s"

lemma ws_len_solid: "ascii_solid a \<Longrightarrow> ws_len (a # s) = 0"
  by (cases s rule: ws_len.cases) (auto simp: ascii_solid_def ws1_def ws2_def ws3_def)

lemma split_ws_Nil [simp]: "split_ws acc [] = (if acc = [] then [] else [acc])"
  by (simp add: split_ws.simps)

lemma split_ws_solid: "list_all ascii_solid t \<Longrightarrow> split_ws acc (t @ s) = split_ws (acc @ t) s"
  by (induction t arbitrary: acc) (simp_all add: split_ws.simps [of _ "_ # _"] ws_len_solid)

lemma split_ws_blank:
  "ws1 a \<Longrightarrow> split_ws acc (a # s) = (if acc = [] then [] else [acc]) @ split_ws [] s"
proof -
  assume "ws1 a"
  then have "ws_len (a # s) = 1" by (cases s rule: ws_len.cases) auto
  then show ?thesis by (subst split_ws.simps) simp
qed

subsection \<open>Joining, prefixes, replacing\<close>

fun join :: "rust_str \<Rightarrow> rust_str list \<Rightarrow> rust_str" where
  "join sep [] = []"
| "join sep [x] = x"
| "join sep (x # y # xs) = x @ sep @ join sep (y # xs)"

fun strip_prefix :: "rust_str \<Rightarrow> rust_str \<Rightarrow> rust_str option" where
  "strip_prefix [] s = Some s"
| "strip_prefix (p # ps) [] = None"
| "strip_prefix (p # ps) (c # cs) = (if p = c then strip_prefix ps cs else None)"

definition starts_with :: "rust_str \<Rightarrow> rust_str \<Rightarrow> bool" where
  "starts_with p s = is_some (strip_prefix p s)"

fun contains_str :: "rust_str \<Rightarrow> rust_str \<Rightarrow> bool" where
  "contains_str p [] = (p = [])"
| "contains_str p (c # cs) = (starts_with p (c # cs) \<or> contains_str p cs)"

definition replace_char :: "char \<Rightarrow> rust_str \<Rightarrow> rust_str \<Rightarrow> rust_str" where
  "replace_char c r s = concat (map (\<lambda>x. if x = c then r else [x]) s)"

lemma strip_prefix_append [simp]: "strip_prefix p (p @ s) = Some s"
  by (induction p) auto

lemma strip_prefix_Some_iff: "strip_prefix p s = Some t \<longleftrightarrow> s = p @ t"
  by (induction p s rule: strip_prefix.induct) auto

lemma starts_with_iff: "starts_with p s \<longleftrightarrow> (\<exists>t. s = p @ t)"
  by (auto simp: starts_with_def is_some_iff strip_prefix_Some_iff)

lemma contains_str_iff: "contains_str p s \<longleftrightarrow> (\<exists>u v. s = u @ p @ v)"
proof (induction s)
  case Nil
  then show ?case by auto
next
  case IH: (Cons c cs)
  show ?case
  proof
    assume "contains_str p (c # cs)"
    then consider "starts_with p (c # cs)" | "contains_str p cs" by auto
    then show "\<exists>u v. c # cs = u @ p @ v"
    proof cases
      case 1
      then show ?thesis by (metis append_Nil starts_with_iff)
    next
      case 2
      then show ?thesis using IH by (metis append_Cons)
    qed
  next
    assume "\<exists>u v. c # cs = u @ p @ v"
    then obtain u v where uv: "c # cs = u @ p @ v" by blast
    show "contains_str p (c # cs)"
    proof (cases u)
      case Nil
      with uv have "starts_with p (c # cs)" by (simp add: starts_with_iff)
      then show ?thesis by simp
    next
      case (Cons a u')
      with uv have "\<exists>u v. cs = u @ p @ v" by auto
      then show ?thesis using IH by simp
    qed
  qed
qed

end
