(* ===== verification/Wire.thy ===== *)
theory Wire
  imports Gah_Prelude
begin

text \<open>
  The closed vocabularies of the program and their wire strings: backend kinds, job kinds and job
  families (\<^verbatim>\<open>backend_kind.rs\<close>, \<^verbatim>\<open>job_kind.rs\<close>), git providers (\<^verbatim>\<open>provider_kind.rs\<close>), node roles
  (\<^verbatim>\<open>node_role.rs\<close>), merge policies (\<^verbatim>\<open>config/merge_policy.rs\<close>) and the reason codes of a human
  hand-off (\<^verbatim>\<open>controller/human_required_reason.rs\<close>).  Every one of them is written to the ledger, to
  the configuration or to a status document as a string and read back, so the shared contract is
  stated once as a locale and interpreted on each vocabulary.
\<close>

subsection \<open>The contract of a wire vocabulary\<close>

locale wire_code =
  fixes enc :: "'a \<Rightarrow> rust_str"
    and dec :: "rust_str \<Rightarrow> ('e, 'a) rust_result"
  assumes dec_enc: "dec (enc x) = Inr x"
begin

lemma enc_inj: "enc x = enc y \<longleftrightarrow> x = y"
  by (metis dec_enc sum.inject(2))

lemma dec_surj: "\<exists>s. dec s = Inr x"
  using dec_enc by blast

text \<open>Reading, writing and reading again changes nothing.\<close>

lemma normalise_idem: "dec s = Inr x \<Longrightarrow> dec (enc x) = dec s"
  by (simp add: dec_enc)

end

text \<open>A strict vocabulary rejects a string it does not know with an error that names it.\<close>

locale strict_wire_code = wire_code enc dec
  for enc :: "'a \<Rightarrow> rust_str" and dec :: "rust_str \<Rightarrow> ('e, 'a) rust_result" +
  fixes err :: "rust_str \<Rightarrow> 'e"
  assumes dec_error: "dec s = Inl e \<Longrightarrow> e = err s"
begin

lemma dec_cases: "(\<exists>x. dec s = Inr x) \<or> dec s = Inl (err s)"
  using dec_error by (cases "dec s") auto

lemma rejected_not_written: "dec s = Inl e \<Longrightarrow> s \<noteq> enc x"
  by (auto simp: dec_enc)

end

text \<open>A canonical vocabulary has no aliases: the strings it accepts are the ones it writes.\<close>

locale canonical_wire_code = strict_wire_code +
  assumes enc_of_dec: "dec s = Inr x \<Longrightarrow> enc x = s"
begin

lemma dec_Inr_iff: "dec s = Inr x \<longleftrightarrow> s = enc x"
  using enc_of_dec dec_enc by blast

end

text \<open>A lenient vocabulary reads every unknown string as one default member.\<close>

locale lenient_wire_code =
  fixes enc :: "'a \<Rightarrow> rust_str"
    and from_code :: "rust_str \<Rightarrow> 'a"
    and unknown :: 'a
  assumes from_code_enc: "from_code (enc x) = x"
    and from_code_unknown: "s \<notin> range enc \<Longrightarrow> from_code s = unknown"

sublocale lenient_wire_code \<subseteq> total: wire_code enc "\<lambda>s. Inr (from_code s) :: (unit, _) rust_result"
  by unfold_locales (simp add: from_code_enc)

context lenient_wire_code
begin

lemma known_read_back: "from_code s \<noteq> unknown \<Longrightarrow> enc (from_code s) = s"
  using from_code_unknown [of s] from_code_enc by force

lemma reencode_stable: "from_code (enc (from_code s)) = from_code s"
  by (simp add: from_code_enc)

end

subsection \<open>Backend kinds\<close>

datatype backend_kind = Claude | Codex | Opencode | Openhands | Vibe | Agy | Hermes

datatype unknown_backend_kind = UnknownBackendKind rust_str

definition backend_kind_parse :: "rust_str \<Rightarrow> (unknown_backend_kind, backend_kind) rust_result" where
  "backend_kind_parse s =
     (if s = ''claude'' then Inr Claude
      else if s = ''codex'' then Inr Codex
      else if s = ''opencode'' then Inr Opencode
      else if s = ''openhands'' \<or> s = ''cloud-coder'' \<or> s = ''auto'' then Inr Openhands
      else if s = ''vibe'' then Inr Vibe
      else if s = ''agy'' then Inr Agy
      else if s = ''hermes'' then Inr Hermes
      else Inl (UnknownBackendKind s))"

fun backend_kind_str :: "backend_kind \<Rightarrow> rust_str" where
  "backend_kind_str Claude = ''claude''"
| "backend_kind_str Codex = ''codex''"
| "backend_kind_str Opencode = ''opencode''"
| "backend_kind_str Openhands = ''openhands''"
| "backend_kind_str Vibe = ''vibe''"
| "backend_kind_str Agy = ''agy''"
| "backend_kind_str Hermes = ''hermes''"

definition backend_kind_all :: "backend_kind list" where
  "backend_kind_all = [Claude, Codex, Opencode, Openhands, Vibe, Agy, Hermes]"

interpretation backend_wire: strict_wire_code backend_kind_str backend_kind_parse UnknownBackendKind
proof
  show "backend_kind_parse (backend_kind_str x) = Inr x" for x
    by (cases x) (simp_all add: backend_kind_parse_def)
  show "backend_kind_parse s = Inl e \<Longrightarrow> e = UnknownBackendKind s" for s e
    by (auto simp: backend_kind_parse_def split: if_splits)
qed

lemma backend_kind_all_complete: "set backend_kind_all = UNIV \<and> distinct backend_kind_all"
proof -
  have "x \<in> set backend_kind_all" for x by (cases x) (simp_all add: backend_kind_all_def)
  then show ?thesis by (auto simp: backend_kind_all_def)
qed

subsection \<open>Job kinds and families\<close>

datatype job_kind = Improve | Fix | Pm | Review | Experiment | Research | Audit | Estimate

datatype job_family = FamilyPm | FamilyReview | ImproveLike | Investigation

datatype unknown_job_kind = UnknownJobKind rust_str

definition job_kind_parse :: "rust_str \<Rightarrow> (unknown_job_kind, job_kind) rust_result" where
  "job_kind_parse s =
     (if s = ''improve'' \<or> s = ''implement'' then Inr Improve
      else if s = ''fix'' then Inr Fix
      else if s = ''pm'' then Inr Pm
      else if s = ''review'' then Inr Review
      else if s = ''experiment'' then Inr Experiment
      else if s = ''research'' then Inr Research
      else if s = ''audit'' then Inr Audit
      else if s = ''estimate'' then Inr Estimate
      else Inl (UnknownJobKind s))"

fun job_kind_str :: "job_kind \<Rightarrow> rust_str" where
  "job_kind_str Improve = ''improve''"
| "job_kind_str Fix = ''fix''"
| "job_kind_str Pm = ''pm''"
| "job_kind_str Review = ''review''"
| "job_kind_str Experiment = ''experiment''"
| "job_kind_str Research = ''research''"
| "job_kind_str Audit = ''audit''"
| "job_kind_str Estimate = ''estimate''"

fun family :: "job_kind \<Rightarrow> job_family" where
  "family Pm = FamilyPm"
| "family Review = FamilyReview"
| "family Improve = ImproveLike"
| "family Fix = ImproveLike"
| "family Experiment = ImproveLike"
| "family Research = Investigation"
| "family Audit = Investigation"
| "family Estimate = Investigation"

definition job_kind_all :: "job_kind list" where
  "job_kind_all = [Improve, Fix, Pm, Review, Experiment, Research, Audit, Estimate]"

interpretation job_wire: strict_wire_code job_kind_str job_kind_parse UnknownJobKind
proof
  show "job_kind_parse (job_kind_str x) = Inr x" for x
    by (cases x) (simp_all add: job_kind_parse_def)
  show "job_kind_parse s = Inl e \<Longrightarrow> e = UnknownJobKind s" for s e
    by (auto simp: job_kind_parse_def split: if_splits)
qed

subsection \<open>Providers, node roles, merge policies\<close>

datatype provider_kind = Github | Gitlab

datatype unknown_provider_kind = UnknownProviderKind rust_str

definition provider_kind_parse :: "rust_str \<Rightarrow> (unknown_provider_kind, provider_kind) rust_result" where
  "provider_kind_parse s =
     (if s = ''github'' then Inr Github
      else if s = ''gitlab'' then Inr Gitlab
      else Inl (UnknownProviderKind s))"

fun provider_kind_str :: "provider_kind \<Rightarrow> rust_str" where
  "provider_kind_str Github = ''github''"
| "provider_kind_str Gitlab = ''gitlab''"

interpretation provider_wire:
  canonical_wire_code provider_kind_str provider_kind_parse UnknownProviderKind
proof
  show "provider_kind_parse (provider_kind_str x) = Inr x" for x
    by (cases x) (simp_all add: provider_kind_parse_def)
  show "provider_kind_parse s = Inl e \<Longrightarrow> e = UnknownProviderKind s" for s e
    by (auto simp: provider_kind_parse_def split: if_splits)
  show "provider_kind_parse s = Inr x \<Longrightarrow> provider_kind_str x = s" for s x
    by (auto simp: provider_kind_parse_def split: if_splits)
qed

datatype merge_policy = Auto | StopForHuman | GitlabMwps

fun merge_policy_str :: "merge_policy \<Rightarrow> rust_str" where
  "merge_policy_str Auto = ''auto''"
| "merge_policy_str StopForHuman = ''stop_for_human''"
| "merge_policy_str GitlabMwps = ''gitlab_mwps''"

subsection \<open>Reason codes of a human hand-off\<close>

datatype human_required_reason =
    PolicyApproval
  | RetryBudgetExhausted
  | ReviewEvidenceGate
  | PublicationFailed
  | ReviewOutputInvalidExhausted
  | ReviewCeilingExhausted
  | MergePolicy
  | PublishingRestriction
  | ConfigurationInfra
  | FixRetryCapExceeded
  | MergeRetryCapExceeded
  | StuckLoopGate
  | RepeatedSetupFailure
  | TerminalHarnessFailure
  | ExternalApiApprovalRequired
  | Unknown

fun reason_str :: "human_required_reason \<Rightarrow> rust_str" where
  "reason_str PolicyApproval = ''policy_approval''"
| "reason_str RetryBudgetExhausted = ''retry_budget_exhausted''"
| "reason_str ReviewEvidenceGate = ''review_evidence_gate''"
| "reason_str PublicationFailed = ''publication_failed''"
| "reason_str ReviewOutputInvalidExhausted = ''review_output_invalid_exhausted''"
| "reason_str ReviewCeilingExhausted = ''review_ceiling_exhausted''"
| "reason_str MergePolicy = ''merge_policy''"
| "reason_str PublishingRestriction = ''publishing_restriction''"
| "reason_str ConfigurationInfra = ''configuration_infra''"
| "reason_str FixRetryCapExceeded = ''fix_retry_cap_exceeded''"
| "reason_str MergeRetryCapExceeded = ''merge_retry_cap_exceeded''"
| "reason_str RepeatedSetupFailure = ''repeated_setup_failure''"
| "reason_str StuckLoopGate = ''stuck_loop_gate''"
| "reason_str TerminalHarnessFailure = ''terminal_harness_failure''"
| "reason_str ExternalApiApprovalRequired = ''external_api_approval_required''"
| "reason_str Unknown = ''unknown''"

definition from_code :: "rust_str \<Rightarrow> human_required_reason" where
  "from_code s =
     (if s = ''policy_approval'' then PolicyApproval
      else if s = ''retry_budget_exhausted'' then RetryBudgetExhausted
      else if s = ''review_evidence_gate'' then ReviewEvidenceGate
      else if s = ''publication_failed'' then PublicationFailed
      else if s = ''review_output_invalid_exhausted'' then ReviewOutputInvalidExhausted
      else if s = ''review_ceiling_exhausted'' then ReviewCeilingExhausted
      else if s = ''merge_policy'' then MergePolicy
      else if s = ''publishing_restriction'' then PublishingRestriction
      else if s = ''configuration_infra'' then ConfigurationInfra
      else if s = ''fix_retry_cap_exceeded'' then FixRetryCapExceeded
      else if s = ''merge_retry_cap_exceeded'' then MergeRetryCapExceeded
      else if s = ''repeated_setup_failure'' then RepeatedSetupFailure
      else if s = ''stuck_loop_gate'' then StuckLoopGate
      else if s = ''terminal_harness_failure'' then TerminalHarnessFailure
      else if s = ''external_api_approval_required'' then ExternalApiApprovalRequired
      else Unknown)"

lemma from_code_reason_str: "from_code (reason_str r) = r"
  by (cases r) (simp_all add: from_code_def)

lemma reason_str_from_code: "from_code s \<noteq> Unknown \<Longrightarrow> reason_str (from_code s) = s"
  by (simp add: from_code_def split: if_splits)

interpretation reason_wire: lenient_wire_code reason_str from_code Unknown
proof
  show "from_code (reason_str x) = x" for x by (rule from_code_reason_str)
  show "s \<notin> range reason_str \<Longrightarrow> from_code s = Unknown" for s
    using reason_str_from_code by (metis rangeI)
qed

lemmas reason_str_inj [wire_simps] = reason_wire.total.enc_inj
lemmas job_kind_str_inj [wire_simps] = job_wire.enc_inj
lemmas backend_kind_str_inj [wire_simps] = backend_wire.enc_inj

end
