(* ===== verification/Action.thy ===== *)
theory Action
  imports Wire
begin

text \<open>
  The typed controller actions of \<^verbatim>\<open>controller/action.rs\<close> and their projections, and the
  remediation planner of \<^verbatim>\<open>controller/remediation.rs\<close>, which maps the reason of a human hand-off to
  bounded operator actions.
\<close>

subsection \<open>Controller actions\<close>

datatype next_action =
    ReviewMr (act_work_id: "rust_str option") (act_branch: rust_str)
      (act_mr_url: "rust_str option") (act_reason: rust_str)
  | MarkReadyForReview (act_work_id: "rust_str option") (act_branch: rust_str)
      (act_mr_url: "rust_str option") (act_reason: rust_str)
  | FixMr (act_work_id: "rust_str option") (act_branch: rust_str)
      (act_mr_url: "rust_str option") (act_generation: "rust_str option") (act_reason: rust_str)
  | MergeMr (act_work_id: "rust_str option") (act_branch: rust_str)
      (act_mr_url: "rust_str option") (act_generation: "rust_str option") (act_reason: rust_str)
  | DispatchTicket (act_path: rust_str) (act_work_id: "rust_str option")
      (act_backend: "rust_str option") (act_model: "rust_str option") (act_reason: rust_str)
  | DecomposeIssue (act_path: rust_str) (act_id: rust_str) (act_title: "rust_str option")
      (act_reason: rust_str)
  | ReconcilePmParent (act_id: rust_str) (act_source_issue: rust_str) (act_fingerprint: rust_str)
      (act_children: "rust_str list") (act_reason: rust_str)
  | Retry (act_id: rust_str) (act_path: rust_str) (act_reason: rust_str)
  | Escalate (act_id: rust_str) (act_path: rust_str) (act_reason: rust_str)
  | WaitUntil (act_until: rust_str) (act_reason: rust_str)
  | HumanRequired (act_work_id: "rust_str option") (act_reason: rust_str)
      (act_reference: "rust_str option") (act_reason_code: "rust_str option")
  | NoOp (act_reason: rust_str)

fun kind :: "next_action \<Rightarrow> rust_str" where
  "kind (ReviewMr w b u r) = ''review_mr''"
| "kind (MarkReadyForReview w b u r) = ''mark_ready_for_review''"
| "kind (FixMr w b u g r) = ''fix_mr''"
| "kind (MergeMr w b u g r) = ''merge_mr''"
| "kind (DispatchTicket p w b m r) = ''dispatch_ticket''"
| "kind (DecomposeIssue p w t r) = ''decompose_issue''"
| "kind (ReconcilePmParent w s f c r) = ''reconcile_pm_parent''"
| "kind (Retry w p r) = ''retry''"
| "kind (Escalate w p r) = ''escalate''"
| "kind (WaitUntil t r) = ''wait_until''"
| "kind (HumanRequired w r f c) = ''human_required''"
| "kind (NoOp r) = ''no_op''"

fun reason :: "next_action \<Rightarrow> rust_str" where
  "reason (ReviewMr w b u r) = r"
| "reason (MarkReadyForReview w b u r) = r"
| "reason (FixMr w b u g r) = r"
| "reason (MergeMr w b u g r) = r"
| "reason (DispatchTicket p w b m r) = r"
| "reason (DecomposeIssue p w t r) = r"
| "reason (ReconcilePmParent w s f c r) = r"
| "reason (Retry w p r) = r"
| "reason (Escalate w p r) = r"
| "reason (WaitUntil t r) = r"
| "reason (HumanRequired w r f c) = r"
| "reason (NoOp r) = r"

fun work_id_of :: "next_action \<Rightarrow> rust_str option" where
  "work_id_of (ReviewMr w b u r) = w"
| "work_id_of (MarkReadyForReview w b u r) = w"
| "work_id_of (FixMr w b u g r) = w"
| "work_id_of (MergeMr w b u g r) = w"
| "work_id_of (DispatchTicket p w b m r) = w"
| "work_id_of (DecomposeIssue p w t r) = Some w"
| "work_id_of (ReconcilePmParent w s f c r) = Some w"
| "work_id_of (Retry w p r) = Some w"
| "work_id_of (Escalate w p r) = Some w"
| "work_id_of (HumanRequired w r f c) = w"
| "work_id_of (WaitUntil t r) = None"
| "work_id_of (NoOp r) = None"

fun human_required_reason_code :: "next_action \<Rightarrow> rust_str option" where
  "human_required_reason_code (HumanRequired w r f c) = c"
| "human_required_reason_code _ = None"

fun human_required_work_id :: "next_action \<Rightarrow> rust_str option" where
  "human_required_work_id (HumanRequired w r f c) = w"
| "human_required_work_id _ = None"

fun human_required_reference :: "next_action \<Rightarrow> rust_str option" where
  "human_required_reference (HumanRequired w r f c) = f"
| "human_required_reference _ = None"

text \<open>The kind of an action identifies its variant: two actions of one kind have the same shape.\<close>

lemma kind_human_required_iff: "kind a = ''human_required'' \<longleftrightarrow> (\<exists>w r f c. a = HumanRequired w r f c)"
  by (cases a) auto

lemma kind_merge_iff: "kind a = ''merge_mr'' \<longleftrightarrow> (\<exists>w b u g r. a = MergeMr w b u g r)"
  by (cases a) auto

lemma human_required_code_kind: "human_required_reason_code a = Some c \<Longrightarrow> kind a = ''human_required''"
  by (cases a) auto

subsection \<open>Remediation: authorities, actions, plans\<close>

datatype remediation_authority =
  Operator | PaidRouteApprover | HumanReviewer | MergeApprover | ProfileMaintainer

datatype remediation_action_kind =
  Command | ApiAction | ManualReview | ManualMerge | ConfigChange | Inspect

record remediation_action =
  ra_kind :: remediation_action_kind
  ra_summary :: rust_str
  ra_command :: "rust_str option"
  ra_api_action :: "rust_str option"

definition ra_of_command :: "rust_str \<Rightarrow> rust_str \<Rightarrow> remediation_action" where
  "ra_of_command summary cmd =
     \<lparr>ra_kind = Command, ra_summary = summary, ra_command = Some cmd, ra_api_action = None\<rparr>"

definition ra_of_api :: "remediation_action_kind \<Rightarrow> rust_str \<Rightarrow> rust_str \<Rightarrow> remediation_action" where
  "ra_of_api k summary api =
     \<lparr>ra_kind = k, ra_summary = summary, ra_command = None, ra_api_action = Some api\<rparr>"

definition ra_of_inspect :: "rust_str \<Rightarrow> rust_str \<Rightarrow> remediation_action" where
  "ra_of_inspect summary cmd =
     \<lparr>ra_kind = Inspect, ra_summary = summary, ra_command = Some cmd, ra_api_action = None\<rparr>"

datatype remediation_plan =
    Plan (plan_profile: rust_str) (plan_work_id: "rust_str option")
      (plan_reference: "rust_str option") (plan_reason_code: human_required_reason)
      (plan_authority: remediation_authority) (plan_actions: "remediation_action list")
  | NoAutomaticRemediation (plan_profile: rust_str) (plan_work_id: "rust_str option")
      (plan_reference: "rust_str option") (plan_reason_code: human_required_reason)
      (plan_authority: remediation_authority) (plan_actions: "remediation_action list")
      (plan_reason: rust_str)

fun is_no_automatic_remediation :: "remediation_plan \<Rightarrow> bool" where
  "is_no_automatic_remediation (NoAutomaticRemediation p w f c a xs r) = True"
| "is_no_automatic_remediation (Plan p w f c a xs) = False"

record remediation_context =
  rc_profile_name :: rust_str
  rc_work_id :: "rust_str option"
  rc_reference :: "rust_str option"
  rc_reason_code :: human_required_reason
  rc_blocker_kind :: "rust_str option"
  rc_backend :: "rust_str option"
  rc_model :: "rust_str option"

text \<open>\<open>work_label\<close> quotes a work id for a POSIX shell: a quote inside the id closes the quoted
  string, adds a double-quoted quote and opens the string again.\<close>

definition squote :: char where "squote = CHR 0x27"
definition dquote :: char where "dquote = CHR 0x22"

definition escaped_squote :: rust_str where
  "escaped_squote = [squote, dquote, squote, dquote, squote]"

definition work_label :: "rust_str option \<Rightarrow> rust_str" where
  "work_label work_id =
     (case work_id of
        Some value \<Rightarrow> [squote] @ replace_char squote escaped_squote value @ [squote]
      | None \<Rightarrow> ''<WORK_ID>'')"

definition inspect_actions ::
  "rust_str \<Rightarrow> rust_str option \<Rightarrow> rust_str option \<Rightarrow> remediation_action list" where
  "inspect_actions profile_name work_id reference =
     [ra_of_inspect ''Inspect the current status snapshot''
        (''gah status --profile '' @ profile_name @ '' --json'')] @
     (case work_id of
        Some w \<Rightarrow> [ra_of_inspect ''Inspect the blocked work item history''
                    (''gah ledger work '' @ work_label (Some w))]
      | None \<Rightarrow>
          if is_some reference
          then [ra_of_inspect ''Inspect controller activity for the blocked reference''
                  (''gah events --profile '' @ profile_name @ '' --since 7d'')]
          else [])"

definition route_approval_actions :: "rust_str \<Rightarrow> rust_str option \<Rightarrow> remediation_action list" where
  "route_approval_actions profile_name work_id =
     [ra_of_command
        ''Grant the exact paid route approval once the operator has validated the route''
        (''gah route-approval grant --profile '' @ profile_name @ '' '' @ work_label work_id
           @ '' --backend <backend> --model <model>''),
      ra_of_inspect
        ''Inspect the blocked work item and route provenance before approving''
        (''gah ledger work '' @ work_label work_id)]"

definition retry_budget_actions :: "rust_str \<Rightarrow> rust_str option \<Rightarrow> remediation_action list" where
  "retry_budget_actions profile_name work_id =
     [ra_of_command
        ''Reset the bounded retry ledger for this work item''
        (''gah ledger clear-attempts --profile '' @ profile_name @ '' '' @ work_label work_id),
      ra_of_inspect
        ''Inspect the retry history before resetting the budget''
        (''gah ledger work '' @ work_label work_id)]"

definition review_handoff_actions :: "rust_str \<Rightarrow> rust_str option \<Rightarrow> remediation_action list" where
  "review_handoff_actions profile_name work_id =
     [ra_of_command
        ''Put the work item under a human review hold while the evidence is inspected''
        (''gah hold set --profile '' @ profile_name @ '' '' @ work_label work_id
           @ '' --reason '' @ [dquote] @ ''review evidence handoff'' @ [dquote]),
      ra_of_api ApiAction
        ''Inspect the review evidence in the provider UI/API''
        ''Use the provider UI/API to inspect the review evidence and current verdict before releasing the work item'',
      ra_of_api ManualReview
        ''Review the evidence and record a human decision''
        ''Inspect the review evidence in the provider UI/API and the GAH ledger before releasing the work item'']"

definition merge_policy_actions :: "rust_str \<Rightarrow> rust_str option \<Rightarrow> remediation_action list" where
  "merge_policy_actions profile_name work_id =
     [ra_of_api ManualMerge
        ''Merge the MR/PR manually in the provider UI/API once the human reviewer is satisfied''
        ''Perform the merge outside GAH because the configured merge policy forbids automatic merge'']
     @ inspect_actions profile_name work_id None"

definition publishing_restriction_actions ::
  "rust_str \<Rightarrow> rust_str option \<Rightarrow> remediation_action list" where
  "publishing_restriction_actions profile_name work_id =
     [ra_of_api ManualMerge
        ''Merge the existing MR/PR manually in the provider UI/API''
        (''GAH will not auto-create or auto-merge this profile'' @ [squote]
           @ ''s work while publishing is disabled''),
      ra_of_api ConfigChange
        ''If autonomous publication is intended, enable PR/MR creation for this profile''
        (''Edit the profile configuration for '' @ [squote] @ profile_name @ [squote]
           @ '' to set publishing.allow_pull_request_creation = true'')]
     @ inspect_actions profile_name work_id None"

definition availability_actions ::
  "rust_str \<Rightarrow> rust_str option \<Rightarrow> rust_str option \<Rightarrow> remediation_action list" where
  "availability_actions profile_name backend model =
     (case backend of
        Some b \<Rightarrow>
          [ra_of_command
             ''Clear the stale backend availability record once the backend is healthy again''
             (''gah availability clear --backend '' @ b
                @ (case model of Some m \<Rightarrow> '' --model '' @ m | None \<Rightarrow> [])),
           ra_of_inspect
             ''Validate the profile and routing state before clearing availability''
             (''gah doctor --profile '' @ profile_name @ '' --validate'')]
      | None \<Rightarrow>
          [ra_of_inspect
             ''Inspect the profile and routing state before changing availability''
             (''gah doctor --profile '' @ profile_name @ '' --validate'')])"

definition external_approval_actions :: "rust_str \<Rightarrow> rust_str option \<Rightarrow> remediation_action list" where
  "external_approval_actions profile_name work_id =
     [ra_of_command
        ''Grant the exact external-approval request once the operator has validated the scope''
        (''gah external-approval grant --profile '' @ profile_name @ '' '' @ work_label work_id
           @ '' --credential-label <label> --operation-kind env_credential''),
      ra_of_inspect
        ''Inspect the pending external-approval request and its bounds''
        (''gah external-approval inspect --profile '' @ profile_name @ '' '' @ work_label work_id
           @ '' --credential-label <label> --operation-kind env_credential'')]"

definition plan_with_authority ::
  "remediation_context \<Rightarrow> remediation_authority \<Rightarrow> remediation_action list \<Rightarrow> remediation_plan" where
  "plan_with_authority c authority actions =
     Plan (rc_profile_name c) (rc_work_id c) (rc_reference c) (rc_reason_code c) authority actions"

definition no_auto ::
  "remediation_context \<Rightarrow> remediation_authority \<Rightarrow> rust_str \<Rightarrow> remediation_action list
     \<Rightarrow> remediation_plan" where
  "no_auto c authority why actions =
     NoAutomaticRemediation (rc_profile_name c) (rc_work_id c) (rc_reference c) (rc_reason_code c)
       authority actions why"

definition plan_remediation :: "remediation_context \<Rightarrow> remediation_plan" where
  "plan_remediation c =
     (let profile_name = rc_profile_name c; work_id = rc_work_id c; reference = rc_reference c
      in case rc_reason_code c of
        PolicyApproval \<Rightarrow>
          plan_with_authority c PaidRouteApprover (route_approval_actions profile_name work_id)
      | ExternalApiApprovalRequired \<Rightarrow>
          plan_with_authority c Operator (external_approval_actions profile_name work_id)
      | RetryBudgetExhausted \<Rightarrow>
          plan_with_authority c Operator (retry_budget_actions profile_name work_id)
      | FixRetryCapExceeded \<Rightarrow>
          plan_with_authority c Operator (retry_budget_actions profile_name work_id)
      | MergeRetryCapExceeded \<Rightarrow>
          plan_with_authority c Operator (retry_budget_actions profile_name work_id)
      | ReviewEvidenceGate \<Rightarrow>
          no_auto c HumanReviewer
            ''The blocked item requires a human review decision; no bounded automatic remediation is safe''
            (review_handoff_actions profile_name work_id)
      | ReviewOutputInvalidExhausted \<Rightarrow>
          no_auto c HumanReviewer
            ''The blocked item requires a human review decision; no bounded automatic remediation is safe''
            (review_handoff_actions profile_name work_id)
      | ReviewCeilingExhausted \<Rightarrow>
          no_auto c HumanReviewer
            ''The blocked item requires a human review decision; no bounded automatic remediation is safe''
            (review_handoff_actions profile_name work_id)
      | MergePolicy \<Rightarrow>
          no_auto c MergeApprover
            ''The configured merge policy explicitly forbids automatic merge''
            (merge_policy_actions profile_name work_id)
      | PublishingRestriction \<Rightarrow>
          no_auto c ProfileMaintainer
            ''Publishing is disabled for this profile, so GAH cannot safely publish or merge automatically''
            (publishing_restriction_actions profile_name work_id)
      | PublicationFailed \<Rightarrow>
          no_auto c Operator
            ''Review publication failed; inspect provider access and the remote review before retrying''
            (inspect_actions profile_name work_id reference)
      | ConfigurationInfra \<Rightarrow>
          if rc_blocker_kind c = Some ''backend_unavailable''
          then plan_with_authority c Operator
                 (availability_actions profile_name (rc_backend c) (rc_model c))
          else no_auto c Operator
                 ''The blocker is a configuration or infrastructure problem that needs operator inspection before any bounded remediation is safe''
                 (inspect_actions profile_name work_id reference)
      | RepeatedSetupFailure \<Rightarrow>
          no_auto c Operator
            ''Correct the repeated setup failure, then clear attempts to release the derived gate''
            (retry_budget_actions profile_name work_id)
      | StuckLoopGate \<Rightarrow>
          no_auto c Operator
            ''The same lifecycle action repeated without an observable state transition; inspect and correct the work item before explicitly releasing its gate''
            (inspect_actions profile_name work_id reference)
      | TerminalHarnessFailure \<Rightarrow>
          no_auto c Operator
            ''The dispatch reached a terminal harness refusal and declined to retry (e.g. descendant cleanup failed); inspect the work item and the backend/harness state before explicitly releasing its gate''
            (retry_budget_actions profile_name work_id)
      | Unknown \<Rightarrow>
          no_auto c Operator
            ''The blocker reason is unknown or ambiguous; inspect the current state before taking any recovery action''
            (inspect_actions profile_name work_id reference))"

subsection \<open>What a plan contains\<close>

lemmas ra_defs = ra_of_command_def ra_of_api_def ra_of_inspect_def
lemmas plan_action_defs =
  inspect_actions_def route_approval_actions_def retry_budget_actions_def
  review_handoff_actions_def merge_policy_actions_def publishing_restriction_actions_def
  availability_actions_def external_approval_actions_def

text \<open>An action is well formed when it carries exactly one of a shell command and a provider
  instruction, and the one its kind calls for.\<close>

definition ra_wf :: "remediation_action \<Rightarrow> bool" where
  "ra_wf a =
     (if ra_kind a \<in> {Command, Inspect}
      then is_some (ra_command a) \<and> ra_api_action a = None
      else ra_command a = None \<and> is_some (ra_api_action a))"

lemma ra_wf_intros [simp]:
  "ra_wf (ra_of_command s c)"
  "ra_wf (ra_of_inspect s c)"
  "k \<notin> {Command, Inspect} \<Longrightarrow> ra_wf (ra_of_api k s a)"
  by (simp_all add: ra_wf_def ra_defs)

lemma ra_kinds [simp]:
  "ra_kind (ra_of_command s c) = Command"
  "ra_kind (ra_of_inspect s c) = Inspect"
  "ra_kind (ra_of_api k s a) = k"
  by (simp_all add: ra_defs)

lemma plan_action_lists_wf:
  "list_all ra_wf (inspect_actions p w f)"
  "list_all ra_wf (route_approval_actions p w)"
  "list_all ra_wf (retry_budget_actions p w)"
  "list_all ra_wf (review_handoff_actions p w)"
  "list_all ra_wf (merge_policy_actions p w)"
  "list_all ra_wf (publishing_restriction_actions p w)"
  "list_all ra_wf (availability_actions p b m)"
  "list_all ra_wf (external_approval_actions p w)"
  by (auto simp: plan_action_defs split: option.splits)

lemma plan_action_lists_nonempty:
  "inspect_actions p w f \<noteq> []"
  "route_approval_actions p w \<noteq> []"
  "retry_budget_actions p w \<noteq> []"
  "review_handoff_actions p w \<noteq> []"
  "merge_policy_actions p w \<noteq> []"
  "publishing_restriction_actions p w \<noteq> []"
  "availability_actions p b m \<noteq> []"
  "external_approval_actions p w \<noteq> []"
  by (auto simp: plan_action_defs split: option.splits)

lemma inspect_actions_read_only: "a \<in> set (inspect_actions p w f) \<Longrightarrow> ra_kind a = Inspect"
  by (auto simp: inspect_actions_def split: option.splits if_splits)

end
