(* ===== verification/Snapshot.thy ===== *)
theory Snapshot
  imports Action
begin

text \<open>
  What the controller observes: ticket priorities and dispatch candidates (\<^verbatim>\<open>models.rs\<close>), merge
  requests (\<^verbatim>\<open>sync.rs\<close>), the per-issue budget (\<^verbatim>\<open>config/routing_policy/issue_budget.rs\<close>,
  \<^verbatim>\<open>status/issue_budget.rs\<close>) and the status snapshot itself (\<^verbatim>\<open>status.rs\<close>).  A record keeps the
  fields of the source struct that some modelled function reads or writes.
\<close>

subsection \<open>Ticket priority\<close>

datatype ticket_priority = P0 | P1 | P2 | P3 | Unspecified | Malformed

text \<open>The order derived by the enum declaration, used by \<open>priority.min(parsed)\<close>.\<close>

fun priority_index :: "ticket_priority \<Rightarrow> nat" where
  "priority_index P0 = 0"
| "priority_index P1 = 1"
| "priority_index P2 = 2"
| "priority_index P3 = 3"
| "priority_index Unspecified = 4"
| "priority_index Malformed = 5"

lemma priority_index_inj [simp]: "priority_index a = priority_index b \<longleftrightarrow> a = b"
  by (cases a; cases b) simp_all

instantiation ticket_priority :: linorder
begin

definition less_eq_ticket_priority :: "ticket_priority \<Rightarrow> ticket_priority \<Rightarrow> bool" where
  "less_eq_ticket_priority a b = (priority_index a \<le> priority_index b)"

definition less_ticket_priority :: "ticket_priority \<Rightarrow> ticket_priority \<Rightarrow> bool" where
  "less_ticket_priority a b = (priority_index a < priority_index b)"

instance
  by standard
     (auto simp: less_eq_ticket_priority_def less_ticket_priority_def)

end

definition parse_metadata :: "rust_str \<Rightarrow> ticket_priority" where
  "parse_metadata raw =
     (let s = to_ascii_uppercase (trim raw)
      in if s = '''' then Unspecified
         else if s = ''P0'' then P0
         else if s = ''P1'' then P1
         else if s = ''P2'' then P2
         else if s = ''P3'' then P3
         else Malformed)"

definition parse_provider_label :: "rust_str \<Rightarrow> ticket_priority option" where
  "parse_provider_label label =
     (case trim label of
        [a, b] \<Rightarrow>
          if a \<noteq> CHR ''P'' \<and> a \<noteq> CHR ''p'' then None
          else if b = CHR ''0'' then Some P0
          else if b = CHR ''1'' then Some P1
          else if b = CHR ''2'' then Some P2
          else if b = CHR ''3'' then Some P3
          else None
      | _ \<Rightarrow> None)"

definition is_malformed_priority_label :: "rust_str \<Rightarrow> bool" where
  "is_malformed_priority_label label =
     (case trim label of
        [a, b] \<Rightarrow>
          (a = CHR ''P'' \<or> a = CHR ''p'') \<and> is_ascii_digit b
          \<and> b \<noteq> CHR ''0'' \<and> b \<noteq> CHR ''1'' \<and> b \<noteq> CHR ''2'' \<and> b \<noteq> CHR ''3''
      | _ \<Rightarrow> False)"

text \<open>The loop of \<open>parse_provider_labels\<close>: the best explicit priority and the malformed flag.\<close>

fun scan_labels :: "rust_str list \<Rightarrow> ticket_priority \<Rightarrow> bool \<Rightarrow> ticket_priority \<times> bool" where
  "scan_labels [] p m = (p, m)"
| "scan_labels (l # ls) p m =
     (case parse_provider_label l of
        Some parsed \<Rightarrow> scan_labels ls (min p parsed) m
      | None \<Rightarrow> scan_labels ls p (m \<or> is_malformed_priority_label l))"

definition parse_provider_labels :: "rust_str list \<Rightarrow> ticket_priority" where
  "parse_provider_labels labels =
     (case scan_labels labels Unspecified False of
        (p, malformed) \<Rightarrow> if p = Unspecified \<and> malformed then Malformed else p)"

definition is_explicit :: "ticket_priority \<Rightarrow> bool" where
  "is_explicit p = (p \<noteq> Unspecified)"

fun to_sort_rank :: "ticket_priority \<Rightarrow> nat" where
  "to_sort_rank P0 = 0"
| "to_sort_rank P1 = 1"
| "to_sort_rank P2 = 2"
| "to_sort_rank P3 = 3"
| "to_sort_rank Malformed = 4"
| "to_sort_rank Unspecified = 5"

lemma parse_provider_label_range: "parse_provider_label l = Some p \<Longrightarrow> p < Unspecified"
  by (auto simp: parse_provider_label_def less_ticket_priority_def split: list.splits if_splits)

lemma scan_labels_fst:
  "fst (scan_labels ls p m) = fold min (List.map_filter parse_provider_label ls) p"
  by (induction ls p m rule: scan_labels.induct)
     (auto simp: List.map_filter_simps min.commute split: option.splits)

lemma scan_labels_snd:
  "snd (scan_labels ls p m) \<longleftrightarrow>
     m \<or> (\<exists>l\<in>set ls. parse_provider_label l = None \<and> is_malformed_priority_label l)"
  by (induction ls p m rule: scan_labels.induct) (auto split: option.splits)

subsection \<open>Dispatch candidates, intake rejections, PM parents\<close>

record available_ticket =
  ticket_path :: rust_str
  at_work_id :: "rust_str option"
  normalized_work_identity :: rust_str
  dispatchable_now :: bool
  recommended_backend :: "rust_str option"
  recommended_model :: "rust_str option"
  priority :: ticket_priority
  prior_attempt_count :: nat
  genuine_agent_failure_count :: nat
  last_failure_class :: "rust_str option"
  has_active_mr :: bool
  at_human_required :: bool
  has_active_claim :: bool

record issue_intake_rejection =
  ir_ticket_path :: rust_str
  ir_work_id :: "rust_str option"
  ir_title :: "rust_str option"
  ir_reason_code :: rust_str
  ir_labels :: "rust_str list"

record pm_parent_status =
  pm_work_id :: rust_str
  source_issue_number :: rust_str
  plan_fingerprint :: rust_str
  child_issue_numbers :: "rust_str list"
  open_child_count :: nat
  completed :: bool
  reconciled :: bool

subsection \<open>Merge requests\<close>

record sync_mr =
  mr_branch :: rust_str
  mr_work_id :: "rust_str option"
  mr_url :: "rust_str option"
  mr_draft :: bool
  mr_ci_passed :: bool
  mr_ci_pending :: bool
  mr_review_verdict :: "rust_str option"
  mr_review_gate_reason :: "rust_str option"
  merge_review_block_reason :: "rust_str option"
  source_sha :: "rust_str option"
  last_reviewed_head :: "rust_str option"
  mr_review_generation :: "rust_str option"
  review_generation_status :: "rust_str option"
  classification :: rust_str
  mr_id :: "rust_str option"

text \<open>\<open>review_head::unchanged\<close>: the current head has a completed review already.\<close>

definition unchanged :: "sync_mr \<Rightarrow> bool" where
  "unchanged row = (is_some (source_sha row) \<and> source_sha row = last_reviewed_head row)"

subsection \<open>Per-issue budget\<close>

record issue_budget =
  max_attempts :: "nat option"
  max_elapsed_minutes :: "nat option"
  max_manager_rounds :: "nat option"
  cfg_escalation_reserve :: "nat option"

definition is_enforced :: "issue_budget \<Rightarrow> bool" where
  "is_enforced b =
     (is_some (max_attempts b) \<or> is_some (max_elapsed_minutes b) \<or> is_some (max_manager_rounds b))"

definition escalation_reserve_attempts :: "issue_budget \<Rightarrow> nat" where
  "escalation_reserve_attempts b =
     (let reserve = unwrap_or (cfg_escalation_reserve b) 1
      in case max_attempts b of Some m \<Rightarrow> min reserve m | None \<Rightarrow> reserve)"

definition merged_with :: "issue_budget \<Rightarrow> issue_budget \<Rightarrow> issue_budget" where
  "merged_with self canonical =
     \<lparr>max_attempts = opt_or (max_attempts self) (max_attempts canonical),
      max_elapsed_minutes = opt_or (max_elapsed_minutes self) (max_elapsed_minutes canonical),
      max_manager_rounds = opt_or (max_manager_rounds self) (max_manager_rounds canonical),
      cfg_escalation_reserve =
        opt_or (cfg_escalation_reserve self) (cfg_escalation_reserve canonical)\<rparr>"

record issue_budget_status =
  attempts_used :: nat
  bs_max_attempts :: "nat option"
  bs_escalation_reserve :: nat
  elapsed_minutes :: nat
  bs_max_elapsed_minutes :: "nat option"
  manager_rounds_used :: nat
  bs_max_manager_rounds :: "nat option"
  escalation_only :: bool
  exhausted :: bool
  lifecycle_hold :: bool
  hold_reason :: "rust_str option"

subsection \<open>The status snapshot\<close>

record status_error =
  subsystem :: rust_str
  err_message :: rust_str
  incomplete_snapshot :: bool

record blocker =
  b_kind :: rust_str
  b_reason :: "rust_str option"
  b_message :: "rust_str option"
  b_source_reference :: "rust_str option"
  b_reason_code :: "rust_str option"
  b_remediation_plan :: "remediation_plan option"

record scope_status =
  sc_backend :: rust_str
  eligible_now :: bool
  sc_reason :: "rust_str option"
  sc_unavailable_until :: "rust_str option"

record profile_identity =
  pi_merge_policy :: merge_policy
  max_fix_attempts_per_mr :: nat
  max_implementation_failures_per_ticket :: nat
  max_open_managed_mrs :: nat

record status_snapshot =
  errors :: "status_error list"
  blockers :: "blocker list"
  blocked_work_items :: "blocker list"
  merge_requests :: "sync_mr list"
  availability :: "scope_status list"
  issue_intake_rejections :: "issue_intake_rejection list"
  available_tickets :: "available_ticket list"
  waypoint_budgets :: "rust_str \<rightharpoonup> issue_budget_status option"
  active_claim_work_ids :: "rust_str list"
  pm_parent_states :: "pm_parent_status list"
  pm_decomposition_attempt_counts :: "rust_str \<rightharpoonup> nat"
  pm_max_attempts :: nat
  fix_attempt_counts :: "rust_str \<rightharpoonup> nat"
  merge_attempt_counts :: "rust_str \<rightharpoonup> nat"
  review_held_work_ids :: "rust_str list"
  publishing_allow_pr :: bool
  open_managed_mr_count :: nat
  inflight_implementation_count :: nat
  implementation_intake_paused :: bool
  profile :: profile_identity

end
