(* ===== verification/Decision.thy ===== *)
theory Decision
  imports Snapshot
begin

text \<open>
  The decision policy of the controller, \<^verbatim>\<open>controller/decision.rs\<close>: a pure function from a status
  snapshot to exactly one action.  The source is one long function with early returns; the model
  has one definition per block of it, each returning \<open>Some\<close> action where the block returns, and
  \<open>decide_next_action\<close> runs the blocks in the order of the source.  The clock and its RFC 3339
  rendering (\<open>now_plus\<close>) are an argument.
\<close>

subsection \<open>Failure classes and budgets\<close>

definition AUTO_RETRY_CAP :: nat where "AUTO_RETRY_CAP = 2"

definition is_genuine_agent_failure :: "rust_str \<Rightarrow> bool" where
  "is_genuine_agent_failure c =
     (c = ''agent_no_progress'' \<or> c = ''agent_failure'' \<or> c = ''context_limit_exceeded'')"

definition is_infra_failure :: "rust_str \<Rightarrow> bool" where
  "is_infra_failure c =
     (c = ''harness_error'' \<or> c = ''environment_error'' \<or> c = ''backend_error''
      \<or> c = ''unknown'' \<or> c = ''human_blocked'')"

lemma failure_classes_disjoint: "is_genuine_agent_failure c \<Longrightarrow> \<not> is_infra_failure c"
  by (auto simp: is_genuine_agent_failure_def is_infra_failure_def)

definition ticket_consumes_worker_slot :: "available_ticket \<Rightarrow> bool" where
  "ticket_consumes_worker_slot t = dispatchable_now t"

definition issue_budget_for ::
  "status_snapshot \<Rightarrow> available_ticket \<Rightarrow> issue_budget_status option" where
  "issue_budget_for s t =
     Option.bind (at_work_id t) (\<lambda>w. Option.bind (waypoint_budgets s w) (\<lambda>b. b))"

definition budget_refuses_attempt :: "status_snapshot \<Rightarrow> available_ticket \<Rightarrow> bool" where
  "budget_refuses_attempt s t = is_some_and (issue_budget_for s t) exhausted"

definition budget_refuses_retry :: "status_snapshot \<Rightarrow> available_ticket \<Rightarrow> bool" where
  "budget_refuses_retry s t =
     is_some_and (issue_budget_for s t) (\<lambda>b. exhausted b \<or> escalation_only b)"

definition has_current_repair_review :: "sync_mr \<Rightarrow> bool" where
  "has_current_repair_review mr =
     (is_some (mr_review_generation mr) \<and> review_generation_status mr = None
      \<and> (mr_review_verdict mr = Some ''NEEDS_FIX'' \<or> mr_review_verdict mr = Some ''REJECT''))"

subsection \<open>Ticket order\<close>

datatype issue_path_identity = Numeric nat | Lexical rust_str

fun issue_path_rank :: "issue_path_identity \<Rightarrow> nat \<times> nat \<times> rust_str" where
  "issue_path_rank (Numeric n) = (0, n, [])"
| "issue_path_rank (Lexical p) = (1, 0, p)"

lemma issue_path_rank_inj [simp]: "issue_path_rank a = issue_path_rank b \<longleftrightarrow> a = b"
  by (cases a; cases b) auto

text \<open>\<open>Ord for IssuePathIdentity\<close>: numbers before names, numbers by value, names byte-wise.\<close>

fun issue_path_le :: "issue_path_identity \<Rightarrow> issue_path_identity \<Rightarrow> bool" where
  "issue_path_le (Numeric l) (Numeric r) = (l \<le> r)"
| "issue_path_le (Lexical l) (Lexical r) = (l \<le> r)"
| "issue_path_le (Numeric _) (Lexical _) = True"
| "issue_path_le (Lexical _) (Numeric _) = False"

instantiation issue_path_identity :: linorder
begin

definition less_eq_issue_path_identity :: "issue_path_identity \<Rightarrow> issue_path_identity \<Rightarrow> bool" where
  "less_eq_issue_path_identity = issue_path_le"

definition less_issue_path_identity :: "issue_path_identity \<Rightarrow> issue_path_identity \<Rightarrow> bool" where
  "less_issue_path_identity a b = (issue_path_le a b \<and> \<not> issue_path_le b a)"

instance
proof
  fix x y z :: issue_path_identity
  show "x < y \<longleftrightarrow> x \<le> y \<and> \<not> y \<le> x"
    by (simp add: less_issue_path_identity_def less_eq_issue_path_identity_def)
  show "x \<le> x"
    by (cases x) (simp_all add: less_eq_issue_path_identity_def)
  show "x \<le> y \<Longrightarrow> y \<le> z \<Longrightarrow> x \<le> z"
    by (cases x; cases y; cases z) (auto simp: less_eq_issue_path_identity_def)
  show "x \<le> y \<Longrightarrow> y \<le> x \<Longrightarrow> x = y"
    by (cases x; cases y) (auto simp: less_eq_issue_path_identity_def)
  show "x \<le> y \<or> y \<le> x"
    by (cases x; cases y) (auto simp: less_eq_issue_path_identity_def)
qed

end

definition parse_issue_number :: "rust_str \<Rightarrow> nat" where
  "parse_issue_number digits = unwrap_or (parse_unsigned u64_max digits) u64_max"

definition issue_path_identity_key :: "rust_str \<Rightarrow> issue_path_identity" where
  "issue_path_identity_key path =
     (let trimmed = trim path
      in case strip_prefix ''#'' trimmed of
           Some stripped \<Rightarrow>
             if list_all is_ascii_digit stripped then Numeric (parse_issue_number stripped)
             else if list_all is_ascii_digit trimmed then Numeric (parse_issue_number trimmed)
             else Lexical trimmed
         | None \<Rightarrow>
             if list_all is_ascii_digit trimmed then Numeric (parse_issue_number trimmed)
             else Lexical trimmed)"

definition ticket_order_key :: "available_ticket \<Rightarrow> nat \<times> issue_path_identity" where
  "ticket_order_key t = (to_sort_rank (priority t), issue_path_identity_key (ticket_path t))"

subsection \<open>Sorting the merge requests into lifecycle buckets\<close>

datatype mr_slot =
    Skip | NeedsReview | MarkReady | NeedsRepair | Mergeable
  | HumanBlocked human_required_reason | ReviewHeld | Recheck

record mr_buckets =
  review_candidates :: "sync_mr list"
  ready_candidates :: "sync_mr list"
  fix_candidates :: "sync_mr list"
  merge_candidates :: "sync_mr list"
  human_blocked_mrs :: "(sync_mr \<times> human_required_reason) list"
  review_held_mrs :: "sync_mr list"
  wait_and_recheck_mrs :: "sync_mr list"

definition no_buckets :: mr_buckets where
  "no_buckets =
     \<lparr>review_candidates = [], ready_candidates = [], fix_candidates = [], merge_candidates = [],
      human_blocked_mrs = [], review_held_mrs = [], wait_and_recheck_mrs = []\<rparr>"

text \<open>The durable hold on a merge request: matched by work id or by branch.\<close>

definition holds_mr :: "sync_mr \<Rightarrow> blocker \<Rightarrow> bool" where
  "holds_mr mr b =
     (b_kind b = ''human_required''
      \<and> is_some_and (b_source_reference b)
           (\<lambda>reference. mr_work_id mr = Some reference \<or> mr_branch mr = reference))"

definition work_item_hold :: "status_snapshot \<Rightarrow> sync_mr \<Rightarrow> blocker option" where
  "work_item_hold s mr = List.find (holds_mr mr) (blocked_work_items s)"

definition hold_reason_code :: "sync_mr \<Rightarrow> blocker \<Rightarrow> human_required_reason" where
  "hold_reason_code mr b =
     (let code = (case opt_or (b_reason_code b) (b_reason b) of
                    Some c \<Rightarrow> from_code c | None \<Rightarrow> Unknown)
      in if code = Unknown \<and> classification mr = ''NEEDS_REVIEW'' then ReviewEvidenceGate else code)"

definition is_red :: "sync_mr \<Rightarrow> bool" where
  "is_red mr = (classification mr = ''CI_FAILED'' \<or> classification mr = ''NEEDS_FIX'')"

definition fix_attempts :: "status_snapshot \<Rightarrow> sync_mr \<Rightarrow> nat" where
  "fix_attempts s mr = unwrap_or (fix_attempt_counts s (mr_branch mr)) 0"

definition merge_attempts :: "status_snapshot \<Rightarrow> sync_mr \<Rightarrow> nat" where
  "merge_attempts s mr = unwrap_or (merge_attempt_counts s (mr_branch mr)) 0"

definition ready_slot :: "status_snapshot \<Rightarrow> sync_mr \<Rightarrow> mr_slot" where
  "ready_slot s mr =
     (if is_some (merge_review_block_reason mr) then Recheck
      else if unwrap_or (mr_work_id mr) '''' \<in> set (review_held_work_ids s) then ReviewHeld
      else if mr_ci_passed mr then
        (if mr_draft mr then MarkReady
         else if merge_attempts s mr < AUTO_RETRY_CAP then Mergeable
         else HumanBlocked MergeRetryCapExceeded)
      else if pi_merge_policy (profile s) = StopForHuman then HumanBlocked MergePolicy
      else if mr_ci_pending mr then Recheck
      else HumanBlocked MergePolicy)"

definition mr_slot :: "status_snapshot \<Rightarrow> sync_mr \<Rightarrow> mr_slot" where
  "mr_slot s mr =
     (case work_item_hold s mr of
        Some b \<Rightarrow> HumanBlocked (hold_reason_code mr b)
      | None \<Rightarrow>
          if classification mr = ''NEEDS_REVIEW'' then
            (if unchanged mr then Skip else NeedsReview)
          else if is_red mr then
            (if unchanged mr \<and> mr_review_gate_reason mr = Some ''ci_failed_waiting_for_push''
             then Skip
             else if \<not> has_current_repair_review mr then
               (if \<not> unchanged mr then NeedsReview else Skip)
             else if fix_attempts s mr \<ge> max_fix_attempts_per_mr (profile s)
             then HumanBlocked FixRetryCapExceeded
             else NeedsRepair)
          else if classification mr = ''READY_FOR_HUMAN'' then ready_slot s mr
          else Skip)"

definition push_mr :: "status_snapshot \<Rightarrow> sync_mr \<Rightarrow> mr_buckets \<Rightarrow> mr_buckets" where
  "push_mr s mr b =
     (case mr_slot s mr of
        Skip \<Rightarrow> b
      | NeedsReview \<Rightarrow> b\<lparr>review_candidates := review_candidates b @ [mr]\<rparr>
      | MarkReady \<Rightarrow> b\<lparr>ready_candidates := ready_candidates b @ [mr]\<rparr>
      | NeedsRepair \<Rightarrow> b\<lparr>fix_candidates := fix_candidates b @ [mr]\<rparr>
      | Mergeable \<Rightarrow> b\<lparr>merge_candidates := merge_candidates b @ [mr]\<rparr>
      | HumanBlocked r \<Rightarrow> b\<lparr>human_blocked_mrs := human_blocked_mrs b @ [(mr, r)]\<rparr>
      | ReviewHeld \<Rightarrow> b\<lparr>review_held_mrs := review_held_mrs b @ [mr]\<rparr>
      | Recheck \<Rightarrow> b\<lparr>wait_and_recheck_mrs := wait_and_recheck_mrs b @ [mr]\<rparr>)"

fun collect_mrs :: "status_snapshot \<Rightarrow> sync_mr list \<Rightarrow> mr_buckets \<Rightarrow> mr_buckets" where
  "collect_mrs s [] b = b"
| "collect_mrs s (mr # mrs) b = collect_mrs s mrs (push_mr s mr b)"

definition sorted_mrs :: "status_snapshot \<Rightarrow> sync_mr list" where
  "sorted_mrs s = sort_key mr_branch (merge_requests s)"

definition buckets :: "status_snapshot \<Rightarrow> mr_buckets" where
  "buckets s = collect_mrs s (sorted_mrs s) no_buckets"

subsection \<open>Blocks of the decision, in source order\<close>

definition on_branch :: "rust_str \<Rightarrow> rust_str" where
  "on_branch branch = ''MR on branch '' @ [squote] @ branch @ [squote]"

definition incomplete_observation :: "status_snapshot \<Rightarrow> next_action option" where
  "incomplete_observation s =
     map_option
       (\<lambda>e. NoOp (''observation incomplete ('' @ subsystem e @ ''): '' @ err_message e))
       (List.find incomplete_snapshot (errors s))"

definition profile_blocked :: "status_snapshot \<Rightarrow> next_action option" where
  "profile_blocked s =
     map_option
       (\<lambda>b. HumanRequired None (unwrap_or (b_message b) (b_kind b)) (b_source_reference b)
              (Some (reason_str ConfigurationInfra)))
       (first (blockers s))"

definition mark_ready_action :: "mr_buckets \<Rightarrow> next_action option" where
  "mark_ready_action b =
     map_option
       (\<lambda>mr. MarkReadyForReview (mr_work_id mr) (mr_branch mr) (mr_url mr)
               (on_branch (mr_branch mr) @
                '' classified READY_FOR_HUMAN with draft=true and CI passing; marking ready for review''))
       (first (ready_candidates b))"

definition merge_action :: "status_snapshot \<Rightarrow> mr_buckets \<Rightarrow> next_action option" where
  "merge_action s b =
     map_option
       (\<lambda>mr.
          if pi_merge_policy (profile s) = StopForHuman then
            HumanRequired (mr_work_id mr)
              (on_branch (mr_branch mr) @ '' strong-reviewed with CI passing; merge policy is ''
                @ [squote] @ ''stop_for_human'' @ [squote] @ '' -- awaiting human merge'')
              (mr_url mr) (Some (reason_str MergePolicy))
          else if \<not> publishing_allow_pr s then
            HumanRequired (mr_work_id mr)
              (on_branch (mr_branch mr) @ '' approved with CI passing, but profile publishing policy forbids PR/MR creation (human handoff)'')
              (mr_url mr) (Some (reason_str PublishingRestriction))
          else
            MergeMr (mr_work_id mr) (mr_branch mr) (mr_url mr) (mr_review_generation mr)
              (if pi_merge_policy (profile s) = GitlabMwps
               then on_branch (mr_branch mr) @ '' approved by a strong reviewer with CI passing; setting GitLab merge-when-pipeline-succeeds''
               else on_branch (mr_branch mr) @ '' approved by a strong reviewer with CI passing''))
       (first (merge_candidates b))"

definition review_action :: "mr_buckets \<Rightarrow> next_action option" where
  "review_action b =
     map_option
       (\<lambda>mr. ReviewMr (mr_work_id mr) (mr_branch mr) (mr_url mr)
               (if is_red mr
                then on_branch (mr_branch mr) @ '' classified '' @ classification mr
                     @ '' but has no completed current review authorizing repair for this generation''
                else on_branch (mr_branch mr) @ '' classified NEEDS_REVIEW''))
       (first (review_candidates b))"

definition fix_action :: "mr_buckets \<Rightarrow> next_action option" where
  "fix_action b =
     map_option
       (\<lambda>mr. FixMr (mr_work_id mr) (mr_branch mr) (mr_url mr) (mr_review_generation mr)
               (on_branch (mr_branch mr) @ '' classified '' @ classification mr
                @ '' - reusing existing branch''))
       (first (fix_candidates b))"

definition recheck_action :: "(nat \<Rightarrow> rust_str) \<Rightarrow> mr_buckets \<Rightarrow> next_action option" where
  "recheck_action now_plus b =
     map_option
       (\<lambda>mr. WaitUntil (now_plus 300)
               (case merge_review_block_reason mr of
                  Some r \<Rightarrow> on_branch (mr_branch mr) @ '' cannot merge: '' @ r @ ''; waiting to re-check''
                | None \<Rightarrow> on_branch (mr_branch mr) @ '' is READY_FOR_HUMAN but CI is not yet conclusively resolved (pending/running/missing) -- waiting to re-check before merge''))
       (first (wait_and_recheck_mrs b))"

definition reconcile_action :: "status_snapshot \<Rightarrow> next_action option" where
  "reconcile_action s =
     map_option
       (\<lambda>p. ReconcilePmParent (pm_work_id p) (source_issue_number p) (plan_fingerprint p)
              (child_issue_numbers p)
              (''all '' @ nat_str (length (child_issue_numbers p))
               @ '' provider-native PM child issue(s) are terminal''))
       (List.find (\<lambda>p. completed p \<and> \<not> reconciled p) (pm_parent_states s))"

definition intake_incomplete :: "status_snapshot \<Rightarrow> next_action option" where
  "intake_incomplete s =
     map_option (\<lambda>e. NoOp (''ticket intake incomplete: '' @ err_message e))
       (List.find (\<lambda>e. subsystem e = ''issue_intake'') (errors s))"

definition published_pm_work_ids :: "status_snapshot \<Rightarrow> rust_str list" where
  "published_pm_work_ids s = map pm_work_id (pm_parent_states s)"

definition pm_attempts :: "status_snapshot \<Rightarrow> rust_str \<Rightarrow> nat" where
  "pm_attempts s w = unwrap_or (pm_decomposition_attempt_counts s w) 0"

definition planning_candidate :: "status_snapshot \<Rightarrow> issue_intake_rejection \<Rightarrow> bool" where
  "planning_candidate s i =
     (ir_reason_code i = ''planning''
      \<and> is_some_and (ir_work_id i)
           (\<lambda>w. w \<notin> set (published_pm_work_ids s) \<and> w \<notin> set (active_claim_work_ids s)
                \<and> pm_attempts s w < pm_max_attempts s))"

definition planning_action :: "status_snapshot \<Rightarrow> next_action option" where
  "planning_action s =
     map_option
       (\<lambda>i. DecomposeIssue (ir_ticket_path i) (unwrap_or (ir_work_id i) (ir_ticket_path i))
              (ir_title i)
              (''trusted provider issue carries configured PM decomposition label (''
               @ join '', '' (ir_labels i) @ '')''))
       (first (sort_key ir_ticket_path
                 (filter (planning_candidate s) (issue_intake_rejections s))))"

definition human_required_for_blocked_mr ::
  "status_snapshot \<Rightarrow> sync_mr \<Rightarrow> human_required_reason \<Rightarrow> next_action" where
  "human_required_for_blocked_mr s mr code =
     HumanRequired (mr_work_id mr)
       (unwrap_or (Option.bind (work_item_hold s mr) b_message)
          (on_branch (mr_branch mr) @ '' classified '' @ classification mr
           @ '' (human decision required: '' @ reason_str code @ '')''))
       (opt_or (mr_url mr) (Some (mr_branch mr)))
       (Some (reason_str code))"

definition wait_for_review_hold :: "(nat \<Rightarrow> rust_str) \<Rightarrow> sync_mr \<Rightarrow> next_action" where
  "wait_for_review_hold now_plus mr =
     WaitUntil (now_plus 300)
       (on_branch (mr_branch mr) @ '' is under an active manager review hold; waiting to re-check without merging it'')"

text \<open>The tail shared by the paused-intake block and the end of the function: a blocked merge
  request first, then a held one.\<close>

definition blocked_or_held ::
  "(nat \<Rightarrow> rust_str) \<Rightarrow> status_snapshot \<Rightarrow> mr_buckets \<Rightarrow> next_action option" where
  "blocked_or_held now_plus s b =
     opt_or
       (map_option (\<lambda>(mr, code). human_required_for_blocked_mr s mr code)
          (first (human_blocked_mrs b)))
       (map_option (wait_for_review_hold now_plus) (first (review_held_mrs b)))"

definition intake_paused ::
  "(nat \<Rightarrow> rust_str) \<Rightarrow> status_snapshot \<Rightarrow> mr_buckets \<Rightarrow> next_action option" where
  "intake_paused now_plus s b =
     (if implementation_intake_paused s then
        Some (unwrap_or (blocked_or_held now_plus s b)
          (NoOp (''implementation intake paused: '' @ nat_str (open_managed_mr_count s)
             @ '' open managed MR(s) + '' @ nat_str (inflight_implementation_count s)
             @ '' in-flight implementation(s) reached limit ''
             @ nat_str (max_open_managed_mrs (profile s))
             @ ''; draining review/fix/merge work'')))
      else None)"

definition some_backend_eligible :: "status_snapshot \<Rightarrow> bool" where
  "some_backend_eligible s = list_ex eligible_now (availability s)"

definition dispatch_eligible :: "status_snapshot \<Rightarrow> available_ticket \<Rightarrow> bool" where
  "dispatch_eligible s t =
     (ticket_consumes_worker_slot t \<and> \<not> has_active_mr t \<and> \<not> has_active_claim t
      \<and> \<not> at_human_required t \<and> \<not> budget_refuses_attempt s t)"

definition failed_tickets :: "status_snapshot \<Rightarrow> available_ticket list" where
  "failed_tickets s =
     sort_key ticket_order_key
       (filter (\<lambda>t. dispatch_eligible s t \<and> prior_attempt_count t > 0) (available_tickets s))"

definition undispatched :: "status_snapshot \<Rightarrow> available_ticket list" where
  "undispatched s =
     sort_key ticket_order_key
       (filter (\<lambda>t. dispatch_eligible s t \<and> prior_attempt_count t = 0) (available_tickets s))"

definition over_cap :: "status_snapshot \<Rightarrow> available_ticket \<Rightarrow> bool" where
  "over_cap s t =
     (genuine_agent_failure_count t \<ge> max_implementation_failures_per_ticket (profile s))"

definition exhausted_ids :: "status_snapshot \<Rightarrow> rust_str list" where
  "exhausted_ids s = List.map_filter at_work_id (filter (over_cap s) (failed_tickets s))"

definition ticket_key :: "available_ticket \<Rightarrow> rust_str" where
  "ticket_key t = unwrap_or (at_work_id t) (ticket_path t)"

definition is_exhausted :: "status_snapshot \<Rightarrow> available_ticket \<Rightarrow> bool" where
  "is_exhausted s t = (ticket_key t \<in> set (exhausted_ids s))"

definition escalate_candidate :: "status_snapshot \<Rightarrow> available_ticket \<Rightarrow> bool" where
  "escalate_candidate s t =
     (\<not> is_exhausted s t \<and> is_some_and (last_failure_class t) is_genuine_agent_failure)"

definition capacity_blocked_retry :: "status_snapshot \<Rightarrow> available_ticket \<Rightarrow> bool" where
  "capacity_blocked_retry s t =
     (\<not> is_exhausted s t \<and> \<not> budget_refuses_retry s t
      \<and> is_some_and (last_failure_class t) is_infra_failure)"

definition retry_candidate :: "status_snapshot \<Rightarrow> available_ticket \<Rightarrow> bool" where
  "retry_candidate s t =
     (\<not> is_exhausted s t \<and> \<not> budget_refuses_retry s t
      \<and> is_some_and (last_failure_class t) (\<lambda>c. is_infra_failure c \<and> some_backend_eligible s))"

definition has_undispatched :: "status_snapshot \<Rightarrow> bool" where
  "has_undispatched s =
     list_ex (\<lambda>t. ticket_consumes_worker_slot t \<and> \<not> has_active_mr t \<and> \<not> has_active_claim t
                \<and> prior_attempt_count t = 0 \<and> \<not> at_human_required t
                \<and> \<not> budget_refuses_attempt s t)
       (available_tickets s)"

definition exhausted_action :: "status_snapshot \<Rightarrow> next_action option" where
  "exhausted_action s =
     (if exhausted_ids s \<noteq> [] \<and> \<not> list_ex (escalate_candidate s) (failed_tickets s)
         \<and> \<not> list_ex (retry_candidate s) (failed_tickets s) \<and> \<not> has_undispatched s
      then map_option
        (\<lambda>t. HumanRequired (at_work_id t)
               (ticket_key t @ '' failed '' @ nat_str (genuine_agent_failure_count t)
                @ '' time(s) (agent failures) with no active MR; stopping automatic retries'')
               (opt_or (at_work_id t) (Some (ticket_path t)))
               (Some (reason_str RetryBudgetExhausted)))
        (List.find (over_cap s) (failed_tickets s))
      else None)"

definition escalate_action :: "status_snapshot \<Rightarrow> next_action option" where
  "escalate_action s =
     map_option
       (\<lambda>t. Escalate (ticket_key t) (ticket_path t)
              (''prior attempt failed ('' @ unwrap_or (last_failure_class t) []
               @ ''); escalating to a stronger backend/model''))
       (List.find (escalate_candidate s) (failed_tickets s))"

definition dispatch_action :: "status_snapshot \<Rightarrow> next_action option" where
  "dispatch_action s =
     map_option
       (\<lambda>t. DispatchTicket (ticket_path t) (at_work_id t) (recommended_backend t)
              (recommended_model t) ''eligible undispatched ticket'')
       (first (undispatched s))"

definition retry_action :: "status_snapshot \<Rightarrow> next_action option" where
  "retry_action s =
     map_option
       (\<lambda>t. Retry (ticket_key t) (ticket_path t)
              (''prior attempt failed ('' @ unwrap_or (last_failure_class t) []
               @ ''); retrying now that a backend appears available''))
       (List.find (retry_candidate s) (failed_tickets s))"

definition capacity_wait_action :: "status_snapshot \<Rightarrow> next_action option" where
  "capacity_wait_action s =
     (if list_ex (capacity_blocked_retry s) (failed_tickets s)
      then map_option
        (\<lambda>a. WaitUntil (unwrap_or (sc_unavailable_until a) [])
               (sc_backend a @ '' unavailable ('' @ unwrap_or (sc_reason a) [] @ '')''))
        (List.find (\<lambda>a. \<not> eligible_now a \<and> is_some (sc_unavailable_until a)) (availability s))
      else None)"

definition pm_exhausted_action :: "status_snapshot \<Rightarrow> next_action option" where
  "pm_exhausted_action s =
     map_option
       (\<lambda>i. HumanRequired (ir_work_id i)
              (unwrap_or (ir_work_id i) (ir_ticket_path i) @ '' exhausted ''
               @ nat_str (pm_max_attempts s) @ '' bounded PM decomposition attempt(s)'')
              (ir_work_id i) (Some (reason_str RetryBudgetExhausted)))
       (List.find
          (\<lambda>i. ir_reason_code i = ''planning''
               \<and> is_some_and (ir_work_id i)
                    (\<lambda>w. w \<notin> set (published_pm_work_ids s) \<and> pm_attempts s w \<ge> pm_max_attempts s))
          (issue_intake_rejections s))"

text \<open>The blocks on merge requests (rules 3 to 8), and the blocks on tickets (rules 7 to 12).\<close>

definition lifecycle_action ::
  "(nat \<Rightarrow> rust_str) \<Rightarrow> status_snapshot \<Rightarrow> mr_buckets \<Rightarrow> next_action option" where
  "lifecycle_action now_plus s b =
     opt_or (mark_ready_action b)
     (opt_or (merge_action s b)
     (opt_or (review_action b)
     (opt_or (fix_action b)
     (recheck_action now_plus b))))"

definition ticket_action :: "status_snapshot \<Rightarrow> next_action option" where
  "ticket_action s =
     opt_or (exhausted_action s)
     (opt_or (escalate_action s)
     (opt_or (dispatch_action s)
     (opt_or (retry_action s)
     (capacity_wait_action s))))"

definition decide_next_action :: "(nat \<Rightarrow> rust_str) \<Rightarrow> status_snapshot \<Rightarrow> next_action" where
  "decide_next_action now_plus s =
     unwrap_or
       (opt_or (incomplete_observation s)
       (opt_or (profile_blocked s)
       (opt_or (lifecycle_action now_plus s (buckets s))
       (opt_or (reconcile_action s)
       (opt_or (intake_incomplete s)
       (opt_or (planning_action s)
       (opt_or (intake_paused now_plus s (buckets s))
       (opt_or (ticket_action s)
       (opt_or (pm_exhausted_action s)
       (blocked_or_held now_plus s (buckets s)))))))))))
       (NoOp ''nothing actionable'')"

end
