(* ===== verification/Decision_Props.thy ===== *)
theory Decision_Props
  imports Decision
begin

text \<open>
  What the decision policy guarantees: the exact conditions under which each action is chosen
  (merges, repairs, reviews, new work), the order of the blocks, that the choice among several
  candidates is deterministic, and that a blocked work item does not stop unrelated work.
\<close>

subsection \<open>The buckets are filters of the sorted merge requests\<close>

definition blocked_entry :: "status_snapshot \<Rightarrow> sync_mr \<Rightarrow> (sync_mr \<times> human_required_reason) option" where
  "blocked_entry s mr = (case mr_slot s mr of HumanBlocked r \<Rightarrow> Some (mr, r) | _ \<Rightarrow> None)"

lemma collect_mrs_eq:
  "collect_mrs s mrs b =
     \<lparr>review_candidates = review_candidates b @ filter (\<lambda>m. mr_slot s m = NeedsReview) mrs,
      ready_candidates = ready_candidates b @ filter (\<lambda>m. mr_slot s m = MarkReady) mrs,
      fix_candidates = fix_candidates b @ filter (\<lambda>m. mr_slot s m = NeedsRepair) mrs,
      merge_candidates = merge_candidates b @ filter (\<lambda>m. mr_slot s m = Mergeable) mrs,
      human_blocked_mrs = human_blocked_mrs b @ List.map_filter (blocked_entry s) mrs,
      review_held_mrs = review_held_mrs b @ filter (\<lambda>m. mr_slot s m = ReviewHeld) mrs,
      wait_and_recheck_mrs = wait_and_recheck_mrs b @ filter (\<lambda>m. mr_slot s m = Recheck) mrs\<rparr>"
proof (induction mrs arbitrary: b)
  case Nil
  then show ?case by (simp add: List.map_filter_simps)
next
  case (Cons m mrs)
  show ?case
    by (cases "mr_slot s m")
       (simp_all add: Cons push_mr_def blocked_entry_def List.map_filter_simps)
qed

lemma buckets_simps [snapshot_simps]:
  "review_candidates (buckets s) = filter (\<lambda>m. mr_slot s m = NeedsReview) (sorted_mrs s)"
  "ready_candidates (buckets s) = filter (\<lambda>m. mr_slot s m = MarkReady) (sorted_mrs s)"
  "fix_candidates (buckets s) = filter (\<lambda>m. mr_slot s m = NeedsRepair) (sorted_mrs s)"
  "merge_candidates (buckets s) = filter (\<lambda>m. mr_slot s m = Mergeable) (sorted_mrs s)"
  "human_blocked_mrs (buckets s) = List.map_filter (blocked_entry s) (sorted_mrs s)"
  "review_held_mrs (buckets s) = filter (\<lambda>m. mr_slot s m = ReviewHeld) (sorted_mrs s)"
  "wait_and_recheck_mrs (buckets s) = filter (\<lambda>m. mr_slot s m = Recheck) (sorted_mrs s)"
  by (simp_all add: buckets_def collect_mrs_eq no_buckets_def)

lemma set_sorted_mrs [simp]: "set (sorted_mrs s) = set (merge_requests s)"
  by (simp add: sorted_mrs_def)

lemma first_filter_Some:
  "first (filter p xs) = Some x \<Longrightarrow> x \<in> set xs \<and> p x"
  by (drule first_in_set) auto

lemma first_filter_None_iff: "first (filter p xs) = None \<longleftrightarrow> (\<forall>x\<in>set xs. \<not> p x)"
  by (auto simp: filter_empty_conv)

text \<open>Inversion of each slot: what the merge request and the snapshot must look like.\<close>

lemma mr_slot_Mergeable:
  "mr_slot s mr = Mergeable \<longleftrightarrow>
     work_item_hold s mr = None \<and> classification mr = ''READY_FOR_HUMAN''
     \<and> merge_review_block_reason mr = None
     \<and> unwrap_or (mr_work_id mr) '''' \<notin> set (review_held_work_ids s)
     \<and> mr_ci_passed mr \<and> \<not> mr_draft mr \<and> merge_attempts s mr < AUTO_RETRY_CAP"
  by (auto simp: mr_slot_def ready_slot_def is_red_def is_some_iff split: option.splits if_splits)

lemma mr_slot_MarkReady:
  "mr_slot s mr = MarkReady \<longleftrightarrow>
     work_item_hold s mr = None \<and> classification mr = ''READY_FOR_HUMAN''
     \<and> merge_review_block_reason mr = None
     \<and> unwrap_or (mr_work_id mr) '''' \<notin> set (review_held_work_ids s)
     \<and> mr_ci_passed mr \<and> mr_draft mr"
  by (auto simp: mr_slot_def ready_slot_def is_red_def is_some_iff split: option.splits if_splits)

lemma mr_slot_NeedsRepair:
  "mr_slot s mr = NeedsRepair \<longleftrightarrow>
     work_item_hold s mr = None \<and> is_red mr \<and> has_current_repair_review mr
     \<and> \<not> (unchanged mr \<and> mr_review_gate_reason mr = Some ''ci_failed_waiting_for_push'')
     \<and> fix_attempts s mr < max_fix_attempts_per_mr (profile s)"
  by (auto simp: mr_slot_def ready_slot_def is_red_def split: option.splits if_splits)

lemma mr_slot_NeedsReview:
  "mr_slot s mr = NeedsReview \<longleftrightarrow>
     work_item_hold s mr = None \<and> \<not> unchanged mr
     \<and> (classification mr = ''NEEDS_REVIEW'' \<or> is_red mr \<and> \<not> has_current_repair_review mr)"
  by (auto simp: mr_slot_def ready_slot_def is_red_def split: option.splits if_splits)

subsection \<open>Which block produced an action\<close>

lemmas block_defs =
  incomplete_observation_def profile_blocked_def mark_ready_action_def merge_action_def
  review_action_def fix_action_def recheck_action_def reconcile_action_def intake_incomplete_def
  planning_action_def blocked_or_held_def intake_paused_def exhausted_action_def
  escalate_action_def dispatch_action_def retry_action_def capacity_wait_action_def
  pm_exhausted_action_def human_required_for_blocked_mr_def wait_for_review_hold_def

lemma block_kinds:
  "incomplete_observation s = Some a \<Longrightarrow> kind a = ''no_op''"
  "profile_blocked s = Some a \<Longrightarrow> kind a = ''human_required''"
  "mark_ready_action b = Some a \<Longrightarrow> kind a = ''mark_ready_for_review''"
  "merge_action s b = Some a \<Longrightarrow> kind a \<in> {''merge_mr'', ''human_required''}"
  "review_action b = Some a \<Longrightarrow> kind a = ''review_mr''"
  "fix_action b = Some a \<Longrightarrow> kind a = ''fix_mr''"
  "recheck_action now b = Some a \<Longrightarrow> kind a = ''wait_until''"
  "reconcile_action s = Some a \<Longrightarrow> kind a = ''reconcile_pm_parent''"
  "intake_incomplete s = Some a \<Longrightarrow> kind a = ''no_op''"
  "planning_action s = Some a \<Longrightarrow> kind a = ''decompose_issue''"
  "intake_paused now s b = Some a \<Longrightarrow> kind a \<in> {''no_op'', ''human_required'', ''wait_until''}"
  "exhausted_action s = Some a \<Longrightarrow> kind a = ''human_required''"
  "escalate_action s = Some a \<Longrightarrow> kind a = ''escalate''"
  "dispatch_action s = Some a \<Longrightarrow> kind a = ''dispatch_ticket''"
  "retry_action s = Some a \<Longrightarrow> kind a = ''retry''"
  "capacity_wait_action s = Some a \<Longrightarrow> kind a = ''wait_until''"
  "pm_exhausted_action s = Some a \<Longrightarrow> kind a = ''human_required''"
  "blocked_or_held now s b = Some a \<Longrightarrow> kind a \<in> {''human_required'', ''wait_until''}"
  by (auto simp: block_defs opt_or_def unwrap_or_def split: option.splits if_splits)

lemma block_excluded:
  "kind a \<noteq> ''no_op'' \<Longrightarrow> incomplete_observation s \<noteq> Some a"
  "kind a \<noteq> ''human_required'' \<Longrightarrow> profile_blocked s \<noteq> Some a"
  "kind a \<noteq> ''mark_ready_for_review'' \<Longrightarrow> mark_ready_action b \<noteq> Some a"
  "kind a \<notin> {''merge_mr'', ''human_required''} \<Longrightarrow> merge_action s b \<noteq> Some a"
  "kind a \<noteq> ''review_mr'' \<Longrightarrow> review_action b \<noteq> Some a"
  "kind a \<noteq> ''fix_mr'' \<Longrightarrow> fix_action b \<noteq> Some a"
  "kind a \<noteq> ''wait_until'' \<Longrightarrow> recheck_action now b \<noteq> Some a"
  "kind a \<noteq> ''reconcile_pm_parent'' \<Longrightarrow> reconcile_action s \<noteq> Some a"
  "kind a \<noteq> ''no_op'' \<Longrightarrow> intake_incomplete s \<noteq> Some a"
  "kind a \<noteq> ''decompose_issue'' \<Longrightarrow> planning_action s \<noteq> Some a"
  "kind a \<notin> {''no_op'', ''human_required'', ''wait_until''} \<Longrightarrow> intake_paused now s b \<noteq> Some a"
  "kind a \<noteq> ''human_required'' \<Longrightarrow> exhausted_action s \<noteq> Some a"
  "kind a \<noteq> ''escalate'' \<Longrightarrow> escalate_action s \<noteq> Some a"
  "kind a \<noteq> ''dispatch_ticket'' \<Longrightarrow> dispatch_action s \<noteq> Some a"
  "kind a \<noteq> ''retry'' \<Longrightarrow> retry_action s \<noteq> Some a"
  "kind a \<noteq> ''wait_until'' \<Longrightarrow> capacity_wait_action s \<noteq> Some a"
  "kind a \<noteq> ''human_required'' \<Longrightarrow> pm_exhausted_action s \<noteq> Some a"
  "kind a \<notin> {''human_required'', ''wait_until''} \<Longrightarrow> blocked_or_held now s b \<noteq> Some a"
  "kind a \<noteq> ''no_op'' \<Longrightarrow> NoOp r \<noteq> a"
  by (auto dest: block_kinds)

lemmas decide_unfold =
  decide_next_action_def lifecycle_action_def ticket_action_def unwrap_or_eq_iff opt_or_Some_iff
  opt_or_None_iff

text \<open>For every kind of action, the one block that can produce it and the blocks that passed.\<close>

lemma decide_merge_iff:
  "kind a = ''merge_mr'' \<Longrightarrow> decide_next_action now s = a \<longleftrightarrow>
     incomplete_observation s = None \<and> profile_blocked s = None
     \<and> mark_ready_action (buckets s) = None \<and> merge_action s (buckets s) = Some a"
  by (simp add: decide_unfold block_excluded)

lemma decide_ready_iff:
  "kind a = ''mark_ready_for_review'' \<Longrightarrow> decide_next_action now s = a \<longleftrightarrow>
     incomplete_observation s = None \<and> profile_blocked s = None
     \<and> mark_ready_action (buckets s) = Some a"
  by (simp add: decide_unfold block_excluded)

lemma decide_review_iff:
  "kind a = ''review_mr'' \<Longrightarrow> decide_next_action now s = a \<longleftrightarrow>
     incomplete_observation s = None \<and> profile_blocked s = None
     \<and> mark_ready_action (buckets s) = None \<and> merge_action s (buckets s) = None
     \<and> review_action (buckets s) = Some a"
  by (simp add: decide_unfold block_excluded)

lemma decide_fix_iff:
  "kind a = ''fix_mr'' \<Longrightarrow> decide_next_action now s = a \<longleftrightarrow>
     incomplete_observation s = None \<and> profile_blocked s = None
     \<and> mark_ready_action (buckets s) = None \<and> merge_action s (buckets s) = None
     \<and> review_action (buckets s) = None \<and> fix_action (buckets s) = Some a"
  by (simp add: decide_unfold block_excluded)

definition intake_open :: "(nat \<Rightarrow> rust_str) \<Rightarrow> status_snapshot \<Rightarrow> bool" where
  "intake_open now s =
     (incomplete_observation s = None \<and> profile_blocked s = None
      \<and> lifecycle_action now s (buckets s) = None \<and> reconcile_action s = None
      \<and> intake_incomplete s = None \<and> planning_action s = None
      \<and> intake_paused now s (buckets s) = None \<and> exhausted_action s = None)"

lemma decide_escalate_iff:
  "kind a = ''escalate'' \<Longrightarrow> decide_next_action now s = a \<longleftrightarrow>
     intake_open now s \<and> escalate_action s = Some a"
  by (simp add: decide_unfold block_excluded intake_open_def)

lemma decide_dispatch_iff:
  "kind a = ''dispatch_ticket'' \<Longrightarrow> decide_next_action now s = a \<longleftrightarrow>
     intake_open now s \<and> escalate_action s = None \<and> dispatch_action s = Some a"
  by (simp add: decide_unfold block_excluded intake_open_def)

lemma decide_retry_iff:
  "kind a = ''retry'' \<Longrightarrow> decide_next_action now s = a \<longleftrightarrow>
     intake_open now s \<and> escalate_action s = None \<and> dispatch_action s = None
     \<and> retry_action s = Some a"
  by (simp add: decide_unfold block_excluded intake_open_def)

lemma decide_decompose_iff:
  "kind a = ''decompose_issue'' \<Longrightarrow> decide_next_action now s = a \<longleftrightarrow>
     incomplete_observation s = None \<and> profile_blocked s = None
     \<and> lifecycle_action now s (buckets s) = None \<and> reconcile_action s = None
     \<and> intake_incomplete s = None \<and> planning_action s = Some a"
  by (simp add: decide_unfold block_excluded)


subsection \<open>Concrete observations used by the witnesses\<close>

definition example_now :: "nat \<Rightarrow> rust_str" where
  "example_now n = ''2026-10-05T00:05:00Z''"

definition example_profile :: profile_identity where
  "example_profile =
     \<lparr>pi_merge_policy = Auto, max_fix_attempts_per_mr = 2,
      max_implementation_failures_per_ticket = 3, max_open_managed_mrs = 4\<rparr>"

definition example_snapshot :: status_snapshot where
  "example_snapshot =
     \<lparr>errors = [], blockers = [], blocked_work_items = [], merge_requests = [], availability = [],
      issue_intake_rejections = [], available_tickets = [], waypoint_budgets = Map.empty,
      active_claim_work_ids = [], pm_parent_states = [],
      pm_decomposition_attempt_counts = Map.empty, pm_max_attempts = 2,
      fix_attempt_counts = Map.empty, merge_attempt_counts = Map.empty,
      review_held_work_ids = [], publishing_allow_pr = True, open_managed_mr_count = 0,
      inflight_implementation_count = 0, implementation_intake_paused = False,
      profile = example_profile\<rparr>"

definition example_mr :: "rust_str \<Rightarrow> rust_str \<Rightarrow> sync_mr" where
  "example_mr branch class =
     \<lparr>mr_branch = branch, mr_work_id = Some ''#7'', mr_url = None, mr_draft = False,
      mr_ci_passed = True, mr_ci_pending = False, mr_review_verdict = Some ''NEEDS_FIX'',
      mr_review_gate_reason = None, merge_review_block_reason = None, source_sha = Some ''abc'',
      last_reviewed_head = None, mr_review_generation = Some ''g1'',
      review_generation_status = None, classification = class, mr_id = None\<rparr>"

definition example_ticket :: "rust_str \<Rightarrow> available_ticket" where
  "example_ticket path =
     \<lparr>ticket_path = path, at_work_id = Some path, normalized_work_identity = path, dispatchable_now = True,
      recommended_backend = None, recommended_model = None, priority = P1,
      prior_attempt_count = 0, genuine_agent_failure_count = 0, last_failure_class = None,
      has_active_mr = False, at_human_required = False, has_active_claim = False\<rparr>"

definition mergeable_snapshot :: status_snapshot where
  "mergeable_snapshot = example_snapshot\<lparr>merge_requests :=
     [example_mr ''gah/b'' ''READY_FOR_HUMAN'', example_mr ''gah/a'' ''READY_FOR_HUMAN'']\<rparr>"

definition repair_snapshot :: status_snapshot where
  "repair_snapshot = example_snapshot\<lparr>merge_requests := [example_mr ''gah/a'' ''NEEDS_FIX'']\<rparr>"

definition ticket_snapshot :: status_snapshot where
  "ticket_snapshot = example_snapshot\<lparr>available_tickets :=
     [example_ticket ''#12'', example_ticket ''#9'']\<rparr>"

definition escalation_snapshot :: status_snapshot where
  "escalation_snapshot = example_snapshot\<lparr>available_tickets :=
     [(example_ticket ''#9'')\<lparr>prior_attempt_count := 1, genuine_agent_failure_count := 1,
        last_failure_class := Some ''agent_failure''\<rparr>]\<rparr>"

lemmas example_defs =
  example_now_def example_profile_def example_snapshot_def example_mr_def example_ticket_def
  mergeable_snapshot_def repair_snapshot_def ticket_snapshot_def escalation_snapshot_def

lemmas decision_eval =
  decide_next_action_def lifecycle_action_def ticket_action_def block_defs buckets_def
  sorted_mrs_def no_buckets_def push_mr_def mr_slot_def ready_slot_def work_item_hold_def
  holds_mr_def hold_reason_code_def unchanged_def is_red_def has_current_repair_review_def
  fix_attempts_def merge_attempts_def AUTO_RETRY_CAP_def
  exhausted_ids_def failed_tickets_def undispatched_def dispatch_eligible_def has_undispatched_def
  ticket_consumes_worker_slot_def budget_refuses_attempt_def budget_refuses_retry_def
  issue_budget_for_def over_cap_def is_exhausted_def ticket_key_def
  escalate_candidate_def retry_candidate_def capacity_blocked_retry_def
  is_genuine_agent_failure_def is_infra_failure_def some_backend_eligible_def
  planning_candidate_def published_pm_work_ids_def pm_attempts_def
  ticket_order_key_def issue_path_identity_key_def trim_solid ascii_solid_def is_ascii_digit_def
  parse_issue_number_def parse_unsigned_def u64_max_def
  less_eq_issue_path_identity_def less_issue_path_identity_def sort_key_simps

lemma ticket_snapshot_decision:
  "decide_next_action example_now ticket_snapshot =
     DispatchTicket ''#9'' (Some ''#9'') None None ''eligible undispatched ticket''"
  by (simp add: decision_eval example_defs)

lemma mergeable_snapshot_decision:
  "decide_next_action example_now mergeable_snapshot =
     MergeMr (Some ''#7'') ''gah/a'' None (Some ''g1'')
       (on_branch ''gah/a'' @ '' approved by a strong reviewer with CI passing'')"
  by (simp add: decision_eval example_defs)

lemma repair_snapshot_decision:
  "decide_next_action example_now repair_snapshot =
     FixMr (Some ''#7'') ''gah/a'' None (Some ''g1'')
       (on_branch ''gah/a'' @ '' classified NEEDS_FIX - reusing existing branch'')"
  by (simp add: decision_eval example_defs)

lemma escalation_snapshot_decision:
  "decide_next_action example_now escalation_snapshot =
     Escalate ''#9'' ''#9'' ''prior attempt failed (agent_failure); escalating to a stronger backend/model''"
  by (simp add: decision_eval example_defs)

subsection \<open>Merging and repairing\<close>

lemma observation_complete_iff:
  "incomplete_observation s = None \<longleftrightarrow> (\<forall>e\<in>set (errors s). \<not> incomplete_snapshot e)"
  by (simp add: incomplete_observation_def find_None_iff')

lemma profile_unblocked_iff: "profile_blocked s = None \<longleftrightarrow> blockers s = []"
  by (simp add: profile_blocked_def)

lemma merge_actionD:
  assumes "merge_action s (buckets s) = Some (MergeMr w b u g r)"
  obtains mr where "mr \<in> set (merge_requests s)" "mr_slot s mr = Mergeable"
    "w = mr_work_id mr" "b = mr_branch mr" "u = mr_url mr" "g = mr_review_generation mr"
    "pi_merge_policy (profile s) \<noteq> StopForHuman" "publishing_allow_pr s"
proof -
  from assms obtain mr where mr: "first (merge_candidates (buckets s)) = Some mr"
    and eqs: "w = mr_work_id mr" "b = mr_branch mr" "u = mr_url mr" "g = mr_review_generation mr"
      "pi_merge_policy (profile s) \<noteq> StopForHuman" "publishing_allow_pr s"
    by (auto simp: merge_action_def split: if_splits)
  from mr have "mr \<in> set (merge_requests s) \<and> mr_slot s mr = Mergeable"
    by (simp add: snapshot_simps) (drule first_filter_Some, simp)
  with eqs show thesis by (intro that) auto
qed

text \<open>C1.  A merge request is merged automatically only if it is open in the snapshot, approved
  for merging, not a draft, with conclusively green CI, with no reviewer veto, no human or manager
  hold, fewer merge attempts than the cap, a merge policy that allows it and a profile that may
  publish; and only from a complete observation of a profile without blockers.\<close>

theorem merge_only_when_safe:
  assumes "decide_next_action now s = MergeMr w b u g r"
  shows "\<exists>mr \<in> set (merge_requests s).
      w = mr_work_id mr \<and> b = mr_branch mr \<and> u = mr_url mr \<and> g = mr_review_generation mr
    \<and> classification mr = ''READY_FOR_HUMAN'' \<and> mr_ci_passed mr \<and> \<not> mr_draft mr
    \<and> merge_review_block_reason mr = None \<and> work_item_hold s mr = None
    \<and> unwrap_or (mr_work_id mr) [] \<notin> set (review_held_work_ids s)
    \<and> merge_attempts s mr < AUTO_RETRY_CAP
    \<and> pi_merge_policy (profile s) \<noteq> StopForHuman \<and> publishing_allow_pr s
    \<and> blockers s = [] \<and> (\<forall>e\<in>set (errors s). \<not> incomplete_snapshot e)"
proof -
  have "kind (MergeMr w b u g r) = ''merge_mr''" by simp
  from assms [unfolded decide_merge_iff [OF this]]
  have none: "incomplete_observation s = None" "profile_blocked s = None"
    and act: "merge_action s (buckets s) = Some (MergeMr w b u g r)" by auto
  show ?thesis
    using act none
    by (elim merge_actionD)
       (auto simp: mr_slot_Mergeable observation_complete_iff profile_unblocked_iff)
qed

theorem merge_only_when_safe_witness:
  "decide_next_action example_now mergeable_snapshot =
     MergeMr (Some ''#7'') ''gah/a'' None (Some ''g1'')
       (on_branch ''gah/a'' @ '' approved by a strong reviewer with CI passing'')
   \<and> (\<exists>mr \<in> set (merge_requests mergeable_snapshot).
        mr_branch mr = ''gah/a'' \<and> mr_ci_passed mr \<and> \<not> mr_draft mr)"
  using merge_only_when_safe [OF mergeable_snapshot_decision] mergeable_snapshot_decision by auto

text \<open>C2.  An automatic repair is chosen only for a red merge request whose findings belong to the
  current generation and ask for a fix, below the repair cap, without a hold, and only after every
  merge request that can be marked ready, merged or reviewed has been served; the action names the
  generation that authorises it.\<close>

theorem repair_only_when_authorised:
  assumes "decide_next_action now s = FixMr w b u g r"
  shows "\<exists>mr \<in> set (merge_requests s).
      w = mr_work_id mr \<and> b = mr_branch mr \<and> g = mr_review_generation mr \<and> g \<noteq> None
    \<and> is_red mr \<and> review_generation_status mr = None
    \<and> mr_review_verdict mr \<in> {Some ''NEEDS_FIX'', Some ''REJECT''}
    \<and> work_item_hold s mr = None
    \<and> fix_attempts s mr < max_fix_attempts_per_mr (profile s)
    \<and> (\<forall>m \<in> set (merge_requests s). mr_slot s m \<notin> {MarkReady, Mergeable, NeedsReview})"
proof -
  have "kind (FixMr w b u g r) = ''fix_mr''" by simp
  from assms [unfolded decide_fix_iff [OF this]]
  have none: "mark_ready_action (buckets s) = None" "merge_action s (buckets s) = None"
      "review_action (buckets s) = None"
    and act: "fix_action (buckets s) = Some (FixMr w b u g r)" by auto
  from act obtain mr where "first (fix_candidates (buckets s)) = Some mr"
    and eqs: "w = mr_work_id mr" "b = mr_branch mr" "g = mr_review_generation mr"
    by (auto simp: fix_action_def)
  then have mr: "mr \<in> set (merge_requests s) \<and> mr_slot s mr = NeedsRepair"
    by (simp add: snapshot_simps) (drule first_filter_Some, simp)
  have drained: "\<forall>m \<in> set (merge_requests s). mr_slot s m \<notin> {MarkReady, Mergeable, NeedsReview}"
    using none
    by (simp add: mark_ready_action_def merge_action_def review_action_def snapshot_simps
        filter_empty_conv)
  show ?thesis
    using mr eqs drained
    by (intro bexI [of _ mr])
       (auto simp: mr_slot_NeedsRepair has_current_repair_review_def is_some_iff)
qed

theorem repair_only_when_authorised_witness:
  "decide_next_action example_now repair_snapshot =
     FixMr (Some ''#7'') ''gah/a'' None (Some ''g1'')
       (on_branch ''gah/a'' @ '' classified NEEDS_FIX - reusing existing branch'')
   \<and> (\<exists>mr \<in> set (merge_requests repair_snapshot). is_red mr \<and> mr_branch mr = ''gah/a'')"
  using repair_only_when_authorised [OF repair_snapshot_decision] repair_snapshot_decision by auto

subsection \<open>New work\<close>

definition ticket_ready :: "status_snapshot \<Rightarrow> available_ticket \<Rightarrow> bool" where
  "ticket_ready s t =
     (dispatchable_now t \<and> \<not> has_active_mr t \<and> \<not> has_active_claim t \<and> \<not> at_human_required t
      \<and> \<not> budget_refuses_attempt s t)"

lemma dispatch_eligible_iff: "dispatch_eligible s t \<longleftrightarrow> ticket_ready s t"
  by (simp add: dispatch_eligible_def ticket_ready_def ticket_consumes_worker_slot_def)

lemma set_failed_tickets:
  "t \<in> set (failed_tickets s) \<longleftrightarrow>
     t \<in> set (available_tickets s) \<and> ticket_ready s t \<and> prior_attempt_count t > 0"
  by (auto simp: failed_tickets_def dispatch_eligible_iff)

lemma set_undispatched:
  "t \<in> set (undispatched s) \<longleftrightarrow>
     t \<in> set (available_tickets s) \<and> ticket_ready s t \<and> prior_attempt_count t = 0"
  by (auto simp: undispatched_def dispatch_eligible_iff)

lemma has_undispatched_iff: "has_undispatched s \<longleftrightarrow> undispatched s \<noteq> []"
  by (auto simp: has_undispatched_def undispatched_def list_ex_iff filter_empty_conv
      dispatch_eligible_def)

lemma escalate_actionD:
  assumes "escalate_action s = Some a"
  obtains t where "t \<in> set (available_tickets s)" "ticket_ready s t" "prior_attempt_count t > 0"
    "escalate_candidate s t" "act_path a = ticket_path t" "work_id_of a = Some (ticket_key t)"
  using assms by (auto simp: escalate_action_def set_failed_tickets dest!: find_SomeD intro: that)

lemma retry_actionD:
  assumes "retry_action s = Some a"
  obtains t where "t \<in> set (available_tickets s)" "ticket_ready s t" "prior_attempt_count t > 0"
    "retry_candidate s t" "act_path a = ticket_path t" "work_id_of a = Some (ticket_key t)"
  using assms by (auto simp: retry_action_def set_failed_tickets dest!: find_SomeD intro: that)

lemma dispatch_actionD:
  assumes "dispatch_action s = Some a"
  obtains t where "first (undispatched s) = Some t"
    "t \<in> set (available_tickets s)" "ticket_ready s t" "prior_attempt_count t = 0"
    "act_path a = ticket_path t" "work_id_of a = at_work_id t"
proof -
  from assms obtain t where t: "first (undispatched s) = Some t"
    "act_path a = ticket_path t" "work_id_of a = at_work_id t"
    by (auto simp: dispatch_action_def)
  from t(1) have "t \<in> set (undispatched s)" by (rule first_in_set)
  with t show thesis by (intro that) (auto simp: set_undispatched)
qed

definition new_work_kinds :: "rust_str set" where
  "new_work_kinds = {''dispatch_ticket'', ''retry'', ''escalate''}"

lemma new_work_intake_open:
  assumes "decide_next_action now s = a" "kind a \<in> new_work_kinds"
  shows "intake_open now s
     \<and> (escalate_action s = Some a \<or> dispatch_action s = Some a \<or> retry_action s = Some a)"
  using assms decide_escalate_iff decide_dispatch_iff decide_retry_iff
  unfolding new_work_kinds_def by blast

lemma intake_open_lifecycle_drained:
  assumes "intake_open now s" "mr \<in> set (merge_requests s)"
  shows "mr_slot s mr \<in> {Skip, ReviewHeld} \<union> range HumanBlocked"
proof -
  from assms(1) have "lifecycle_action now s (buckets s) = None" by (simp add: intake_open_def)
  with assms(2) have
    "mr_slot s mr \<notin> {MarkReady, Mergeable, NeedsReview, NeedsRepair, Recheck}"
    by (simp add: lifecycle_action_def mark_ready_action_def merge_action_def review_action_def
        fix_action_def recheck_action_def snapshot_simps filter_empty_conv)
  then show ?thesis by (cases "mr_slot s mr") auto
qed

lemma intake_open_facts:
  assumes "intake_open now s"
  shows "\<not> implementation_intake_paused s" "blockers s = []"
    "\<forall>e\<in>set (errors s). \<not> incomplete_snapshot e \<and> subsystem e \<noteq> ''issue_intake''"
  using assms
  by (auto simp: intake_open_def intake_paused_def observation_complete_iff profile_unblocked_iff
      intake_incomplete_def find_None_iff' split: if_splits)

lemma new_work_ticket:
  assumes "decide_next_action now s = a" "kind a \<in> new_work_kinds"
  shows "\<exists>t \<in> set (available_tickets s). act_path a = ticket_path t \<and> ticket_ready s t
      \<and> (kind a = ''dispatch_ticket'' \<longleftrightarrow> prior_attempt_count t = 0)"
proof -
  from new_work_intake_open [OF assms]
  have "escalate_action s = Some a \<or> dispatch_action s = Some a \<or> retry_action s = Some a" by auto
  then show ?thesis
  proof (elim disjE)
    assume e: "escalate_action s = Some a"
    then have "kind a = ''escalate''" by (rule block_kinds)
    with e show ?thesis by (elim escalate_actionD) auto
  next
    assume d: "dispatch_action s = Some a"
    then have "kind a = ''dispatch_ticket''" by (rule block_kinds)
    with d show ?thesis by (elim dispatch_actionD) auto
  next
    assume r: "retry_action s = Some a"
    then have "kind a = ''retry''" by (rule block_kinds)
    with r show ?thesis by (elim retry_actionD) auto
  qed
qed

text \<open>C3.  New work (a first dispatch, a retry or an escalation) is started only for a ticket that
  is dispatchable, has no open merge request, no live claim, no human hold and budget left; never
  while intake is paused, a profile blocker is recorded or the observation is incomplete; and only
  once no merge request is waiting to be marked ready, merged, reviewed, repaired or re-checked.\<close>

theorem new_work_only_when_allowed:
  assumes "decide_next_action now s = a" and "kind a \<in> new_work_kinds"
  shows "(\<exists>t \<in> set (available_tickets s).
            act_path a = ticket_path t \<and> dispatchable_now t \<and> \<not> has_active_mr t
            \<and> \<not> has_active_claim t \<and> \<not> at_human_required t \<and> \<not> budget_refuses_attempt s t
            \<and> (kind a = ''dispatch_ticket'' \<longleftrightarrow> prior_attempt_count t = 0))
       \<and> \<not> implementation_intake_paused s \<and> blockers s = []
       \<and> (\<forall>e\<in>set (errors s). \<not> incomplete_snapshot e \<and> subsystem e \<noteq> ''issue_intake'')
       \<and> (\<forall>mr \<in> set (merge_requests s).
            mr_slot s mr \<in> {Skip, ReviewHeld} \<union> range HumanBlocked)"
proof -
  from new_work_intake_open [OF assms] have io: "intake_open now s" by auto
  have "\<forall>mr \<in> set (merge_requests s). mr_slot s mr \<in> {Skip, ReviewHeld} \<union> range HumanBlocked"
    using intake_open_lifecycle_drained [OF io] by blast
  with new_work_ticket [OF assms] intake_open_facts [OF io] show ?thesis
    unfolding ticket_ready_def by (simp only: simp_thms conj_assoc)
qed

theorem new_work_only_when_allowed_witness:
  "kind (decide_next_action example_now ticket_snapshot) \<in> new_work_kinds
   \<and> \<not> implementation_intake_paused ticket_snapshot \<and> blockers ticket_snapshot = []"
  using new_work_only_when_allowed [OF ticket_snapshot_decision] ticket_snapshot_decision
  by (simp add: new_work_kinds_def)

text \<open> A first dispatch takes the best ticket: no other ticket that could be dispatched has a
  better priority, or the same priority and an earlier issue identity.\<close>

theorem dispatch_takes_best_ticket:
  assumes "decide_next_action now s = DispatchTicket p w b m r"
    and "t \<in> set (available_tickets s)" "ticket_ready s t" "prior_attempt_count t = 0"
  shows "\<exists>t' \<in> set (available_tickets s).
           p = ticket_path t' \<and> w = at_work_id t' \<and> ticket_order_key t' \<le> ticket_order_key t"
proof -
  have "kind (DispatchTicket p w b m r) = ''dispatch_ticket''" by simp
  from assms(1) [unfolded decide_dispatch_iff [OF this]]
  have "dispatch_action s = Some (DispatchTicket p w b m r)" by simp
  then obtain t' where f: "first (undispatched s) = Some t'"
    and t': "t' \<in> set (available_tickets s)" "p = ticket_path t'" "w = at_work_id t'"
    by (elim dispatch_actionD) auto
  from assms(2-4)
  have "t \<in> set (filter (\<lambda>t. dispatch_eligible s t \<and> prior_attempt_count t = 0) (available_tickets s))"
    by (simp add: dispatch_eligible_iff)
  with f have "ticket_order_key t' \<le> ticket_order_key t"
    unfolding undispatched_def by (rule first_sort_key_minimal)
  with t' show ?thesis by blast
qed

theorem dispatch_takes_best_ticket_witness:
  "\<exists>t' \<in> set (available_tickets ticket_snapshot).
     ''#9'' = ticket_path t'
     \<and> ticket_order_key t' \<le> ticket_order_key (example_ticket ''#12'')"
proof -
  have "example_ticket ''#12'' \<in> set (available_tickets ticket_snapshot)"
    by (simp add: ticket_snapshot_def)
  moreover have "ticket_ready ticket_snapshot (example_ticket ''#12'')"
    "prior_attempt_count (example_ticket ''#12'') = 0"
    by (simp_all add: ticket_ready_def decision_eval example_defs)
  ultimately show ?thesis
    using dispatch_takes_best_ticket [OF ticket_snapshot_decision] by blast
qed

text \<open>A ticket without a work id has no ledger history (\<open>ledger_lookup_with_setup_reason\<close> returns
  zero counts for it), so every ticket with failures has one.\<close>

definition ticket_wf :: "available_ticket \<Rightarrow> bool" where
  "ticket_wf t = (at_work_id t = None \<longrightarrow> prior_attempt_count t = 0 \<and> genuine_agent_failure_count t = 0)"

lemma not_exhausted_under_cap:
  assumes "t \<in> set (failed_tickets s)" "\<not> is_exhausted s t" "at_work_id t \<noteq> None"
  shows "\<not> over_cap s t"
  using assms by (auto simp: is_exhausted_def exhausted_ids_def ticket_key_def set_map_filter)

text \<open>C4.  The retry budget is enforced: a ticket is escalated or retried automatically only while
  its genuine agent failures are below the configured cap; an escalation answers a genuine agent
  failure and a retry an infrastructure failure with a backend eligible again and the escalation
  reserve untouched.\<close>

theorem retry_budget_enforced:
  assumes "decide_next_action now s = a" and "kind a \<in> {''retry'', ''escalate''}"
    and "\<forall>t \<in> set (available_tickets s). ticket_wf t"
  shows "\<exists>t \<in> set (available_tickets s).
      act_path a = ticket_path t \<and> work_id_of a = at_work_id t
    \<and> genuine_agent_failure_count t < max_implementation_failures_per_ticket (profile s)
    \<and> (kind a = ''escalate'' \<longrightarrow> is_some_and (last_failure_class t) is_genuine_agent_failure)
    \<and> (kind a = ''retry'' \<longrightarrow> is_some_and (last_failure_class t) is_infra_failure
          \<and> (\<exists>b \<in> set (availability s). eligible_now b) \<and> \<not> budget_refuses_retry s t)"
proof -
  have "kind a \<in> new_work_kinds" using assms(2) by (auto simp: new_work_kinds_def)
  from new_work_intake_open [OF assms(1) this]
  have src: "escalate_action s = Some a \<or> retry_action s = Some a"
    using assms(2) block_kinds(14) by fastforce
  then obtain t where t: "t \<in> set (available_tickets s)" "ticket_ready s t"
      "prior_attempt_count t > 0" "\<not> is_exhausted s t" "act_path a = ticket_path t"
      "work_id_of a = Some (ticket_key t)"
    and k: "(kind a = ''escalate'' \<and> escalate_candidate s t)
            \<or> (kind a = ''retry'' \<and> retry_candidate s t)"
  proof (elim disjE)
    assume e: "escalate_action s = Some a"
    then have "kind a = ''escalate''" by (rule block_kinds)
    with e show thesis
      by (elim escalate_actionD) (rule that, auto simp: escalate_candidate_def)
  next
    assume r: "retry_action s = Some a"
    then have "kind a = ''retry''" by (rule block_kinds)
    with r show thesis
      by (elim retry_actionD) (rule that, auto simp: retry_candidate_def)
  qed
  from assms(3) t(1,3) obtain w where w: "at_work_id t = Some w" by (auto simp: ticket_wf_def)
  from t(1-4) w have "\<not> over_cap s t"
    by (intro not_exhausted_under_cap) (auto simp: set_failed_tickets)
  with t k w show ?thesis
    by (intro bexI [of _ t])
       (auto simp: over_cap_def ticket_key_def escalate_candidate_def retry_candidate_def
         some_backend_eligible_def list_ex_iff is_some_and_iff)
qed

theorem retry_budget_enforced_witness:
  "kind (decide_next_action example_now escalation_snapshot) = ''escalate''
   \<and> (\<exists>t \<in> set (available_tickets escalation_snapshot).
        genuine_agent_failure_count t
          < max_implementation_failures_per_ticket (profile escalation_snapshot))"
proof -
  have "\<forall>t \<in> set (available_tickets escalation_snapshot). ticket_wf t"
    by (simp add: example_defs ticket_wf_def)
  from retry_budget_enforced [OF escalation_snapshot_decision _ this]
  show ?thesis using escalation_snapshot_decision by auto
qed

subsection \<open>Determinism, progress and idleness\<close>

lemma mr_slot_merge_requests [simp]: "mr_slot (s\<lparr>merge_requests := ms\<rparr>) mr = mr_slot s mr"
  by (simp add: mr_slot_def ready_slot_def work_item_hold_def fix_attempts_def merge_attempts_def
      split: option.split)

lemma collect_mrs_merge_requests [simp]:
  "collect_mrs (s\<lparr>merge_requests := ms\<rparr>) mrs b = collect_mrs s mrs b"
  by (induction mrs arbitrary: b) (simp_all add: push_mr_def)

lemma ticket_blocks_merge_requests:
  "failed_tickets (s\<lparr>merge_requests := ms\<rparr>) = failed_tickets s"
  "undispatched (s\<lparr>merge_requests := ms\<rparr>) = undispatched s"
  "over_cap (s\<lparr>merge_requests := ms\<rparr>) = over_cap s"
  "budget_refuses_retry (s\<lparr>merge_requests := ms\<rparr>) = budget_refuses_retry s"
  "budget_refuses_attempt (s\<lparr>merge_requests := ms\<rparr>) = budget_refuses_attempt s"
  "planning_candidate (s\<lparr>merge_requests := ms\<rparr>) = planning_candidate s"
  "work_item_hold (s\<lparr>merge_requests := ms\<rparr>) = work_item_hold s"
  by (simp_all add: fun_eq_iff failed_tickets_def undispatched_def dispatch_eligible_def over_cap_def
      budget_refuses_attempt_def budget_refuses_retry_def issue_budget_for_def
      planning_candidate_def published_pm_work_ids_def pm_attempts_def work_item_hold_def)

lemma decide_depends_on_buckets:
  assumes "buckets (s\<lparr>merge_requests := ms\<rparr>) = buckets s"
  shows "decide_next_action now (s\<lparr>merge_requests := ms\<rparr>) = decide_next_action now s"
proof -
  let ?s = "s\<lparr>merge_requests := ms\<rparr>"
  have ex: "exhausted_ids ?s = exhausted_ids s"
    by (simp add: exhausted_ids_def ticket_blocks_merge_requests)
  have cands: "escalate_candidate ?s = escalate_candidate s" "retry_candidate ?s = retry_candidate s"
    "capacity_blocked_retry ?s = capacity_blocked_retry s"
    by (simp_all add: fun_eq_iff escalate_candidate_def retry_candidate_def
        capacity_blocked_retry_def is_exhausted_def ex ticket_blocks_merge_requests
        some_backend_eligible_def)
  have "ticket_action ?s = ticket_action s"
    by (simp add: ticket_action_def exhausted_action_def escalate_action_def dispatch_action_def
        retry_action_def capacity_wait_action_def has_undispatched_def ex cands
        ticket_blocks_merge_requests)
  moreover have "incomplete_observation ?s = incomplete_observation s"
    "profile_blocked ?s = profile_blocked s" "reconcile_action ?s = reconcile_action s"
    "intake_incomplete ?s = intake_incomplete s" "planning_action ?s = planning_action s"
    "pm_exhausted_action ?s = pm_exhausted_action s"
    by (simp_all add: incomplete_observation_def profile_blocked_def reconcile_action_def
        intake_incomplete_def planning_action_def pm_exhausted_action_def
        ticket_blocks_merge_requests published_pm_work_ids_def pm_attempts_def)
  moreover have "merge_action ?s = merge_action s" "blocked_or_held now ?s = blocked_or_held now s"
    by (simp_all add: fun_eq_iff merge_action_def blocked_or_held_def
        human_required_for_blocked_mr_def ticket_blocks_merge_requests cong: if_cong)
  moreover from this have "intake_paused now ?s = intake_paused now s"
    by (simp add: fun_eq_iff intake_paused_def)
  ultimately show ?thesis
    by (simp only: decide_next_action_def assms lifecycle_action_def)
qed

text \<open>C5.  The decision does not depend on the order in which the provider lists the merge requests of
  different branches: any list that shows, for each branch, the same merge requests in the same order
  gives the same decision.  (Several open merge requests of one branch tie in the stable sort by branch,
  so their own order is kept and may decide.)\<close>

theorem decision_order_independent:
  assumes "\<And>b. filter (\<lambda>mr. mr_branch mr = b) ms = filter (\<lambda>mr. mr_branch mr = b) (merge_requests s)"
  shows "decide_next_action now (s\<lparr>merge_requests := ms\<rparr>) = decide_next_action now s"
proof (rule decide_depends_on_buckets)
  show "buckets (s\<lparr>merge_requests := ms\<rparr>) = buckets s"
    using sort_key_classes_eq [OF assms] by (simp add: buckets_def sorted_mrs_def)
qed

theorem decision_order_independent_witness:
  "decide_next_action example_now
     (mergeable_snapshot\<lparr>merge_requests := rev (merge_requests mergeable_snapshot)\<rparr>)
   = decide_next_action example_now mergeable_snapshot"
  by (rule decision_order_independent) (simp add: example_defs)

text \<open>C6.  Skip and continue: with a dispatchable fresh ticket, a complete observation, no profile
  blocker, intake open and no merge request that is ready to merge or must be re-checked, the
  decision is an action that makes progress.  In particular merge requests that are blocked for a
  human or held by a manager never stop it, and it is neither a wait, a hand-off nor a no-op.\<close>

theorem blocked_items_do_not_freeze_profile:
  assumes "t \<in> set (available_tickets s)" "ticket_ready s t" "prior_attempt_count t = 0"
    and "blockers s = []" "\<not> implementation_intake_paused s"
    and "\<forall>e\<in>set (errors s). \<not> incomplete_snapshot e \<and> subsystem e \<noteq> ''issue_intake''"
    and "\<forall>mr\<in>set (merge_requests s). mr_slot s mr \<notin> {Mergeable, Recheck}"
  shows "kind (decide_next_action now s) \<in>
    {''mark_ready_for_review'', ''review_mr'', ''fix_mr'', ''reconcile_pm_parent'',
     ''decompose_issue'', ''escalate'', ''dispatch_ticket''}"
proof -
  have und: "undispatched s \<noteq> []" using assms(1-3) set_undispatched by force
  obtain a where d: "dispatch_action s = Some a"
    using und by (cases "undispatched s") (auto simp: dispatch_action_def)
  have "exhausted_action s = None"
    using und by (simp add: exhausted_action_def has_undispatched_iff)
  moreover have "intake_paused now s (buckets s) = None"
    using assms(5) by (simp add: intake_paused_def)
  moreover have "incomplete_observation s = None" "profile_blocked s = None"
    "intake_incomplete s = None"
    using assms(4,6)
    by (auto simp: observation_complete_iff profile_unblocked_iff intake_incomplete_def
        find_None_iff')
  moreover have "merge_action s (buckets s) = None" "recheck_action now (buckets s) = None"
    using assms(7) by (auto simp: merge_action_def recheck_action_def snapshot_simps
        filter_empty_conv)
  ultimately show ?thesis
    using d
    by (auto simp: decide_next_action_def lifecycle_action_def ticket_action_def opt_or_def
        dest: block_kinds split: option.splits)
qed

definition frozen_snapshot :: status_snapshot where
  "frozen_snapshot = ticket_snapshot\<lparr>merge_requests := [example_mr ''gah/a'' ''NEEDS_FIX''],
     fix_attempt_counts := [''gah/a'' \<mapsto> 2]\<rparr>"

theorem blocked_items_do_not_freeze_profile_witness:
  "mr_slot frozen_snapshot (example_mr ''gah/a'' ''NEEDS_FIX'') = HumanBlocked FixRetryCapExceeded
   \<and> kind (decide_next_action example_now frozen_snapshot) \<in>
       {''mark_ready_for_review'', ''review_mr'', ''fix_mr'', ''reconcile_pm_parent'',
        ''decompose_issue'', ''escalate'', ''dispatch_ticket''}"
proof
  show "mr_slot frozen_snapshot (example_mr ''gah/a'' ''NEEDS_FIX'') = HumanBlocked FixRetryCapExceeded"
    by (simp add: frozen_snapshot_def decision_eval example_defs)
  show "kind (decide_next_action example_now frozen_snapshot) \<in>
       {''mark_ready_for_review'', ''review_mr'', ''fix_mr'', ''reconcile_pm_parent'',
        ''decompose_issue'', ''escalate'', ''dispatch_ticket''}"
    by (rule blocked_items_do_not_freeze_profile [of "example_ticket ''#9''"])
       (simp_all add: frozen_snapshot_def decision_eval ticket_ready_def example_defs)
qed

text \<open> Under \<open>stop_for_human\<close> one green, approved merge request decides the tick: whatever
  reviews, repairs and fresh tickets wait, the action is the hand-off of that merge request.\<close>

theorem stop_for_human_preempts:
  assumes "pi_merge_policy (profile s) = StopForHuman"
    and "mr \<in> set (merge_requests s)" "mr_slot s mr = Mergeable"
    and "\<forall>m\<in>set (merge_requests s). mr_slot s m \<noteq> MarkReady"
    and "blockers s = []" "\<forall>e\<in>set (errors s). \<not> incomplete_snapshot e"
  shows "human_required_reason_code (decide_next_action now s) = Some ''merge_policy''"
proof -
  have "merge_candidates (buckets s) \<noteq> []"
    using assms(2,3) by (auto simp: snapshot_simps filter_empty_conv)
  then obtain m ms where "merge_candidates (buckets s) = m # ms" by (cases "merge_candidates (buckets s)") auto
  moreover have "mark_ready_action (buckets s) = None"
    using assms(4) by (simp add: mark_ready_action_def snapshot_simps filter_empty_conv)
  moreover have "incomplete_observation s = None" "profile_blocked s = None"
    using assms(5,6) by (simp_all add: observation_complete_iff profile_unblocked_iff)
  ultimately show ?thesis
    using assms(1) by (simp add: decide_next_action_def lifecycle_action_def merge_action_def)
qed

definition stop_snapshot :: status_snapshot where
  "stop_snapshot = ticket_snapshot\<lparr>merge_requests := [example_mr ''gah/a'' ''READY_FOR_HUMAN''],
     profile := example_profile\<lparr>pi_merge_policy := StopForHuman\<rparr>\<rparr>"

theorem stop_for_human_preempts_witness:
  "ticket_ready stop_snapshot (example_ticket ''#9'')
   \<and> human_required_reason_code (decide_next_action example_now stop_snapshot) = Some ''merge_policy''"
proof
  show "ticket_ready stop_snapshot (example_ticket ''#9'')"
    by (simp add: ticket_ready_def stop_snapshot_def decision_eval example_defs)
  show "human_required_reason_code (decide_next_action example_now stop_snapshot) = Some ''merge_policy''"
    by (rule stop_for_human_preempts [of _ "example_mr ''gah/a'' ''READY_FOR_HUMAN''"])
       (simp_all add: stop_snapshot_def decision_eval example_defs)
qed

lemma intake_paused_Some:
  "intake_paused now s b = Some a \<Longrightarrow> kind a = ''human_required'' \<Longrightarrow> blocked_or_held now s b = Some a"
  by (auto simp: intake_paused_def unwrap_or_def split: if_splits option.splits)

lemma decide_human_required_block:
  assumes "decide_next_action now s = a" "kind a = ''human_required''"
  shows "profile_blocked s = Some a \<or> merge_action s (buckets s) = Some a
    \<or> exhausted_action s = Some a \<or> pm_exhausted_action s = Some a
    \<or> blocked_or_held now s (buckets s) = Some a"
  using assms intake_paused_Some [of now s "buckets s" a]
  by (simp add: decide_unfold block_excluded) blast

text \<open>The codes that are read back from a record, and the code of a recorded hold: the recorded one when
  it is known, otherwise the review gate for a merge request that waits for review.\<close>

definition known_codes :: "rust_str set" where
  "known_codes =
     {''policy_approval'', ''retry_budget_exhausted'', ''review_evidence_gate'', ''publication_failed'',
      ''review_output_invalid_exhausted'', ''review_ceiling_exhausted'', ''merge_policy'', ''publishing_restriction'',
      ''configuration_infra'', ''fix_retry_cap_exceeded'', ''merge_retry_cap_exceeded'', ''repeated_setup_failure'',
      ''stuck_loop_gate'', ''terminal_harness_failure'', ''external_api_approval_required''}"

definition hold_code :: "sync_mr \<Rightarrow> blocker \<Rightarrow> rust_str" where
  "hold_code mr b =
     (let recorded = unwrap_or (opt_or (b_reason_code b) (b_reason b)) ''unknown''
      in if recorded \<in> known_codes then recorded
         else if classification mr = ''NEEDS_REVIEW'' then ''review_evidence_gate'' else ''unknown'')"

text \<open>Why a merge request waits for a person, and the code for it.\<close>

definition mr_cause :: "status_snapshot \<Rightarrow> sync_mr \<Rightarrow> rust_str \<Rightarrow> bool" where
  "mr_cause s mr code \<longleftrightarrow>
     (\<exists>b. work_item_hold s mr = Some b \<and> code = hold_code mr b)
     \<or> (code = ''fix_retry_cap_exceeded'' \<and> is_red mr \<and> max_fix_attempts_per_mr (profile s) \<le> fix_attempts s mr)
     \<or> (code = ''merge_retry_cap_exceeded'' \<and> classification mr = ''READY_FOR_HUMAN'' \<and> mr_ci_passed mr
        \<and> AUTO_RETRY_CAP \<le> merge_attempts s mr)
     \<or> (code = ''merge_policy'' \<and> classification mr = ''READY_FOR_HUMAN'' \<and> \<not> mr_ci_passed mr
        \<and> (pi_merge_policy (profile s) = StopForHuman \<or> \<not> mr_ci_pending mr))"

lemma from_code_known: "from_code c = Unknown \<longleftrightarrow> c \<notin> known_codes"
  by (simp add: from_code_def known_codes_def)

lemma hold_reason_str: "reason_str (hold_reason_code mr b) = hold_code mr b"
proof (cases "opt_or (b_reason_code b) (b_reason b)")
  case None
  have "''unknown'' \<notin> known_codes" by (simp add: known_codes_def)
  with None show ?thesis by (simp add: hold_reason_code_def hold_code_def unwrap_or_def)
next
  case (Some c)
  show ?thesis
  proof (cases "c \<in> known_codes")
    case True
    with Some show ?thesis
      using from_code_known [of c]
      by (simp add: hold_reason_code_def hold_code_def unwrap_or_def reason_str_from_code Let_def)
  next
    case False
    then have "from_code c = Unknown" using from_code_known by blast
    with Some False show ?thesis by (simp add: hold_reason_code_def hold_code_def unwrap_or_def Let_def)
  qed
qed

lemma mr_slot_cause: "mr_slot s mr = HumanBlocked r \<Longrightarrow> mr_cause s mr (reason_str r)"
  by (auto simp: mr_slot_def ready_slot_def mr_cause_def hold_reason_str simp del: reason_str.simps
      split: option.splits if_splits)
    (auto simp: not_less)

text \<open>C7.  A hand-off names its cause: the code is that of a profile blocker, of the merge policy or the
  publishing restriction that stops a merge request ready to merge, of an exhausted ticket or plan, or of
  what holds the merge request it names - the recorded code of its gate when that is a known one, the cap
  on repairs or on merges it has reached, or the policy - and never another.\<close>

theorem hand_off_names_its_cause:
  assumes "decide_next_action now s = HumanRequired w why ref code"
  shows "(code = Some ''configuration_infra'' \<and> blockers s \<noteq> [])
    \<or> (\<exists>mr \<in> set (merge_requests s). w = mr_work_id mr \<and> mr_slot s mr = Mergeable
         \<and> (if pi_merge_policy (profile s) = StopForHuman then code = Some ''merge_policy''
            else code = Some ''publishing_restriction'' \<and> \<not> publishing_allow_pr s))
    \<or> (\<exists>t \<in> set (available_tickets s). w = at_work_id t \<and> code = Some ''retry_budget_exhausted'' \<and> over_cap s t)
    \<or> (\<exists>i \<in> set (issue_intake_rejections s). \<exists>v. w = Some v \<and> ir_work_id i = Some v
         \<and> code = Some ''retry_budget_exhausted'' \<and> pm_max_attempts s \<le> pm_attempts s v)
    \<or> (\<exists>mr \<in> set (merge_requests s). w = mr_work_id mr \<and> (\<exists>c. code = Some c \<and> mr_cause s mr c))"
proof -
  from decide_human_required_block [OF assms] consider
      "profile_blocked s = Some (HumanRequired w why ref code)"
    | "merge_action s (buckets s) = Some (HumanRequired w why ref code)"
    | "exhausted_action s = Some (HumanRequired w why ref code)"
    | "pm_exhausted_action s = Some (HumanRequired w why ref code)"
    | "blocked_or_held now s (buckets s) = Some (HumanRequired w why ref code)" by auto
  then show ?thesis
  proof cases
    case 1
    then show ?thesis by (auto simp: profile_blocked_def)
  next
    case 2
    then obtain mr where "first (merge_candidates (buckets s)) = Some mr" by (auto simp: merge_action_def)
    with 2 show ?thesis
      by (auto simp: merge_action_def snapshot_simps dest!: first_filter_Some split: if_splits)
  next
    case 3
    then show ?thesis by (auto simp: exhausted_action_def set_failed_tickets dest!: find_SomeD split: if_splits)
  next
    case 4
    then show ?thesis by (auto simp: pm_exhausted_action_def is_some_and_iff dest!: find_SomeD)
  next
    case 5
    then obtain mr r where "first (List.map_filter (blocked_entry s) (sorted_mrs s)) = Some (mr, r)"
      "human_required_for_blocked_mr s mr r = HumanRequired w why ref code"
      by (auto simp: blocked_or_held_def opt_or_Some_iff wait_for_review_hold_def snapshot_simps)
    then obtain m where m: "m \<in> set (merge_requests s)" "blocked_entry s m = Some (mr, r)"
      and wc: "w = mr_work_id mr" "code = Some (reason_str r)"
      by (auto simp: set_map_filter human_required_for_blocked_mr_def simp del: reason_str.simps dest!: first_in_set)
    from m(2) have "m = mr" "mr_slot s mr = HumanBlocked r" by (auto simp: blocked_entry_def split: mr_slot.splits)
    with m(1) wc show ?thesis using mr_slot_cause by blast
  qed
qed

theorem hand_off_names_its_cause_witness:
  "\<exists>w why ref code. decide_next_action example_now stop_snapshot = HumanRequired w why ref code \<and> code \<noteq> Some ''unknown''"
proof -
  obtain w why ref code where d: "decide_next_action example_now stop_snapshot = HumanRequired w why ref code"
    by (simp add: stop_snapshot_def decision_eval example_defs)
  from hand_off_names_its_cause [OF this] have "code \<noteq> Some ''unknown''"
    by (auto simp: stop_snapshot_def example_defs mr_cause_def work_item_hold_def split: if_splits)
  with d show ?thesis by blast
qed

lemma lifecycle_drained_slots:
  assumes "lifecycle_action now s (buckets s) = None" "mr \<in> set (merge_requests s)"
  shows "mr_slot s mr \<in> {Skip, ReviewHeld} \<union> range HumanBlocked"
proof -
  have "mr_slot s mr \<notin> {MarkReady, Mergeable, NeedsReview, NeedsRepair, Recheck}"
    using assms
    by (simp add: lifecycle_action_def mark_ready_action_def merge_action_def review_action_def
        fix_action_def recheck_action_def snapshot_simps filter_empty_conv)
  then show ?thesis by (cases "mr_slot s mr") auto
qed

lemma nothing_held_slots:
  assumes "blocked_or_held now s (buckets s) = None" "mr \<in> set (merge_requests s)"
  shows "mr_slot s mr \<notin> {ReviewHeld} \<union> range HumanBlocked"
proof -
  have "List.map_filter (blocked_entry s) (sorted_mrs s) = []" "mr_slot s mr \<noteq> ReviewHeld"
    using assms by (auto simp: blocked_or_held_def snapshot_simps filter_empty_conv)
  moreover from this(1) have "blocked_entry s mr = None"
    using assms(2) set_map_filter [of _ "blocked_entry s" "sorted_mrs s"]
    by (cases "blocked_entry s mr") force+
  ultimately show ?thesis by (cases "mr_slot s mr") (auto simp: blocked_entry_def)
qed

lemma decide_no_op:
  assumes "decide_next_action now s = a" "kind a = ''no_op''"
  obtains (observation) "incomplete_observation s = Some a"
  | (intake) "profile_blocked s = None" "lifecycle_action now s (buckets s) = None" "reconcile_action s = None"
      "intake_incomplete s = Some a"
  | (paused) "profile_blocked s = None" "lifecycle_action now s (buckets s) = None" "reconcile_action s = None"
      "planning_action s = None" "implementation_intake_paused s" "blocked_or_held now s (buckets s) = None"
  | (idle) "profile_blocked s = None" "lifecycle_action now s (buckets s) = None" "reconcile_action s = None"
      "planning_action s = None" "ticket_action s = None" "blocked_or_held now s (buckets s) = None"
proof -
  have held: "blocked_or_held now s (buckets s) = None" if "intake_paused now s (buckets s) = Some a"
    using that assms(2) block_excluded(18) [of a now s "buckets s"]
    by (cases "blocked_or_held now s (buckets s)")
      (auto simp: intake_paused_def unwrap_or_def block_excluded split: if_splits)
  have paused: "implementation_intake_paused s" if "intake_paused now s (buckets s) = Some a"
    using that by (auto simp: intake_paused_def split: if_splits)
  show thesis
    using assms that held paused by (auto simp: decide_unfold block_excluded)
qed

text \<open>C8.  A decision to do nothing, for whatever reason it gives, leaves nothing undone that could be
  done: unless the observation is incomplete, no merge request can be marked ready, merged, reviewed,
  repaired or re-checked and no finished parent plan waits for reconciliation; unless the intake could
  not be read either, no issue waits for planning and no merge request waits for a person or a manager;
  and unless implementation intake is paused besides, no fresh ticket can be dispatched and no failed
  ticket escalated or retried.\<close>

theorem idle_only_when_nothing_actionable:
  assumes "kind (decide_next_action now s) = ''no_op''"
  shows "(\<exists>e\<in>set (errors s). incomplete_snapshot e)
       \<or> (\<forall>mr\<in>set (merge_requests s). mr_slot s mr \<in> {Skip, ReviewHeld} \<union> range HumanBlocked)
         \<and> (\<forall>p\<in>set (pm_parent_states s). completed p \<longrightarrow> reconciled p)
         \<and> ((\<exists>e\<in>set (errors s). subsystem e = ''issue_intake'')
            \<or> (\<forall>mr\<in>set (merge_requests s). mr_slot s mr = Skip)
              \<and> (\<forall>i\<in>set (issue_intake_rejections s). \<not> planning_candidate s i)
              \<and> (implementation_intake_paused s
                 \<or> (\<forall>t\<in>set (available_tickets s). ticket_ready s t \<longrightarrow>
                      prior_attempt_count t > 0 \<and> \<not> escalate_candidate s t \<and> \<not> retry_candidate s t)))"
proof (cases "\<exists>e\<in>set (errors s). incomplete_snapshot e")
  case False
  have planned: "\<forall>i\<in>set (issue_intake_rejections s). \<not> planning_candidate s i" if "planning_action s = None"
    using that by (auto simp: planning_action_def filter_empty_conv)
  have parents: "\<forall>p\<in>set (pm_parent_states s). completed p \<longrightarrow> reconciled p" if "reconcile_action s = None"
    using that by (auto simp: reconcile_action_def find_None_iff')
  have skip: "\<forall>mr\<in>set (merge_requests s). mr_slot s mr = Skip"
    if "lifecycle_action now s (buckets s) = None" "blocked_or_held now s (buckets s) = None"
    using lifecycle_drained_slots [OF that(1)] nothing_held_slots [OF that(2)] by blast
  show ?thesis
    using refl assms
  proof (cases rule: decide_no_op)
    case observation
    with False show ?thesis by (auto simp: incomplete_observation_def dest!: find_SomeD)
  next
    case intake
    have "\<exists>e\<in>set (errors s). subsystem e = ''issue_intake''"
      using intake(4) by (auto simp: intake_incomplete_def dest!: find_SomeD)
    with lifecycle_drained_slots [OF intake(2)] parents [OF intake(3)] show ?thesis by blast
  next
    case paused
    from skip [OF paused(2,6)] parents [OF paused(3)] planned [OF paused(4)] paused(5) show ?thesis by simp
  next
    case idle
    have "undispatched s = []" "\<forall>t\<in>set (failed_tickets s). \<not> escalate_candidate s t"
      "\<forall>t\<in>set (failed_tickets s). \<not> retry_candidate s t"
      using idle(5)
      by (auto simp: ticket_action_def dispatch_action_def escalate_action_def retry_action_def find_None_iff')
    then have "\<forall>t\<in>set (available_tickets s). ticket_ready s t \<longrightarrow>
        prior_attempt_count t > 0 \<and> \<not> escalate_candidate s t \<and> \<not> retry_candidate s t"
      using set_undispatched [of _ s] set_failed_tickets [of _ s] by fastforce
    with skip [OF idle(2,6)] parents [OF idle(3)] planned [OF idle(4)] show ?thesis by simp
  qed
qed blast

definition idle_snapshot :: status_snapshot where
  "idle_snapshot = example_snapshot\<lparr>merge_requests := [example_mr ''gah/a'' ''MERGED'']\<rparr>"

theorem idle_only_when_nothing_actionable_witness:
  "decide_next_action example_now idle_snapshot = NoOp ''nothing actionable''
   \<and> mr_slot idle_snapshot (example_mr ''gah/a'' ''MERGED'') = Skip"
proof -
  have d: "decide_next_action example_now idle_snapshot = NoOp ''nothing actionable''"
    by (simp add: idle_snapshot_def decision_eval example_defs)
  have "example_mr ''gah/a'' ''MERGED'' \<in> set (merge_requests idle_snapshot)" "errors idle_snapshot = []"
    by (simp_all add: idle_snapshot_def example_defs)
  with idle_only_when_nothing_actionable [of example_now idle_snapshot] d show ?thesis by simp
qed

text \<open>C9.  No review is repeated: a review is chosen only for a merge request whose current head
  has no completed review, and every other merge request with a reviewed head is left alone.\<close>

theorem review_never_repeats_head:
  assumes "decide_next_action now s = ReviewMr w b u r"
  shows "\<exists>mr \<in> set (merge_requests s).
      b = mr_branch mr \<and> w = mr_work_id mr \<and> work_item_hold s mr = None
    \<and> (source_sha mr = None \<or> source_sha mr \<noteq> last_reviewed_head mr)
    \<and> (classification mr = ''NEEDS_REVIEW'' \<or> is_red mr \<and> \<not> has_current_repair_review mr)
    \<and> (\<forall>m \<in> set (merge_requests s). mr_slot s m = NeedsReview \<longrightarrow> mr_branch mr \<le> mr_branch m)"
proof -
  have "kind (ReviewMr w b u r) = ''review_mr''" by simp
  from assms [unfolded decide_review_iff [OF this]]
  have "review_action (buckets s) = Some (ReviewMr w b u r)" by simp
  then obtain mr where f: "first (filter (\<lambda>m. mr_slot s m = NeedsReview) (sorted_mrs s)) = Some mr"
    and eqs: "b = mr_branch mr" "w = mr_work_id mr"
    by (auto simp: review_action_def snapshot_simps)
  from f have mr: "mr \<in> set (merge_requests s)" "mr_slot s mr = NeedsReview"
    by (auto dest: first_filter_Some)
  have "first (sort_key mr_branch (filter (\<lambda>m. mr_slot s m = NeedsReview) (merge_requests s))) = Some mr"
    using f by (simp add: sorted_mrs_def filter_sort)
  then have "\<forall>m \<in> set (merge_requests s). mr_slot s m = NeedsReview \<longrightarrow> mr_branch mr \<le> mr_branch m"
    by (auto dest: first_sort_key_minimal)
  with mr eqs show ?thesis
    by (intro bexI [of _ mr]) (auto simp: mr_slot_NeedsReview unchanged_def is_some_iff)
qed

definition review_snapshot :: status_snapshot where
  "review_snapshot = example_snapshot\<lparr>merge_requests := [example_mr ''gah/a'' ''NEEDS_REVIEW'']\<rparr>"

theorem review_never_repeats_head_witness:
  "\<exists>mr \<in> set (merge_requests review_snapshot).
     mr_branch mr = ''gah/a'' \<and> (source_sha mr = None \<or> source_sha mr \<noteq> last_reviewed_head mr)"
proof -
  have "decide_next_action example_now review_snapshot =
      ReviewMr (Some ''#7'') ''gah/a'' None (on_branch ''gah/a'' @ '' classified NEEDS_REVIEW'')"
    by (simp add: review_snapshot_def decision_eval example_defs)
  from review_never_repeats_head [OF this] show ?thesis by auto
qed

end
