(* ===== verification/Identity.thy ===== *)
theory Identity
  imports Wire
begin

text \<open>
  Execution identities (\<open>src/execution_identity.rs\<close>, \<open>CandidateIdentity\<close> of
  \<open>src/routing/types.rs\<close>, \<open>agy_account\<close> of \<open>src/availability.rs\<close>): the typed key under which a
  backend, instance, account, quota pool and model are routed, counted and blocked.

  Paths (\<open>executable\<close>, \<open>state_root\<close>) are strings here; the code only tests them for presence and
  hands them to the file system.
\<close>

record execution_identity =
  ei_runner_kind :: rust_str
  ei_executable :: "rust_str option"
  ei_state_root :: "rust_str option"
  ei_credential_id :: "rust_str option"
  ei_quota_source :: "rust_str option"
  ei_explicit_instance :: bool
  ei_requested_backend :: rust_str
  ei_logical_backend :: rust_str
  ei_backend_instance :: rust_str
  ei_account_label :: "rust_str option"
  ei_auth_source_label :: "rust_str option"
  ei_quota_pool :: "rust_str option"
  ei_requested_model :: "rust_str option"
  ei_effective_model :: "rust_str option"

text \<open>The first piece of \<open>str::split\<close> on one character.\<close>

definition split_first :: "char \<Rightarrow> rust_str \<Rightarrow> rust_str" where
  "split_first c s = takeWhile (\<lambda>x. x \<noteq> c) s"

definition agy_account :: "rust_str \<Rightarrow> rust_str option" where
  "agy_account backend =
     (if backend = ''agy'' \<or> backend = ''agy-main'' then Some ''agy''
      else if starts_with ''agy-'' backend then Some backend
      else None)"

definition legacy_backend_instance :: "rust_str \<Rightarrow> rust_str option \<Rightarrow> rust_str" where
  "legacy_backend_instance backend quota_pool =
     (case quota_pool of
        Some pool \<Rightarrow>
          (if is_some_and (agy_account backend) (\<lambda>account.
                is_some_and (split_once CHR '':'' pool)
                  (\<lambda>(owner, _). owner = account \<or> owner = backend))
           then (case split_once CHR '':'' pool of
                   Some (_, fam) \<Rightarrow> backend @ '':'' @ fam
                 | None \<Rightarrow> backend)
           else if split_first CHR '':'' pool = backend then pool
           else backend @ '':'' @ pool)
      | None \<Rightarrow> backend)"

definition runner_kind_for_backend :: "rust_str \<Rightarrow> rust_str" where
  "runner_kind_for_backend backend =
     (if backend = ''agy-main'' \<or> backend = ''agy-second'' then ''agy''
      else (case backend_kind_parse backend of
              Inr k \<Rightarrow> backend_kind_str k
            | Inl _ \<Rightarrow> backend))"

definition legacy_route ::
  "rust_str \<Rightarrow> rust_str option \<Rightarrow> rust_str \<Rightarrow> rust_str option \<Rightarrow> rust_str option
   \<Rightarrow> execution_identity" where
  "legacy_route requested_backend requested_model logical_backend effective_model quota_pool =
     \<lparr> ei_runner_kind = runner_kind_for_backend logical_backend,
       ei_executable = None,
       ei_state_root = None,
       ei_credential_id = None,
       ei_quota_source = None,
       ei_explicit_instance = False,
       ei_requested_backend = requested_backend,
       ei_logical_backend = logical_backend,
       ei_backend_instance = legacy_backend_instance logical_backend quota_pool,
       ei_account_label = quota_pool,
       ei_auth_source_label = None,
       ei_quota_pool = quota_pool,
       ei_requested_model = requested_model,
       ei_effective_model = effective_model \<rparr>"

definition legacy_candidate ::
  "rust_str \<Rightarrow> rust_str option \<Rightarrow> rust_str option \<Rightarrow> execution_identity" where
  "legacy_candidate logical_backend effective_model quota_pool =
     legacy_route logical_backend None logical_backend effective_model quota_pool"

definition with_request ::
  "execution_identity \<Rightarrow> rust_str \<Rightarrow> rust_str option \<Rightarrow> execution_identity" where
  "with_request i requested_backend requested_model =
     i\<lparr> ei_requested_backend := requested_backend, ei_requested_model := requested_model \<rparr>"

definition set_quota_pool :: "rust_str option \<Rightarrow> execution_identity \<Rightarrow> execution_identity" where
  "set_quota_pool quota_pool i =
     i\<lparr> ei_quota_pool := quota_pool,
        ei_backend_instance := legacy_backend_instance (ei_logical_backend i) quota_pool,
        ei_account_label := quota_pool \<rparr>"

record candidate_identity =
  ci_backend :: rust_str
  ci_model :: "rust_str option"

definition from_execution_identity :: "execution_identity \<Rightarrow> candidate_identity" where
  "from_execution_identity i =
     \<lparr> ci_backend = (if ei_explicit_instance i then ei_backend_instance i else ei_logical_backend i),
       ci_model = ei_effective_model i \<rparr>"

definition candidate_label :: "rust_str \<Rightarrow> rust_str option \<Rightarrow> rust_str" where
  "candidate_label backend model =
     (case model of Some m \<Rightarrow> backend @ ''/'' @ m | None \<Rightarrow> backend)"

lemma legacy_route_sel [simp]:
  "ei_explicit_instance (legacy_route rb rm lb em qp) = False"
  "ei_logical_backend (legacy_route rb rm lb em qp) = lb"
  "ei_effective_model (legacy_route rb rm lb em qp) = em"
  "ei_quota_pool (legacy_route rb rm lb em qp) = qp"
  "ei_account_label (legacy_route rb rm lb em qp) = qp"
  "ei_requested_backend (legacy_route rb rm lb em qp) = rb"
  "ei_requested_model (legacy_route rb rm lb em qp) = rm"
  "ei_executable (legacy_route rb rm lb em qp) = None"
  "ei_backend_instance (legacy_route rb rm lb em qp) = legacy_backend_instance lb qp"
  by (simp_all add: legacy_route_def)

lemma with_request_sel [simp]:
  "ei_logical_backend (with_request i rb rm) = ei_logical_backend i"
  "ei_effective_model (with_request i rb rm) = ei_effective_model i"
  "ei_backend_instance (with_request i rb rm) = ei_backend_instance i"
  "ei_explicit_instance (with_request i rb rm) = ei_explicit_instance i"
  "ei_quota_pool (with_request i rb rm) = ei_quota_pool i"
  "ei_executable (with_request i rb rm) = ei_executable i"
  "ei_requested_backend (with_request i rb rm) = rb"
  "ei_requested_model (with_request i rb rm) = rm"
  by (simp_all add: with_request_def)

lemma from_execution_identity_with_request [simp]:
  "from_execution_identity (with_request i rb rm) = from_execution_identity i"
  by (simp add: from_execution_identity_def)

text \<open>Attaching a quota pool to a legacy identity is the same as building it with that pool.\<close>

lemma set_quota_pool_legacy:
  "set_quota_pool p (legacy_route rb rm lb em qp) = legacy_route rb rm lb em p"
  by (simp add: set_quota_pool_def legacy_route_def)

text \<open>A legacy instance key always starts with its backend, so it never names a foreign backend.\<close>

lemma legacy_backend_instance_prefix:
  "\<exists>t. legacy_backend_instance b p = b @ t"
proof (cases p)
  case None
  then show ?thesis by (auto simp: legacy_backend_instance_def)
next
  case (Some pool)
  show ?thesis
  proof (cases "split_first CHR '':'' pool = b")
    case True
    then have "pool = b @ dropWhile (\<lambda>x. x \<noteq> CHR '':'') pool"
      by (simp add: split_first_def flip: True)
    then show ?thesis
      using Some by (auto simp: legacy_backend_instance_def split: option.splits)
  next
    case False
    then show ?thesis
      using Some by (auto simp: legacy_backend_instance_def split: option.splits)
  qed
qed

text \<open>Two backends whose names hold no colon never share a legacy instance key, even in one pool.\<close>

lemma legacy_backend_instance_head:
  assumes "CHR '':'' \<notin> set b"
  shows "split_first CHR '':'' (legacy_backend_instance b p) = b"
proof -
  have tw: "takeWhile (\<lambda>x. x \<noteq> CHR '':'') (b @ CHR '':'' # t) = b" for t
    using assms by (subst takeWhile_append2) auto
  have "takeWhile (\<lambda>x. x \<noteq> CHR '':'') b = b"
    using assms by (simp add: takeWhile_eq_all_conv) blast
  with tw show ?thesis
    by (auto simp: legacy_backend_instance_def split_first_def split: option.splits)
qed

lemma legacy_backend_instance_distinct:
  assumes "CHR '':'' \<notin> set b" "CHR '':'' \<notin> set b'" "b \<noteq> b'"
  shows "legacy_backend_instance b p \<noteq> legacy_backend_instance b' p'"
  using assms legacy_backend_instance_head by metis

subsection \<open>Operator labels\<close>

text \<open>\<open>char::is_whitespace\<close> or \<open>char::is_control\<close> somewhere in the text, on its UTF-8 bytes: the white
  space of \<open>trim\<close>, the C0 controls and DEL, and the C1 controls (bytes 194, 128 to 159).\<close>

fun has_ws_or_control :: "rust_str \<Rightarrow> bool" where
  "has_ws_or_control [] = False"
| "has_ws_or_control (a # s) =
     (ws1 a \<or> byte a < 32 \<or> byte a = 127
      \<or> (case s of b # t \<Rightarrow> ws2 a b \<or> (byte a = 194 \<and> 128 \<le> byte b \<and> byte b \<le> 159)
                          \<or> (case t of c # _ \<Rightarrow> ws3 a b c | [] \<Rightarrow> False)
         | [] \<Rightarrow> False)
      \<or> has_ws_or_control s)"

text \<open>\<open>redact\<close> is the secret scrubber of \<open>src/redact.rs\<close>, which depends on the environment of the
  process.\<close>

definition validate_operator_label ::
  "(rust_str \<Rightarrow> rust_str) \<Rightarrow> rust_str \<Rightarrow> rust_str option" where
  "validate_operator_label redact value =
     (let trimmed = trim value
      in if trimmed = [] \<or> length trimmed > 128 then None
         else if has_ws_or_control trimmed \<or> CHR ''/'' \<in> set trimmed \<or> CHR 0x5C \<in> set trimmed
         then None
         else if redact trimmed \<noteq> trimmed then None
         else Some trimmed)"

text \<open>An accepted label is short, non-empty and cannot be a path.\<close>

lemma validate_operator_label_safe:
  "validate_operator_label redact v = Some l \<Longrightarrow>
   l = trim v \<and> l \<noteq> [] \<and> length l \<le> 128 \<and> CHR ''/'' \<notin> set l \<and> CHR 0x5C \<notin> set l
   \<and> \<not> has_ws_or_control l \<and> redact l = l"
  by (auto simp: validate_operator_label_def Let_def split: if_splits)

end
