(* ===== verification/Availability.thy ===== *)
theory Availability
  imports Identity "HOL-Library.Option_ord"
begin

text \<open>
  The durable availability store (\<open>src/availability.rs\<close>, \<open>src/availability/quota_failures.rs\<close>): an
  append-only list of observations per backend, instance, model and quota pool, from which
  eligibility is derived by the last record of each scope, plus the retention that bounds the list.

  RFC3339 parsing and printing belong to the \<open>time\<close> crate: \<open>parse_ts\<close> and \<open>fmt_ts\<close> are parameters,
  instants are \<open>int\<close> nanoseconds.  A file is absent, malformed or holds a decoded state; JSON,
  locking, the atomic rename and the redaction of the written text are not modelled.
\<close>

datatype status = Available | Unavailable

datatype avail_reason =
    RateLimited | QuotaExhausted | AuthenticationError | ContextLimitExceeded
  | BackendOutage | ManualDisable | Unknown

primrec avail_reason_str :: "avail_reason \<Rightarrow> rust_str" where
  "avail_reason_str RateLimited = ''rate_limited''"
| "avail_reason_str QuotaExhausted = ''quota_exhausted''"
| "avail_reason_str AuthenticationError = ''authentication_error''"
| "avail_reason_str ContextLimitExceeded = ''context_limit_exceeded''"
| "avail_reason_str BackendOutage = ''backend_outage''"
| "avail_reason_str ManualDisable = ''manual_disable''"
| "avail_reason_str Unknown = ''unknown''"

datatype avail_source = BackendError | Manual | Imported | Reprobe

record availability_record =
  ar_backend :: rust_str
  ar_instance :: "rust_str option"
  ar_model :: "rust_str option"
  ar_pool :: "rust_str option"
  ar_status :: status
  ar_reason :: avail_reason
  ar_observed_at :: rust_str
  ar_until :: "rust_str option"
  ar_source :: avail_source
  ar_summary :: "rust_str option"

record availability_state =
  av_version :: nat
  av_records :: "availability_record list"

datatype block_scope = BackendWide | ModelSpecific | QuotaPool

record availability_decision =
  ad_eligible :: bool
  ad_reason :: "avail_reason option"
  ad_until :: "rust_str option"
  ad_scope :: "block_scope option"

definition eligible_decision :: availability_decision where
  "eligible_decision = \<lparr> ad_eligible = True, ad_reason = None, ad_until = None, ad_scope = None \<rparr>"

subsection \<open>Loading\<close>

definition CURRENT_VERSION :: nat where "CURRENT_VERSION = 2"
definition LEGACY_VERSION :: nat where "LEGACY_VERSION = 1"

definition canonical_backend_name :: "rust_str \<Rightarrow> rust_str" where
  "canonical_backend_name name = (if name = ''cloud-coder'' then ''openhands'' else name)"

datatype state_file = NotFound | Malformed | Decoded availability_state

datatype state_error = ReadFailed | UnsupportedVersion nat | InvalidLabel rust_str

definition canonical_record :: "availability_record \<Rightarrow> availability_record" where
  "canonical_record r = r\<lparr> ar_backend := canonical_backend_name (ar_backend r) \<rparr>"

definition load_state :: "state_file \<Rightarrow> (state_error, availability_state) rust_result" where
  "load_state file =
     (case file of
        NotFound \<Rightarrow> Inr \<lparr> av_version = CURRENT_VERSION, av_records = [] \<rparr>
      | Malformed \<Rightarrow> Inl ReadFailed
      | Decoded st \<Rightarrow>
          (if LEGACY_VERSION \<le> av_version st \<and> av_version st \<le> CURRENT_VERSION
           then Inr \<lparr> av_version = CURRENT_VERSION,
                      av_records = map canonical_record (av_records st) \<rparr>
           else Inl (UnsupportedVersion (av_version st))))"

subsection \<open>Activity and retention\<close>

definition is_active :: "(rust_str \<Rightarrow> int option) \<Rightarrow> availability_record \<Rightarrow> int \<Rightarrow> bool" where
  "is_active parse_ts r now =
     (if ar_status r \<noteq> Unavailable then False
      else (case ar_until r of
              None \<Rightarrow> True
            | Some u \<Rightarrow> (case parse_ts u of Some t \<Rightarrow> now < t | None \<Rightarrow> True)))"

definition is_expired_unavailable ::
  "(rust_str \<Rightarrow> int option) \<Rightarrow> availability_record \<Rightarrow> int \<Rightarrow> bool" where
  "is_expired_unavailable parse_ts r now =
     (ar_status r = Unavailable
      \<and> is_some_and (Option.bind (ar_until r) parse_ts) (\<lambda>t. t \<le> now))"

record scope_key =
  sk_backend :: rust_str
  sk_instance :: "rust_str option"
  sk_model :: "rust_str option"
  sk_pool :: "rust_str option"

definition key_of :: "availability_record \<Rightarrow> scope_key" where
  "key_of r = \<lparr> sk_backend = ar_backend r, sk_instance = ar_instance r,
                sk_model = ar_model r, sk_pool = ar_pool r \<rparr>"

text \<open>The \<open>BTreeMap\<close> from scope to the index of its last record.\<close>

definition latest_map :: "availability_record list \<Rightarrow> scope_key \<Rightarrow> nat option" where
  "latest_map rs = fold (\<lambda>(i, r) m. m(key_of r \<mapsto> i)) (enumerate 0 rs) Map.empty"

text \<open>An index is in the map's value set exactly when it is the value at its own record's scope.\<close>

definition retained ::
  "(rust_str \<Rightarrow> int option) \<Rightarrow> int \<Rightarrow> availability_record list \<Rightarrow> availability_record list" where
  "retained parse_ts now rs =
     map snd (filter (\<lambda>(i, r). \<not> is_expired_unavailable parse_ts r now
                               \<or> latest_map rs (key_of r) = Some i) (enumerate 0 rs))"

definition apply_retention ::
  "(rust_str \<Rightarrow> int option) \<Rightarrow> int \<Rightarrow> availability_state \<Rightarrow> availability_state \<times> nat" where
  "apply_retention parse_ts now st =
     (let kept = retained parse_ts now (av_records st)
      in (st\<lparr> av_records := kept \<rparr>, length (av_records st) - length kept))"

definition update_state ::
  "(rust_str \<Rightarrow> int option) \<Rightarrow> int \<Rightarrow> (availability_state \<Rightarrow> availability_state) \<Rightarrow> state_file
   \<Rightarrow> (state_error, state_file \<times> nat) rust_result" where
  "update_state parse_ts now mutate file =
     (case load_state file of
        Inl e \<Rightarrow> Inl e
      | Inr st \<Rightarrow> (case apply_retention parse_ts now (mutate st) of
                     (st', dropped) \<Rightarrow> Inr (Decoded st', dropped)))"

definition push_record :: "availability_record \<Rightarrow> availability_state \<Rightarrow> availability_state" where
  "push_record r st = st\<lparr> av_records := av_records st @ [r] \<rparr>"

subsection \<open>Selectors and the eligibility decision\<close>

text \<open>\<open>iter().enumerate().rev().find(..)\<close>: the last match with its index.\<close>

definition rfind :: "('a \<Rightarrow> bool) \<Rightarrow> 'a list \<Rightarrow> (nat \<times> 'a) option" where
  "rfind p xs = List.find (\<lambda>(_, r). p r) (rev (enumerate 0 xs))"

definition in_scope ::
  "rust_str \<Rightarrow> rust_str option \<Rightarrow> rust_str option \<Rightarrow> availability_record \<Rightarrow> bool" where
  "in_scope backend inst model r =
     (ar_backend r = backend \<and> ar_model r = model
      \<and> (case inst of
           Some i \<Rightarrow> (case ar_instance r of None \<Rightarrow> True | Some v \<Rightarrow> v = i)
         | None \<Rightarrow> ar_instance r = None))"

definition latest_for_scope ::
  "availability_record list \<Rightarrow> rust_str \<Rightarrow> rust_str option \<Rightarrow> rust_str option
   \<Rightarrow> (nat \<times> availability_record) option" where
  "latest_for_scope rs backend inst model = rfind (in_scope backend inst model) rs"

definition latest_for_pool ::
  "availability_record list \<Rightarrow> rust_str \<Rightarrow> (nat \<times> availability_record) option" where
  "latest_for_pool rs pool = rfind (\<lambda>r. ar_pool r = Some pool) rs"

definition blocked_by :: "block_scope \<Rightarrow> availability_record \<Rightarrow> availability_decision" where
  "blocked_by scope r =
     \<lparr> ad_eligible = False, ad_reason = Some (ar_reason r), ad_until = ar_until r,
       ad_scope = Some scope \<rparr>"

text \<open>
  The three scopes are consulted in order.  \<open>broader_clear\<close> is the index of the last explicit
  \<open>available\<close> record among the pool and the backend-wide scope.
\<close>

definition model_step ::
  "(rust_str \<Rightarrow> int option) \<Rightarrow> availability_record list \<Rightarrow> rust_str \<Rightarrow> rust_str option
   \<Rightarrow> rust_str option \<Rightarrow> int \<Rightarrow> nat option \<Rightarrow> availability_decision" where
  "model_step parse_ts rs backend inst model now broader_clear =
     (case model of
        None \<Rightarrow> eligible_decision
      | Some m \<Rightarrow>
          (case latest_for_scope rs backend inst (Some m) of
             None \<Rightarrow> eligible_decision
           | Some (i, r) \<Rightarrow>
               (if is_active parse_ts r now
                   \<and> (case broader_clear of None \<Rightarrow> True | Some c \<Rightarrow> c < i)
                then blocked_by ModelSpecific r
                else eligible_decision)))"

definition backend_step ::
  "(rust_str \<Rightarrow> int option) \<Rightarrow> availability_record list \<Rightarrow> rust_str \<Rightarrow> rust_str option
   \<Rightarrow> rust_str option \<Rightarrow> int \<Rightarrow> nat option \<Rightarrow> availability_decision" where
  "backend_step parse_ts rs backend inst model now broader_clear =
     (case latest_for_scope rs backend inst None of
        None \<Rightarrow> model_step parse_ts rs backend inst model now broader_clear
      | Some (i, r) \<Rightarrow>
          (if is_active parse_ts r now then blocked_by BackendWide r
           else model_step parse_ts rs backend inst model now
                  (if ar_status r = Available
                   then Some (case broader_clear of None \<Rightarrow> i | Some c \<Rightarrow> max c i)
                   else broader_clear)))"

definition availability_for_key ::
  "(rust_str \<Rightarrow> int option) \<Rightarrow> availability_record list \<Rightarrow> rust_str \<Rightarrow> rust_str option
   \<Rightarrow> rust_str option \<Rightarrow> rust_str option \<Rightarrow> int \<Rightarrow> availability_decision" where
  "availability_for_key parse_ts rs backend inst model pool now =
     (case pool of
        None \<Rightarrow> backend_step parse_ts rs backend inst model now None
      | Some p \<Rightarrow>
          (case latest_for_pool rs p of
             None \<Rightarrow> backend_step parse_ts rs backend inst model now None
           | Some (i, r) \<Rightarrow>
               (if is_active parse_ts r now then blocked_by QuotaPool r
                else backend_step parse_ts rs backend inst model now
                       (if ar_status r = Available then Some i else None))))"

definition availability_for_identity ::
  "(rust_str \<Rightarrow> int option) \<Rightarrow> state_file \<Rightarrow> execution_identity \<Rightarrow> int
   \<Rightarrow> (state_error, availability_decision) rust_result" where
  "availability_for_identity parse_ts file i now =
     (case load_state file of
        Inl e \<Rightarrow> Inl e
      | Inr st \<Rightarrow>
          Inr (availability_for_key parse_ts (av_records st) (ei_logical_backend i)
                 (Some (ei_backend_instance i)) (ei_effective_model i) (ei_quota_pool i) now))"

subsection \<open>Operations that append\<close>

definition MINUTE :: int where "MINUTE = 60 * 1000000000"

definition UNAVAILABLE_UNTIL_CEILING_SECONDS :: int where
  "UNAVAILABLE_UNTIL_CEILING_SECONDS = 2 * 60 * 60"

definition cooldown :: "avail_reason \<Rightarrow> avail_source \<Rightarrow> int option \<Rightarrow> int \<Rightarrow> int option" where
  "cooldown rsn src until now =
     (if rsn \<noteq> QuotaExhausted \<or> src \<noteq> BackendError then until
      else Some (max (unwrap_or until (now + 30 * MINUTE)) (now + 5 * MINUTE)))"

text \<open>The part of a summary before \<open>; confidence=\<close> identifies the cause.\<close>

fun before_marker :: "rust_str \<Rightarrow> rust_str \<Rightarrow> rust_str" where
  "before_marker m [] = []"
| "before_marker m (c # s) = (if starts_with m (c # s) then [] else c # before_marker m s)"

definition evidence :: "availability_record \<Rightarrow> rust_str option" where
  "evidence r = map_option (before_marker ''; confidence='') (ar_summary r)"

definition same_cause :: "availability_record \<Rightarrow> availability_record \<Rightarrow> bool" where
  "same_cause l r =
     (ar_reason l = ar_reason r \<and> (ar_reason r \<noteq> QuotaExhausted \<or> evidence l = evidence r))"

definition same_scope :: "availability_record \<Rightarrow> availability_record \<Rightarrow> bool" where
  "same_scope l r =
     (ar_backend l = ar_backend r \<and> ar_instance l = ar_instance r
      \<and> ar_model l = ar_model r \<and> ar_pool l = ar_pool r)"

text \<open>\<open>Option::map(validate).transpose()\<close>.\<close>

definition valid_opt ::
  "(rust_str \<Rightarrow> rust_str option) \<Rightarrow> rust_str option \<Rightarrow> rust_str option option" where
  "valid_opt valid x = (case x of None \<Rightarrow> Some None | Some v \<Rightarrow> map_option Some (valid v))"

definition identity_record ::
  "(int \<Rightarrow> rust_str) \<Rightarrow> execution_identity \<Rightarrow> rust_str \<Rightarrow> rust_str option \<Rightarrow> status
   \<Rightarrow> avail_reason \<Rightarrow> avail_source \<Rightarrow> int option \<Rightarrow> rust_str option \<Rightarrow> int \<Rightarrow> availability_record" where
  "identity_record fmt_ts i inst pool st rsn src until summary now =
     \<lparr> ar_backend = ei_logical_backend i,
       ar_instance = Some inst,
       ar_model = ei_effective_model i,
       ar_pool = pool,
       ar_status = st,
       ar_reason = rsn,
       ar_observed_at = fmt_ts now,
       ar_until = map_option fmt_ts until,
       ar_source = src,
       ar_summary = summary \<rparr>"

definition is_transition :: "availability_record list \<Rightarrow> availability_record \<Rightarrow> bool" where
  "is_transition rs r =
     (case List.find (\<lambda>q. same_scope q r \<and> ar_source q \<noteq> Reprobe) (rev rs) of
        None \<Rightarrow> True
      | Some q \<Rightarrow> ar_status q \<noteq> Unavailable \<or> \<not> same_cause q r)"

definition record_unavailable_for_identity ::
  "(rust_str \<Rightarrow> int option) \<Rightarrow> (int \<Rightarrow> rust_str) \<Rightarrow> (rust_str \<Rightarrow> rust_str option) \<Rightarrow> state_file
   \<Rightarrow> execution_identity \<Rightarrow> avail_reason \<Rightarrow> avail_source \<Rightarrow> int option \<Rightarrow> rust_str option \<Rightarrow> int
   \<Rightarrow> (state_error, state_file \<times> bool) rust_result" where
  "record_unavailable_for_identity parse_ts fmt_ts valid file i rsn src until summary now =
     (case valid (ei_backend_instance i) of
        None \<Rightarrow> Inl (InvalidLabel ''backend instance'')
      | Some inst \<Rightarrow>
          (case valid_opt valid (ei_quota_pool i) of
             None \<Rightarrow> Inl (InvalidLabel ''quota pool'')
           | Some pool \<Rightarrow>
               (let r = identity_record fmt_ts i inst pool Unavailable rsn src
                          (cooldown rsn src until now) summary now
                in case load_state file of
                     Inl e \<Rightarrow> Inl e
                   | Inr st \<Rightarrow>
                       (case update_state parse_ts now (push_record r) file of
                          Inl e \<Rightarrow> Inl e
                        | Inr (file', _) \<Rightarrow> Inr (file', is_transition (av_records st) r)))))"

definition record_available_for_identity ::
  "(rust_str \<Rightarrow> int option) \<Rightarrow> (int \<Rightarrow> rust_str) \<Rightarrow> (rust_str \<Rightarrow> rust_str option) \<Rightarrow> state_file
   \<Rightarrow> execution_identity \<Rightarrow> avail_source \<Rightarrow> int \<Rightarrow> (state_error, state_file) rust_result" where
  "record_available_for_identity parse_ts fmt_ts valid file i src now =
     (case valid (ei_backend_instance i) of
        None \<Rightarrow> Inl (InvalidLabel ''backend instance'')
      | Some inst \<Rightarrow>
          (case valid_opt valid (ei_quota_pool i) of
             None \<Rightarrow> Inl (InvalidLabel ''quota pool'')
           | Some pool \<Rightarrow>
               map_sum id fst (update_state parse_ts now
                 (push_record (identity_record fmt_ts i inst pool Available Unknown src None None now))
                 file)))"

text \<open>The operator command \<open>gah availability clear\<close>.\<close>

datatype clear_error = ConflictingScopes | ClearFailed state_error

definition clear_record ::
  "(int \<Rightarrow> rust_str) \<Rightarrow> rust_str \<Rightarrow> rust_str option \<Rightarrow> rust_str option \<Rightarrow> rust_str option \<Rightarrow> int
   \<Rightarrow> availability_record" where
  "clear_record fmt_ts backend inst model pool now =
     \<lparr> ar_backend = canonical_backend_name backend,
       ar_instance = inst,
       ar_model = model,
       ar_pool = pool,
       ar_status = Available,
       ar_reason = Unknown,
       ar_observed_at = fmt_ts now,
       ar_until = None,
       ar_source = Manual,
       ar_summary = None \<rparr>"

definition clear ::
  "(rust_str \<Rightarrow> int option) \<Rightarrow> (int \<Rightarrow> rust_str) \<Rightarrow> (rust_str \<Rightarrow> rust_str option) \<Rightarrow> state_file
   \<Rightarrow> rust_str \<Rightarrow> rust_str option \<Rightarrow> rust_str option \<Rightarrow> rust_str option \<Rightarrow> int
   \<Rightarrow> (clear_error, state_file) rust_result" where
  "clear parse_ts fmt_ts valid file backend inst model pool now =
     (if is_some inst \<and> is_some pool then Inl ConflictingScopes
      else (case valid_opt valid inst of
              None \<Rightarrow> Inl (ClearFailed (InvalidLabel ''backend instance''))
            | Some inst' \<Rightarrow>
                (case valid_opt valid pool of
                   None \<Rightarrow> Inl (ClearFailed (InvalidLabel ''quota pool''))
                 | Some pool' \<Rightarrow>
                     map_sum ClearFailed fst (update_state parse_ts now
                       (push_record (clear_record fmt_ts backend inst' model pool' now)) file))))"

text \<open>Only a successful run ends a quota streak; other and manual blocks stay.\<close>

definition quota_clear_record ::
  "(int \<Rightarrow> rust_str) \<Rightarrow> execution_identity \<Rightarrow> int \<Rightarrow> availability_record list
   \<Rightarrow> availability_record option" where
  "quota_clear_record fmt_ts i now rs =
     map_option (\<lambda>r. r\<lparr> ar_status := Available, ar_source := BackendError, ar_reason := Unknown,
                        ar_observed_at := fmt_ts now, ar_until := None, ar_summary := None \<rparr>)
       (opt_filter (\<lambda>r. ar_status r = Unavailable \<and> ar_reason r = QuotaExhausted
                        \<and> (ar_source r = BackendError \<or> ar_source r = Reprobe))
         (List.find (\<lambda>r. ar_backend r = ei_logical_backend i
                         \<and> ar_instance r = Some (ei_backend_instance i)
                         \<and> ar_model r = ei_effective_model i
                         \<and> ar_pool r = ei_quota_pool i) (rev rs)))"

definition clear_quota_failure ::
  "(rust_str \<Rightarrow> int option) \<Rightarrow> (int \<Rightarrow> rust_str) \<Rightarrow> state_file \<Rightarrow> execution_identity \<Rightarrow> int
   \<Rightarrow> (state_error, state_file) rust_result" where
  "clear_quota_failure parse_ts fmt_ts file i now =
     (if file = NotFound then Inr NotFound
      else map_sum id fst (update_state parse_ts now
             (\<lambda>st. case quota_clear_record fmt_ts i now (av_records st) of
                     None \<Rightarrow> st
                   | Some r \<Rightarrow> push_record r st) file))"

subsection \<open>Listing and re-probing\<close>

record scope_row =
  sr_key :: scope_key
  sr_decision :: availability_decision
  sr_source :: "avail_source option"
  sr_summary :: "rust_str option"
  sr_observed_at :: "rust_str option"

definition scope_order ::
  "scope_key \<Rightarrow> rust_str \<times> rust_str option \<times> rust_str option \<times> rust_str option" where
  "scope_order k = (sk_backend k, sk_instance k, sk_model k, sk_pool k)"

fun push_new :: "'a \<Rightarrow> 'a list \<Rightarrow> 'a list" where
  "push_new k seen = (if k \<in> set seen then seen else seen @ [k])"

definition scope_keys :: "availability_record list \<Rightarrow> scope_key list" where
  "scope_keys rs = sort_key scope_order (fold push_new (map key_of rs) [])"

definition informative ::
  "availability_record list \<Rightarrow> scope_key \<Rightarrow> availability_decision \<Rightarrow> availability_record option" where
  "informative rs k d =
     (case ad_scope d of
        Some BackendWide \<Rightarrow> map_option snd (latest_for_scope rs (sk_backend k) (sk_instance k) None)
      | Some QuotaPool \<Rightarrow>
          map_option snd (Option.bind (sk_pool k) (latest_for_pool rs))
      | _ \<Rightarrow> map_option snd (latest_for_scope rs (sk_backend k) (sk_instance k) (sk_model k)))"

definition scope_row_of ::
  "(rust_str \<Rightarrow> int option) \<Rightarrow> int \<Rightarrow> availability_record list \<Rightarrow> scope_key \<Rightarrow> scope_row" where
  "scope_row_of parse_ts now rs k =
     (let d = availability_for_key parse_ts rs (sk_backend k) (sk_instance k) (sk_model k)
                (sk_pool k) now;
          inf = informative rs k d
      in \<lparr> sr_key = k, sr_decision = d,
           sr_source = map_option ar_source inf,
           sr_summary = Option.bind inf ar_summary,
           sr_observed_at = map_option ar_observed_at inf \<rparr>)"

definition list_scopes ::
  "(rust_str \<Rightarrow> int option) \<Rightarrow> state_file \<Rightarrow> int \<Rightarrow> (state_error, scope_row list) rust_result" where
  "list_scopes parse_ts file now =
     (case load_state file of
        Inl e \<Rightarrow> Inl e
      | Inr st \<Rightarrow>
          Inr (map (scope_row_of parse_ts now (av_records st)) (scope_keys (av_records st))))"

definition ceiling_at :: "int \<Rightarrow> int" where
  "ceiling_at now = now + UNAVAILABLE_UNTIL_CEILING_SECONDS * 1000000000"

definition needs_cap :: "(rust_str \<Rightarrow> int option) \<Rightarrow> int \<Rightarrow> scope_row \<Rightarrow> bool" where
  "needs_cap parse_ts now row =
     (\<not> ad_eligible (sr_decision row) \<and> sr_source row = Some BackendError
      \<and> is_some_and (Option.bind (ad_until (sr_decision row)) parse_ts) (\<lambda>t. ceiling_at now < t))"

definition reprobe_record ::
  "(int \<Rightarrow> rust_str) \<Rightarrow> int \<Rightarrow> scope_row \<Rightarrow> availability_record" where
  "reprobe_record fmt_ts now row =
     \<lparr> ar_backend = sk_backend (sr_key row),
       ar_instance = sk_instance (sr_key row),
       ar_model = sk_model (sr_key row),
       ar_pool = sk_pool (sr_key row),
       ar_status = Unavailable,
       ar_reason = unwrap_or (ad_reason (sr_decision row)) Unknown,
       ar_observed_at = fmt_ts now,
       ar_until = Some (fmt_ts (ceiling_at now)),
       ar_source = Reprobe,
       ar_summary = Some (''issue #765: auto-corrected stale unavailable_until (was ''
          @ unwrap_or (ad_until (sr_decision row)) ''none (never expires)''
          @ ''); original observation: '' @ unwrap_or (sr_summary row) ''unknown'') \<rparr>"

fun reprobe_rows ::
  "(rust_str \<Rightarrow> int option) \<Rightarrow> (int \<Rightarrow> rust_str) \<Rightarrow> int \<Rightarrow> scope_row list \<Rightarrow> nat \<Rightarrow> state_file
   \<Rightarrow> (state_error, state_file \<times> nat) rust_result" where
  "reprobe_rows parse_ts fmt_ts now [] n file = Inr (file, n)"
| "reprobe_rows parse_ts fmt_ts now (row # rows) n file =
     (if needs_cap parse_ts now row
      then (case update_state parse_ts now (push_record (reprobe_record fmt_ts now row)) file of
              Inl e \<Rightarrow> Inl e
            | Inr (file', _) \<Rightarrow> reprobe_rows parse_ts fmt_ts now rows (Suc n) file')
      else reprobe_rows parse_ts fmt_ts now rows n file)"

definition reprobe_stale_unavailable_records ::
  "(rust_str \<Rightarrow> int option) \<Rightarrow> (int \<Rightarrow> rust_str) \<Rightarrow> state_file \<Rightarrow> int
   \<Rightarrow> (state_error, state_file \<times> nat) rust_result" where
  "reprobe_stale_unavailable_records parse_ts fmt_ts file now =
     (case list_scopes parse_ts file now of
        Inl e \<Rightarrow> Inl e
      | Inr rows \<Rightarrow> reprobe_rows parse_ts fmt_ts now rows 0 file)"

subsection \<open>The last match of a scope\<close>

abbreviation last_match :: "('a \<Rightarrow> bool) \<Rightarrow> 'a list \<Rightarrow> 'a option" where
  "last_match p xs \<equiv> map_option snd (rfind p xs)"

lemma rfind_Nil [simp]: "rfind p [] = None"
  by (simp add: rfind_def)

lemma rfind_snoc [simp]:
  "rfind p (xs @ [x]) = (if p x then Some (length xs, x) else rfind p xs)"
  by (simp add: rfind_def enumerate_append_eq)

lemma rfind_None_iff: "rfind p xs = None \<longleftrightarrow> (\<forall>x\<in>set xs. \<not> p x)"
  by (induction xs rule: rev_induct) auto

lemma rfind_SomeD: "rfind p xs = Some (i, x) \<Longrightarrow> i < length xs \<and> xs ! i = x \<and> p x"
  by (induction xs rule: rev_induct) (auto simp: nth_append split: if_splits)

lemma rfind_cong: "(\<And>x. x \<in> set xs \<Longrightarrow> p x = q x) \<Longrightarrow> rfind p xs = rfind q xs"
  by (induction xs rule: rev_induct) auto

text \<open>The relative position of two last matches, without indices.\<close>

lemma rfind_later:
  assumes "rfind p xs = Some (i, a)" and "rfind q xs = Some (j, b)"
  shows "j < i \<longleftrightarrow> \<not> is_some_and (last_match (\<lambda>r. p r \<or> q r) xs) q"
  using assms
proof (induction xs rule: rev_induct)
  case Nil
  then show ?case by simp
next
  case (snoc x xs)
  then show ?case
    using rfind_SomeD [of p xs i a] rfind_SomeD [of q xs j b] by (auto split: if_splits)
qed

lemma last_match_Cons:
  "last_match p (x # xs) = opt_or (last_match p xs) (if p x then Some x else None)"
  by (induction xs rule: rev_induct) (use rfind_snoc [of p "[]"] in \<open>auto simp flip: append_Cons\<close>)

lemma last_match_None_iff: "last_match p xs = None \<longleftrightarrow> (\<forall>x\<in>set xs. \<not> p x)"
  by (simp add: rfind_None_iff)

subsection \<open>Retention keeps every last match\<close>

text \<open>The declarative form of retention: an expired record goes when a later one has its scope.\<close>

fun prune :: "(availability_record \<Rightarrow> bool) \<Rightarrow> availability_record list \<Rightarrow> availability_record list" where
  "prune expired [] = []"
| "prune expired (r # rs) =
     (if expired r \<and> (\<exists>r'\<in>set rs. key_of r' = key_of r) then prune expired rs
      else r # prune expired rs)"

lemma latest_map_rfind: "latest_map rs k = map_option fst (rfind (\<lambda>r. key_of r = k) rs)"
  by (induction rs rule: rev_induct) (auto simp: latest_map_def enumerate_append_eq)

lemma rfind_append:
  "rfind p (xs @ ys) =
     (case rfind p ys of Some (i, y) \<Rightarrow> Some (length xs + i, y) | None \<Rightarrow> rfind p xs)"
proof (induction ys rule: rev_induct)
  case Nil
  then show ?case by simp
next
  case (snoc y ys)
  then show ?case using rfind_snoc [of p "xs @ ys" y] by simp
qed

lemma rfind_fst_Cons_iff:
  "map_option fst (rfind p (pre @ r # rs)) = Some (length pre) \<longleftrightarrow>
     p r \<and> (\<forall>x\<in>set rs. \<not> p x)"
proof -
  have "rfind p (pre @ r # rs) = rfind p ((pre @ [r]) @ rs)" by simp
  also have "\<dots> = (case rfind p rs of Some (i, y) \<Rightarrow> Some (length pre + 1 + i, y)
                   | None \<Rightarrow> rfind p (pre @ [r]))"
    by (subst rfind_append) (auto split: option.split)
  finally show ?thesis
    using rfind_SomeD [of p pre "length pre"] rfind_None_iff [of p rs]
    by (auto split: option.splits)
qed

lemma retained_suffix:
  "map snd (filter (\<lambda>(i, r). \<not> e r \<or> latest_map (pre @ rs) (key_of r) = Some i)
                   (enumerate (length pre) rs)) = prune e rs"
proof (induction rs arbitrary: pre)
  case Nil
  then show ?case by simp
next
  case (Cons r rs)
  from Cons.IH [of "pre @ [r]"]
  have rest: "map snd (filter (\<lambda>(i, s). \<not> e s \<or> latest_map (pre @ r # rs) (key_of s) = Some i)
                   (enumerate (Suc (length pre)) rs)) = prune e rs"
    by simp
  have "latest_map (pre @ r # rs) (key_of r) = Some (length pre) \<longleftrightarrow>
          (\<forall>x\<in>set rs. key_of x \<noteq> key_of r)"
    unfolding latest_map_rfind rfind_fst_Cons_iff by simp
  with rest show ?case by auto
qed

lemma retained_prune: "retained parse_ts now rs = prune (\<lambda>r. is_expired_unavailable parse_ts r now) rs"
  using retained_suffix [of "\<lambda>r. is_expired_unavailable parse_ts r now" "[]" rs]
  by (simp add: retained_def)

text \<open>Selectors depend only on the scope of a record.\<close>

definition scope_closed :: "(availability_record \<Rightarrow> bool) \<Rightarrow> bool" where
  "scope_closed p = (\<forall>r r'. p r \<longrightarrow> key_of r = key_of r' \<longrightarrow> p r')"

lemma scope_closed_in_scope [simp]: "scope_closed (in_scope b i m)"
  by (auto simp: scope_closed_def in_scope_def key_of_def split: option.splits)

lemma scope_closed_pool [simp]: "scope_closed (\<lambda>r. ar_pool r = Some p)"
  by (auto simp: scope_closed_def key_of_def)

lemma scope_closed_disj [simp]:
  "scope_closed p \<Longrightarrow> scope_closed q \<Longrightarrow> scope_closed (\<lambda>r. p r \<or> q r)"
  unfolding scope_closed_def by blast

lemma last_match_prune:
  assumes "scope_closed p"
  shows "last_match p (prune e rs) = last_match p rs"
proof (induction rs)
  case Nil
  then show ?case by simp
next
  case (Cons r rs)
  have "rfind p rs \<noteq> None" if "p r" "r' \<in> set rs" "key_of r' = key_of r" for r'
    using assms that unfolding scope_closed_def rfind_None_iff by metis
  then show ?case
    using Cons by (auto simp: last_match_Cons opt_or_def split: option.splits)
qed

text \<open>
  A decision reads only last matches and the relative order of two of them, so two record lists
  with the same last matches decide alike.
\<close>

definition same_matches :: "availability_record list \<Rightarrow> availability_record list \<Rightarrow> bool" where
  "same_matches rs rs' = (\<forall>p. scope_closed p \<longrightarrow> last_match p rs = last_match p rs')"

lemma same_matches_retained: "same_matches (retained parse_ts now rs) rs"
  by (simp add: same_matches_def retained_prune last_match_prune)

text \<open>
  The declarative contract of a decision: the last record of the pool decides, then the last
  backend-wide one, then the last one of the model unless an explicit recovery of a broader scope
  came after it.  No index occurs.
\<close>

definition cleared_after ::
  "availability_record list \<Rightarrow> (availability_record \<Rightarrow> bool) \<Rightarrow> (availability_record \<Rightarrow> bool) \<Rightarrow> bool" where
  "cleared_after rs p q =
     (is_some_and (last_match q rs) (\<lambda>r. ar_status r = Available)
      \<and> is_some_and (last_match (\<lambda>r. p r \<or> q r) rs) q)"

definition in_pool :: "rust_str option \<Rightarrow> availability_record \<Rightarrow> bool" where
  "in_pool pool r = (pool \<noteq> None \<and> ar_pool r = pool)"

definition active_match ::
  "(rust_str \<Rightarrow> int option) \<Rightarrow> int \<Rightarrow> (availability_record \<Rightarrow> bool) \<Rightarrow> availability_record list
   \<Rightarrow> availability_record option" where
  "active_match parse_ts now p rs = opt_filter (\<lambda>r. is_active parse_ts r now) (last_match p rs)"

definition availability_spec ::
  "(rust_str \<Rightarrow> int option) \<Rightarrow> availability_record list \<Rightarrow> rust_str \<Rightarrow> rust_str option
   \<Rightarrow> rust_str option \<Rightarrow> rust_str option \<Rightarrow> int \<Rightarrow> availability_decision" where
  "availability_spec parse_ts rs b i m pool now =
     (case active_match parse_ts now (in_pool pool) rs of
        Some r \<Rightarrow> blocked_by QuotaPool r
      | None \<Rightarrow>
     (case active_match parse_ts now (in_scope b i None) rs of
        Some r \<Rightarrow> blocked_by BackendWide r
      | None \<Rightarrow>
     (case (if m = None then None else active_match parse_ts now (in_scope b i m) rs) of
        Some r \<Rightarrow>
          if cleared_after rs (in_scope b i m) (in_pool pool)
             \<or> cleared_after rs (in_scope b i m) (in_scope b i None)
          then eligible_decision else blocked_by ModelSpecific r
      | None \<Rightarrow> eligible_decision)))"

lemma scope_closed_in_pool [simp]: "scope_closed (in_pool pool)"
  by (auto simp: scope_closed_def in_pool_def key_of_def)

lemma availability_spec_cong:
  assumes "same_matches rs rs'"
  shows "availability_spec parse_ts rs b i m pool now = availability_spec parse_ts rs' b i m pool now"
proof -
  have lm: "last_match p rs = last_match p rs'" if "scope_closed p" for p
    using assms that by (simp add: same_matches_def)
  have am: "active_match parse_ts now p rs = active_match parse_ts now p rs'" if "scope_closed p" for p
    using lm [OF that] by (simp only: active_match_def)
  have ca: "cleared_after rs p q = cleared_after rs' p q"
    if "scope_closed p" "scope_closed q" for p q
    using lm [OF that(2)] lm [OF scope_closed_disj [OF that]] by (simp only: cleared_after_def)
  show ?thesis
    by (simp only: availability_spec_def am [OF scope_closed_in_pool] am [OF scope_closed_in_scope]
        ca [OF scope_closed_in_scope scope_closed_in_pool]
        ca [OF scope_closed_in_scope scope_closed_in_scope])
qed

text \<open>The index of the last explicit recovery of a scope.\<close>

definition clear_index :: "(availability_record \<Rightarrow> bool) \<Rightarrow> availability_record list \<Rightarrow> nat option" where
  "clear_index q rs = map_option fst (opt_filter (\<lambda>(_, r). ar_status r = Available) (rfind q rs))"

lemma clear_index_before:
  assumes "rfind p rs = Some (i, r)"
  shows "(case clear_index q rs of None \<Rightarrow> True | Some c \<Rightarrow> c < i) \<longleftrightarrow> \<not> cleared_after rs p q"
proof (cases "rfind q rs")
  case None
  then show ?thesis by (simp add: clear_index_def cleared_after_def)
next
  case (Some jb)
  then obtain j b where jb: "rfind q rs = Some (j, b)" by (cases jb) auto
  show ?thesis
    using rfind_later [OF assms jb] jb by (auto simp: clear_index_def cleared_after_def)
qed

lemma model_step_spec:
  assumes "\<And>ix r. rfind (in_scope b i m) rs = Some (ix, r) \<Longrightarrow>
             (case c of None \<Rightarrow> True | Some k \<Rightarrow> k < ix) \<longleftrightarrow> \<not> gone"
  shows "model_step parse_ts rs b i m now c =
     (case (if m = None then None else active_match parse_ts now (in_scope b i m) rs) of
        Some r \<Rightarrow> if gone then eligible_decision else blocked_by ModelSpecific r
      | None \<Rightarrow> eligible_decision)"
  using assms
  by (auto simp: model_step_def latest_for_scope_def active_match_def split: option.splits)

lemma pool_rfind:
  "latest_for_pool rs p = rfind (in_pool (Some p)) rs"
  unfolding latest_for_pool_def by (rule rfind_cong) (simp add: in_pool_def)

lemma in_pool_None: "rfind (in_pool None) rs = None"
  by (simp add: rfind_None_iff in_pool_def)

lemma pool_match_alt:
  "availability_for_key parse_ts rs b i m pool now =
     (case active_match parse_ts now (in_pool pool) rs of
        Some r \<Rightarrow> blocked_by QuotaPool r
      | None \<Rightarrow> backend_step parse_ts rs b i m now (clear_index (in_pool pool) rs))"
  by (auto simp: availability_for_key_def pool_rfind in_pool_None active_match_def clear_index_def
           split: option.splits prod.splits)

lemma backend_match_alt:
  "backend_step parse_ts rs b i m now c =
     (case active_match parse_ts now (in_scope b i None) rs of
        Some r \<Rightarrow> blocked_by BackendWide r
      | None \<Rightarrow> model_step parse_ts rs b i m now
                  (case clear_index (in_scope b i None) rs of
                     None \<Rightarrow> c
                   | Some k \<Rightarrow> Some (case c of None \<Rightarrow> k | Some j \<Rightarrow> max j k)))"
  by (auto simp: backend_step_def latest_for_scope_def active_match_def clear_index_def
           split: option.splits prod.splits)

lemma availability_for_key_spec:
  "availability_for_key parse_ts rs b i m pool now = availability_spec parse_ts rs b i m pool now"
proof -
  let ?c = "case clear_index (in_scope b i None) rs of
              None \<Rightarrow> clear_index (in_pool pool) rs
            | Some k \<Rightarrow> Some (case clear_index (in_pool pool) rs of None \<Rightarrow> k | Some j \<Rightarrow> max j k)"
  have "(case ?c of None \<Rightarrow> True | Some k \<Rightarrow> k < ix) \<longleftrightarrow>
          \<not> (cleared_after rs (in_scope b i m) (in_pool pool)
             \<or> cleared_after rs (in_scope b i m) (in_scope b i None))"
    if "rfind (in_scope b i m) rs = Some (ix, r)" for ix r
    using clear_index_before [OF that, of "in_pool pool"]
      clear_index_before [OF that, of "in_scope b i None"]
    by (auto split: option.splits)
  then show ?thesis
    by (simp only: pool_match_alt backend_match_alt availability_spec_def
        model_step_spec [where c = ?c
          and gone = "cleared_after rs (in_scope b i m) (in_pool pool)
             \<or> cleared_after rs (in_scope b i m) (in_scope b i None)"])
qed

definition compact_expired ::
  "(rust_str \<Rightarrow> int option) \<Rightarrow> int \<Rightarrow> state_file \<Rightarrow> (state_error, state_file \<times> nat) rust_result" where
  "compact_expired parse_ts now file =
     (if file = NotFound then Inr (NotFound, 0) else update_state parse_ts now id file)"

end
