(* ===== verification/Quota.thy ===== *)
theory Quota
  imports Complex_Main "HOL-Library.Log_Nat" Identity
begin

text \<open>
  Quota pacing (\<open>src/quota.rs\<close>), orderings and the contract of comparators.

  A finite \<open>f64\<close> is the rational number it denotes and every arithmetic operation of the source is
  followed by \<open>f64_round\<close>, rounding to nearest with ties to even at 53 bits.  Subnormal results,
  overflow to infinity, NaN and the sign of zero do not occur for percentages, prices and days and
  are not modelled.
\<close>

subsection \<open>Rounding to 53 bits\<close>

definition round_even :: "rat \<Rightarrow> int" where
  "round_even y =
     (let f = \<lfloor>y\<rfloor>; d = y - of_int f
      in if d < 1/2 then f else if 1/2 < d then f + 1 else if even f then f else f + 1)"

text \<open>The exponent \<open>k\<close> with \<open>2 ^ k \<le> x < 2 ^ (k + 1)\<close>, for a positive \<open>x\<close>.\<close>

definition binade :: "rat \<Rightarrow> int" where
  "binade x =
     (case quotient_of x of
        (a, b) \<Rightarrow>
          (let k = int (floorlog 2 (nat a)) - int (floorlog 2 (nat b))
           in if 2 powi k \<le> x then k else k - 1))"

definition f64_pos :: "rat \<Rightarrow> rat" where
  "f64_pos x = (let e = binade x - 52 in of_int (round_even (x / 2 powi e)) * 2 powi e)"

definition f64_round :: "rat \<Rightarrow> rat" where
  "f64_round x = (if x = 0 then 0 else if 0 < x then f64_pos x else - f64_pos (- x))"

lemma round_even_int [simp]: "round_even (of_int n) = n"
  by (simp add: round_even_def)

lemma round_even_mono: "x \<le> y \<Longrightarrow> round_even x \<le> round_even y"
proof -
  assume le: "x \<le> y"
  then have fl: "\<lfloor>x\<rfloor> \<le> \<lfloor>y\<rfloor>" by (rule floor_mono)
  have bounds: "\<lfloor>z\<rfloor> \<le> round_even z" "round_even z \<le> \<lfloor>z\<rfloor> + 1" for z
    by (auto simp: round_even_def Let_def)
  show ?thesis
  proof (cases "\<lfloor>x\<rfloor> = \<lfloor>y\<rfloor>")
    case True
    with le show ?thesis by (auto simp: round_even_def Let_def)
  next
    case False
    with fl have "\<lfloor>x\<rfloor> + 1 \<le> \<lfloor>y\<rfloor>" by simp
    with bounds [of x] bounds [of y] show ?thesis by linarith
  qed
qed

lemma binade_bounds:
  assumes "0 < x"
  shows "2 powi binade x \<le> x" and "x < 2 powi (binade x + 1)"
proof -
  obtain a b where q: "quotient_of x = (a, b)" by (cases "quotient_of x")
  have b: "0 < b" using quotient_of_denom_pos [OF q] .
  have x: "x = of_int a / of_int b" using quotient_of_div [OF q] .
  with assms b have a: "0 < a" by (simp add: zero_less_divide_iff)
  define la lb where "la = floorlog 2 (nat a)" and "lb = floorlog 2 (nat b)"
  have fl: "2 ^ (floorlog 2 n - 1) \<le> n \<and> n < 2 ^ floorlog 2 n" if "0 < n" for n :: nat
    using that floorlog_bounds [of n 2] by simp
  have A: "(2::rat) ^ (la - 1) \<le> of_int a" "of_int a < (2::rat) ^ la"
  proof -
    have "(2::nat) ^ (la - 1) \<le> nat a" "nat a < 2 ^ la" using fl [of "nat a"] a by (auto simp: la_def)
    then have "of_nat (2 ^ (la - 1)) \<le> (of_nat (nat a) :: rat)" "of_nat (nat a) < (of_nat (2 ^ la) :: rat)"
      using of_nat_le_iff of_nat_less_iff by blast+
    then show "(2::rat) ^ (la - 1) \<le> of_int a" "of_int a < (2::rat) ^ la" using a by simp_all
  qed
  have B: "(2::rat) ^ (lb - 1) \<le> of_int b" "of_int b < (2::rat) ^ lb"
  proof -
    have "(2::nat) ^ (lb - 1) \<le> nat b" "nat b < 2 ^ lb" using fl [of "nat b"] b by (auto simp: lb_def)
    then have "of_nat (2 ^ (lb - 1)) \<le> (of_nat (nat b) :: rat)" "of_nat (nat b) < (of_nat (2 ^ lb) :: rat)"
      using of_nat_le_iff of_nat_less_iff by blast+
    then show "(2::rat) ^ (lb - 1) \<le> of_int b" "of_int b < (2::rat) ^ lb" using b by simp_all
  qed
  have la: "0 < la" and lb: "0 < lb" using a b by (auto simp: la_def lb_def floorlog_def)
  define k where "k = int la - int lb"
  have pw: "(2::rat) powi (int m - int n) = 2 ^ m / 2 ^ n" for m n
    by (simp add: power_int_diff)
  have up: "x < 2 powi (k + 1)"
  proof -
    have "x < 2 ^ la / 2 ^ (lb - 1)"
      unfolding x using A B a b by (intro frac_less) auto
    also have "\<dots> = 2 powi (k + 1)"
      using lb pw [of la "lb - 1"] by (simp add: k_def of_nat_diff algebra_simps)
    finally show ?thesis .
  qed
  have lo: "2 powi (k - 1) \<le> x"
  proof -
    have "2 powi (k - 1) = (2::rat) ^ (la - 1) / 2 ^ lb"
      using la pw [of "la - 1" lb] by (simp add: k_def of_nat_diff algebra_simps)
    also have "\<dots> \<le> x" unfolding x using A B a b by (intro frac_le) auto
    finally show ?thesis .
  qed
  have "binade x = (if 2 powi k \<le> x then k else k - 1)"
    by (simp add: binade_def q Let_def k_def la_def lb_def)
  with up lo show "2 powi binade x \<le> x" "x < 2 powi (binade x + 1)"
    by (auto split: if_splits)
qed

lemma f64_pos_bounds:
  assumes "0 < x"
  shows "2 powi binade x \<le> f64_pos x" and "f64_pos x \<le> 2 powi (binade x + 1)"
proof -
  let ?e = "binade x - 52"
  have pos: "(0::rat) < 2 powi ?e" by simp
  have "(2::rat) powi binade x = of_int (2 ^ 52) * 2 powi ?e"
    by (simp add: power_int_diff)
  moreover have "(2::rat) powi (binade x + 1) = of_int (2 ^ 53) * 2 powi ?e"
    by (simp add: power_int_diff power_int_add)
  ultimately have lo: "of_int (2 ^ 52) * 2 powi ?e \<le> x" and up: "x \<le> of_int (2 ^ 53) * 2 powi ?e"
    using binade_bounds [OF assms] by simp_all
  have "of_int (2 ^ 52) \<le> x / 2 powi ?e" using lo pos by (simp add: pos_le_divide_eq)
  then have a: "2 ^ 52 \<le> round_even (x / 2 powi ?e)" using round_even_mono round_even_int by metis
  have "x / 2 powi ?e \<le> of_int (2 ^ 53)" using up pos by (simp add: pos_divide_le_eq)
  then have b: "round_even (x / 2 powi ?e) \<le> 2 ^ 53" using round_even_mono round_even_int by metis
  show "2 powi binade x \<le> f64_pos x"
  proof -
    have "of_int (2 ^ 52) * 2 powi ?e \<le> of_int (round_even (x / 2 powi ?e)) * (2::rat) powi ?e"
      using a pos by (intro mult_right_mono) (simp_all only: of_int_le_iff less_imp_le)
    then show ?thesis
      using \<open>(2::rat) powi binade x = of_int (2 ^ 52) * 2 powi ?e\<close> by (simp only: f64_pos_def Let_def)
  qed
  show "f64_pos x \<le> 2 powi (binade x + 1)"
  proof -
    have "of_int (round_even (x / 2 powi ?e)) * (2::rat) powi ?e \<le> of_int (2 ^ 53) * 2 powi ?e"
      using b pos by (intro mult_right_mono) (simp_all only: of_int_le_iff less_imp_le)
    then show ?thesis
      using \<open>(2::rat) powi (binade x + 1) = of_int (2 ^ 53) * 2 powi ?e\<close> by (simp only: f64_pos_def Let_def)
  qed
qed

lemma f64_pos_mono:
  assumes "0 < x" "x \<le> y"
  shows "f64_pos x \<le> f64_pos y"
proof (cases "binade x = binade y")
  case True
  have "(0::rat) < 2 powi (binade y - 52)" by simp
  then have "x / 2 powi (binade y - 52) \<le> y / 2 powi (binade y - 52)"
    using assms(2) by (intro divide_right_mono) auto
  then have "round_even (x / 2 powi (binade y - 52)) \<le> round_even (y / 2 powi (binade y - 52))"
    by (rule round_even_mono)
  then show ?thesis
    unfolding f64_pos_def Let_def True by (intro mult_right_mono) simp_all
next
  case False
  have "\<not> binade y < binade x"
  proof
    assume "binade y < binade x"
    then have "(2::rat) powi (binade y + 1) \<le> 2 powi binade x" by (intro power_int_increasing) auto
    then show False using binade_bounds [of x] binade_bounds [of y] assms by linarith
  qed
  with False have "binade x + 1 \<le> binade y" by simp
  then have "(2::rat) powi (binade x + 1) \<le> 2 powi binade y" by (intro power_int_increasing) auto
  then show ?thesis using f64_pos_bounds [of x] f64_pos_bounds [of y] assms by linarith
qed

lemma f64_pos_pos: "0 < x \<Longrightarrow> 0 < f64_pos x"
  using f64_pos_bounds(1) [of x] zero_less_power_int [of "2::rat" "binade x"] by linarith

lemma f64_round_mono: "x \<le> y \<Longrightarrow> f64_round x \<le> f64_round y"
  using f64_pos_mono [of x y] f64_pos_mono [of "- y" "- x"] f64_pos_pos [of y] f64_pos_pos [of "- x"]
  by (auto simp: f64_round_def)

lemma f64_round_0 [simp]: "f64_round 0 = 0"
  by (simp add: f64_round_def)

text \<open>
  Numbers that come from outside (dollar amounts of the ledger, text that is parsed) are tested with
  \<open>is_finite\<close>: an infinity or NaN is a value.
\<close>

datatype f64 = Finite rat | NonFinite

text \<open>A number with at most 53 significant bits is a binary64 value: rounding keeps it.\<close>

lemma f64_pos_dyadic:
  assumes "0 < n" "n < 2 ^ 53"
  shows "f64_pos (of_int n / 2 ^ j) = of_int n / 2 ^ j"
proof -
  let ?x = "of_int n / 2 ^ j :: rat"
  let ?e = "binade ?x - 52"
  have pos: "0 < ?x" using assms by simp
  have "?x < 2 powi (53 - int j)"
  proof -
    have "(of_int n :: rat) < of_int (2 ^ 53)" using assms(2) by (simp only: of_int_less_iff)
    then show ?thesis by (simp add: power_int_diff divide_strict_right_mono)
  qed
  then have "2 powi binade ?x < (2::rat) powi (53 - int j)" using binade_bounds(1) [OF pos] by linarith
  then have "binade ?x < 53 - int j"
    by (rule contrapos_pp) (simp add: power_int_increasing not_less)
  then have m: "?e = - int j - int (nat (- int j - ?e))" by simp
  define m where "m = nat (- int j - ?e)"
  with m have e: "?e = - int j - int m" by simp
  have x: "?x = of_int (n * 2 ^ m) * 2 powi (- int j - int m)"
    by (simp add: power_int_diff power_int_minus field_simps)
  then have "?x / 2 powi (- int j - int m) = of_int (n * 2 ^ m)" by simp
  then have "round_even (?x / 2 powi (- int j - int m)) = n * 2 ^ m" using round_even_int by metis
  then show ?thesis unfolding f64_pos_def Let_def e using x by simp
qed

subsection \<open>Pace bands\<close>

datatype pace_band = AggressiveBurn | MildBurn | Normal | Conserve | HardConserve

record pacing_config =
  pc_aggressive :: rat
  pc_mild :: rat
  pc_conserve :: rat
  pc_hard_conserve :: rat
  pc_loop_interval_seconds :: nat

datatype quota_pacing_error = InvalidUsage rat | InvalidDays rat

definition default_pacing :: pacing_config where
  "default_pacing = \<lparr> pc_aggressive = 20, pc_mild = 7, pc_conserve = -7, pc_hard_conserve = -20,
     pc_loop_interval_seconds = 30 \<rparr>"

definition loop_interval :: "pacing_config \<Rightarrow> nat" where
  "loop_interval c = (if pc_loop_interval_seconds c < 5 then 5
                      else if 3600 < pc_loop_interval_seconds c then 3600
                      else pc_loop_interval_seconds c)"

definition pace_delta :: "rat \<Rightarrow> rat \<Rightarrow> rat" where
  "pace_delta usage days =
     (let target = min (f64_round (f64_round (100 / 7) * days)) 100;
          actual = f64_round (100 - usage)
      in f64_round (actual - target))"

definition quota_pace ::
  "rat option \<Rightarrow> rat option \<Rightarrow> pacing_config \<Rightarrow> (quota_pacing_error, pace_band) rust_result" where
  "quota_pace usage_pct days_remaining c =
     (case usage_pct of
        None \<Rightarrow> Inr Normal
      | Some u \<Rightarrow>
     (case days_remaining of
        None \<Rightarrow> Inr Normal
      | Some d \<Rightarrow>
          if \<not> (0 \<le> u \<and> u \<le> 100) then Inl (InvalidUsage u)
          else if d < 0 then Inl (InvalidDays d)
          else (let delta = pace_delta u d
                in if pc_aggressive c \<le> delta then Inr AggressiveBurn
                   else if pc_mild c \<le> delta then Inr MildBurn
                   else if delta \<le> pc_hard_conserve c then Inr HardConserve
                   else if delta \<le> pc_conserve c then Inr Conserve
                   else Inr Normal)))"

fun band_rank :: "pace_band \<Rightarrow> nat" where
  "band_rank AggressiveBurn = 0"
| "band_rank MildBurn = 1"
| "band_rank Normal = 2"
| "band_rank Conserve = 3"
| "band_rank HardConserve = 4"

lemma pace_delta_mono: "u \<le> u' \<Longrightarrow> d \<le> d' \<Longrightarrow> pace_delta u' d' \<le> pace_delta u d"
  unfolding pace_delta_def Let_def
proof (rule f64_round_mono)
  assume u: "u \<le> u'" and d: "d \<le> d'"
  have "0 \<le> f64_round (100 / 7)" using f64_round_mono [of 0 "100 / 7"] by simp
  then have "f64_round (f64_round (100 / 7) * d) \<le> f64_round (f64_round (100 / 7) * d')"
    using d by (intro f64_round_mono mult_left_mono)
  moreover have "f64_round (100 - u') \<le> f64_round (100 - u)" using u by (intro f64_round_mono) simp
  ultimately show "f64_round (100 - u') - min (f64_round (f64_round (100 / 7) * d')) 100
      \<le> f64_round (100 - u) - min (f64_round (f64_round (100 / 7) * d)) 100"
    by (auto simp: min_def)
qed

subsection \<open>Orderings\<close>

text \<open>\<open>std::cmp::Ordering\<close> with \<open>then_with\<close>, and the stable \<open>sort_by\<close>.\<close>

datatype ordering = Less | Equal | Greater

fun then_with :: "ordering \<Rightarrow> ordering \<Rightarrow> ordering" where
  "then_with Equal o2 = o2"
| "then_with o1 _ = o1"

definition cmp_ord :: "'a::linorder \<Rightarrow> 'a \<Rightarrow> ordering" where
  "cmp_ord x y = (if x < y then Less else if x = y then Equal else Greater)"

fun insert_by :: "('a \<Rightarrow> 'a \<Rightarrow> ordering) \<Rightarrow> 'a \<Rightarrow> 'a list \<Rightarrow> 'a list" where
  "insert_by cmp x [] = [x]"
| "insert_by cmp x (y # ys) = (if cmp x y = Greater then y # insert_by cmp x ys else x # y # ys)"

definition sort_by :: "('a \<Rightarrow> 'a \<Rightarrow> ordering) \<Rightarrow> 'a list \<Rightarrow> 'a list" where
  "sort_by cmp xs = foldr (insert_by cmp) xs []"

lemma mset_insert_by [simp]: "mset (insert_by cmp x ys) = add_mset x (mset ys)"
  by (induction ys) auto

lemma mset_sort_by [simp]: "mset (sort_by cmp xs) = mset xs"
  by (induction xs) (auto simp: sort_by_def)

lemma set_sort_by [simp]: "set (sort_by cmp xs) = set xs"
  using mset_sort_by [of cmp xs] by (metis set_mset_mset)

lemma sort_by_Nil_iff [simp]: "sort_by cmp xs = [] \<longleftrightarrow> xs = []"
  using mset_sort_by [of cmp xs] by (metis mset_zero_iff)

text \<open>
  The contract of a lawful comparator: it compares some key of a linear order.  Under it the sort is
  the stable sort by that key and its first element is minimal.
\<close>

locale keyed_comparator =
  fixes cmp :: "'a \<Rightarrow> 'a \<Rightarrow> ordering" and key :: "'a \<Rightarrow> 'b::linorder"
  assumes keyed: "cmp x y = cmp_ord (key x) (key y)"
begin

lemma insert_by_insort: "insert_by cmp x ys = insort_key key x ys"
  by (induction ys) (auto simp: keyed cmp_ord_def split: if_splits)

lemma sort_by_sort_key: "sort_by cmp xs = sort_key key xs"
  by (induction xs) (auto simp: sort_by_def insert_by_insort)

lemma sorted_by: "sorted (map key (sort_by cmp xs))"
  by (simp add: sort_by_sort_key)

lemma first_minimal:
  "first (sort_by cmp xs) = Some y \<Longrightarrow> x \<in> set xs \<Longrightarrow> key y \<le> key x"
  unfolding sort_by_sort_key by (rule first_sort_key_minimal)

lemma never_greater: "first (sort_by cmp xs) = Some y \<Longrightarrow> x \<in> set xs \<Longrightarrow> cmp y x \<noteq> Greater"
  using first_minimal [of xs y x] by (auto simp: keyed cmp_ord_def)

end

lemma cmp_ord_pair:
  "then_with (cmp_ord a b) (cmp_ord c d) = cmp_ord (a, c) (b, d)"
  by (auto simp: cmp_ord_def)

end
