(* ===== verification/Route_Config.thy ===== *)
theory Route_Config
  imports Snapshot Availability Quota
begin

text \<open>
  Routing configuration: \<open>src/config/routing_policy.rs\<close> (candidates, task rules, the policy, its
  merge with the canonical policy and the per-job-kind allow-lists), the backend-instance registry
  of \<open>src/config/backend_instances.rs\<close>, and the quota-pool derivation of \<open>src/availability.rs\<close> and
  \<open>src/availability/agy.rs\<close>.

  A \<open>HashMap\<close> is an association list with one entry per key; the order of the list stands for the
  map's iteration order.  Finite \<open>f64\<close> prices are \<open>rat\<close>.  The cached AGY inventory is a parameter
  (\<open>agy_catalog\<close>): the code obtains it by running an external program.
\<close>

subsection \<open>Configuration data\<close>

record candidate_config =
  cc_backend :: rust_str
  cc_instance :: "rust_str option"
  cc_model :: "rust_str option"
  cc_quota_pool :: "rust_str option"
  cc_priority :: int
  cc_included_in_quota :: bool
  cc_marginal_cost :: "rat option"
  cc_requires_approval :: bool

record task_routing_rule =
  tr_modes :: "rust_str list"
  tr_task_classes :: "rust_str list"
  tr_difficulties :: "rust_str list"
  tr_risks :: "rust_str list"
  tr_candidates :: "candidate_config list"

record backend_instance_config =
  bi_runner_kind :: rust_str
  bi_enabled :: "bool option"
  bi_logical_backend :: "rust_str option"
  bi_executable :: "rust_str option"
  bi_resolve_from_path :: "bool option"
  bi_state_root :: "rust_str option"
  bi_account_label :: "rust_str option"
  bi_auth_source_label :: "rust_str option"
  bi_credential_id :: "rust_str option"
  bi_quota_pool :: "rust_str option"
  bi_supported_models :: "rust_str list"

record routing_policy =
  rp_agy_path :: "rust_str option"
  rp_agy_second_home :: "rust_str option"
  rp_backend_instances :: "(rust_str \<times> backend_instance_config) list"
  rp_quota_sources :: "(rust_str \<times> rust_str) list"
  rp_default_backend :: "rust_str option"
  rp_default_model :: "rust_str option"
  rp_pm_backend :: "rust_str option"
  rp_pm_model :: "rust_str option"
  rp_improve_backend :: "rust_str option"
  rp_improve_model :: "rust_str option"
  rp_review_backend :: "rust_str option"
  rp_review_model :: "rust_str option"
  rp_strong_review_backend :: "rust_str option"
  rp_strong_review_model :: "rust_str option"
  rp_weak_review_backend :: "rust_str option"
  rp_weak_review_model :: "rust_str option"
  rp_routine_reviewer :: "candidate_config option"
  rp_escalatory_reviewers :: "candidate_config list"
  rp_review_required_capabilities :: "(rust_str \<times> rust_str list) list"
  rp_pm_candidates :: "candidate_config list option"
  rp_improve_candidates :: "candidate_config list option"
  rp_pm_guidance_paths :: "rust_str list"
  rp_task_routing_rules :: "task_routing_rule list"
  rp_review_candidates :: "candidate_config list option"
  rp_allow_review_fallback :: bool
  rp_allow_implementation_fallback :: bool
  rp_max_runs_week :: "nat option"
  rp_max_runs_session :: "nat option"
  rp_max_strong_week :: "nat option"
  rp_max_strong_session :: "nat option"
  rp_max_estimated_cost_week :: "rat option"
  rp_max_actual_cost_week :: "rat option"
  rp_max_review_cycles :: "nat option"
  rp_max_fix_attempts :: "nat option"
  rp_max_paid_reviews :: "nat option"
  rp_max_implementation_failures :: "nat option"
  rp_merge_policy :: "merge_policy option"
  rp_allowed_models :: "(rust_str \<times> candidate_config list) list"
  rp_hold_contract_changes :: "bool option"
  rp_issue_budget :: issue_budget

subsection \<open>Maps\<close>

definition map_insert :: "'k \<Rightarrow> 'v \<Rightarrow> ('k \<times> 'v) list \<Rightarrow> ('k \<times> 'v) list" where
  "map_insert k v m = filter (\<lambda>(k', _). k' \<noteq> k) m @ [(k, v)]"

definition map_extend :: "('k \<times> 'v) list \<Rightarrow> ('k \<times> 'v) list \<Rightarrow> ('k \<times> 'v) list" where
  "map_extend m kvs = fold (\<lambda>(k, v). map_insert k v) kvs m"

lemma map_of_map_insert [simp]: "map_of (map_insert k v m) = (map_of m)(k \<mapsto> v)"
  by (induction m) (auto simp: map_insert_def fun_eq_iff)

lemma map_of_map_extend: "map_of (map_extend m kvs) k = map_of (rev kvs @ m) k"
proof (induction kvs arbitrary: m)
  case Nil
  then show ?case by (simp add: map_extend_def)
next
  case (Cons kv kvs)
  then show ?case
    by (cases kv) (simp add: map_extend_def map_add_def split: option.split)
qed

subsection \<open>Merging\<close>

definition merge_instance :: "backend_instance_config \<Rightarrow> backend_instance_config \<Rightarrow> backend_instance_config" where
  "merge_instance canonical project =
     \<lparr> bi_runner_kind = (if bi_runner_kind project = [] then bi_runner_kind canonical
                         else bi_runner_kind project),
       bi_enabled = opt_or (bi_enabled project) (bi_enabled canonical),
       bi_logical_backend = opt_or (bi_logical_backend project) (bi_logical_backend canonical),
       bi_executable = opt_or (bi_executable project) (bi_executable canonical),
       bi_resolve_from_path = opt_or (bi_resolve_from_path project) (bi_resolve_from_path canonical),
       bi_state_root = opt_or (bi_state_root project) (bi_state_root canonical),
       bi_account_label = opt_or (bi_account_label project) (bi_account_label canonical),
       bi_auth_source_label = opt_or (bi_auth_source_label project) (bi_auth_source_label canonical),
       bi_credential_id = opt_or (bi_credential_id project) (bi_credential_id canonical),
       bi_quota_pool = opt_or (bi_quota_pool project) (bi_quota_pool canonical),
       bi_supported_models = (if bi_supported_models project = [] then bi_supported_models canonical
                              else bi_supported_models project) \<rparr>"

definition merge_instance_maps ::
  "(rust_str \<times> backend_instance_config) list \<Rightarrow> (rust_str \<times> backend_instance_config) list
   \<Rightarrow> (rust_str \<times> backend_instance_config) list" where
  "merge_instance_maps canonical project =
     fold (\<lambda>(name, p) m. map_insert name
             (case map_of m name of Some c \<Rightarrow> merge_instance c p | None \<Rightarrow> p) m) project canonical"

definition merged_quota_sources ::
  "routing_policy \<Rightarrow> (rust_str \<times> rust_str) list \<Rightarrow> (rust_str \<times> rust_str) list" where
  "merged_quota_sources p canonical = map_extend canonical (rp_quota_sources p)"

text \<open>A profile list replaces the canonical list of its job kind; an empty one is no list.\<close>

definition kind_of_key :: "rust_str \<Rightarrow> job_kind option" where
  "kind_of_key key = (case job_kind_parse key of Inr k \<Rightarrow> Some k | Inl _ \<Rightarrow> None)"

definition merge_allowed_models ::
  "(rust_str \<times> candidate_config list) list \<Rightarrow> (rust_str \<times> candidate_config list) list
   \<Rightarrow> (rust_str \<times> candidate_config list) list" where
  "merge_allowed_models canonical repo =
     (let repo_lists = filter (\<lambda>(_, list). list \<noteq> []) repo;
          repo_kinds = List.map_filter (\<lambda>(key, _). kind_of_key key) repo_lists
      in map_extend
           (filter (\<lambda>(key, _). case kind_of_key key of None \<Rightarrow> True | Some k \<Rightarrow> k \<notin> set repo_kinds)
                   canonical)
           repo_lists)"

definition if_empty :: "'a list \<Rightarrow> 'a list \<Rightarrow> 'a list" where
  "if_empty xs ys = (if xs = [] then ys else xs)"

definition merge_routing_policy :: "routing_policy \<Rightarrow> routing_policy \<Rightarrow> routing_policy" where
  "merge_routing_policy canonical repo =
     \<lparr> rp_agy_path = rp_agy_path repo,
       rp_agy_second_home = rp_agy_second_home repo,
       rp_backend_instances =
         merge_instance_maps (rp_backend_instances canonical) (rp_backend_instances repo),
       rp_quota_sources = merged_quota_sources repo (rp_quota_sources canonical),
       rp_default_backend = opt_or (rp_default_backend repo) (rp_default_backend canonical),
       rp_default_model = opt_or (rp_default_model repo) (rp_default_model canonical),
       rp_pm_backend = opt_or (rp_pm_backend repo) (rp_pm_backend canonical),
       rp_pm_model = opt_or (rp_pm_model repo) (rp_pm_model canonical),
       rp_improve_backend = opt_or (rp_improve_backend repo) (rp_improve_backend canonical),
       rp_improve_model = opt_or (rp_improve_model repo) (rp_improve_model canonical),
       rp_review_backend = opt_or (rp_review_backend repo) (rp_review_backend canonical),
       rp_review_model = opt_or (rp_review_model repo) (rp_review_model canonical),
       rp_strong_review_backend =
         opt_or (rp_strong_review_backend repo) (rp_strong_review_backend canonical),
       rp_strong_review_model = opt_or (rp_strong_review_model repo) (rp_strong_review_model canonical),
       rp_weak_review_backend = opt_or (rp_weak_review_backend repo) (rp_weak_review_backend canonical),
       rp_weak_review_model = opt_or (rp_weak_review_model repo) (rp_weak_review_model canonical),
       rp_routine_reviewer = opt_or (rp_routine_reviewer repo) (rp_routine_reviewer canonical),
       rp_escalatory_reviewers =
         if_empty (rp_escalatory_reviewers repo) (rp_escalatory_reviewers canonical),
       rp_review_required_capabilities =
         map_extend (rp_review_required_capabilities canonical) (rp_review_required_capabilities repo),
       rp_pm_candidates = opt_or (rp_pm_candidates repo) (rp_pm_candidates canonical),
       rp_improve_candidates = opt_or (rp_improve_candidates repo) (rp_improve_candidates canonical),
       rp_pm_guidance_paths = if_empty (rp_pm_guidance_paths repo) (rp_pm_guidance_paths canonical),
       rp_task_routing_rules = if_empty (rp_task_routing_rules repo) (rp_task_routing_rules canonical),
       rp_review_candidates = opt_or (rp_review_candidates repo) (rp_review_candidates canonical),
       rp_allow_review_fallback = (rp_allow_review_fallback repo \<or> rp_allow_review_fallback canonical),
       rp_allow_implementation_fallback =
         (rp_allow_implementation_fallback repo \<or> rp_allow_implementation_fallback canonical),
       rp_max_runs_week = opt_or (rp_max_runs_week repo) (rp_max_runs_week canonical),
       rp_max_runs_session = opt_or (rp_max_runs_session repo) (rp_max_runs_session canonical),
       rp_max_strong_week = opt_or (rp_max_strong_week repo) (rp_max_strong_week canonical),
       rp_max_strong_session = opt_or (rp_max_strong_session repo) (rp_max_strong_session canonical),
       rp_max_estimated_cost_week =
         opt_or (rp_max_estimated_cost_week repo) (rp_max_estimated_cost_week canonical),
       rp_max_actual_cost_week =
         opt_or (rp_max_actual_cost_week repo) (rp_max_actual_cost_week canonical),
       rp_max_review_cycles = opt_or (rp_max_review_cycles repo) (rp_max_review_cycles canonical),
       rp_max_fix_attempts = opt_or (rp_max_fix_attempts repo) (rp_max_fix_attempts canonical),
       rp_max_paid_reviews = opt_or (rp_max_paid_reviews repo) (rp_max_paid_reviews canonical),
       rp_max_implementation_failures =
         opt_or (rp_max_implementation_failures repo) (rp_max_implementation_failures canonical),
       rp_merge_policy = opt_or (rp_merge_policy repo) (rp_merge_policy canonical),
       rp_allowed_models = merge_allowed_models (rp_allowed_models canonical) (rp_allowed_models repo),
       rp_hold_contract_changes =
         opt_or (rp_hold_contract_changes repo) (rp_hold_contract_changes canonical),
       rp_issue_budget = merged_with (rp_issue_budget repo) (rp_issue_budget canonical) \<rparr>"

subsection \<open>Budgets of the policy\<close>

definition max_fix_attempts_per_mr :: "routing_policy \<Rightarrow> nat" where
  "max_fix_attempts_per_mr p = unwrap_or (rp_max_fix_attempts p) 2"

definition max_review_cycles_per_ticket :: "routing_policy \<Rightarrow> nat" where
  "max_review_cycles_per_ticket p =
     unwrap_or (rp_max_review_cycles p) (saturating_add_u32 (max_fix_attempts_per_mr p) 1)"

definition max_paid_reviews_per_ticket :: "routing_policy \<Rightarrow> nat" where
  "max_paid_reviews_per_ticket p = unwrap_or (rp_max_paid_reviews p) 3"

definition max_implementation_failures_per_ticket :: "routing_policy \<Rightarrow> nat" where
  "max_implementation_failures_per_ticket p = unwrap_or (rp_max_implementation_failures p) 8"

definition hold_contract_changes_for_human_review :: "routing_policy \<Rightarrow> bool" where
  "hold_contract_changes_for_human_review p = unwrap_or (rp_hold_contract_changes p) True"

definition default_candidate :: candidate_config where
  "default_candidate = \<lparr> cc_backend = [], cc_instance = None, cc_model = None, cc_quota_pool = None,
     cc_priority = 0, cc_included_in_quota = False, cc_marginal_cost = None,
     cc_requires_approval = False \<rparr>"

definition effective_routine_reviewer :: "routing_policy \<Rightarrow> candidate_config option" where
  "effective_routine_reviewer p =
     (case rp_routine_reviewer p of
        Some r \<Rightarrow> Some r
      | None \<Rightarrow> map_option (\<lambda>b. default_candidate\<lparr> cc_backend := b, cc_model := rp_strong_review_model p \<rparr>)
                  (rp_strong_review_backend p))"

definition effective_escalatory_reviewers :: "routing_policy \<Rightarrow> candidate_config list" where
  "effective_escalatory_reviewers p =
     (if rp_escalatory_reviewers p \<noteq> [] then rp_escalatory_reviewers p
      else (case rp_weak_review_backend p of
              Some b \<Rightarrow> [default_candidate\<lparr> cc_backend := b, cc_model := rp_weak_review_model p \<rparr>]
            | None \<Rightarrow> []))"

subsection \<open>Allow-lists\<close>

text \<open>The list of one kind (the closure of \<open>allowed_models_for\<close>).\<close>

definition kind_list :: "routing_policy \<Rightarrow> job_kind \<Rightarrow> candidate_config list option" where
  "kind_list p k =
     map_option snd (List.find (\<lambda>(key, list). kind_of_key key = Some k \<and> list \<noteq> [])
                       (rp_allowed_models p))"

definition allowed_models_for :: "routing_policy \<Rightarrow> rust_str \<Rightarrow> candidate_config list option" where
  "allowed_models_for p mode =
     (case kind_of_key mode of
        None \<Rightarrow> None
      | Some k \<Rightarrow> opt_or (kind_list p k) (if k = Fix then kind_list p Improve else None))"

definition allowed_entry ::
  "routing_policy \<Rightarrow> rust_str \<Rightarrow> rust_str \<Rightarrow> rust_str option \<Rightarrow> candidate_config option" where
  "allowed_entry p mode backend model =
     Option.bind (allowed_models_for p mode) (\<lambda>list.
       let on_backend = filter (\<lambda>e. cc_backend e = backend) list
       in opt_or (List.find (\<lambda>e. cc_model e = model) on_backend)
                 (List.find (\<lambda>e. cc_model e = None) on_backend))"

definition allows_model :: "routing_policy \<Rightarrow> rust_str \<Rightarrow> rust_str \<Rightarrow> rust_str option \<Rightarrow> bool" where
  "allows_model p mode backend model =
     (allowed_models_for p mode = None \<or> is_some (allowed_entry p mode backend model))"

definition allows_candidate :: "routing_policy \<Rightarrow> rust_str \<Rightarrow> candidate_config \<Rightarrow> bool" where
  "allows_candidate p mode c =
     (case allowed_models_for p mode of
        None \<Rightarrow> True
      | Some list \<Rightarrow>
          list_ex (\<lambda>e. cc_backend e = cc_backend c
                       \<and> (cc_model e = None \<or> cc_model e = cc_model c)
                       \<and> (cc_instance e = None \<or> cc_instance e = cc_instance c)) list)"

datatype allow_list_error =
    UnknownJobKindKey rust_str
  | RepeatedKind rust_str job_kind
  | UndeclaredInstance rust_str rust_str

text \<open>The keys are visited in sorted order; \<open>seen\<close> holds the kinds met so far.\<close>

definition entry_errors :: "routing_policy \<Rightarrow> rust_str \<Rightarrow> candidate_config \<Rightarrow> allow_list_error list" where
  "entry_errors p key e =
     (case cc_instance e of
        Some inst \<Rightarrow> if map_of (rp_backend_instances p) inst = None
                     then [UndeclaredInstance key inst] else []
      | None \<Rightarrow> [])"

fun allow_list_scan ::
  "routing_policy \<Rightarrow> job_kind list \<Rightarrow> (rust_str \<times> candidate_config list) list \<Rightarrow> allow_list_error list" where
  "allow_list_scan p seen [] = []"
| "allow_list_scan p seen ((key, list) # rest) =
     (let own = concat (map (entry_errors p key) list)
      in case job_kind_parse key of
           Inl _ \<Rightarrow> UnknownJobKindKey key # own @ allow_list_scan p seen rest
         | Inr k \<Rightarrow> if k \<in> set seen then RepeatedKind key k # own @ allow_list_scan p seen rest
                     else own @ allow_list_scan p (seen @ [k]) rest)"

definition allowed_model_errors :: "routing_policy \<Rightarrow> allow_list_error list" where
  "allowed_model_errors p = allow_list_scan p [] (sort_key fst (rp_allowed_models p))"

subsection \<open>Instances and executables\<close>

definition instance_enabled :: "backend_instance_config \<Rightarrow> bool" where
  "instance_enabled i = unwrap_or (bi_enabled i) True"

definition resolves_from_path :: "backend_instance_config \<Rightarrow> bool" where
  "resolves_from_path i = unwrap_or (bi_resolve_from_path i) False"

datatype executable_resolution =
  Found rust_str | MissingExplicitPath rust_str | MissingFromPath rust_str | UnknownBackend rust_str

text \<open>\<open>is_exec\<close> and \<open>on_path\<close> are the file-system tests \<open>is_executable_path\<close> and
  \<open>resolve_executable_on_path\<close>.\<close>

definition resolve_backend_instance_executable ::
  "(rust_str \<Rightarrow> bool) \<Rightarrow> (rust_str \<Rightarrow> rust_str option) \<Rightarrow> backend_instance_config \<Rightarrow> executable_resolution" where
  "resolve_backend_instance_executable is_exec on_path i =
     (case opt_filter (\<lambda>path. trim path \<noteq> []) (bi_executable i) of
        Some path \<Rightarrow> if is_exec path then Found path else MissingExplicitPath path
      | None \<Rightarrow>
          if resolves_from_path i
          then (case on_path (bi_runner_kind i) of
                  Some path \<Rightarrow> Found path
                | None \<Rightarrow> MissingFromPath (bi_runner_kind i))
          else MissingExplicitPath [])"

subsection \<open>Quota pools\<close>

type_synonym agy_catalog = "rust_str \<Rightarrow> rust_str option"

text \<open>The fallback rules of \<open>agyPoolIdentity.json\<close> without observed buckets: the first rule whose
  model prefix matches; the last rule has the empty prefix.\<close>

definition pool_identity :: "rust_str \<Rightarrow> rust_str" where
  "pool_identity model =
     (if starts_with ''gemini'' (to_ascii_lowercase (trim model)) then ''google-native'' else ''external'')"

definition catalog_pool :: "agy_catalog \<Rightarrow> rust_str \<Rightarrow> rust_str \<Rightarrow> rust_str" where
  "catalog_pool catalog account model =
     account @ '':'' @ unwrap_or (catalog model) (pool_identity model)"

definition derive_quota_pool ::
  "rust_str \<Rightarrow> rust_str option \<Rightarrow> agy_catalog option \<Rightarrow> rust_str option" where
  "derive_quota_pool backend model catalog =
     (case agy_account backend of
        None \<Rightarrow> None
      | Some account \<Rightarrow>
          (case map_option trim model of
             None \<Rightarrow> None
           | Some m \<Rightarrow> if m = [] then None
                       else Some (catalog_pool (unwrap_or catalog (\<lambda>_. None)) account m)))"

definition resolve_candidate_quota_pool ::
  "rust_str \<Rightarrow> rust_str option \<Rightarrow> rust_str option \<Rightarrow> agy_catalog option \<Rightarrow> rust_str option" where
  "resolve_candidate_quota_pool backend model configured catalog =
     (case configured of
        Some pool \<Rightarrow>
          (if CHR '':'' \<notin> set pool
              \<and> is_some_and (agy_account backend) (\<lambda>account. pool = account \<or> pool = backend)
              \<and> is_some model
           then opt_or (derive_quota_pool backend model catalog) (Some pool)
           else Some pool)
      | None \<Rightarrow> derive_quota_pool backend model catalog)"

definition candidate_quota_pool ::
  "(rust_str \<Rightarrow> rust_str option \<Rightarrow> agy_catalog) \<Rightarrow> routing_policy \<Rightarrow> rust_str \<Rightarrow> rust_str option
   \<Rightarrow> rust_str option \<Rightarrow> rust_str option" where
  "candidate_quota_pool agy_catalog p backend model configured =
     (let inst = map_of (rp_backend_instances p) backend;
          executable = unwrap_or (opt_or (Option.bind inst bi_executable) (rp_agy_path p)) ''agy'';
          home = opt_or (Option.bind inst bi_state_root)
                        (if backend = ''agy-second'' then rp_agy_second_home p else None)
      in resolve_candidate_quota_pool backend model configured
           (if is_some (agy_account backend) \<and> is_some model
            then Some (agy_catalog executable home) else None))"

definition family_candidates :: "routing_policy \<Rightarrow> rust_str \<Rightarrow> candidate_config list option" where
  "family_candidates p mode =
     (case map_option family (kind_of_key mode) of
        Some FamilyPm \<Rightarrow> rp_pm_candidates p
      | Some FamilyReview \<Rightarrow> rp_review_candidates p
      | Some ImproveLike \<Rightarrow> rp_improve_candidates p
      | _ \<Rightarrow> None)"

definition configured_quota_pool ::
  "candidate_config list \<Rightarrow> rust_str \<Rightarrow> rust_str option \<Rightarrow> rust_str option" where
  "configured_quota_pool list backend model =
     Option.bind (List.find (\<lambda>c. cc_backend c = backend \<and> cc_model c = model) list) cc_quota_pool"

definition find_quota_pool ::
  "(rust_str \<Rightarrow> rust_str option \<Rightarrow> agy_catalog) \<Rightarrow> routing_policy \<Rightarrow> rust_str \<Rightarrow> rust_str
   \<Rightarrow> rust_str option \<Rightarrow> rust_str option" where
  "find_quota_pool agy_catalog p mode backend model =
     candidate_quota_pool agy_catalog p backend model
       (opt_or (Option.bind (allowed_entry p mode backend model) cc_quota_pool)
               (Option.bind (family_candidates p mode) (\<lambda>l. configured_quota_pool l backend model)))"

subsection \<open>Execution identity of a configured candidate\<close>

text \<open>What the code asks of its surroundings when it resolves a candidate.\<close>

record identity_env =
  ie_is_exec :: "rust_str \<Rightarrow> bool"
  ie_on_path :: "rust_str \<Rightarrow> rust_str option"
  ie_agy_catalog :: "rust_str \<Rightarrow> rust_str option \<Rightarrow> agy_catalog"

definition quota_source :: "routing_policy \<Rightarrow> execution_identity \<Rightarrow> rust_str option" where
  "quota_source p i = Option.bind (ei_quota_pool i) (map_of (rp_quota_sources p))"

definition bind_instance ::
  "identity_env \<Rightarrow> candidate_config \<Rightarrow> rust_str \<Rightarrow> backend_instance_config \<Rightarrow> execution_identity
   \<Rightarrow> execution_identity" where
  "bind_instance env c name inst i =
     (let exe = (case resolve_backend_instance_executable (ie_is_exec env) (ie_on_path env) inst of
                   Found path \<Rightarrow> path
                 | MissingExplicitPath path \<Rightarrow> path
                 | MissingFromPath _ \<Rightarrow> []
                 | UnknownBackend _ \<Rightarrow> []);
          pool = opt_or (cc_quota_pool c) (opt_or (bi_quota_pool inst) (ei_quota_pool i));
          pool' = (if bi_runner_kind inst = ''agy'' \<and> cc_quota_pool c = None \<and> bi_quota_pool inst = None
                   then (case cc_model c of
                           Some m \<Rightarrow> Some (catalog_pool (ie_agy_catalog env exe (bi_state_root inst)) name m)
                         | None \<Rightarrow> pool)
                   else pool)
      in i\<lparr> ei_runner_kind := bi_runner_kind inst,
            ei_logical_backend := unwrap_or (bi_logical_backend inst) (cc_backend c),
            ei_executable := Some exe,
            ei_state_root := bi_state_root inst,
            ei_account_label := bi_account_label inst,
            ei_auth_source_label := bi_auth_source_label inst,
            ei_credential_id := bi_credential_id inst,
            ei_quota_pool := pool' \<rparr>)"

definition execution_identity_for_candidate ::
  "identity_env \<Rightarrow> routing_policy \<Rightarrow> candidate_config \<Rightarrow> execution_identity" where
  "execution_identity_for_candidate env p c =
     (let configured = opt_or (cc_quota_pool c)
            (Option.bind (Option.bind (cc_instance c) (map_of (rp_backend_instances p))) bi_quota_pool);
          pool = (if is_some (cc_instance c) then configured
                  else candidate_quota_pool (ie_agy_catalog env) p (cc_backend c) (cc_model c) configured);
          base = legacy_candidate (cc_backend c) (cc_model c) pool;
          i = (case cc_instance c of
                 None \<Rightarrow> base
               | Some name \<Rightarrow>
                   (let j = base\<lparr> ei_backend_instance := name, ei_explicit_instance := True,
                                  ei_runner_kind := ''unknown_instance'', ei_executable := Some [] \<rparr>
                    in case map_of (rp_backend_instances p) name of
                         None \<Rightarrow> j
                       | Some inst \<Rightarrow> bind_instance env c name inst j))
      in i\<lparr> ei_quota_source := quota_source p i \<rparr>)"

text \<open>
  An explicit instance is authoritative: the identity carries its name, and an undeclared instance
  keeps the empty executable path, on which no file-system test can succeed.
\<close>

lemma explicit_identity:
  assumes "cc_instance c = Some name"
  shows "ei_explicit_instance (execution_identity_for_candidate env p c)"
    and "ei_backend_instance (execution_identity_for_candidate env p c) = name"
    and "ei_effective_model (execution_identity_for_candidate env p c) = cc_model c"
  using assms
  by (auto simp: execution_identity_for_candidate_def bind_instance_def legacy_candidate_def Let_def
           split: option.split)

lemma undeclared_instance_has_no_executable:
  assumes "cc_instance c = Some name" "map_of (rp_backend_instances p) name = None"
  shows "ei_executable (execution_identity_for_candidate env p c) = Some []"
  using assms by (simp add: execution_identity_for_candidate_def Let_def)

lemma legacy_identity:
  assumes "cc_instance c = None"
  shows "\<not> ei_explicit_instance (execution_identity_for_candidate env p c)"
    and "ei_logical_backend (execution_identity_for_candidate env p c) = cc_backend c"
    and "ei_effective_model (execution_identity_for_candidate env p c) = cc_model c"
    and "ei_executable (execution_identity_for_candidate env p c) = None"
  using assms by (auto simp: execution_identity_for_candidate_def legacy_candidate_def Let_def)

lemma identity_model [simp]:
  "ei_effective_model (execution_identity_for_candidate env p c) = cc_model c"
  by (cases "cc_instance c") (simp_all add: explicit_identity legacy_identity)

subsection \<open>Effective routing\<close>

text \<open>Candidates bound to a Claude instance whose credential is a subscription token are billed to
  the subscription.  \<open>is_subscription\<close> is the credential store.\<close>

definition subscription_instances :: "(rust_str \<Rightarrow> bool) \<Rightarrow> routing_policy \<Rightarrow> rust_str list" where
  "subscription_instances is_subscription p =
     map fst (filter (\<lambda>(_, inst). bi_runner_kind inst = ''claude''
                                  \<and> is_some_and (bi_credential_id inst) is_subscription)
                     (rp_backend_instances p))"

definition as_subscription :: "rust_str list \<Rightarrow> candidate_config \<Rightarrow> candidate_config" where
  "as_subscription insts c =
     (if is_some_and (cc_instance c) (\<lambda>i. i \<in> set insts)
      then c\<lparr> cc_included_in_quota := True, cc_requires_approval := False, cc_marginal_cost := None \<rparr>
      else c)"

definition normalize_subscription_candidates ::
  "(rust_str \<Rightarrow> bool) \<Rightarrow> routing_policy \<Rightarrow> routing_policy" where
  "normalize_subscription_candidates is_subscription p =
     (let f = as_subscription (subscription_instances is_subscription p)
      in p\<lparr> rp_pm_candidates := map_option (map f) (rp_pm_candidates p),
            rp_improve_candidates := map_option (map f) (rp_improve_candidates p),
            rp_review_candidates := map_option (map f) (rp_review_candidates p),
            rp_routine_reviewer := map_option f (rp_routine_reviewer p),
            rp_escalatory_reviewers := map f (rp_escalatory_reviewers p),
            rp_task_routing_rules :=
              map (\<lambda>r. r\<lparr> tr_candidates := map f (tr_candidates r) \<rparr>) (rp_task_routing_rules p) \<rparr>)"

text \<open>The derived \<open>Default\<close> of a policy.\<close>

definition empty_policy :: routing_policy where
  "empty_policy =
     \<lparr> rp_agy_path = None, rp_agy_second_home = None, rp_backend_instances = [], rp_quota_sources = [],
       rp_default_backend = None, rp_default_model = None, rp_pm_backend = None, rp_pm_model = None,
       rp_improve_backend = None, rp_improve_model = None, rp_review_backend = None,
       rp_review_model = None, rp_strong_review_backend = None, rp_strong_review_model = None,
       rp_weak_review_backend = None, rp_weak_review_model = None, rp_routine_reviewer = None,
       rp_escalatory_reviewers = [], rp_review_required_capabilities = [], rp_pm_candidates = None,
       rp_improve_candidates = None, rp_pm_guidance_paths = [], rp_task_routing_rules = [],
       rp_review_candidates = None, rp_allow_review_fallback = False,
       rp_allow_implementation_fallback = False, rp_max_runs_week = None, rp_max_runs_session = None,
       rp_max_strong_week = None, rp_max_strong_session = None, rp_max_estimated_cost_week = None,
       rp_max_actual_cost_week = None, rp_max_review_cycles = None, rp_max_fix_attempts = None,
       rp_max_paid_reviews = None, rp_max_implementation_failures = None, rp_merge_policy = None,
       rp_allowed_models = [], rp_hold_contract_changes = None,
       rp_issue_budget = \<lparr> max_attempts = None, max_elapsed_minutes = None, max_manager_rounds = None,
                            cfg_escalation_reserve = None \<rparr> \<rparr>"

text \<open>The parts of a profile that routing reads.\<close>

record route_profile =
  pf_routing :: routing_policy
  pf_pacing :: pacing_config
  pf_max_concurrent_per_model :: "(rust_str \<times> nat) list"
  pf_codex_args :: "rust_str list"
  pf_opencode_args :: "rust_str list"
  pf_claude_args :: "rust_str list"
  pf_agy_path :: "rust_str option"
  pf_agy_second_home :: "rust_str option"

definition stored_routing :: "route_profile \<Rightarrow> routing_policy \<Rightarrow> routing_policy" where
  "stored_routing prof defaults = merge_routing_policy defaults (pf_routing prof)"

definition effective_routing ::
  "(rust_str \<Rightarrow> bool) \<Rightarrow> route_profile \<Rightarrow> routing_policy \<Rightarrow> routing_policy" where
  "effective_routing is_subscription prof defaults =
     normalize_subscription_candidates is_subscription
       ((stored_routing prof defaults)\<lparr> rp_agy_path := pf_agy_path prof,
          rp_agy_second_home := pf_agy_second_home prof \<rparr>)"

lemma effective_routing_allowed [simp]:
  "rp_allowed_models (effective_routing is_sub prof defaults)
     = merge_allowed_models (rp_allowed_models defaults) (rp_allowed_models (pf_routing prof))"
  by (simp add: effective_routing_def normalize_subscription_candidates_def stored_routing_def
      merge_routing_policy_def Let_def)

end
