(* ===== verification/Ordered_Map.thy ===== *)
theory Ordered_Map
  imports Gah_Prelude "HOL-Library.Option_ord"
begin

text \<open>
  \<open>BTreeMap\<close> as an association list in strictly increasing key order, and the two folds the stores
  run over their records: the last record with a greatest key, and the greatest value per group.
\<close>

subsection \<open>Ordered maps\<close>

fun omap_put :: "'k::linorder \<Rightarrow> 'v \<Rightarrow> ('k \<times> 'v) list \<Rightarrow> ('k \<times> 'v) list" where
  "omap_put k v [] = [(k, v)]"
| "omap_put k v ((k', v') # m) =
     (if k < k' then (k, v) # (k', v') # m
      else if k' < k then (k', v') # omap_put k v m
      else (k, v) # m)"

definition omap_ok :: "('k::linorder \<times> 'v) list \<Rightarrow> bool" where
  "omap_ok m = sorted_wrt (<) (map fst m)"

lemma omap_ok_simps [simp]:
  "omap_ok []" "omap_ok ((k, v) # m) \<longleftrightarrow> (\<forall>k' \<in> fst ` set m. k < k') \<and> omap_ok m"
  by (auto simp: omap_ok_def)

lemma map_of_omap_put [simp]: "map_of (omap_put k v m) = (map_of m)(k \<mapsto> v)"
  by (induction k v m rule: omap_put.induct) (auto simp: fun_eq_iff)

lemma keys_omap_put [simp]: "fst ` set (omap_put k v m) = insert k (fst ` set m)"
  by (induction k v m rule: omap_put.induct) auto

lemma omap_ok_put [simp]: "omap_ok m \<Longrightarrow> omap_ok (omap_put k v m)"
proof (induction k v m rule: omap_put.induct)
  case (2 k v k' v' m)
  then show ?case by (cases k k' rule: linorder_cases) (fastforce dest: less_trans)+
qed simp

lemma omap_ok_distinct: "omap_ok m \<Longrightarrow> distinct (map fst m)"
  by (simp add: omap_ok_def strict_sorted_iff)

text \<open>An ordered map is determined by its lookups.\<close>

lemma omap_eqI:
  assumes "omap_ok m" "omap_ok n" "map_of m = map_of n"
  shows "m = n"
proof (rule map_sorted_distinct_set_unique [where f = fst])
  have mem: "p \<in> set m \<longleftrightarrow> map_of m (fst p) = Some (snd p)" "p \<in> set n \<longleftrightarrow> map_of m (fst p) = Some (snd p)"
    for p using assms omap_ok_distinct [of m] omap_ok_distinct [of n]
    by (metis map_of_eq_Some_iff prod.collapse)+
  show "inj_on fst (set m \<union> set n)"
    by (auto simp: inj_on_def mem)
  show "sorted (map fst m)" "distinct (map fst m)" "sorted (map fst n)" "distinct (map fst n)"
    using assms by (auto simp: omap_ok_def strict_sorted_iff)
  show "set m = set n"
    by (auto simp: mem)
qed

lemma omap_mem_iff: "omap_ok m \<Longrightarrow> (k, v) \<in> set m \<longleftrightarrow> map_of m k = Some v"
  by (simp add: map_of_eq_Some_iff omap_ok_distinct)

lemma set_omap_put_subset: "set (omap_put k v m) \<subseteq> insert (k, v) (set m)"
  by (induction k v m rule: omap_put.induct) auto

lemma omap_ok_filter: "omap_ok m \<Longrightarrow> omap_ok (filter P m)"
  by (induction m) auto

lemma map_of_filter_key: "map_of (filter (\<lambda>(k, _). k \<noteq> k0) m) = (map_of m)(k0 := None)"
  by (induction m) (auto simp: fun_eq_iff)

subsection \<open>The last greatest element\<close>

text \<open>\<open>Iterator::max_by\<close> returns the last of several greatest elements.\<close>

definition later :: "('a \<Rightarrow> 'k::linorder) \<Rightarrow> 'a \<Rightarrow> 'a option \<Rightarrow> 'a option" where
  "later f x cur = (case cur of None \<Rightarrow> Some x | Some c \<Rightarrow> if f c \<le> f x then Some x else Some c)"

definition max_by_key :: "('a \<Rightarrow> 'k::linorder) \<Rightarrow> 'a list \<Rightarrow> 'a option" where
  "max_by_key f xs = fold (later f) xs None"

lemma max_by_key_Nil [simp]: "max_by_key f [] = None"
  by (simp add: max_by_key_def)

lemma max_by_key_snoc [simp]: "max_by_key f (xs @ [x]) = later f x (max_by_key f xs)"
  by (simp add: max_by_key_def)

lemma max_by_key_None_iff [simp]: "max_by_key f xs = None \<longleftrightarrow> xs = []"
  by (cases xs rule: rev_cases) (auto simp: later_def split: option.split)

lemma max_by_key_SomeD:
  "max_by_key f xs = Some x \<Longrightarrow>
   \<exists>us vs. xs = us @ x # vs \<and> (\<forall>u \<in> set us. f u \<le> f x) \<and> (\<forall>v \<in> set vs. f v < f x)"
proof (induction xs arbitrary: x rule: rev_induct)
  case (snoc y xs)
  show ?case
  proof (cases "max_by_key f xs")
    case None
    with snoc.prems show ?thesis by (force simp: later_def)
  next
    case (Some c)
    then obtain us vs where xs: "xs = us @ c # vs" "\<forall>u \<in> set us. f u \<le> f c" "\<forall>v \<in> set vs. f v < f c"
      using snoc.IH by blast
    show ?thesis
    proof (cases "f c \<le> f y")
      case True
      then have "x = y" using snoc.prems Some by (simp add: later_def)
      then have "\<forall>u \<in> set xs. f u \<le> f x" using xs True by fastforce
      then show ?thesis using \<open>x = y\<close> by fastforce
    next
      case False
      then have "x = c" using snoc.prems Some by (simp add: later_def)
      then have "xs @ [y] = us @ x # (vs @ [y])" "\<forall>v \<in> set (vs @ [y]). f v < f x" using xs False by auto
      then show ?thesis using xs \<open>x = c\<close> by blast
    qed
  qed
qed simp

lemma max_by_key_split:
  assumes "\<forall>u \<in> set us. f u \<le> f x" "\<forall>v \<in> set vs. f v < f x"
  shows "max_by_key f (us @ x # vs) = Some x"
  using assms(2)
proof (induction vs rule: rev_induct)
  case Nil
  have "later f x (max_by_key f us) = Some x"
    using assms(1) max_by_key_SomeD [of f us] by (fastforce simp: later_def split: option.split)
  then show ?case by simp
next
  case (snoc v vs)
  then show ?case
    using max_by_key_snoc [of f "us @ x # vs" v] by (auto simp: later_def)
qed

lemma max_by_key_greatest: "max_by_key f xs = Some x \<Longrightarrow> x \<in> set xs \<and> (\<forall>y \<in> set xs. f y \<le> f x)"
  by (drule max_by_key_SomeD) (auto simp: less_imp_le)

text \<open>Dropping elements other than the winner does not change the winner.\<close>

lemma max_by_key_filter_nths:
  assumes "xs = us @ x # vs" "length us \<in> I" "P x"
    and "\<forall>u \<in> set us. P u \<longrightarrow> f u \<le> f x" "\<forall>v \<in> set vs. P v \<longrightarrow> f v < f x"
  shows "max_by_key f (filter P (nths xs I)) = Some x"
proof -
  have "filter P (nths xs I) = filter P (nths us I) @ x # filter P (nths vs {j. j + Suc (length us) \<in> I})"
    using assms(1,2,3) by (simp add: nths_append nths_Cons)
  moreover have "\<forall>u \<in> set (filter P (nths us I)). f u \<le> f x"
    using assms(4) set_nths_subset by fastforce
  moreover have "\<forall>v \<in> set (filter P (nths vs J)). f v < f x" for J
    using assms(5) set_nths_subset by fastforce
  ultimately show ?thesis by (metis max_by_key_split)
qed

subsection \<open>The greatest value per group\<close>

definition put_max :: "'k \<Rightarrow> 'v::linorder \<Rightarrow> ('k \<rightharpoonup> 'v) \<Rightarrow> ('k \<rightharpoonup> 'v)" where
  "put_max k v m = m(k \<mapsto> (case m k of None \<Rightarrow> v | Some w \<Rightarrow> max w v))"

definition group_max :: "('a \<Rightarrow> ('k \<times> 'v::linorder) option) \<Rightarrow> 'a list \<Rightarrow> 'k \<rightharpoonup> 'v" where
  "group_max g xs =
     fold (\<lambda>x m. case g x of None \<Rightarrow> m | Some (k, v) \<Rightarrow> put_max k v m) xs Map.empty"

lemma group_max_Nil [simp]: "group_max g [] = Map.empty"
  by (simp add: group_max_def)

lemma group_max_snoc:
  "group_max g (xs @ [x]) = (case g x of None \<Rightarrow> group_max g xs | Some (k, v) \<Rightarrow> put_max k v (group_max g xs))"
  by (simp add: group_max_def split: option.split prod.split)

lemma group_max_None_iff: "group_max g xs k = None \<longleftrightarrow> (\<forall>x \<in> set xs. \<forall>v. g x \<noteq> Some (k, v))"
  by (induction xs rule: rev_induct) (auto simp: group_max_snoc put_max_def split: option.split)

lemma group_max_SomeD:
  "group_max g xs k = Some v \<Longrightarrow> (\<exists>x \<in> set xs. g x = Some (k, v)) \<and> (\<forall>x \<in> set xs. \<forall>w. g x = Some (k, w) \<longrightarrow> w \<le> v)"
proof (induction xs arbitrary: v rule: rev_induct)
  case (snoc x xs)
  show ?case
  proof (cases "g x")
    case None
    with snoc show ?thesis by (auto simp: group_max_snoc)
  next
    case (Some kv)
    obtain k' w where kv: "kv = (k', w)" by force
    show ?thesis
    proof (cases "k' = k")
      case False
      with snoc Some kv show ?thesis by (auto simp: group_max_snoc put_max_def)
    next
      case True
      show ?thesis
      proof (cases "group_max g xs k")
        case None
        with snoc.prems Some kv True show ?thesis
          by (auto simp: group_max_snoc put_max_def group_max_None_iff)
      next
        case (Some u)
        with snoc.prems \<open>g x = Some kv\<close> kv True have v: "v = max u w"
          by (simp add: group_max_snoc put_max_def)
        from snoc.IH [OF Some] v \<open>g x = Some kv\<close> kv True show ?thesis
          by (auto simp: max_def intro: order.trans)
      qed
    qed
  qed
qed simp

lemma group_max_eqI:
  assumes "x \<in> set xs" "g x = Some (k, v)" "\<And>y w. y \<in> set xs \<Longrightarrow> g y = Some (k, w) \<Longrightarrow> w \<le> v"
  shows "group_max g xs k = Some v"
proof -
  have "group_max g xs k \<noteq> None" using assms(1,2) by (auto simp: group_max_None_iff)
  then obtain u where u: "group_max g xs k = Some u" by blast
  from group_max_SomeD [OF u] assms show ?thesis
    using u by (metis order.antisym)
qed

text \<open>A sublist that still reaches every element of a group from above has the same greatest value.\<close>

lemma group_max_sublist:
  assumes "set ys \<subseteq> set xs"
    and "\<And>x v. x \<in> set xs \<Longrightarrow> g x = Some (k, v) \<Longrightarrow> \<exists>y \<in> set ys. \<exists>w. g y = Some (k, w) \<and> v \<le> w"
  shows "group_max g ys k = group_max g xs k"
proof (cases "group_max g xs k")
  case None
  then have "group_max g ys k = None" using assms(1) by (auto simp: group_max_None_iff)
  with None show ?thesis by simp
next
  case (Some v)
  from group_max_SomeD [OF Some] obtain x where x: "x \<in> set xs" "g x = Some (k, v)" by blast
  from assms(2) [OF this] obtain y w where y: "y \<in> set ys" "g y = Some (k, w)" "v \<le> w" by blast
  moreover from y assms(1) group_max_SomeD [OF Some] have "w \<le> v" by blast
  ultimately have "g y = Some (k, v)" by simp
  then have "group_max g ys k = Some v"
    using y(1) assms(1) group_max_SomeD [OF Some] by (intro group_max_eqI) auto
  with Some show ?thesis by simp
qed

end
