(* ===== verification/Quota_Store.thy ===== *)
theory Quota_Store
  imports Quota Availability Ordered_Map
begin

text \<open>
  The store of account quota readings (\<open>src/quota_store.rs\<close> with \<open>identity.rs\<close>, \<open>scope.rs\<close> and
  \<open>retention.rs\<close>), the account usage attached to a reading (\<open>src/usage/account_usage.rs\<close>) and the
  subscription capacity derived from the readings (\<open>src/routing/subscription.rs\<close>).

  The file is a list of lines, each a decoded record or malformed; JSON decoding, locks and the
  atomic rename are not modelled.  \<open>parse_ts\<close> and \<open>fmt_ts\<close> are the RFC 3339 functions of the \<open>time\<close>
  crate, \<open>redact\<close> the secret scrubber.
\<close>

subsection \<open>Records\<close>

datatype account_usage_type = UsageVibe | UsageVibeConnectors

datatype account_cost_source = DashboardPrices

record account_usage_model =
  um_model :: rust_str
  um_usage_type :: account_usage_type
  um_requests :: "nat option"
  um_input_tokens :: "nat option"
  um_cached_input_tokens :: "nat option"
  um_output_tokens :: "nat option"
  um_cost :: "rat option"

record account_usage_observation =
  au_account_id :: rust_str
  au_workspace_id :: "rust_str option"
  au_period_start :: rust_str
  au_period_end :: rust_str
  au_currency :: rust_str
  au_requests :: "nat option"
  au_input_tokens :: "nat option"
  au_cached_input_tokens :: "nat option"
  au_output_tokens :: "nat option"
  au_cost :: "rat option"
  au_cost_source :: "account_cost_source option"
  au_models :: "account_usage_model list"

record quota_observation =
  qo_backend :: rust_str
  qo_credential_id :: "rust_str option"
  qo_backend_instance :: "rust_str option"
  qo_model :: "rust_str option"
  qo_quota_pool :: "rust_str option"
  qo_window :: "rust_str option"
  qo_remaining :: "rat option"
  qo_reset_at :: "rust_str option"
  qo_observed_at :: "rust_str option"
  qo_checked_at :: "rust_str option"
  qo_check_error :: "rust_str option"
  qo_usage_source :: "rust_str option"
  qo_account_usage :: "account_usage_observation option"

text \<open>The wire form also carries the used percentage.\<close>

record quota_observation_raw = quota_observation +
  qr_used :: "rat option"

definition in_percent :: "rat \<Rightarrow> bool" where
  "in_percent v = (0 \<le> v \<and> v \<le> 100)"

definition from_raw :: "quota_observation_raw \<Rightarrow> quota_observation" where
  "from_raw raw =
     quota_observation.truncate
       (raw\<lparr> qo_remaining := opt_or (qo_remaining raw)
               (map_option (\<lambda>used. f64_round (100 - used)) (opt_filter in_percent (qr_used raw))) \<rparr>)"

definition has_quota_data :: "quota_observation \<Rightarrow> bool" where
  "has_quota_data r =
     (is_some (qo_remaining r) \<or> is_some (qo_window r) \<or> is_some (qo_reset_at r)
      \<or> is_some (qo_account_usage r))"

subsection \<open>Account usage\<close>

text \<open>\<open>char::is_control\<close> on UTF-8 bytes: C0, DEL and C1.\<close>

fun has_control :: "rust_str \<Rightarrow> bool" where
  "has_control [] = False"
| "has_control (a # s) =
     (byte a < 32 \<or> byte a = 127
      \<or> (case s of b # _ \<Rightarrow> byte a = 194 \<and> 128 \<le> byte b \<and> byte b \<le> 159 | [] \<Rightarrow> False)
      \<or> has_control s)"

definition usage_text :: "rust_str \<Rightarrow> nat \<Rightarrow> bool" where
  "usage_text value limit = (value \<noteq> [] \<and> length value \<le> limit \<and> \<not> has_control value)"

definition metrics_ok :: "nat option list \<Rightarrow> rat option \<Rightarrow> bool" where
  "metrics_ok counters cost =
     (list_all (\<lambda>c. \<not> is_some_and c (\<lambda>n. 9007199254740991 < n)) counters
      \<and> \<not> is_some_and cost (\<lambda>v. v < 0))"

definition usage_model_ok :: "account_usage_model \<Rightarrow> bool" where
  "usage_model_ok m =
     (usage_text (um_model m) 512
      \<and> metrics_ok [um_requests m, um_input_tokens m, um_cached_input_tokens m, um_output_tokens m]
          (um_cost m))"

definition usage_validate :: "(rust_str \<Rightarrow> int option) \<Rightarrow> account_usage_observation \<Rightarrow> bool" where
  "usage_validate parse_ts u =
     (case (parse_ts (au_period_start u), parse_ts (au_period_end u)) of
        (Some start, Some stop) \<Rightarrow>
          start < stop \<and> au_currency u = ''USD'' \<and> usage_text (au_account_id u) 256
          \<and> \<not> is_some_and (au_workspace_id u) (\<lambda>w. \<not> usage_text w 256)
          \<and> length (au_models u) \<le> 128
          \<and> metrics_ok [au_requests u, au_input_tokens u, au_cached_input_tokens u, au_output_tokens u]
              (au_cost u)
          \<and> ((is_some (au_cost u) \<or> list_ex (\<lambda>m. is_some (um_cost m)) (au_models u))
             \<longrightarrow> is_some (au_cost_source u))
          \<and> list_all usage_model_ok (au_models u)
      | _ \<Rightarrow> False)"

subsection \<open>Loading, external readings and appending\<close>

datatype quota_store_error =
    ParseJson | NotAnObject | UnsupportedField | InvalidSchema | InvalidUsage
  | InvalidLabel rust_str | SurroundingWhitespace rust_str | MissingIdentity | PercentOutOfRange
  | BadTimestamp | InvalidText rust_str | MissingObservedAt | StoreIo | ExportFailed

text \<open>\<open>Unreadable\<close> is a path that can be neither read nor written.\<close>

datatype quota_file = Absent | Unreadable | Lines "quota_observation option list"

definition canonical_observation :: "quota_observation \<Rightarrow> quota_observation" where
  "canonical_observation r = r\<lparr> qo_backend := canonical_backend_name (qo_backend r) \<rparr>"

definition load :: "quota_file \<Rightarrow> (quota_store_error, quota_observation list) rust_result" where
  "load file =
     (case file of
        Absent \<Rightarrow> Inr []
      | Unreadable \<Rightarrow> Inl StoreIo
      | Lines ls \<Rightarrow> Inr (List.map_filter (map_option canonical_observation) ls))"

definition load_account_observations :: "quota_file \<Rightarrow> quota_observation list" where
  "load_account_observations file = (case load file of Inr rs \<Rightarrow> rs | Inl _ \<Rightarrow> [])"

definition label_error ::
  "(rust_str \<Rightarrow> rust_str option) \<Rightarrow> rust_str \<times> rust_str option \<Rightarrow> quota_store_error option" where
  "label_error valid p =
     (case p of
        (_, None) \<Rightarrow> None
      | (name, Some v) \<Rightarrow>
          (case valid v of
             None \<Rightarrow> Some (InvalidLabel name)
           | Some n \<Rightarrow> if n \<noteq> v then Some (SurroundingWhitespace name) else None))"

definition text_error :: "rust_str \<times> rust_str option \<times> nat \<Rightarrow> quota_store_error option" where
  "text_error p =
     (case p of
        (name, v, limit) \<Rightarrow>
          if is_some_and v (\<lambda>s. s = [] \<or> limit < length s \<or> has_control s)
          then Some (InvalidText name) else None)"

text \<open>The decoded input of a local collector: not JSON, not an object, or an object with its field
  names and, unless the schema is wrong, its record.\<close>

datatype external_input = NotJson | NotObject | Fields "rust_str list" "quota_observation_raw option"

definition external_fields :: "rust_str list" where
  "external_fields =
     [''backend'', ''backend_instance'', ''credential_id'', ''model'', ''quota_pool'', ''quota_window'',
      ''quota_used_percent'', ''quota_remaining_percent'', ''quota_reset_at'', ''observed_at'',
      ''checked_at'', ''check_error'', ''usage_source'', ''account_usage'']"

definition external_error ::
  "(rust_str \<Rightarrow> int option) \<Rightarrow> (rust_str \<Rightarrow> rust_str option) \<Rightarrow> quota_observation_raw
   \<Rightarrow> quota_store_error option" where
  "external_error parse_ts valid raw =
     (let r = from_raw raw
      in opt_or (if is_some_and (qo_account_usage r) (\<lambda>u. \<not> usage_validate parse_ts u)
                 then Some InvalidUsage else None)
        (opt_or (first (List.map_filter (label_error valid)
                   [(''backend'', Some (qo_backend r)), (''backend instance'', qo_backend_instance r),
                    (''credential ID'', qo_credential_id r), (''quota pool'', qo_quota_pool r),
                    (''usage source'', qo_usage_source r)]))
        (opt_or (if qo_backend_instance r = None \<or> qo_checked_at r = None \<or> qo_usage_source r = None
                 then Some MissingIdentity else None)
        (opt_or (if list_ex (\<lambda>v. is_some_and v (\<lambda>x. \<not> in_percent x)) [qo_remaining r, qr_used raw]
                 then Some PercentOutOfRange else None)
        (opt_or (if list_ex (\<lambda>v. is_some_and v (\<lambda>x. parse_ts x = None))
                      [qo_checked_at r, qo_observed_at r, qo_reset_at r]
                 then Some BadTimestamp else None)
        (opt_or (first (List.map_filter text_error
                   [(''model'', qo_model r, 512), (''quota window'', qo_window r, 128),
                    (''check error'', qo_check_error r, 1024)]))
                (if has_quota_data r \<and> qo_observed_at r = None then Some MissingObservedAt
                 else None)))))))"

definition parse_external_observation ::
  "(rust_str \<Rightarrow> int option) \<Rightarrow> (rust_str \<Rightarrow> rust_str) \<Rightarrow> external_input
   \<Rightarrow> (quota_store_error, quota_observation) rust_result" where
  "parse_external_observation parse_ts redact input =
     (case input of
        NotJson \<Rightarrow> Inl ParseJson
      | NotObject \<Rightarrow> Inl NotAnObject
      | Fields keys decoded \<Rightarrow>
          if list_ex (\<lambda>k. k \<notin> set external_fields) keys then Inl UnsupportedField
          else (case decoded of
                  None \<Rightarrow> Inl InvalidSchema
                | Some raw \<Rightarrow>
                    (case external_error parse_ts (validate_operator_label redact) raw of
                       Some e \<Rightarrow> Inl e
                     | None \<Rightarrow>
                         (let r = canonical_observation (from_raw raw)
                          in Inr (r\<lparr> qo_check_error := map_option redact (qo_check_error r) \<rparr>)))))"

definition append_all ::
  "(rust_str \<Rightarrow> rust_str option) \<Rightarrow> quota_file \<Rightarrow> quota_observation list
   \<Rightarrow> (quota_store_error, quota_file) rust_result" where
  "append_all valid file rs =
     (case first (List.map_filter (label_error valid)
             (concat (map (\<lambda>r. [(''backend instance'', qo_backend_instance r),
                                (''quota pool'', qo_quota_pool r)]) rs))) of
        Some e \<Rightarrow> Inl e
      | None \<Rightarrow>
          (case file of
             Unreadable \<Rightarrow> Inl StoreIo
           | Absent \<Rightarrow> Inr (Lines (map Some rs))
           | Lines ls \<Rightarrow> Inr (Lines (ls @ map Some rs))))"

definition append_record ::
  "(rust_str \<Rightarrow> rust_str option) \<Rightarrow> quota_file \<Rightarrow> quota_observation
   \<Rightarrow> (quota_store_error, quota_file) rust_result" where
  "append_record valid file r = append_all valid file [r]"

definition scoped_to :: "execution_identity option \<Rightarrow> quota_observation \<Rightarrow> quota_observation" where
  "scoped_to i r =
     (case i of
        None \<Rightarrow> r
      | Some i \<Rightarrow> r\<lparr> qo_backend := ei_logical_backend i,
                      qo_backend_instance := Some (ei_backend_instance i),
                      qo_quota_pool := ei_quota_pool i \<rparr>)"

text \<open>Rows are written one by one: a refused row leaves the rows before it in the store.\<close>

fun append_each ::
  "(rust_str \<Rightarrow> rust_str option) \<Rightarrow> quota_file \<Rightarrow> quota_observation list
   \<Rightarrow> quota_file \<times> quota_store_error option" where
  "append_each valid file [] = (file, None)"
| "append_each valid file (r # rs) =
     (case append_record valid file r of
        Inl e \<Rightarrow> (file, Some e)
      | Inr file' \<Rightarrow> append_each valid file' rs)"

definition append_scoped ::
  "(rust_str \<Rightarrow> rust_str option) \<Rightarrow> quota_file \<Rightarrow> quota_observation list \<Rightarrow> execution_identity option
   \<Rightarrow> quota_file \<times> (quota_store_error, quota_observation option) rust_result" where
  "append_scoped valid file rs i =
     (let scoped = map (scoped_to i) rs
      in case append_each valid file scoped of
           (file', Some e) \<Rightarrow> (file', Inl e)
         | (file', None) \<Rightarrow> (file', Inr (first scoped)))"

subsection \<open>Choosing the current windows\<close>

record quota_scope =
  qs_backend :: rust_str
  qs_backend_instance :: "rust_str option"
  qs_quota_pool :: "rust_str option"

definition quota_scope_new :: "rust_str \<Rightarrow> rust_str option \<Rightarrow> rust_str option \<Rightarrow> quota_scope" where
  "quota_scope_new backend inst pool =
     (if backend \<in> {''vibe'', ''mistral-dashboard''}
         \<and> is_some_and pool (\<lambda>p. is_some_and (strip_prefix ''mistral-dashboard:'' p) (\<lambda>a. a \<noteq> []))
      then \<lparr> qs_backend = ''mistral-dashboard'', qs_backend_instance = pool, qs_quota_pool = pool \<rparr>
      else \<lparr> qs_backend = backend, qs_backend_instance = inst, qs_quota_pool = pool \<rparr>)"

definition observation_matches_identity :: "quota_observation \<Rightarrow> execution_identity \<Rightarrow> bool" where
  "observation_matches_identity r i =
     (let source = quota_scope_new (qo_backend r) (qo_backend_instance r) (qo_quota_pool r);
          target = quota_scope_new (ei_logical_backend i) (Some (ei_backend_instance i)) (ei_quota_pool i)
      in qs_backend source = qs_backend target
         \<and> (qo_model r = None \<or> qo_model r = ei_effective_model i)
         \<and> (qs_backend_instance source = None \<or> qs_backend_instance source = qs_backend_instance target)
         \<and> (qs_quota_pool source = None \<or> qs_quota_pool source = qs_quota_pool target))"

text \<open>The last record and the last life-cycle mark of every named source.\<close>

definition is_lifecycle :: "quota_observation \<Rightarrow> bool" where
  "is_lifecycle r = (qo_usage_source r \<in> {Some ''credential_updated'', Some ''credential_removed''})"

definition source_latest :: "quota_observation list \<Rightarrow> rust_str \<rightharpoonup> quota_observation" where
  "source_latest rs =
     fold (\<lambda>r m. case qo_credential_id r of Some sid \<Rightarrow> m(sid \<mapsto> r) | None \<Rightarrow> m) rs Map.empty"

definition source_lifecycle :: "quota_observation list \<Rightarrow> rust_str \<rightharpoonup> nat" where
  "source_lifecycle rs =
     fold (\<lambda>(k, r) m. case qo_credential_id r of
                        Some sid \<Rightarrow> if is_lifecycle r then m(sid \<mapsto> k) else m
                      | None \<Rightarrow> m) (enumerate 0 rs) Map.empty"

text \<open>The source of a record is in the map, since the record itself was entered.\<close>

definition is_current :: "quota_observation list \<Rightarrow> nat \<Rightarrow> quota_observation \<Rightarrow> bool" where
  "is_current rs k r =
     (case qo_credential_id r of
        None \<Rightarrow> True
      | Some sid \<Rightarrow>
          (case source_latest rs sid of
             None \<Rightarrow> False
           | Some cur \<Rightarrow>
               qo_usage_source cur \<noteq> Some ''credential_removed''
               \<and> (case source_lifecycle rs sid of None \<Rightarrow> True | Some cutoff \<Rightarrow> cutoff \<le> k)
               \<and> qo_backend r = qo_backend cur
               \<and> qo_backend_instance r = qo_backend_instance cur
               \<and> qo_quota_pool r = qo_quota_pool cur))"

definition current_source_records :: "quota_observation list \<Rightarrow> quota_observation list" where
  "current_source_records rs = map snd (filter (\<lambda>(k, r). is_current rs k r) (enumerate 0 rs))"

definition observation_time :: "(rust_str \<Rightarrow> int option) \<Rightarrow> quota_observation \<Rightarrow> int option" where
  "observation_time parse_ts r = Option.bind (opt_or (qo_checked_at r) (qo_observed_at r)) parse_ts"

type_synonym window_key = "rust_str option list"

definition is_reading :: "quota_observation \<Rightarrow> bool" where
  "is_reading r = (has_quota_data r \<and> qo_check_error r = None)"

text \<open>The greatest instant of a failed or empty check per source and window.\<close>

definition failed_check ::
  "(rust_str \<Rightarrow> int option) \<Rightarrow> (quota_observation \<Rightarrow> window_key) \<Rightarrow> quota_observation
   \<Rightarrow> (window_key \<times> int) option" where
  "failed_check parse_ts source_key r =
     (if is_some (qo_check_error r) \<or> \<not> has_quota_data r
      then map_option (\<lambda>t. (source_key r @ [qo_window r], t)) (observation_time parse_ts r)
      else None)"

definition invalidated ::
  "(rust_str \<Rightarrow> int option) \<Rightarrow> (quota_observation \<Rightarrow> window_key) \<Rightarrow> quota_observation list
   \<Rightarrow> window_key \<rightharpoonup> int" where
  "invalidated parse_ts source_key = group_max (failed_check parse_ts source_key)"

definition outdated ::
  "(rust_str \<Rightarrow> int option) \<Rightarrow> (quota_observation \<Rightarrow> window_key) \<Rightarrow> (window_key \<rightharpoonup> int)
   \<Rightarrow> quota_observation \<Rightarrow> bool" where
  "outdated parse_ts source_key failed r =
     list_ex (\<lambda>checked. is_some_and checked
                (\<lambda>c. case observation_time parse_ts r of None \<Rightarrow> True | Some t \<Rightarrow> t \<le> c))
       [failed (source_key r @ [None]), failed (source_key r @ [qo_window r])]"

definition window_step ::
  "(rust_str \<Rightarrow> int option) \<Rightarrow> (quota_observation \<Rightarrow> window_key) \<Rightarrow> (quota_observation \<Rightarrow> window_key)
   \<Rightarrow> (window_key \<rightharpoonup> int) \<Rightarrow> quota_observation \<Rightarrow> (window_key \<times> quota_observation) list
   \<Rightarrow> (window_key \<times> quota_observation) list" where
  "window_step parse_ts source_key reading_key failed r windows =
     (if \<not> is_reading r \<or> outdated parse_ts source_key failed r then windows
      else (let key = reading_key r @ [qo_window r]
            in case map_of windows key of
                 None \<Rightarrow> omap_put key r windows
               | Some cur \<Rightarrow>
                   if observation_time parse_ts cur \<le> observation_time parse_ts r
                   then omap_put key r windows else windows))"

definition select_latest_windows ::
  "(rust_str \<Rightarrow> int option) \<Rightarrow> (quota_observation \<Rightarrow> window_key) \<Rightarrow> (quota_observation \<Rightarrow> window_key)
   \<Rightarrow> quota_observation list \<Rightarrow> quota_observation list" where
  "select_latest_windows parse_ts source_key reading_key matching =
     map snd (fold (window_step parse_ts source_key reading_key (invalidated parse_ts source_key matching))
                matching [])"

definition serves_identity ::
  "execution_identity \<Rightarrow> rust_str option \<Rightarrow> quota_observation \<Rightarrow> bool" where
  "serves_identity i credential r =
     (case credential of
        Some sid \<Rightarrow> qo_credential_id r = Some sid
      | None \<Rightarrow> observation_matches_identity r i
                \<and> (\<not> ei_explicit_instance i \<or> is_some (qo_backend_instance r)
                   \<or> is_some (qo_quota_pool r)))"

definition latest_windows_for_identity_and_credential ::
  "(rust_str \<Rightarrow> int option) \<Rightarrow> quota_observation list \<Rightarrow> execution_identity \<Rightarrow> rust_str option
   \<Rightarrow> quota_observation list" where
  "latest_windows_for_identity_and_credential parse_ts rs i credential =
     select_latest_windows parse_ts (\<lambda>r. [qo_credential_id r]) (\<lambda>r. [qo_model r])
       (filter (serves_identity i credential) (current_source_records rs))"

definition latest_windows_for_identity ::
  "(rust_str \<Rightarrow> int option) \<Rightarrow> quota_observation list \<Rightarrow> execution_identity \<Rightarrow> quota_observation list" where
  "latest_windows_for_identity parse_ts rs i =
     latest_windows_for_identity_and_credential parse_ts rs i
       (opt_or (ei_quota_source i) (ei_credential_id i))"

definition full_source_key :: "quota_observation \<Rightarrow> window_key" where
  "full_source_key r = [qo_credential_id r, qo_backend_instance r, qo_quota_pool r, qo_model r]"

definition latest_windows_for_backend ::
  "(rust_str \<Rightarrow> int option) \<Rightarrow> quota_observation list \<Rightarrow> rust_str \<Rightarrow> quota_observation list" where
  "latest_windows_for_backend parse_ts rs backend =
     select_latest_windows parse_ts full_source_key full_source_key
       (filter (\<lambda>r. qo_backend r = backend) (current_source_records rs))"

definition latest_for_identity ::
  "(rust_str \<Rightarrow> int option) \<Rightarrow> quota_observation list \<Rightarrow> execution_identity \<Rightarrow> quota_observation option" where
  "latest_for_identity parse_ts rs i = max_by_key qo_observed_at (latest_windows_for_identity parse_ts rs i)"

subsection \<open>Retention\<close>

type_synonym series_key =
  "rust_str \<times> rust_str option \<times> rust_str option \<times> rust_str option \<times> rust_str option \<times> rust_str option"

definition series_key :: "quota_observation \<Rightarrow> series_key" where
  "series_key r = (qo_backend r, qo_credential_id r, qo_backend_instance r, qo_quota_pool r, qo_model r,
                   qo_window r)"

definition source_binding :: "quota_observation list \<Rightarrow> rust_str \<rightharpoonup> nat" where
  "source_binding rs =
     fold (\<lambda>(k, r) m. case qo_credential_id r of Some sid \<Rightarrow> m(sid \<mapsto> k) | None \<Rightarrow> m)
       (enumerate 0 rs) Map.empty"

text \<open>The greatest pair of instant and index per series, among the current records that satisfy \<open>p\<close>.\<close>

definition series_max ::
  "(rust_str \<Rightarrow> int option) \<Rightarrow> quota_observation list \<Rightarrow> (quota_observation \<Rightarrow> bool)
   \<Rightarrow> series_key \<rightharpoonup> int option \<times> nat" where
  "series_max parse_ts rs p =
     group_max (\<lambda>(k, r). if is_current rs k r \<and> p r
                         then Some (series_key r, (observation_time parse_ts r, k)) else None)
       (enumerate 0 rs)"

definition invalidates :: "(rust_str \<Rightarrow> int option) \<Rightarrow> quota_observation \<Rightarrow> bool" where
  "invalidates parse_ts r = (\<not> is_reading r \<and> is_some (observation_time parse_ts r))"

text \<open>An index is among the values of a map exactly when it is the value at its own record's key.\<close>

definition keeps ::
  "(rust_str \<Rightarrow> int option) \<Rightarrow> quota_observation list \<Rightarrow> int \<Rightarrow> nat \<Rightarrow> quota_observation \<Rightarrow> bool" where
  "keeps parse_ts rs cutoff k r =
     ((case observation_time parse_ts r of None \<Rightarrow> True | Some t \<Rightarrow> cutoff \<le> t)
      \<or> is_some_and (qo_credential_id r)
          (\<lambda>sid. source_binding rs sid = Some k \<or> source_lifecycle rs sid = Some k)
      \<or> is_current rs k r
        \<and> list_ex (\<lambda>p. is_some_and (series_max parse_ts rs p (series_key r)) (\<lambda>v. snd v = k))
              [\<lambda>_. True, is_reading, invalidates parse_ts])"

definition plan_retention ::
  "(rust_str \<Rightarrow> int option) \<Rightarrow> quota_observation list \<Rightarrow> int \<Rightarrow> nat list" where
  "plan_retention parse_ts rs cutoff =
     map fst (filter (\<lambda>(k, r). keeps parse_ts rs cutoff k r) (enumerate 0 rs))"

definition retention_max_age :: int where
  "retention_max_age = 14 * 24 * 60 * 60 * 1000000000"

text \<open>\<open>export_ok\<close> says whether the telemetry export of the full snapshot succeeded.\<close>

definition compact_with_export ::
  "(rust_str \<Rightarrow> int option) \<Rightarrow> (quota_observation list \<Rightarrow> bool) \<Rightarrow> int \<Rightarrow> int \<Rightarrow> quota_file
   \<Rightarrow> (quota_store_error, quota_file \<times> nat) rust_result" where
  "compact_with_export parse_ts export_ok now max_age file =
     (case file of
        Absent \<Rightarrow> Inr (file, 0)
      | Unreadable \<Rightarrow> Inl StoreIo
      | Lines ls \<Rightarrow>
          (let rs = List.map_filter (\<lambda>l. l) ls;
               keep = plan_retention parse_ts rs (now - max_age);
               dropped = length ls - length keep
           in if dropped = 0 then Inr (file, 0)
              else if \<not> export_ok rs then Inl ExportFailed
              else Inr (Lines (map Some (nths rs (set keep))), dropped)))"

subsection \<open>Refreshing a source\<close>

definition QUOTA_FRESHNESS :: int where "QUOTA_FRESHNESS = 30 * 60 * 1000000000"

definition QUOTA_REFRESH_INTERVAL :: int where "QUOTA_REFRESH_INTERVAL = 14 * 60 * 1000000000"

definition last_checked ::
  "(rust_str \<Rightarrow> int option) \<Rightarrow> quota_observation list \<Rightarrow> rust_str \<Rightarrow> rust_str option \<Rightarrow> rust_str option
   \<Rightarrow> int option" where
  "last_checked parse_ts rs backend inst credential =
     fold max (map Some (List.map_filter (observation_time parse_ts)
                 (filter (\<lambda>r. qo_backend r = backend \<and> qo_credential_id r = credential
                              \<and> (is_some credential \<or> qo_backend_instance r = inst)) rs))) None"

definition refresh_due ::
  "(rust_str \<Rightarrow> int option) \<Rightarrow> quota_observation list \<Rightarrow> rust_str \<Rightarrow> rust_str option \<Rightarrow> rust_str option
   \<Rightarrow> int \<Rightarrow> bool" where
  "refresh_due parse_ts rs backend inst credential now =
     (case last_checked parse_ts rs backend inst credential of
        None \<Rightarrow> True
      | Some t \<Rightarrow> QUOTA_REFRESH_INTERVAL < now - t)"

definition in_flight_key :: "rust_str \<Rightarrow> rust_str option \<Rightarrow> rust_str option \<Rightarrow> rust_str" where
  "in_flight_key backend inst credential =
     backend @ CHR 0x00 # unwrap_or inst [] @ CHR 0x00 # unwrap_or credential []"

record refresh_state =
  rf_file :: quota_file
  rf_in_flight :: "rust_str set"

text \<open>The first half of \<open>maybe_refresh_source\<close>: claim the source, or leave it alone.\<close>

definition maybe_refresh_source ::
  "(rust_str \<Rightarrow> int option) \<Rightarrow> refresh_state \<Rightarrow> rust_str \<Rightarrow> rust_str option \<Rightarrow> rust_str option \<Rightarrow> int
   \<Rightarrow> refresh_state option" where
  "maybe_refresh_source parse_ts st backend inst credential now =
     (let key = in_flight_key backend inst credential
      in if \<not> refresh_due parse_ts (load_account_observations (rf_file st)) backend inst credential now
         then None
         else if key \<in> rf_in_flight st then None
         else Some (st\<lparr> rf_in_flight := insert key (rf_in_flight st) \<rparr>))"

definition refresh_marker ::
  "rust_str \<Rightarrow> rust_str option \<Rightarrow> rust_str option \<Rightarrow> rust_str option \<Rightarrow> quota_observation" where
  "refresh_marker backend inst checked_at err =
     \<lparr> qo_backend = backend, qo_credential_id = None, qo_backend_instance = inst, qo_model = None,
       qo_quota_pool = None, qo_window = None, qo_remaining = None, qo_reset_at = None,
       qo_observed_at = None, qo_checked_at = checked_at, qo_check_error = err,
       qo_usage_source = None, qo_account_usage = None \<rparr>"

text \<open>The spawned thread: the provider check left the store as \<open>file\<close> with the given outcome.\<close>

definition finish_refresh ::
  "(int \<Rightarrow> rust_str option) \<Rightarrow> (rust_str \<Rightarrow> rust_str) \<Rightarrow> refresh_state \<Rightarrow> rust_str \<Rightarrow> rust_str option
   \<Rightarrow> rust_str option \<Rightarrow> int \<Rightarrow> quota_file \<Rightarrow> (rust_str, quota_observation option) rust_result
   \<Rightarrow> refresh_state" where
  "finish_refresh fmt_ts redact st backend inst credential now file outcome =
     (let marked =
            (if credential = None \<and> (case outcome of Inr (Some _) \<Rightarrow> False | _ \<Rightarrow> True)
             then (case append_record (validate_operator_label redact) file
                          (refresh_marker backend inst (fmt_ts now)
                             (case outcome of Inl e \<Rightarrow> Some (redact e) | Inr _ \<Rightarrow> None)) of
                     Inr file' \<Rightarrow> file'
                   | Inl _ \<Rightarrow> file)
             else file)
      in st\<lparr> rf_file := marked,
             rf_in_flight := rf_in_flight st - {in_flight_key backend inst credential} \<rparr>)"

subsection \<open>Subscription capacity\<close>

record subscription_capacity =
  sc_known_capacity :: bool
  sc_exhausted :: bool
  sc_reset_at :: "rust_str option"
  sc_reset_pressure :: "rat option"

definition default_capacity :: subscription_capacity where
  "default_capacity = \<lparr> sc_known_capacity = False, sc_exhausted = False, sc_reset_at = None,
     sc_reset_pressure = None \<rparr>"

definition fresh_remaining_percent ::
  "(rust_str \<Rightarrow> int option) \<Rightarrow> int \<Rightarrow> quota_observation \<Rightarrow> rat option" where
  "fresh_remaining_percent parse_ts now r =
     (case Option.bind (qo_observed_at r) parse_ts of
        None \<Rightarrow> None
      | Some observed \<Rightarrow>
          if is_some (qo_check_error r) \<or> now < observed \<or> QUOTA_FRESHNESS < now - observed then None
          else if is_some_and (Option.bind (qo_reset_at r) parse_ts) (\<lambda>t. t \<le> now) then None
          else opt_filter (\<lambda>v. 0 \<le> v \<and> v \<le> 100) (qo_remaining r))"

definition window_seconds :: "rust_str option \<Rightarrow> rat option" where
  "window_seconds w =
     (if w \<in> {Some ''weekly'', Some ''seven_day'', Some ''seven-day'', Some ''7d'', Some ''10080m''}
      then Some (7 * 86400)
      else if w \<in> {Some ''monthly'', Some ''vibe-code-included-monthly''} then Some (30 * 86400)
      else None)"

text \<open>\<open>secs\<close> is \<open>Duration::as_seconds_f64\<close> of the \<open>time\<close> crate.  The reset of a reading that passed
  the freshness test lies after \<open>now\<close>, so the divisor is positive.\<close>

definition capacity_step ::
  "(rust_str \<Rightarrow> int option) \<Rightarrow> (int \<Rightarrow> rat) \<Rightarrow> int \<Rightarrow> quota_observation \<Rightarrow> subscription_capacity
   \<Rightarrow> subscription_capacity" where
  "capacity_step parse_ts secs now r c =
     (case fresh_remaining_percent parse_ts now r of
        None \<Rightarrow> c
      | Some remaining \<Rightarrow>
          (let c1 = (if remaining = 0
                     then c\<lparr> sc_exhausted := True, sc_reset_at := qo_reset_at r \<rparr>
                     else c\<lparr> sc_known_capacity := True \<rparr>)
           in case (Option.bind (qo_reset_at r) parse_ts, window_seconds (qo_window r)) of
                (Some reset, Some seconds) \<Rightarrow>
                  (let pressure = f64_round (f64_round (remaining / 100)
                                             / f64_round (secs (reset - now) / seconds))
                   in c1\<lparr> sc_reset_pressure := Some (case sc_reset_pressure c1 of
                              None \<Rightarrow> pressure | Some previous \<Rightarrow> max previous pressure) \<rparr>)
              | _ \<Rightarrow> c1))"

definition capacity ::
  "(rust_str \<Rightarrow> int option) \<Rightarrow> (int \<Rightarrow> rat) \<Rightarrow> execution_identity \<Rightarrow> quota_observation list \<Rightarrow> int
   \<Rightarrow> subscription_capacity" where
  "capacity parse_ts secs i records now =
     fold (capacity_step parse_ts secs now) (latest_windows_for_identity parse_ts records i) default_capacity"

definition min_fresh_remaining_percent ::
  "(rust_str \<Rightarrow> int option) \<Rightarrow> execution_identity \<Rightarrow> quota_observation list \<Rightarrow> int \<Rightarrow> rat option" where
  "min_fresh_remaining_percent parse_ts i records now =
     (case List.map_filter (fresh_remaining_percent parse_ts now)
             (latest_windows_for_identity parse_ts records i) of
        [] \<Rightarrow> None
      | v # vs \<Rightarrow> Some (fold min vs v))"

definition preference :: "execution_identity \<Rightarrow> subscription_capacity \<Rightarrow> nat" where
  "preference i c =
     (if ei_runner_kind i = ''agy'' then 0
      else if ei_runner_kind i = ''claude'' then 1
      else if ei_runner_kind i = ''vibe'' \<and> \<not> is_some_and (sc_reset_pressure c) (\<lambda>p. 1 < p) then 3
      else 2)"

definition subscription_compare ::
  "execution_identity \<Rightarrow> subscription_capacity \<Rightarrow> execution_identity \<Rightarrow> subscription_capacity \<Rightarrow> ordering" where
  "subscription_compare left lc right rc =
     then_with (cmp_ord (sc_exhausted lc) (sc_exhausted rc))
    (then_with (cmp_ord (preference left lc) (preference right rc))
    (then_with (cmp_ord (sc_known_capacity rc) (sc_known_capacity lc))
               (cmp_ord (unwrap_or (sc_reset_pressure rc) 0) (unwrap_or (sc_reset_pressure lc) 0))))"

end
