(* ===== verification/Route_Order.thy ===== *)
theory Route_Order
  imports Route_Config Quota_Store
begin

text \<open>
  Candidate construction and ordering: \<open>src/routing/policy.rs\<close>, the types of
  \<open>src/routing/types.rs\<close> and \<open>describe_candidate\<close> of \<open>src/routing/diagnostics.rs\<close>.

  The clock, the stored quota observations, the functions of the \<open>time\<close> crate and number formatting
  enter through \<open>order_env\<close>: \<open>oe_secs\<close> is \<open>Duration::as_seconds_f64\<close>, \<open>oe_price\<close> the text of a
  price with four decimals.
\<close>

record order_env =
  oe_ids :: identity_env
  oe_observations :: "quota_observation list"
  oe_parse_ts :: "rust_str \<Rightarrow> int option"
  oe_secs :: "int \<Rightarrow> rat"
  oe_now :: int
  oe_price :: "rat \<Rightarrow> rust_str"

subsection \<open>Live quota readings\<close>

definition weekly_reading :: "(rust_str \<Rightarrow> int option) \<Rightarrow> int \<Rightarrow> quota_observation \<Rightarrow> bool" where
  "weekly_reading parse_ts now r =
     (qo_window r \<in> {Some ''weekly'', Some ''seven_day'', Some ''seven-day'', Some ''7d'', Some ''10080m''}
      \<and> is_some_and (Option.bind (qo_observed_at r) parse_ts)
          (\<lambda>observed. observed \<le> now \<and> now - observed \<le> QUOTA_FRESHNESS)
      \<and> is_some_and (Option.bind (qo_reset_at r) parse_ts) (\<lambda>reset. now < reset))"

definition live_quota_pacing_inputs ::
  "(rust_str \<Rightarrow> int option) \<Rightarrow> (int \<Rightarrow> rat) \<Rightarrow> quota_observation list \<Rightarrow> execution_identity \<Rightarrow> int
   \<Rightarrow> rat option \<times> rat option" where
  "live_quota_pacing_inputs parse_ts secs observations i now =
     (case max_by_key qo_observed_at
             (filter (weekly_reading parse_ts now) (latest_windows_for_identity parse_ts observations i)) of
        None \<Rightarrow> (None, None)
      | Some r \<Rightarrow>
          (map_option (\<lambda>remaining. min (max (f64_round (100 - remaining)) 0) 100) (qo_remaining r),
           map_option (\<lambda>reset. max (f64_round (secs (reset - now) / 86400)) 0)
             (Option.bind (qo_reset_at r) parse_ts)))"

definition oe_live :: "order_env \<Rightarrow> execution_identity \<Rightarrow> rat option \<times> rat option" where
  "oe_live env i =
     live_quota_pacing_inputs (oe_parse_ts env) (oe_secs env) (oe_observations env) i (oe_now env)"

definition oe_capacity :: "order_env \<Rightarrow> execution_identity \<Rightarrow> subscription_capacity" where
  "oe_capacity env i = capacity (oe_parse_ts env) (oe_secs env) i (oe_observations env) (oe_now env)"

lemma no_observations [simp]:
  "latest_windows_for_identity parse_ts [] i = []"
  by (simp add: latest_windows_for_identity_def latest_windows_for_identity_and_credential_def
      current_source_records_def select_latest_windows_def)

lemma live_without_observations [simp]: "oe_observations env = [] \<Longrightarrow> oe_live env i = (None, None)"
  by (simp add: oe_live_def live_quota_pacing_inputs_def)

lemma capacity_without_observations [simp]:
  "oe_observations env = [] \<Longrightarrow> oe_capacity env i = default_capacity"
  by (simp add: oe_capacity_def capacity_def)

text \<open>The derived inputs are always valid inputs of \<open>quota_pace\<close>.\<close>

lemma live_inputs_valid:
  assumes "live_quota_pacing_inputs parse_ts secs obs i now = (u, d)"
  shows "is_some_and u in_percent \<or> u = None" "is_some_and d (\<lambda>x. 0 \<le> x) \<or> d = None"
  using assms
  by (auto simp: live_quota_pacing_inputs_def is_some_and_iff in_percent_def split: option.splits)

subsection \<open>Runtime state and candidates\<close>

record reviewer_outcome_metrics =
  rm_completed_reviews :: nat
  rm_outcome_samples :: nat
  rm_successful_outcomes :: nat
  rm_later_fix_correlations :: nat
  rm_human_overrides :: nat
  rm_false_approvals :: nat
  rm_false_rejections :: nat
  rm_quota_backed_reviews :: nat
  rm_api_backed_reviews :: nat
  rm_latency_total_seconds :: rat
  rm_latency_samples :: nat
  rm_api_cost_total_usd :: rat
  rm_api_cost_samples :: nat

definition average :: "rat \<Rightarrow> nat \<Rightarrow> rat option" where
  "average sum_of samples = (if 0 < samples then Some (f64_round (sum_of / of_nat samples)) else None)"

definition success_rate :: "reviewer_outcome_metrics \<Rightarrow> rat option" where
  "success_rate m = average (of_nat (rm_successful_outcomes m)) (rm_outcome_samples m)"

definition average_latency_seconds :: "reviewer_outcome_metrics \<Rightarrow> rat option" where
  "average_latency_seconds m = average (rm_latency_total_seconds m) (rm_latency_samples m)"

definition average_api_cost_usd :: "reviewer_outcome_metrics \<Rightarrow> rat option" where
  "average_api_cost_usd m = average (rm_api_cost_total_usd m) (rm_api_cost_samples m)"

record routing_runtime_state =
  rs_recent_runs :: "candidate_identity \<rightharpoonup> nat"
  rs_reviewer_outcomes :: "(candidate_identity \<times> reviewer_outcome_metrics) list"
  rs_attempted :: "candidate_identity list"
  rs_dispatch_attempted :: "candidate_identity list"
  rs_approved :: "candidate_identity list"

record route_candidate =
  rc_identity :: execution_identity
  rc_priority :: int
  rc_included_in_quota :: bool
  rc_marginal_cost :: "rat option"
  rc_quota_usage :: "rat option"
  rc_quota_days :: "rat option"
  rc_requires_approval :: bool
  rc_original_order :: nat

abbreviation dest :: "route_candidate \<Rightarrow> candidate_identity" where
  "dest c \<equiv> from_execution_identity (rc_identity c)"

definition same_destination :: "route_candidate \<Rightarrow> route_candidate \<Rightarrow> bool" where
  "same_destination l r = (dest l = dest r)"

definition plain_candidate :: "execution_identity \<Rightarrow> bool \<Rightarrow> nat \<Rightarrow> route_candidate" where
  "plain_candidate i approval order =
     \<lparr> rc_identity = i, rc_priority = 0, rc_included_in_quota = False, rc_marginal_cost = None,
       rc_quota_usage = None, rc_quota_days = None, rc_requires_approval = approval,
       rc_original_order = order \<rparr>"

subsection \<open>Modes\<close>

definition mode_family :: "rust_str \<Rightarrow> job_family option" where
  "mode_family mode = map_option family (kind_of_key mode)"

definition is_load_balanced_mode :: "rust_str \<Rightarrow> bool" where
  "is_load_balanced_mode mode = (mode_family mode = Some ImproveLike)"

definition is_review_mode :: "rust_str \<Rightarrow> bool" where
  "is_review_mode mode = (mode_family mode = Some FamilyReview)"

definition mode_backend_preference :: "rust_str \<Rightarrow> rust_str list" where
  "mode_backend_preference mode =
     (if mode_family mode \<in> {Some FamilyPm, Some FamilyReview}
      then [''claude'', ''codex'', ''openhands''] else [''openhands'', ''codex'', ''claude''])"

definition builtin_backend :: "rust_str \<Rightarrow> (rust_str \<Rightarrow> bool) \<Rightarrow> rust_str" where
  "builtin_backend mode available =
     unwrap_or (List.find available (mode_backend_preference mode)) ''openhands''"

definition any_available_backend :: "rust_str \<Rightarrow> (rust_str \<Rightarrow> bool) \<Rightarrow> rust_str option" where
  "any_available_backend mode available = List.find available (mode_backend_preference mode)"

definition route_is_genuine_agent_failure :: "rust_str option \<Rightarrow> bool" where
  "route_is_genuine_agent_failure cls =
     (cls \<in> {Some ''agent_failure'', Some ''agent_no_progress'', Some ''validation_failure''})"

subsection \<open>Candidate lists\<close>

definition route_candidate_of ::
  "order_env \<Rightarrow> routing_policy \<Rightarrow> nat \<Rightarrow> candidate_config \<Rightarrow> route_candidate" where
  "route_candidate_of env p idx c =
     (let i = execution_identity_for_candidate (oe_ids env) p c;
          live = (if cc_included_in_quota c then oe_live env i else (None, None))
      in \<lparr> rc_identity = i, rc_priority = cc_priority c,
           rc_included_in_quota = cc_included_in_quota c, rc_marginal_cost = cc_marginal_cost c,
           rc_quota_usage = fst live, rc_quota_days = snd live,
           rc_requires_approval = cc_requires_approval c, rc_original_order = idx \<rparr>)"

definition route_candidates ::
  "order_env \<Rightarrow> routing_policy \<Rightarrow> candidate_config list \<Rightarrow> route_candidate list" where
  "route_candidates env p raw = map (\<lambda>(idx, c). route_candidate_of env p idx c) (enumerate 0 raw)"

definition policy_candidates ::
  "order_env \<Rightarrow> routing_policy \<Rightarrow> rust_str \<Rightarrow> route_candidate list option" where
  "policy_candidates env p mode = map_option (route_candidates env p) (family_candidates p mode)"

definition policy_backend_model ::
  "routing_policy \<Rightarrow> rust_str \<Rightarrow> rust_str option \<times> rust_str option" where
  "policy_backend_model p mode =
     (case mode_family mode of
        Some FamilyPm \<Rightarrow> (opt_or (rp_pm_backend p) (rp_default_backend p),
                          opt_or (rp_pm_model p) (rp_default_model p))
      | Some FamilyReview \<Rightarrow>
          (opt_or (rp_strong_review_backend p) (opt_or (rp_review_backend p) (rp_default_backend p)),
           opt_or (rp_strong_review_model p) (opt_or (rp_review_model p) (rp_default_model p)))
      | Some ImproveLike \<Rightarrow> (opt_or (rp_improve_backend p) (rp_default_backend p),
                             opt_or (rp_improve_model p) (rp_default_model p))
      | _ \<Rightarrow> (rp_default_backend p, rp_default_model p))"

definition eq_ignore_ascii_case :: "rust_str \<Rightarrow> rust_str \<Rightarrow> bool" where
  "eq_ignore_ascii_case a b = (to_ascii_lowercase a = to_ascii_lowercase b)"

record task_routing_context =
  tc_task_class :: "rust_str option"
  tc_difficulty :: "rust_str option"
  tc_risk :: "rust_str option"

definition task_rule_dimension_matches :: "rust_str list \<Rightarrow> rust_str option \<Rightarrow> bool" where
  "task_rule_dimension_matches values v =
     (values = [] \<or> is_some_and v (\<lambda>x. list_ex (\<lambda>item. eq_ignore_ascii_case item x) values))"

definition task_rule_matches :: "task_routing_rule \<Rightarrow> rust_str \<Rightarrow> task_routing_context \<Rightarrow> bool" where
  "task_rule_matches rule mode task =
     (task_rule_dimension_matches (tr_modes rule) (Some mode)
      \<and> task_rule_dimension_matches (tr_task_classes rule) (tc_task_class task)
      \<and> task_rule_dimension_matches (tr_difficulties rule) (tc_difficulty task)
      \<and> task_rule_dimension_matches (tr_risks rule) (tc_risk task))"

definition task_rule_candidates ::
  "order_env \<Rightarrow> routing_policy \<Rightarrow> rust_str \<Rightarrow> task_routing_context option
   \<Rightarrow> (nat \<times> route_candidate list) option" where
  "task_rule_candidates env p mode task =
     (if \<not> is_load_balanced_mode mode then None
      else (case task of
              None \<Rightarrow> None
            | Some t \<Rightarrow>
                map_option (\<lambda>(idx, rule). (idx, route_candidates env p (tr_candidates rule)))
                  (List.find (\<lambda>(_, rule). task_rule_matches rule mode t)
                     (enumerate 0 (rp_task_routing_rules p)))))"

subsection \<open>Configured routes\<close>

definition matches_route :: "rust_str \<Rightarrow> rust_str option \<Rightarrow> candidate_config \<Rightarrow> bool" where
  "matches_route backend model c = (cc_backend c = backend \<and> cc_model c = model)"

definition configured_route_requires_approval ::
  "routing_policy \<Rightarrow> rust_str \<Rightarrow> rust_str \<Rightarrow> rust_str option \<Rightarrow> bool" where
  "configured_route_requires_approval p mode backend model =
     (let m = (\<lambda>c. matches_route backend model c \<and> cc_requires_approval c)
      in is_some_and (family_candidates p mode) (list_ex m)
         \<or> is_some_and (allowed_entry p mode backend model) cc_requires_approval
         \<or> (is_review_mode mode \<and> list_ex m (rp_escalatory_reviewers p))
         \<or> (is_load_balanced_mode mode
             \<and> list_ex (\<lambda>rule. (tr_modes rule = []
                                 \<or> list_ex (\<lambda>k. eq_ignore_ascii_case k mode) (tr_modes rule))
                               \<and> list_ex m (tr_candidates rule)) (rp_task_routing_rules p)))"

text \<open>The other pools are searched in the order of the code: all candidate lists, the routine
  reviewer, the escalatory reviewers, the task rules.\<close>

definition configured_candidate ::
  "routing_policy \<Rightarrow> rust_str \<Rightarrow> rust_str \<Rightarrow> rust_str option \<Rightarrow> candidate_config option" where
  "configured_candidate p mode backend model =
     (let m = matches_route backend model;
          lists = (\<lambda>x. unwrap_or x [])
      in opt_or (List.find m (lists (family_candidates p mode)))
        (opt_or (List.find m (lists (rp_pm_candidates p) @ lists (rp_improve_candidates p)
                               @ lists (rp_review_candidates p)))
        (opt_or (opt_filter m (rp_routine_reviewer p))
        (opt_or (List.find m (rp_escalatory_reviewers p))
                (List.find m (concat (map tr_candidates (rp_task_routing_rules p))))))))"

definition configured_route_candidate ::
  "order_env \<Rightarrow> routing_policy \<Rightarrow> rust_str \<Rightarrow> rust_str \<Rightarrow> rust_str option \<Rightarrow> route_candidate option" where
  "configured_route_candidate env p mode backend model =
     (case allowed_entry p mode backend model of
        Some entry \<Rightarrow> Some (route_candidate_of env p 0 (entry\<lparr> cc_model := model \<rparr>))
      | None \<Rightarrow> map_option (route_candidate_of env p 0) (configured_candidate p mode backend model))"

definition review_fallback_backend_name :: "routing_policy \<Rightarrow> rust_str option" where
  "review_fallback_backend_name p =
     opt_or (map_option cc_backend (first (rp_escalatory_reviewers p))) (rp_weak_review_backend p)"

definition review_fallback_model :: "routing_policy \<Rightarrow> rust_str option" where
  "review_fallback_model p =
     opt_or (Option.bind (first (rp_escalatory_reviewers p)) cc_model) (rp_weak_review_model p)"

definition review_fallback_backend :: "routing_policy \<Rightarrow> (rust_str \<Rightarrow> bool) \<Rightarrow> rust_str option" where
  "review_fallback_backend effective available =
     opt_or (review_fallback_backend_name effective) (any_available_backend ''review'' available)"

subsection \<open>Automatic candidates\<close>

definition extend_default_backend_candidates ::
  "order_env \<Rightarrow> routing_policy \<Rightarrow> rust_str \<Rightarrow> route_candidate list \<Rightarrow> route_candidate list" where
  "extend_default_backend_candidates env p mode cs =
     fold (\<lambda>backend acc. acc @ [plain_candidate
             (legacy_candidate backend None
                (find_quota_pool (ie_agy_catalog (oe_ids env)) p mode backend None))
             False (length acc)])
          (mode_backend_preference mode) cs"

text \<open>The key of \<open>dedupe_candidates\<close>: backend, a NUL byte, the model or nothing.\<close>

definition dedupe_key :: "route_candidate \<Rightarrow> rust_str" where
  "dedupe_key c = ci_backend (dest c) @ [CHR 0x00] @ unwrap_or (ci_model (dest c)) []"

fun dedupe_from :: "rust_str list \<Rightarrow> route_candidate list \<Rightarrow> route_candidate list" where
  "dedupe_from seen [] = []"
| "dedupe_from seen (c # cs) =
     (if dedupe_key c \<in> set seen then dedupe_from seen cs
      else c # dedupe_from (dedupe_key c # seen) cs)"

definition dedupe_candidates :: "route_candidate list \<Rightarrow> route_candidate list" where
  "dedupe_candidates cs = dedupe_from [] cs"

definition auto_candidates ::
  "order_env \<Rightarrow> routing_policy \<Rightarrow> rust_str \<Rightarrow> route_candidate \<Rightarrow> route_candidate list" where
  "auto_candidates env p mode primary =
     (let weak = (if is_review_mode mode
                  then (case review_fallback_backend_name p of
                          Some b \<Rightarrow>
                            (let m = opt_or (review_fallback_model p)
                                            (ei_effective_model (rc_identity primary))
                             in [plain_candidate (legacy_candidate b m
                                   (find_quota_pool (ie_agy_catalog (oe_ids env)) p mode b m)) False 1])
                        | None \<Rightarrow> [])
                  else [])
      in dedupe_candidates (extend_default_backend_candidates env p mode (primary # weak)))"

subsection \<open>Ranking\<close>

text \<open>The ASCII part of \<open>str::to_lowercase\<close>.  Only two code points outside ASCII have an ASCII letter
  in their lower case: U+0130 (i with a combining dot) and the Kelvin sign U+212A.\<close>

fun to_lowercase :: "rust_str \<Rightarrow> rust_str" where
  "to_lowercase [] = []"
| "to_lowercase (a # s) =
     (case s of
        b # t \<Rightarrow>
          (if byte a = 0xC4 \<and> byte b = 0xB0 then CHR ''i'' # char_of (0xCC::nat) # char_of (0x87::nat) # to_lowercase t
           else (case t of
                   c # u \<Rightarrow> if byte a = 0xE2 \<and> byte b = 0x84 \<and> byte c = 0xAA then CHR ''k'' # to_lowercase u
                            else to_lower1 a # to_lowercase s
                 | [] \<Rightarrow> to_lower1 a # to_lowercase s))
      | [] \<Rightarrow> [to_lower1 a])"

definition is_strong_model :: "rust_str \<Rightarrow> bool" where
  "is_strong_model model =
     (let lower = to_lowercase (rev (split_first CHR ''/'' (rev model)))
      in \<not> (contains_str ''flash'' lower \<or> contains_str ''mini'' lower
            \<or> contains_str ''tiny'' lower \<or> contains_str ''lite'' lower))"

definition is_strong_candidate :: "route_candidate \<Rightarrow> bool" where
  "is_strong_candidate c =
     (case ei_effective_model (rc_identity c) of Some m \<Rightarrow> is_strong_model m | None \<Rightarrow> True)"

definition economic_rank :: "pacing_config \<Rightarrow> route_candidate \<Rightarrow> nat" where
  "economic_rank pacing c =
     (if \<not> rc_included_in_quota c then 1
      else (case (case quota_pace (rc_quota_usage c) (rc_quota_days c) pacing of
                    Inr b \<Rightarrow> b | Inl _ \<Rightarrow> HardConserve) of
              AggressiveBurn \<Rightarrow> 0 | MildBurn \<Rightarrow> 0 | Normal \<Rightarrow> 0 | Conserve \<Rightarrow> 2 | HardConserve \<Rightarrow> 3))"

definition candidate_run_count :: "routing_runtime_state \<Rightarrow> route_candidate \<Rightarrow> nat" where
  "candidate_run_count runtime c = unwrap_or (rs_recent_runs runtime (dest c)) 0"

definition compare_optional_f64 :: "rat option \<Rightarrow> rat option \<Rightarrow> ordering" where
  "compare_optional_f64 l r =
     (case l of
        Some a \<Rightarrow> (case r of Some b \<Rightarrow> cmp_ord a b | None \<Rightarrow> Less)
      | None \<Rightarrow> (case r of Some _ \<Rightarrow> Greater | None \<Rightarrow> Equal))"

type_synonym capacities = "candidate_identity \<Rightarrow> subscription_capacity"

definition compare_candidates ::
  "pacing_config \<Rightarrow> bool \<Rightarrow> routing_runtime_state \<Rightarrow> rust_str \<Rightarrow> capacities
   \<Rightarrow> route_candidate \<Rightarrow> route_candidate \<Rightarrow> ordering" where
  "compare_candidates pacing escalate runtime mode caps left right =
     then_with (cmp_ord (rc_priority right) (rc_priority left))
    (then_with (if is_load_balanced_mode mode
                then subscription_compare (rc_identity left) (caps (dest left))
                       (rc_identity right) (caps (dest right))
                else Equal)
    (then_with (if is_load_balanced_mode mode
                then cmp_ord (candidate_run_count runtime left) (candidate_run_count runtime right)
                else Equal)
    (then_with (if escalate then cmp_ord (is_strong_candidate right) (is_strong_candidate left) else Equal)
    (then_with (cmp_ord (economic_rank pacing left) (economic_rank pacing right))
    (then_with (compare_optional_f64 (rc_marginal_cost left) (rc_marginal_cost right))
               (cmp_ord (rc_original_order left) (rc_original_order right)))))))"

definition has_cost_policy :: "route_candidate \<Rightarrow> bool" where
  "has_cost_policy c =
     (rc_priority c \<noteq> 0 \<or> rc_included_in_quota c \<or> is_some (rc_marginal_cost c)
      \<or> is_some (rc_quota_usage c) \<or> is_some (rc_quota_days c))"

definition with_original_order :: "route_candidate list \<Rightarrow> route_candidate list" where
  "with_original_order cs = map (\<lambda>(idx, c). c\<lparr> rc_original_order := idx \<rparr>) (enumerate 0 cs)"

subsection \<open>Reviewer history\<close>

definition REVIEWER_MIN_OUTCOME_SAMPLES :: nat where "REVIEWER_MIN_OUTCOME_SAMPLES = 5"

definition reviewer_metrics ::
  "routing_runtime_state \<Rightarrow> route_candidate \<Rightarrow> reviewer_outcome_metrics option" where
  "reviewer_metrics runtime c = map_of (rs_reviewer_outcomes runtime) (dest c)"

definition glm_is_configured_last :: "nat \<Rightarrow> route_candidate \<Rightarrow> bool" where
  "glm_is_configured_last configured_last c =
     (rc_original_order c = configured_last
      \<and> contains_str ''glm'' (to_ascii_lowercase
           (ei_logical_backend (rc_identity c) @ '' ''
            @ unwrap_or (ei_effective_model (rc_identity c)) [])))"

definition compare_when_both_known :: "rat option \<Rightarrow> rat option \<Rightarrow> ordering" where
  "compare_when_both_known l r =
     (case (l, r) of (Some a, Some b) \<Rightarrow> cmp_ord a b | _ \<Rightarrow> Equal)"

definition compare_metrics ::
  "reviewer_outcome_metrics \<Rightarrow> reviewer_outcome_metrics \<Rightarrow> ordering" where
  "compare_metrics l r =
     then_with (cmp_ord (rm_successful_outcomes r * rm_outcome_samples l)
                        (rm_successful_outcomes l * rm_outcome_samples r))
    (then_with (cmp_ord (rm_false_approvals l * rm_outcome_samples r)
                        (rm_false_approvals r * rm_outcome_samples l))
    (then_with (compare_when_both_known (average_api_cost_usd l) (average_api_cost_usd r))
               (compare_when_both_known (average_latency_seconds l) (average_latency_seconds r))))"

text \<open>Both candidates have metrics here: the caller tests it first (\<open>expect\<close> in the code).\<close>

definition compare_reviewer_history ::
  "routing_runtime_state \<Rightarrow> route_candidate \<Rightarrow> route_candidate \<Rightarrow> ordering" where
  "compare_reviewer_history runtime left right =
     (case (reviewer_metrics runtime left, reviewer_metrics runtime right) of
        (Some l, Some r) \<Rightarrow>
          then_with (compare_metrics l r) (cmp_ord (rc_original_order left) (rc_original_order right))
      | _ \<Rightarrow> cmp_ord (rc_original_order left) (rc_original_order right))"

text \<open>Candidates with one priority, economic rank and approval flag form a run; inside a run the
  movable positions are refilled in the order of the history.\<close>

definition same_class :: "pacing_config \<Rightarrow> route_candidate \<Rightarrow> route_candidate \<Rightarrow> bool" where
  "same_class pacing a b =
     (rc_priority b = rc_priority a \<and> economic_rank pacing b = economic_rank pacing a
      \<and> rc_requires_approval b = rc_requires_approval a)"

fun refill :: "('a \<Rightarrow> bool) \<Rightarrow> 'a list \<Rightarrow> 'a list \<Rightarrow> 'a list" where
  "refill m [] rs = []"
| "refill m (x # xs) rs =
     (if m x then (case rs of r # rs' \<Rightarrow> r # refill m xs rs' | [] \<Rightarrow> x # refill m xs [])
      else x # refill m xs rs)"

definition reorder_run ::
  "routing_runtime_state \<Rightarrow> nat \<Rightarrow> route_candidate list \<Rightarrow> route_candidate list" where
  "reorder_run runtime configured_last run =
     (let movable = (\<lambda>c. \<not> rc_requires_approval c \<and> \<not> glm_is_configured_last configured_last c);
          ps = filter movable run
      in if 1 < length ps
            \<and> list_all (\<lambda>c. is_some_and (reviewer_metrics runtime c)
                 (\<lambda>m. REVIEWER_MIN_OUTCOME_SAMPLES \<le> rm_outcome_samples m)) ps
         then refill movable run (sort_by (compare_reviewer_history runtime) ps)
         else run)"

function reorder_runs ::
  "routing_runtime_state \<Rightarrow> pacing_config \<Rightarrow> nat \<Rightarrow> route_candidate list \<Rightarrow> route_candidate list" where
  "reorder_runs runtime pacing configured_last [] = []"
| "reorder_runs runtime pacing configured_last (c # cs) =
     reorder_run runtime configured_last (c # takeWhile (same_class pacing c) cs)
     @ reorder_runs runtime pacing configured_last (dropWhile (same_class pacing c) cs)"
  by pat_completeness auto
termination
  by (relation "measure (\<lambda>(_, _, _, cs). length cs)") (auto simp: le_imp_less_Suc length_dropWhile_le)

definition apply_reviewer_history ::
  "routing_runtime_state \<Rightarrow> pacing_config \<Rightarrow> route_candidate list \<Rightarrow> route_candidate list" where
  "apply_reviewer_history runtime pacing cs =
     reorder_runs runtime pacing (fold max (map rc_original_order cs) 0) cs"

subsection \<open>Describing candidates and reorderings\<close>

definition pace_text :: "pace_band \<Rightarrow> rust_str" where
  "pace_text b =
     (case b of AggressiveBurn \<Rightarrow> ''included quota aggressive-burn''
              | MildBurn \<Rightarrow> ''included quota mild-burn''
              | Normal \<Rightarrow> ''included quota normal''
              | Conserve \<Rightarrow> ''included quota conserve''
              | HardConserve \<Rightarrow> ''included quota hard-conserve'')"

definition describe_candidate :: "order_env \<Rightarrow> pacing_config \<Rightarrow> route_candidate \<Rightarrow> rust_str" where
  "describe_candidate env pacing c =
     (let cost = (if rc_included_in_quota c
                  then [pace_text (case quota_pace (rc_quota_usage c) (rc_quota_days c) pacing of
                                     Inr b \<Rightarrow> b | Inl _ \<Rightarrow> Normal)]
                  else if rc_requires_approval c then [''paid approval required'']
                  else (case rc_marginal_cost c of Some v \<Rightarrow> [''paid $'' @ oe_price env v] | None \<Rightarrow> []));
          prio = (if rc_priority c \<noteq> 0 then [''priority '' @ int_str (rc_priority c)] else []);
          details = cost @ prio;
          label = candidate_label (ei_logical_backend (rc_identity c)) (ei_effective_model (rc_identity c))
      in if details = [] then label else label @ '' ('' @ join '', '' details @ '')'')"

record reorder_decision =
  ro_selected_over :: "rust_str list"
  ro_escalated :: bool
  ro_outcome_aware :: bool

definition append_reorder_reason ::
  "order_env \<Rightarrow> pacing_config \<Rightarrow> rust_str \<Rightarrow> route_candidate \<Rightarrow> reorder_decision \<Rightarrow> rust_str" where
  "append_reorder_reason env pacing base selected r =
     base
     @ (if ro_escalated r then ''; escalated to stronger model after genuine agent failure, selected ''
        else if ro_outcome_aware r then ''; outcome-aware reviewer history selected ''
        else ''; cost-aware reorder selected '')
     @ describe_candidate env pacing selected @ '' over '' @ join '', '' (ro_selected_over r)"

text \<open>The capacities are collected into a map over destinations; the last candidate of a destination
  wins.  Outside the load-balanced modes no observation is loaded, so every capacity is the
  default.\<close>

definition capacities_of :: "order_env \<Rightarrow> rust_str \<Rightarrow> route_candidate list \<Rightarrow> capacities" where
  "capacities_of env mode cs d =
     (if is_load_balanced_mode mode
      then unwrap_or (map_of (rev (map (\<lambda>c. (dest c, oe_capacity env (rc_identity c))) cs)) d)
             default_capacity
      else default_capacity)"

definition order_candidates ::
  "order_env \<Rightarrow> pacing_config \<Rightarrow> route_candidate list \<Rightarrow> bool \<Rightarrow> routing_runtime_state \<Rightarrow> rust_str
   \<Rightarrow> route_candidate list \<times> reorder_decision option" where
  "order_candidates env pacing candidates escalate runtime mode =
     (let original = with_original_order candidates
      in if \<not> escalate \<and> \<not> is_load_balanced_mode mode
            \<and> \<not> (is_review_mode mode \<and> rs_reviewer_outcomes runtime \<noteq> [])
            \<and> \<not> list_ex has_cost_policy original
         then (original, None)
         else
           (let ranked = sort_by (compare_candidates pacing escalate runtime mode
                                    (capacities_of env mode original)) original;
                final = (if is_review_mode mode \<and> \<not> escalate
                         then apply_reviewer_history runtime pacing ranked else ranked);
                outcome_aware = (map dest ranked \<noteq> map dest final)
            in case first final of
                 None \<Rightarrow> (final, None)
               | Some selected \<Rightarrow>
                   (let over = map (describe_candidate env pacing)
                                 (takeWhile (\<lambda>c. \<not> same_destination c selected) original)
                    in (final, if over = [] \<and> \<not> outcome_aware then None
                               else Some \<lparr> ro_selected_over = over, ro_escalated = escalate,
                                           ro_outcome_aware = outcome_aware \<rparr>))))"

end
