(* ===== verification/Route_Decide.thy ===== *)
theory Route_Decide
  imports Route_Order
begin

text \<open>
  Route evaluation: \<open>src/routing/decision.rs\<close>, \<open>src/routing/reservation.rs\<close> (the concurrency cap),
  the error types of \<open>src/routing/types.rs\<close> and the model extraction of \<open>src/runner/resolve.rs\<close>.

  \<open>route_env\<close> holds what an evaluation observes: the executable tests, the availability store and the
  instant it is read at, the in-flight counters of the process and the credential store.  The
  diagnostics record attached to a decision is reporting only and is not modelled.
\<close>

record route_env =
  re_order :: order_env
  re_available :: "rust_str \<Rightarrow> bool"
  re_state :: state_file
  re_parse_ts :: "rust_str \<Rightarrow> int option"
  re_now :: int
  re_in_flight :: "rust_str \<Rightarrow> nat"
  re_is_subscription :: "rust_str \<Rightarrow> bool"

record backend_usage_summary =
  us_runs_this_week :: nat
  us_runs_this_session :: nat
  us_estimated_cost_this_week :: rat
  us_actual_cost_this_week :: rat
  us_strong_runs_this_week :: nat
  us_strong_runs_this_session :: nat

record route_request =
  rq_mode :: rust_str
  rq_requested_backend :: rust_str
  rq_requested_model :: "rust_str option"
  rq_recommended_backend :: "rust_str option"
  rq_recommended_model :: "rust_str option"
  rq_session_id :: "rust_str option"
  rq_usage_summary :: "backend_usage_summary option"
  rq_last_failure_class :: "rust_str option"
  rq_exact_route_required :: bool

record route_decision =
  rd_identity :: execution_identity
  rd_requested_backend :: rust_str
  rd_effective_backend :: rust_str
  rd_requested_model :: "rust_str option"
  rd_effective_model :: "rust_str option"
  rd_effective_quota_pool :: "rust_str option"
  rd_routing_reason :: rust_str
  rd_fallback_used :: bool
  rd_confidence_impact :: "rust_str option"
  rd_human_required :: bool

definition refresh_compatibility_projection :: "route_decision \<Rightarrow> route_decision" where
  "refresh_compatibility_projection d =
     d\<lparr> rd_requested_backend := ei_requested_backend (rd_identity d),
        rd_effective_backend := ei_logical_backend (rd_identity d),
        rd_requested_model := ei_requested_model (rd_identity d),
        rd_effective_model := ei_effective_model (rd_identity d),
        rd_effective_quota_pool := ei_quota_pool (rd_identity d) \<rparr>"

definition from_identity ::
  "execution_identity \<Rightarrow> rust_str \<Rightarrow> bool \<Rightarrow> rust_str option \<Rightarrow> bool \<Rightarrow> route_decision" where
  "from_identity i rsn fallback impact human =
     refresh_compatibility_projection
       \<lparr> rd_identity = i, rd_requested_backend = [], rd_effective_backend = [],
         rd_requested_model = None, rd_effective_model = None, rd_effective_quota_pool = None,
         rd_routing_reason = rsn, rd_fallback_used = fallback, rd_confidence_impact = impact,
         rd_human_required = human \<rparr>"

record skipped_backend =
  sb_backend :: rust_str
  sb_instance :: "rust_str option"
  sb_model :: "rust_str option"
  sb_reason :: rust_str
  sb_until :: "rust_str option"

datatype route_error =
    NoEligibleBackend (ne_backend: rust_str) (ne_model: "rust_str option")
      (ne_skipped: "skipped_backend list") (ne_reset: "rust_str option")
  | ApprovalRequired (ap_backend: rust_str) (ap_instance: "rust_str option")
      (ap_model: "rust_str option") (ap_skipped: "skipped_backend list")

datatype route_failure =
    RouteError route_error
  | InvalidAllowList allow_list_error
  | NotAllowed rust_str "rust_str option" rust_str
  | OverCap rust_str
  | StateUnreadable state_error
  | EmptyCandidateList

definition is_capacity_deferral :: "route_error \<Rightarrow> bool" where
  "is_capacity_deferral e =
     (case e of
        NoEligibleBackend _ _ skipped reset \<Rightarrow>
          is_some reset \<or> list_ex (\<lambda>s. sb_reason s = ''max_concurrent_reached'') skipped
      | ApprovalRequired _ _ _ _ \<Rightarrow> False)"

definition render_skip :: "skipped_backend \<Rightarrow> rust_str" where
  "render_skip s = candidate_label (sb_backend s) (sb_model s) @ '': '' @ sb_reason s
     @ (case sb_until s of Some u \<Rightarrow> '' until '' @ u | None \<Rightarrow> [])"

definition render_skips :: "skipped_backend list \<Rightarrow> rust_str" where
  "render_skips ss = join '', '' (map render_skip ss)"

definition route_error_display :: "route_error \<Rightarrow> rust_str" where
  "route_error_display e =
     (case e of
        NoEligibleBackend b m skipped reset \<Rightarrow>
          ''no eligible backend available for preferred '' @ candidate_label b m
          @ (if skipped = [] then [] else ''; skipped: '' @ render_skips skipped)
          @ (case reset of Some r \<Rightarrow> ''; earliest reset: '' @ r | None \<Rightarrow> [])
      | ApprovalRequired b inst m skipped \<Rightarrow>
          ''operator approval required before using paid route '' @ candidate_label b m
          @ (case opt_filter (\<lambda>i. i \<noteq> b) inst of Some i \<Rightarrow> '' (instance '' @ i @ '')'' | None \<Rightarrow> [])
          @ (if skipped = [] then [] else ''; skipped: '' @ render_skips skipped))"

subsection \<open>Gates of one candidate\<close>

definition concurrency_key :: "rust_str \<Rightarrow> rust_str option \<Rightarrow> rust_str" where
  "concurrency_key backend model = backend @ ''/'' @ unwrap_or model []"

definition skip_of :: "execution_identity \<Rightarrow> rust_str \<Rightarrow> rust_str option \<Rightarrow> skipped_backend" where
  "skip_of i rsn until =
     \<lparr> sb_backend = ei_logical_backend i, sb_instance = Some (ei_backend_instance i),
       sb_model = ei_effective_model i, sb_reason = rsn, sb_until = until \<rparr>"

definition max_concurrent_skip ::
  "(rust_str \<times> nat) list \<Rightarrow> (rust_str \<Rightarrow> nat) \<Rightarrow> execution_identity \<Rightarrow> skipped_backend option" where
  "max_concurrent_skip max_concurrent in_flight i =
     (let key = concurrency_key (ei_logical_backend i) (ei_effective_model i)
      in case map_of max_concurrent key of
           None \<Rightarrow> None
         | Some cap \<Rightarrow> if cap \<le> in_flight key then Some (skip_of i ''max_concurrent_reached'' None) else None)"

definition availability_reason :: "availability_decision \<Rightarrow> rust_str" where
  "availability_reason d =
     (case ad_scope d of
        Some BackendWide \<Rightarrow> ''backend-wide''
      | Some ModelSpecific \<Rightarrow> ''model-specific''
      | Some QuotaPool \<Rightarrow> ''quota-pool''
      | None \<Rightarrow> ''availability'')
     @ '' '' @ (case ad_reason d of Some r \<Rightarrow> avail_reason_str r | None \<Rightarrow> ''unknown'')"

definition executable_available :: "route_env \<Rightarrow> execution_identity \<Rightarrow> bool" where
  "executable_available env i =
     (let configured = is_some_and (ei_executable i) (ie_is_exec (oe_ids (re_order env)))
      in if ei_explicit_instance i then configured
         else configured \<or> re_available env (ei_logical_backend i))"

definition instance_disabled :: "routing_policy \<Rightarrow> execution_identity \<Rightarrow> bool" where
  "instance_disabled p i =
     (ei_explicit_instance i
      \<and> is_some_and (map_of (rp_backend_instances p) (ei_backend_instance i))
          (\<lambda>inst. \<not> instance_enabled inst))"

definition attempted_key :: "routing_runtime_state \<Rightarrow> candidate_identity \<Rightarrow> bool" where
  "attempted_key runtime k = (k \<in> set (rs_attempted runtime) \<or> k \<in> set (rs_dispatch_attempted runtime))"

definition skip_reason_for_candidate ::
  "route_env \<Rightarrow> (rust_str \<times> nat) list \<Rightarrow> routing_runtime_state \<Rightarrow> bool \<Rightarrow> bool \<Rightarrow> routing_policy
   \<Rightarrow> execution_identity \<Rightarrow> (state_error, skipped_backend option) rust_result" where
  "skip_reason_for_candidate env max_concurrent runtime exclude_attempted requires_approval p i =
     (if instance_disabled p i then Inr (Some (skip_of i ''backend instance disabled'' None))
      else if \<not> executable_available env i then Inr (Some (skip_of i ''backend CLI not installed'' None))
      else (case max_concurrent_skip max_concurrent (re_in_flight env) i of
              Some s \<Rightarrow> Inr (Some s)
            | None \<Rightarrow>
                (case availability_for_identity (re_parse_ts env) (re_state env) i (re_now env) of
                   Inl e \<Rightarrow> Inl e
                 | Inr d \<Rightarrow>
                     if ad_eligible d
                     then (let k = from_execution_identity i
                           in if exclude_attempted \<and> attempted_key runtime k
                              then Inr (Some (skip_of i ''already_attempted_after_capability_failure'' None))
                              else if requires_approval \<and> k \<notin> set (rs_approved runtime)
                              then Inr (Some (skip_of i ''operator_approval_required'' None))
                              else Inr None)
                     else Inr (Some (skip_of i (availability_reason d) (ad_until d))))))"

text \<open>The first minimum of the readable expiries (\<open>min_by_key\<close>).\<close>

fun earlier :: "int \<times> rust_str \<Rightarrow> (int \<times> rust_str) option \<Rightarrow> (int \<times> rust_str) option" where
  "earlier x None = Some x"
| "earlier x (Some y) = (if fst x \<le> fst y then Some x else Some y)"

definition earliest_reset :: "(rust_str \<Rightarrow> int option) \<Rightarrow> skipped_backend list \<Rightarrow> rust_str option" where
  "earliest_reset parse_ts ss =
     map_option snd (foldr earlier
       (List.map_filter (\<lambda>s. Option.bind (sb_until s) (\<lambda>u. map_option (\<lambda>t. (t, u)) (parse_ts u))) ss)
       None)"

subsection \<open>Picking a candidate\<close>

text \<open>The loop carries the skips so far and whether an included route is only temporarily
  blocked.\<close>

fun pick_loop ::
  "route_env \<Rightarrow> (rust_str \<times> nat) list \<Rightarrow> routing_runtime_state \<Rightarrow> bool \<Rightarrow> routing_policy
   \<Rightarrow> route_candidate list \<Rightarrow> skipped_backend list \<Rightarrow> bool
   \<Rightarrow> (route_failure, (route_candidate option) \<times> skipped_backend list \<times> bool) rust_result" where
  "pick_loop env mc runtime ex p [] skipped blocked = Inr (None, skipped, blocked)"
| "pick_loop env mc runtime ex p (c # cs) skipped blocked =
     (case skip_reason_for_candidate env mc runtime ex (rc_requires_approval c) p (rc_identity c) of
        Inl e \<Rightarrow> Inl (StateUnreadable e)
      | Inr None \<Rightarrow> Inr (Some c, skipped, blocked)
      | Inr (Some s) \<Rightarrow>
          pick_loop env mc runtime ex p cs (skipped @ [s])
            (blocked \<or> (rc_included_in_quota c
                        \<and> (sb_reason s = ''max_concurrent_reached'' \<or> is_some (sb_until s)))))"

definition pick_route_candidate ::
  "route_env \<Rightarrow> (rust_str \<times> nat) list \<Rightarrow> routing_runtime_state \<Rightarrow> bool \<Rightarrow> routing_policy
   \<Rightarrow> route_candidate list \<Rightarrow> (route_failure, route_candidate \<times> skipped_backend list) rust_result" where
  "pick_route_candidate env mc runtime ex p candidates =
     (case candidates of
        [] \<Rightarrow> Inl EmptyCandidateList
      | preferred # _ \<Rightarrow>
          (case pick_loop env mc runtime ex p candidates [] False of
             Inl e \<Rightarrow> Inl e
           | Inr (Some c, skipped, _) \<Rightarrow> Inr (c, skipped)
           | Inr (None, skipped, blocked) \<Rightarrow>
               (case List.find (\<lambda>s. sb_reason s = ''operator_approval_required'' \<and> \<not> blocked) skipped of
                  Some s \<Rightarrow> Inl (RouteError (ApprovalRequired (sb_backend s) (sb_instance s) (sb_model s) skipped))
                | None \<Rightarrow> Inl (RouteError (NoEligibleBackend (ei_logical_backend (rc_identity preferred))
                             (ei_effective_model (rc_identity preferred)) skipped
                             (earliest_reset (re_parse_ts env) skipped))))))"

definition append_availability_reason ::
  "rust_str \<Rightarrow> skipped_backend list \<Rightarrow> rust_str \<Rightarrow> bool \<Rightarrow> rust_str" where
  "append_availability_reason base skipped selected_backend mention_human =
     base @ (if skipped = [] then [] else ''; '' @ render_skips skipped)
     @ ''; availability fallback to '' @ selected_backend
     @ (if mention_human then '' (human review required)'' else [])"

subsection \<open>Models pinned by backend arguments\<close>

fun extract_model_from_args :: "rust_str list \<Rightarrow> rust_str option" where
  "extract_model_from_args [] = None"
| "extract_model_from_args (arg # rest) =
     (if arg = ''-m'' \<or> arg = ''--model'' then first rest
      else (case strip_prefix ''-m='' arg of
              Some v \<Rightarrow> Some v
            | None \<Rightarrow> (case strip_prefix ''--model='' arg of
                         Some v \<Rightarrow> Some v
                       | None \<Rightarrow> extract_model_from_args rest)))"

fun extract_long_model :: "rust_str list \<Rightarrow> rust_str option" where
  "extract_long_model [] = None"
| "extract_long_model (arg # rest) =
     (if arg = ''--model'' then first rest
      else (case strip_prefix ''--model='' arg of
              Some v \<Rightarrow> Some v
            | None \<Rightarrow> extract_long_model rest))"

definition extract_model_from_backend_args :: "rust_str \<Rightarrow> rust_str list \<Rightarrow> rust_str option" where
  "extract_model_from_backend_args backend args =
     (if backend = ''codex'' then extract_model_from_args args
      else if backend = ''opencode'' \<or> backend = ''claude'' then extract_long_model args
      else None)"

subsection \<open>Explicit routes\<close>

text \<open>The model of a backend whose instances all support one and the same single model.\<close>

definition only_supported_model :: "routing_policy \<Rightarrow> rust_str \<Rightarrow> rust_str option" where
  "only_supported_model p backend =
     (case concat (map (\<lambda>(_, inst). bi_supported_models inst)
             (filter (\<lambda>(_, inst). unwrap_or (bi_logical_backend inst) (bi_runner_kind inst) = backend)
                (rp_backend_instances p))) of
        [] \<Rightarrow> None
      | m # ms \<Rightarrow> if list_all (\<lambda>x. x = m) ms then Some m else None)"

definition retry_excludes :: "route_request \<Rightarrow> routing_runtime_state \<Rightarrow> bool" where
  "retry_excludes req runtime =
     (route_is_genuine_agent_failure (rq_last_failure_class req)
      \<or> rs_attempted runtime \<noteq> [] \<or> rs_dispatch_attempted runtime \<noteq> [])"

definition explicit_primary ::
  "route_env \<Rightarrow> routing_policy \<Rightarrow> rust_str \<Rightarrow> rust_str \<Rightarrow> rust_str option \<Rightarrow> route_candidate" where
  "explicit_primary env p mode backend requested_model =
     (let effective_model = opt_or requested_model (only_supported_model p backend)
      in unwrap_or (configured_route_candidate (re_order env) p mode backend effective_model)
           (plain_candidate (legacy_candidate backend effective_model None)
              (configured_route_requires_approval p mode backend requested_model) 0))"

definition route_explicit ::
  "route_env \<Rightarrow> route_profile \<Rightarrow> routing_policy \<Rightarrow> route_request \<Rightarrow> rust_str option
   \<Rightarrow> routing_runtime_state \<Rightarrow> (route_failure, route_decision) rust_result" where
  "route_explicit env prof p req requested_model runtime =
     (case pick_route_candidate env (pf_max_concurrent_per_model prof) runtime (retry_excludes req runtime) p
             [explicit_primary env p (rq_mode req) (rq_requested_backend req) requested_model] of
        Inl e \<Rightarrow> Inl e
      | Inr (selected, _) \<Rightarrow>
          Inr (from_identity (with_request (rc_identity selected) (rq_requested_backend req) requested_model)
                 ''explicit CLI override'' False None False))"

definition pinned_model ::
  "route_profile \<Rightarrow> route_request \<Rightarrow> candidate_config list option \<Rightarrow> rust_str option" where
  "pinned_model prof req allowed =
     (if is_some (rq_requested_model req) \<or> allowed = None then None
      else if rq_requested_backend req = ''codex''
      then extract_model_from_backend_args ''codex'' (pf_codex_args prof)
      else if rq_requested_backend req = ''opencode''
      then extract_model_from_backend_args ''opencode'' (pf_opencode_args prof)
      else if rq_requested_backend req = ''claude''
      then extract_model_from_backend_args ''claude'' (pf_claude_args prof)
      else None)"

definition explicit_branch ::
  "route_env \<Rightarrow> route_profile \<Rightarrow> routing_policy \<Rightarrow> route_request \<Rightarrow> routing_runtime_state
   \<Rightarrow> (route_failure, route_decision) rust_result" where
  "explicit_branch env prof p req runtime =
     (let model = opt_or (rq_requested_model req)
                    (pinned_model prof req (allowed_models_for p (rq_mode req)))
      in if \<not> allows_model p (rq_mode req) (rq_requested_backend req) model
         then Inl (NotAllowed (rq_requested_backend req) model (rq_mode req))
         else route_explicit env prof p req model runtime)"

subsection \<open>Usage caps\<close>

definition cap_text :: "rust_str \<Rightarrow> nat \<Rightarrow> nat \<Rightarrow> rust_str" where
  "cap_text what used cap = what @ '' ('' @ nat_str used @ ''/'' @ nat_str cap @ '')''"

definition reached :: "'a::linorder option \<Rightarrow> 'a \<Rightarrow> ('a \<Rightarrow> rust_str) \<Rightarrow> rust_str option" where
  "reached cap used text = (case cap of Some m \<Rightarrow> if m \<le> used then Some (text m) else None | None \<Rightarrow> None)"

definition over_cap_reason ::
  "order_env \<Rightarrow> routing_policy \<Rightarrow> rust_str \<Rightarrow> rust_str option \<Rightarrow> backend_usage_summary \<Rightarrow> rust_str option" where
  "over_cap_reason env p backend session_id s =
     opt_or (reached (rp_max_runs_week p) (us_runs_this_week s)
               (cap_text (''backend '' @ [CHR 0x27] @ backend @ [CHR 0x27] @ '' exceeded weekly run cap'')
                  (us_runs_this_week s)))
    (opt_or (if is_some session_id
             then opt_or (reached (rp_max_runs_session p) (us_runs_this_session s)
                            (cap_text (''backend '' @ [CHR 0x27] @ backend @ [CHR 0x27]
                                       @ '' exceeded session run cap'') (us_runs_this_session s)))
                         (reached (rp_max_strong_session p) (us_strong_runs_this_session s)
                            (cap_text ''strong-model session cap reached'' (us_strong_runs_this_session s)))
             else None)
    (opt_or (reached (rp_max_strong_week p) (us_strong_runs_this_week s)
               (cap_text ''strong-model weekly cap reached'' (us_strong_runs_this_week s)))
    (opt_or (reached (rp_max_estimated_cost_week p) (us_estimated_cost_this_week s)
               (\<lambda>m. ''estimated weekly cost cap reached ($'' @ oe_price env (us_estimated_cost_this_week s)
                    @ ''/$'' @ oe_price env m @ '')''))
            (reached (rp_max_actual_cost_week p) (us_actual_cost_this_week s)
               (\<lambda>m. ''actual weekly cost cap reached ($'' @ oe_price env (us_actual_cost_this_week s)
                    @ ''/$'' @ oe_price env m @ '')'')))))"

subsection \<open>Pools\<close>

definition escalates :: "route_request \<Rightarrow> routing_runtime_state \<Rightarrow> bool" where
  "escalates req runtime =
     (route_is_genuine_agent_failure (rq_last_failure_class req) \<or> rs_attempted runtime \<noteq> [])"

definition reorder_text ::
  "route_env \<Rightarrow> route_profile \<Rightarrow> rust_str \<Rightarrow> route_candidate \<Rightarrow> reorder_decision option \<Rightarrow> rust_str" where
  "reorder_text env prof base selected reorder =
     (case opt_filter (\<lambda>r. ro_selected_over r \<noteq> []) reorder of
        Some r \<Rightarrow> append_reorder_reason (re_order env) (pf_pacing prof) base selected r
      | None \<Rightarrow> base)"

definition task_rule_branch ::
  "route_env \<Rightarrow> route_profile \<Rightarrow> routing_policy \<Rightarrow> route_request \<Rightarrow> routing_runtime_state \<Rightarrow> nat
   \<Rightarrow> route_candidate list \<Rightarrow> (route_failure, route_decision \<times> route_candidate list) rust_result" where
  "task_rule_branch env prof p req runtime rule_index candidates =
     (let escalate = escalates req runtime
      in case order_candidates (re_order env) (pf_pacing prof) candidates escalate runtime (rq_mode req) of
           (ordered, reorder) \<Rightarrow>
             (case first ordered of
                None \<Rightarrow> Inl EmptyCandidateList
              | Some preferred \<Rightarrow>
                  (case pick_route_candidate env (pf_max_concurrent_per_model prof) runtime escalate p ordered of
                     Inl e \<Rightarrow> Inl e
                   | Inr (selected, skipped) \<Rightarrow>
                       (let fallback = \<not> same_destination selected preferred;
                            base = reorder_text env prof (''task routing rule #'' @ nat_str (rule_index + 1))
                                     selected reorder;
                            rsn = (if fallback
                                   then append_availability_reason base skipped
                                          (ei_logical_backend (rc_identity selected)) False
                                   else base)
                        in Inr (from_identity
                                  (with_request (rc_identity selected) (rq_requested_backend req)
                                     (rq_requested_model req)) rsn fallback None False,
                                ordered)))))"

definition every_route_tried ::
  "candidate_config list option \<Rightarrow> routing_runtime_state \<Rightarrow> route_candidate list \<Rightarrow> bool" where
  "every_route_tried allowed runtime cs =
     (is_some allowed \<and> list_all (\<lambda>c. attempted_key runtime (dest c)) cs)"

definition pool_branch ::
  "route_env \<Rightarrow> route_profile \<Rightarrow> routing_policy \<Rightarrow> route_request \<Rightarrow> routing_runtime_state
   \<Rightarrow> candidate_config list option \<Rightarrow> bool \<Rightarrow> route_candidate list
   \<Rightarrow> (route_failure, route_decision \<times> route_candidate list) rust_result" where
  "pool_branch env prof p req runtime allowed is_profile_policy candidates =
     (let escalate = escalates req runtime; review = is_review_mode (rq_mode req)
      in case order_candidates (re_order env) (pf_pacing prof) candidates escalate runtime (rq_mode req) of
           (ordered, reorder) \<Rightarrow>
             (case first ordered of
                None \<Rightarrow> Inl EmptyCandidateList
              | Some preferred \<Rightarrow>
                  (case pick_route_candidate env (pf_max_concurrent_per_model prof) runtime
                          (escalate \<and> \<not> every_route_tried allowed runtime ordered) p ordered of
                     Inl e \<Rightarrow> Inl e
                   | Inr (selected, skipped) \<Rightarrow>
                       (let base = reorder_text env prof
                                     (if is_some allowed then ''allowed models for '' @ rq_mode req @ '' jobs''
                                      else if is_profile_policy then ''profile routing policy''
                                      else ''global routing policy'') selected reorder;
                            fallback = \<not> same_destination selected preferred;
                            rsn = (if fallback
                                   then append_availability_reason base skipped
                                          (ei_logical_backend (rc_identity selected)) review
                                   else base)
                        in Inr (from_identity
                                  (with_request (rc_identity selected) (rq_requested_backend req)
                                     (rq_requested_model req)) rsn fallback
                                  (if fallback \<and> review then Some ''low'' else None) (fallback \<and> review),
                                ordered)))))"

text \<open>Which pool applies: the allow-list, the profile's own list, or the inherited list.\<close>

definition nonempty_list :: "'a list option \<Rightarrow> 'a list option" where
  "nonempty_list x = opt_filter (\<lambda>l. l \<noteq> []) x"

definition pool_candidates ::
  "route_env \<Rightarrow> route_profile \<Rightarrow> routing_policy \<Rightarrow> routing_policy \<Rightarrow> rust_str
   \<Rightarrow> candidate_config list option \<Rightarrow> (route_candidate list \<times> bool) option" where
  "pool_candidates env prof defaults p mode allowed =
     (case allowed of
        Some l \<Rightarrow> Some (route_candidates (re_order env) p l, False)
      | None \<Rightarrow>
          (case nonempty_list (policy_candidates (re_order env) (pf_routing prof) mode) of
             Some cs \<Rightarrow> Some (cs, True)
           | None \<Rightarrow>
               if is_some (nonempty_list (policy_candidates (re_order env) defaults mode))
               then map_option (\<lambda>cs. (cs, False)) (nonempty_list (policy_candidates (re_order env) p mode))
               else None))"

subsection \<open>Without a pool\<close>

record default_route =
  dr_backend :: rust_str
  dr_model :: "rust_str option"
  dr_reason :: rust_str
  dr_fallback :: bool
  dr_impact :: "rust_str option"
  dr_human :: bool

definition default_reason ::
  "rust_str option \<times> rust_str option \<Rightarrow> rust_str option \<times> rust_str option \<Rightarrow> route_request \<Rightarrow> rust_str" where
  "default_reason profile_mode default_mode req =
     (if is_some (fst profile_mode) \<or> is_some (snd profile_mode) then ''profile routing policy''
      else if is_some (fst default_mode) \<or> is_some (snd default_mode) then ''global routing policy''
      else if is_some (rq_recommended_backend req) \<or> is_some (rq_recommended_model req)
      then ''PM recommendation'' else ''built-in default'')"

definition initial_route ::
  "route_env \<Rightarrow> route_profile \<Rightarrow> routing_policy \<Rightarrow> routing_policy \<Rightarrow> route_request \<Rightarrow> default_route" where
  "initial_route env prof defaults p req =
     (let mode = rq_mode req; effective_mode = policy_backend_model p mode
      in \<lparr> dr_backend = unwrap_or (opt_or (fst effective_mode) (rq_recommended_backend req))
                          (builtin_backend mode (re_available env)),
           dr_model = opt_or (snd effective_mode) (rq_recommended_model req),
           dr_reason = default_reason (policy_backend_model (pf_routing prof) mode)
                         (policy_backend_model defaults mode) req,
           dr_fallback = False, dr_impact = None, dr_human = False \<rparr>)"

definition apply_usage_caps ::
  "route_env \<Rightarrow> routing_policy \<Rightarrow> route_request \<Rightarrow> default_route \<Rightarrow> (route_failure, default_route) rust_result" where
  "apply_usage_caps env p req r =
     (let mode = rq_mode req
      in case Option.bind (rq_usage_summary req)
                (over_cap_reason (re_order env) p (dr_backend r) (rq_session_id req)) of
           None \<Rightarrow> Inr r
         | Some cap_reason \<Rightarrow>
             if is_review_mode mode \<and> rp_allow_review_fallback p
             then (let fallback = unwrap_or (review_fallback_backend p (re_available env)) (dr_backend r)
                   in if fallback \<noteq> dr_backend r
                      then Inr (r\<lparr> dr_backend := fallback,
                                   dr_model := (if dr_model r = None then review_fallback_model p else dr_model r),
                                   dr_reason := dr_reason r @ ''; '' @ cap_reason,
                                   dr_fallback := True, dr_impact := Some ''low'', dr_human := True \<rparr>)
                      else Inr r)
             else if \<not> is_review_mode mode \<and> rp_allow_implementation_fallback p
             then (let fallback = unwrap_or (any_available_backend mode (re_available env)) (dr_backend r)
                   in if fallback \<noteq> dr_backend r
                      then Inr (r\<lparr> dr_backend := fallback,
                                   dr_reason := dr_reason r @ ''; '' @ cap_reason
                                     @ ''; implementation fallback due to routing caps'',
                                   dr_fallback := True, dr_impact := Some ''medium'' \<rparr>)
                      else Inr r)
             else Inl (OverCap cap_reason))"

definition default_primary ::
  "route_env \<Rightarrow> routing_policy \<Rightarrow> rust_str \<Rightarrow> default_route \<Rightarrow> route_candidate" where
  "default_primary env p mode r =
     unwrap_or (configured_route_candidate (re_order env) p mode (dr_backend r) (dr_model r))
       (plain_candidate (legacy_candidate (dr_backend r) (dr_model r) None) False 0)"

definition default_branch ::
  "route_env \<Rightarrow> route_profile \<Rightarrow> routing_policy \<Rightarrow> routing_policy \<Rightarrow> route_request \<Rightarrow> routing_runtime_state
   \<Rightarrow> (route_failure, route_decision \<times> route_candidate list) rust_result" where
  "default_branch env prof defaults p req runtime =
     (case apply_usage_caps env p req (initial_route env prof defaults p req) of
        Inl e \<Rightarrow> Inl e
      | Inr r \<Rightarrow>
          (let mode = rq_mode req; review = is_review_mode mode;
               primary = default_primary env p mode r;
               candidates = auto_candidates (re_order env) p mode primary
           in case pick_route_candidate env (pf_max_concurrent_per_model prof) runtime False p candidates of
                Inl e \<Rightarrow> Inl e
              | Inr (selected, skipped) \<Rightarrow>
                  (let moved = \<not> same_destination selected primary;
                       rsn = (if moved then append_availability_reason (dr_reason r) skipped
                                              (ei_logical_backend (rc_identity selected)) review
                              else dr_reason r)
                   in Inr (from_identity
                             (with_request (rc_identity selected) (rq_requested_backend req)
                                (rq_requested_model req)) rsn (dr_fallback r \<or> moved)
                             (if moved \<and> review then opt_or (dr_impact r) (Some ''low'') else dr_impact r)
                             (dr_human r \<or> (moved \<and> review)),
                           candidates))))"

subsection \<open>The decision\<close>

definition decide_with_inner ::
  "route_env \<Rightarrow> routing_policy \<Rightarrow> route_profile \<Rightarrow> route_request \<Rightarrow> task_routing_context option
   \<Rightarrow> routing_runtime_state \<Rightarrow> (route_failure, route_decision \<times> route_candidate list) rust_result" where
  "decide_with_inner env defaults prof req task runtime =
     (let p = effective_routing (re_is_subscription env) prof defaults; mode = rq_mode req
      in case allowed_model_errors p of
           e # _ \<Rightarrow> Inl (InvalidAllowList e)
         | [] \<Rightarrow>
             (let allowed = allowed_models_for p mode
              in if rq_requested_backend req \<noteq> ''auto''
                 then (case explicit_branch env prof p req runtime of
                         Inl e \<Rightarrow> Inl e | Inr d \<Rightarrow> Inr (d, []))
                 else (case opt_filter (\<lambda>(_, cs). cs \<noteq> [] \<and> allowed = None)
                              (task_rule_candidates (re_order env) p mode task) of
                         Some (idx, cs) \<Rightarrow> task_rule_branch env prof p req runtime idx cs
                       | None \<Rightarrow>
                           (case pool_candidates env prof defaults p mode allowed of
                              Some (cs, is_profile) \<Rightarrow>
                                pool_branch env prof p req runtime allowed is_profile cs
                            | None \<Rightarrow> default_branch env prof defaults p req runtime))))"

text \<open>The gate of an explicit model on an automatic route: the candidate of the selected backend that
  names the model, or on an allow-listed kind the entry for every model of the backend.\<close>

definition override_gate ::
  "route_decision \<Rightarrow> route_candidate list \<Rightarrow> bool \<Rightarrow> rust_str \<Rightarrow> route_candidate option" where
  "override_gate d candidates allow_listed model =
     (let on_backend = filter (\<lambda>c. ei_logical_backend (rc_identity c) = rd_effective_backend d) candidates
      in opt_or (List.find (\<lambda>c. ei_effective_model (rc_identity c) = Some model) on_backend)
                (List.find (\<lambda>c. allow_listed \<and> ei_effective_model (rc_identity c) = None
                                \<and> is_some (rd_effective_model d)) on_backend))"

definition override_skip ::
  "route_env \<Rightarrow> route_profile \<Rightarrow> routing_policy \<Rightarrow> route_request \<Rightarrow> routing_runtime_state
   \<Rightarrow> route_decision \<Rightarrow> route_candidate list \<Rightarrow> rust_str \<Rightarrow> route_failure option" where
  "override_skip env prof p req runtime d candidates model =
     (if rd_effective_model d = Some model then None
      else (case override_gate d candidates (is_some (allowed_models_for p (rq_mode req))) model of
              None \<Rightarrow> None
            | Some c \<Rightarrow>
                (case skip_reason_for_candidate env (pf_max_concurrent_per_model prof) runtime
                        (retry_excludes req runtime) (rc_requires_approval c) p (rc_identity c) of
                   Inl e \<Rightarrow> Some (StateUnreadable e)
                 | Inr None \<Rightarrow> None
                 | Inr (Some s) \<Rightarrow>
                     if sb_reason s = ''operator_approval_required''
                     then Some (RouteError (ApprovalRequired (sb_backend s)
                                  (Some (ei_backend_instance (rc_identity c))) (sb_model s) [s]))
                     else Some (RouteError (NoEligibleBackend (ei_logical_backend (rc_identity c))
                                  (ei_effective_model (rc_identity c)) [s] None)))))"

definition apply_model_override ::
  "route_env \<Rightarrow> route_profile \<Rightarrow> routing_policy \<Rightarrow> route_request \<Rightarrow> routing_runtime_state
   \<Rightarrow> route_candidate list \<Rightarrow> rust_str \<Rightarrow> route_decision \<Rightarrow> (route_failure, route_decision) rust_result" where
  "apply_model_override env prof p req runtime candidates model d =
     (if \<not> allows_model p (rq_mode req) (rd_effective_backend d) (Some model)
      then Inl (NotAllowed (rd_effective_backend d) (Some model) (rq_mode req))
      else (case override_skip env prof p req runtime d candidates model of
              Some e \<Rightarrow> Inl e
            | None \<Rightarrow>
                Inr (refresh_compatibility_projection
                  (d\<lparr> rd_identity := set_quota_pool
                        (find_quota_pool (ie_agy_catalog (oe_ids (re_order env))) p (rq_mode req)
                           (rd_effective_backend d) (Some model))
                        ((rd_identity d)\<lparr> ei_effective_model := Some model \<rparr>) \<rparr>))))"

definition apply_codex_pin :: "route_profile \<Rightarrow> route_decision \<Rightarrow> route_decision" where
  "apply_codex_pin prof d =
     (if rd_effective_backend d = ''codex'' \<and> rd_effective_model d = None
      then (case extract_model_from_args (pf_codex_args prof) of
              Some m \<Rightarrow> refresh_compatibility_projection
                          (d\<lparr> rd_identity := (rd_identity d)\<lparr> ei_effective_model := Some m \<rparr> \<rparr>)
            | None \<Rightarrow> d)
      else d)"

definition decide_with_task_runtime ::
  "route_env \<Rightarrow> routing_policy \<Rightarrow> route_profile \<Rightarrow> route_request \<Rightarrow> task_routing_context option
   \<Rightarrow> routing_runtime_state \<Rightarrow> (route_failure, route_decision) rust_result" where
  "decide_with_task_runtime env defaults prof req task runtime =
     (case decide_with_inner env defaults prof req task runtime of
        Inl e \<Rightarrow> Inl e
      | Inr (d, candidates) \<Rightarrow>
          map_sum id (apply_codex_pin prof)
            (case (if rq_requested_backend req = ''auto'' \<and> \<not> rd_fallback_used d
                   then rq_requested_model req else None) of
               None \<Rightarrow> Inr d
             | Some model \<Rightarrow>
                 apply_model_override env prof (effective_routing (re_is_subscription env) prof defaults)
                   req runtime candidates model d))"

end
