(* ===== verification/Availability_Props.thy ===== *)
theory Availability_Props
  imports Availability
begin

text \<open>
  What the availability store promises: decisions follow the last record of each scope, retention
  never changes one, a recorded block holds until its expiry and only for its own scope, and an
  operator clear reopens a backend.
\<close>

subsection \<open>Files, updates and decisions\<close>

lemma canonical_record_idem [simp]: "canonical_record (canonical_record r) = canonical_record r"
  by (simp add: canonical_record_def canonical_backend_name_def)

lemma canonical_record_id: "ar_backend r \<noteq> ''cloud-coder'' \<Longrightarrow> canonical_record r = r"
  by (simp add: canonical_record_def canonical_backend_name_def)

definition canonical_list :: "availability_record list \<Rightarrow> bool" where
  "canonical_list rs = (\<forall>r\<in>set rs. ar_backend r \<noteq> ''cloud-coder'')"

lemma map_canonical_id: "canonical_list rs \<Longrightarrow> map canonical_record rs = rs"
  by (simp add: canonical_list_def canonical_record_id map_idI)

lemma load_state_canonical: "load_state file = Inr st \<Longrightarrow> canonical_list (av_records st)"
  by (auto simp: load_state_def canonical_list_def canonical_record_def canonical_backend_name_def
           split: state_file.splits if_splits)

lemma load_state_version: "load_state file = Inr st \<Longrightarrow> av_version st = CURRENT_VERSION"
  by (auto simp: load_state_def split: state_file.splits if_splits)

lemma retained_subset: "set (retained parse_ts now rs) \<subseteq> set rs"
proof -
  have "set (prune e rs) \<subseteq> set rs" for e by (induction rs) auto
  then show ?thesis by (simp add: retained_prune)
qed

lemma retained_length: "length (retained parse_ts now rs) \<le> length rs"
proof -
  have "length (prune e rs) \<le> length rs" for e by (induction rs) auto
  then show ?thesis by (simp add: retained_prune)
qed

lemma canonical_retained: "canonical_list rs \<Longrightarrow> canonical_list (retained parse_ts now rs)"
  using retained_subset by (fastforce simp: canonical_list_def)

lemma load_update:
  assumes "update_state parse_ts now f file = Inr (file', n)" and "load_state file = Inr st"
    and "canonical_list (av_records (f st))" and "av_version (f st) = CURRENT_VERSION"
  shows "load_state file' = Inr ((f st)\<lparr> av_records := retained parse_ts now (av_records (f st)) \<rparr>)"
proof -
  have "file' = Decoded ((f st)\<lparr> av_records := retained parse_ts now (av_records (f st)) \<rparr>)"
    using assms(1,2) by (auto simp: update_state_def apply_retention_def Let_def)
  then show ?thesis
    using assms(4) map_canonical_id [OF canonical_retained [OF assms(3)]]
    by (auto simp: load_state_def LEGACY_VERSION_def CURRENT_VERSION_def)
qed

lemma update_state_loads:
  "update_state parse_ts now f file = Inr x \<Longrightarrow> \<exists>st. load_state file = Inr st"
  by (auto simp: update_state_def split: sum.splits)

lemma availability_retained:
  "availability_for_key parse_ts (retained p' t rs) b i m pool now
   = availability_for_key parse_ts rs b i m pool now"
  unfolding availability_for_key_spec by (rule availability_spec_cong [OF same_matches_retained])

text \<open>After a push, decisions are those of the loaded records with the new one at the end.\<close>

lemma push_decision:
  assumes "update_state parse_ts t (push_record r) file = Inr (file', n)"
    and "ar_backend r \<noteq> ''cloud-coder''" and "load_state file = Inr st"
  shows "availability_for_identity parse_ts file' i now =
     Inr (availability_spec parse_ts (av_records st @ [r]) (ei_logical_backend i)
            (Some (ei_backend_instance i)) (ei_effective_model i) (ei_quota_pool i) now)"
proof -
  have "canonical_list (av_records (push_record r st))"
    using load_state_canonical [OF assms(3)] assms(2) by (auto simp: canonical_list_def push_record_def)
  then have "load_state file' =
      Inr ((push_record r st)\<lparr> av_records := retained parse_ts t (av_records (push_record r st)) \<rparr>)"
    using load_update [OF assms(1,3)] load_state_version [OF assms(3)] by (simp add: push_record_def)
  then show ?thesis
    by (simp add: availability_for_identity_def availability_retained push_record_def
        flip: availability_for_key_spec)
qed

lemma last_match_snoc [simp]:
  "last_match p (rs @ [r]) = (if p r then Some r else last_match p rs)"
  by simp

subsection \<open>Decisions follow the last record of each scope\<close>

text \<open>C35. Functional refinement of the eligibility decision: for every store and identity, the
  index-based scan of the code gives exactly the declarative contract (pool, then backend-wide,
  then model unless a broader explicit recovery came later); a store that cannot be read gives the
  read error and never a silent all-clear.\<close>

theorem decision_by_last_records:
  "availability_for_identity parse_ts file i now =
     map_sum id (\<lambda>st. availability_spec parse_ts (av_records st) (ei_logical_backend i)
                    (Some (ei_backend_instance i)) (ei_effective_model i) (ei_quota_pool i) now)
       (load_state file)"
  by (simp add: availability_for_identity_def availability_for_key_spec split: sum.split)

subsection \<open>Retention\<close>

text \<open>Compaction is invisible: dropping superseded expired records changes no decision, for
  any identity and at any instant, and the reported number is the number of dropped records.\<close>

theorem compaction_preserves_decisions:
  assumes "compact_expired parse_ts t file = Inr (file', n)"
  shows "availability_for_identity parse_ts file' i now = availability_for_identity parse_ts file i now
    \<and> (\<forall>st st'. load_state file = Inr st \<longrightarrow> load_state file' = Inr st' \<longrightarrow>
           length (av_records st) = length (av_records st') + n)"
proof (cases "file = NotFound")
  case True
  with assms show ?thesis by (simp add: compact_expired_def)
next
  case False
  with assms have present: "update_state parse_ts t id file = Inr (file', n)"
    by (simp add: compact_expired_def)
  then obtain st where st: "load_state file = Inr st" using update_state_loads by blast
  from present st have n: "n = length (av_records st) - length (retained parse_ts t (av_records st))"
    by (auto simp: update_state_def apply_retention_def Let_def)
  have "load_state file' = Inr (st\<lparr> av_records := retained parse_ts t (av_records st) \<rparr>)"
    using load_update [OF present st] load_state_canonical [OF st] load_state_version [OF st] by simp
  with st n retained_length show ?thesis
    by (simp add: availability_for_identity_def availability_retained)
qed

subsection \<open>Blocks\<close>

definition identity_decision ::
  "(rust_str \<Rightarrow> int option) \<Rightarrow> availability_record list \<Rightarrow> execution_identity \<Rightarrow> int
   \<Rightarrow> availability_decision" where
  "identity_decision parse_ts rs i now =
     availability_spec parse_ts rs (ei_logical_backend i) (Some (ei_backend_instance i))
       (ei_effective_model i) (ei_quota_pool i) now"

text \<open>An active record at the end of the list blocks its own identity.\<close>

lemma identity_blocked_by_last:
  assumes "is_active parse_ts r now"
    and "ar_backend r = ei_logical_backend i" "ar_instance r = Some (ei_backend_instance i)"
    and "ar_model r = ei_effective_model i" "ar_pool r = ei_quota_pool i"
  shows "\<not> ad_eligible (identity_decision parse_ts (rs @ [r]) i now)"
proof -
  have scope: "in_scope (ei_logical_backend i) (Some (ei_backend_instance i)) (ei_effective_model i) r"
    using assms by (simp add: in_scope_def)
  have nav: "ar_status r \<noteq> Available" using assms(1) by (auto simp: is_active_def)
  have "\<not> cleared_after (rs @ [r]) (in_scope (ei_logical_backend i) (Some (ei_backend_instance i))
           (ei_effective_model i)) q" for q
    using scope nav by (auto simp: cleared_after_def)
  with scope assms(1) show ?thesis
    by (cases "ei_effective_model i")
       (auto simp: identity_decision_def availability_spec_def active_match_def blocked_by_def
             split: option.splits)
qed

lemma active_match_snoc:
  "\<not> p r \<Longrightarrow> active_match parse_ts now p (rs @ [r]) = active_match parse_ts now p rs"
  by (simp add: active_match_def)

lemma cleared_after_snoc:
  "\<not> p r \<Longrightarrow> \<not> q r \<Longrightarrow> cleared_after (rs @ [r]) p q = cleared_after rs p q"
  by (simp add: cleared_after_def)

text \<open>A record of another instance and another pool is invisible to an identity.\<close>

lemma identity_decision_frame:
  assumes "ar_instance r = Some inst" "inst \<noteq> ei_backend_instance i"
    and "ei_quota_pool i = None \<or> ar_pool r \<noteq> ei_quota_pool i"
  shows "identity_decision parse_ts (rs @ [r]) i now = identity_decision parse_ts rs i now"
proof -
  have sc: "\<not> in_scope b (Some (ei_backend_instance i)) m r" for b m
    using assms(1,2) by (simp add: in_scope_def)
  have po: "\<not> in_pool (ei_quota_pool i) r"
    using assms(3) by (auto simp: in_pool_def)
  show ?thesis
    by (simp only: identity_decision_def availability_spec_def active_match_snoc cleared_after_snoc
        sc po simp_thms)
qed

lemma validate_trim: "validate_operator_label redact v = Some l \<Longrightarrow> l = trim v"
  using validate_operator_label_safe by blast

lemma valid_opt_trim:
  "valid_opt (validate_operator_label redact) p = Some p' \<Longrightarrow> p' = map_option trim p"
  by (auto simp: valid_opt_def validate_trim split: option.splits)

lemma record_unavailable_pushes:
  assumes "record_unavailable_for_identity parse_ts fmt_ts (validate_operator_label redact) file i
             rsn src until summary t = Inr (file', b)"
    and "trim (ei_backend_instance i) = ei_backend_instance i"
    and "map_option trim (ei_quota_pool i) = ei_quota_pool i"
  shows "\<exists>st n. load_state file = Inr st \<and>
     update_state parse_ts t (push_record (identity_record fmt_ts i (ei_backend_instance i)
       (ei_quota_pool i) Unavailable rsn src (cooldown rsn src until t) summary t)) file
     = Inr (file', n)"
proof -
  from assms(1) obtain x y where
    x: "validate_operator_label redact (ei_backend_instance i) = Some x" and
    y: "valid_opt (validate_operator_label redact) (ei_quota_pool i) = Some y"
    by (auto simp: record_unavailable_for_identity_def split: option.splits)
  with assms(2,3) have "x = ei_backend_instance i" "y = ei_quota_pool i"
    using validate_trim [OF x] valid_opt_trim [OF y] by simp_all
  with assms(1) x y show ?thesis
    by (auto simp: record_unavailable_for_identity_def Let_def split: sum.splits)
qed

text \<open>A recorded failure blocks its identity: from the record on and until its expiry (for
  ever when it has none) the identity that failed is not eligible, whatever the store held before.
  An automated quota failure blocks for at least five minutes, whatever reset the provider
  reported.\<close>

theorem recorded_block_holds:
  assumes "record_unavailable_for_identity parse_ts fmt_ts (validate_operator_label redact) file i
             rsn src until summary t = Inr (file', b)"
    and "ei_logical_backend i \<noteq> ''cloud-coder''"
    and "trim (ei_backend_instance i) = ei_backend_instance i"
    and "map_option trim (ei_quota_pool i) = ei_quota_pool i"
    and "\<And>u. parse_ts (fmt_ts u) = Some u"
    and "(case cooldown rsn src until t of None \<Rightarrow> True | Some u \<Rightarrow> now < u)
         \<or> (rsn = QuotaExhausted \<and> src = BackendError \<and> now < t + 5 * MINUTE)"
  shows "\<exists>d. availability_for_identity parse_ts file' i now = Inr d \<and> \<not> ad_eligible d"
proof -
  let ?r = "identity_record fmt_ts i (ei_backend_instance i) (ei_quota_pool i) Unavailable rsn src
              (cooldown rsn src until t) summary t"
  obtain st n where st: "load_state file = Inr st"
    and up: "update_state parse_ts t (push_record ?r) file = Inr (file', n)"
    using record_unavailable_pushes [OF assms(1,3,4)] by blast
  have "\<And>u. cooldown rsn src until t = Some u \<Longrightarrow> now < u"
    using assms(6) by (auto simp: cooldown_def less_max_iff_disj split: if_splits)
  then have "is_active parse_ts ?r now"
    using assms(5) by (auto simp: is_active_def identity_record_def split: option.splits)
  then have "\<not> ad_eligible (identity_decision parse_ts (av_records st @ [?r]) i now)"
    by (rule identity_blocked_by_last) (simp_all add: identity_record_def)
  then show ?thesis
    using push_decision [OF up _ st] assms(2) by (simp add: identity_record_def identity_decision_def)
qed

text \<open>Blocks stay in their scope: recording a failure of one instance changes no decision about
  an identity with another instance key that does not share its quota pool.\<close>

theorem block_is_isolated:
  assumes "record_unavailable_for_identity parse_ts fmt_ts (validate_operator_label redact) file i
             rsn src until summary t = Inr (file', b)"
    and "ei_logical_backend i \<noteq> ''cloud-coder''"
    and "trim (ei_backend_instance i) = ei_backend_instance i"
    and "map_option trim (ei_quota_pool i) = ei_quota_pool i"
    and "ei_backend_instance j \<noteq> ei_backend_instance i"
    and "ei_quota_pool j = None \<or> ei_quota_pool j \<noteq> ei_quota_pool i"
  shows "availability_for_identity parse_ts file' j now = availability_for_identity parse_ts file j now"
proof -
  let ?r = "identity_record fmt_ts i (ei_backend_instance i) (ei_quota_pool i) Unavailable rsn src
              (cooldown rsn src until t) summary t"
  obtain st n where st: "load_state file = Inr st"
    and up: "update_state parse_ts t (push_record ?r) file = Inr (file', n)"
    using record_unavailable_pushes [OF assms(1,3,4)] by blast
  have "identity_decision parse_ts (av_records st @ [?r]) j now
          = identity_decision parse_ts (av_records st) j now"
    using assms(5,6) by (intro identity_decision_frame) (auto simp: identity_record_def)
  then show ?thesis
    using push_decision [OF up _ st] assms(2) st
    by (simp add: identity_record_def identity_decision_def availability_for_identity_def
        availability_for_key_spec)
qed

text \<open>The operator's backend-wide clear works: afterwards every identity on that backend is
  eligible unless its quota pool is still blocked, even when a model-specific or backend-wide block
  without expiry preceded the clear.\<close>

theorem backend_clear_reopens:
  assumes "clear parse_ts fmt_ts valid file backend None None None t = Inr file'"
    and "ei_logical_backend i = canonical_backend_name backend"
    and "load_state file = Inr st"
    and "\<And>r. active_match parse_ts now (in_pool (ei_quota_pool i)) (av_records st) \<noteq> Some r"
  shows "availability_for_identity parse_ts file' i now = Inr eligible_decision"
proof -
  let ?r = "clear_record fmt_ts backend None None None t"
  let ?b = "ei_logical_backend i" and ?i = "Some (ei_backend_instance i)"
  have "\<exists>n. update_state parse_ts t (push_record ?r) file = Inr (file', n)"
    using assms(1) by (auto simp: clear_def valid_opt_def map_sum_def split: sum.splits)
  then obtain n where up: "update_state parse_ts t (push_record ?r) file = Inr (file', n)" by blast
  have r: "in_scope ?b ?i None ?r" "ar_status ?r = Available" "\<not> in_pool (ei_quota_pool i) ?r"
    using assms(2) by (auto simp: in_scope_def clear_record_def in_pool_def)
  then have "cleared_after (av_records st @ [?r]) p (in_scope ?b ?i None)" for p
    by (simp add: cleared_after_def)
  moreover have "active_match parse_ts now (in_pool (ei_quota_pool i)) (av_records st @ [?r]) = None"
    using r(3) assms(4) by (simp add: active_match_snoc) (metis not_None_eq)
  moreover have "active_match parse_ts now (in_scope ?b ?i None) (av_records st @ [?r]) = None"
    using r by (simp add: active_match_def is_active_def)
  ultimately have "availability_spec parse_ts (av_records st @ [?r]) ?b ?i (ei_effective_model i)
                     (ei_quota_pool i) now = eligible_decision"
    by (simp add: availability_spec_def split: option.split)
  moreover have "ar_backend ?r \<noteq> ''cloud-coder''"
    by (simp add: clear_record_def canonical_backend_name_def)
  ultimately show ?thesis using push_decision [OF up _ assms(3)] by simp
qed

text \<open>A candidate configured under the alias \<open>cloud-coder\<close> and without a quota pool can never
  be blocked: loading renames the backend of every record, so no lookup under the alias matches,
  and the failures recorded for that candidate never take effect.\<close>

theorem cloud_coder_alias_never_blocked:
  assumes "ei_logical_backend i = ''cloud-coder''" and "ei_quota_pool i = None"
    and "availability_for_identity parse_ts file i now = Inr d"
  shows "d = eligible_decision"
proof -
  obtain st where st: "load_state file = Inr st"
    using assms(3) by (auto simp: availability_for_identity_def split: sum.splits)
  have none: "rfind (in_scope ''cloud-coder'' inst m) (av_records st) = None" for inst m
    using load_state_canonical [OF st] by (auto simp: rfind_None_iff in_scope_def canonical_list_def)
  have pool: "rfind (in_pool None) (av_records st) = None"
    by (rule in_pool_None)
  show ?thesis
    using assms st none pool
    by (auto simp: availability_for_identity_def availability_for_key_spec availability_spec_def
             active_match_def)
qed

subsection \<open>Concrete instances\<close>

text \<open>A concrete printing of instants: a signed decimal number, with its reader.\<close>

definition ts_fmt :: "int \<Rightarrow> rust_str" where
  "ts_fmt u = (if u < 0 then CHR ''-'' # nat_str (nat (- u)) else nat_str (nat u))"

definition ts_parse :: "rust_str \<Rightarrow> int option" where
  "ts_parse s =
     (case s of
        [] \<Rightarrow> None
      | c # cs \<Rightarrow> if c = CHR ''-'' then map_option (\<lambda>n. - int n) (digits_value 0 cs)
                  else map_option int (digits_value 0 s))"

lemma ts_parse_fmt [simp]: "ts_parse (ts_fmt u) = Some u"
proof -
  obtain c cs where c: "nat_str (nat u) = c # cs" by (cases "nat_str (nat u)") auto
  with nat_str_digits [of "nat u"] have "c \<noteq> CHR ''-''" by (auto simp: is_ascii_digit_def)
  moreover have "digits_value 0 (c # cs) = Some (nat u)"
    using digits_value_nat_str [of "nat u"] c by simp
  ultimately show ?thesis by (auto simp: ts_parse_def ts_fmt_def c)
qed

definition codex_id :: execution_identity where
  "codex_id = legacy_candidate ''codex'' (Some ''gpt'') None"

definition claude_id :: execution_identity where
  "claude_id = legacy_candidate ''claude'' (Some ''opus'') None"

lemma codex_id_sel [simp]:
  "ei_backend_instance codex_id = ''codex''" "ei_logical_backend codex_id = ''codex''"
  "ei_quota_pool codex_id = None" "ei_effective_model codex_id = Some ''gpt''"
  by (simp_all add: codex_id_def legacy_candidate_def legacy_backend_instance_def)

lemma claude_id_sel [simp]:
  "ei_backend_instance claude_id = ''claude''" "ei_logical_backend claude_id = ''claude''"
  "ei_quota_pool claude_id = None" "ei_effective_model claude_id = Some ''opus''"
  by (simp_all add: claude_id_def legacy_candidate_def legacy_backend_instance_def)

lemma trim_codex [simp]: "trim ''codex'' = ''codex''"
  by (simp add: trim_def trim_end_def ws1_def ws2_def ws3_def)

lemma label_codex: "validate_operator_label id ''codex'' = Some ''codex''"
  by (simp add: validate_operator_label_def ws1_def ws2_def ws3_def)

lemma record_codex:
  "\<exists>file' b. record_unavailable_for_identity ts_parse ts_fmt (validate_operator_label id) NotFound
       codex_id QuotaExhausted BackendError None None 0 = Inr (file', b)"
  by (simp add: record_unavailable_for_identity_def label_codex valid_opt_def load_state_def
      update_state_def apply_retention_def Let_def)

definition stale_codex :: availability_record where
  "stale_codex = identity_record ts_fmt codex_id ''codex'' None Unavailable RateLimited BackendError
     (Some 0) None 0"

text \<open>Two expired records of one scope: compaction at instant 5 drops the first.\<close>

theorem compaction_preserves_decisions_witness:
  "\<exists>file' n. compact_expired ts_parse 5 (Decoded \<lparr> av_version = 2, av_records = [stale_codex, stale_codex] \<rparr>)
       = Inr (file', n) \<and> n = 1 \<and>
     availability_for_identity ts_parse file' codex_id 0 =
     availability_for_identity ts_parse
       (Decoded \<lparr> av_version = 2, av_records = [stale_codex, stale_codex] \<rparr>) codex_id 0"
proof -
  let ?f = "Decoded \<lparr> av_version = 2, av_records = [stale_codex, stale_codex] \<rparr>"
  have can: "canonical_record stale_codex = stale_codex"
    by (rule canonical_record_id) (simp add: stale_codex_def identity_record_def)
  have "is_expired_unavailable ts_parse stale_codex 5"
    by (simp add: is_expired_unavailable_def stale_codex_def identity_record_def)
  then have "retained ts_parse 5 [stale_codex, stale_codex] = [stale_codex]"
    by (simp add: retained_prune)
  then have "\<exists>file'. compact_expired ts_parse 5 ?f = Inr (file', 1)"
    by (simp add: compact_expired_def update_state_def load_state_def apply_retention_def can
        LEGACY_VERSION_def CURRENT_VERSION_def)
  then obtain file' where f: "compact_expired ts_parse 5 ?f = Inr (file', 1)" by blast
  show ?thesis using f compaction_preserves_decisions [OF f, of codex_id 0] by blast
qed

theorem recorded_block_holds_witness:
  "\<exists>file' b d. record_unavailable_for_identity ts_parse ts_fmt (validate_operator_label id) NotFound
       codex_id QuotaExhausted BackendError None None 0 = Inr (file', b)
     \<and> availability_for_identity ts_parse file' codex_id 7 = Inr d \<and> \<not> ad_eligible d"
proof -
  obtain file' b where r: "record_unavailable_for_identity ts_parse ts_fmt (validate_operator_label id)
       NotFound codex_id QuotaExhausted BackendError None None 0 = Inr (file', b)"
    using record_codex by blast
  show ?thesis
    using recorded_block_holds [OF r, of 7] r by (auto simp: MINUTE_def)
qed

theorem block_is_isolated_witness:
  "\<exists>file' b. record_unavailable_for_identity ts_parse ts_fmt (validate_operator_label id) NotFound
       codex_id QuotaExhausted BackendError None None 0 = Inr (file', b)
     \<and> availability_for_identity ts_parse file' claude_id 7
       = availability_for_identity ts_parse NotFound claude_id 7"
proof -
  obtain file' b where r: "record_unavailable_for_identity ts_parse ts_fmt (validate_operator_label id)
       NotFound codex_id QuotaExhausted BackendError None None 0 = Inr (file', b)"
    using record_codex by blast
  show ?thesis
    using block_is_isolated [OF r, of claude_id 7] r by simp
qed

text \<open>A codex block without expiry, cleared by the operator.\<close>

definition blocked_file :: state_file where
  "blocked_file = Decoded \<lparr> av_version = 1, av_records =
     [identity_record ts_fmt codex_id ''codex'' None Unavailable ManualDisable Manual None None 0] \<rparr>"

theorem backend_clear_reopens_witness:
  "\<exists>file'. clear ts_parse ts_fmt (validate_operator_label id) blocked_file ''codex'' None None None 5
       = Inr file'
     \<and> availability_for_identity ts_parse file' codex_id 7 = Inr eligible_decision
     \<and> (\<exists>d. availability_for_identity ts_parse blocked_file codex_id 7 = Inr d \<and> \<not> ad_eligible d)"
proof -
  let ?r = "identity_record ts_fmt codex_id ''codex'' None Unavailable ManualDisable Manual None None 0"
  have can: "canonical_record ?r = ?r"
    by (rule canonical_record_id) (simp add: identity_record_def)
  have st: "load_state blocked_file = Inr \<lparr> av_version = 2, av_records = [?r] \<rparr>"
    by (simp add: load_state_def blocked_file_def can LEGACY_VERSION_def CURRENT_VERSION_def)
  then obtain file' where c: "clear ts_parse ts_fmt (validate_operator_label id) blocked_file ''codex''
      None None None 5 = Inr file'"
    by (simp add: clear_def valid_opt_def update_state_def apply_retention_def Let_def)
  have "\<not> ad_eligible (identity_decision ts_parse ([] @ [?r]) codex_id 7)"
    by (rule identity_blocked_by_last) (simp_all add: identity_record_def is_active_def)
  then have "\<exists>d. availability_for_identity ts_parse blocked_file codex_id 7 = Inr d \<and> \<not> ad_eligible d"
    using st by (simp add: availability_for_identity_def availability_for_key_spec identity_decision_def)
  then show ?thesis
    using backend_clear_reopens [OF c _ st, of codex_id 7] c
    by (auto simp: canonical_backend_name_def active_match_def in_pool_None)
qed

theorem cloud_coder_alias_never_blocked_witness:
  "\<exists>d. availability_for_identity ts_parse blocked_file
         (legacy_candidate ''cloud-coder'' None None) 7 = Inr d \<and> d = eligible_decision"
proof -
  obtain d where d: "availability_for_identity ts_parse blocked_file
                       (legacy_candidate ''cloud-coder'' None None) 7 = Inr d"
    by (simp add: availability_for_identity_def load_state_def blocked_file_def
        LEGACY_VERSION_def CURRENT_VERSION_def)
  show ?thesis
    using cloud_coder_alias_never_blocked [OF _ _ d] d by (simp add: legacy_candidate_def)
qed

subsection \<open>Re-probing\<close>

definition pool_member :: availability_record where
  "pool_member = \<lparr> ar_backend = ''claude'', ar_instance = None, ar_model = Some ''opus'',
     ar_pool = Some ''p'', ar_status = Available, ar_reason = Unknown, ar_observed_at = ts_fmt 0,
     ar_until = None, ar_source = Manual, ar_summary = None \<rparr>"

definition pool_block :: availability_record where
  "pool_block = \<lparr> ar_backend = ''codex'', ar_instance = Some ''codex'', ar_model = Some ''gpt'',
     ar_pool = Some ''p'', ar_status = Unavailable, ar_reason = QuotaExhausted,
     ar_observed_at = ts_fmt 0, ar_until = Some (ts_fmt (ceiling_at 0 + 1)), ar_source = BackendError,
     ar_summary = None \<rparr>"

lemma pool_record_sel:
  "ar_backend pool_member = ''claude''" "ar_instance pool_member = None"
  "ar_model pool_member = Some ''opus''" "ar_status pool_member = Available"
  "ar_backend pool_block = ''codex''" "ar_instance pool_block = Some ''codex''"
  by (simp_all add: pool_member_def pool_block_def)

definition pool_file :: state_file where
  "pool_file = Decoded \<lparr> av_version = 2, av_records = [pool_member, pool_block] \<rparr>"

lemma load_pool_file: "load_state pool_file = Inr \<lparr> av_version = 2, av_records = [pool_member, pool_block] \<rparr>"
  by (simp add: load_state_def pool_file_def canonical_record_def canonical_backend_name_def
      pool_member_def pool_block_def LEGACY_VERSION_def CURRENT_VERSION_def)

lemma scope_keys_pool_file:
  "scope_keys [pool_member, pool_block] = [key_of pool_member, key_of pool_block]"
  by (simp add: scope_keys_def key_of_def pool_member_def pool_block_def scope_order_def less_eq_char_def
      less_char_def)

lemma rfind_two: "rfind p [a, b] = (if p b then Some (1, b) else if p a then Some (0, a) else None)"
  using rfind_snoc [of p "[a]" b] rfind_snoc [of p "[]" a] by simp

lemma rfind_three:
  "rfind p [a, b, c] = (if p c then Some (2, c) else rfind p [a, b])"
  using rfind_snoc [of p "[a, b]" c] by simp

lemma row_member: "needs_cap ts_parse 0 (scope_row_of ts_parse 0 [pool_member, pool_block] (key_of pool_member))"
  by (simp add: needs_cap_def scope_row_of_def Let_def availability_for_key_def latest_for_pool_def rfind_two
     key_of_def pool_member_def pool_block_def is_active_def blocked_by_def informative_def ceiling_at_def
     UNAVAILABLE_UNTIL_CEILING_SECONDS_def)

lemma row_block: "needs_cap ts_parse 0 (scope_row_of ts_parse 0 [pool_member, pool_block] (key_of pool_block))"
  by (simp add: needs_cap_def scope_row_of_def Let_def availability_for_key_def latest_for_pool_def
      rfind_two key_of_def pool_member_def pool_block_def is_active_def blocked_by_def informative_def
      ceiling_at_def UNAVAILABLE_UNTIL_CEILING_SECONDS_def)

text \<open>Pushing a well-named record onto a readable store always succeeds.\<close>

lemma push_succeeds:
  assumes "load_state file = Inr st" and "ar_backend r \<noteq> ''cloud-coder''"
  shows "\<exists>file' st' n. update_state parse_ts t (push_record r) file = Inr (file', n)
           \<and> load_state file' = Inr st'
           \<and> (\<forall>i now. availability_for_identity parse_ts file' i now
                = Inr (identity_decision parse_ts (av_records st @ [r]) i now))"
proof -
  obtain file' n where up: "update_state parse_ts t (push_record r) file = Inr (file', n)"
    using assms(1) by (auto simp: update_state_def apply_retention_def Let_def)
  have dec: "availability_for_identity parse_ts file' i now
      = Inr (identity_decision parse_ts (av_records st @ [r]) i now)" for i now
    using push_decision [OF up assms(2,1)] by (simp add: identity_decision_def)
  have "\<exists>st'. load_state file' = Inr st'"
    using dec [of codex_id 0] by (cases "load_state file'") (simp_all add: availability_for_identity_def)
  with up dec show ?thesis by blast
qed

text \<open>Re-probing can block a healthy route: when a quota pool is blocked with a far expiry, the
  pass appends a blocking record for every scope ever seen in that pool, under that scope's own
  backend and model.  Here claude/opus outside the pool is eligible before the pass and blocked
  after it.\<close>

theorem reprobe_blocks_healthy_route:
  "\<exists>file'. reprobe_stale_unavailable_records ts_parse ts_fmt pool_file 0 = Inr (file', 2)
     \<and> availability_for_identity ts_parse pool_file claude_id 1 = Inr eligible_decision
     \<and> (\<exists>d. availability_for_identity ts_parse file' claude_id 1 = Inr d \<and> \<not> ad_eligible d
          \<and> ad_scope d = Some ModelSpecific)"
proof -
  let ?rs = "[pool_member, pool_block]"
  let ?row = "\<lambda>r. scope_row_of ts_parse 0 ?rs (key_of r)"
  let ?a = "reprobe_record ts_fmt 0 (?row pool_member)"
  let ?b = "reprobe_record ts_fmt 0 (?row pool_block)"
  have sel: "ar_backend ?a = ''claude''" "ar_instance ?a = None" "ar_model ?a = Some ''opus''"
    "ar_pool ?a = Some ''p''" "ar_status ?a = Unavailable" "ar_until ?a = Some (ts_fmt (ceiling_at 0))"
    "ar_backend ?b = ''codex''" "ar_instance ?b = Some ''codex''"
    by (simp_all add: reprobe_record_def scope_row_of_def Let_def key_of_def pool_member_def pool_block_def)
  obtain f1 st1 n1 where f1: "update_state ts_parse 0 (push_record ?a) pool_file = Inr (f1, n1)"
    "load_state f1 = Inr st1"
    "\<And>i now. availability_for_identity ts_parse f1 i now = Inr (identity_decision ts_parse (?rs @ [?a]) i now)"
    using push_succeeds [OF load_pool_file, of ?a ts_parse 0] sel by auto
  obtain f2 st2 n2 where f2: "update_state ts_parse 0 (push_record ?b) f1 = Inr (f2, n2)"
    "\<And>i now. availability_for_identity ts_parse f2 i now
        = Inr (identity_decision ts_parse (av_records st1 @ [?b]) i now)"
    using push_succeeds [OF f1(2), of ?b ts_parse 0] sel by auto
  have "identity_decision ts_parse (av_records st1 @ [?b]) claude_id 1
      = identity_decision ts_parse (av_records st1) claude_id 1"
    by (rule identity_decision_frame [of _ "''codex''"]) (simp_all add: sel)
  also have "\<dots> = identity_decision ts_parse (?rs @ [?a]) claude_id 1"
    using f1(2) f1(3) [of claude_id 1]
    by (simp add: availability_for_identity_def availability_for_key_spec identity_decision_def)
  also have "\<dots> = blocked_by ModelSpecific ?a"
    using sel by (simp add: identity_decision_def availability_spec_def active_match_def rfind_three rfind_two
        in_scope_def in_pool_def cleared_after_def is_active_def ceiling_at_def
        UNAVAILABLE_UNTIL_CEILING_SECONDS_def pool_record_sel)
  finally have "availability_for_identity ts_parse f2 claude_id 1 = Inr (blocked_by ModelSpecific ?a)"
    using f2(2) by simp
  moreover have "reprobe_stale_unavailable_records ts_parse ts_fmt pool_file 0 = Inr (f2, 2)"
    using f1(1) f2(1) row_member row_block
    by (simp add: reprobe_stale_unavailable_records_def list_scopes_def load_pool_file
        scope_keys_pool_file)
  moreover have "availability_for_identity ts_parse pool_file claude_id 1 = Inr eligible_decision"
    by (simp add: availability_for_identity_def load_pool_file availability_for_key_spec
        availability_spec_def active_match_def rfind_two in_scope_def in_pool_def is_active_def
        pool_record_sel)
  ultimately show ?thesis by (auto simp: blocked_by_def)
qed

end
