(* ===== verification/Route_Props.thy ===== *)
theory Route_Props
  imports Route_Decide Availability_Props
begin

text \<open>
  What routing promises: the selected route passed every gate and was the first to do so, the order
  is by operator priority, allow-lists cannot be escaped, subscription capacity that will recover is
  waited for before a paid route asks for approval, explicit routes never move, and where the code
  deviates from its own documentation.
\<close>

subsection \<open>Gates\<close>

definition passes_gates ::
  "route_env \<Rightarrow> (rust_str \<times> nat) list \<Rightarrow> routing_runtime_state \<Rightarrow> bool \<Rightarrow> bool \<Rightarrow> routing_policy
   \<Rightarrow> execution_identity \<Rightarrow> bool" where
  "passes_gates env mc runtime exclude approval p i =
     (\<not> instance_disabled p i
      \<and> executable_available env i
      \<and> (\<forall>cap. map_of mc (concurrency_key (ei_logical_backend i) (ei_effective_model i)) = Some cap
            \<longrightarrow> re_in_flight env (concurrency_key (ei_logical_backend i) (ei_effective_model i)) < cap)
      \<and> (\<exists>d. availability_for_identity (re_parse_ts env) (re_state env) i (re_now env) = Inr d
            \<and> ad_eligible d)
      \<and> (exclude \<longrightarrow> \<not> attempted_key runtime (from_execution_identity i))
      \<and> (approval \<longrightarrow> from_execution_identity i \<in> set (rs_approved runtime)))"

lemma max_concurrent_skip_None:
  "max_concurrent_skip mc fl i = None \<longleftrightarrow>
     (\<forall>cap. map_of mc (concurrency_key (ei_logical_backend i) (ei_effective_model i)) = Some cap
        \<longrightarrow> fl (concurrency_key (ei_logical_backend i) (ei_effective_model i)) < cap)"
  by (auto simp: max_concurrent_skip_def Let_def not_le split: option.splits)

lemma skip_reason_None:
  "skip_reason_for_candidate env mc runtime ex ap p i = Inr None \<longleftrightarrow> passes_gates env mc runtime ex ap p i"
  unfolding passes_gates_def max_concurrent_skip_None [symmetric]
  by (auto simp: skip_reason_for_candidate_def Let_def split: option.splits sum.splits)

subsection \<open>Selection\<close>

abbreviation gate where
  "gate env mc runtime ex p c \<equiv>
     skip_reason_for_candidate env mc runtime ex (rc_requires_approval c) p (rc_identity c)"

lemma pick_loop_Some:
  assumes "pick_loop env mc runtime ex p cs sk bl = Inr (Some c, sk', bl')"
  shows "\<exists>pre post. cs = pre @ c # post \<and> gate env mc runtime ex p c = Inr None
           \<and> (\<forall>x\<in>set pre. \<exists>s. gate env mc runtime ex p x = Inr (Some s))"
  using assms
proof (induction cs arbitrary: sk bl)
  case Nil
  then show ?case by simp
next
  case (Cons x cs)
  show ?case
  proof (cases "gate env mc runtime ex p x")
    case (Inl e)
    with Cons.prems show ?thesis by simp
  next
    case (Inr r)
    show ?thesis
    proof (cases r)
      case None
      with Inr Cons.prems have "c = x" by simp
      with None Inr show ?thesis by (intro exI [of _ "[]"] exI [of _ cs]) auto
    next
      case (Some s)
      with Inr Cons.prems obtain pre post where
        "cs = pre @ c # post" "gate env mc runtime ex p c = Inr None"
        "\<forall>y\<in>set pre. \<exists>s. gate env mc runtime ex p y = Inr (Some s)"
        using Cons.IH by fastforce
      with Some Inr show ?thesis by (intro exI [of _ "x # pre"] exI [of _ post]) auto
    qed
  qed
qed

lemma pick_loop_None:
  assumes "pick_loop env mc runtime ex p cs sk bl = Inr (None, sk', bl')"
  shows "\<exists>new. sk' = sk @ new
         \<and> list_all2 (\<lambda>c s. gate env mc runtime ex p c = Inr (Some s)) cs new
         \<and> (bl' \<longleftrightarrow> bl \<or> list_ex (\<lambda>(c, s). rc_included_in_quota c
                 \<and> (sb_reason s = ''max_concurrent_reached'' \<or> is_some (sb_until s))) (zip cs new))"
  using assms
proof (induction cs arbitrary: sk bl)
  case Nil
  then show ?case by simp
next
  case (Cons x cs)
  show ?case
  proof (cases "gate env mc runtime ex p x")
    case (Inl e)
    with Cons.prems show ?thesis by simp
  next
    case (Inr r)
    show ?thesis
    proof (cases r)
      case None
      with Inr Cons.prems show ?thesis by simp
    next
      case (Some s)
      with Inr Cons.prems Cons.IH obtain new where
        "sk' = (sk @ [s]) @ new"
        "list_all2 (\<lambda>c s. gate env mc runtime ex p c = Inr (Some s)) cs new"
        "bl' \<longleftrightarrow> (bl \<or> (rc_included_in_quota x
            \<and> (sb_reason s = ''max_concurrent_reached'' \<or> is_some (sb_until s))))
          \<or> list_ex (\<lambda>(c, s). rc_included_in_quota c
                 \<and> (sb_reason s = ''max_concurrent_reached'' \<or> is_some (sb_until s))) (zip cs new)"
        by fastforce
      with Some Inr show ?thesis by (intro exI [of _ "s # new"]) auto
    qed
  qed
qed

text \<open>What a successful pick guarantees: the first candidate that passes every gate.\<close>

lemma pick_Inr:
  assumes "pick_route_candidate env mc runtime ex p cs = Inr (c, sk)"
  shows "c \<in> set cs \<and> passes_gates env mc runtime ex (rc_requires_approval c) p (rc_identity c)
         \<and> (\<exists>pre post. cs = pre @ c # post
              \<and> (\<forall>x\<in>set pre. \<not> passes_gates env mc runtime ex (rc_requires_approval x) p (rc_identity x)))"
proof -
  from assms obtain bl where "pick_loop env mc runtime ex p cs [] False = Inr (Some c, sk, bl)"
    by (auto simp: pick_route_candidate_def split: list.splits sum.splits prod.splits option.splits)
  from pick_loop_Some [OF this] obtain pre post where cs: "cs = pre @ c # post"
    and ok: "gate env mc runtime ex p c = Inr None"
    and pre: "\<forall>x\<in>set pre. \<exists>s. gate env mc runtime ex p x = Inr (Some s)" by blast
  from pre have "\<forall>x\<in>set pre. \<not> passes_gates env mc runtime ex (rc_requires_approval x) p (rc_identity x)"
    unfolding skip_reason_None [symmetric] by force
  with cs ok show ?thesis by (auto simp: skip_reason_None)
qed

lemma pick_loop_Inl:
  "pick_loop env mc runtime ex p l sk bl = Inl x \<Longrightarrow> \<exists>e. x = StateUnreadable e"
  by (induction l arbitrary: sk bl) (auto split: sum.splits option.splits)

text \<open>Every failure of a pick, with the skips in candidate order.\<close>

lemma pick_Inl:
  assumes "pick_route_candidate env mc runtime ex p cs = Inl (RouteError e)"
  shows "\<exists>sk. list_all2 (\<lambda>c s. gate env mc runtime ex p c = Inr (Some s)) cs sk
     \<and> (let blocked = list_ex (\<lambda>(c, s). rc_included_in_quota c
              \<and> (sb_reason s = ''max_concurrent_reached'' \<or> is_some (sb_until s))) (zip cs sk)
        in e = (case List.find (\<lambda>s. sb_reason s = ''operator_approval_required'' \<and> \<not> blocked) sk of
                  Some s \<Rightarrow> ApprovalRequired (sb_backend s) (sb_instance s) (sb_model s) sk
                | None \<Rightarrow> NoEligibleBackend (ei_logical_backend (rc_identity (hd cs)))
                            (ei_effective_model (rc_identity (hd cs))) sk
                            (earliest_reset (re_parse_ts env) sk)))"
proof -
  from assms obtain c0 cs0 where cs: "cs = c0 # cs0" by (cases cs) (auto simp: pick_route_candidate_def)
  have "\<exists>sk bl. pick_loop env mc runtime ex p cs [] False = Inr (None, sk, bl)"
    using assms pick_loop_Inl [of env mc runtime ex p cs "[]" False]
    unfolding pick_route_candidate_def cs
    by (auto simp del: pick_loop.simps split: sum.splits prod.splits option.splits)
  then obtain sk bl where l: "pick_loop env mc runtime ex p cs [] False = Inr (None, sk, bl)" by blast
  from pick_loop_None [OF l] l assms cs show ?thesis
    by (intro exI [of _ sk])
       (auto simp: pick_route_candidate_def Let_def simp del: pick_loop.simps split: option.splits)
qed

subsection \<open>Ordering\<close>

text \<open>The key that \<open>compare_candidates\<close> compares.\<close>

definition candidate_key ::
  "pacing_config \<Rightarrow> bool \<Rightarrow> routing_runtime_state \<Rightarrow> rust_str \<Rightarrow> capacities \<Rightarrow> route_candidate
   \<Rightarrow> int \<times> (bool \<times> nat \<times> bool \<times> rat) \<times> nat \<times> bool \<times> nat \<times> (bool \<times> rat) \<times> nat" where
  "candidate_key pacing escalate runtime mode caps c =
     (- rc_priority c,
      (if is_load_balanced_mode mode
       then (sc_exhausted (caps (dest c)), preference (rc_identity c) (caps (dest c)),
             \<not> sc_known_capacity (caps (dest c)), - unwrap_or (sc_reset_pressure (caps (dest c))) 0)
       else (False, 0, False, 0)),
      (if is_load_balanced_mode mode then candidate_run_count runtime c else 0),
      escalate \<and> \<not> is_strong_candidate c,
      economic_rank pacing c,
      (rc_marginal_cost c = None, unwrap_or (rc_marginal_cost c) 0),
      rc_original_order c)"

lemma cmp_ord_Not: "cmp_ord (\<not> b) (\<not> a) = cmp_ord a b"
  by (auto simp: cmp_ord_def)

lemma cmp_ord_minus: "cmp_ord (- b) (- a) = cmp_ord a (b :: 'a::linordered_ab_group_add)"
  by (auto simp: cmp_ord_def)

lemma cmp_ord_refl [simp]: "cmp_ord a a = Equal"
  by (simp add: cmp_ord_def)

lemma compare_optional_keyed:
  "compare_optional_f64 l r = cmp_ord (l = None, unwrap_or l 0) (r = None, unwrap_or r 0)"
  by (auto simp: compare_optional_f64_def cmp_ord_def split: option.splits)

lemma subscription_compare_keyed:
  "subscription_compare i a j b =
     cmp_ord (sc_exhausted a, preference i a, \<not> sc_known_capacity a, - unwrap_or (sc_reset_pressure a) 0)
             (sc_exhausted b, preference j b, \<not> sc_known_capacity b, - unwrap_or (sc_reset_pressure b) 0)"
  by (simp add: subscription_compare_def cmp_ord_Not cmp_ord_minus flip: cmp_ord_pair)

interpretation route_order:
  keyed_comparator "compare_candidates pacing escalate runtime mode caps"
    "candidate_key pacing escalate runtime mode caps"
  for pacing escalate runtime mode caps
proof
  fix x y
  have strong: "(if escalate then cmp_ord (is_strong_candidate y) (is_strong_candidate x) else Equal)
      = cmp_ord (escalate \<and> \<not> is_strong_candidate x) (escalate \<and> \<not> is_strong_candidate y)"
    by (simp add: cmp_ord_Not)
  show "compare_candidates pacing escalate runtime mode caps x y =
        cmp_ord (candidate_key pacing escalate runtime mode caps x)
                (candidate_key pacing escalate runtime mode caps y)"
    unfolding compare_candidates_def candidate_key_def strong
    by (simp add: subscription_compare_keyed compare_optional_keyed cmp_ord_minus flip: cmp_ord_pair)
qed

lemma sorted_map_fst: "sorted (map f xs) \<Longrightarrow> sorted (map (\<lambda>x. fst (f x)) xs)"
  by (induction xs) (auto simp: less_eq_prod_def)

lemma mset_refill_parts:
  "length rs = length (filter m xs) \<Longrightarrow>
   mset (refill m xs rs) = mset (filter (\<lambda>x. \<not> m x) xs) + mset rs"
proof (induction xs arbitrary: rs)
  case Nil
  then show ?case by simp
next
  case (Cons x xs)
  then show ?case by (cases rs) (auto split: if_splits)
qed

lemma mset_refill:
  assumes "mset rs = mset (filter m xs)"
  shows "mset (refill m xs rs) = mset xs"
proof -
  have "length rs = length (filter m xs)" using assms by (metis size_mset)
  then have "mset (refill m xs rs) = mset (filter (\<lambda>x. \<not> m x) xs) + mset (filter m xs)"
    by (simp add: mset_refill_parts assms)
  also have "\<dots> = mset xs" by (simp add: union_commute)
  finally show ?thesis .
qed

lemma mset_reorder_run [simp]: "mset (reorder_run runtime cl run) = mset run"
  by (simp add: reorder_run_def Let_def mset_refill)

lemma mset_reorder_runs: "mset (reorder_runs runtime pacing cl cs) = mset cs"
proof (induction runtime pacing cl cs rule: reorder_runs.induct)
  case (1 runtime pacing cl)
  then show ?case by simp
next
  case (2 runtime pacing cl c cs)
  have "mset (takeWhile (same_class pacing c) cs) + mset (dropWhile (same_class pacing c) cs) = mset cs"
    by (metis mset_append takeWhile_dropWhile_id)
  with 2 show ?case by simp
qed

text \<open>History moves a candidate only inside a run of equal class, so the sequence of priorities,
  economic ranks and approval flags is unchanged.\<close>

definition class_of :: "pacing_config \<Rightarrow> route_candidate \<Rightarrow> int \<times> nat \<times> bool" where
  "class_of pacing c = (rc_priority c, economic_rank pacing c, rc_requires_approval c)"

lemma same_class_iff: "same_class pacing a b \<longleftrightarrow> class_of pacing b = class_of pacing a"
  by (auto simp: same_class_def class_of_def)

lemma map_const_mset:
  assumes "mset xs = mset ys" and "\<And>y. y \<in> set ys \<Longrightarrow> f y = k"
  shows "map f xs = map f ys"
proof -
  have "set xs = set ys" "length xs = length ys" using assms(1) by (metis set_mset_mset, metis size_mset)
  have const: "map f zs = replicate (length zs) k" if "set zs = set ys" for zs
    using assms(2) that by (intro replicate_eqI) auto
  show ?thesis
    using const [of xs] const [of ys] \<open>set xs = set ys\<close> \<open>length xs = length ys\<close> by simp
qed

lemma reorder_runs_class:
  "map (class_of pacing) (reorder_runs runtime pacing cl cs) = map (class_of pacing) cs"
proof (induction runtime pacing cl cs rule: reorder_runs.induct)
  case (1 runtime pacing cl)
  then show ?case by simp
next
  case (2 runtime pacing cl c cs)
  let ?run = "c # takeWhile (same_class pacing c) cs"
  have "class_of pacing y = class_of pacing c" if "y \<in> set ?run" for y
    using that set_takeWhileD [of y "same_class pacing c" cs] by (auto simp: same_class_iff)
  then have "map (class_of pacing) (reorder_run runtime cl ?run) = map (class_of pacing) ?run"
    by (rule map_const_mset [OF mset_reorder_run])
  moreover have "map (class_of pacing) (takeWhile (same_class pacing c) cs)
      @ map (class_of pacing) (dropWhile (same_class pacing c) cs) = map (class_of pacing) cs"
    by (metis map_append takeWhile_dropWhile_id)
  ultimately show ?case using 2 by simp
qed

lemma mset_history [simp]: "mset (apply_reviewer_history runtime pacing cs) = mset cs"
  by (simp add: apply_reviewer_history_def mset_reorder_runs)

lemma history_priorities:
  "map rc_priority (apply_reviewer_history runtime pacing cs) = map rc_priority cs"
proof -
  have "map fst (map (class_of pacing) (apply_reviewer_history runtime pacing cs))
          = map fst (map (class_of pacing) cs)"
    unfolding apply_reviewer_history_def reorder_runs_class ..
  then show ?thesis by (simp add: class_of_def comp_def)
qed

lemma map_enumerate_snd: "map (\<lambda>(i, c). g c) (enumerate n cs) = map g cs"
  by (induction cs arbitrary: n) auto

lemma with_original_order_map:
  assumes "\<And>c idx. f (c\<lparr> rc_original_order := idx \<rparr>) = f c"
  shows "map f (with_original_order cs) = map f cs"
  using map_enumerate_snd [of f 0 cs]
  by (simp add: with_original_order_def assms comp_def case_prod_unfold)

lemma with_original_order_Nil [simp]: "with_original_order cs = [] \<longleftrightarrow> cs = []"
  by (cases cs) (simp_all add: with_original_order_def)

lemma order_candidates_priority:
  "mset (fst (order_candidates env pacing cs escalate runtime mode)) = mset (with_original_order cs)
   \<and> sorted (map (\<lambda>c. - rc_priority c) (fst (order_candidates env pacing cs escalate runtime mode)))"
proof (cases "\<not> escalate \<and> \<not> is_load_balanced_mode mode
            \<and> \<not> (is_review_mode mode \<and> rs_reviewer_outcomes runtime \<noteq> [])
            \<and> \<not> list_ex has_cost_policy (with_original_order cs)")
  case True
  then have "\<forall>c\<in>set (with_original_order cs). - rc_priority c = 0"
    by (auto simp: list_ex_iff has_cost_policy_def)
  then have "sorted (map (\<lambda>c. - rc_priority c) (with_original_order cs))"
    by (simp add: sorted_wrt_map sorted_wrt_iff_nth_less)
  with True show ?thesis by (simp add: order_candidates_def Let_def)
next
  case False
  let ?cmp = "compare_candidates pacing escalate runtime mode (capacities_of env mode (with_original_order cs))"
  let ?ranked = "sort_by ?cmp (with_original_order cs)"
  let ?final = "if is_review_mode mode \<and> \<not> escalate then apply_reviewer_history runtime pacing ?ranked
                else ?ranked"
  have final: "fst (order_candidates env pacing cs escalate runtime mode) = ?final"
    using False by (auto simp: order_candidates_def Let_def split: option.split)
  have "sorted (map (\<lambda>c. fst (candidate_key pacing escalate runtime mode
          (capacities_of env mode (with_original_order cs)) c)) ?ranked)"
    by (rule sorted_map_fst [OF route_order.sorted_by])
  then have ranked: "sorted (map (\<lambda>c. - rc_priority c) ?ranked)" by (simp add: candidate_key_def)
  have "map rc_priority ?final = map rc_priority ?ranked" by (simp add: history_priorities)
  then have "map uminus (map rc_priority ?final) = map uminus (map rc_priority ?ranked)" by (simp only:)
  then have "sorted (map (\<lambda>c. - rc_priority c) ?final)" using ranked by (simp add: comp_def)
  moreover have "mset ?final = mset (with_original_order cs)" by simp
  ultimately show ?thesis by (simp only: final)
qed

text \<open>Ordering keeps every candidate exactly once and is by operator priority first: no reordering
  (load balancing, subscription preference, escalation, cost, reviewer history) ever moves a
  candidate before one of higher priority.\<close>

theorem order_is_by_priority:
  "mset (fst (order_candidates env pacing cs escalate runtime mode)) = mset (with_original_order cs)
   \<and> sorted (map (\<lambda>c. - rc_priority c) (fst (order_candidates env pacing cs escalate runtime mode)))"
  by (rule order_candidates_priority)

subsection \<open>The selected route\<close>

text \<open>The decision carries the first candidate of the list that passes every gate, and says so when
  that is not the preferred one.\<close>

definition selects_first ::
  "route_env \<Rightarrow> (rust_str \<times> nat) list \<Rightarrow> routing_runtime_state \<Rightarrow> bool \<Rightarrow> routing_policy \<Rightarrow> route_request
   \<Rightarrow> route_decision \<Rightarrow> route_candidate list \<Rightarrow> bool" where
  "selects_first env mc runtime ex p req d cs =
     (\<exists>pre c post. cs = pre @ c # post
        \<and> rd_identity d = with_request (rc_identity c) (rq_requested_backend req) (rq_requested_model req)
        \<and> passes_gates env mc runtime ex (rc_requires_approval c) p (rc_identity c)
        \<and> (\<forall>x\<in>set pre. \<not> passes_gates env mc runtime ex (rc_requires_approval x) p (rc_identity x))
        \<and> (dest c \<noteq> dest (hd cs) \<longrightarrow> rd_fallback_used d))"

lemma from_identity_sel [simp]:
  "rd_identity (from_identity i r f im h) = i"
  "rd_fallback_used (from_identity i r f im h) = f"
  "rd_effective_backend (from_identity i r f im h) = ei_logical_backend i"
  "rd_effective_model (from_identity i r f im h) = ei_effective_model i"
  "rd_requested_backend (from_identity i r f im h) = ei_requested_backend i"
  "rd_routing_reason (from_identity i r f im h) = r"
  "rd_human_required (from_identity i r f im h) = h"
  by (simp_all add: from_identity_def refresh_compatibility_projection_def)

lemma selects_firstI:
  assumes "pick_route_candidate env mc runtime ex p cs = Inr (c, sk)"
    and "rd_identity d = with_request (rc_identity c) (rq_requested_backend req) (rq_requested_model req)"
    and "dest c \<noteq> dest (hd cs) \<Longrightarrow> rd_fallback_used d"
  shows "selects_first env mc runtime ex p req d cs"
  using pick_Inr [OF assms(1)] assms(2,3) unfolding selects_first_def by blast

lemma task_rule_branch_selects:
  assumes "task_rule_branch env prof p req runtime idx cs = Inr (d, cs')"
  shows "selects_first env (pf_max_concurrent_per_model prof) runtime (escalates req runtime) p req d cs'"
proof -
  obtain ordered reorder where o: "order_candidates (re_order env) (pf_pacing prof) cs
      (escalates req runtime) runtime (rq_mode req) = (ordered, reorder)" by (cases rule: prod.exhaust) auto
  with assms obtain preferred c sk where f: "first ordered = Some preferred"
    and pk: "pick_route_candidate env (pf_max_concurrent_per_model prof) runtime (escalates req runtime) p ordered
               = Inr (c, sk)"
    by (auto simp: task_rule_branch_def Let_def split: option.splits sum.splits)
  from f have "hd ordered = preferred" by (cases ordered) auto
  moreover from assms o f pk have "cs' = ordered"
    and id: "rd_identity d = with_request (rc_identity c) (rq_requested_backend req) (rq_requested_model req)"
    and "rd_fallback_used d \<longleftrightarrow> \<not> same_destination c preferred"
    by (auto simp: task_rule_branch_def Let_def)
  ultimately show ?thesis
    using selects_firstI [OF pk id] by (simp add: same_destination_def)
qed

lemma pool_branch_selects:
  assumes "pool_branch env prof p req runtime allowed prf cs = Inr (d, cs')"
  shows "selects_first env (pf_max_concurrent_per_model prof) runtime
           (escalates req runtime \<and> \<not> every_route_tried allowed runtime cs') p req d cs'"
proof -
  obtain ordered reorder where o: "order_candidates (re_order env) (pf_pacing prof) cs
      (escalates req runtime) runtime (rq_mode req) = (ordered, reorder)" by (cases rule: prod.exhaust) auto
  with assms obtain preferred c sk where f: "first ordered = Some preferred"
    and pk: "pick_route_candidate env (pf_max_concurrent_per_model prof) runtime
               (escalates req runtime \<and> \<not> every_route_tried allowed runtime ordered) p ordered = Inr (c, sk)"
    by (auto simp: pool_branch_def Let_def split: option.splits sum.splits)
  from f have "hd ordered = preferred" by (cases ordered) auto
  moreover from assms o f pk have "cs' = ordered"
    and id: "rd_identity d = with_request (rc_identity c) (rq_requested_backend req) (rq_requested_model req)"
    and "rd_fallback_used d \<longleftrightarrow> \<not> same_destination c preferred"
    by (auto simp: pool_branch_def Let_def)
  ultimately show ?thesis
    using selects_firstI [OF pk id] by (simp add: same_destination_def)
qed

lemma dedupe_from_subset: "set (dedupe_from seen cs) \<subseteq> set cs"
  by (induction cs arbitrary: seen) auto

lemma dedupe_from_fresh: "x \<in> set (dedupe_from seen cs) \<Longrightarrow> dedupe_key x \<notin> set seen"
proof (induction cs arbitrary: seen)
  case (Cons c cs)
  then show ?case using Cons.IH [of "dedupe_key c # seen"] Cons.IH [of seen] by (auto split: if_splits)
qed simp

lemma dedupe_from_distinct: "distinct (map dedupe_key (dedupe_from seen cs))"
proof (induction cs arbitrary: seen)
  case (Cons c cs)
  then show ?case using dedupe_from_fresh [of _ "dedupe_key c # seen" cs] by fastforce
qed simp

lemma dedupe_from_covers:
  "x \<in> set cs \<Longrightarrow> dedupe_key x \<in> set seen \<union> set (map dedupe_key (dedupe_from seen cs))"
proof (induction cs arbitrary: seen)
  case (Cons c cs)
  then show ?case using Cons.IH [of "dedupe_key c # seen"] Cons.IH [of seen] by auto
qed simp

lemma extend_default_prefix:
  "\<exists>t. extend_default_backend_candidates env p mode cs = cs @ t"
proof -
  have "\<exists>t. fold (\<lambda>b acc. acc @ [g b (length acc)]) bs cs = cs @ t" for g bs cs
    by (induction bs arbitrary: cs) (auto, metis append.assoc)
  then show ?thesis unfolding extend_default_backend_candidates_def .
qed

lemma auto_candidates_hd: "\<exists>t. auto_candidates env p mode primary = primary # t"
proof -
  have "\<exists>t. dedupe_candidates (extend_default_backend_candidates env p mode (primary # w)) = primary # t" for w
    using extend_default_prefix [of env p mode "primary # w"] by (auto simp: dedupe_candidates_def)
  then show ?thesis by (simp add: auto_candidates_def Let_def split: option.split)
qed

lemma default_branch_selects:
  assumes "default_branch env prof defaults p req runtime = Inr (d, cs)"
  shows "selects_first env (pf_max_concurrent_per_model prof) runtime False p req d cs"
proof -
  from assms obtain r where r: "apply_usage_caps env p req (initial_route env prof defaults p req) = Inr r"
    by (auto simp: default_branch_def split: sum.splits)
  let ?primary = "default_primary env p (rq_mode req) r"
  let ?cs = "auto_candidates (re_order env) p (rq_mode req) ?primary"
  from assms r obtain c sk where pk:
    "pick_route_candidate env (pf_max_concurrent_per_model prof) runtime False p ?cs = Inr (c, sk)"
    by (auto simp: default_branch_def Let_def split: sum.splits)
  have "hd ?cs = ?primary" using auto_candidates_hd by (metis list.sel(1))
  moreover from assms r pk have "cs = ?cs"
    and id: "rd_identity d = with_request (rc_identity c) (rq_requested_backend req) (rq_requested_model req)"
    and "rd_fallback_used d \<longleftrightarrow> dr_fallback r \<or> \<not> same_destination c ?primary"
    by (auto simp: default_branch_def Let_def)
  ultimately show ?thesis
    using selects_firstI [OF pk id] by (simp add: same_destination_def)
qed

abbreviation eff where "eff env prof defaults \<equiv> effective_routing (re_is_subscription env) prof defaults"

text \<open>A list is the ordering of the candidates of its branch when the code's ordering produces it; then it
  has each of them once, by operator priority first.\<close>

definition ordering_of ::
  "route_env \<Rightarrow> route_profile \<Rightarrow> routing_runtime_state \<Rightarrow> route_request \<Rightarrow> route_candidate list
     \<Rightarrow> route_candidate list \<Rightarrow> bool" where
  "ordering_of env prof runtime req candidates cs =
     (cs = fst (order_candidates (re_order env) (pf_pacing prof) candidates (escalates req runtime) runtime (rq_mode req))
      \<and> mset (map rc_identity cs) = mset (map rc_identity candidates)
      \<and> sorted (map (\<lambda>c. - rc_priority c) cs))"

lemma ordering_ofI:
  assumes "cs = fst (order_candidates (re_order env) (pf_pacing prof) candidates (escalates req runtime) runtime (rq_mode req))"
  shows "ordering_of env prof runtime req candidates cs"
proof -
  have "mset (map rc_identity cs) = image_mset rc_identity (mset (with_original_order candidates))"
    using order_candidates_priority [of "re_order env" "pf_pacing prof" candidates "escalates req runtime" runtime
        "rq_mode req"] assms by simp
  also have "\<dots> = mset (map rc_identity candidates)"
    by (subst mset_map [symmetric]) (simp add: with_original_order_map)
  finally show ?thesis
    using order_candidates_priority [of "re_order env" "pf_pacing prof" candidates "escalates req runtime" runtime
        "rq_mode req"] assms by (simp add: ordering_of_def)
qed

lemma pool_branch_ordered:
  "pool_branch env prof p req runtime allowed isp cs = Inr (d, cs') \<Longrightarrow>
   cs' = fst (order_candidates (re_order env) (pf_pacing prof) cs (escalates req runtime) runtime (rq_mode req))"
  by (auto simp: pool_branch_def Let_def split: prod.splits option.splits sum.splits)

lemma task_rule_branch_ordered:
  "task_rule_branch env prof p req runtime idx cs = Inr (d, cs') \<Longrightarrow> ordering_of env prof runtime req cs cs'"
  by (rule ordering_ofI) (auto simp: task_rule_branch_def Let_def split: prod.splits option.splits sum.splits)

lemma default_branch_list:
  "default_branch env prof defaults p req runtime = Inr (d, cs) \<Longrightarrow>
   \<exists>r. apply_usage_caps env p req (initial_route env prof defaults p req) = Inr r
     \<and> cs = auto_candidates (re_order env) p (rq_mode req) (default_primary env p (rq_mode req) r)"
  by (auto simp: default_branch_def Let_def split: prod.splits sum.splits)

text \<open>What an automatic route promises. The list is the ordering of the candidates of the first task rule
  that applies, else of the pool, else the list built around the default route; the instances already
  attempted are passed over on an escalation, except by the default route and when an allow-list has
  been tried completely.\<close>

definition routed_from ::
  "route_env \<Rightarrow> routing_policy \<Rightarrow> route_profile \<Rightarrow> route_request \<Rightarrow> task_routing_context option \<Rightarrow> routing_runtime_state
     \<Rightarrow> route_decision \<Rightarrow> route_candidate list \<Rightarrow> bool" where
  "routed_from env defaults prof req task runtime d cs =
     (let p = effective_routing (re_is_subscription env) prof defaults;
          allowed = allowed_models_for p (rq_mode req);
          chosen = \<lambda>skip_attempted. selects_first env (pf_max_concurrent_per_model prof) runtime skip_attempted p req d cs
      in case opt_filter (\<lambda>(_, rule). rule \<noteq> [] \<and> allowed = None)
                (task_rule_candidates (re_order env) p (rq_mode req) task) of
           Some (_, rule) \<Rightarrow> ordering_of env prof runtime req rule cs \<and> chosen (escalates req runtime)
         | None \<Rightarrow>
             (case pool_candidates env prof defaults p (rq_mode req) allowed of
                Some (pool, _) \<Rightarrow>
                  ordering_of env prof runtime req pool cs
                  \<and> chosen (escalates req runtime \<and> \<not> every_route_tried allowed runtime cs)
              | None \<Rightarrow>
                  (\<exists>r. apply_usage_caps env p req (initial_route env prof defaults p req) = Inr r
                     \<and> cs = auto_candidates (re_order env) p (rq_mode req) (default_primary env p (rq_mode req) r))
                  \<and> chosen False))"

text \<open>C23. An automatic route is the first candidate that passes every gate (instance enabled, executable
  present, below its concurrency cap, not blocked in the availability store, approved when it needs
  approval, and on an escalation not already attempted) of the ordering of its branch's candidates: the
  task rule, the pool, or the list around the default route. A decision for another destination than the
  first of that list is marked as a fallback.\<close>

theorem route_is_first_eligible:
  assumes "decide_with_inner env defaults prof req task runtime = Inr (d, cs)"
    and "rq_requested_backend req = ''auto''"
  shows "routed_from env defaults prof req task runtime d cs"
proof -
  let ?p = "eff env prof defaults" and ?mode = "rq_mode req"
  let ?allowed = "allowed_models_for ?p ?mode"
  have noerr: "allowed_model_errors ?p = []"
    using assms(1) by (auto simp: decide_with_inner_def Let_def split: list.splits)
  show ?thesis
  proof (cases "opt_filter (\<lambda>(_, cs). cs \<noteq> [] \<and> ?allowed = None)
                  (task_rule_candidates (re_order env) ?p ?mode task)")
    case (Some x)
    then obtain idx rcs where x: "x = (idx, rcs)" by (cases x)
    with Some noerr assms have br: "task_rule_branch env prof ?p req runtime idx rcs = Inr (d, cs)"
      by (simp add: decide_with_inner_def Let_def del: opt_filter_Some_iff)
    then have "ordering_of env prof runtime req rcs cs" by (rule task_rule_branch_ordered)
    with Some x task_rule_branch_selects [OF br] show ?thesis
      by (simp add: routed_from_def Let_def del: opt_filter_Some_iff)
  next
    case None
    show ?thesis
    proof (cases "pool_candidates env prof defaults ?p ?mode ?allowed")
      case (Some x)
      then obtain pcs isp where x: "x = (pcs, isp)" by (cases x)
      with Some None noerr assms have br: "pool_branch env prof ?p req runtime ?allowed isp pcs = Inr (d, cs)"
        by (simp add: decide_with_inner_def Let_def)
      then have "ordering_of env prof runtime req pcs cs" by (intro ordering_ofI pool_branch_ordered)
      with Some None x pool_branch_selects [OF br] show ?thesis
        by (simp add: routed_from_def Let_def)
    next
      case pool: None
      with None noerr assms have br: "default_branch env prof defaults ?p req runtime = Inr (d, cs)"
        by (simp add: decide_with_inner_def Let_def)
      with pool None default_branch_selects [OF br] default_branch_list [OF br] show ?thesis
        by (simp add: routed_from_def Let_def)
    qed
  qed
qed

lemma route_candidate_of_sel [simp]:
  "rc_identity (route_candidate_of env p idx c) = execution_identity_for_candidate (oe_ids env) p c"
  "rc_requires_approval (route_candidate_of env p idx c) = cc_requires_approval c"
  "rc_priority (route_candidate_of env p idx c) = cc_priority c"
  "rc_included_in_quota (route_candidate_of env p idx c) = cc_included_in_quota c"
  by (simp_all add: route_candidate_of_def Let_def)

lemma plain_candidate_sel [simp]:
  "rc_identity (plain_candidate i ap n) = i" "rc_requires_approval (plain_candidate i ap n) = ap"
  by (simp_all add: plain_candidate_def)

lemma configured_candidate_matches:
  "configured_candidate p mode b m = Some c \<Longrightarrow> cc_backend c = b \<and> cc_model c = m"
  by (auto simp: configured_candidate_def Let_def opt_or_Some_iff matches_route_def dest: find_SomeD)

lemma configured_route_model:
  "configured_route_candidate env p mode b m = Some c \<Longrightarrow> ei_effective_model (rc_identity c) = m"
  by (auto simp: configured_route_candidate_def dest: configured_candidate_matches split: option.splits)

lemma explicit_primary_model:
  "ei_effective_model (rc_identity (explicit_primary env p mode b rm)) = opt_or rm (only_supported_model p b)"
  by (cases "configured_route_candidate (re_order env) p mode b (opt_or rm (only_supported_model p b))")
     (auto simp: explicit_primary_def Let_def legacy_candidate_def dest: configured_route_model)

lemma explicit_inner:
  assumes "decide_with_inner env defaults prof req task runtime = Inr (d, cs)"
    and "rq_requested_backend req \<noteq> ''auto''"
  shows "cs = [] \<and> (\<exists>model. model = opt_or (rq_requested_model req)
              (pinned_model prof req (allowed_models_for (eff env prof defaults) (rq_mode req)))
      \<and> allows_model (eff env prof defaults) (rq_mode req) (rq_requested_backend req) model
      \<and> (let c = explicit_primary env (eff env prof defaults) (rq_mode req) (rq_requested_backend req) model
         in d = from_identity (with_request (rc_identity c) (rq_requested_backend req) model)
                  ''explicit CLI override'' False None False
            \<and> passes_gates env (pf_max_concurrent_per_model prof) runtime (retry_excludes req runtime)
                (rc_requires_approval c) (eff env prof defaults) (rc_identity c)))"
proof -
  let ?p = "eff env prof defaults"
  let ?model = "opt_or (rq_requested_model req)
              (pinned_model prof req (allowed_models_for ?p (rq_mode req)))"
  let ?c = "explicit_primary env ?p (rq_mode req) (rq_requested_backend req) ?model"
  have ex: "explicit_branch env prof ?p req runtime = Inr d" "cs = []"
    using assms by (auto simp: decide_with_inner_def Let_def split: list.splits sum.splits)
  then have al: "allows_model ?p (rq_mode req) (rq_requested_backend req) ?model"
    and re: "route_explicit env prof ?p req ?model runtime = Inr d"
    by (auto simp: explicit_branch_def Let_def split: if_splits)
  from re obtain c sk where pk: "pick_route_candidate env (pf_max_concurrent_per_model prof) runtime
      (retry_excludes req runtime) ?p [?c] = Inr (c, sk)"
    and d: "d = from_identity (with_request (rc_identity c) (rq_requested_backend req) ?model)
              ''explicit CLI override'' False None False"
    by (auto simp: route_explicit_def split: sum.splits)
  from pick_Inr [OF pk] have "c = ?c" by simp
  with pick_Inr [OF pk] d al ex(2) show ?thesis by (simp add: Let_def)
qed

lemma codex_pin_sel [simp]:
  "rd_fallback_used (apply_codex_pin prof d) = rd_fallback_used d"
  "rd_human_required (apply_codex_pin prof d) = rd_human_required d"
  "rd_routing_reason (apply_codex_pin prof d) = rd_routing_reason d"
  by (auto simp: apply_codex_pin_def refresh_compatibility_projection_def split: option.split)

lemma codex_pin_known: "rd_effective_model d = Some m \<Longrightarrow> apply_codex_pin prof d = d"
  by (simp add: apply_codex_pin_def)

text \<open>C36. An explicit route never moves: a request for a named backend either fails or runs on the
  one candidate built for that backend and model, which passed every gate; it is never a fallback,
  and a requested model is the model that runs.\<close>

theorem explicit_route_never_moves:
  assumes "decide_with_task_runtime env defaults prof req task runtime = Inr d"
    and "rq_requested_backend req \<noteq> ''auto''"
  shows "\<not> rd_fallback_used d \<and> \<not> rd_human_required d
    \<and> (\<forall>m. rq_requested_model req = Some m \<longrightarrow> rd_effective_model d = Some m)
    \<and> (\<exists>model. let c = explicit_primary env (eff env prof defaults) (rq_mode req) (rq_requested_backend req) model
          in d = apply_codex_pin prof (from_identity (with_request (rc_identity c) (rq_requested_backend req) model)
                  ''explicit CLI override'' False None False)
             \<and> passes_gates env (pf_max_concurrent_per_model prof) runtime (retry_excludes req runtime)
                 (rc_requires_approval c) (eff env prof defaults) (rc_identity c))"
proof -
  from assms obtain d0 cs where inner: "decide_with_inner env defaults prof req task runtime = Inr (d0, cs)"
    and d: "d = apply_codex_pin prof d0"
    by (auto simp: decide_with_task_runtime_def split: sum.splits prod.splits)
  from explicit_inner [OF inner assms(2)] obtain model where
    m: "model = opt_or (rq_requested_model req)
              (pinned_model prof req (allowed_models_for (eff env prof defaults) (rq_mode req)))" and
    rest: "let c = explicit_primary env (eff env prof defaults) (rq_mode req) (rq_requested_backend req) model
         in d0 = from_identity (with_request (rc_identity c) (rq_requested_backend req) model)
                  ''explicit CLI override'' False None False
            \<and> passes_gates env (pf_max_concurrent_per_model prof) runtime (retry_excludes req runtime)
                (rc_requires_approval c) (eff env prof defaults) (rc_identity c)" by auto
  have "rd_effective_model d = Some k" if "rq_requested_model req = Some k" for k
  proof -
    have "rd_effective_model d0 = Some k"
      using rest m that by (simp add: Let_def explicit_primary_model)
    then show ?thesis using codex_pin_known [of d0 k prof] d by simp
  qed
  with d rest show ?thesis by (auto simp: Let_def)
qed

text \<open>Without configured pools the automatic list starts with the preferred route and never tries
  one destination twice.\<close>

theorem auto_candidates_distinct:
  "distinct (map dest (auto_candidates env p mode primary))
   \<and> first (auto_candidates env p mode primary) = Some primary"
proof -
  let ?g = "\<lambda>k. ci_backend k @ [CHR 0x00] @ unwrap_or (ci_model k) []"
  let ?cs = "auto_candidates env p mode primary"
  have "distinct (map dedupe_key ?cs)"
    by (simp only: auto_candidates_def dedupe_candidates_def dedupe_from_distinct Let_def)
  moreover have "map dedupe_key ?cs = map ?g (map dest ?cs)" by (simp add: dedupe_key_def)
  ultimately have "distinct (map ?g (map dest ?cs))" by (simp only:)
  then have "distinct (map dest ?cs)" unfolding distinct_map by blast
  then show ?thesis using auto_candidates_hd [of env p mode primary] by auto
qed

subsection \<open>Allow-lists\<close>

text \<open>A registry is consistent with a candidate when its instance, if declared with a logical backend,
  is declared for the candidate's backend (the configuration check reports anything else).\<close>

definition consistent_entry :: "routing_policy \<Rightarrow> candidate_config \<Rightarrow> bool" where
  "consistent_entry p e =
     (\<forall>name inst. cc_instance e = Some name \<longrightarrow> map_of (rp_backend_instances p) name = Some inst \<longrightarrow>
        bi_logical_backend inst = None \<or> bi_logical_backend inst = Some (cc_backend e))"

lemma identity_backend:
  assumes "consistent_entry p e"
  shows "ei_logical_backend (execution_identity_for_candidate env p e) = cc_backend e"
proof (cases "cc_instance e")
  case None
  then show ?thesis by (simp add: legacy_identity)
next
  case (Some name)
  show ?thesis
  proof (cases "map_of (rp_backend_instances p) name")
    case None
    with Some show ?thesis
      by (simp add: execution_identity_for_candidate_def legacy_candidate_def Let_def)
  next
    case inst: (Some inst)
    with Some assms have "bi_logical_backend inst = None \<or> bi_logical_backend inst = Some (cc_backend e)"
      by (simp add: consistent_entry_def)
    with Some inst show ?thesis
      by (auto simp: execution_identity_for_candidate_def bind_instance_def legacy_candidate_def Let_def)
  qed
qed

lemma allowed_entry_in:
  "allowed_entry p mode b m = Some e \<Longrightarrow>
     (\<exists>l. allowed_models_for p mode = Some l \<and> e \<in> set l) \<and> cc_backend e = b"
  by (auto simp: allowed_entry_def bind_eq_Some_conv Let_def opt_or_Some_iff dest!: find_SomeD)

lemma listed_is_allowed:
  assumes "allowed_models_for p mode = Some l" "e \<in> set l"
  shows "allows_model p mode (cc_backend e) (cc_model e)"
proof -
  have "List.find (\<lambda>x. cc_model x = cc_model e) (filter (\<lambda>x. cc_backend x = cc_backend e) l) \<noteq> None"
    using assms(2) by (auto simp: find_None_iff')
  with assms(1) show ?thesis
    by (auto simp: allows_model_def allowed_entry_def is_some_iff)
qed

text \<open>An entry without a model admits every model of its backend.\<close>

lemma wildcard_allows:
  assumes "allows_model p mode b None"
  shows "allows_model p mode b m"
proof (cases "allowed_models_for p mode")
  case None
  then show ?thesis by (simp add: allows_model_def)
next
  case (Some l)
  with assms obtain e where "allowed_entry p mode b None = Some e"
    by (auto simp: allows_model_def is_some_iff)
  with Some have "List.find (\<lambda>x. cc_model x = None) (filter (\<lambda>x. cc_backend x = b) l) \<noteq> None"
    by (auto simp: allowed_entry_def Let_def opt_or_Some_iff)
  with Some show ?thesis by (auto simp: allows_model_def allowed_entry_def is_some_iff Let_def opt_or_def split: option.split)
qed

lemma ordered_identity:
  assumes "c \<in> set (fst (order_candidates env pacing (route_candidates oenv p l) esc runtime mode))"
  shows "\<exists>e\<in>set l. rc_identity c = execution_identity_for_candidate (oe_ids oenv) p e"
proof -
  have "set (fst (order_candidates env pacing (route_candidates oenv p l) esc runtime mode))
          = set (with_original_order (route_candidates oenv p l))"
    using order_candidates_priority [THEN conjunct1] by (metis set_mset_mset)
  with assms have "rc_identity c \<in> set (map rc_identity (with_original_order (route_candidates oenv p l)))"
    by simp
  then have "rc_identity c \<in> set (map rc_identity (route_candidates oenv p l))"
    by (subst (asm) with_original_order_map) simp_all
  moreover have "map rc_identity (route_candidates oenv p l)
      = map (execution_identity_for_candidate (oe_ids oenv) p) l"
    using map_enumerate_snd [of "execution_identity_for_candidate (oe_ids oenv) p" 0 l]
    by (simp add: route_candidates_def comp_def case_prod_unfold)
  ultimately show ?thesis by auto
qed

definition projected :: "route_decision \<Rightarrow> bool" where
  "projected d = (rd_effective_backend d = ei_logical_backend (rd_identity d)
                  \<and> rd_effective_model d = ei_effective_model (rd_identity d))"

lemma projected_intros [simp]:
  "projected (from_identity i r f im h)"
  "projected (refresh_compatibility_projection d)"
  by (simp_all add: projected_def from_identity_def refresh_compatibility_projection_def)

lemma branch_projected:
  "task_rule_branch env prof p req runtime idx cs = Inr (d, cs') \<Longrightarrow> projected d"
  "pool_branch env prof p req runtime allowed isp cs = Inr (d, cs') \<Longrightarrow> projected d"
  "default_branch env prof defaults p req runtime = Inr (d, cs') \<Longrightarrow> projected d"
  by (auto simp: task_rule_branch_def pool_branch_def default_branch_def Let_def
           split: prod.splits option.splits sum.splits)

lemma auto_allowed:
  assumes "pool_branch env prof p req runtime (Some l) isp (route_candidates (re_order env) p l) = Inr (d, cs)"
    and "allowed_models_for p (rq_mode req) = Some l"
    and "\<And>e. e \<in> set l \<Longrightarrow> consistent_entry p e"
  shows "allows_model p (rq_mode req) (rd_effective_backend d) (rd_effective_model d)"
proof -
  from pool_branch_selects [OF assms(1)] obtain c where c: "c \<in> set cs"
    and id: "rd_identity d = with_request (rc_identity c) (rq_requested_backend req) (rq_requested_model req)"
    unfolding selects_first_def by force
  from c pool_branch_ordered [OF assms(1)] ordered_identity obtain e where e: "e \<in> set l"
    "rc_identity c = execution_identity_for_candidate (oe_ids (re_order env)) p e" by metis
  have "rd_effective_backend d = cc_backend e" "rd_effective_model d = cc_model e"
    using branch_projected(2) [OF assms(1)] id e identity_backend [OF assms(3) [OF e(1)]]
    by (simp_all add: projected_def)
  then show ?thesis using listed_is_allowed [OF assms(2) e(1)] by simp
qed

lemma explicit_allowed:
  assumes al: "allows_model p mode b m" and l: "allowed_models_for p mode = Some l"
    and con: "\<And>e. e \<in> set l \<Longrightarrow> consistent_entry p e"
  shows "allows_model p mode (ei_logical_backend (rc_identity (explicit_primary env p mode b m)))
           (ei_effective_model (rc_identity (explicit_primary env p mode b m)))"
proof -
  let ?c = "explicit_primary env p mode b m"
  let ?em = "opt_or m (only_supported_model p b)"
  have ok: "allows_model p mode b ?em"
    using al wildcard_allows by (cases m) auto
  with l obtain e where e: "allowed_entry p mode b ?em = Some e"
    by (auto simp: allows_model_def is_some_iff)
  from allowed_entry_in [OF e] l have "e \<in> set l" "cc_backend e = b" by auto
  then have "consistent_entry p (e\<lparr> cc_model := ?em \<rparr>)" "cc_backend (e\<lparr> cc_model := ?em \<rparr>) = b"
    using con [of e] by (simp_all add: consistent_entry_def)
  then have "ei_logical_backend (rc_identity ?c) = b" "ei_effective_model (rc_identity ?c) = ?em"
    using e identity_backend by (simp_all add: explicit_primary_def configured_route_candidate_def Let_def)
  with ok show ?thesis by simp
qed

lemma inner_allowed:
  assumes "decide_with_inner env defaults prof req task runtime = Inr (d, cs)"
    and "p = eff env prof defaults"
    and "\<And>l e. allowed_models_for p (rq_mode req) = Some l \<Longrightarrow> e \<in> set l \<Longrightarrow> consistent_entry p e"
  shows "allows_model p (rq_mode req) (rd_effective_backend d) (rd_effective_model d)"
proof (cases "allowed_models_for p (rq_mode req)")
  case None
  then show ?thesis by (simp add: allows_model_def)
next
  case (Some l)
  show ?thesis
  proof (cases "rq_requested_backend req = ''auto''")
    case True
    have "allowed_model_errors p = []"
      using assms(1,2) by (auto simp: decide_with_inner_def Let_def split: list.splits)
    with assms(1,2) Some True have
      "pool_branch env prof p req runtime (Some l) False (route_candidates (re_order env) p l) = Inr (d, cs)"
      by (simp add: decide_with_inner_def Let_def pool_candidates_def case_prod_unfold split: option.splits)
    then show ?thesis using auto_allowed Some assms(3) by blast
  next
    case False
    from explicit_inner [OF assms(1) False] obtain model where
      al: "allows_model p (rq_mode req) (rq_requested_backend req) model" and
      d: "d = from_identity (with_request (rc_identity (explicit_primary env p (rq_mode req)
                (rq_requested_backend req) model)) (rq_requested_backend req) model)
                ''explicit CLI override'' False None False"
      using assms(2) by (auto simp: Let_def)
    show ?thesis using explicit_allowed [OF al Some assms(3) [OF Some]] d by simp
  qed
qed

lemma override_result:
  assumes "apply_model_override env prof p req runtime cs m d = Inr d'" and "projected d"
  shows "allows_model p (rq_mode req) (rd_effective_backend d') (rd_effective_model d')
         \<and> rd_effective_model d' = Some m \<and> rd_effective_backend d' = rd_effective_backend d
         \<and> override_skip env prof p req runtime d cs m = None"
  using assms
  by (auto simp: apply_model_override_def refresh_compatibility_projection_def set_quota_pool_def projected_def
           split: if_splits option.splits)

lemma pin_allowed:
  assumes "allows_model p mode (rd_effective_backend d) (rd_effective_model d)" and "projected d"
  shows "allows_model p mode (rd_effective_backend (apply_codex_pin prof d))
           (rd_effective_model (apply_codex_pin prof d))"
proof (cases "rd_effective_backend d = ''codex'' \<and> rd_effective_model d = None")
  case True
  with assms have "allows_model p mode ''codex'' m" for m using wildcard_allows by metis
  with True assms(2) show ?thesis
    by (auto simp: apply_codex_pin_def refresh_compatibility_projection_def projected_def split: option.split)
next
  case False
  with assms(1) show ?thesis by (auto simp: apply_codex_pin_def)
qed

lemma inner_projected:
  assumes "decide_with_inner env defaults prof req task runtime = Inr (d, cs)"
  shows "projected d"
proof (cases "rq_requested_backend req = ''auto''")
  case True
  with assms show ?thesis
    by (auto simp: decide_with_inner_def Let_def dest: branch_projected
             split: list.splits option.splits prod.splits)
next
  case False
  then show ?thesis using explicit_inner [OF assms False] by (auto simp: Let_def)
qed

text \<open>C22. A strict allow-list is never escaped: on a job kind with a list whose entries name no instance
  that is declared for another backend (what the configuration check asks for; routing itself does not
  test it), whatever the request (automatic, explicit backend, explicit model, model pinned by backend
  arguments), the route that is decided is admitted by an entry of the list.\<close>

theorem allow_list_never_escaped:
  assumes "decide_with_task_runtime env defaults prof req task runtime = Inr d"
    and "\<And>l e. allowed_models_for (eff env prof defaults) (rq_mode req) = Some l \<Longrightarrow> e \<in> set l \<Longrightarrow>
           consistent_entry (eff env prof defaults) e"
  shows "allows_model (eff env prof defaults) (rq_mode req) (rd_effective_backend d) (rd_effective_model d)"
proof -
  from assms(1) obtain d0 cs d1 where inner: "decide_with_inner env defaults prof req task runtime = Inr (d0, cs)"
    and d: "d = apply_codex_pin prof d1"
    and d1: "d1 = d0 \<or> (\<exists>m. apply_model_override env prof (eff env prof defaults) req runtime cs m d0 = Inr d1)"
    by (auto simp: decide_with_task_runtime_def map_sum_def split: sum.splits prod.splits option.splits)
  have al0: "allows_model (eff env prof defaults) (rq_mode req) (rd_effective_backend d0) (rd_effective_model d0)"
    using inner_allowed [OF inner refl] assms(2) by blast
  note pr0 = inner_projected [OF inner]
  have "allows_model (eff env prof defaults) (rq_mode req) (rd_effective_backend d1) (rd_effective_model d1)
        \<and> projected d1"
    using d1
  proof
    assume "d1 = d0"
    then show ?thesis using al0 pr0 by simp
  next
    assume "\<exists>m. apply_model_override env prof (eff env prof defaults) req runtime cs m d0 = Inr d1"
    then obtain m where ov: "apply_model_override env prof (eff env prof defaults) req runtime cs m d0 = Inr d1" ..
    then have "projected d1"
      by (auto simp: apply_model_override_def split: if_splits option.splits)
    then show ?thesis using override_result [OF ov pr0] by blast
  qed
  then show ?thesis using pin_allowed d by simp
qed

subsection \<open>Failures\<close>

lemma foldr_earlier:
  "xs \<noteq> [] \<Longrightarrow> \<exists>x\<in>set xs. foldr earlier xs None = Some x \<and> (\<forall>y\<in>set xs. fst x \<le> fst y)"
proof (induction xs)
  case (Cons a xs)
  show ?case
  proof (cases "xs = []")
    case False
    with Cons.IH obtain x where "x \<in> set xs" "foldr earlier xs None = Some x" "\<forall>y\<in>set xs. fst x \<le> fst y"
      by blast
    then show ?thesis by (cases "fst a \<le> fst x") force+
  qed simp
qed simp

lemma earliest_reset_Some:
  assumes "s \<in> set sk" "sb_until s = Some u" "parse_ts u = Some t"
  shows "\<exists>r t'. earliest_reset parse_ts sk = Some r \<and> parse_ts r = Some t' \<and> t' \<le> t"
proof -
  let ?f = "\<lambda>s. Option.bind (sb_until s) (\<lambda>u. map_option (\<lambda>t. (t, u)) (parse_ts u))"
  have in_set: "(t, u) \<in> set (List.map_filter ?f sk)"
    using assms by (auto simp: set_map_filter intro!: bexI [of _ s])
  then have "List.map_filter ?f sk \<noteq> []" by auto
  from foldr_earlier [OF this] obtain x where x: "x \<in> set (List.map_filter ?f sk)"
    "foldr earlier (List.map_filter ?f sk) None = Some x" "fst x \<le> t"
    using in_set by fastforce
  then have "parse_ts (snd x) = Some (fst x)"
    by (auto simp: set_map_filter bind_eq_Some_conv)
  with x show ?thesis by (auto simp: earliest_reset_def)
qed

lemma list_all2_at:
  "list_all2 P xs ys \<Longrightarrow> x \<in> set xs \<Longrightarrow> \<exists>y. (x, y) \<in> set (zip xs ys) \<and> P x y"
  by (induction rule: list_all2_induct) auto

text \<open>Subscription capacity that will recover is awaited: when no candidate is eligible and a
  route included in a subscription is only busy or blocked until a known instant, routing reports a
  capacity deferral and never asks the operator to approve a paid route.\<close>

theorem recovering_capacity_is_awaited:
  assumes "pick_route_candidate env mc runtime ex p cs = Inl (RouteError e)"
    and "c \<in> set cs" and "rc_included_in_quota c"
    and "skip_reason_for_candidate env mc runtime ex (rc_requires_approval c) p (rc_identity c) = Inr (Some s)"
    and "sb_reason s = ''max_concurrent_reached'' \<or>
         (\<exists>u t. sb_until s = Some u \<and> re_parse_ts env u = Some t)"
  shows "is_capacity_deferral e \<and> (\<exists>b m sk r. e = NoEligibleBackend b m sk r)"
proof -
  from pick_Inl [OF assms(1)] obtain sk where
    l2: "list_all2 (\<lambda>c s. gate env mc runtime ex p c = Inr (Some s)) cs sk" and
    e: "let blocked = list_ex (\<lambda>(c, s). rc_included_in_quota c
              \<and> (sb_reason s = ''max_concurrent_reached'' \<or> is_some (sb_until s))) (zip cs sk)
        in e = (case List.find (\<lambda>s. sb_reason s = ''operator_approval_required'' \<and> \<not> blocked) sk of
                  Some s \<Rightarrow> ApprovalRequired (sb_backend s) (sb_instance s) (sb_model s) sk
                | None \<Rightarrow> NoEligibleBackend (ei_logical_backend (rc_identity (hd cs)))
                            (ei_effective_model (rc_identity (hd cs))) sk
                            (earliest_reset (re_parse_ts env) sk))" by blast
  from list_all2_at [OF l2 assms(2)] assms(4) have z: "(c, s) \<in> set (zip cs sk)" by auto
  then have s: "s \<in> set sk" by (rule set_zip_rightD)
  have "list_ex (\<lambda>(c, s). rc_included_in_quota c
              \<and> (sb_reason s = ''max_concurrent_reached'' \<or> is_some (sb_until s))) (zip cs sk)"
    using z assms(3,5) by (auto simp: list_ex_iff is_some_iff intro!: bexI [of _ "(c, s)"])
  with e have "e = NoEligibleBackend (ei_logical_backend (rc_identity (hd cs)))
      (ei_effective_model (rc_identity (hd cs))) sk (earliest_reset (re_parse_ts env) sk)"
    by (simp add: find_None_iff' [THEN iffD2])
  moreover have "is_some (earliest_reset (re_parse_ts env) sk)
      \<or> list_ex (\<lambda>s. sb_reason s = ''max_concurrent_reached'') sk"
    using assms(5) s earliest_reset_Some by (fastforce simp: is_some_iff list_ex_iff)
  ultimately show ?thesis by (auto simp: is_capacity_deferral_def)
qed

lemma pick_not_empty: "cs \<noteq> [] \<Longrightarrow> pick_route_candidate env mc runtime ex p cs \<noteq> Inl EmptyCandidateList"
  using pick_loop_Inl [of env mc runtime ex p cs "[]" False]
  by (cases cs) (auto simp: pick_route_candidate_def simp del: pick_loop.simps
                      split: sum.splits prod.splits option.splits)

lemma order_not_empty:
  assumes "cs \<noteq> []"
  shows "fst (order_candidates env pacing cs esc runtime mode) \<noteq> []"
proof -
  have "size (mset (fst (order_candidates env pacing cs esc runtime mode))) = size (mset (with_original_order cs))"
    using order_candidates_priority [THEN conjunct1] by metis
  then show ?thesis using assms with_original_order_Nil [of cs] by (metis length_0_conv size_mset)
qed

lemma branch_not_empty:
  assumes "cs \<noteq> []"
  shows "task_rule_branch env prof p req runtime idx cs \<noteq> Inl EmptyCandidateList"
    and "pool_branch env prof p req runtime allowed isp cs \<noteq> Inl EmptyCandidateList"
proof -
  obtain ordered reorder where o: "order_candidates (re_order env) (pf_pacing prof) cs
      (escalates req runtime) runtime (rq_mode req) = (ordered, reorder)" by (cases rule: prod.exhaust) auto
  with order_not_empty [OF assms] have ne: "ordered \<noteq> []" by (metis fst_conv)
  note pk = pick_not_empty [OF ne, of env "pf_max_concurrent_per_model prof" runtime _ p]
  show "task_rule_branch env prof p req runtime idx cs \<noteq> Inl EmptyCandidateList"
    using o ne pk by (cases ordered) (auto simp: task_rule_branch_def Let_def split: sum.splits)
  show "pool_branch env prof p req runtime allowed isp cs \<noteq> Inl EmptyCandidateList"
    using o ne pk by (cases ordered) (auto simp: pool_branch_def Let_def split: sum.splits)
qed

lemma allowed_not_empty: "allowed_models_for p mode = Some l \<Longrightarrow> l \<noteq> []"
proof -
  have "kind_list p k = Some l \<Longrightarrow> l \<noteq> []" for k
    by (auto simp: kind_list_def dest!: find_SomeD)
  then show "allowed_models_for p mode = Some l \<Longrightarrow> l \<noteq> []"
    by (auto simp: allowed_models_for_def opt_or_Some_iff split: option.splits if_splits)
qed

lemma route_candidates_Nil [simp]: "route_candidates env p l = [] \<longleftrightarrow> l = []"
  by (cases l) (simp_all add: route_candidates_def)

lemma pool_candidates_not_empty:
  "pool_candidates env prof defaults p mode (allowed_models_for p mode) = Some (cs, isp) \<Longrightarrow> cs \<noteq> []"
  by (auto simp: pool_candidates_def nonempty_list_def
           dest: allowed_not_empty split: option.splits if_splits)

lemma default_not_empty: "default_branch env prof defaults p req runtime \<noteq> Inl EmptyCandidateList"
proof -
  have "apply_usage_caps env p req r \<noteq> Inl EmptyCandidateList" for r
    by (auto simp: apply_usage_caps_def Let_def split: option.splits)
  moreover have "auto_candidates (re_order env) p mode primary \<noteq> []" for mode primary
    using auto_candidates_hd by (metis list.distinct(1))
  then have "pick_route_candidate env mc runtime False p (auto_candidates (re_order env) p mode primary)
      \<noteq> Inl EmptyCandidateList" for mc mode primary by (rule pick_not_empty)
  ultimately show ?thesis
    by (auto simp: default_branch_def Let_def split: sum.splits)
qed

lemma explicit_not_empty: "explicit_branch env prof p req runtime \<noteq> Inl EmptyCandidateList"
  using pick_not_empty [of "[c]" for c]
  by (auto simp: explicit_branch_def route_explicit_def Let_def split: sum.splits)

text \<open>C37. Routing never panics on an empty candidate list: whatever the configuration, every list that
  reaches selection has a preferred candidate.\<close>

theorem routing_never_panics:
  "decide_with_task_runtime env defaults prof req task runtime \<noteq> Inl EmptyCandidateList"
proof -
  let ?p = "eff env prof defaults"
  have inner: "decide_with_inner env defaults prof req task runtime \<noteq> Inl EmptyCandidateList"
    using explicit_not_empty [of env prof ?p req runtime] branch_not_empty
      default_not_empty [of env prof defaults ?p req runtime]
    by (auto simp: decide_with_inner_def Let_def dest: pool_candidates_not_empty
             split: list.splits sum.splits option.splits)
  have "apply_model_override env prof ?p req runtime cs m d \<noteq> Inl EmptyCandidateList" for cs m d
    by (auto simp: apply_model_override_def override_skip_def split: option.splits sum.splits)
  with inner show ?thesis
    by (auto simp: decide_with_task_runtime_def map_sum_def split: sum.splits prod.splits option.splits)
qed

subsection \<open>Merging configurations\<close>

lemma map_extend_distinct:
  "distinct (map fst kvs) \<Longrightarrow> map_extend m kvs = filter (\<lambda>(k, _). k \<notin> fst ` set kvs) m @ kvs"
proof (induction kvs arbitrary: m)
  case Nil
  then show ?case by (simp add: map_extend_def case_prod_unfold)
next
  case (Cons kv kvs)
  obtain k v where kv: "kv = (k, v)" by (cases kv)
  have "filter (\<lambda>(k', _). k' \<notin> fst ` set kvs) [(k, v)] = [(k, v)]"
    using Cons.prems kv by auto
  with Cons kv show ?case
    by (auto simp: map_extend_def map_insert_def case_prod_unfold intro!: filter_cong)
qed

text \<open>Restrictions survive inheritance: after merging a profile with the canonical policy, a job
  kind is held to the profile's non-empty list if it has one and otherwise to the canonical list;
  an empty profile list lifts nothing.\<close>

theorem merged_allow_list:
  assumes "distinct (map fst (rp_allowed_models repo))"
  shows "kind_list (merge_routing_policy canonical repo) k
           = opt_or (kind_list repo k) (kind_list canonical k)"
proof -
  let ?P = "\<lambda>(key, l). kind_of_key key = Some k \<and> l \<noteq> ([] :: candidate_config list)"
  let ?lists = "filter (\<lambda>(_, l). l \<noteq> []) (rp_allowed_models repo)"
  let ?kinds = "List.map_filter (\<lambda>(key, _). kind_of_key key) ?lists"
  let ?keep = "filter (\<lambda>(key, _). case kind_of_key key of None \<Rightarrow> True | Some j \<Rightarrow> j \<notin> set ?kinds)
                 (rp_allowed_models canonical)"
  have "distinct (map fst ?lists)" using assms by (simp add: distinct_map_filter)
  then have merged: "rp_allowed_models (merge_routing_policy canonical repo)
      = filter (\<lambda>(key, _). key \<notin> fst ` set ?lists) ?keep @ ?lists"
    by (simp add: merge_routing_policy_def merge_allowed_models_def Let_def map_extend_distinct)
  have repo: "filter ?P ?lists = filter ?P (rp_allowed_models repo)"
    by (auto intro!: filter_cong simp: case_prod_unfold)
  have mem: "k \<in> set ?kinds \<longleftrightarrow> filter ?P (rp_allowed_models repo) \<noteq> []"
    by (auto simp: set_map_filter filter_empty_conv)
  show ?thesis
  proof (cases "k \<in> set ?kinds")
    case True
    have "filter ?P (filter (\<lambda>(key, _). key \<notin> fst ` set ?lists) ?keep) = []"
      using True by (auto simp: filter_empty_conv)
    with True mem repo show ?thesis
      by (simp add: kind_list_def find_first_filter merged opt_or_def split: option.split)
  next
    case False
    have new: "key \<notin> fst ` set ?lists" if "kind_of_key key = Some k" for key
      using False that by (force simp: set_map_filter)
    have "filter ?P (filter (\<lambda>(key, _). key \<notin> fst ` set ?lists) ?keep) = filter ?P (rp_allowed_models canonical)"
      unfolding filter_filter by (rule filter_cong [OF refl]) (use False new in auto)
    with False mem repo show ?thesis
      by (simp add: kind_list_def find_first_filter merged)
  qed
qed

subsection \<open>Pacing\<close>

text \<open>Pacing is monotone under floating-point rounding: with the same thresholds, more usage or
  more days until the reset never gives a more aggressive band.\<close>

theorem pace_is_monotone:
  assumes "quota_pace (Some u) (Some d) c = Inr b" and "quota_pace (Some u') (Some d') c = Inr b'"
    and "u \<le> u'" and "d \<le> d'"
  shows "band_rank b \<le> band_rank b'"
  using assms pace_delta_mono [OF assms(3,4)]
  by (auto simp: quota_pace_def Let_def split: if_splits)

subsection \<open>Model overrides\<close>

lemma decide_override:
  assumes "decide_with_task_runtime env defaults prof req task runtime = Inr d"
    and "decide_with_inner env defaults prof req task runtime = Inr (d0, cs)"
    and "rq_requested_backend req = ''auto''" and "rq_requested_model req = Some m"
    and "\<not> rd_fallback_used d0"
  shows "\<exists>d1. apply_model_override env prof (eff env prof defaults) req runtime cs m d0 = Inr d1
           \<and> d = apply_codex_pin prof d1"
  using assms by (auto simp: decide_with_task_runtime_def map_sum_def split: sum.splits)

text \<open>An explicit model on an automatic route is no way around the approval gate: when the model
  names a configured candidate of the selected backend that needs approval, the route is decided only
  if the operator approved that destination, and only if every other gate of it passes too.\<close>

theorem model_flag_respects_gates:
  assumes "decide_with_task_runtime env defaults prof req task runtime = Inr d"
    and "decide_with_inner env defaults prof req task runtime = Inr (d0, cs)"
    and "rq_requested_backend req = ''auto''" and "rq_requested_model req = Some m"
    and "\<not> rd_fallback_used d0" and "rd_effective_model d0 \<noteq> Some m"
    and "List.find (\<lambda>c. ei_logical_backend (rc_identity c) = rd_effective_backend d0
                     \<and> ei_effective_model (rc_identity c) = Some m) cs = Some c"
  shows "passes_gates env (pf_max_concurrent_per_model prof) runtime (retry_excludes req runtime)
           (rc_requires_approval c) (eff env prof defaults) (rc_identity c)
         \<and> rd_effective_model d = Some m"
proof -
  from decide_override [OF assms(1-5)] obtain d1 where
    ov: "apply_model_override env prof (eff env prof defaults) req runtime cs m d0 = Inr d1"
    and d: "d = apply_codex_pin prof d1" by blast
  note res = override_result [OF ov inner_projected [OF assms(2)]]
  have "override_gate d0 cs al m = Some c" for al
    using assms(7) by (simp add: override_gate_def Let_def find_first_filter conj_commute)
  with res assms(6) have "gate env (pf_max_concurrent_per_model prof) runtime (retry_excludes req runtime)
      (eff env prof defaults) c = Inr None"
    by (auto simp: override_skip_def split: sum.splits option.splits if_splits)
  moreover have "rd_effective_model d = Some m" using res d codex_pin_known by metis
  ultimately show ?thesis by (simp add: skip_reason_None)
qed

text \<open>An explicit model on an automatic route forgets the backend instance: the identity still
  claims an explicit instance, but its instance key is recomputed by the legacy backend and quota-pool
  rule, so failures of the run are recorded against another instance than the one that ran.\<close>

theorem model_flag_forgets_instance:
  assumes "decide_with_task_runtime env defaults prof req task runtime = Inr d"
    and "decide_with_inner env defaults prof req task runtime = Inr (d0, cs)"
    and "rq_requested_backend req = ''auto''" and "rq_requested_model req = Some m"
    and "\<not> rd_fallback_used d0"
  shows "ei_explicit_instance (rd_identity d) = ei_explicit_instance (rd_identity d0)
         \<and> ei_backend_instance (rd_identity d)
           = legacy_backend_instance (ei_logical_backend (rd_identity d0)) (ei_quota_pool (rd_identity d))"
proof -
  from decide_override [OF assms] obtain d1 where
    ov: "apply_model_override env prof (eff env prof defaults) req runtime cs m d0 = Inr d1"
    and d: "d = apply_codex_pin prof d1" by blast
  have "rd_effective_model d1 = Some m"
    using override_result [OF ov inner_projected [OF assms(2)]] by blast
  with d ov show ?thesis
    by (auto simp: codex_pin_known apply_model_override_def refresh_compatibility_projection_def
        set_quota_pool_def split: if_splits option.splits)
qed

subsection \<open>Inherited instances\<close>

lemma unknown_instance_skipped:
  assumes "cc_instance e = Some name" "map_of (rp_backend_instances q) name = None"
    and "\<not> ie_is_exec (oe_ids (re_order env)) []"
  shows "\<exists>rsn. skip_reason_for_candidate env mc runtime ex ap p
           (execution_identity_for_candidate (oe_ids (re_order env)) q e)
         = Inr (Some (skip_of (execution_identity_for_candidate (oe_ids (re_order env)) q e) rsn None))
         \<and> rsn \<noteq> ''operator_approval_required''"
proof -
  let ?i = "execution_identity_for_candidate (oe_ids (re_order env)) q e"
  have "\<not> executable_available env ?i"
    using undeclared_instance_has_no_executable [OF assms(1,2)] explicit_identity(1) [OF assms(1)] assms(3)
    by (simp add: executable_available_def)
  then show ?thesis
    by (auto simp: skip_reason_for_candidate_def)
qed

lemma pick_loop_all_skipped:
  assumes "\<And>c. c \<in> set cs \<Longrightarrow> \<exists>s. gate env mc runtime ex p c = Inr (Some s)
             \<and> sb_reason s \<noteq> ''operator_approval_required''"
    and "\<forall>s\<in>set sk. sb_reason s \<noteq> ''operator_approval_required''"
  shows "\<exists>sk' bl'. pick_loop env mc runtime ex p cs sk bl = Inr (None, sk', bl')
           \<and> (\<forall>s\<in>set sk'. sb_reason s \<noteq> ''operator_approval_required'')"
  using assms
proof (induction cs arbitrary: sk bl)
  case Nil
  then show ?case by simp
next
  case (Cons c cs)
  from Cons.prems(1) [of c] obtain s where s: "gate env mc runtime ex p c = Inr (Some s)"
    "sb_reason s \<noteq> ''operator_approval_required''" by auto
  show ?case using Cons.IH [of "sk @ [s]"] Cons.prems s by simp
qed

lemma pick_all_skipped:
  assumes "cs \<noteq> []" and "\<And>c. c \<in> set cs \<Longrightarrow> \<exists>s. gate env mc runtime ex p c = Inr (Some s)
             \<and> sb_reason s \<noteq> ''operator_approval_required''"
  shows "\<exists>b m sk r. pick_route_candidate env mc runtime ex p cs = Inl (RouteError (NoEligibleBackend b m sk r))"
proof -
  obtain c0 cs0 where cs: "cs = c0 # cs0" using assms(1) by (cases cs) auto
  obtain sk bl where l: "pick_loop env mc runtime ex p cs [] False = Inr (None, sk, bl)"
    and n: "\<forall>s\<in>set sk. sb_reason s \<noteq> ''operator_approval_required''"
    using pick_loop_all_skipped [of cs env mc runtime ex p "[]" False] assms(2) by auto
  have "List.find (\<lambda>s. sb_reason s = ''operator_approval_required'' \<and> \<not> bl) sk = None"
    using n by (simp add: find_None_iff')
  with l cs show ?thesis by (simp add: pick_route_candidate_def del: pick_loop.simps)
qed

text \<open>A profile's own candidate list ignores inherited instances: it is resolved against the
  profile's registry alone, so a candidate that names an instance declared in the canonical defaults
  is treated as an unknown instance and the job finds no eligible backend, whatever the defaults
  declare.\<close>

theorem profile_pool_ignores_inherited_instances:
  assumes "rq_requested_backend req = ''auto''"
    and "allowed_model_errors (eff env prof defaults) = []"
    and "allowed_models_for (eff env prof defaults) (rq_mode req) = None"
    and "family_candidates (pf_routing prof) (rq_mode req) = Some l" and "l \<noteq> []"
    and "\<forall>e\<in>set l. \<exists>name. cc_instance e = Some name
                          \<and> map_of (rp_backend_instances (pf_routing prof)) name = None"
    and "\<not> ie_is_exec (oe_ids (re_order env)) []"
  shows "\<exists>b m sk r. decide_with_inner env defaults prof req None runtime
           = Inl (RouteError (NoEligibleBackend b m sk r))"
proof -
  let ?p = "eff env prof defaults" and ?q = "pf_routing prof" and ?env = "re_order env"
  let ?cs = "route_candidates ?env ?q l"
  obtain ordered reorder where o: "order_candidates ?env (pf_pacing prof) ?cs
      (escalates req runtime) runtime (rq_mode req) = (ordered, reorder)" by (cases rule: prod.exhaust) auto
  have ne: "ordered \<noteq> []"
    using order_not_empty [of ?cs ?env "pf_pacing prof" "escalates req runtime" runtime "rq_mode req"] o assms(5)
    by simp
  have skip: "\<exists>s. gate env mc runtime ex ?p c = Inr (Some s) \<and> sb_reason s \<noteq> ''operator_approval_required''"
    if "c \<in> set ordered" for c mc ex
  proof -
    have "c \<in> set (fst (order_candidates ?env (pf_pacing prof) ?cs (escalates req runtime) runtime (rq_mode req)))"
      using o that by simp
    from ordered_identity [OF this] obtain e where
      e: "e \<in> set l" "rc_identity c = execution_identity_for_candidate (oe_ids ?env) ?q e" by blast
    then obtain name where "cc_instance e = Some name" "map_of (rp_backend_instances ?q) name = None"
      using assms(6) by blast
    from unknown_instance_skipped [OF this assms(7), of mc runtime ex "rc_requires_approval c" ?p] e
    show ?thesis by (auto simp: skip_of_def)
  qed
  have "pool_branch env prof ?p req runtime None True ?cs
      = (case pick_route_candidate env (pf_max_concurrent_per_model prof) runtime (escalates req runtime) ?p ordered of
           Inl e \<Rightarrow> Inl e | Inr x \<Rightarrow> pool_branch env prof ?p req runtime None True ?cs)"
    using o ne by (cases ordered) (auto simp: pool_branch_def Let_def every_route_tried_def split: sum.split)
  with pick_all_skipped [OF ne skip] have
    "\<exists>b m sk r. pool_branch env prof ?p req runtime None True ?cs = Inl (RouteError (NoEligibleBackend b m sk r))"
    by (metis sum.case(1))
  then show ?thesis
    using assms by (simp add: decide_with_inner_def Let_def task_rule_candidates_def pool_candidates_def
        nonempty_list_def policy_candidates_def)
qed

subsection \<open>Reviewer history\<close>

definition history_metrics :: "rat option \<Rightarrow> reviewer_outcome_metrics" where
  "history_metrics cost =
     \<lparr> rm_completed_reviews = 5, rm_outcome_samples = 5, rm_successful_outcomes = 4,
       rm_later_fix_correlations = 0, rm_human_overrides = 0, rm_false_approvals = 0,
       rm_false_rejections = 0, rm_quota_backed_reviews = 0, rm_api_backed_reviews = 0,
       rm_latency_total_seconds = 0, rm_latency_samples = 0,
       rm_api_cost_total_usd = unwrap_or cost 0, rm_api_cost_samples = (if cost = None then 0 else 1) \<rparr>"

definition reviewer :: "rust_str \<Rightarrow> nat \<Rightarrow> route_candidate" where
  "reviewer backend order = plain_candidate (legacy_candidate backend None None) False order"

definition history_runtime :: routing_runtime_state where
  "history_runtime =
     \<lparr> rs_recent_runs = Map.empty,
       rs_reviewer_outcomes =
         [(dest (reviewer ''a'' 2), history_metrics (Some 1)),
          (dest (reviewer ''b'' 3), history_metrics None),
          (dest (reviewer ''c'' 4), history_metrics (Some 0))],
       rs_attempted = [], rs_dispatch_attempted = [], rs_approved = [] \<rparr>"

text \<open>The history comparator is not an order: an unknown cost compares as equal to every cost, so
  three reviewers with enough samples and equal success can form a cycle.  The standard library
  requires a total order of \<open>sort_by\<close> and may panic otherwise.\<close>

theorem reviewer_history_cycle:
  "compare_reviewer_history history_runtime (reviewer ''a'' 2) (reviewer ''b'' 3) = Less
   \<and> compare_reviewer_history history_runtime (reviewer ''b'' 3) (reviewer ''c'' 4) = Less
   \<and> compare_reviewer_history history_runtime (reviewer ''c'' 4) (reviewer ''a'' 2) = Less"
proof -
  have dests: "dest (reviewer b n) = \<lparr> ci_backend = b, ci_model = None \<rparr>" for b n
    by (simp add: reviewer_def from_execution_identity_def legacy_candidate_def)
  have m: "reviewer_metrics history_runtime (reviewer ''a'' 2) = Some (history_metrics (Some 1))"
    "reviewer_metrics history_runtime (reviewer ''b'' 3) = Some (history_metrics None)"
    "reviewer_metrics history_runtime (reviewer ''c'' 4) = Some (history_metrics (Some 0))"
    by (simp_all add: reviewer_metrics_def history_runtime_def dests)
  have "0 < f64_round 1" using f64_pos_pos [of 1] by (simp add: f64_round_def)
  moreover have "rc_original_order (reviewer b n) = n" for b n by (simp add: reviewer_def plain_candidate_def)
  ultimately show ?thesis
    by (simp add: compare_reviewer_history_def m compare_metrics_def history_metrics_def cmp_ord_def
        average_api_cost_usd_def average_latency_seconds_def average_def compare_when_both_known_def)
qed

end
