(* ===== verification/Route_Examples.thy ===== *)
theory Route_Examples
  imports Route_Props
begin

text \<open>
  A small installation on which the router is evaluated, and the instances of the routing
  properties there.
\<close>

subsection \<open>A small installation\<close>

text \<open>Two installed command line tools, an empty availability store and no live quota readings.\<close>

definition ex_env :: route_env where
  "ex_env =
     \<lparr> re_order = \<lparr> oe_ids = \<lparr> ie_is_exec = (\<lambda>path. path = ''/bin/claude''), ie_on_path = (\<lambda>_. None),
                               ie_agy_catalog = (\<lambda>_ _ _. None) \<rparr>,
                    oe_observations = [], oe_parse_ts = ts_parse, oe_secs = of_int, oe_now = 0,
                    oe_price = (\<lambda>_. []) \<rparr>,
       re_available = (\<lambda>b. b = ''claude'' \<or> b = ''codex''),
       re_state = NotFound, re_parse_ts = ts_parse, re_now = 0, re_in_flight = (\<lambda>_. 0),
       re_is_subscription = (\<lambda>_. False) \<rparr>"

definition ex_prof :: "routing_policy \<Rightarrow> route_profile" where
  "ex_prof p = \<lparr> pf_routing = p, pf_pacing = default_pacing, pf_max_concurrent_per_model = [],
     pf_codex_args = [], pf_opencode_args = [], pf_claude_args = [], pf_agy_path = None,
     pf_agy_second_home = None \<rparr>"

definition ex_req :: "rust_str \<Rightarrow> rust_str option \<Rightarrow> route_request" where
  "ex_req backend model = \<lparr> rq_mode = ''review'', rq_requested_backend = backend,
     rq_requested_model = model, rq_recommended_backend = None, rq_recommended_model = None,
     rq_session_id = None, rq_usage_summary = None, rq_last_failure_class = None,
     rq_exact_route_required = False \<rparr>"

definition ex_runtime :: routing_runtime_state where
  "ex_runtime = \<lparr> rs_recent_runs = Map.empty, rs_reviewer_outcomes = [], rs_attempted = [],
     rs_dispatch_attempted = [], rs_approved = [\<lparr> ci_backend = ''claude'', ci_model = Some ''opus'' \<rparr>] \<rparr>"

definition ex_cand :: "rust_str option \<Rightarrow> rust_str option \<Rightarrow> bool \<Rightarrow> candidate_config" where
  "ex_cand inst model approval = default_candidate\<lparr> cc_backend := ''claude'', cc_instance := inst,
     cc_model := model, cc_requires_approval := approval \<rparr>"

definition ex_instance :: backend_instance_config where
  "ex_instance = \<lparr> bi_runner_kind = ''claude'', bi_enabled = None, bi_logical_backend = None,
     bi_executable = Some ''/bin/claude'', bi_resolve_from_path = None, bi_state_root = None,
     bi_account_label = None, bi_auth_source_label = None, bi_credential_id = None,
     bi_quota_pool = None, bi_supported_models = [] \<rparr>"

lemmas route_eval =
  decide_with_inner_def decide_with_task_runtime_def default_branch_def pool_branch_def explicit_branch_def
  route_explicit_def explicit_primary_def only_supported_model_def pinned_model_def
  pool_candidates_def policy_candidates_def nonempty_list_def task_rule_candidates_def
  initial_route_def apply_usage_caps_def default_primary_def default_reason_def builtin_backend_def
  auto_candidates_def extend_default_backend_candidates_def dedupe_candidates_def dedupe_key_def
  mode_backend_preference_def mode_family_def is_review_mode_def is_load_balanced_mode_def
  kind_of_key_def job_kind_parse_def policy_backend_model_def review_fallback_backend_name_def
  configured_route_candidate_def configured_candidate_def configured_route_requires_approval_def
  matches_route_def family_candidates_def allowed_entry_def allowed_models_for_def kind_list_def
  allows_model_def allowed_model_errors_def entry_errors_def
  find_quota_pool_def candidate_quota_pool_def configured_quota_pool_def
  resolve_candidate_quota_pool_def derive_quota_pool_def agy_account_def starts_with_def
  pick_route_candidate_def skip_reason_for_candidate_def instance_disabled_def instance_enabled_def
  executable_available_def max_concurrent_skip_def availability_for_identity_def load_state_def
  availability_for_key_def backend_step_def model_step_def latest_for_scope_def rfind_Nil
  eligible_decision_def attempted_key_def retry_excludes_def escalates_def
  route_is_genuine_agent_failure_def every_route_tried_def
  order_candidates_def with_original_order_def has_cost_policy_def reorder_text_def
  route_candidates_def route_candidate_of_def execution_identity_for_candidate_def bind_instance_def
  resolve_backend_instance_executable_def quota_source_def
  effective_routing_def stored_routing_def normalize_subscription_candidates_def
  subscription_instances_def as_subscription_def
  merge_routing_policy_def merge_instance_maps_def map_insert_def merged_quota_sources_def map_extend_def
  merge_allowed_models_def if_empty_def merged_with_def
  legacy_candidate_def legacy_route_def legacy_backend_instance_def runner_kind_for_backend_def
  backend_kind_parse_def from_execution_identity_def plain_candidate_def same_destination_def
  apply_model_override_def override_skip_def override_gate_def apply_codex_pin_def
  set_quota_pool_def from_identity_def refresh_compatibility_projection_def with_request_def
  ex_env_def empty_policy_def ex_prof_def ex_req_def ex_runtime_def ex_cand_def ex_instance_def
  default_candidate_def Let_def

lemma default_review_route:
  "\<exists>d cs. decide_with_inner ex_env empty_policy (ex_prof empty_policy) (ex_req ''auto'' None) None ex_runtime
     = Inr (d, cs)"
  by (simp add: route_eval)

theorem route_is_first_eligible_witness:
  "\<exists>d cs. decide_with_inner ex_env empty_policy (ex_prof empty_policy) (ex_req ''auto'' None) None ex_runtime
       = Inr (d, cs)
     \<and> routed_from ex_env empty_policy (ex_prof empty_policy) (ex_req ''auto'' None) None ex_runtime d cs"
proof -
  obtain d cs where d: "decide_with_inner ex_env empty_policy (ex_prof empty_policy) (ex_req ''auto'' None)
      None ex_runtime = Inr (d, cs)" using default_review_route by blast
  have "rq_requested_backend (ex_req ''auto'' None) = ''auto''" by (simp add: ex_req_def)
  from route_is_first_eligible [OF d this] d show ?thesis by blast
qed

lemma explicit_codex_route:
  "\<exists>d. decide_with_task_runtime ex_env empty_policy (ex_prof empty_policy) (ex_req ''codex'' (Some ''gpt''))
     None ex_runtime = Inr d"
  by (simp add: route_eval)

theorem explicit_route_never_moves_witness:
  "\<exists>d. decide_with_task_runtime ex_env empty_policy (ex_prof empty_policy) (ex_req ''codex'' (Some ''gpt''))
         None ex_runtime = Inr d \<and> \<not> rd_fallback_used d \<and> rd_effective_model d = Some ''gpt''"
proof -
  obtain d where d: "decide_with_task_runtime ex_env empty_policy (ex_prof empty_policy)
      (ex_req ''codex'' (Some ''gpt'')) None ex_runtime = Inr d" using explicit_codex_route by blast
  have r: "rq_requested_backend (ex_req ''codex'' (Some ''gpt'')) \<noteq> ''auto''"
    "rq_requested_model (ex_req ''codex'' (Some ''gpt'')) = Some ''gpt''" by (simp_all add: ex_req_def)
  show ?thesis using explicit_route_never_moves [OF d r(1)] d r(2) by blast
qed

definition listed_policy :: routing_policy where
  "listed_policy = empty_policy\<lparr> rp_allowed_models := [(''review'', [ex_cand None (Some ''opus'') True])] \<rparr>"

lemma listed_route:
  "\<exists>d. decide_with_task_runtime ex_env empty_policy (ex_prof listed_policy) (ex_req ''auto'' None)
     None ex_runtime = Inr d"
  by (simp add: route_eval listed_policy_def)

lemma listed_allowed:
  "allowed_models_for (effective_routing (re_is_subscription ex_env) (ex_prof listed_policy) empty_policy) ''review''
     = Some [ex_cand None (Some ''opus'') True]"
  by (simp add: route_eval listed_policy_def)

theorem allow_list_never_escaped_witness:
  "\<exists>d. decide_with_task_runtime ex_env empty_policy (ex_prof listed_policy) (ex_req ''auto'' None)
         None ex_runtime = Inr d
     \<and> allows_model (effective_routing (re_is_subscription ex_env) (ex_prof listed_policy) empty_policy)
         ''review'' (rd_effective_backend d) (rd_effective_model d)
     \<and> \<not> allows_model (effective_routing (re_is_subscription ex_env) (ex_prof listed_policy) empty_policy)
         ''review'' ''codex'' None"
proof -
  obtain d where d: "decide_with_task_runtime ex_env empty_policy (ex_prof listed_policy) (ex_req ''auto'' None)
      None ex_runtime = Inr d" using listed_route by blast
  have mode: "rq_mode (ex_req ''auto'' None) = ''review''" by (simp add: ex_req_def)
  have "\<not> allows_model (effective_routing (re_is_subscription ex_env) (ex_prof listed_policy) empty_policy)
         ''review'' ''codex'' None"
    using listed_allowed by (simp add: allows_model_def allowed_entry_def ex_cand_def)
  moreover have con: "consistent_entry (effective_routing (re_is_subscription ex_env) (ex_prof listed_policy)
      empty_policy) e"
    if "allowed_models_for (effective_routing (re_is_subscription ex_env) (ex_prof listed_policy) empty_policy)
      (rq_mode (ex_req ''auto'' None)) = Some l" "e \<in> set l" for l e
    using that listed_allowed mode by (auto simp: consistent_entry_def ex_cand_def default_candidate_def)
  ultimately show ?thesis
    using allow_list_never_escaped [OF d con] d mode by simp
qed

definition busy_env :: route_env where
  "busy_env = ex_env\<lparr> re_in_flight := (\<lambda>_. 1) \<rparr>"

definition included_claude :: route_candidate where
  "included_claude = (plain_candidate (legacy_candidate ''claude'' None None) False 0)\<lparr> rc_included_in_quota := True \<rparr>"

definition paid_codex :: route_candidate where
  "paid_codex = plain_candidate (legacy_candidate ''codex'' None None) True 1"

theorem recovering_capacity_is_awaited_witness:
  "\<exists>e. pick_route_candidate busy_env [(''claude/'', 1)] ex_runtime False empty_policy [included_claude, paid_codex]
         = Inl (RouteError e) \<and> is_capacity_deferral e"
proof -
  have e: "\<exists>e. pick_route_candidate busy_env [(''claude/'', 1)] ex_runtime False empty_policy
      [included_claude, paid_codex] = Inl (RouteError e)"
    by (simp add: route_eval busy_env_def included_claude_def paid_codex_def concurrency_key_def skip_of_def)
  have s: "\<exists>s. skip_reason_for_candidate busy_env [(''claude/'', 1)] ex_runtime False
      (rc_requires_approval included_claude) empty_policy (rc_identity included_claude) = Inr (Some s)
      \<and> sb_reason s = ''max_concurrent_reached''"
    by (simp add: route_eval busy_env_def included_claude_def concurrency_key_def skip_of_def)
  have "included_claude \<in> set [included_claude, paid_codex]" "rc_included_in_quota included_claude"
    by (simp_all add: included_claude_def)
  with e s show ?thesis using recovering_capacity_is_awaited by blast
qed

theorem merged_allow_list_witness:
  "kind_list (merge_routing_policy listed_policy (empty_policy\<lparr> rp_allowed_models := [(''review'', [])] \<rparr>)) Review
     = Some [ex_cand None (Some ''opus'') True]"
  using merged_allow_list [of "empty_policy\<lparr> rp_allowed_models := [(''review'', [])] \<rparr>" listed_policy Review]
  by (simp add: kind_list_def listed_policy_def kind_of_key_def job_kind_parse_def)

theorem pace_is_monotone_witness:
  "\<exists>b b'. quota_pace (Some 0) (Some 0) default_pacing = Inr b
     \<and> quota_pace (Some 100) (Some 0) default_pacing = Inr b' \<and> band_rank b \<le> band_rank b'"
proof -
  have "\<exists>b. quota_pace (Some u) (Some 0) default_pacing = Inr b" if "0 \<le> u" "u \<le> 100" for u
    using that by (simp add: quota_pace_def Let_def)
  from this [of 0] this [of 100] obtain b b' where
    b: "quota_pace (Some 0) (Some 0) default_pacing = Inr b"
    "quota_pace (Some 100) (Some 0) default_pacing = Inr b'" by auto
  show ?thesis using pace_is_monotone [OF b] b by simp
qed

definition approval_policy :: routing_policy where
  "approval_policy = empty_policy\<lparr> rp_review_candidates :=
     Some [ex_cand None (Some ''sonnet'') False, ex_cand None (Some ''opus'') True] \<rparr>"

lemma approval_inner:
  "\<exists>d cs. decide_with_inner ex_env empty_policy (ex_prof approval_policy) (ex_req ''auto'' (Some ''opus''))
       None ex_runtime = Inr (d, cs)
     \<and> \<not> rd_fallback_used d \<and> rd_effective_model d \<noteq> Some ''opus''
     \<and> (\<exists>c. List.find (\<lambda>c. ei_logical_backend (rc_identity c) = rd_effective_backend d
               \<and> ei_effective_model (rc_identity c) = Some ''opus'') cs = Some c
           \<and> rc_requires_approval c \<and> dest c = \<lparr> ci_backend = ''claude'', ci_model = Some ''opus'' \<rparr>)"
  by (simp add: route_eval approval_policy_def)

lemma approval_decided:
  "\<exists>d. decide_with_task_runtime ex_env empty_policy (ex_prof approval_policy) (ex_req ''auto'' (Some ''opus''))
     None ex_runtime = Inr d"
  by (simp add: route_eval approval_policy_def)

theorem model_flag_respects_gates_witness:
  "\<exists>d. decide_with_task_runtime ex_env empty_policy (ex_prof approval_policy) (ex_req ''auto'' (Some ''opus''))
         None ex_runtime = Inr d \<and> rd_effective_model d = Some ''opus''
     \<and> \<lparr> ci_backend = ''claude'', ci_model = Some ''opus'' \<rparr> \<in> set (rs_approved ex_runtime)"
proof -
  obtain d where d: "decide_with_task_runtime ex_env empty_policy (ex_prof approval_policy)
      (ex_req ''auto'' (Some ''opus'')) None ex_runtime = Inr d" using approval_decided by blast
  obtain d0 cs c where i: "decide_with_inner ex_env empty_policy (ex_prof approval_policy)
      (ex_req ''auto'' (Some ''opus'')) None ex_runtime = Inr (d0, cs)"
    "\<not> rd_fallback_used d0" "rd_effective_model d0 \<noteq> Some ''opus''"
    "List.find (\<lambda>c. ei_logical_backend (rc_identity c) = rd_effective_backend d0
               \<and> ei_effective_model (rc_identity c) = Some ''opus'') cs = Some c"
    "rc_requires_approval c" "dest c = \<lparr> ci_backend = ''claude'', ci_model = Some ''opus'' \<rparr>"
    using approval_inner by blast
  have r: "rq_requested_backend (ex_req ''auto'' (Some ''opus'')) = ''auto''"
    "rq_requested_model (ex_req ''auto'' (Some ''opus'')) = Some ''opus''" by (simp_all add: ex_req_def)
  show ?thesis
    using model_flag_respects_gates [OF d i(1) r i(2,3,4)] d i(5,6) by (auto simp: passes_gates_def)
qed

definition instance_policy :: routing_policy where
  "instance_policy = empty_policy\<lparr> rp_backend_instances := [(''acct'', ex_instance)],
     rp_review_candidates := Some [ex_cand (Some ''acct'') (Some ''opus'') False] \<rparr>"

lemma instance_inner:
  "\<exists>d cs. decide_with_inner ex_env empty_policy (ex_prof instance_policy) (ex_req ''auto'' (Some ''opus''))
       None ex_runtime = Inr (d, cs)
     \<and> \<not> rd_fallback_used d \<and> ei_explicit_instance (rd_identity d)
     \<and> ei_backend_instance (rd_identity d) = ''acct'' \<and> ei_logical_backend (rd_identity d) = ''claude''"
  by (simp add: route_eval instance_policy_def trim_def trim_end_def ws1_def ws2_def ws3_def)

lemma instance_decided:
  "\<exists>d. decide_with_task_runtime ex_env empty_policy (ex_prof instance_policy) (ex_req ''auto'' (Some ''opus''))
     None ex_runtime = Inr d \<and> ei_quota_pool (rd_identity d) = None"
  by (simp add: route_eval instance_policy_def trim_def trim_end_def ws1_def ws2_def ws3_def)

theorem model_flag_forgets_instance_witness:
  "\<exists>d. decide_with_task_runtime ex_env empty_policy (ex_prof instance_policy) (ex_req ''auto'' (Some ''opus''))
         None ex_runtime = Inr d \<and> ei_explicit_instance (rd_identity d)
     \<and> ei_backend_instance (rd_identity d) = ''claude''"
proof -
  obtain d where d: "decide_with_task_runtime ex_env empty_policy (ex_prof instance_policy)
      (ex_req ''auto'' (Some ''opus'')) None ex_runtime = Inr d" "ei_quota_pool (rd_identity d) = None"
    using instance_decided by blast
  obtain d0 cs where i: "decide_with_inner ex_env empty_policy (ex_prof instance_policy)
      (ex_req ''auto'' (Some ''opus'')) None ex_runtime = Inr (d0, cs)"
    "\<not> rd_fallback_used d0" "ei_explicit_instance (rd_identity d0)"
    "ei_logical_backend (rd_identity d0) = ''claude''" using instance_inner by blast
  have r: "rq_requested_backend (ex_req ''auto'' (Some ''opus'')) = ''auto''"
    "rq_requested_model (ex_req ''auto'' (Some ''opus'')) = Some ''opus''" by (simp_all add: ex_req_def)
  show ?thesis
    using model_flag_forgets_instance [OF d(1) i(1) r i(2)] d i(3,4) by (simp add: legacy_backend_instance_def)
qed

text \<open>The instance is declared in the defaults only.\<close>

definition inherited_defaults :: routing_policy where
  "inherited_defaults = empty_policy\<lparr> rp_backend_instances := [(''acct'', ex_instance)] \<rparr>"

definition inheriting_policy :: routing_policy where
  "inheriting_policy = empty_policy\<lparr>
     rp_review_candidates := Some [ex_cand (Some ''acct'') (Some ''opus'') False] \<rparr>"

theorem profile_pool_ignores_inherited_instances_witness:
  "(\<exists>b m sk r. decide_with_inner ex_env inherited_defaults (ex_prof inheriting_policy) (ex_req ''auto'' None)
       None ex_runtime = Inl (RouteError (NoEligibleBackend b m sk r)))
   \<and> map_of (rp_backend_instances (effective_routing (re_is_subscription ex_env) (ex_prof inheriting_policy)
       inherited_defaults)) ''acct'' = Some ex_instance"
proof -
  have "map_of (rp_backend_instances (effective_routing (re_is_subscription ex_env) (ex_prof inheriting_policy)
       inherited_defaults)) ''acct'' = Some ex_instance"
    by (simp add: effective_routing_def stored_routing_def normalize_subscription_candidates_def Let_def
        merge_routing_policy_def merge_instance_maps_def ex_prof_def inheriting_policy_def
        inherited_defaults_def empty_policy_def)
  moreover have "\<exists>b m sk r. decide_with_inner ex_env inherited_defaults (ex_prof inheriting_policy)
      (ex_req ''auto'' None) None ex_runtime = Inl (RouteError (NoEligibleBackend b m sk r))"
    by (rule profile_pool_ignores_inherited_instances [where l = "[ex_cand (Some ''acct'') (Some ''opus'') False]"])
       (simp_all add: route_eval inheriting_policy_def inherited_defaults_def)
  ultimately show ?thesis by blast
qed

end
