(* ===== verification/Quota_Store_Props.thy ===== *)
theory Quota_Store_Props
  imports Quota_Store Availability_Props
begin

text \<open>
  Properties of the quota store: pruning is invisible to every selector, the selected windows are
  current, valid and isolated, accepted external readings are stored and read back, a source is
  checked at most once at a time, and only fresh readings count as capacity.
\<close>

subsection \<open>Positions\<close>

lemma filter_enumerate_nths:
  "map snd (filter (\<lambda>(k, r). p k r) (enumerate n xs)) = nths xs {j. p (n + j) (xs ! j)}"
proof (induction xs arbitrary: n)
  case (Cons x xs)
  from Cons [of "Suc n"] show ?case by (simp add: nths_Cons)
qed simp

lemma filter_enumerate_fst:
  "set (map fst (filter (\<lambda>(k, r). p k r) (enumerate 0 xs))) = {k. k < length xs \<and> p k (xs ! k)}"
  by (force simp: in_set_enumerate_eq image_iff)

lemma nths_snoc: "nths (xs @ [x]) A = nths xs A @ (if length xs \<in> A then [x] else [])"
  by (simp add: nths_append)

lemma max_by_key_nths_greatest:
  assumes "max_by_key f (filter R (nths xs C)) = Some x"
  shows "\<exists>j < length xs. j \<in> C \<and> x = xs ! j \<and> R x
    \<and> (\<forall>i < length xs. i \<in> C \<longrightarrow> R (xs ! i) \<longrightarrow> (f (xs ! i), i) \<le> (f x, j))"
  using assms
proof (induction xs arbitrary: x rule: rev_induct)
  case (snoc y xs)
  show ?case
  proof (cases "length xs \<in> C \<and> R y")
    case False
    with snoc.prems have "max_by_key f (filter R (nths xs C)) = Some x" by (auto simp: nths_snoc)
    from snoc.IH [OF this] False show ?thesis
      by (auto simp: nth_append less_Suc_eq)
  next
    case True
    then have later: "later f y (max_by_key f (filter R (nths xs C))) = Some x"
      using snoc.prems by (simp add: nths_snoc)
    show ?thesis
    proof (cases "x = y \<and> (\<forall>i < length xs. i \<in> C \<longrightarrow> R (xs ! i) \<longrightarrow> f (xs ! i) \<le> f y)")
      case True
      with \<open>length xs \<in> C \<and> R y\<close> show ?thesis
        by (intro exI [of _ "length xs"]) (auto simp: nth_append less_Suc_eq less_eq_prod_def)
    next
      case other: False
      show ?thesis
      proof (cases "max_by_key f (filter R (nths xs C))")
        case None
        then have "\<forall>i < length xs. i \<in> C \<longrightarrow> \<not> R (xs ! i)"
          by (auto simp: filter_empty_conv set_nths)
        with None later other show ?thesis by (auto simp: later_def)
      next
        case (Some c)
        from snoc.IH [OF Some] obtain j where j: "j < length xs" "j \<in> C" "c = xs ! j" "R c"
          "\<forall>i < length xs. i \<in> C \<longrightarrow> R (xs ! i) \<longrightarrow> (f (xs ! i), i) \<le> (f c, j)" by blast
        have "\<not> f c \<le> f y"
        proof
          assume "f c \<le> f y"
          with later Some have "x = y" by (simp add: later_def)
          with other obtain i where "i < length xs" "i \<in> C" "R (xs ! i)" "\<not> f (xs ! i) \<le> f y" by blast
          with j(5) \<open>f c \<le> f y\<close> show False by (fastforce simp: less_eq_prod_def)
        qed
        with later Some have "x = c" by (simp add: later_def)
        with j \<open>\<not> f c \<le> f y\<close> show ?thesis
          by (intro exI [of _ j]) (auto simp: nth_append less_Suc_eq less_eq_prod_def)
      qed
    qed
  qed
qed simp

lemma max_by_key_nths_eqI:
  assumes "j < length xs" "j \<in> C" "R (xs ! j)"
    and "\<And>i. i < length xs \<Longrightarrow> i \<in> C \<Longrightarrow> R (xs ! i) \<Longrightarrow> (f (xs ! i), i) \<le> (f (xs ! j), j)"
  shows "max_by_key f (filter R (nths xs C)) = Some (xs ! j)"
proof -
  have "filter R (nths xs C) \<noteq> []" using assms(1-3) by (auto simp: filter_empty_conv set_nths)
  then obtain x where x: "max_by_key f (filter R (nths xs C)) = Some x" by fastforce
  from max_by_key_nths_greatest [OF x] obtain k where k: "k < length xs" "k \<in> C" "x = xs ! k" "R x"
    "\<forall>i < length xs. i \<in> C \<longrightarrow> R (xs ! i) \<longrightarrow> (f (xs ! i), i) \<le> (f x, k)" by blast
  with assms have "(f (xs ! j), j) = (f (xs ! k), k)" by (metis order.antisym)
  with x k show ?thesis by simp
qed

lemma max_by_key_pruned:
  assumes "C \<subseteq> {..<length xs}"
    and "\<And>j. j \<in> C \<Longrightarrow> R (xs ! j) \<Longrightarrow> \<exists>k \<in> I \<inter> C. R (xs ! k) \<and> (f (xs ! j), j) \<le> (f (xs ! k), k)"
  shows "max_by_key f (filter R (nths xs (I \<inter> C))) = max_by_key f (filter R (nths xs C))"
proof (cases "max_by_key f (filter R (nths xs C))")
  case None
  then have "filter R (nths xs C) = []" by simp
  then have "filter R (nths xs (I \<inter> C)) = []" by (force simp: filter_empty_conv set_nths)
  with None show ?thesis by simp
next
  case (Some x)
  from max_by_key_nths_greatest [OF Some] obtain j where
    j: "j < length xs" "j \<in> C" "x = xs ! j" "R (xs ! j)"
    "\<And>i. i < length xs \<Longrightarrow> i \<in> C \<Longrightarrow> R (xs ! i) \<Longrightarrow> (f (xs ! i), i) \<le> (f (xs ! j), j)" by blast
  from assms(2) [OF j(2,4)] obtain k where
    k: "k \<in> I" "k \<in> C" "R (xs ! k)" "(f (xs ! j), j) \<le> (f (xs ! k), k)" by blast
  moreover have "k < length xs" using k(2) assms(1) by blast
  ultimately have "(f (xs ! k), k) = (f (xs ! j), j)" using j(5) by (meson order.antisym)
  then have "j \<in> I" using k(1) by simp
  with j have "max_by_key f (filter R (nths xs (I \<inter> C))) = Some (xs ! j)"
    by (intro max_by_key_nths_eqI) auto
  with Some j(3) show ?thesis by simp
qed

text \<open>The record, and the mark, at the greatest index of a named source.\<close>

lemma source_binding_iff:
  "source_binding rs sid = None \<longleftrightarrow> (\<forall>r \<in> set rs. qo_credential_id r \<noteq> Some sid)"
  "source_binding rs sid = Some k \<Longrightarrow>
     k < length rs \<and> qo_credential_id (rs ! k) = Some sid
     \<and> (\<forall>j < length rs. qo_credential_id (rs ! j) = Some sid \<longrightarrow> j \<le> k)"
proof (induction rs arbitrary: k rule: rev_induct)
  case (snoc r rs)
  have eq: "source_binding (rs @ [r]) sid =
      (if qo_credential_id r = Some sid then Some (length rs) else source_binding rs sid)"
    by (auto simp: source_binding_def enumerate_append_eq split: option.split)
  { case 1 show ?case using snoc(1) by (auto simp: eq) }
  { case 2 then show ?case using snoc(2) [of k] by (auto simp: eq nth_append less_Suc_eq split: if_splits) }
qed (simp_all add: source_binding_def)

lemma source_lifecycle_iff:
  "source_lifecycle rs sid = None \<longleftrightarrow> (\<forall>r \<in> set rs. qo_credential_id r = Some sid \<longrightarrow> \<not> is_lifecycle r)"
  "source_lifecycle rs sid = Some k \<Longrightarrow>
     k < length rs \<and> qo_credential_id (rs ! k) = Some sid \<and> is_lifecycle (rs ! k)
     \<and> (\<forall>j < length rs. qo_credential_id (rs ! j) = Some sid \<longrightarrow> is_lifecycle (rs ! j) \<longrightarrow> j \<le> k)"
proof (induction rs arbitrary: k rule: rev_induct)
  case (snoc r rs)
  have eq: "source_lifecycle (rs @ [r]) sid =
      (if qo_credential_id r = Some sid \<and> is_lifecycle r then Some (length rs) else source_lifecycle rs sid)"
    by (auto simp: source_lifecycle_def enumerate_append_eq split: option.split)
  { case 1 show ?case using snoc(1) by (auto simp: eq) }
  { case 2 then show ?case using snoc(2) [of k] by (auto simp: eq nth_append less_Suc_eq split: if_splits) }
qed (simp_all add: source_lifecycle_def)

lemma source_latest_max:
  "source_latest rs sid = max_by_key (\<lambda>_. ()) (filter (\<lambda>r. qo_credential_id r = Some sid) rs)"
  by (induction rs rule: rev_induct)
    (auto simp: source_latest_def later_def split: option.split)


subsection \<open>Current sources under pruning\<close>

text \<open>A record is current when its source is bound to it and no mark of the source follows it.\<close>

definition bound_to :: "(rust_str \<rightharpoonup> quota_observation) \<Rightarrow> quota_observation \<Rightarrow> quota_observation list \<Rightarrow> bool" where
  "bound_to latest r later_rs =
     (case qo_credential_id r of
        None \<Rightarrow> True
      | Some sid \<Rightarrow>
          (case latest sid of
             None \<Rightarrow> False
           | Some cur \<Rightarrow>
               qo_usage_source cur \<noteq> Some ''credential_removed''
               \<and> (\<forall>v \<in> set later_rs. qo_credential_id v = Some sid \<longrightarrow> \<not> is_lifecycle v)
               \<and> qo_backend r = qo_backend cur
               \<and> qo_backend_instance r = qo_backend_instance cur
               \<and> qo_quota_pool r = qo_quota_pool cur))"

lemma in_set_drop_nth: "x \<in> set (drop n xs) \<longleftrightarrow> (\<exists>i. n \<le> i \<and> i < length xs \<and> x = xs ! i)"
proof
  assume "x \<in> set (drop n xs)"
  then obtain j where "j < length xs - n" "x = xs ! (n + j)" by (auto simp: in_set_conv_nth)
  then show "\<exists>i. n \<le> i \<and> i < length xs \<and> x = xs ! i" by (intro exI [of _ "n + j"]) auto
next
  assume "\<exists>i. n \<le> i \<and> i < length xs \<and> x = xs ! i"
  then obtain i where "n \<le> i" "i < length xs" "x = xs ! i" by blast
  then show "x \<in> set (drop n xs)"
    by (auto simp: in_set_conv_nth intro!: exI [of _ "i - n"])
qed

lemma is_current_bound:
  assumes "k < length rs"
  shows "is_current rs k (rs ! k) \<longleftrightarrow> bound_to (source_latest rs) (rs ! k) (drop (Suc k) rs)"
proof -
  have "(case source_lifecycle rs sid of None \<Rightarrow> True | Some cutoff \<Rightarrow> cutoff \<le> k)
      \<longleftrightarrow> (\<forall>v \<in> set (drop (Suc k) rs). qo_credential_id v = Some sid \<longrightarrow> \<not> is_lifecycle v)" for sid
  proof (cases "source_lifecycle rs sid")
    case None
    then show ?thesis using source_lifecycle_iff(1) [of rs sid] by (auto dest: in_set_dropD)
  next
    case (Some c)
    note c = source_lifecycle_iff(2) [OF Some]
    show ?thesis
    proof
      assume "case source_lifecycle rs sid of None \<Rightarrow> True | Some cutoff \<Rightarrow> cutoff \<le> k"
      then have "c \<le> k" using Some by simp
      then show "\<forall>v \<in> set (drop (Suc k) rs). qo_credential_id v = Some sid \<longrightarrow> \<not> is_lifecycle v"
        using c by (fastforce simp: in_set_drop_nth)
    next
      assume none: "\<forall>v \<in> set (drop (Suc k) rs). qo_credential_id v = Some sid \<longrightarrow> \<not> is_lifecycle v"
      have "c \<le> k"
      proof (rule ccontr)
        assume "\<not> c \<le> k"
        then have "rs ! c \<in> set (drop (Suc k) rs)" using c by (metis in_set_drop_nth not_less_eq_eq)
        with none c show False by blast
      qed
      then show "case source_lifecycle rs sid of None \<Rightarrow> True | Some cutoff \<Rightarrow> cutoff \<le> k" using Some by simp
    qed
  qed
  then show ?thesis by (simp add: is_current_def bound_to_def split: option.split)
qed

definition current_at :: "quota_observation list \<Rightarrow> nat set" where
  "current_at rs = {k. k < length rs \<and> is_current rs k (rs ! k)}"

lemma nths_below: "nths xs {k. k < length xs \<and> P k} = nths xs {k. P k}"
  by (induction xs arbitrary: P) (auto simp: nths_Cons)

lemma current_source_records_nths: "current_source_records rs = nths rs (current_at rs)"
  by (simp add: current_source_records_def filter_enumerate_nths current_at_def nths_below)

text \<open>A set of positions that reaches every mark from the right keeps the current records current.\<close>

lemma nths_bound:
  assumes "\<And>j sid. j < length rs \<Longrightarrow> qo_credential_id (rs ! j) = Some sid \<Longrightarrow> is_lifecycle (rs ! j) \<Longrightarrow>
             \<exists>k \<in> A. j \<le> k \<and> k < length rs \<and> qo_credential_id (rs ! k) = Some sid \<and> is_lifecycle (rs ! k)"
  shows "nths (nths rs A) {k. bound_to L (nths rs A ! k) (drop (Suc k) (nths rs A))}
       = nths rs {k \<in> A. bound_to L (rs ! k) (drop (Suc k) rs)}"
  using assms
proof (induction rs arbitrary: A)
  case (Cons r rs)
  let ?A = "{j. Suc j \<in> A}"
  have reach: "\<exists>k \<in> ?A. j \<le> k \<and> k < length rs \<and> qo_credential_id (rs ! k) = Some sid \<and> is_lifecycle (rs ! k)"
    if "j < length rs" "qo_credential_id (rs ! j) = Some sid" "is_lifecycle (rs ! j)" for j sid
  proof -
    from Cons.prems [of "Suc j" sid] that obtain k where
      "k \<in> A" "Suc j \<le> k" "k < length (r # rs)" "qo_credential_id ((r # rs) ! k) = Some sid"
      "is_lifecycle ((r # rs) ! k)" by auto
    then show ?thesis by (cases k) auto
  qed
  note IH = Cons.IH [of ?A, OF reach]
  have "bound_to L r (nths rs ?A) \<longleftrightarrow> bound_to L r rs"
  proof -
    have "(\<forall>v \<in> set (nths rs ?A). qo_credential_id v = Some sid \<longrightarrow> \<not> is_lifecycle v)
        \<longleftrightarrow> (\<forall>v \<in> set rs. qo_credential_id v = Some sid \<longrightarrow> \<not> is_lifecycle v)" for sid
    proof
      assume none: "\<forall>v \<in> set (nths rs ?A). qo_credential_id v = Some sid \<longrightarrow> \<not> is_lifecycle v"
      show "\<forall>v \<in> set rs. qo_credential_id v = Some sid \<longrightarrow> \<not> is_lifecycle v"
      proof (intro ballI impI notI)
        fix v assume "v \<in> set rs" "qo_credential_id v = Some sid" "is_lifecycle v"
        then obtain j where "j < length rs" "qo_credential_id (rs ! j) = Some sid" "is_lifecycle (rs ! j)"
          by (auto simp: in_set_conv_nth)
        from reach [OF this] obtain k where "k \<in> ?A" "k < length rs"
          "qo_credential_id (rs ! k) = Some sid" "is_lifecycle (rs ! k)" by blast
        moreover from this have "rs ! k \<in> set (nths rs ?A)" by (auto simp: set_nths)
        ultimately show False using none by blast
      qed
    next
      assume "\<forall>v \<in> set rs. qo_credential_id v = Some sid \<longrightarrow> \<not> is_lifecycle v"
      then show "\<forall>v \<in> set (nths rs ?A). qo_credential_id v = Some sid \<longrightarrow> \<not> is_lifecycle v"
        using set_nths_subset by fast
    qed
    then show ?thesis by (simp add: bound_to_def split: option.split)
  qed
  with IH show ?case
    by (simp add: nths_Cons)
qed simp

lemma current_source_records_pruned:
  assumes "\<And>sid k. source_binding rs sid = Some k \<Longrightarrow> k \<in> I"
    and "\<And>sid k. source_lifecycle rs sid = Some k \<Longrightarrow> k \<in> I"
  shows "current_source_records (nths rs I) = nths rs (I \<inter> current_at rs)"
proof -
  have latest: "source_latest (nths rs I) sid = source_latest rs sid" for sid
  proof (cases "source_binding rs sid")
    case None
    then show ?thesis
      using source_binding_iff(1) [of rs sid] set_nths_subset [of rs I]
      by (auto simp: source_latest_max filter_empty_conv)
  next
    case (Some k)
    note k = source_binding_iff(2) [OF Some]
    have "max_by_key (\<lambda>_. ()) (filter (\<lambda>r. qo_credential_id r = Some sid) (nths rs J)) = Some (rs ! k)"
      if "k \<in> J" for J
      using that k by (intro max_by_key_nths_eqI) (auto simp: less_eq_prod_def)
    from this [of I] this [of UNIV] show ?thesis
      using assms(1) [OF Some] by (simp add: source_latest_max nths_all)
  qed
  then have L: "source_latest (nths rs I) = source_latest rs" by (rule ext)
  have "current_source_records (nths rs I)
      = nths (nths rs I) {k. bound_to (source_latest rs) (nths rs I ! k) (drop (Suc k) (nths rs I))}"
    unfolding current_source_records_nths current_at_def
    by (subst (2) nths_below [symmetric]) (simp add: is_current_bound L cong: conj_cong)
  also have "\<dots> = nths rs {k \<in> I. bound_to (source_latest rs) (rs ! k) (drop (Suc k) rs)}"
  proof (rule nths_bound)
    fix j sid assume j: "j < length rs" "qo_credential_id (rs ! j) = Some sid" "is_lifecycle (rs ! j)"
    then have "source_lifecycle rs sid \<noteq> None" using source_lifecycle_iff(1) [of rs sid] by auto
    then obtain k where k: "source_lifecycle rs sid = Some k" by blast
    from source_lifecycle_iff(2) [OF k] assms(2) [OF k] j
    show "\<exists>k \<in> I. j \<le> k \<and> k < length rs \<and> qo_credential_id (rs ! k) = Some sid \<and> is_lifecycle (rs ! k)"
      by blast
  qed
  also have "\<dots> = nths rs (I \<inter> current_at rs)"
    unfolding current_at_def
    by (subst nths_below [symmetric]) (rule arg_cong [where f = "nths rs"], auto simp: is_current_bound)
  finally show ?thesis .
qed

subsection \<open>Selection and pruning\<close>

text \<open>The fold over the readings is a lookup of the last newest valid reading of each window.\<close>

definition valid_reading ::
  "(rust_str \<Rightarrow> int option) \<Rightarrow> (quota_observation \<Rightarrow> window_key) \<Rightarrow> (quota_observation \<Rightarrow> window_key)
   \<Rightarrow> (window_key \<rightharpoonup> int) \<Rightarrow> window_key \<Rightarrow> quota_observation \<Rightarrow> bool" where
  "valid_reading parse_ts skey rkey failed key r =
     (is_reading r \<and> \<not> outdated parse_ts skey failed r \<and> rkey r @ [qo_window r] = key)"

lemma outdated_mono:
  assumes "\<not> outdated parse_ts skey failed r" "observation_time parse_ts r \<le> observation_time parse_ts s"
    "skey s = skey r" "qo_window s = qo_window r"
  shows "\<not> outdated parse_ts skey failed s"
  using assms
  by (cases "observation_time parse_ts r"; cases "observation_time parse_ts s")
    (auto simp: outdated_def is_some_and_iff)

lemma windows_lookup:
  fixes parse_ts skey rkey failed
  defines "step \<equiv> window_step parse_ts skey rkey failed"
  shows "omap_ok (fold step xs [])"
    and "map_of (fold step xs []) key
       = max_by_key (observation_time parse_ts) (filter (valid_reading parse_ts skey rkey failed key) xs)"
proof (induction xs arbitrary: key rule: rev_induct)
  case (snoc x xs)
  { case 1 show ?case using snoc(1)
      by (auto simp: step_def window_step_def Let_def split: option.split) }
  { case 2 show ?case using snoc(2)
      by (auto simp: step_def window_step_def Let_def valid_reading_def later_def split: option.split) }
qed (simp_all add: step_def)

lemma select_eqI:
  assumes "invalidated parse_ts skey xs = invalidated parse_ts skey ys"
    and "\<And>key. max_by_key (observation_time parse_ts)
                 (filter (valid_reading parse_ts skey rkey (invalidated parse_ts skey xs) key) xs)
             = max_by_key (observation_time parse_ts)
                 (filter (valid_reading parse_ts skey rkey (invalidated parse_ts skey xs) key) ys)"
  shows "select_latest_windows parse_ts skey rkey xs = select_latest_windows parse_ts skey rkey ys"
  unfolding select_latest_windows_def
  using assms by (intro arg_cong [where f = "map snd"] omap_eqI ext) (simp_all add: windows_lookup)

text \<open>The positions kept by the plan: recent records, bindings, marks, and the last newest of every
  series, of its readings and of its failures.\<close>

definition kept :: "(rust_str \<Rightarrow> int option) \<Rightarrow> quota_observation list \<Rightarrow> int \<Rightarrow> nat set" where
  "kept parse_ts rs cutoff = set (plan_retention parse_ts rs cutoff)"

lemma kept_iff: "k \<in> kept parse_ts rs cutoff \<longleftrightarrow> k < length rs \<and> keeps parse_ts rs cutoff k (rs ! k)"
  unfolding kept_def plan_retention_def by (subst filter_enumerate_fst) simp

lemma kept_source:
  "source_binding rs sid = Some k \<Longrightarrow> k \<in> kept parse_ts rs cutoff"
  "source_lifecycle rs sid = Some k \<Longrightarrow> k \<in> kept parse_ts rs cutoff"
  using source_binding_iff(2) source_lifecycle_iff(2)
  by (fastforce simp: kept_iff keeps_def)+

lemma series_max_kept:
  assumes "j \<in> current_at rs" "p (rs ! j)" "p \<in> {is_reading, invalidates parse_ts}"
  obtains k where "k \<in> current_at rs \<inter> kept parse_ts rs cutoff" "p (rs ! k)"
    "series_key (rs ! k) = series_key (rs ! j)"
    "(observation_time parse_ts (rs ! j), j) \<le> (observation_time parse_ts (rs ! k), k)"
proof -
  let ?g = "\<lambda>(k, r). if is_current rs k r \<and> p r
                      then Some (series_key r, (observation_time parse_ts r, k)) else None"
  have mem: "(k, r) \<in> set (enumerate 0 rs) \<longleftrightarrow> k < length rs \<and> r = rs ! k" for k r
    by (auto simp: in_set_enumerate_eq)
  have j: "(j, rs ! j) \<in> set (enumerate 0 rs)"
    "?g (j, rs ! j) = Some (series_key (rs ! j), (observation_time parse_ts (rs ! j), j))"
    using assms(1,2) by (auto simp: mem current_at_def)
  then have "series_max parse_ts rs p (series_key (rs ! j)) \<noteq> None"
    unfolding series_max_def group_max_None_iff by fastforce
  then obtain v where v: "series_max parse_ts rs p (series_key (rs ! j)) = Some v" by blast
  from group_max_SomeD [OF v [unfolded series_max_def]] obtain k r where
    k: "(k, r) \<in> set (enumerate 0 rs)" "?g (k, r) = Some (series_key (rs ! j), v)"
    and le: "(observation_time parse_ts (rs ! j), j) \<le> v" using j by (metis (no_types, lifting) surj_pair)
  from k have r: "r = rs ! k" "k < length rs" "is_current rs k r" "p r" "series_key r = series_key (rs ! j)"
    "v = (observation_time parse_ts r, k)" by (auto simp: mem split: if_splits)
  have "keeps parse_ts rs cutoff k (rs ! k)"
    using r v assms(3) by (auto simp: keeps_def)
  with r le show thesis by (intro that [of k]) (auto simp: current_at_def kept_iff)
qed

lemma select_pruned:
  assumes "\<And>r s. series_key r = series_key s \<Longrightarrow> q r = q s \<and> skey r = skey s \<and> rkey r = rkey s"
  shows "select_latest_windows parse_ts skey rkey
           (filter q (nths rs (kept parse_ts rs cutoff \<inter> current_at rs)))
       = select_latest_windows parse_ts skey rkey (filter q (nths rs (current_at rs)))"
    (is "select_latest_windows _ _ _ ?ys = select_latest_windows _ _ _ ?xs")
proof (rule select_eqI)
  let ?I = "kept parse_ts rs cutoff" and ?C = "current_at rs"
  have win: "series_key r = series_key s \<Longrightarrow> qo_window r = qo_window s" for r s
    by (simp add: series_key_def)
  have inv: "invalidated parse_ts skey ?ys = invalidated parse_ts skey ?xs"
  proof
    fix key
    show "invalidated parse_ts skey ?ys key = invalidated parse_ts skey ?xs key"
      unfolding invalidated_def
    proof (rule group_max_sublist)
      show "set ?ys \<subseteq> set ?xs" by (auto simp: set_nths)
      fix x t assume x: "x \<in> set ?xs" "failed_check parse_ts skey x = Some (key, t)"
      then obtain j where j: "j \<in> ?C" "x = rs ! j" "q (rs ! j)" by (auto simp: set_nths)
      from x j have "invalidates parse_ts (rs ! j)"
        by (auto simp: failed_check_def invalidates_def is_reading_def is_some_iff split: if_splits)
      from series_max_kept [where p = "invalidates parse_ts" and cutoff = cutoff, OF j(1) this] obtain k where
        k: "k \<in> ?C \<inter> ?I" "invalidates parse_ts (rs ! k)" "series_key (rs ! k) = series_key (rs ! j)"
        "(observation_time parse_ts (rs ! j), j) \<le> (observation_time parse_ts (rs ! k), k)" by auto
      have "rs ! k \<in> set ?ys" using k j assms [OF k(3)] by (auto simp: set_nths current_at_def)
      moreover have "\<exists>w. failed_check parse_ts skey (rs ! k) = Some (key, w) \<and> t \<le> w"
      proof -
        from k(2) obtain w where w: "observation_time parse_ts (rs ! k) = Some w" "\<not> is_reading (rs ! k)"
          by (auto simp: invalidates_def is_some_iff)
        from x(2) j(2) have t: "observation_time parse_ts (rs ! j) = Some t"
          "key = skey (rs ! j) @ [qo_window (rs ! j)]"
          by (auto simp: failed_check_def split: if_splits)
        have "t \<le> w" using k(4) t(1) w(1) by (auto simp: less_eq_prod_def)
        with w t(2) assms [OF k(3)] win [OF k(3)] show ?thesis
          by (simp add: failed_check_def is_reading_def is_some_iff) blast
      qed
      ultimately show "\<exists>y \<in> set ?ys. \<exists>w. failed_check parse_ts skey y = Some (key, w) \<and> t \<le> w" by blast
    qed
  qed
  show "invalidated parse_ts skey ?ys = invalidated parse_ts skey ?xs" by (rule inv)
  fix key
  let ?V = "valid_reading parse_ts skey rkey (invalidated parse_ts skey ?xs) key"
  let ?R = "\<lambda>r. q r \<and> ?V r"
  let ?t = "observation_time parse_ts"
  have "max_by_key ?t (filter ?R (nths rs (?I \<inter> ?C))) = max_by_key ?t (filter ?R (nths rs ?C))"
  proof (rule max_by_key_pruned)
    show "?C \<subseteq> {..<length rs}" by (auto simp: current_at_def)
    fix j assume j: "j \<in> ?C" "?R (rs ! j)"
    then have "is_reading (rs ! j)" by (simp add: valid_reading_def)
    from series_max_kept [where p = is_reading and parse_ts = parse_ts and cutoff = cutoff, OF j(1) this]
    obtain k where k: "k \<in> ?C \<inter> ?I" "is_reading (rs ! k)" "series_key (rs ! k) = series_key (rs ! j)"
      "(?t (rs ! j), j) \<le> (?t (rs ! k), k)" by auto
    have "?t (rs ! j) \<le> ?t (rs ! k)" using k(4) by (auto simp: less_eq_prod_def)
    moreover have "skey (rs ! k) = skey (rs ! j)" "rkey (rs ! k) = rkey (rs ! j)" "q (rs ! k)"
      "qo_window (rs ! k) = qo_window (rs ! j)"
      using assms [OF k(3)] win [OF k(3)] j(2) by auto
    ultimately have "?R (rs ! k)"
      using j(2) k(2) outdated_mono unfolding valid_reading_def by metis
    with k show "\<exists>k \<in> ?I \<inter> ?C. ?R (rs ! k) \<and> (?t (rs ! j), j) \<le> (?t (rs ! k), k)" by blast
  qed
  then show "max_by_key ?t (filter (valid_reading parse_ts skey rkey (invalidated parse_ts skey ?ys) key) ?ys)
      = max_by_key ?t (filter (valid_reading parse_ts skey rkey (invalidated parse_ts skey ?ys) key) ?xs)"
    by (simp add: inv)
qed

text \<open>Pruning a list of records leaves every selection as it was.\<close>

lemma serves_identity_series:
  "series_key r = series_key s \<Longrightarrow> serves_identity i credential r = serves_identity i credential s"
  by (cases credential) (simp_all add: series_key_def serves_identity_def observation_matches_identity_def)

lemma current_pruned:
  "current_source_records (nths rs (kept parse_ts rs cutoff)) = nths rs (kept parse_ts rs cutoff \<inter> current_at rs)"
  by (rule current_source_records_pruned) (simp_all add: kept_source)

lemma pruned_identity:
  "latest_windows_for_identity_and_credential parse_ts (nths rs (kept parse_ts rs cutoff)) i credential
   = latest_windows_for_identity_and_credential parse_ts rs i credential"
  unfolding latest_windows_for_identity_and_credential_def current_pruned current_source_records_nths [of rs]
proof (rule select_pruned)
  fix r s assume "series_key r = series_key s"
  then show "serves_identity i credential r = serves_identity i credential s
    \<and> [qo_credential_id r] = [qo_credential_id s] \<and> [qo_model r] = [qo_model s]"
    using serves_identity_series [of r s i credential] by (simp add: series_key_def)
qed

lemma pruned_backend:
  "latest_windows_for_backend parse_ts (nths rs (kept parse_ts rs cutoff)) backend
   = latest_windows_for_backend parse_ts rs backend"
  unfolding latest_windows_for_backend_def current_pruned current_source_records_nths [of rs]
  by (rule select_pruned) (simp add: series_key_def full_source_key_def)

lemma map_filter_Some_map [simp]: "List.map_filter f (map Some xs) = map (the \<circ> f \<circ> Some) xs"
  if "\<And>x. f (Some x) \<noteq> None"
  using that by (induction xs) (auto simp: map_filter_simps split: option.split)

lemma load_map_Some [simp]: "load_account_observations (Lines (map Some rs)) = map canonical_observation rs"
  by (simp add: load_account_observations_def load_def o_def)

lemma load_lines: "load_account_observations (Lines ls) = map canonical_observation (List.map_filter (\<lambda>l. l) ls)"
  by (induction ls) (auto simp: load_account_observations_def load_def map_filter_simps split: option.split)

lemma canonical_unaliased: "qo_backend r \<noteq> ''cloud-coder'' \<Longrightarrow> canonical_observation r = r"
  by (simp add: canonical_observation_def canonical_backend_name_def)

lemma compact_lines:
  assumes "compact_with_export parse_ts export_ok now age (Lines ls) = Inr (file', n)"
  defines "rs \<equiv> List.map_filter (\<lambda>l. l) ls"
  shows "load_account_observations file' = map canonical_observation (nths rs (kept parse_ts rs (now - age)))
       \<or> file' = Lines ls"
  using assms
  by (auto simp: compact_with_export_def Let_def kept_def load_lines split: if_splits)

text \<open>C24. Pruning the quota store is invisible: for every identity, credential and back end the windows
  selected from the pruned store are the windows selected from the store before, and no record
  younger than the retention age is dropped.  The store may hold malformed lines, failed checks,
  rotated and removed credentials and readings out of order; only records under the legacy alias are
  excluded.\<close>

theorem quota_compaction_is_invisible:
  assumes "compact_with_export parse_ts export_ok now age (Lines ls) = Inr (file', n)"
    and "\<And>r. Some r \<in> set ls \<Longrightarrow> qo_backend r \<noteq> ''cloud-coder''"
  shows "latest_windows_for_identity_and_credential parse_ts (load_account_observations file') i credential
       = latest_windows_for_identity_and_credential parse_ts (load_account_observations (Lines ls)) i credential
     \<and> latest_windows_for_backend parse_ts (load_account_observations file') backend
       = latest_windows_for_backend parse_ts (load_account_observations (Lines ls)) backend
     \<and> (\<forall>r. Some r \<in> set ls \<longrightarrow> (\<forall>t. observation_time parse_ts r = Some t \<longrightarrow> now - age \<le> t)
            \<longrightarrow> r \<in> set (load_account_observations file'))"
proof -
  define rs where "rs = List.map_filter (\<lambda>l. l) ls"
  have mem: "r \<in> set rs \<longleftrightarrow> Some r \<in> set ls" for r by (auto simp: rs_def set_map_filter)
  have canon: "map canonical_observation xs = xs" if "set xs \<subseteq> set rs" for xs
  proof (rule map_idI)
    fix r assume "r \<in> set xs"
    then have "Some r \<in> set ls" using that mem by blast
    then show "canonical_observation r = r" using assms(2) canonical_unaliased by blast
  qed
  have whole: "load_account_observations (Lines ls) = rs"
    using canon by (simp add: load_lines flip: rs_def)
  consider (same) "file' = Lines ls"
    | (pruned) "load_account_observations file' = nths rs (kept parse_ts rs (now - age))"
    using compact_lines [OF assms(1)] canon [OF set_nths_subset] by (auto simp: rs_def)
  then show ?thesis
  proof cases
    case same
    then show ?thesis using whole mem by simp
  next
    case pruned
    have "r \<in> set (nths rs (kept parse_ts rs (now - age)))"
      if "r \<in> set rs" "\<forall>t. observation_time parse_ts r = Some t \<longrightarrow> now - age \<le> t" for r
    proof -
      from that(1) obtain k where k: "k < length rs" "r = rs ! k" by (auto simp: in_set_conv_nth)
      with that(2) have "k \<in> kept parse_ts rs (now - age)"
        by (simp add: kept_iff keeps_def split: option.split)
      with k show ?thesis by (auto simp: set_nths)
    qed
    then show ?thesis unfolding pruned whole pruned_identity pruned_backend by (simp add: mem)
  qed
qed

subsection \<open>What a selection holds\<close>

lemma select_mem:
  assumes "r \<in> set (select_latest_windows parse_ts skey rkey xs)"
  defines "failed \<equiv> invalidated parse_ts skey xs"
  shows "max_by_key (observation_time parse_ts)
           (filter (valid_reading parse_ts skey rkey failed (rkey r @ [qo_window r])) xs) = Some r"
proof -
  let ?m = "fold (window_step parse_ts skey rkey failed) xs []"
  from assms obtain key where "(key, r) \<in> set ?m"
    by (auto simp: select_latest_windows_def)
  then have lookup: "map_of ?m key = Some r" using windows_lookup(1) by (metis omap_mem_iff)
  then have "max_by_key (observation_time parse_ts) (filter (valid_reading parse_ts skey rkey failed key) xs) = Some r"
    by (simp add: windows_lookup(2))
  moreover from max_by_key_greatest [OF this] have "key = rkey r @ [qo_window r]"
    by (auto simp: valid_reading_def)
  ultimately show ?thesis by simp
qed

lemma not_outdated_failed:
  assumes "\<not> outdated parse_ts skey (invalidated parse_ts skey xs) r"
    and "c \<in> set xs" "\<not> is_reading c" "observation_time parse_ts c = Some u"
    and "skey c = skey r" "qo_window c \<in> {None, qo_window r}"
  shows "\<exists>t. observation_time parse_ts r = Some t \<and> u < t"
proof -
  let ?k = "skey r @ [qo_window c]"
  have "failed_check parse_ts skey c = Some (?k, u)"
    using assms(3-5) by (auto simp: failed_check_def is_reading_def is_some_iff)
  with assms(2) obtain v where v: "invalidated parse_ts skey xs ?k = Some v" "u \<le> v"
    unfolding invalidated_def
    by (metis group_max_None_iff group_max_SomeD not_Some_eq)
  with assms(1,6) show ?thesis
    by (auto simp: outdated_def not_le split: option.splits)
qed

text \<open>The windows selected for an execution identity are isolated and valid: with a credential
  binding every window comes from that credential; without one it matches the identity's back end,
  instance and pool, and an explicit instance never inherits an unscoped reading.  Each window is a
  successful reading, later than every failed or empty check of its credential and window (or of the
  whole account), and no valid reading of the same model and window is newer.\<close>

theorem selected_windows_isolated:
  assumes "r \<in> set (latest_windows_for_identity_and_credential parse_ts rs i credential)"
  shows "(case credential of
            Some sid \<Rightarrow> qo_credential_id r = Some sid
          | None \<Rightarrow> observation_matches_identity r i
              \<and> (ei_explicit_instance i \<longrightarrow> qo_backend_instance r \<noteq> None \<or> qo_quota_pool r \<noteq> None))
    \<and> r \<in> set (current_source_records rs) \<and> has_quota_data r \<and> qo_check_error r = None
    \<and> (\<forall>c \<in> set (current_source_records rs).
         serves_identity i credential c \<longrightarrow> qo_check_error c \<noteq> None \<or> \<not> has_quota_data c \<longrightarrow>
         qo_credential_id c = qo_credential_id r \<longrightarrow> qo_window c = None \<or> qo_window c = qo_window r \<longrightarrow>
         (\<forall>u. observation_time parse_ts c = Some u \<longrightarrow> (\<exists>t. observation_time parse_ts r = Some t \<and> u < t)))"
proof -
  let ?xs = "filter (serves_identity i credential) (current_source_records rs)"
  let ?skey = "\<lambda>r. [qo_credential_id r]"
  from select_mem [OF assms [unfolded latest_windows_for_identity_and_credential_def], THEN max_by_key_greatest]
  have r: "r \<in> set ?xs" "is_reading r" "\<not> outdated parse_ts ?skey (invalidated parse_ts ?skey ?xs) r"
    by (auto simp: valid_reading_def)
  have late: "\<exists>t. observation_time parse_ts r = Some t \<and> u < t"
    if "c \<in> set (current_source_records rs)" "serves_identity i credential c" "\<not> is_reading c"
      "qo_credential_id c = qo_credential_id r" "qo_window c = None \<or> qo_window c = qo_window r"
      "observation_time parse_ts c = Some u" for c u
    using not_outdated_failed [OF r(3), of c u] that by auto
  from r(1,2) late show ?thesis
    by (auto simp: serves_identity_def is_reading_def is_some_iff split: option.splits)
qed

text \<open>A removed credential has no windows at all.\<close>

lemma removed_credential_has_no_windows:
  assumes "source_latest rs sid = Some cur" "qo_usage_source cur = Some ''credential_removed''"
  shows "latest_windows_for_identity_and_credential parse_ts rs i (Some sid) = []"
proof -
  have "filter (serves_identity i (Some sid)) (current_source_records rs) = []"
    using assms by (auto simp: filter_empty_conv current_source_records_def serves_identity_def is_current_def)
  then show ?thesis by (simp add: latest_windows_for_identity_and_credential_def select_latest_windows_def)
qed

subsection \<open>Capacity\<close>

lemma capacity_fold:
  assumes "c = fold (capacity_step parse_ts secs now) ws default_capacity"
  shows "(sc_exhausted c \<longrightarrow> (\<exists>r \<in> set ws. fresh_remaining_percent parse_ts now r = Some 0))
    \<and> (sc_known_capacity c \<longrightarrow> (\<exists>r \<in> set ws. \<exists>v. fresh_remaining_percent parse_ts now r = Some v \<and> 0 < v))
    \<and> (sc_reset_pressure c \<noteq> None \<longrightarrow>
         (\<exists>r \<in> set ws. is_some (fresh_remaining_percent parse_ts now r) \<and> window_seconds (qo_window r) \<noteq> None))"
  using assms
proof (induction ws arbitrary: c rule: rev_induct)
  case Nil
  then show ?case by (simp add: default_capacity_def)
next
  case (snoc w ws)
  let ?c = "fold (capacity_step parse_ts secs now) ws default_capacity"
  have c: "c = capacity_step parse_ts secs now w ?c" using snoc.prems by simp
  have pos: "fresh_remaining_percent parse_ts now w = Some v \<Longrightarrow> v \<noteq> 0 \<Longrightarrow> 0 < v" for v
    by (auto simp: fresh_remaining_percent_def split: option.splits if_splits)
  from snoc.IH [OF refl] pos show ?case
    unfolding c capacity_step_def Let_def by (auto split: option.splits)
qed

text \<open>A successful reading of the last thirty minutes, not from the future, with its reset still ahead
  and a percentage in range.\<close>

definition trusted_reading ::
  "(rust_str \<Rightarrow> int option) \<Rightarrow> int \<Rightarrow> quota_observation \<Rightarrow> rat \<Rightarrow> bool" where
  "trusted_reading parse_ts now r v \<longleftrightarrow>
     qo_remaining r = Some v \<and> 0 \<le> v \<and> v \<le> 100 \<and> qo_check_error r = None
     \<and> (\<exists>t. Option.bind (qo_observed_at r) parse_ts = Some t \<and> t \<le> now \<and> now \<le> t + QUOTA_FRESHNESS)
     \<and> (\<forall>t. Option.bind (qo_reset_at r) parse_ts = Some t \<longrightarrow> now < t)"

lemma fresh_is_trusted: "fresh_remaining_percent parse_ts now r = Some v \<Longrightarrow> trusted_reading parse_ts now r v"
  by (auto simp: trusted_reading_def fresh_remaining_percent_def split: option.splits if_splits)

text \<open>Only fresh readings count as capacity: an identity is reported exhausted, known to have
  capacity, or under reset pressure only because of a selected window that was read successfully
  within the last thirty minutes, not in the future, with its reset still ahead and a percentage in
  range; it is zero for exhaustion, positive for known capacity, and of a weekly or monthly window
  for reset pressure.\<close>

theorem capacity_needs_fresh_reading:
  assumes "c = capacity parse_ts secs i records now"
  shows "(sc_exhausted c \<longrightarrow> (\<exists>r \<in> set (latest_windows_for_identity parse_ts records i). trusted_reading parse_ts now r 0))
    \<and> (sc_known_capacity c \<longrightarrow>
         (\<exists>r \<in> set (latest_windows_for_identity parse_ts records i). \<exists>v > 0. trusted_reading parse_ts now r v))
    \<and> (sc_reset_pressure c \<noteq> None \<longrightarrow>
         (\<exists>r \<in> set (latest_windows_for_identity parse_ts records i).
            (\<exists>v. trusted_reading parse_ts now r v) \<and> window_seconds (qo_window r) \<noteq> None))"
  using capacity_fold [OF assms [unfolded capacity_def]] fresh_is_trusted
  unfolding is_some_iff by meson

subsection \<open>External readings\<close>

lemma canonical_backend_idem [simp]: "canonical_backend_name (canonical_backend_name b) = canonical_backend_name b"
  by (simp add: canonical_backend_name_def)

lemma canonical_observation_idem [simp]:
  "canonical_observation (canonical_observation r) = canonical_observation r"
  by (simp add: canonical_observation_def)

lemma first_map_filter_None:
  "first (List.map_filter f xs) = None \<longleftrightarrow> (\<forall>x \<in> set xs. f x = None)"
proof -
  have "List.map_filter f xs = [] \<longleftrightarrow> (\<forall>x \<in> set xs. f x = None)"
    by (induction xs) (auto simp: map_filter_simps split: option.split)
  then show ?thesis by simp
qed

lemma append_labelled:
  assumes "label_error valid (''backend instance'', qo_backend_instance r) = None"
    and "label_error valid (''quota pool'', qo_quota_pool r) = None" and "store \<noteq> Unreadable"
  shows "\<exists>store'. append_record valid store r = Inr store'
    \<and> load_account_observations store' = load_account_observations store @ [canonical_observation r]
    \<and> store' \<noteq> Unreadable"
proof -
  have none: "first (List.map_filter (label_error valid)
      [(''backend instance'', qo_backend_instance r), (''quota pool'', qo_quota_pool r)]) = None"
    using assms(1,2) by (subst first_map_filter_None) simp
  show ?thesis
  proof (cases store)
    case Absent
    with none show ?thesis
      by (simp add: append_record_def append_all_def load_account_observations_def load_def map_filter_simps)
  next
    case (Lines ls)
    with none show ?thesis
      by (simp add: append_record_def append_all_def load_account_observations_def load_def map_filter_simps
          map_filter_append)
  qed (use assms(3) in simp)
qed

text \<open>External readings round trip: an observation accepted from a local collector names an
  instance, a check instant and a source, has percentages in range and parsable instants, no unsafe
  label and no secret in its error text, and appending it to a readable store succeeds and makes it
  the last record that is read back.\<close>

theorem external_reading_roundtrip:
  assumes "parse_external_observation parse_ts redact input = Inr r" and "store \<noteq> Unreadable"
  shows "(\<exists>store'. append_record (validate_operator_label redact) store r = Inr store'
           \<and> load_account_observations store' = load_account_observations store @ [r])
    \<and> qo_backend_instance r \<noteq> None \<and> qo_usage_source r \<noteq> None
    \<and> (\<exists>t. Option.bind (qo_checked_at r) parse_ts = Some t)
    \<and> (\<forall>v. qo_remaining r = Some v \<longrightarrow> 0 \<le> v \<and> v \<le> 100)
    \<and> (has_quota_data r \<longrightarrow> (\<exists>t. Option.bind (qo_observed_at r) parse_ts = Some t))
    \<and> (\<forall>e. qo_check_error r = Some e \<longrightarrow> (\<exists>e'. e = redact e' \<and> length e' \<le> 1024))"
proof -
  from assms(1) obtain raw where
    raw: "external_error parse_ts (validate_operator_label redact) raw = None"
    and r: "r = (let s = canonical_observation (from_raw raw)
                 in s\<lparr> qo_check_error := map_option redact (qo_check_error s) \<rparr>)"
    by (auto simp: parse_external_observation_def Let_def split: external_input.splits if_splits option.splits)
  let ?s = "from_raw raw"
  have fields: "qo_backend_instance r = qo_backend_instance ?s" "qo_quota_pool r = qo_quota_pool ?s"
    "qo_usage_source r = qo_usage_source ?s" "qo_checked_at r = qo_checked_at ?s"
    "qo_remaining r = qo_remaining ?s" "qo_observed_at r = qo_observed_at ?s"
    "has_quota_data r = has_quota_data ?s" "qo_check_error r = map_option redact (qo_check_error ?s)"
    "canonical_observation r = r"
    by (simp_all add: r Let_def canonical_observation_def has_quota_data_def canonical_backend_name_def)
  note ok = raw [unfolded external_error_def Let_def, simplified]
  have labels: "label_error (validate_operator_label redact) (''backend instance'', qo_backend_instance r) = None"
    "label_error (validate_operator_label redact) (''quota pool'', qo_quota_pool r) = None"
    using ok unfolding fields first_None_iff by (auto simp: map_filter_simps split: option.splits)
  from append_labelled [OF labels assms(2)] obtain store' where
    "append_record (validate_operator_label redact) store r = Inr store'"
    "load_account_observations store' = load_account_observations store @ [r]"
    unfolding fields(9) by blast
  moreover have "\<exists>e'. e = redact e' \<and> length e' \<le> 1024" if "qo_check_error r = Some e" for e
    using ok that unfolding fields
    by (auto simp: map_filter_simps text_error_def split: option.splits if_splits)
  moreover have "qo_backend_instance r \<noteq> None" "qo_usage_source r \<noteq> None"
    "\<exists>t. Option.bind (qo_checked_at r) parse_ts = Some t"
    "\<forall>v. qo_remaining r = Some v \<longrightarrow> 0 \<le> v \<and> v \<le> 100"
    "has_quota_data r \<longrightarrow> (\<exists>t. Option.bind (qo_observed_at r) parse_ts = Some t)"
    using ok unfolding fields by (auto simp: in_percent_def is_some_and_iff split: if_splits)
  ultimately show ?thesis by blast
qed

subsection \<open>Checks in flight\<close>

text \<open>
  The scheduler as a transition system: a tick may claim a source, a running check may finish (the
  provider leaves the store in any state and reports any outcome), and other writers may change the
  store.
\<close>

record refresh_world =
  rw_state :: refresh_state
  rw_running :: "(rust_str \<times> rust_str option \<times> rust_str option) list"

abbreviation source_flight_key :: "rust_str \<times> rust_str option \<times> rust_str option \<Rightarrow> rust_str" where
  "source_flight_key s \<equiv> (case s of (b, i, c) \<Rightarrow> in_flight_key b i c)"

inductive refresh_step ::
  "(rust_str \<Rightarrow> int option) \<Rightarrow> (int \<Rightarrow> rust_str option) \<Rightarrow> (rust_str \<Rightarrow> rust_str)
   \<Rightarrow> refresh_world \<Rightarrow> refresh_world \<Rightarrow> bool"
  for parse_ts fmt_ts redact where
  start: "maybe_refresh_source parse_ts (rw_state w) b inst cred now = Some st' \<Longrightarrow>
     refresh_step parse_ts fmt_ts redact w \<lparr> rw_state = st', rw_running = (b, inst, cred) # rw_running w \<rparr>"
| finish: "rw_running w = us @ (b, inst, cred) # vs \<Longrightarrow>
     refresh_step parse_ts fmt_ts redact w
       \<lparr> rw_state = finish_refresh fmt_ts redact (rw_state w) b inst cred now store outcome,
         rw_running = us @ vs \<rparr>"
| other: "refresh_step parse_ts fmt_ts redact w (w\<lparr> rw_state := (rw_state w)\<lparr> rf_file := store \<rparr> \<rparr>)"

inductive refresh_reachable ::
  "(rust_str \<Rightarrow> int option) \<Rightarrow> (int \<Rightarrow> rust_str option) \<Rightarrow> (rust_str \<Rightarrow> rust_str) \<Rightarrow> refresh_world \<Rightarrow> bool"
  for parse_ts fmt_ts redact where
  init: "refresh_reachable parse_ts fmt_ts redact
           \<lparr> rw_state = \<lparr> rf_file = store, rf_in_flight = {} \<rparr>, rw_running = [] \<rparr>"
| step: "refresh_reachable parse_ts fmt_ts redact w \<Longrightarrow> refresh_step parse_ts fmt_ts redact w w' \<Longrightarrow>
     refresh_reachable parse_ts fmt_ts redact w'"

inductive_cases refresh_stepE: "refresh_step parse_ts fmt_ts redact w w'"

definition flights_match :: "refresh_world \<Rightarrow> bool" where
  "flights_match w \<longleftrightarrow>
     rf_in_flight (rw_state w) = source_flight_key ` set (rw_running w)
     \<and> distinct (map source_flight_key (rw_running w))"

lemma refresh_step_preserves:
  assumes "refresh_step parse_ts fmt_ts redact w w'" and "flights_match w"
  shows "flights_match w'"
  using assms(1)
proof cases
  case (start b inst cred now st')
  from start(2) have st': "st' = (rw_state w)\<lparr> rf_in_flight := insert (in_flight_key b inst cred) (rf_in_flight (rw_state w)) \<rparr>"
    "in_flight_key b inst cred \<notin> rf_in_flight (rw_state w)"
    by (auto simp: maybe_refresh_source_def Let_def split: if_splits)
  then show ?thesis using assms(2) unfolding start(1) flights_match_def by simp
next
  case (finish us b inst cred vs now store outcome)
  have "source_flight_key (b, inst, cred) \<notin> source_flight_key ` set (us @ vs)"
    using assms(2) finish(2) by (simp add: flights_match_def image_Un)
  then have "source_flight_key ` set (rw_running w) - {in_flight_key b inst cred} = source_flight_key ` set (us @ vs)"
    unfolding finish(2) by auto
  then show ?thesis
    using assms(2) finish(2) unfolding finish(1) flights_match_def finish_refresh_def by (simp add: Let_def)
next
  case (other store)
  with assms(2) show ?thesis by (simp add: flights_match_def)
qed

text \<open>Checks of one source never overlap: in every reachable state of the scheduler the set in
  flight holds exactly the sources of the running checks, each once, and a tick starts no second
  check of a source that is still running.\<close>

theorem one_check_per_source:
  assumes "refresh_reachable parse_ts fmt_ts redact w"
  shows "rf_in_flight (rw_state w) = source_flight_key ` set (rw_running w)
    \<and> distinct (map source_flight_key (rw_running w))
    \<and> (\<forall>b i c now. (b, i, c) \<in> set (rw_running w) \<longrightarrow>
         maybe_refresh_source parse_ts (rw_state w) b i c now = None)"
proof -
  from assms have "flights_match w"
  proof induction
    case (init store)
    then show ?case by (simp add: flights_match_def)
  qed (rule refresh_step_preserves)
  then show ?thesis
    by (force simp: flights_match_def maybe_refresh_source_def Let_def)
qed

text \<open>A source that gives no reading is left alone for the refresh interval: when an unnamed check
  fails or finds nothing, the marker it stores makes every tick of the next fourteen minutes skip the
  source.\<close>

theorem failed_check_is_throttled:
  assumes "st' = finish_refresh fmt_ts redact st b inst None now store outcome"
    and "\<And>r. outcome \<noteq> Inr (Some r)" and "store \<noteq> Unreadable" and "b \<noteq> ''cloud-coder''"
    and "label_error (validate_operator_label redact) (''backend instance'', inst) = None"
    and "Option.bind (fmt_ts now) parse_ts = Some now" and "now' \<le> now + QUOTA_REFRESH_INTERVAL"
  shows "maybe_refresh_source parse_ts st' b inst None now' = None"
proof -
  define m where "m = refresh_marker b inst (fmt_ts now) (case outcome of Inl e \<Rightarrow> Some (redact e) | Inr _ \<Rightarrow> None)"
  have m: "qo_backend_instance m = inst" "qo_quota_pool m = None" "canonical_observation m = m"
    "qo_backend m = b" "qo_credential_id m = None" "observation_time parse_ts m = Some now"
    using assms(4,6) by (cases "fmt_ts now"; simp add: m_def refresh_marker_def canonical_observation_def
        canonical_backend_name_def observation_time_def)+
  obtain store' where f: "append_record (validate_operator_label redact) store m = Inr store'"
    "load_account_observations store' = load_account_observations store @ [m]"
    using append_labelled [of "validate_operator_label redact" m store] assms(3,5) m
    by (auto simp: label_error_def)
  have "rf_file st' = store'"
    using assms(1,2) f(1) unfolding m_def
    by (cases outcome) (auto simp: finish_refresh_def Let_def split: option.splits)
  moreover have "last_checked parse_ts (xs @ [m]) b inst None
      = max (last_checked parse_ts xs b inst None) (Some now)" for xs
    using m by (simp add: last_checked_def map_filter_simps map_filter_append max.commute)
  ultimately have "last_checked parse_ts (load_account_observations (rf_file st')) b inst None
      = max (last_checked parse_ts (load_account_observations store) b inst None) (Some now)"
    using f(2) by simp
  then obtain t where "last_checked parse_ts (load_account_observations (rf_file st')) b inst None = Some t" "now \<le> t"
    by (cases "last_checked parse_ts (load_account_observations store) b inst None") (auto simp: max_def split: if_splits)
  then have "\<not> refresh_due parse_ts (load_account_observations (rf_file st')) b inst None now'"
    using assms(7) by (simp add: refresh_due_def)
  then show ?thesis by (simp add: maybe_refresh_source_def)
qed

subsection \<open>Examples\<close>

definition sample_reading :: "rust_str \<Rightarrow> rust_str \<Rightarrow> int \<Rightarrow> quota_observation" where
  "sample_reading backend window t =
     \<lparr> qo_backend = backend, qo_credential_id = Some ''k'', qo_backend_instance = None, qo_model = None,
       qo_quota_pool = None, qo_window = Some window, qo_remaining = Some 40, qo_reset_at = None,
       qo_observed_at = Some (ts_fmt t), qo_checked_at = None, qo_check_error = None,
       qo_usage_source = None, qo_account_usage = None \<rparr>"

lemmas quota_eval =
  compact_with_export_def plan_retention_def keeps_def series_max_def group_max_def put_max_def
  source_binding_def source_lifecycle_def source_latest_def is_current_def is_lifecycle_def
  is_reading_def has_quota_data_def invalidates_def observation_time_def series_key_def
  sample_reading_def map_filter_simps load_lines canonical_observation_def canonical_backend_name_def
  latest_windows_for_identity_and_credential_def select_latest_windows_def current_source_records_def
  serves_identity_def window_step_def outdated_def invalidated_def failed_check_def

lemma eval_prune:
  "compact_with_export ts_parse (\<lambda>_. True) 200 50
     (Lines [Some (sample_reading ''codex'' ''7d'' 10), None, Some (sample_reading ''codex'' ''7d'' 20)])
   = Inr (Lines [Some (sample_reading ''codex'' ''7d'' 20)], 2)"
  by (simp add: quota_eval Let_def less_eq_prod_def nths_Cons max_def)

theorem quota_compaction_is_invisible_witness:
  "\<exists>store. compact_with_export ts_parse (\<lambda>_. True) 200 50
     (Lines [Some (sample_reading ''codex'' ''7d'' 10), None, Some (sample_reading ''codex'' ''7d'' 20)])
     = Inr (store, 2)
   \<and> latest_windows_for_identity_and_credential ts_parse (load_account_observations store) codex_id (Some ''k'')
     = latest_windows_for_identity_and_credential ts_parse (load_account_observations
         (Lines [Some (sample_reading ''codex'' ''7d'' 10), None, Some (sample_reading ''codex'' ''7d'' 20)]))
         codex_id (Some ''k'')"
  using quota_compaction_is_invisible [OF eval_prune, of codex_id "Some ''k''"] eval_prune
  by (force simp: sample_reading_def)

lemma eval_prune_alias:
  "compact_with_export ts_parse (\<lambda>_. True) 200 50
     (Lines [Some (sample_reading ''cloud-coder'' ''5h'' 10), Some (sample_reading ''openhands'' ''7d'' 20)])
   = Inr (Lines [Some (sample_reading ''openhands'' ''7d'' 20)], 1)"
  by (simp add: quota_eval Let_def less_eq_prod_def nths_Cons max_def)

text \<open>With a record under the legacy alias pruning is visible: the plan compares the stored back end
  names while the readers compare the canonical ones, so a window read as current before is dropped
  as belonging to a retired binding.\<close>

theorem quota_compaction_forgets_alias:
  "\<exists>store. compact_with_export ts_parse (\<lambda>_. True) 200 50
     (Lines [Some (sample_reading ''cloud-coder'' ''5h'' 10), Some (sample_reading ''openhands'' ''7d'' 20)])
     = Inr (store, 1)
   \<and> map qo_window (latest_windows_for_identity_and_credential ts_parse
       (load_account_observations (Lines [Some (sample_reading ''cloud-coder'' ''5h'' 10),
          Some (sample_reading ''openhands'' ''7d'' 20)])) i (Some ''k'')) = [Some ''5h'', Some ''7d'']
   \<and> map qo_window (latest_windows_for_identity_and_credential ts_parse
       (load_account_observations store) i (Some ''k'')) = [Some ''7d'']"
proof (intro exI conjI)
  show "compact_with_export ts_parse (\<lambda>_. True) 200 50
     (Lines [Some (sample_reading ''cloud-coder'' ''5h'' 10), Some (sample_reading ''openhands'' ''7d'' 20)])
     = Inr (Lines [Some (sample_reading ''openhands'' ''7d'' 20)], 1)" by (rule eval_prune_alias)
qed (simp_all add: quota_eval Let_def)

theorem selected_windows_isolated_witness:
  "sample_reading ''codex'' ''7d'' 20
     \<in> set (latest_windows_for_identity_and_credential ts_parse
            [sample_reading ''codex'' ''7d'' 10, sample_reading ''codex'' ''7d'' 20] codex_id (Some ''k''))
   \<and> qo_credential_id (sample_reading ''codex'' ''7d'' 20) = Some ''k''"
proof -
  have "sample_reading ''codex'' ''7d'' 20
     \<in> set (latest_windows_for_identity_and_credential ts_parse
            [sample_reading ''codex'' ''7d'' 10, sample_reading ''codex'' ''7d'' 20] codex_id (Some ''k''))"
    by (simp add: quota_eval Let_def)
  with selected_windows_isolated [OF this] show ?thesis by simp
qed

definition metered_id :: execution_identity where
  "metered_id = codex_id\<lparr> ei_credential_id := Some ''k'' \<rparr>"

theorem capacity_needs_fresh_reading_witness:
  "sc_known_capacity (capacity ts_parse of_int metered_id [sample_reading ''codex'' ''7d'' 10] 10)
   \<and> (\<exists>r \<in> set (latest_windows_for_identity ts_parse [sample_reading ''codex'' ''7d'' 10] metered_id).
        \<exists>v > 0. trusted_reading ts_parse 10 r v)"
proof -
  have "sc_known_capacity (capacity ts_parse of_int metered_id [sample_reading ''codex'' ''7d'' 10] 10)"
    by (simp add: quota_eval capacity_def capacity_step_def latest_windows_for_identity_def metered_id_def
        codex_id_def legacy_candidate_def legacy_route_def fresh_remaining_percent_def QUOTA_FRESHNESS_def
        window_seconds_def Let_def)
  with capacity_needs_fresh_reading [OF refl] show ?thesis by blast
qed

definition sample_input :: external_input where
  "sample_input = Fields [''backend'', ''checked_at'']
     (Some (quota_observation.extend
        ((sample_reading ''codex'' ''7d'' 10)\<lparr> qo_backend_instance := Some ''codex'', qo_checked_at := Some (ts_fmt 10),
           qo_usage_source := Some ''local'' \<rparr>) (quota_observation_raw.fields None)))"

theorem external_reading_roundtrip_witness:
  "\<exists>r store. parse_external_observation ts_parse id sample_input = Inr r
     \<and> append_record (validate_operator_label id) Absent r = Inr store
     \<and> load_account_observations store = [r]"
proof -
  have label: "validate_operator_label id ''codex'' = Some ''codex''" "validate_operator_label id ''k'' = Some ''k''"
    "validate_operator_label id ''local'' = Some ''local''"
    by (simp_all add: validate_operator_label_def Let_def trim_def trim_end_def ws1_def ws2_def ws3_def)
  obtain r where r: "parse_external_observation ts_parse id sample_input = Inr r"
    by (simp add: parse_external_observation_def sample_input_def external_fields_def external_error_def Let_def
        sample_reading_def from_raw_def quota_observation.defs quota_observation_raw.defs label_error_def
        text_error_def map_filter_simps in_percent_def has_quota_data_def label)
  from external_reading_roundtrip [OF this, of Absent] obtain store where
    "append_record (validate_operator_label id) Absent r = Inr store"
    "load_account_observations store = load_account_observations Absent @ [r]" by blast
  with r show ?thesis by (force simp: load_account_observations_def load_def)
qed

definition idle_scheduler :: refresh_world where
  "idle_scheduler = \<lparr> rw_state = \<lparr> rf_file = Absent, rf_in_flight = {} \<rparr>, rw_running = [] \<rparr>"

theorem one_check_per_source_witness:
  "\<exists>w. refresh_reachable ts_parse (\<lambda>t. Some (ts_fmt t)) id w \<and> rw_running w = [(''codex'', None, None)]
     \<and> maybe_refresh_source ts_parse (rw_state w) ''codex'' None None 5 = None"
proof -
  let ?w = "\<lparr> rw_state = \<lparr> rf_file = Absent, rf_in_flight = {in_flight_key ''codex'' None None} \<rparr>,
              rw_running = [(''codex'', None, None)] \<rparr>"
  have "maybe_refresh_source ts_parse (rw_state idle_scheduler) ''codex'' None None 0 = Some (rw_state ?w)"
    by (simp add: maybe_refresh_source_def idle_scheduler_def load_account_observations_def load_def
        refresh_due_def last_checked_def map_filter_simps)
  from refresh_step.start [OF this]
  have "refresh_step ts_parse (\<lambda>t. Some (ts_fmt t)) id idle_scheduler ?w"
    by (simp add: idle_scheduler_def)
  then have w: "refresh_reachable ts_parse (\<lambda>t. Some (ts_fmt t)) id ?w"
    using refresh_reachable.init refresh_reachable.step unfolding idle_scheduler_def by blast
  moreover have "(''codex'', None, None) \<in> set (rw_running ?w)" by simp
  with one_check_per_source [OF w] have "maybe_refresh_source ts_parse (rw_state ?w) ''codex'' None None 5 = None"
    by blast
  ultimately show ?thesis by (intro exI [of _ ?w]) simp
qed

theorem failed_check_is_throttled_witness:
  "maybe_refresh_source ts_parse
     (finish_refresh (\<lambda>t. Some (ts_fmt t)) id (rw_state idle_scheduler) ''codex'' None None 0 Absent (Inr None))
     ''codex'' None None 1 = None"
proof (rule failed_check_is_throttled [where fmt_ts = "\<lambda>t. Some (ts_fmt t)" and redact = id and now = 0
      and store = Absent and outcome = "Inr None" and st = "rw_state idle_scheduler"])
qed (simp_all add: label_error_def QUOTA_REFRESH_INTERVAL_def)

end
