(* ===== verification/Work_Claim.thy ===== *)
theory Work_Claim
  imports Ordered_Map
begin

text \<open>
  Work claims (\<open>src/work_claim.rs\<close>): the file that says which process works on which item.  Every
  operation runs under one exclusive file lock, so an interleaving of processes is a sequence of
  operations, each in its own environment: the caller's process id and host, the clock and the
  processes alive on its host.

  A \<open>HashMap\<close> is an ordered map; the code uses its iteration order only for listings.  JSON and the
  atomic rename are not modelled.
\<close>

subsection \<open>Work identities\<close>

definition all_digits :: "rust_str \<Rightarrow> bool" where
  "all_digits s = list_all is_ascii_digit s"

definition number_identity :: "rust_str \<Rightarrow> rust_str" where
  "number_identity s =
     (let digits = dropWhile (\<lambda>c. c = CHR ''0'') s in CHR ''#'' # (if digits = [] then ''0'' else digits))"

definition normalize_work_identity :: "rust_str \<Rightarrow> rust_str" where
  "normalize_work_identity work_id =
     (let trimmed = trim work_id
      in if trimmed = [] then []
         else let candidate = unwrap_or (opt_or (strip_prefix ''TICKET-'' trimmed) (strip_prefix ''#'' trimmed)) trimmed
              in if candidate \<noteq> [] \<and> all_digits candidate then number_identity candidate
                 else if all_digits trimmed then number_identity trimmed
                 else trimmed)"

definition canonical_claim_scope :: "rust_str \<Rightarrow> rust_str \<Rightarrow> rust_str" where
  "canonical_claim_scope profile_name repo_id = profile_name @ ''@'' @ repo_id"

subsection \<open>Claims\<close>

record claim_route =
  cr_backend :: rust_str
  cr_backend_instance :: rust_str
  cr_model :: "rust_str option"

record work_claim =
  wc_work_id :: rust_str
  wc_pid :: nat
  wc_hostname :: rust_str
  wc_claimed_at :: int
  wc_manual_worker :: bool
  wc_route :: "claim_route option"

datatype work_claim_state_entry = V1 rust_str | V2 work_claim

record work_claim_state =
  ws_version :: nat
  ws_claims :: "(rust_str \<times> work_claim_state_entry list) list"

text \<open>The caller of an operation.\<close>

record claim_env =
  ce_host :: rust_str
  ce_pid :: nat
  ce_now :: int
  ce_alive :: "nat \<Rightarrow> bool"

definition CLAIM_MAX_AGE_SECS :: nat where "CLAIM_MAX_AGE_SECS = 3600"

text \<open>\<open>num_seconds\<close> truncates towards zero; instants are nanoseconds.\<close>

definition num_seconds :: "int \<Rightarrow> int" where
  "num_seconds d = (if d < 0 then - ((- d) div 1000000000) else d div 1000000000)"

definition is_stale :: "claim_env \<Rightarrow> nat \<Rightarrow> work_claim \<Rightarrow> bool" where
  "is_stale env max_age_secs c =
     (let age = num_seconds (ce_now env - wc_claimed_at c);
          too_old = int (min max_age_secs (2 ^ 63 - 1)) < age;
          remote = (wc_hostname c \<noteq> ce_host env)
      in if wc_manual_worker c \<and> remote then wc_pid c = 0 \<or> too_old
         else if wc_pid c = 0 \<or> \<not> ce_alive env (wc_pid c) then True
         else remote \<and> too_old)"

record claim_detail =
  cd_work_id :: rust_str
  cd_pid :: nat
  cd_hostname :: rust_str
  cd_claimed_at :: int
  cd_is_stale :: bool
  cd_route :: "claim_route option"

fun entry_detail :: "claim_env \<Rightarrow> work_claim_state_entry \<Rightarrow> claim_detail" where
  "entry_detail env (V1 i) =
     \<lparr> cd_work_id = normalize_work_identity i, cd_pid = 0, cd_hostname = ''unknown'',
       cd_claimed_at = ce_now env, cd_is_stale = True, cd_route = None \<rparr>"
| "entry_detail env (V2 c) =
     \<lparr> cd_work_id = normalize_work_identity (wc_work_id c), cd_pid = wc_pid c,
       cd_hostname = wc_hostname c, cd_claimed_at = wc_claimed_at c,
       cd_is_stale = is_stale env CLAIM_MAX_AGE_SECS c, cd_route = wc_route c \<rparr>"

fun entry_id :: "work_claim_state_entry \<Rightarrow> rust_str" where
  "entry_id (V1 i) = normalize_work_identity i"
| "entry_id (V2 c) = normalize_work_identity (wc_work_id c)"

subsection \<open>The claim state\<close>

definition new_state :: work_claim_state where
  "new_state = \<lparr> ws_version = 2, ws_claims = [] \<rparr>"

definition migrated_claim :: "claim_env \<Rightarrow> rust_str \<Rightarrow> work_claim" where
  "migrated_claim env i =
     \<lparr> wc_work_id = i, wc_pid = 0, wc_hostname = ''unknown'', wc_claimed_at = ce_now env,
       wc_manual_worker = False, wc_route = None \<rparr>"

fun v1_ids :: "work_claim_state_entry list \<Rightarrow> rust_str list option" where
  "v1_ids [] = Some []"
| "v1_ids (V1 i # es) = map_option (Cons i) (v1_ids es)"
| "v1_ids (V2 _ # es) = None"

text \<open>The map is re-read as lists of strings; one entry of another shape makes the whole map empty.\<close>

definition migrate_from_v1 :: "claim_env \<Rightarrow> work_claim_state \<Rightarrow> work_claim_state" where
  "migrate_from_v1 env s =
     (if ws_version s = 1
      then \<lparr> ws_version = 2,
             ws_claims = (if list_all (\<lambda>(_, es). is_some (v1_ids es)) (ws_claims s)
                          then map (\<lambda>(p, es). (p, map (\<lambda>i. V2 (migrated_claim env i)) (unwrap_or (v1_ids es) [])))
                                 (ws_claims s)
                          else []) \<rparr>
      else s)"

definition ensure_v2 :: "claim_env \<Rightarrow> work_claim_state \<Rightarrow> work_claim_state" where
  "ensure_v2 env s = (if ws_version s < 2 then migrate_from_v1 env s else s)"

definition claims_of :: "work_claim_state \<Rightarrow> rust_str \<Rightarrow> work_claim_state_entry list" where
  "claims_of s profile = unwrap_or (map_of (ws_claims s) profile) []"

text \<open>\<open>get_mut\<close>: change the entries of a profile that is present.\<close>

definition update_claims ::
  "(work_claim_state_entry list \<Rightarrow> work_claim_state_entry list) \<Rightarrow> rust_str \<Rightarrow> work_claim_state
   \<Rightarrow> work_claim_state" where
  "update_claims f profile s =
     (case map_of (ws_claims s) profile of
        None \<Rightarrow> s
      | Some es \<Rightarrow> s\<lparr> ws_claims := omap_put profile (f es) (ws_claims s) \<rparr>)"

definition own_claim :: "claim_env \<Rightarrow> rust_str \<Rightarrow> bool \<Rightarrow> work_claim" where
  "own_claim env work_id manual_worker =
     \<lparr> wc_work_id = normalize_work_identity work_id, wc_pid = ce_pid env, wc_hostname = ce_host env,
       wc_claimed_at = ce_now env, wc_manual_worker = manual_worker, wc_route = None \<rparr>"

definition claim_with_mode ::
  "claim_env \<Rightarrow> rust_str \<Rightarrow> rust_str \<Rightarrow> bool \<Rightarrow> work_claim_state \<Rightarrow> work_claim_state" where
  "claim_with_mode env profile work_id manual_worker s0 =
     (let s = ensure_v2 env s0
      in s\<lparr> ws_claims := omap_put profile (claims_of s profile @ [V2 (own_claim env work_id manual_worker)])
                            (ws_claims s) \<rparr>)"

fun routed :: "rust_str \<Rightarrow> claim_route \<Rightarrow> work_claim_state_entry \<Rightarrow> work_claim_state_entry" where
  "routed i route (V1 j) = V1 j"
| "routed i route (V2 c) =
     (if normalize_work_identity (wc_work_id c) = i then V2 (c\<lparr> wc_route := Some route \<rparr>) else V2 c)"

definition set_route :: "rust_str \<Rightarrow> rust_str \<Rightarrow> claim_route \<Rightarrow> work_claim_state \<Rightarrow> work_claim_state" where
  "set_route profile work_id route s =
     update_claims (map (routed (normalize_work_identity work_id) route)) profile s"

definition release :: "claim_env \<Rightarrow> rust_str \<Rightarrow> rust_str \<Rightarrow> work_claim_state \<Rightarrow> work_claim_state" where
  "release env profile work_id s =
     update_claims (filter (\<lambda>e. entry_id e \<noteq> normalize_work_identity work_id)) profile (ensure_v2 env s)"

fun owned_by :: "nat \<Rightarrow> rust_str \<Rightarrow> rust_str option \<Rightarrow> work_claim_state_entry \<Rightarrow> bool" where
  "owned_by pid host i (V1 _) = False"
| "owned_by pid host i (V2 c) =
     (wc_pid c = pid \<and> wc_hostname c = host
      \<and> \<not> is_some_and i (\<lambda>w. normalize_work_identity (wc_work_id c) \<noteq> w))"

definition release_owned ::
  "rust_str \<Rightarrow> rust_str option \<Rightarrow> nat \<Rightarrow> rust_str \<Rightarrow> work_claim_state \<Rightarrow> work_claim_state" where
  "release_owned profile work_id pid host s =
     update_claims (filter (\<lambda>e. \<not> owned_by pid host (map_option normalize_work_identity work_id) e)) profile s"

definition get_claimed :: "work_claim_state \<Rightarrow> rust_str \<Rightarrow> rust_str list" where
  "get_claimed s profile = map entry_id (claims_of s profile)"

definition state_is_claimed :: "work_claim_state \<Rightarrow> rust_str \<Rightarrow> rust_str \<Rightarrow> bool" where
  "state_is_claimed s profile work_id =
     list_ex (\<lambda>e. entry_id e = normalize_work_identity work_id) (claims_of s profile)"

fun first_stale :: "claim_env \<Rightarrow> nat \<Rightarrow> rust_str \<Rightarrow> work_claim_state_entry list \<Rightarrow> bool" where
  "first_stale env max_age i [] = False"
| "first_stale env max_age i (V1 _ # es) = True"
| "first_stale env max_age i (V2 c # es) =
     (if normalize_work_identity (wc_work_id c) = i then is_stale env max_age c
      else first_stale env max_age i es)"

definition is_claim_stale :: "claim_env \<Rightarrow> work_claim_state \<Rightarrow> rust_str \<Rightarrow> rust_str \<Rightarrow> nat \<Rightarrow> bool" where
  "is_claim_stale env s profile work_id max_age =
     first_stale env max_age (normalize_work_identity work_id) (claims_of s profile)"

fun entry_stale :: "claim_env \<Rightarrow> nat \<Rightarrow> work_claim_state_entry \<Rightarrow> bool" where
  "entry_stale env max_age (V1 _) = True"
| "entry_stale env max_age (V2 c) = is_stale env max_age c"

fun stored_v2_id :: "work_claim_state_entry \<Rightarrow> rust_str option" where
  "stored_v2_id (V1 _) = None"
| "stored_v2_id (V2 c) = Some (wc_work_id c)"

definition reclaim_stale_claims ::
  "claim_env \<Rightarrow> rust_str \<Rightarrow> nat \<Rightarrow> work_claim_state \<Rightarrow> work_claim_state \<times> rust_str list" where
  "reclaim_stale_claims env profile max_age s0 =
     (let s = ensure_v2 env s0
      in (update_claims (filter (\<lambda>e. \<not> entry_stale env max_age e)) profile s,
          List.map_filter stored_v2_id (filter (entry_stale env max_age) (claims_of s profile))))"

definition get_claims_with_details :: "claim_env \<Rightarrow> work_claim_state \<Rightarrow> rust_str \<Rightarrow> claim_detail list" where
  "get_claims_with_details env s profile = map (entry_detail env) (claims_of s profile)"

subsection \<open>The claim file\<close>

datatype claim_error = UnreadableClaims | AdmissionFailed | NodeBusy

datatype claim_file = NoClaims | BadClaims | Claims work_claim_state

definition load_claims :: "claim_file \<Rightarrow> (claim_error, work_claim_state) rust_result" where
  "load_claims f = (case f of NoClaims \<Rightarrow> Inr new_state | BadClaims \<Rightarrow> Inl UnreadableClaims | Claims s \<Rightarrow> Inr s)"

text \<open>The file changes only when the update succeeds.\<close>

definition with_locked_state ::
  "(work_claim_state \<Rightarrow> (claim_error, work_claim_state \<times> 'a) rust_result) \<Rightarrow> claim_file
   \<Rightarrow> claim_file \<times> (claim_error, 'a) rust_result" where
  "with_locked_state update f =
     (case load_claims f of
        Inl e \<Rightarrow> (f, Inl e)
      | Inr s \<Rightarrow> (case update s of Inl e \<Rightarrow> (f, Inl e) | Inr (s', v) \<Rightarrow> (Claims s', Inr v)))"

definition ensure_node_idle :: "claim_env \<Rightarrow> claim_file \<Rightarrow> claim_file \<times> (claim_error, unit) rust_result" where
  "ensure_node_idle env =
     with_locked_state (\<lambda>s.
       if list_ex (\<lambda>e. \<not> cd_is_stale (entry_detail env e)) (concat (map snd (ws_claims s)))
       then Inl NodeBusy else Inr (s, ()))"

text \<open>\<open>admission\<close> is the outcome of the maintenance gate: an error, closed, or open.\<close>

definition try_claim_with_mode ::
  "claim_env \<Rightarrow> (claim_error, bool) rust_result \<Rightarrow> rust_str \<Rightarrow> rust_str \<Rightarrow> bool \<Rightarrow> claim_file
   \<Rightarrow> claim_file \<times> (claim_error, bool) rust_result" where
  "try_claim_with_mode env admission profile work_id manual_worker f =
     (case admission of
        Inl e \<Rightarrow> (f, Inl e)
      | Inr open_gate \<Rightarrow>
          if \<not> open_gate then (f, Inr False)
          else with_locked_state (\<lambda>s0.
                 let s = ensure_v2 env s0
                 in if state_is_claimed s profile work_id
                    then (if is_claim_stale env s profile work_id CLAIM_MAX_AGE_SECS
                          then Inr (claim_with_mode env profile work_id manual_worker
                                      (release env profile work_id s), True)
                          else Inr (s, False))
                    else Inr (claim_with_mode env profile work_id manual_worker s, True)) f)"

definition live_manual_work_ids ::
  "claim_env \<Rightarrow> rust_str \<Rightarrow> claim_file \<Rightarrow> claim_file \<times> (claim_error, rust_str set) rust_result" where
  "live_manual_work_ids env profile =
     with_locked_state (\<lambda>s. Inr (s, set (List.map_filter
       (\<lambda>e. case e of
              V2 c \<Rightarrow> if wc_manual_worker c \<and> \<not> is_stale env CLAIM_MAX_AGE_SECS c
                      then Some (normalize_work_identity (wc_work_id c)) else None
            | V1 _ \<Rightarrow> None) (claims_of s profile))))"

definition record_route ::
  "rust_str \<Rightarrow> rust_str \<Rightarrow> claim_route \<Rightarrow> claim_file \<Rightarrow> claim_file \<times> (claim_error, unit) rust_result" where
  "record_route profile work_id route = with_locked_state (\<lambda>s. Inr (set_route profile work_id route s, ()))"

definition release_all_for_profile ::
  "rust_str \<Rightarrow> claim_file \<Rightarrow> claim_file \<times> (claim_error, unit) rust_result" where
  "release_all_for_profile profile =
     with_locked_state (\<lambda>s. Inr (s\<lparr> ws_claims := filter (\<lambda>(p, _). p \<noteq> profile) (ws_claims s) \<rparr>, ()))"

definition release_owned_claims ::
  "claim_env \<Rightarrow> rust_str \<Rightarrow> rust_str option \<Rightarrow> claim_file \<Rightarrow> claim_file \<times> (claim_error, unit) rust_result" where
  "release_owned_claims env profile work_id =
     with_locked_state (\<lambda>s. Inr (release_owned profile work_id (ce_pid env) (ce_host env) s, ()))"

definition get_claimed_work_ids ::
  "claim_env \<Rightarrow> rust_str \<Rightarrow> claim_file \<Rightarrow> claim_file \<times> (claim_error, rust_str list) rust_result" where
  "get_claimed_work_ids env profile =
     with_locked_state (\<lambda>s. Inr (s, map cd_work_id (filter (\<lambda>d. \<not> cd_is_stale d)
                                      (get_claims_with_details env s profile))))"

definition claim_details_for_profile ::
  "claim_env \<Rightarrow> rust_str \<Rightarrow> claim_file \<Rightarrow> claim_file \<times> (claim_error, claim_detail list) rust_result" where
  "claim_details_for_profile env profile = with_locked_state (\<lambda>s. Inr (s, get_claims_with_details env s profile))"

definition is_claimed ::
  "rust_str \<Rightarrow> rust_str \<Rightarrow> claim_file \<Rightarrow> claim_file \<times> (claim_error, bool) rust_result" where
  "is_claimed profile work_id = with_locked_state (\<lambda>s. Inr (s, state_is_claimed s profile work_id))"

fun stored_id :: "work_claim_state_entry \<Rightarrow> rust_str" where
  "stored_id (V1 i) = i"
| "stored_id (V2 c) = wc_work_id c"

text \<open>The data of the listing: one scope with normalised identities, or every scope with the
  identities as stored.\<close>

definition handle_claims_list ::
  "claim_env \<Rightarrow> rust_str option \<Rightarrow> claim_file
   \<Rightarrow> claim_file \<times> (claim_error, (rust_str \<times> claim_detail) list) rust_result" where
  "handle_claims_list env profile =
     with_locked_state (\<lambda>s0.
       let s = ensure_v2 env s0
       in Inr (s, case profile of
                    Some p \<Rightarrow> map (Pair p) (get_claims_with_details env s p)
                  | None \<Rightarrow> concat (map (\<lambda>(p, es). map (\<lambda>e. (p, (entry_detail env e)\<lparr> cd_work_id := stored_id e \<rparr>)) es)
                                        (ws_claims s))))"

definition handle_claims_clear ::
  "claim_env \<Rightarrow> rust_str \<Rightarrow> rust_str \<Rightarrow> claim_file \<Rightarrow> claim_file \<times> (claim_error, unit) rust_result" where
  "handle_claims_clear env profile work_id =
     with_locked_state (\<lambda>s. Inr (release env profile work_id (ensure_v2 env s), ()))"

definition handle_claims_reclaim ::
  "claim_env \<Rightarrow> rust_str \<Rightarrow> nat \<Rightarrow> claim_file \<Rightarrow> claim_file \<times> (claim_error, rust_str list) rust_result" where
  "handle_claims_reclaim env profile max_age =
     with_locked_state (\<lambda>s. Inr (reclaim_stale_claims env profile max_age (ensure_v2 env s)))"

end
