(* ===== verification/Work_Claim_Props.thy ===== *)
theory Work_Claim_Props
  imports Work_Claim
begin

text \<open>
  Properties of work claims: identities normalise, every reachable claim file holds at most one claim
  per item, and a claim is granted exactly when no active claim exists.
\<close>

subsection \<open>Identities\<close>

lemma trim_start_prefix:
  assumes "trim_start (p @ q) = p @ q"
  shows "trim_start p = p"
proof (cases p rule: trim_start.cases)
  case (1 a b c s)
  have "length (trim_start t) \<le> length t" for t by (induction t rule: trim_start.induct) auto
  from this [of "b # c # s @ q"] this [of "c # s @ q"] this [of "s @ q"] assms 1 show ?thesis
    by (auto split: if_splits)
next
  case (2 a b)
  have "length (trim_start t) \<le> length t" for t by (induction t rule: trim_start.induct) auto
  from this [of "b # q"] this [of q] this [of "tl q"] assms 2 show ?thesis
    by (cases q) (auto split: if_splits)
next
  case (3 a)
  have "length (trim_start t) \<le> length t" for t by (induction t rule: trim_start.induct) auto
  from this [of q] assms 3 show ?thesis
    by (cases q rule: trim_start.cases) (auto split: if_splits)
qed simp

lemma trim_start_idem [simp]: "trim_start (trim_start s) = trim_start s"
  by (induction s rule: trim_start.induct) auto

lemma trim_rev_idem [simp]: "trim_rev (trim_rev s) = trim_rev s"
  by (induction s rule: trim_rev.induct) auto

lemma trim_rev_suffix: "\<exists>u. s = u @ trim_rev s"
proof (induction s rule: trim_rev.induct)
  case (1 a b c s)
  then show ?case by (auto; metis append_Cons)
qed auto

lemma trim_idem [simp]: "trim (trim s) = trim s"
proof -
  obtain u where "rev (trim_start s) = u @ trim_rev (rev (trim_start s))" using trim_rev_suffix by blast
  then have "trim_start s = trim s @ rev u"
    unfolding trim_def trim_end_def by (metis rev_append rev_rev_ident)
  then have "trim_start (trim s) = trim s"
    using trim_start_prefix [of "trim s" "rev u"] trim_start_idem [of s] by simp
  then show ?thesis by (simp add: trim_def trim_end_def)
qed

lemma number_identity_digits:
  assumes "all_digits s"
  obtains d where "number_identity s = CHR ''#'' # d" "d \<noteq> []" "all_digits d" "number_identity d = CHR ''#'' # d"
proof -
  define d where "d = dropWhile (\<lambda>c. c = CHR ''0'') s"
  have d: "list_all is_ascii_digit d"
    using assms set_dropWhileD unfolding d_def all_digits_def list_all_iff by metis
  have idem: "dropWhile (\<lambda>c. c = CHR ''0'') d = d"
    unfolding d_def by (induction s) auto
  show thesis
  proof (cases "d = []")
    case True
    then show thesis
      by (intro that [of "''0''"]) (simp_all add: number_identity_def all_digits_def is_ascii_digit_def flip: d_def)
  next
    case False
    then show thesis
      using d by (intro that [of d]) (simp_all add: number_identity_def all_digits_def idem flip: d_def)
  qed
qed

lemma digit_is_solid: "is_ascii_digit c \<Longrightarrow> ascii_solid c"
  by (simp add: is_ascii_digit_def ascii_solid_def)

lemma normalize_number:
  assumes "all_digits s" "s \<noteq> []"
  shows "normalize_work_identity (CHR ''#'' # s) = number_identity s"
    and "normalize_work_identity s = number_identity s"
    and "normalize_work_identity (''TICKET-'' @ s) = number_identity s"
proof -
  have solid: "ascii_solid (last s)" "ascii_solid (hd s)"
    using assms by (auto simp: all_digits_def list_all_iff intro!: digit_is_solid)
  have t: "trim (CHR ''#'' # s) = CHR ''#'' # s" "trim s = s" "trim (''TICKET-'' @ s) = ''TICKET-'' @ s"
    using solid assms by (auto intro!: trim_solid simp: ascii_solid_def)
  obtain c cs where s: "s = c # cs" and c: "is_ascii_digit c"
    using assms by (cases s) (auto simp: all_digits_def)
  have nc: "c \<noteq> CHR ''#''" "c \<noteq> CHR ''T''" using c by (auto simp: is_ascii_digit_def)
  show "normalize_work_identity (CHR ''#'' # s) = number_identity s"
    using assms by (simp add: normalize_work_identity_def t)
  show "normalize_work_identity s = number_identity s"
    using assms nc by (simp add: normalize_work_identity_def t(2)) (simp add: s)
  show "normalize_work_identity (''TICKET-'' @ s) = number_identity s"
    using assms t(3) by (simp add: normalize_work_identity_def)
qed

lemma normalize_idem [simp]: "normalize_work_identity (normalize_work_identity w) = normalize_work_identity w"
proof -
  have num: "normalize_work_identity (number_identity s) = number_identity s" if "all_digits s" for s
    using number_identity_digits [OF that] normalize_number(1) by metis
  show ?thesis
  proof (cases "normalize_work_identity w = trim w")
    case True
    then show ?thesis by (simp add: normalize_work_identity_def)
  next
    case False
    then obtain s where "all_digits s" "normalize_work_identity w = number_identity s"
      by (auto simp: normalize_work_identity_def Let_def split: if_splits)
    then show ?thesis using num by simp
  qed
qed

lemma number_identity_nat_str: "number_identity (replicate k CHR ''0'' @ nat_str n) = CHR ''#'' # nat_str n"
proof -
  have zeros: "dropWhile (\<lambda>c. c = CHR ''0'') (replicate k CHR ''0'' @ t) = dropWhile (\<lambda>c. c = CHR ''0'') t" for t
    by (induction k) auto
  show ?thesis
  proof (cases "n = 0")
    case True
    have "nat_str 0 = ''0''" by (simp add: nat_str.simps digit_char_def char_of_def bit_0)
    with True show ?thesis by (simp add: number_identity_def zeros)
  next
    case False
    have "hd (nat_str n) \<noteq> CHR ''0''" using False
    proof (induction n rule: nat_str.induct)
      case (1 n)
      show ?case
      proof (cases "n < 10")
        case True
        then have "byte (digit_char n) = 48 + n" by (rule digit_char_byte)
        moreover have "byte (CHR ''0'') = 48" by simp
        ultimately have "digit_char n \<noteq> CHR ''0''" using 1(2) by (metis add_cancel_right_right)
        with True show ?thesis by (simp add: nat_str.simps)
      next
        case False
        then have "hd (nat_str (n div 10)) \<noteq> CHR ''0''" using 1(1) by simp
        with False show ?thesis by (subst nat_str.simps) (simp add: hd_append)
      qed
    qed
    then have "dropWhile (\<lambda>c. c = CHR ''0'') (nat_str n) = nat_str n"
      by (cases "nat_str n") auto
    then show ?thesis by (simp add: number_identity_def zeros)
  qed
qed

subsection \<open>Well-formed claim states\<close>

fun is_v2 :: "work_claim_state_entry \<Rightarrow> bool" where
  "is_v2 (V1 _) = False"
| "is_v2 (V2 _) = True"

text \<open>The current format, and at most one claim per item and scope.\<close>

definition unique_claims :: "work_claim_state_entry list \<Rightarrow> bool" where
  "unique_claims es \<longleftrightarrow> list_all is_v2 es \<and> distinct (map entry_id es)"

definition claims_ok :: "work_claim_state \<Rightarrow> bool" where
  "claims_ok s \<longleftrightarrow> ws_version s = 2 \<and> (\<forall>(p, es) \<in> set (ws_claims s). unique_claims es)"

lemma claims_ok_v2 [simp]: "claims_ok s \<Longrightarrow> ensure_v2 env s = s"
  by (simp add: claims_ok_def ensure_v2_def)

lemma claims_ok_of: "claims_ok s \<Longrightarrow> unique_claims (claims_of s p)"
  by (cases "map_of (ws_claims s) p")
    (auto simp: claims_ok_def claims_of_def unique_claims_def dest!: map_of_SomeD)

lemma omap_put_set: "x \<in> set (omap_put k v m) \<Longrightarrow> x = (k, v) \<or> x \<in> set m"
  by (induction k v m rule: omap_put.induct) (auto split: if_splits)

lemma claims_ok_put:
  "claims_ok s \<Longrightarrow> unique_claims es \<Longrightarrow> claims_ok (s\<lparr> ws_claims := omap_put p es (ws_claims s) \<rparr>)"
  by (fastforce simp: claims_ok_def dest: omap_put_set)

lemma claims_ok_update:
  assumes "claims_ok s" "\<And>es. unique_claims es \<Longrightarrow> unique_claims (f es)"
  shows "claims_ok (update_claims f p s)"
proof (cases "map_of (ws_claims s) p")
  case (Some es)
  then have "unique_claims es" using claims_ok_of [OF assms(1), of p] by (simp add: claims_of_def)
  with Some assms show ?thesis by (simp add: update_claims_def claims_ok_put)
qed (simp add: update_claims_def assms)

lemma claims_of_put: "claims_of (s\<lparr> ws_claims := omap_put p es (ws_claims s) \<rparr>) q = (if q = p then es else claims_of s q)"
  by (simp add: claims_of_def)

lemma claims_of_update: "f [] = [] \<Longrightarrow> claims_of (update_claims f p s) q = (if q = p then f (claims_of s q) else claims_of s q)"
  by (cases "map_of (ws_claims s) p") (auto simp: update_claims_def claims_of_def)

lemma unique_filter [simp]: "unique_claims es \<Longrightarrow> unique_claims (filter P es)"
  by (auto simp: unique_claims_def list_all_iff distinct_map intro: inj_on_subset)

lemma unique_routed [simp]: "unique_claims es \<Longrightarrow> unique_claims (map (routed i r) es)"
proof -
  have eq: "entry_id (routed i r e) = entry_id e" "is_v2 (routed i r e) = is_v2 e" for e by (cases e; simp)+
  show "unique_claims es \<Longrightarrow> unique_claims (map (routed i r) es)"
    by (simp add: unique_claims_def eq list_all_iff o_def)
qed

lemma entry_id_own [simp]: "entry_id (V2 (own_claim env w m)) = normalize_work_identity w"
  by (simp add: own_claim_def)

lemma claims_ok_claim:
  assumes "claims_ok s" "\<not> state_is_claimed s p w"
  shows "claims_ok (claim_with_mode env p w m s)"
proof -
  have "normalize_work_identity w \<notin> entry_id ` set (claims_of s p)"
    using assms(2) by (auto simp: state_is_claimed_def list_ex_iff)
  then have "unique_claims (claims_of s p @ [V2 (own_claim env w m)])"
    using claims_ok_of [OF assms(1), of p] by (simp add: unique_claims_def del: entry_id.simps)
  then show ?thesis
    using assms(1) by (simp add: claim_with_mode_def Let_def claims_ok_put)
qed

lemma claims_ok_release: "claims_ok s \<Longrightarrow> claims_ok (release env p w s)"
  by (simp add: release_def claims_ok_update)

lemma release_unclaimed: "claims_ok s \<Longrightarrow> \<not> state_is_claimed (release env p w s) p w"
  by (simp add: release_def state_is_claimed_def claims_of_update list_ex_iff)

text \<open>With one claim per item the search for a stale claim decides exactly that claim.\<close>

lemma first_stale_unique:
  assumes "unique_claims es" "e \<in> set es" "entry_id e = i"
  shows "first_stale env age i es = entry_stale env age e"
  using assms
proof (induction es)
  case (Cons a es)
  show ?case
  proof (cases a)
    case (V2 c)
    have rest: "unique_claims es" "entry_id a \<notin> entry_id ` set es"
      using Cons.prems(1) by (simp_all add: unique_claims_def)
    show ?thesis
    proof (cases "entry_id a = i")
      case True
      with rest(2) Cons.prems(2,3) have "e = a" by (metis image_eqI set_ConsD)
      with True V2 show ?thesis by simp
    next
      case False
      with Cons.prems(2,3) have "e \<in> set es" by auto
      from Cons.IH [OF rest(1) this Cons.prems(3)] False V2 show ?thesis by simp
    qed
  qed (use Cons.prems(1) in \<open>simp add: unique_claims_def\<close>)
qed simp

subsection \<open>Claiming\<close>

lemma try_claim_ok:
  assumes "claims_ok s"
  shows "\<exists>s' b. try_claim_with_mode env (Inr True) p w m (Claims s) = (Claims s', Inr b) \<and> claims_ok s'"
  using assms claims_ok_release [OF assms] release_unclaimed [OF assms]
  by (auto simp: try_claim_with_mode_def with_locked_state_def load_claims_def Let_def intro!: claims_ok_claim)

definition active_claim :: "claim_env \<Rightarrow> work_claim_state \<Rightarrow> rust_str \<Rightarrow> rust_str \<Rightarrow> bool" where
  "active_claim env s p w \<longleftrightarrow>
     (\<exists>c. V2 c \<in> set (claims_of s p) \<and> normalize_work_identity (wc_work_id c) = normalize_work_identity w
          \<and> \<not> is_stale env CLAIM_MAX_AGE_SECS c)"

lemma claimed_stale_iff:
  assumes "claims_ok s" "state_is_claimed s p w"
  shows "is_claim_stale env s p w CLAIM_MAX_AGE_SECS \<longleftrightarrow> \<not> active_claim env s p w"
proof -
  note u = claims_ok_of [OF assms(1), of p]
  from assms(2) obtain e where e: "e \<in> set (claims_of s p)" "entry_id e = normalize_work_identity w"
    by (auto simp: state_is_claimed_def list_ex_iff)
  from u e(1) obtain c where c: "e = V2 c" by (cases e) (auto simp: unique_claims_def list_all_iff)
  have "x = e" if "x \<in> set (claims_of s p)" "entry_id x = normalize_work_identity w" for x
    using that e u by (auto simp: unique_claims_def distinct_map inj_on_def)
  then have "active_claim env s p w \<longleftrightarrow> \<not> is_stale env CLAIM_MAX_AGE_SECS c"
    using e c unfolding active_claim_def by (metis entry_id.simps(2) work_claim_state_entry.inject(2))
  then show ?thesis
    using first_stale_unique [OF u e] c by (simp add: is_claim_stale_def)
qed

lemma try_claim_spec:
  assumes "claims_ok s" and "try_claim_with_mode env (Inr True) p w m (Claims s) = (f', Inr granted)"
  shows "\<exists>s'. f' = Claims s' \<and> claims_ok s' \<and> (granted \<longleftrightarrow> \<not> active_claim env s p w)
    \<and> (if granted
       then claims_of s' p = filter (\<lambda>e. entry_id e \<noteq> normalize_work_identity w) (claims_of s p)
                             @ [V2 (own_claim env w m)]
       else s' = s)
    \<and> (\<forall>q. q \<noteq> p \<longrightarrow> claims_of s' q = claims_of s q)"
proof (cases "state_is_claimed s p w")
  case claimed: True
  show ?thesis
  proof (cases "active_claim env s p w")
    case True
    with claimed claimed_stale_iff [OF assms(1) claimed, of env] assms show ?thesis
      by (auto simp: try_claim_with_mode_def with_locked_state_def load_claims_def)
  next
    case False
    define s1 where "s1 = release env p w s"
    have s1: "claims_ok s1" "\<not> state_is_claimed s1 p w"
      "claims_of s1 q = (if q = p then filter (\<lambda>e. entry_id e \<noteq> normalize_work_identity w) (claims_of s q)
                         else claims_of s q)" for q
      using assms(1) claims_ok_release release_unclaimed
      by (auto simp: s1_def release_def claims_of_update)
    have "f' = Claims (claim_with_mode env p w m s1)" "granted"
      using False claimed claimed_stale_iff [OF assms(1) claimed, of env] assms
      by (auto simp: try_claim_with_mode_def with_locked_state_def load_claims_def s1_def)
    with False s1 claims_ok_claim [OF s1(1,2), of env m] show ?thesis
      by (auto simp: claim_with_mode_def Let_def claims_of_put)
  qed
next
  case False
  then have "\<not> active_claim env s p w"
    by (auto simp: active_claim_def state_is_claimed_def list_ex_iff)
  moreover have "filter (\<lambda>e. entry_id e \<noteq> normalize_work_identity w) (claims_of s p) = claims_of s p"
    using False by (auto simp: state_is_claimed_def list_ex_iff filter_id_conv)
  moreover have "f' = Claims (claim_with_mode env p w m s)" "granted"
    using False assms by (auto simp: try_claim_with_mode_def with_locked_state_def load_claims_def)
  ultimately show ?thesis
    using assms(1) claims_ok_claim [OF assms(1) False, of env m]
    by (auto simp: claim_with_mode_def Let_def claims_of_put)
qed

text \<open>C25. A claim is granted exactly when no active claim exists and the gate is open: whatever the
  maintenance gate answers, on a claim file that is absent or well formed, the attempt returns the gate's
  error, or succeeds if and only if the gate is open and the item has no claim that is still active for
  the caller. On success the caller holds the only claim of the item, made now, and every other claim is
  untouched; otherwise the file is as it was.\<close>

theorem claim_is_exclusive:
  assumes "load_claims f = Inr s" "claims_ok s" and "try_claim_with_mode env admission p w m f = (f', r)"
  shows "r = (case admission of Inl e \<Rightarrow> Inl e | Inr gate \<Rightarrow> Inr (gate \<and> \<not> active_claim env s p w))
    \<and> (if r = Inr True
       then \<exists>s'. f' = Claims s' \<and> claims_ok s'
          \<and> claims_of s' p = filter (\<lambda>e. entry_id e \<noteq> normalize_work_identity w) (claims_of s p)
                             @ [V2 (own_claim env w m)]
          \<and> (\<forall>q. q \<noteq> p \<longrightarrow> claims_of s' q = claims_of s q)
       else f' = f)"
proof (cases "admission = Inr True")
  case False
  with assms(3) show ?thesis
    by (cases admission) (auto simp: try_claim_with_mode_def)
next
  case True
  obtain g b where r: "try_claim_with_mode env (Inr True) p w m (Claims s) = (g, Inr b)"
    using try_claim_ok [OF assms(2)] by metis
  have "try_claim_with_mode env (Inr True) p w m f = try_claim_with_mode env (Inr True) p w m (Claims s)"
    using assms(1) by (simp add: try_claim_with_mode_def with_locked_state_def Let_def load_claims_def)
  with True assms(3) r have f': "f' = g" "r = Inr b" by auto
  have "f = Claims s" if "\<not> b"
  proof (cases f)
    case NoClaims
    with assms(1) have "\<not> active_claim env s p w"
      by (auto simp: load_claims_def active_claim_def claims_of_def new_state_def)
    with try_claim_spec [OF assms(2) r] that show ?thesis by blast
  qed (use assms(1) in \<open>auto simp: load_claims_def\<close>)
  with try_claim_spec [OF assms(2) r] f' True show ?thesis by auto
qed

subsection \<open>Interleavings\<close>

text \<open>One step is one operation of some process, in any environment.\<close>

inductive claim_step :: "claim_file \<Rightarrow> claim_file \<Rightarrow> bool" where
  attempt: "try_claim_with_mode env admission p w m f = (f', r) \<Longrightarrow> claim_step f f'"
| route: "record_route p w rt f = (f', r) \<Longrightarrow> claim_step f f'"
| release_all: "release_all_for_profile p f = (f', r) \<Longrightarrow> claim_step f f'"
| release_own: "release_owned_claims env p w' f = (f', r) \<Longrightarrow> claim_step f f'"
| clear_claim: "handle_claims_clear env p w f = (f', r) \<Longrightarrow> claim_step f f'"
| reclaim: "handle_claims_reclaim env p age f = (f', rs) \<Longrightarrow> claim_step f f'"
| idle_check: "ensure_node_idle env f = (f', r) \<Longrightarrow> claim_step f f'"
| listing: "get_claimed_work_ids env p f = (f', ids) \<Longrightarrow> claim_step f f'"
| manual_listing: "live_manual_work_ids env p f = (f', idset) \<Longrightarrow> claim_step f f'"
| details: "claim_details_for_profile env p f = (f', ds) \<Longrightarrow> claim_step f f'"
| claim_test: "is_claimed p w f = (f', b) \<Longrightarrow> claim_step f f'"
| command_listing: "handle_claims_list env p' f = (f', ls) \<Longrightarrow> claim_step f f'"

definition file_ok :: "claim_file \<Rightarrow> bool" where
  "file_ok f \<longleftrightarrow> (case f of NoClaims \<Rightarrow> True | BadClaims \<Rightarrow> False | Claims s \<Rightarrow> claims_ok s)"

lemma new_state_ok [simp]: "claims_ok new_state"
  by (simp add: claims_ok_def new_state_def)

lemma locked_ok:
  assumes "with_locked_state upd f = (f', r)" "file_ok f"
    and "\<And>s s' v. claims_ok s \<Longrightarrow> upd s = Inr (s', v) \<Longrightarrow> claims_ok s'"
  shows "file_ok f'"
proof -
  from assms(2) obtain s where s: "load_claims f = Inr s" "claims_ok s"
    by (cases f) (auto simp: file_ok_def load_claims_def)
  with assms show ?thesis
    by (cases "upd s") (auto simp: with_locked_state_def file_ok_def)
qed

lemma claim_step_ok:
  assumes "claim_step f f'" "file_ok f"
  shows "file_ok f'"
  using assms
proof (induction rule: claim_step.induct)
  case (attempt env admission p w m f f' r)
  show ?case
  proof (cases "admission = Inr True")
    case False
    then have "f' = f" using attempt(1)
      by (cases admission) (auto simp: try_claim_with_mode_def)
    then show ?thesis using attempt(2) by simp
  next
    case True
    from attempt(2) obtain s where "load_claims f = Inr s" "claims_ok s"
      by (cases f) (auto simp: file_ok_def load_claims_def)
    moreover from this have "try_claim_with_mode env (Inr True) p w m f = try_claim_with_mode env (Inr True) p w m (Claims s)"
      by (simp add: try_claim_with_mode_def with_locked_state_def load_claims_def)
    ultimately show ?thesis
      using try_claim_ok [of s env p w m] attempt(1) True by (auto simp: file_ok_def)
  qed
next
  case (release_all p f f' r)
  then show ?case unfolding release_all_for_profile_def
    by (elim locked_ok) (auto simp: claims_ok_def)
qed (auto simp: record_route_def set_route_def release_owned_claims_def release_owned_def
  handle_claims_clear_def handle_claims_reclaim_def reclaim_stale_claims_def Let_def
  ensure_node_idle_def get_claimed_work_ids_def claim_details_for_profile_def is_claimed_def
  handle_claims_list_def live_manual_work_ids_def claims_ok_release
  split: if_splits elim!: locked_ok intro!: claims_ok_update)

text \<open>C26. At most one claim per item: from an absent claim file, whatever operations any number of
  processes on any hosts interleave, with any clocks and processes alive, a scope never holds two
  claims of the same item, under any spelling of its number.\<close>

theorem claims_are_unique:
  assumes "claim_step\<^sup>*\<^sup>* NoClaims (Claims s)"
  shows "distinct (map entry_id (claims_of s p))"
proof -
  have "file_ok f" if "claim_step\<^sup>*\<^sup>* NoClaims f" for f
    using that
  proof (induction rule: rtranclp_induct)
    case base
    show ?case by (simp add: file_ok_def)
  next
    case (step y z)
    then show ?case by (blast intro: claim_step_ok)
  qed
  from this [OF assms] show ?thesis
    using claims_ok_of [of s p] by (simp add: file_ok_def unique_claims_def)
qed

text \<open>A living local worker keeps its job: while the process that holds a claim is alive on this
  host, no other attempt on this host obtains the item, however old the claim is, whoever asks, in
  whichever mode and under whichever spelling; the claim stays in the file, also after a reclaim.\<close>

theorem living_local_owner_keeps_claim:
  assumes "claims_ok s" and "V2 c \<in> set (claims_of s p)"
    and "wc_hostname c = ce_host env" and "wc_pid c \<noteq> 0" and "ce_alive env (wc_pid c)"
    and "normalize_work_identity w = normalize_work_identity (wc_work_id c)"
  shows "try_claim_with_mode env (Inr True) p w m (Claims s) = (Claims s, Inr False)
    \<and> (\<exists>s' ids. handle_claims_reclaim env p age (Claims s) = (Claims s', Inr ids) \<and> V2 c \<in> set (claims_of s' p))"
proof -
  have fresh: "\<not> is_stale env k c" for k using assms(3-5) by (simp add: is_stale_def Let_def)
  then have "active_claim env s p w" using assms(2,6) by (auto simp: active_claim_def)
  moreover obtain f' b where "try_claim_with_mode env (Inr True) p w m (Claims s) = (f', Inr b)"
    using try_claim_ok [OF assms(1)] by metis
  moreover from try_claim_spec [OF assms(1) this] calculation have "f' = Claims s" "\<not> b" by auto
  ultimately show ?thesis
    using assms(1,2) fresh
    by (auto simp: handle_claims_reclaim_def with_locked_state_def load_claims_def reclaim_stale_claims_def
        Let_def claims_of_update)
qed

text \<open>A loop's claim on another host does not last: unless a process with the same number happens to
  be alive here, the claim of a loop (not a manual worker) on another host is taken over at once,
  whatever its age.\<close>

theorem remote_loop_claim_is_taken:
  assumes "claims_ok s" and "V2 c \<in> set (claims_of s p)" and "\<not> wc_manual_worker c"
    and "wc_hostname c \<noteq> ce_host env" and "\<not> ce_alive env (wc_pid c)"
  shows "\<exists>s'. try_claim_with_mode env (Inr True) p (wc_work_id c) m (Claims s) = (Claims s', Inr True)
    \<and> filter (\<lambda>e. entry_id e = entry_id (V2 c)) (claims_of s' p) = [V2 (own_claim env (wc_work_id c) m)]"
proof -
  have "x = V2 c" if "x \<in> set (claims_of s p)" "entry_id x = entry_id (V2 c)" for x
    using that assms(2) claims_ok_of [OF assms(1), of p]
    by (simp add: unique_claims_def distinct_map inj_on_def del: entry_id.simps)
  then have "\<not> active_claim env s p (wc_work_id c)"
    using assms(3-5) unfolding active_claim_def
    by (metis entry_id.simps(2) is_stale_def work_claim_state_entry.inject(2))
  moreover obtain f' b where "try_claim_with_mode env (Inr True) p (wc_work_id c) m (Claims s) = (f', Inr b)"
    using try_claim_ok [OF assms(1)] by metis
  moreover from try_claim_spec [OF assms(1) this] calculation obtain s' where
    "f' = Claims s'" "b" "claims_of s' p = filter (\<lambda>e. entry_id e \<noteq> normalize_work_identity (wc_work_id c)) (claims_of s p)
                             @ [V2 (own_claim env (wc_work_id c) m)]" by auto
  ultimately show ?thesis by (auto simp: own_claim_def)
qed

text \<open>Normalisation identifies exactly the spellings of one number: \<open>TICKET-\<close>, \<open>#\<close> and bare
  numbers with any leading zeros have the same identity, different numbers different ones, and
  normalising twice changes nothing.\<close>

theorem identities_of_numbers:
  "normalize_work_identity (''TICKET-'' @ replicate j CHR ''0'' @ nat_str n) = CHR ''#'' # nat_str n
   \<and> normalize_work_identity (CHR ''#'' # replicate j CHR ''0'' @ nat_str n) = CHR ''#'' # nat_str n
   \<and> normalize_work_identity (replicate j CHR ''0'' @ nat_str n) = CHR ''#'' # nat_str n
   \<and> (normalize_work_identity (nat_str k) = normalize_work_identity (nat_str n) \<longleftrightarrow> k = n)
   \<and> normalize_work_identity (normalize_work_identity w) = normalize_work_identity w"
proof -
  have d: "all_digits (replicate j CHR ''0'' @ nat_str n)" "replicate j CHR ''0'' @ nat_str n \<noteq> []" for j n
    using nat_str_digits [of n] by (auto simp: all_digits_def list_all_iff is_ascii_digit_def)
  show ?thesis
    using normalize_number [OF d(1) d(2)] d [of 0] number_identity_nat_str [of 0] number_identity_nat_str
      normalize_number(2) [of "nat_str k"] normalize_number(2) [of "nat_str n"]
    by (simp add: all_digits_def)
qed

subsection \<open>Examples\<close>

definition ex_claimer :: claim_env where
  "ex_claimer = \<lparr> ce_host = ''node-a'', ce_pid = 7, ce_now = 0, ce_alive = (\<lambda>pid. pid = 7) \<rparr>"

definition held :: work_claim_state where
  "held = \<lparr> ws_version = 2, ws_claims = [(''p'', [V2 (own_claim ex_claimer ''71'' False)])] \<rparr>"

lemma held_ok [simp]: "claims_ok held"
  by (simp add: claims_ok_def held_def unique_claims_def)

lemma held_claims [simp]: "claims_of held ''p'' = [V2 (own_claim ex_claimer ''71'' False)]"
  by (simp add: claims_of_def held_def)

lemma first_attempt:
  "try_claim_with_mode ex_claimer (Inr True) ''p'' ''71'' False NoClaims = (Claims held, Inr True)"
  by (simp add: try_claim_with_mode_def with_locked_state_def load_claims_def new_state_def ensure_v2_def
      state_is_claimed_def claims_of_def claim_with_mode_def held_def Let_def)

lemma spelled_71: "normalize_work_identity ''71'' = ''#71''" "normalize_work_identity ''TICKET-071'' = ''#71''"
  "normalize_work_identity ''#71'' = ''#71''"
  by (simp_all add: normalize_work_identity_def trim_def trim_end_def ws1_def ws2_def ws3_def all_digits_def
      is_ascii_digit_def number_identity_def)

theorem claims_are_unique_witness:
  "claim_step\<^sup>*\<^sup>* NoClaims (Claims held) \<and> distinct (map entry_id (claims_of held ''p''))"
proof -
  have "claim_step NoClaims (Claims held)" using first_attempt by (rule claim_step.attempt)
  then have "claim_step\<^sup>*\<^sup>* NoClaims (Claims held)" by (rule r_into_rtranclp)
  with claims_are_unique [OF this] show ?thesis by blast
qed

theorem claim_is_exclusive_witness:
  "try_claim_with_mode (ex_claimer\<lparr> ce_pid := 8 \<rparr>) (Inr True) ''p'' ''TICKET-071'' False (Claims held)
     = (Claims held, Inr False)
   \<and> try_claim_with_mode (ex_claimer\<lparr> ce_pid := 8 \<rparr>) (Inr False) ''p'' ''TICKET-072'' False (Claims held)
     = (Claims held, Inr False)"
proof -
  have "active_claim (ex_claimer\<lparr> ce_pid := 8 \<rparr>) held ''p'' ''TICKET-071''"
    by (simp add: active_claim_def spelled_71 own_claim_def is_stale_def ex_claimer_def)
  moreover have "load_claims (Claims held) = Inr held" by (simp add: load_claims_def)
  ultimately show ?thesis
    using claim_is_exclusive [OF _ held_ok, of "Claims held" "ex_claimer\<lparr> ce_pid := 8 \<rparr>" "Inr True" "''p''" "''TICKET-071''"]
      claim_is_exclusive [OF _ held_ok, of "Claims held" "ex_claimer\<lparr> ce_pid := 8 \<rparr>" "Inr False" "''p''" "''TICKET-072''"]
    by (smt (verit, ccfv_threshold) prod.collapse sum.inject(2) sum.case(2))
qed

theorem living_local_owner_keeps_claim_witness:
  "try_claim_with_mode (ex_claimer\<lparr> ce_pid := 8, ce_now := 10 ^ 20 \<rparr>) (Inr True) ''p'' ''TICKET-071'' True (Claims held)
   = (Claims held, Inr False)"
  using living_local_owner_keeps_claim [OF held_ok, of "own_claim ex_claimer ''71'' False" "''p''"
      "ex_claimer\<lparr> ce_pid := 8, ce_now := 10 ^ 20 \<rparr>" "''TICKET-071''" True 0]
  by (simp add: spelled_71 own_claim_def ex_claimer_def)

theorem remote_loop_claim_is_taken_witness:
  "\<exists>s'. try_claim_with_mode (ex_claimer\<lparr> ce_host := ''node-b'', ce_alive := (\<lambda>_. False) \<rparr>) (Inr True) ''p'' ''#71'' False
       (Claims held) = (Claims s', Inr True)"
  using remote_loop_claim_is_taken [OF held_ok, of "own_claim ex_claimer ''71'' False" "''p''"
      "ex_claimer\<lparr> ce_host := ''node-b'', ce_alive := (\<lambda>_. False) \<rparr>" False]
  by (auto simp: spelled_71 own_claim_def ex_claimer_def)

end
