(* ===== verification/Reservation.thy ===== *)
theory Reservation
  imports Route_Decide
begin

text \<open>
  Route capacity (\<open>src/routing/reservation.rs\<close>): the process-wide counters of running jobs per back
  end and model, the guards that hold them, and the slots shared between processes, one lock file per
  slot.  A guard is a value that is dropped exactly once.  The node state holds the counters of this
  process and the set of locked slot files of all processes; a lock file is named by the stem of its
  key, a hash that the model takes as a function.
\<close>

record guard =
  g_key :: rust_str
  g_slot :: "(rust_str \<times> nat) option"

record reservation_state =
  rv_counters :: "(rust_str \<times> nat) list"
  rv_locked :: "(rust_str \<times> nat) list"

definition current_concurrent :: "reservation_state \<Rightarrow> rust_str \<Rightarrow> rust_str option \<Rightarrow> nat" where
  "current_concurrent st backend model = unwrap_or (map_of (rv_counters st) (concurrency_key backend model)) 0"

text \<open>\<open>+= 1\<close> on a \<open>u32\<close>.\<close>

definition acquire :: "rust_str \<Rightarrow> rust_str option \<Rightarrow> reservation_state \<Rightarrow> reservation_state \<times> guard" where
  "acquire backend model st =
     (let key = concurrency_key backend model
      in (st\<lparr> rv_counters := omap_put key ((unwrap_or (map_of (rv_counters st) key) 0 + 1) mod 2 ^ 32)
                              (rv_counters st) \<rparr>,
          \<lparr> g_key = key, g_slot = None \<rparr>))"

definition drop_guard :: "guard \<Rightarrow> reservation_state \<Rightarrow> reservation_state" where
  "drop_guard g st0 =
     (let st = (case g_slot g of
                  None \<Rightarrow> st0
                | Some l \<Rightarrow> st0\<lparr> rv_locked := removeAll l (rv_locked st0) \<rparr>)
      in case map_of (rv_counters st) (g_key g) of
           None \<Rightarrow> st
         | Some c \<Rightarrow>
             let n = saturating_sub c 1
             in if n = 0 then st\<lparr> rv_counters := filter (\<lambda>(k, _). k \<noteq> g_key g) (rv_counters st) \<rparr>
                else st\<lparr> rv_counters := omap_put (g_key g) n (rv_counters st) \<rparr>)"

subsection \<open>Shared slots\<close>

datatype slot_error = LockIo | ShutdownBeforeWait | ShutdownWhileWaiting

text \<open>What the file system does: whether the directory can be made, and on which lock files opening or
  locking fails for another reason than a held lock.\<close>

record lock_env =
  le_stem :: "rust_str \<Rightarrow> rust_str"
  le_root_ok :: bool
  le_fails :: "rust_str \<times> nat \<Rightarrow> bool"

datatype slot_scan = SlotFree nat | SlotsBusy | SlotFailed

fun scan_slots :: "lock_env \<Rightarrow> (rust_str \<times> nat) list \<Rightarrow> rust_str \<Rightarrow> nat list \<Rightarrow> slot_scan" where
  "scan_slots env locked stem [] = SlotsBusy"
| "scan_slots env locked stem (slot # slots) =
     (if le_fails env (stem, slot) then SlotFailed
      else if (stem, slot) \<in> set locked then scan_slots env locked stem slots
      else SlotFree slot)"

definition slots_of :: "nat \<Rightarrow> nat list" where
  "slots_of cap = [0..<max cap 1]"

text \<open>The lock is taken first, then the counter.\<close>

definition take_slot ::
  "lock_env \<Rightarrow> rust_str \<Rightarrow> rust_str option \<Rightarrow> nat \<Rightarrow> reservation_state \<Rightarrow> reservation_state \<times> guard" where
  "take_slot env backend model slot st =
     (let l = (le_stem env (concurrency_key backend model), slot);
          (st', g) = acquire backend model (st\<lparr> rv_locked := l # rv_locked st \<rparr>)
      in (st', g\<lparr> g_slot := Some l \<rparr>))"

definition try_acquire_shared ::
  "lock_env \<Rightarrow> rust_str \<Rightarrow> rust_str option \<Rightarrow> nat option \<Rightarrow> reservation_state
   \<Rightarrow> reservation_state \<times> (slot_error, guard option) rust_result" where
  "try_acquire_shared env backend model cap st =
     (case cap of
        None \<Rightarrow> (let (st', g) = acquire backend model st in (st', Inr (Some g)))
      | Some c \<Rightarrow>
          if \<not> le_root_ok env then (st, Inl LockIo)
          else (case scan_slots env (rv_locked st) (le_stem env (concurrency_key backend model)) (slots_of c) of
                  SlotFree slot \<Rightarrow> (let (st', g) = take_slot env backend model slot st in (st', Inr (Some g)))
                | SlotsBusy \<Rightarrow> (st, Inr None)
                | SlotFailed \<Rightarrow> (st, Inl LockIo)))"

text \<open>The blocking variant polls.  Round \<open>n\<close> of the loop meets a world of its own: the answers of the
  two shutdown tests, the lock environment and the node state at that time.\<close>

record wait_round =
  wr_shutdown_first :: bool
  wr_env :: lock_env
  wr_state :: reservation_state
  wr_shutdown_then :: bool

partial_function (option) wait_for_slot ::
  "rust_str \<Rightarrow> rust_str option \<Rightarrow> nat \<Rightarrow> (nat \<Rightarrow> wait_round) \<Rightarrow> nat
   \<Rightarrow> (reservation_state \<times> (slot_error, guard) rust_result) option" where
  "wait_for_slot backend model cap world n =
     (let r = world n; env = wr_env r; st = wr_state r
      in if wr_shutdown_first r then Some (st, Inl ShutdownWhileWaiting)
         else (case scan_slots env (rv_locked st) (le_stem env (concurrency_key backend model)) (slots_of cap) of
                 SlotFree slot \<Rightarrow> (let (st', g) = take_slot env backend model slot st in Some (st', Inr g))
               | SlotFailed \<Rightarrow> Some (st, Inl LockIo)
               | SlotsBusy \<Rightarrow>
                   if wr_shutdown_then r then Some (st, Inl ShutdownWhileWaiting)
                   else wait_for_slot backend model cap world (Suc n)))"

definition acquire_shared ::
  "bool \<Rightarrow> lock_env \<Rightarrow> rust_str \<Rightarrow> rust_str option \<Rightarrow> nat option \<Rightarrow> reservation_state \<Rightarrow> (nat \<Rightarrow> wait_round)
   \<Rightarrow> (reservation_state \<times> (slot_error, guard) rust_result) option" where
  "acquire_shared shutdown env backend model cap st world =
     (if shutdown then Some (st, Inl ShutdownBeforeWait)
      else case cap of
             None \<Rightarrow> (let (st', g) = acquire backend model st in Some (st', Inr g))
           | Some c \<Rightarrow> if \<not> le_root_ok env then Some (st, Inl LockIo)
                       else wait_for_slot backend model c world 0)"

text \<open>\<open>reserve_backend_slot\<close> of \<open>dispatch/attempts.rs\<close>: the cap is the profile's for the pair.\<close>

datatype reserve_error = SlotFault slot_error | SlotRefused route_error

definition slot_refusal :: "execution_identity \<Rightarrow> route_error" where
  "slot_refusal i =
     NoEligibleBackend (ei_logical_backend i) (ei_effective_model i)
       [\<lparr> sb_backend = ei_logical_backend i, sb_instance = None, sb_model = ei_effective_model i,
          sb_reason = ''max_concurrent_reached'', sb_until = None \<rparr>] None"

definition reserve_backend_slot ::
  "(rust_str \<times> nat) list \<Rightarrow> execution_identity \<Rightarrow> bool \<Rightarrow> bool \<Rightarrow> lock_env \<Rightarrow> reservation_state \<Rightarrow> (nat \<Rightarrow> wait_round)
   \<Rightarrow> (reservation_state \<times> (reserve_error, guard) rust_result) option" where
  "reserve_backend_slot max_concurrent i wait_for_capacity shutdown env st world =
     (let cap = map_of max_concurrent (concurrency_key (ei_logical_backend i) (ei_effective_model i))
      in if wait_for_capacity
         then map_option (\<lambda>(st', r). (st', map_sum SlotFault id r))
                (acquire_shared shutdown env (ei_logical_backend i) (ei_effective_model i) cap st world)
         else Some (case try_acquire_shared env (ei_logical_backend i) (ei_effective_model i) cap st of
                      (st', Inl e) \<Rightarrow> (st', Inl (SlotFault e))
                    | (st', Inr None) \<Rightarrow> (st', Inl (SlotRefused (slot_refusal i)))
                    | (st', Inr (Some g)) \<Rightarrow> (st', Inr g)))"

subsection \<open>Guards and counters\<close>

text \<open>The guards of this process and the locks of the others.\<close>

definition guards_of :: "rust_str \<Rightarrow> guard list \<Rightarrow> nat" where
  "guards_of key gs = length (filter (\<lambda>g. g_key g = key) gs)"

definition slots_held :: "guard list \<Rightarrow> (rust_str \<times> nat) list" where
  "slots_held gs = List.map_filter g_slot gs"

text \<open>A round of the blocking loop ends the wait.\<close>

definition round_ends :: "rust_str \<Rightarrow> rust_str option \<Rightarrow> nat \<Rightarrow> wait_round \<Rightarrow> bool" where
  "round_ends backend model cap r \<longleftrightarrow>
     wr_shutdown_first r \<or> wr_shutdown_then r
     \<or> scan_slots (wr_env r) (rv_locked (wr_state r)) (le_stem (wr_env r) (concurrency_key backend model)) (slots_of cap)
        \<noteq> SlotsBusy"

text \<open>The wait of a blocking reservation happened before the step: the round that ends it meets the node
  as it is at the step, the rounds before it met other states and changed nothing. A pair without a cap
  does not wait.\<close>

definition waited_until ::
  "(rust_str \<times> nat) list \<Rightarrow> (rust_str \<Rightarrow> rust_str) \<Rightarrow> execution_identity \<Rightarrow> (nat \<Rightarrow> wait_round)
   \<Rightarrow> reservation_state \<Rightarrow> reservation_state \<Rightarrow> bool" where
  "waited_until caps stem i world st0 st =
     (case map_of caps (concurrency_key (ei_logical_backend i) (ei_effective_model i)) of
        None \<Rightarrow> st0 = st
      | Some c \<Rightarrow>
          (\<forall>n. le_stem (wr_env (world n)) = stem)
          \<and> (\<forall>n. round_ends (ei_logical_backend i) (ei_effective_model i) c (world n) \<longrightarrow> wr_state (world n) = st))"

text \<open>One step of the node, under the caps of a profile: a dispatch of this process gets a slot at once or
  after waiting for one, a guard is dropped, or another process takes or releases a lock.  A process
  holds fewer than \<open>2\<^sup>32\<close> guards.\<close>

inductive reservation_step ::
  "(rust_str \<times> nat) list \<Rightarrow> (rust_str \<Rightarrow> rust_str) \<Rightarrow> reservation_state \<times> guard list
   \<Rightarrow> reservation_state \<times> guard list \<Rightarrow> bool" for caps stem where
  reserved: "\<lbrakk> reserve_backend_slot caps i False sh env st world = Some (st', Inr g); le_stem env = stem;
             length gs < 2 ^ 32 - 1 \<rbrakk>
           \<Longrightarrow> reservation_step caps stem (st, gs) (st', g # gs)"
| waited: "\<lbrakk> reserve_backend_slot caps i True sh env st0 world = Some (st', Inr g);
             waited_until caps stem i world st0 st; length gs < 2 ^ 32 - 1 \<rbrakk>
           \<Longrightarrow> reservation_step caps stem (st, gs) (st', g # gs)"
| dropped: "g \<in> set gs \<Longrightarrow> reservation_step caps stem (st, gs) (drop_guard g st, remove1 g gs)"
| other_locks: "l \<notin> set (rv_locked st)
           \<Longrightarrow> reservation_step caps stem (st, gs) (st\<lparr> rv_locked := l # rv_locked st \<rparr>, gs)"
| other_unlocks: "l \<notin> set (slots_held gs)
           \<Longrightarrow> reservation_step caps stem (st, gs) (st\<lparr> rv_locked := removeAll l (rv_locked st) \<rparr>, gs)"

definition reservation_init :: "reservation_state \<times> guard list" where
  "reservation_init = (\<lparr> rv_counters = [], rv_locked = [] \<rparr>, [])"

end
