(* ===== verification/Reservation_Props.thy ===== *)
theory Reservation_Props
  imports Reservation
begin

text \<open>
  Properties of route capacity: the counters against the live guards, the slots shared between
  processes, and the end of the wait for a slot.
\<close>

subsection \<open>Guards and their slots\<close>

lemma guards_of_simps [simp]:
  "guards_of k [] = 0" "guards_of k (g # gs) = (if g_key g = k then Suc (guards_of k gs) else guards_of k gs)"
  by (simp_all add: guards_of_def)

lemma guards_of_le: "guards_of k gs \<le> length gs"
  by (simp add: guards_of_def)

lemma guards_of_pos: "g \<in> set gs \<Longrightarrow> 0 < guards_of (g_key g) gs"
  by (auto simp: guards_of_def filter_empty_conv)

lemma guards_of_remove1:
  "g \<in> set gs \<Longrightarrow> guards_of k (remove1 g gs) = (if g_key g = k then guards_of k gs - 1 else guards_of k gs)"
proof (induction gs)
  case (Cons h gs)
  then show ?case using guards_of_pos [of g gs] by (cases "g = h") auto
qed simp

lemma slots_held_simps [simp]:
  "slots_held [] = []"
  "slots_held (g # gs) = (case g_slot g of None \<Rightarrow> slots_held gs | Some l \<Rightarrow> l # slots_held gs)"
  by (simp_all add: slots_held_def map_filter_simps split: option.split)

lemma set_slots_held: "l \<in> set (slots_held gs) \<longleftrightarrow> (\<exists>g \<in> set gs. g_slot g = Some l)"
  by (induction gs) (auto split: option.split)

lemma slots_held_remove1:
  assumes "g \<in> set gs" "distinct (slots_held gs)"
  shows "slots_held (remove1 g gs) = (case g_slot g of None \<Rightarrow> slots_held gs | Some l \<Rightarrow> remove1 l (slots_held gs))"
  using assms
proof (induction gs)
  case (Cons h gs)
  show ?case
  proof (cases "g = h")
    case True
    then show ?thesis by (cases "g_slot h") auto
  next
    case False
    with Cons have "g \<in> set gs" "distinct (slots_held gs)" by (auto split: option.splits)
    moreover have "g_slot h \<noteq> g_slot g \<or> g_slot g = None"
      using Cons.prems \<open>g \<in> set gs\<close> by (auto simp: set_slots_held split: option.splits)
    ultimately show ?thesis using Cons.IH False by (auto split: option.splits)
  qed
qed simp

subsection \<open>Counters count guards\<close>

definition counts :: "(rust_str \<times> nat) list \<Rightarrow> guard list \<Rightarrow> bool" where
  "counts m gs \<longleftrightarrow> omap_ok m \<and> length gs < 2 ^ 32
     \<and> (\<forall>k. map_of m k = (if guards_of k gs = 0 then None else Some (guards_of k gs)))"

text \<open>Every guard of a capped pair holds its own slot below the cap.\<close>

definition within_cap :: "(rust_str \<times> nat) list \<Rightarrow> (rust_str \<Rightarrow> rust_str) \<Rightarrow> guard \<Rightarrow> bool" where
  "within_cap caps stem g \<longleftrightarrow>
     (case map_of caps (g_key g) of
        None \<Rightarrow> g_slot g = None
      | Some c \<Rightarrow> (\<exists>n < max c 1. g_slot g = Some (stem (g_key g), n)))"

definition reservation_ok ::
  "(rust_str \<times> nat) list \<Rightarrow> (rust_str \<Rightarrow> rust_str) \<Rightarrow> reservation_state \<times> guard list \<Rightarrow> bool" where
  "reservation_ok caps stem x \<longleftrightarrow>
     (case x of (st, gs) \<Rightarrow> counts (rv_counters st) gs \<and> distinct (slots_held gs)
        \<and> set (slots_held gs) \<subseteq> set (rv_locked st) \<and> list_all (within_cap caps stem) gs)"

lemma counts_value: "counts m gs \<Longrightarrow> unwrap_or (map_of m k) 0 = guards_of k gs"
  by (simp add: counts_def unwrap_or_def)

lemma counts_acquire:
  assumes "counts (rv_counters st) gs" "acquire backend model st = (st', g)" "length gs < 2 ^ 32 - 1"
  shows "counts (rv_counters st') (h # gs) \<longleftrightarrow> g_key h = concurrency_key backend model"
    and "rv_locked st' = rv_locked st" "g = \<lparr> g_key = concurrency_key backend model, g_slot = None \<rparr>"
proof -
  let ?k = "concurrency_key backend model"
  have "guards_of ?k gs < 2 ^ 32 - 1" using guards_of_le [of ?k gs] assms(3) by linarith
  then have m: "(guards_of ?k gs + 1) mod 2 ^ 32 = guards_of ?k gs + 1" by (intro mod_less) linarith
  have st': "rv_counters st' = omap_put ?k (guards_of ?k gs + 1) (rv_counters st)"
    using assms(2) m counts_value [OF assms(1), of ?k] by (auto simp: acquire_def Let_def)
  have nz: "map_of (rv_counters st') ?k = Some (guards_of ?k gs + 1)" by (simp add: st')
  show "counts (rv_counters st') (h # gs) \<longleftrightarrow> g_key h = ?k"
  proof
    assume "g_key h = ?k"
    then show "counts (rv_counters st') (h # gs)"
      using assms(1,3) by (auto simp: counts_def st')
  next
    assume "counts (rv_counters st') (h # gs)"
    then have "guards_of ?k (h # gs) = guards_of ?k gs + 1"
      using nz by (auto simp: counts_def split: if_splits)
    then show "g_key h = ?k" by (auto split: if_splits)
  qed
  show "rv_locked st' = rv_locked st" "g = \<lparr> g_key = ?k, g_slot = None \<rparr>"
    using assms(2) by (auto simp: acquire_def Let_def)
qed

lemma counts_drop:
  assumes "counts (rv_counters st) gs" "g \<in> set gs"
  shows "counts (rv_counters (drop_guard g st)) (remove1 g gs)"
proof -
  let ?k = "g_key g"
  have pos: "0 < guards_of ?k gs" using guards_of_pos [OF assms(2)] .
  with assms(1) have v: "map_of (rv_counters st) ?k = Some (guards_of ?k gs)" by (simp add: counts_def)
  then have r: "rv_counters (drop_guard g st)
      = (if guards_of ?k gs = 1 then filter (\<lambda>(k, _). k \<noteq> ?k) (rv_counters st)
         else omap_put ?k (guards_of ?k gs - 1) (rv_counters st))"
    using pos by (auto simp: drop_guard_def Let_def split: option.split)
  have len: "length (remove1 g gs) < 2 ^ 32"
    using assms by (auto simp: counts_def length_remove1)
  have "map_of (rv_counters (drop_guard g st)) k
        = (if guards_of k (remove1 g gs) = 0 then None else Some (guards_of k (remove1 g gs)))" for k
    using assms(1) pos by (auto simp: r map_of_filter_key guards_of_remove1 [OF assms(2)] counts_def)
  moreover have "omap_ok (rv_counters (drop_guard g st))"
    using assms(1) by (simp add: r counts_def omap_ok_filter)
  ultimately show ?thesis using len by (simp add: counts_def)
qed

lemma locked_drop: "rv_locked (drop_guard g st) = (case g_slot g of None \<Rightarrow> rv_locked st | Some l \<Rightarrow> removeAll l (rv_locked st))"
  by (auto simp: drop_guard_def Let_def split: option.split)

lemma scan_free:
  "scan_slots env locked stem slots = SlotFree slot \<Longrightarrow> slot \<in> set slots \<and> (stem, slot) \<notin> set locked"
  by (induction slots) (auto split: if_splits)

lemma try_shared_success:
  assumes "try_acquire_shared env backend model cap st = (st', Inr (Some g))"
  obtains (uncapped) "cap = None" "acquire backend model st = (st', g)"
  | (slot) c slot g0 where "cap = Some c" "slot < max c 1"
      "(le_stem env (concurrency_key backend model), slot) \<notin> set (rv_locked st)"
      "acquire backend model (st\<lparr> rv_locked := (le_stem env (concurrency_key backend model), slot) # rv_locked st \<rparr>) = (st', g0)"
      "g = g0\<lparr> g_slot := Some (le_stem env (concurrency_key backend model), slot) \<rparr>"
  using assms
  by (auto simp: try_acquire_shared_def take_slot_def slots_of_def Let_def
      split: option.splits slot_scan.splits if_splits prod.splits dest!: scan_free)

text \<open>A slot taken below the cap keeps the invariant, whichever mode took it; so does a counter without a cap.\<close>

lemma take_slot_ok:
  assumes "reservation_ok caps stem (st, gs)" "length gs < 2 ^ 32 - 1"
    and "map_of caps (concurrency_key b m) = Some c" "slot < max c 1"
    and "(stem (concurrency_key b m), slot) \<notin> set (rv_locked st)"
    and "acquire b m (st\<lparr> rv_locked := (stem (concurrency_key b m), slot) # rv_locked st \<rparr>) = (st', g0)"
    and "g = g0\<lparr> g_slot := Some (stem (concurrency_key b m), slot) \<rparr>"
  shows "reservation_ok caps stem (st', g # gs)"
proof -
  let ?st = "st\<lparr> rv_locked := (stem (concurrency_key b m), slot) # rv_locked st \<rparr>"
  have ok: "counts (rv_counters ?st) gs" "distinct (slots_held gs)" "set (slots_held gs) \<subseteq> set (rv_locked st)"
      "list_all (within_cap caps stem) gs"
    using assms(1) by (simp_all add: reservation_ok_def)
  note a = counts_acquire [OF ok(1) assms(6,2)]
  from a(1) [of g] a(2,3) ok assms(3-5,7) show ?thesis
    by (auto simp: reservation_ok_def within_cap_def)
qed

lemma uncapped_ok:
  assumes "reservation_ok caps stem (st, gs)" "length gs < 2 ^ 32 - 1"
    and "map_of caps (concurrency_key b m) = None" "acquire b m st = (st', g)"
  shows "reservation_ok caps stem (st', g # gs)"
proof -
  have ok: "counts (rv_counters st) gs" "distinct (slots_held gs)" "set (slots_held gs) \<subseteq> set (rv_locked st)"
      "list_all (within_cap caps stem) gs"
    using assms(1) by (simp_all add: reservation_ok_def)
  note a = counts_acquire [OF ok(1) assms(4,2)]
  from a(1) [of g] a(2,3) ok assms(3) show ?thesis
    by (simp add: reservation_ok_def within_cap_def)
qed

lemma wait_success_round:
  assumes "wait_for_slot b m c world n = Some res"
  shows "\<forall>st' g. res = (st', Inr g) \<longrightarrow> (\<exists>k slot. round_ends b m c (world k)
    \<and> scan_slots (wr_env (world k)) (rv_locked (wr_state (world k))) (le_stem (wr_env (world k)) (concurrency_key b m))
        (slots_of c) = SlotFree slot
    \<and> take_slot (wr_env (world k)) b m slot (wr_state (world k)) = (st', g))"
    (is "?taken b m c world n res")
proof (rule wait_for_slot.raw_induct [where P = ?taken, OF _ assms], goal_cases)
  case (1 wait_slot b m c world n res)
  let ?scan = "scan_slots (wr_env (world n)) (rv_locked (wr_state (world n)))
    (le_stem (wr_env (world n)) (concurrency_key b m)) (slots_of c)"
  show ?case
  proof (cases "round_ends b m c (world n)")
    case True
    then show ?thesis using 1(2)
      by - (intro allI impI, rule exI [of _ n],
        auto simp: round_ends_def Let_def split: slot_scan.splits if_splits prod.splits)
  next
    case False
    then have "wait_slot b m c world (Suc n) = Some res"
      using 1(2) by (auto simp: round_ends_def Let_def)
    from 1(1) [OF this] show ?thesis by blast
  qed
qed

lemma waited_ok:
  assumes "reserve_backend_slot caps i True sh env st0 world = Some (st', Inr g)"
    and "waited_until caps stem i world st0 st" "length gs < 2 ^ 32 - 1" "reservation_ok caps stem (st, gs)"
  shows "reservation_ok caps stem (st', g # gs)"
proof -
  let ?b = "ei_logical_backend i" and ?m = "ei_effective_model i"
  let ?k = "concurrency_key ?b ?m"
  from assms(1) obtain r where "acquire_shared sh env ?b ?m (map_of caps ?k) st0 world = Some (st', r)"
    "map_sum SlotFault id r = Inr g"
    by (auto simp: reserve_backend_slot_def Let_def)
  then have ac: "acquire_shared sh env ?b ?m (map_of caps ?k) st0 world = Some (st', Inr g)"
    by (cases r) auto
  show ?thesis
  proof (cases "map_of caps ?k")
    case None
    with ac assms(2) have "acquire ?b ?m st = (st', g)"
      by (auto simp: acquire_shared_def waited_until_def Let_def split: if_splits prod.splits)
    from uncapped_ok [OF assms(4,3) None this] show ?thesis .
  next
    case (Some c)
    with ac have "wait_for_slot ?b ?m c world 0 = Some (st', Inr g)"
      by (auto simp: acquire_shared_def split: if_splits)
    from wait_success_round [OF this] obtain n slot where n: "round_ends ?b ?m c (world n)"
      and scan: "scan_slots (wr_env (world n)) (rv_locked (wr_state (world n))) (le_stem (wr_env (world n)) ?k)
            (slots_of c) = SlotFree slot"
      and take: "take_slot (wr_env (world n)) ?b ?m slot (wr_state (world n)) = (st', g)" by blast
    have w: "wr_state (world n) = st" "le_stem (wr_env (world n)) = stem"
      using assms(2) Some n by (auto simp: waited_until_def)
    from scan_free [OF scan] have "slot < max c 1" "(stem ?k, slot) \<notin> set (rv_locked st)"
      by (auto simp: w slots_of_def)
    moreover from take obtain g0 where "acquire ?b ?m (st\<lparr> rv_locked := (stem ?k, slot) # rv_locked st \<rparr>) = (st', g0)"
      "g = g0\<lparr> g_slot := Some (stem ?k, slot) \<rparr>"
      by (auto simp: take_slot_def w Let_def split: prod.splits)
    ultimately show ?thesis using take_slot_ok [OF assms(4,3) Some] by blast
  qed
qed

lemma reservation_ok_step:
  assumes "reservation_step caps stem x y" "reservation_ok caps stem x"
  shows "reservation_ok caps stem y"
  using assms
proof (induction rule: reservation_step.induct)
  case (reserved i sh env st world st' g gs)
  let ?b = "ei_logical_backend i" and ?m = "ei_effective_model i"
  have "try_acquire_shared env ?b ?m (map_of caps (concurrency_key ?b ?m)) st = (st', Inr (Some g))"
    using reserved(1)
    by (auto simp: reserve_backend_slot_def Let_def split: prod.splits sum.splits option.splits)
  then show ?case
  proof (cases rule: try_shared_success)
    case uncapped
    with reserved show ?thesis using uncapped_ok by blast
  next
    case (slot c slot g0)
    with reserved show ?thesis using take_slot_ok by blast
  qed
next
  case (waited i sh env st0 world st' g st gs)
  then show ?case using waited_ok by blast
next
  case (dropped g gs st)
  then have d: "distinct (slots_held gs)" by (simp add: reservation_ok_def)
  have sub: "list_all (within_cap caps stem) (remove1 g gs)"
    using dropped notin_set_remove1 by (fastforce simp: reservation_ok_def list_all_iff)
  show ?case
    using dropped counts_drop [of st gs g] slots_held_remove1 [OF dropped(1) d] sub
    by (auto simp: reservation_ok_def locked_drop set_remove1_eq split: option.splits)
qed (auto simp: reservation_ok_def)

lemma reservation_reachable_ok:
  "(reservation_step caps stem)\<^sup>*\<^sup>* reservation_init x \<Longrightarrow> reservation_ok caps stem x"
proof (induction rule: rtranclp_induct)
  case base
  show ?case by (simp add: reservation_ok_def reservation_init_def counts_def)
qed (rule reservation_ok_step)

lemma capped_guards_bounded:
  assumes "list_all (within_cap caps stem) gs" "distinct (slots_held gs)" "map_of caps k = Some c"
  shows "guards_of k gs \<le> max c 1"
proof -
  let ?mine = "filter (\<lambda>g. g_key g = k) gs"
  have slots: "\<forall>g \<in> set ?mine. g_slot g \<in> (\<lambda>n. Some (stem k, n)) ` {..<max c 1}"
    using assms(1,3) by (fastforce simp: list_all_iff within_cap_def)
  have "distinct (slots_held ?mine)"
    using assms(2) by (induction gs) (auto simp: set_slots_held split: option.splits)
  moreover have "map g_slot ?mine = map Some (slots_held ?mine)"
    using slots by (induction gs) (auto split: option.splits)
  ultimately have "distinct (map g_slot ?mine)" by (simp add: distinct_map)
  then have "length ?mine = card (set (map g_slot ?mine))"
    by (metis distinct_card length_map)
  also have "\<dots> \<le> card ((\<lambda>n. Some (stem k, n)) ` {..<max c 1})"
    using slots by (intro card_mono) auto
  also have "\<dots> \<le> max c 1" using card_image_le [of "{..<max c 1}"] by simp
  finally show ?thesis by (simp add: guards_of_def)
qed

subsection \<open>Waiting for a slot\<close>

lemma wait_ends_from:
  assumes "round_ends backend model cap (world (n + k))"
  shows "wait_for_slot backend model cap world n \<noteq> None"
  using assms
proof (induction k arbitrary: n)
  case 0
  then show ?case
    by (subst wait_for_slot.simps) (auto simp: round_ends_def Let_def split: slot_scan.split prod.split)
next
  case (Suc k)
  then have "wait_for_slot backend model cap world (Suc n) \<noteq> None" by simp
  then show ?case
    by (subst wait_for_slot.simps) (auto simp: Let_def split: slot_scan.split prod.split)
qed


lemma wait_result_round:
  assumes "wait_for_slot backend model cap world n = Some res"
  shows "\<exists>k \<ge> n. round_ends backend model cap (world k)
    \<and> (\<forall>st' g. res = (st', Inr g) \<longrightarrow> le_root_ok (wr_env (world k)) \<longrightarrow>
          try_acquire_shared (wr_env (world k)) backend model (Some cap) (wr_state (world k)) = (st', Inr (Some g)))"
    (is "?settled backend model cap world n res")
proof (rule wait_for_slot.raw_induct [where P = ?settled, OF _ assms], goal_cases)
  case (1 wait_slot backend model cap world n res)
  let ?scan = "scan_slots (wr_env (world n)) (rv_locked (wr_state (world n)))
    (le_stem (wr_env (world n)) (concurrency_key backend model)) (slots_of cap)"
  show ?case
  proof (cases "round_ends backend model cap (world n)")
    case True
    then show ?thesis using 1(2)
      by (intro exI [of _ n])
        (auto simp: round_ends_def try_acquire_shared_def Let_def split: slot_scan.splits if_splits prod.splits)
  next
    case False
    then have "wait_slot backend model cap world (Suc n) = Some res"
      using 1(2) by (auto simp: round_ends_def Let_def)
    from 1(1) [OF this] show ?thesis using Suc_leD by blast
  qed
qed

subsection \<open>Properties\<close>

text \<open>C27. The counters that routing reads are exact and bounded: in every state the node can reach
  under the caps of a profile, whatever other processes lock or release, the counter of a capped pair
  is the number of live guards of the pair, at most the cap (a cap of zero admits one), and the gate
  of routing refuses the pair exactly when that many jobs run.\<close>

theorem running_jobs_within_cap:
  assumes "(reservation_step caps stem)\<^sup>*\<^sup>* reservation_init (st, gs)"
    and "map_of caps (concurrency_key (ei_logical_backend i) (ei_effective_model i)) = Some c"
  shows "current_concurrent st (ei_logical_backend i) (ei_effective_model i)
         = guards_of (concurrency_key (ei_logical_backend i) (ei_effective_model i)) gs
    \<and> current_concurrent st (ei_logical_backend i) (ei_effective_model i) \<le> max c 1
    \<and> (is_some (max_concurrent_skip caps (\<lambda>k. unwrap_or (map_of (rv_counters st) k) 0) i)
       \<longleftrightarrow> c \<le> guards_of (concurrency_key (ei_logical_backend i) (ei_effective_model i)) gs)"
proof -
  have ok: "counts (rv_counters st) gs" "list_all (within_cap caps stem) gs" "distinct (slots_held gs)"
    using reservation_reachable_ok [OF assms(1)] by (simp_all add: reservation_ok_def)
  show ?thesis
    using counts_value [OF ok(1)] capped_guards_bounded [OF ok(2,3) assms(2)] assms(2)
    by (simp add: current_concurrent_def max_concurrent_skip_def Let_def is_some_def)
qed

text \<open>Waiting for a slot ends exactly when it can: the blocking reservation returns if and only if
  some round of its loop sees a shutdown, a free slot or an error of the file system, and a guard it
  returns is one the non-blocking reservation gives in the state of that round.\<close>

theorem waiting_ends_iff_possible:
  assumes "le_root_ok env" "\<And>n. le_root_ok (wr_env (world n))"
  shows "(acquire_shared False env backend model (Some c) st world \<noteq> None \<longleftrightarrow> (\<exists>n. round_ends backend model c (world n)))
    \<and> (\<forall>st' g. acquire_shared False env backend model (Some c) st world = Some (st', Inr g) \<longrightarrow>
         (\<exists>n. try_acquire_shared (wr_env (world n)) backend model (Some c) (wr_state (world n)) = (st', Inr (Some g))))"
proof -
  have eq: "acquire_shared False env backend model (Some c) st world = wait_for_slot backend model c world 0"
    using assms by (simp add: acquire_shared_def)
  have "(\<exists>n. round_ends backend model c (world n)) \<Longrightarrow> wait_for_slot backend model c world 0 \<noteq> None"
    using wait_ends_from [of backend model c world 0] by auto
  moreover have "wait_for_slot backend model c world 0 = Some res \<Longrightarrow> \<exists>n. round_ends backend model c (world n)" for res
    using wait_result_round by blast
  moreover have "\<exists>n. try_acquire_shared (wr_env (world n)) backend model (Some c) (wr_state (world n)) = (st', Inr (Some g))"
    if "wait_for_slot backend model c world 0 = Some (st', Inr g)" for st' g
    using wait_result_round [OF that] assms(2) by blast
  ultimately show ?thesis unfolding eq by blast
qed

subsection \<open>Concrete inputs\<close>

definition ex_lock_env :: lock_env where
  "ex_lock_env = \<lparr> le_stem = id, le_root_ok = True, le_fails = (\<lambda>_. False) \<rparr>"

definition ex_caps :: "(rust_str \<times> nat) list" where "ex_caps = [(''codex/'', 1)]"

definition ex_slot_identity :: execution_identity where
  "ex_slot_identity = legacy_candidate ''codex'' None None"

definition ex_reserved :: "reservation_state \<times> guard list" where
  "ex_reserved = (\<lparr> rv_counters = [(''codex/'', 1)], rv_locked = [(''codex/'', 0)] \<rparr>,
                  [\<lparr> g_key = ''codex/'', g_slot = Some (''codex/'', 0) \<rparr>])"

lemmas reservation_eval =
  ex_lock_env_def ex_caps_def ex_slot_identity_def ex_reserved_def reservation_init_def legacy_candidate_def
  reserve_backend_slot_def try_acquire_shared_def take_slot_def acquire_def slots_of_def concurrency_key_def
  unwrap_or_def Let_def

lemma ex_reserved_reachable: "(reservation_step ex_caps id)\<^sup>*\<^sup>* reservation_init ex_reserved"
proof -
  have "reserve_backend_slot ex_caps ex_slot_identity False False ex_lock_env (fst reservation_init) undefined
      = Some (fst ex_reserved, Inr (hd (snd ex_reserved)))"
    by (simp add: reservation_eval)
  from reservation_step.reserved [OF this, of id "[]"]
  have "reservation_step ex_caps id reservation_init ex_reserved"
    by (simp add: ex_lock_env_def reservation_init_def ex_reserved_def)
  then show ?thesis by blast
qed

theorem running_jobs_within_cap_witness:
  "current_concurrent (fst ex_reserved) ''codex'' None = 1
   \<and> is_some (max_concurrent_skip ex_caps (\<lambda>k. unwrap_or (map_of (rv_counters (fst ex_reserved)) k) 0) ex_slot_identity)"
  using running_jobs_within_cap [of ex_caps id "fst ex_reserved" "snd ex_reserved" ex_slot_identity 1]
    ex_reserved_reachable
  by (simp add: reservation_eval)

definition ex_world :: "nat \<Rightarrow> wait_round" where
  "ex_world n = \<lparr> wr_shutdown_first = False, wr_env = ex_lock_env,
     wr_state = (if n < 2 then fst ex_reserved else fst reservation_init), wr_shutdown_then = False \<rparr>"

theorem waiting_ends_iff_possible_witness:
  "acquire_shared False ex_lock_env ''codex'' None (Some 1) (fst ex_reserved) ex_world \<noteq> None"
proof -
  have "round_ends ''codex'' None 1 (ex_world 2)"
    by (simp add: round_ends_def ex_world_def reservation_eval)
  then show ?thesis
    using waiting_ends_iff_possible [of ex_lock_env ex_world "''codex''" None 1 "fst ex_reserved"]
    by (auto simp: ex_world_def ex_lock_env_def)
qed

end
