(* ===== verification/Worker_Scaling.thy ===== *)
theory Worker_Scaling
  imports Route_Decide
begin

text \<open>
  Worker limits (\<open>src/routing/worker_scaling.rs\<close>, \<open>src/config/worker_scaling.rs\<close>): how far the loop
  may grow past the profile's number of workers and its caps per model, from fresh quota readings and
  the operator's boost.  Counters are \<open>u32\<close>: the saturating operations and the one wrapping addition
  are written out.
\<close>

record worker_scaling =
  wk_enabled :: bool
  wk_max_workers :: "nat option"
  wk_extra_per_model :: nat
  wk_min_remaining_percent :: rat
  wk_boost_workers :: nat
  wk_boost_model :: "rust_str option"
  wk_boost_until :: "rust_str option"

definition default_scaling :: worker_scaling where
  "default_scaling =
     \<lparr> wk_enabled = False, wk_max_workers = None, wk_extra_per_model = 1, wk_min_remaining_percent = 50,
       wk_boost_workers = 0, wk_boost_model = None, wk_boost_until = None \<rparr>"

definition clear_boost :: "worker_scaling \<Rightarrow> worker_scaling" where
  "clear_boost s = s\<lparr> wk_boost_workers := 0, wk_boost_model := None, wk_boost_until := None \<rparr>"

text \<open>The profile: what routing reads of it, the configured worker count and the scaling.\<close>

record worker_profile = route_profile +
  wp_max_parallel_workers :: "nat option"
  wp_worker_scaling :: worker_scaling

definition max_parallel_workers :: "worker_profile \<Rightarrow> nat" where
  "max_parallel_workers p = max (unwrap_or (wp_max_parallel_workers p) 1) 1"

record worker_limits_rec =
  wl_baseline_workers :: nat
  wl_workers :: nat
  wl_extra_per_model :: "(rust_str \<times> nat) list"
  wl_notes :: "rust_str list"

text \<open>What the computation reads besides the profile: the identity environment, the kind of a stored
  credential, the RFC 3339 parser and the instant.\<close>

record scaling_env =
  se_identity :: identity_env
  se_is_subscription :: "rust_str \<Rightarrow> bool"
  se_parse_ts :: "rust_str \<Rightarrow> int option"
  se_now :: int

text \<open>\<open>{:.0}\<close>: to the nearest integer, ties to even.\<close>

definition percent_str :: "rat \<Rightarrow> rust_str" where
  "percent_str q =
     (let a = \<bar>q\<bar>; n = nat \<lfloor>a\<rfloor>; d = a - of_nat n;
          r = (if d < 1 / 2 \<or> d = 1 / 2 \<and> even n then n else n + 1)
      in (if q < 0 then ''-'' else []) @ nat_str r)"

definition boost_is_active :: "(rust_str \<Rightarrow> int option) \<Rightarrow> rust_str option \<Rightarrow> int \<Rightarrow> (rust_str, bool) rust_result" where
  "boost_is_active parse_ts until now =
     (case until of
        None \<Rightarrow> Inr True
      | Some u \<Rightarrow> (case parse_ts u of None \<Rightarrow> Inl u | Some t \<Rightarrow> Inr (now < t)))"

definition cap_key :: "execution_identity \<Rightarrow> rust_str" where
  "cap_key i = ei_logical_backend i @ ''/'' @ unwrap_or (ei_effective_model i) []"

fun first_per_key ::
  "(rust_str \<times> nat) list \<Rightarrow> execution_identity list \<Rightarrow> (rust_str \<times> execution_identity) list
   \<Rightarrow> (rust_str \<times> execution_identity) list" where
  "first_per_key caps [] models = models"
| "first_per_key caps (i # ids) models =
     (if is_some (map_of caps (cap_key i)) \<and> cap_key i \<notin> set (map fst models)
      then first_per_key caps ids (models @ [(cap_key i, i)])
      else first_per_key caps ids models)"

definition capped_models ::
  "scaling_env \<Rightarrow> routing_policy \<Rightarrow> worker_profile \<Rightarrow> (rust_str \<times> execution_identity) list" where
  "capped_models env defaults p =
     (let routing = effective_routing (se_is_subscription env) (route_profile.truncate p) defaults;
          candidates = sort_key (\<lambda>c. - cc_priority c)
            (concat (map (\<lambda>l. unwrap_or l [])
               [rp_improve_candidates routing, rp_review_candidates routing, rp_pm_candidates routing]))
      in first_per_key (pf_max_concurrent_per_model p)
           (map (execution_identity_for_candidate (se_identity env) routing) candidates) [])"

definition add_note :: "rust_str \<Rightarrow> worker_limits_rec \<Rightarrow> worker_limits_rec" where
  "add_note n l = l\<lparr> wl_notes := wl_notes l @ [n] \<rparr>"

text \<open>The loop over the capped models; \<open>remaining\<close> is the tightest fresh reading of an identity.\<close>

fun scale_models ::
  "worker_scaling \<Rightarrow> nat \<Rightarrow> (execution_identity \<Rightarrow> rat option) \<Rightarrow> (rust_str \<times> execution_identity) list
   \<Rightarrow> worker_limits_rec \<Rightarrow> worker_limits_rec" where
  "scale_models s ceil_workers remaining [] l = l"
| "scale_models s ceil_workers remaining ((key, i) # models) l =
     (let room = ceil_workers - wl_workers l
      in if room = 0
         then add_note (''automatic scaling is at its '' @ nat_str ceil_workers @ '' worker ceiling'') l
         else scale_models s ceil_workers remaining models
           (case remaining i of
              Some q \<Rightarrow>
                if wk_min_remaining_percent s \<le> q
                then (let extra = min (wk_extra_per_model s) room
                      in (add_note (key @ '': +'' @ nat_str extra @ '' ('' @ percent_str q
                                      @ ''% left in its tightest quota window)'')
                           (l\<lparr> wl_workers := wl_workers l + extra \<rparr>))
                         \<lparr> wl_extra_per_model := omap_put key extra (wl_extra_per_model l) \<rparr>)
                else add_note (key @ '': not scaled ('' @ percent_str q @ ''% left, needs ''
                                 @ percent_str (wk_min_remaining_percent s) @ ''%)'') l
            | None \<Rightarrow> add_note (key @ '': not scaled (no fresh quota reading)'') l))"

definition scaling_ceiling :: "worker_scaling \<Rightarrow> nat \<Rightarrow> nat" where
  "scaling_ceiling s baseline = max (unwrap_or (wk_max_workers s) (saturating_mul_u32 baseline 2)) baseline"

text \<open>\<open>*entry += boost\<close> wraps on overflow in a release build.\<close>

definition grant_boost :: "nat \<Rightarrow> rust_str \<Rightarrow> (rust_str \<times> nat) list \<Rightarrow> (rust_str \<times> nat) list" where
  "grant_boost boost key extras = omap_put key ((unwrap_or (map_of extras key) 0 + boost) mod 2 ^ 32) extras"

definition boost_targets :: "worker_scaling \<Rightarrow> (rust_str \<times> nat) list \<Rightarrow> rust_str list" where
  "boost_targets s caps =
     filter (\<lambda>k. is_some (map_of caps k)) (case wk_boost_model s of Some m \<Rightarrow> [m] | None \<Rightarrow> map fst caps)"

definition apply_boost ::
  "scaling_env \<Rightarrow> worker_scaling \<Rightarrow> (rust_str \<times> nat) list \<Rightarrow> worker_limits_rec \<Rightarrow> worker_limits_rec" where
  "apply_boost env s caps l =
     (if wk_boost_workers s = 0 then l
      else case boost_is_active (se_parse_ts env) (wk_boost_until s) (se_now env) of
             Inr True \<Rightarrow>
               add_note (''manual boost: +'' @ nat_str (wk_boost_workers s) @ '' for ''
                           @ unwrap_or (wk_boost_model s) ''every capped model''
                           @ unwrap_or (map_option (\<lambda>u. '' until '' @ u) (wk_boost_until s)) [])
                 (l\<lparr> wl_workers := saturating_add_u32 (wl_workers l) (wk_boost_workers s),
                     wl_extra_per_model := fold (grant_boost (wk_boost_workers s)) (boost_targets s caps)
                                             (wl_extra_per_model l) \<rparr>)
           | Inr False \<Rightarrow> add_note ''manual boost has expired'' l
           | Inl u \<Rightarrow> add_note (''manual boost ignored: boost_until '' @ CHR 0x27 # u @ CHR 0x27 # '' is not an RFC 3339 time'') l)"

definition automatic_limits ::
  "scaling_env \<Rightarrow> routing_policy \<Rightarrow> worker_profile \<Rightarrow> quota_observation list \<Rightarrow> worker_limits_rec" where
  "automatic_limits env defaults p records =
     (let baseline = max_parallel_workers p;
          s = wp_worker_scaling p;
          l = \<lparr> wl_baseline_workers = baseline, wl_workers = baseline, wl_extra_per_model = [], wl_notes = [] \<rparr>
      in if wk_enabled s \<and> 0 < wk_extra_per_model s
         then scale_models s (scaling_ceiling s baseline)
                (\<lambda>i. min_fresh_remaining_percent (se_parse_ts env) i records (se_now env))
                (capped_models env defaults p) l
         else l)"

definition worker_limits ::
  "scaling_env \<Rightarrow> routing_policy \<Rightarrow> worker_profile \<Rightarrow> quota_observation list \<Rightarrow> worker_limits_rec" where
  "worker_limits env defaults p records =
     apply_boost env (wp_worker_scaling p) (pf_max_concurrent_per_model p) (automatic_limits env defaults p records)"

definition current_worker_limits ::
  "scaling_env \<Rightarrow> routing_policy \<Rightarrow> worker_profile \<Rightarrow> quota_file \<Rightarrow> worker_limits_rec" where
  "current_worker_limits env defaults p f =
     worker_limits env defaults p
       (if wk_enabled (wp_worker_scaling p) then load_account_observations f else [])"

subsection \<open>Applying the limits\<close>

record gah_config =
  gc_defaults :: routing_policy
  gc_profiles :: "(rust_str \<times> worker_profile) list"

definition raise_cap :: "(rust_str \<times> nat) list \<Rightarrow> rust_str \<times> nat \<Rightarrow> rust_str \<times> nat" where
  "raise_cap extras = (\<lambda>(key, cap). (key, case map_of extras key of
                                              None \<Rightarrow> cap
                                            | Some extra \<Rightarrow> saturating_add_u32 cap extra))"

definition apply_limits :: "worker_limits_rec \<Rightarrow> worker_profile \<Rightarrow> worker_profile" where
  "apply_limits l p =
     p\<lparr> wp_max_parallel_workers := Some (wl_workers l),
        pf_max_concurrent_per_model := map (raise_cap (wl_extra_per_model l)) (pf_max_concurrent_per_model p),
        wp_worker_scaling := default_scaling \<rparr>"

definition apply_scaling ::
  "scaling_env \<Rightarrow> quota_file \<Rightarrow> rust_str \<Rightarrow> gah_config \<Rightarrow> gah_config \<times> worker_limits_rec option" where
  "apply_scaling env f name cfg =
     (case map_of (gc_profiles cfg) name of
        None \<Rightarrow> (cfg, None)
      | Some p \<Rightarrow>
          let l = current_worker_limits env (gc_defaults cfg) p f
          in (cfg\<lparr> gc_profiles := map (\<lambda>(n, q). if n = name then (n, apply_limits l q) else (n, q)) (gc_profiles cfg) \<rparr>,
              Some l))"

end
