(* ===== verification/Worker_Scaling_Props.thy ===== *)
theory Worker_Scaling_Props
  imports Worker_Scaling Route_Examples Quota_Store_Props
begin

text \<open>
  Properties of worker scaling: bounds of the worker count, the readings behind every grant, and that
  the limits of a profile are applied once.
\<close>

lemma add_note_simps [simp]:
  "wl_baseline_workers (add_note n l) = wl_baseline_workers l" "wl_workers (add_note n l) = wl_workers l"
  "wl_extra_per_model (add_note n l) = wl_extra_per_model l"
  by (simp_all add: add_note_def)

subsection \<open>The automatic part\<close>

text \<open>Every grant rests on a reading, and the grants are what the worker count grew by.\<close>

definition justified ::
  "worker_scaling \<Rightarrow> (execution_identity \<Rightarrow> rat option) \<Rightarrow> (rust_str \<times> execution_identity) list
   \<Rightarrow> rust_str \<times> nat \<Rightarrow> bool" where
  "justified s remaining models x \<longleftrightarrow> snd x \<le> wk_extra_per_model s
     \<and> (\<exists>i q. (fst x, i) \<in> set models \<and> remaining i = Some q \<and> wk_min_remaining_percent s \<le> q)"

definition grants_ok ::
  "worker_scaling \<Rightarrow> nat \<Rightarrow> nat \<Rightarrow> (execution_identity \<Rightarrow> rat option) \<Rightarrow> (rust_str \<times> execution_identity) list
   \<Rightarrow> worker_limits_rec \<Rightarrow> bool" where
  "grants_ok s base hi remaining models l \<longleftrightarrow>
     wl_baseline_workers l = base \<and> base \<le> wl_workers l \<and> wl_workers l \<le> hi
     \<and> wl_workers l = base + sum_list (map snd (wl_extra_per_model l))
     \<and> list_all (justified s remaining models) (wl_extra_per_model l)"

lemma sum_omap_put_fresh:
  fixes m :: "('k::linorder \<times> nat) list"
  shows "k \<notin> fst ` set m \<Longrightarrow> sum_list (map snd (omap_put k v m)) = v + sum_list (map snd m)"
  by (induction k v m rule: omap_put.induct) auto

lemma scale_models_ok:
  assumes "grants_ok s base hi remaining all l" "distinct (map fst models)"
    and "fst ` set (wl_extra_per_model l) \<inter> fst ` set models = {}" "set models \<subseteq> set all"
  shows "grants_ok s base hi remaining all (scale_models s hi remaining models l)"
  using assms
proof (induction s hi remaining models l rule: scale_models.induct)
  case (2 s hi remaining key i models l)
  let ?room = "hi - wl_workers l"
  show ?case
  proof (cases "?room = 0")
    case True
    then show ?thesis using 2 by (simp add: grants_ok_def)
  next
    case False
    define l' where "l' = (case remaining i of
              Some q \<Rightarrow>
                if wk_min_remaining_percent s \<le> q
                then (let extra = min (wk_extra_per_model s) ?room
                      in (add_note (key @ '': +'' @ nat_str extra @ '' ('' @ percent_str q
                                      @ ''% left in its tightest quota window)'')
                           (l\<lparr> wl_workers := wl_workers l + extra \<rparr>))
                         \<lparr> wl_extra_per_model := omap_put key extra (wl_extra_per_model l) \<rparr>)
                else add_note (key @ '': not scaled ('' @ percent_str q @ ''% left, needs ''
                                 @ percent_str (wk_min_remaining_percent s) @ ''%)'') l
            | None \<Rightarrow> add_note (key @ '': not scaled (no fresh quota reading)'') l)"
    have step: "scale_models s hi remaining ((key, i) # models) l = scale_models s hi remaining models l'"
      using False by (simp add: Let_def l'_def)
    have fresh: "key \<notin> fst ` set (wl_extra_per_model l)" using 2(4) by auto
    have "grants_ok s base hi remaining all l' \<and> fst ` set (wl_extra_per_model l') \<subseteq> insert key (fst ` set (wl_extra_per_model l))"
    proof (cases "\<exists>q. remaining i = Some q \<and> wk_min_remaining_percent s \<le> q")
      case True
      then obtain q where q: "remaining i = Some q" "wk_min_remaining_percent s \<le> q" by blast
      let ?e = "min (wk_extra_per_model s) ?room"
      have l': "wl_workers l' = wl_workers l + ?e" "wl_extra_per_model l' = omap_put key ?e (wl_extra_per_model l)"
        "wl_baseline_workers l' = wl_baseline_workers l"
        using q by (simp_all add: l'_def Let_def)
      have "justified s remaining all (key, ?e)"
        using q 2(5) by (auto simp: justified_def)
      then have "list_all (justified s remaining all) (wl_extra_per_model l')"
        using 2(2) set_omap_put_subset [of key ?e "wl_extra_per_model l"]
        by (auto simp: l'(2) grants_ok_def list_all_iff simp del: split_paired_All)
      then have "grants_ok s base hi remaining all l'"
        using 2(2) False fresh by (auto simp: grants_ok_def l' sum_omap_put_fresh)
      then show ?thesis by (simp add: l')
    next
      case False
      then show ?thesis using 2(2) by (auto simp: l'_def grants_ok_def split: option.split)
    qed
    moreover have "key \<notin> fst ` set models" "fst ` set (wl_extra_per_model l) \<inter> fst ` set models = {}"
      using 2(3,4) by auto
    ultimately have "grants_ok s base hi remaining all l'"
      and "fst ` set (wl_extra_per_model l') \<inter> fst ` set models = {}"
      by blast+
    then show ?thesis
      using 2(1) [OF refl False] 2(3,5) unfolding step l'_def [symmetric] by simp
  qed
qed simp

lemma first_per_key_distinct:
  "distinct (map fst models) \<Longrightarrow> distinct (map fst (first_per_key caps ids models))"
  by (induction caps ids models rule: first_per_key.induct) auto

lemma capped_models_distinct: "distinct (map fst (capped_models env defaults p))"
  by (simp add: capped_models_def Let_def first_per_key_distinct)

text \<open>The boost in force.\<close>

definition boost_in_force :: "scaling_env \<Rightarrow> worker_scaling \<Rightarrow> nat" where
  "boost_in_force env s =
     (if boost_is_active (se_parse_ts env) (wk_boost_until s) (se_now env) = Inr True then wk_boost_workers s else 0)"

lemma automatic_ok:
  "grants_ok (wp_worker_scaling p) (max_parallel_workers p)
     (scaling_ceiling (wp_worker_scaling p) (max_parallel_workers p))
     (\<lambda>i. min_fresh_remaining_percent (se_parse_ts env) i records (se_now env))
     (capped_models env defaults p) (automatic_limits env defaults p records)"
proof -
  let ?b = "max_parallel_workers p" and ?s = "wp_worker_scaling p"
  let ?l = "\<lparr> wl_baseline_workers = ?b, wl_workers = ?b, wl_extra_per_model = [], wl_notes = [] \<rparr>"
  have "grants_ok ?s ?b (scaling_ceiling ?s ?b) remaining models ?l" for remaining models
    by (simp add: grants_ok_def scaling_ceiling_def)
  then show ?thesis
    using scale_models_ok [OF _ capped_models_distinct]
    by (simp add: automatic_limits_def Let_def)
qed

lemma workers_of_boost:
  "wl_workers (apply_boost env s caps l)
     = (if boost_in_force env s = 0 then wl_workers l else saturating_add_u32 (wl_workers l) (boost_in_force env s))"
  "wl_baseline_workers (apply_boost env s caps l) = wl_baseline_workers l"
  by (auto simp: apply_boost_def boost_in_force_def split: sum.split bool.split)

text \<open>Worker limits are bounded and every automatic worker is paid for by quota: the loop never
  runs fewer workers than the baseline nor more than the ceiling plus the boost in force (nothing wraps
  around), and before the boost the workers above the baseline are exactly the grants per model, each
  of at most the configured size and for a capped model whose tightest fresh reading has the required
  percentage left.\<close>

theorem worker_limits_bounded:
  assumes "scaling_ceiling (wp_worker_scaling p) (max_parallel_workers p) \<le> u32_max"
  shows "wl_baseline_workers (worker_limits env defaults p records) = max_parallel_workers p
    \<and> max_parallel_workers p \<le> wl_workers (worker_limits env defaults p records)
    \<and> wl_workers (worker_limits env defaults p records)
        \<le> min u32_max (scaling_ceiling (wp_worker_scaling p) (max_parallel_workers p)
                        + boost_in_force env (wp_worker_scaling p))
    \<and> wl_workers (automatic_limits env defaults p records)
        = max_parallel_workers p + sum_list (map snd (wl_extra_per_model (automatic_limits env defaults p records)))
    \<and> list_all (justified (wp_worker_scaling p)
          (\<lambda>i. min_fresh_remaining_percent (se_parse_ts env) i records (se_now env)) (capped_models env defaults p))
        (wl_extra_per_model (automatic_limits env defaults p records))"
proof -
  let ?a = "automatic_limits env defaults p records" and ?s = "wp_worker_scaling p"
  have a: "max_parallel_workers p \<le> wl_workers ?a" "wl_workers ?a \<le> scaling_ceiling ?s (max_parallel_workers p)"
      "wl_baseline_workers ?a = max_parallel_workers p"
    using automatic_ok [of p env records defaults] by (simp_all add: grants_ok_def)
  then have "wl_workers ?a \<le> u32_max" using assms by simp
  then show ?thesis
    using a automatic_ok [of p env records defaults] assms
    unfolding worker_limits_def workers_of_boost
    by (auto simp: grants_ok_def saturating_add_u32_def)
qed

subsection \<open>Applying the limits\<close>

lemma raise_cap_nil [simp]: "raise_cap [] = id"
  by (auto simp: raise_cap_def fun_eq_iff)

lemma default_limits:
  assumes "wp_worker_scaling p = default_scaling"
  shows "worker_limits env defaults p records
    = \<lparr> wl_baseline_workers = max_parallel_workers p, wl_workers = max_parallel_workers p,
        wl_extra_per_model = [], wl_notes = [] \<rparr>"
  using assms by (simp add: worker_limits_def automatic_limits_def apply_boost_def default_scaling_def Let_def)

lemma apply_limits_fixed:
  assumes "0 < wl_workers l"
  shows "apply_limits (current_worker_limits env defaults (apply_limits l p) f) (apply_limits l p) = apply_limits l p"
proof -
  have d: "wp_worker_scaling (apply_limits l p) = default_scaling"
    by (simp add: apply_limits_def)
  show ?thesis
    using assms unfolding current_worker_limits_def default_limits [OF d]
    by (simp add: apply_limits_def max_parallel_workers_def unwrap_or_def)
qed

lemma map_of_mapped: "map_of (map (\<lambda>(n, q). if n = name then (n, g q) else (n, q)) m) k
    = (if k = name then map_option g (map_of m k) else map_of m k)"
  by (induction m) auto

lemma workers_positive: "0 < wl_workers (worker_limits env defaults p records)"
proof -
  have "0 < max_parallel_workers p" "max_parallel_workers p \<le> wl_workers (automatic_limits env defaults p records)"
    using automatic_ok [of p env records defaults] by (simp_all add: max_parallel_workers_def grants_ok_def)
  then show ?thesis by (simp add: worker_limits_def workers_of_boost saturating_add_u32_def u32_max_def)
qed

text \<open>Scaling is applied once: after the limits of a profile have been applied, applying them again,
  at any later instant and with any quota file, leaves the configuration as it is, no cap of a model
  was lowered, and every other profile is untouched.\<close>

theorem scaling_applies_once:
  assumes "map_of (gc_profiles cfg) name = Some p" "distinct (map fst (gc_profiles cfg))"
    and "list_all (\<lambda>(_, cap). cap \<le> u32_max) (pf_max_concurrent_per_model p)"
    and "apply_scaling env f name cfg = (cfg', Some l)"
  shows "fst (apply_scaling env' f' name cfg') = cfg'
    \<and> map_of (gc_profiles cfg') name = Some (apply_limits l p)
    \<and> (\<forall>other. other \<noteq> name \<longrightarrow> map_of (gc_profiles cfg') other = map_of (gc_profiles cfg) other)
    \<and> list_all2 (\<lambda>(k, c) (k', c'). k = k' \<and> c \<le> c') (pf_max_concurrent_per_model p)
        (pf_max_concurrent_per_model (apply_limits l p))"
proof -
  let ?put = "\<lambda>g. map (\<lambda>(n, q). if n = name then (n, g q) else (n, q))"
  have l: "l = current_worker_limits env (gc_defaults cfg) p f"
    and cfg': "cfg' = cfg\<lparr> gc_profiles := ?put (apply_limits l) (gc_profiles cfg) \<rparr>"
    using assms(1,4) by (auto simp: apply_scaling_def Let_def)
  have pos: "0 < wl_workers l" unfolding l current_worker_limits_def by (rule workers_positive)
  have new: "map_of (gc_profiles cfg') k = (if k = name then Some (apply_limits l p) else map_of (gc_profiles cfg) k)" for k
    using assms(1) by (simp add: cfg' map_of_mapped)
  have only: "q = p" if "(name, q) \<in> set (gc_profiles cfg)" for q
    using assms(1,2) that by (metis map_of_eq_Some_iff option.inject)
  have fixed: "apply_limits (current_worker_limits env' d (apply_limits l p) f') (apply_limits l p) = apply_limits l p" for d
    by (rule apply_limits_fixed [OF pos])
  have "gc_profiles cfg' = ?put (apply_limits (current_worker_limits env' (gc_defaults cfg') (apply_limits l p) f')) (gc_profiles cfg')"
    using only fixed by (auto simp: cfg' map_eq_conv)
  then have again: "fst (apply_scaling env' f' name cfg') = cfg'"
    using new [of name] by (simp add: apply_scaling_def Let_def)
  have "list_all2 (\<lambda>(k, c) (k', c'). k = k' \<and> c \<le> c') m (map (raise_cap xs) m)"
    if "list_all (\<lambda>(_, cap). cap \<le> u32_max) m" for m xs
    using that by (induction m) (auto simp: raise_cap_def saturating_add_u32_def split: option.split)
  then show ?thesis using again new assms(3) by (simp add: apply_limits_def)
qed

text \<open>A boost can take back an automatic grant: the extra runs of a model are added without
  saturation, so a grant of \<open>g\<close> and a boost that together pass \<open>2\<^sup>32\<close> leave an extra below the boost and
  below the grant, in a build without overflow checks.\<close>

lemma boost_wraps:
  assumes "map_of extras key = Some g" "g \<le> u32_max" "boost \<le> u32_max" "2 ^ 32 \<le> g + boost"
  shows "map_of (grant_boost boost key extras) key = Some (g + boost - 2 ^ 32) \<and> g + boost - 2 ^ 32 < min g boost"
proof -
  have "(g + boost) mod 2 ^ 32 = g + boost - 2 ^ 32"
    using assms by (simp add: u32_max_def mod_if)
  moreover have "g + boost - N < min g boost" if "g < N" "boost < N" "N \<le> g + boost" for N :: nat
    using that by arith
  moreover have "g < 2 ^ 32" "boost < 2 ^ 32" using assms by (simp_all add: u32_max_def)
  ultimately show ?thesis using assms(1,4) by (simp add: grant_boost_def unwrap_or_def)
qed

subsection \<open>Concrete inputs\<close>

definition ex_scaling :: worker_scaling where
  "ex_scaling = default_scaling\<lparr> wk_enabled := True, wk_boost_workers := 3 \<rparr>"

definition ex_wprof :: worker_profile where
  "ex_wprof = route_profile.extend
     ((ex_prof (empty_policy\<lparr> rp_improve_candidates := Some [ex_cand None None False] \<rparr>))
        \<lparr> pf_max_concurrent_per_model := [(''claude/'', 2)] \<rparr>)
     (worker_profile.fields (Some 2) ex_scaling)"

definition ex_senv :: scaling_env where
  "ex_senv = \<lparr> se_identity = oe_ids (re_order ex_env), se_is_subscription = (\<lambda>_. False), se_parse_ts = ts_parse, se_now = 20 \<rparr>"

definition ex_reading :: quota_observation where
  "ex_reading = (sample_reading ''claude'' ''7d'' 10)\<lparr> qo_credential_id := None, qo_backend_instance := Some ''claude'',
     qo_remaining := Some 80 \<rparr>"

definition ex_policy :: routing_policy where
  "ex_policy = effective_routing (se_is_subscription ex_senv) (route_profile.truncate ex_wprof) empty_policy"

lemma ex_policy_eval: "rp_improve_candidates ex_policy = Some [ex_cand None None False]" "rp_review_candidates ex_policy = None"
  "rp_pm_candidates ex_policy = None" "rp_backend_instances ex_policy = []" "rp_quota_sources ex_policy = []"
  by (simp_all add: ex_policy_def ex_wprof_def worker_profile.defs route_profile.defs ex_prof_def effective_routing_def stored_routing_def
      merge_routing_policy_def empty_policy_def normalize_subscription_candidates_def
      if_empty_def opt_or_def Let_def ex_senv_def as_subscription_def subscription_instances_def merge_instance_maps_def
      merged_quota_sources_def map_extend_def ex_cand_def default_candidate_def)

lemma ex_identity:
  "execution_identity_for_candidate (se_identity ex_senv) ex_policy (ex_cand None None False) = legacy_candidate ''claude'' None None"
  by (simp add: execution_identity_for_candidate_def ex_cand_def default_candidate_def opt_or_def candidate_quota_pool_def
      ex_policy_eval resolve_candidate_quota_pool_def derive_quota_pool_def ex_senv_def ex_env_def agy_account_def
      quota_source_def legacy_candidate_def legacy_route_def is_some_def Let_def)

lemma ex_capped: "capped_models ex_senv empty_policy ex_wprof = [(''claude/'', legacy_candidate ''claude'' None None)]"
proof -
  have "pf_max_concurrent_per_model ex_wprof = [(''claude/'', 2)]"
    by (simp add: ex_wprof_def worker_profile.defs route_profile.defs ex_prof_def)
  then show ?thesis
    by (simp add: capped_models_def ex_policy_def [symmetric] ex_policy_eval ex_identity Let_def unwrap_or_def
        cap_key_def legacy_candidate_def legacy_route_def is_some_def)
qed

lemma ex_remaining: "min_fresh_remaining_percent ts_parse (legacy_candidate ''claude'' None None) [ex_reading] 20 = Some 80"
  by (simp add: min_fresh_remaining_percent_def latest_windows_for_identity_def quota_eval ex_reading_def
      observation_matches_identity_def legacy_candidate_def legacy_route_def legacy_backend_instance_def
           fresh_remaining_percent_def QUOTA_FRESHNESS_def quota_scope_new_def Let_def)

lemma ex_wprof_eval: "wp_worker_scaling ex_wprof = ex_scaling" "max_parallel_workers ex_wprof = 2"
  "pf_max_concurrent_per_model ex_wprof = [(''claude/'', 2)]" "se_parse_ts ex_senv = ts_parse" "se_now ex_senv = 20"
  "scaling_ceiling ex_scaling 2 = 4"
  by (simp_all add: ex_wprof_def worker_profile.defs route_profile.defs max_parallel_workers_def unwrap_or_def ex_prof_def
      ex_senv_def scaling_ceiling_def ex_scaling_def default_scaling_def saturating_mul_u32_def u32_max_def)

lemma ex_automatic: "wl_extra_per_model (automatic_limits ex_senv empty_policy ex_wprof [ex_reading]) = [(''claude/'', 1)]"
  by (simp add: automatic_limits_def ex_wprof_eval ex_capped ex_remaining Let_def)
    (simp add: ex_scaling_def default_scaling_def)

theorem worker_limits_bounded_witness:
  "wl_workers (automatic_limits ex_senv empty_policy ex_wprof [ex_reading]) = 3
   \<and> wl_workers (worker_limits ex_senv empty_policy ex_wprof [ex_reading]) \<le> 7"
  using worker_limits_bounded [of ex_wprof ex_senv empty_policy "[ex_reading]"]
  by (simp add: ex_wprof_eval ex_automatic u32_max_def boost_in_force_def boost_is_active_def)
    (simp add: ex_scaling_def default_scaling_def)

definition ex_cfg :: gah_config where
  "ex_cfg = \<lparr> gc_defaults = empty_policy, gc_profiles = [(''p'', ex_wprof)] \<rparr>"

theorem scaling_applies_once_witness:
  "fst (apply_scaling ex_senv Absent ''p'' (fst (apply_scaling ex_senv (Lines [Some ex_reading]) ''p'' ex_cfg)))
   = fst (apply_scaling ex_senv (Lines [Some ex_reading]) ''p'' ex_cfg)"
proof -
  obtain cfg' l where r: "apply_scaling ex_senv (Lines [Some ex_reading]) ''p'' ex_cfg = (cfg', Some l)"
    by (auto simp: apply_scaling_def ex_cfg_def Let_def)
  have "map_of (gc_profiles ex_cfg) ''p'' = Some ex_wprof" "distinct (map fst (gc_profiles ex_cfg))"
    by (simp_all add: ex_cfg_def)
  from scaling_applies_once [OF this _ r, of ex_senv Absent] show ?thesis
    by (simp add: ex_wprof_eval u32_max_def r)
qed

end
