(* ===== verification/Ledger.thy ===== *)
theory Ledger
  imports Wire Quota Ordered_Map "HOL-Library.Product_Lexorder"
begin

text \<open>
  The ledger (\<open>src/ledger\<close>): the append-only history of every profile, and the projections that the
  controller, status and dispatch read from it: aliases of a work item, the effective human gate,
  review holds, approvals of paid routes, and the test whether a commit was already reviewed.

  The ledger file is the list of its parsed entries, oldest first; every append runs under one
  exclusive file lock.  An entry has the fields that the modelled operations read or write.  The clock
  and the RFC 3339 parser are arguments, as elsewhere.
\<close>

subsection \<open>Entries\<close>

record routing_candidate_diagnostic =
  rc_backend :: rust_str
  rc_backend_instance :: "rust_str option"
  rc_model :: "rust_str option"
  rc_skip_reason :: "rust_str option"

record external_approval_record =
  ea_state :: "rust_str option"
  ea_operation_kind :: "rust_str option"
  ea_credential_label :: "rust_str option"
  ea_allowed_env_vars :: "rust_str list"
  ea_max_requests :: "nat option"
  ea_max_dollars :: "f64 option"
  ea_expires_at :: "rust_str option"
  ea_purpose :: "rust_str option"
  ea_consumed_requests :: "nat option"
  ea_consumed_dollars :: "f64 option"
  ea_denial_reason :: "rust_str option"

record ledger_entry =
  le_timestamp :: rust_str
  le_profile :: rust_str
  le_repo_id :: rust_str
  le_effective_backend :: rust_str
  le_effective_model :: "rust_str option"
  le_backend_instance :: "rust_str option"
  le_human_required :: bool
  le_human_required_reason_code :: "rust_str option"
  le_routing_candidates :: "routing_candidate_diagnostic list option"
  le_mode :: rust_str
  le_work_id :: "rust_str option"
  le_branch :: "rust_str option"
  le_duration_seconds :: "rat option"
  le_validation_result :: "rust_str option"
  le_review_verdict :: "rust_str option"
  le_reviewer_backend :: "rust_str option"
  le_reviewer_model :: "rust_str option"
  le_review_source_sha :: "rust_str option"
  le_review_metadata_fingerprint :: "rust_str option"
  le_review_contract_version :: "nat option"
  le_review_generation :: "rust_str option"
  le_reviewer_class :: "rust_str option"
  le_review_gate_reason :: "rust_str option"
  le_review_blocking_findings :: "rust_str list"
  le_error_summary :: "rust_str option"
  le_failure_class :: "rust_str option"
  le_attempts_started :: "nat option"
  le_dispatch_reason :: "rust_str option"
  le_external_approval :: "external_approval_record option"
  le_confidence_impact :: "rust_str option"
  le_usage_classification :: "rust_str option"
  le_mr_url :: "rust_str option"
  le_session_id :: "rust_str option"
  le_session_dir :: "rust_str option"
  le_failure_stage :: "rust_str option"

text \<open>\<open>LedgerEntry::new\<close>; the clock is the rendered instant.\<close>

definition new_ledger_entry ::
  "rust_str \<Rightarrow> rust_str \<Rightarrow> rust_str \<Rightarrow> rust_str \<Rightarrow> rust_str \<Rightarrow> rust_str option \<Rightarrow> ledger_entry" where
  "new_ledger_entry now profile_name repo_id backend mode session_id =
     \<lparr> le_timestamp = now, le_profile = profile_name, le_repo_id = repo_id, le_effective_backend = backend,
       le_effective_model = None, le_backend_instance = None, le_human_required = False,
       le_human_required_reason_code = None, le_routing_candidates = None, le_mode = mode, le_work_id = None,
       le_branch = None, le_duration_seconds = None, le_validation_result = None, le_review_verdict = None,
       le_reviewer_backend = None, le_reviewer_model = None, le_review_source_sha = None,
       le_review_metadata_fingerprint = None, le_review_contract_version = None, le_review_generation = None,
       le_reviewer_class = None, le_review_gate_reason = None, le_review_blocking_findings = [],
       le_error_summary = None, le_failure_class = None, le_attempts_started = Some 0,
       le_dispatch_reason = None, le_external_approval = None, le_confidence_impact = None,
       le_usage_classification = None, le_mr_url = None, le_session_id = session_id,
       le_session_dir = None, le_failure_stage = None \<rparr>"

definition CURRENT_REVIEW_CONTRACT_VERSION :: nat where "CURRENT_REVIEW_CONTRACT_VERSION = 1"

definition review_generation :: "rust_str option \<Rightarrow> rust_str option \<Rightarrow> rust_str option" where
  "review_generation sha fingerprint =
     (case (opt_filter (\<lambda>v. trim v \<noteq> []) sha, opt_filter (\<lambda>v. trim v \<noteq> []) fingerprint) of
        (Some s, Some m) \<Rightarrow> Some (''review-v'' @ nat_str CURRENT_REVIEW_CONTRACT_VERSION @ '':'' @ s @ '':'' @ m)
      | _ \<Rightarrow> None)"

subsection \<open>Work items\<close>

definition work_id_aliases :: "rust_str \<Rightarrow> rust_str list" where
  "work_id_aliases work_id =
     (let legacy_number = Option.bind (strip_prefix ''TICKET-'' work_id)
            (\<lambda>rest. let digits = takeWhile is_ascii_digit rest in if digits = [] then None else Some digits);
          issue_number = opt_filter (\<lambda>n. n \<noteq> [] \<and> list_all is_ascii_digit n) (strip_prefix ''#'' work_id)
      in case (legacy_number, issue_number) of
           (Some n, _) \<Rightarrow> [work_id, CHR ''#'' # n]
         | (None, Some n) \<Rightarrow> [work_id, ''TICKET-'' @ n]
         | (None, None) \<Rightarrow> [work_id])"

definition concerns :: "rust_str \<Rightarrow> ledger_entry \<Rightarrow> bool" where
  "concerns work_id e = is_some_and (le_work_id e) (\<lambda>i. i \<in> set (work_id_aliases work_id))"

definition entries_for_work_id :: "rust_str \<Rightarrow> ledger_entry list \<Rightarrow> ledger_entry list" where
  "entries_for_work_id work_id entries = filter (concerns work_id) entries"

definition canonical_work_id :: "rust_str \<Rightarrow> rust_str" where
  "canonical_work_id work_id = unwrap_or (List.find (starts_with ''#'') (work_id_aliases work_id)) work_id"

definition index_step :: "ledger_entry \<Rightarrow> (rust_str \<times> ledger_entry list) list \<Rightarrow> (rust_str \<times> ledger_entry list) list" where
  "index_step e index =
     (case le_work_id e of
        None \<Rightarrow> index
      | Some w \<Rightarrow> fold (\<lambda>alias ix. omap_put alias (unwrap_or (map_of ix alias) [] @ [e]) ix) (work_id_aliases w) index)"

definition index_entries_by_work_id :: "ledger_entry list \<Rightarrow> (rust_str \<times> ledger_entry list) list" where
  "index_entries_by_work_id entries = fold index_step entries []"

subsection \<open>Age of an entry\<close>

text \<open>\<open>str::parse::<i64>\<close>, and the range of \<open>from_unix_timestamp\<close>; instants are nanoseconds.\<close>

definition parse_i64 :: "rust_str \<Rightarrow> int option" where
  "parse_i64 s =
     (case s of
        [] \<Rightarrow> None
      | c # cs \<Rightarrow>
          if c = CHR ''-'' then (if cs = [] then None
                               else map_option (\<lambda>n. - int n) (opt_filter (\<lambda>n. n \<le> 2 ^ 63) (digits_value 0 cs)))
          else map_option int (parse_unsigned (2 ^ 63 - 1) s))"

definition unix_instant :: "int \<Rightarrow> int option" where
  "unix_instant secs =
     (if - 377705116800 \<le> secs \<and> secs \<le> 253402300799 then Some (secs * 1000000000) else None)"

definition entry_time :: "(rust_str \<Rightarrow> int option) \<Rightarrow> ledger_entry \<Rightarrow> int option" where
  "entry_time parse_ts e =
     (case parse_ts (le_timestamp e) of
        Some t \<Rightarrow> Some t
      | None \<Rightarrow> Option.bind (parse_i64 (le_timestamp e)) unix_instant)"

definition LEDGER_ENTRY_STALE_AFTER :: int where
  "LEDGER_ENTRY_STALE_AFTER = 14 * 24 * 3600 * 1000000000"

definition REVIEW_HOLD_STALE_AFTER :: int where
  "REVIEW_HOLD_STALE_AFTER = 2 * 3600 * 1000000000"

definition is_entry_stale :: "(rust_str \<Rightarrow> int option) \<Rightarrow> int \<Rightarrow> ledger_entry \<Rightarrow> bool" where
  "is_entry_stale parse_ts now e =
     (case entry_time parse_ts e of None \<Rightarrow> False | Some t \<Rightarrow> LEDGER_ENTRY_STALE_AFTER < now - t)"

definition is_review_hold_stale :: "(rust_str \<Rightarrow> int option) \<Rightarrow> int \<Rightarrow> ledger_entry \<Rightarrow> bool" where
  "is_review_hold_stale parse_ts now e =
     (case entry_time parse_ts e of None \<Rightarrow> True | Some t \<Rightarrow> REVIEW_HOLD_STALE_AFTER < now - t)"

subsection \<open>Human gates\<close>

record effective_human_gate =
  hg_reason_code :: "rust_str option"
  hg_dispatch_reason :: "rust_str option"
  hg_message :: "rust_str option"
  hg_mode :: rust_str
  hg_timestamp :: rust_str
  hg_routing_candidates :: "routing_candidate_diagnostic list option"
  hg_review_contract_version :: "nat option"
  hg_review_generation :: "rust_str option"

definition is_review_job :: "rust_str \<Rightarrow> bool" where
  "is_review_job mode = (job_kind_parse mode = Inr Review)"

definition is_review_derived_gate :: "ledger_entry \<Rightarrow> bool" where
  "is_review_derived_gate e =
     (let reason_code = le_human_required_reason_code e;
          dispatch_reason = le_dispatch_reason e;
          is_review = is_review_job (le_mode e)
      in if is_review then True
         else if is_some_and reason_code (\<lambda>c. c \<in> {''review_evidence_gate'', ''review_output_invalid_exhausted'',
                                                  ''review_ceiling_exhausted'', ''fix_retry_cap_exceeded''}) then True
         else if (reason_code = Some ''stuck_loop_gate'' \<or> dispatch_reason = Some ''stuck_loop_gate'')
                 \<and> is_some (le_review_generation e) then True
         else if le_validation_result e = Some ''review_budget_exhausted''
                 \<or> reason_code = Some ''retry_budget_exhausted'' \<and> dispatch_reason = Some ''post_review_repair'' then True
         else if reason_code = Some ''policy_approval''
                 \<and> (is_review \<or> dispatch_reason = Some ''post_review_repair'') then True
         else False)"

definition CLAIM_LOST :: rust_str where "CLAIM_LOST = ''claim_lost''"

definition launched_no_backend :: "ledger_entry \<Rightarrow> bool" where
  "launched_no_backend e = is_some_and (le_validation_result e) (\<lambda>v. v = ''deferred_capacity'' \<or> v = CLAIM_LOST)"

definition review_hold_message ::
  "rust_str option \<Rightarrow> rust_str option \<Rightarrow> rust_str option \<Rightarrow> rust_str option \<Rightarrow> rust_str option" where
  "review_hold_message verdict gate_reason reviewer_backend reviewer_model =
     map_option
       (\<lambda>rsn. case (reviewer_backend, reviewer_model) of
                (Some b, Some m) \<Rightarrow> rsn @ '' (reviewer '' @ b @ ''/'' @ m @ '')''
              | (Some b, None) \<Rightarrow> rsn @ '' (reviewer '' @ b @ '')''
              | (None, _) \<Rightarrow> rsn)
       (case gate_reason of
          Some g \<Rightarrow> Some (''GAH safety gate: '' @ g)
        | None \<Rightarrow> if verdict = Some ''HUMAN_REVIEW'' then Some ''Reviewer asked for human review'' else None)"

definition gate_of_entry :: "ledger_entry \<Rightarrow> effective_human_gate" where
  "gate_of_entry e =
     \<lparr> hg_reason_code = le_human_required_reason_code e, hg_dispatch_reason = le_dispatch_reason e,
       hg_message = opt_or (le_error_summary e)
         (review_hold_message (le_review_verdict e) (le_review_gate_reason e) (le_reviewer_backend e)
            (le_reviewer_model e)),
       hg_mode = le_mode e, hg_timestamp = le_timestamp e, hg_routing_candidates = le_routing_candidates e,
       hg_review_contract_version = le_review_contract_version e, hg_review_generation = le_review_generation e \<rparr>"

definition control_modes :: "rust_str list" where
  "control_modes = [''claim'', ''external_approval_request'', ''external_approval_consume'',
     ''external_approval_revoke'', ''external_approval_expire'', ''external_approval_deny'',
     ''external_approval_complete'', ''review_hold'', ''review_hold_release'']"

definition gate_reason :: "effective_human_gate option \<Rightarrow> rust_str option" where
  "gate_reason gate = Option.bind gate hg_reason_code"

text \<open>One entry of the loop.\<close>

definition gate_step :: "ledger_entry \<Rightarrow> effective_human_gate option \<Rightarrow> effective_human_gate option" where
  "gate_step e gate =
     (if le_mode e = ''clear_attempts'' then None
      else if le_mode e = ''paid_route_approval_grant''
        then (if gate_reason gate \<noteq> Some ''policy_approval'' then None else gate)
      else if le_mode e \<in> set control_modes then gate
      else if le_mode e = ''external_approval_grant''
        then (if gate_reason gate = Some ''external_api_approval_required'' then None else gate)
      else if launched_no_backend e then gate
      else if le_mode e = ''review'' \<and> \<not> le_human_required e
        then (if is_some (le_review_verdict e) \<and> le_failure_class e = None then None else gate)
      else if \<not> le_human_required e then gate
      else if is_review_derived_gate e
              \<and> unwrap_or (le_review_contract_version e) 0 < CURRENT_REVIEW_CONTRACT_VERSION then gate
      else Some (gate_of_entry e))"

definition effective_human_gate_for_scope ::
  "(rust_str \<Rightarrow> int option) \<Rightarrow> int \<Rightarrow> ledger_entry list \<Rightarrow> rust_str option \<Rightarrow> rust_str \<Rightarrow> rust_str
   \<Rightarrow> effective_human_gate option" where
  "effective_human_gate_for_scope parse_ts now entries profile_name repo_id work_id =
     fold gate_step
       (filter (\<lambda>e. (profile_name = None \<or> profile_name = Some (le_profile e)) \<and> le_repo_id e = repo_id
                    \<and> concerns work_id e \<and> \<not> is_entry_stale parse_ts now e) entries) None"

definition effective_human_gate_from_entries ::
  "(rust_str \<Rightarrow> int option) \<Rightarrow> int \<Rightarrow> ledger_entry list \<Rightarrow> rust_str \<Rightarrow> rust_str \<Rightarrow> rust_str
   \<Rightarrow> effective_human_gate option" where
  "effective_human_gate_from_entries parse_ts now entries profile_name repo_id work_id =
     effective_human_gate_for_scope parse_ts now entries (Some profile_name) repo_id work_id"

definition effective_human_gate_from_index ::
  "(rust_str \<Rightarrow> int option) \<Rightarrow> int \<Rightarrow> (rust_str \<times> ledger_entry list) list \<Rightarrow> rust_str \<Rightarrow> rust_str
   \<Rightarrow> effective_human_gate option" where
  "effective_human_gate_from_index parse_ts now index repo_id work_id =
     Option.bind (map_of index work_id)
       (\<lambda>entries. effective_human_gate_for_scope parse_ts now entries None repo_id work_id)"

subsection \<open>Holds and approvals\<close>

definition hold_step ::
  "(rust_str \<Rightarrow> int option) \<Rightarrow> int \<Rightarrow> ledger_entry \<Rightarrow> (rust_str \<times> bool) list \<Rightarrow> (rust_str \<times> bool) list" where
  "hold_step parse_ts now e held =
     (case le_work_id e of
        None \<Rightarrow> held
      | Some w \<Rightarrow>
          if le_mode e = ''review_hold'' then omap_put w (\<not> is_review_hold_stale parse_ts now e) held
          else if le_mode e = ''review_hold_release'' then omap_put w False held
          else held)"

definition active_review_hold_work_ids_from_entries ::
  "(rust_str \<Rightarrow> int option) \<Rightarrow> int \<Rightarrow> ledger_entry list \<Rightarrow> rust_str \<Rightarrow> rust_str set" where
  "active_review_hold_work_ids_from_entries parse_ts now entries profile_name =
     fst ` set (filter snd (fold (hold_step parse_ts now) (filter (\<lambda>e. le_profile e = profile_name) entries) []))"

type_synonym destination = "rust_str \<times> rust_str option"

definition grant_step :: "(ledger_entry \<Rightarrow> destination) \<Rightarrow> ledger_entry \<Rightarrow> destination set \<Rightarrow> destination set" where
  "grant_step dest e active =
     (if le_mode e = ''paid_route_approval_grant'' then insert (dest e) active
      else if le_mode e = ''paid_route_approval_revoke'' then active - {dest e}
      else active)"

definition active_paid_route_approvals_from_entries ::
  "ledger_entry list \<Rightarrow> rust_str \<Rightarrow> rust_str \<Rightarrow> destination set" where
  "active_paid_route_approvals_from_entries entries profile_name work_id =
     fold (grant_step (\<lambda>e. (le_effective_backend e, le_effective_model e)))
       (filter (\<lambda>e. le_profile e = profile_name \<and> concerns work_id e) entries) {}"

definition approval_destination :: "ledger_entry \<Rightarrow> destination" where
  "approval_destination e = (unwrap_or (le_backend_instance e) (le_effective_backend e), le_effective_model e)"

definition active_paid_route_approval_destinations_from_entries ::
  "ledger_entry list \<Rightarrow> rust_str \<Rightarrow> rust_str \<Rightarrow> destination set" where
  "active_paid_route_approval_destinations_from_entries entries profile_name work_id =
     fold (grant_step approval_destination)
       (filter (\<lambda>e. le_profile e = profile_name \<and> concerns work_id e) entries) {}"

subsection \<open>The ledger file\<close>

datatype ledger_error =
    NotAHumanGate | NoWorkId | UnreadableLedger | ApprovalRefused rust_str

text \<open>\<open>None\<close> is a file that cannot be parsed; a missing file is empty.\<close>

type_synonym ledger_file = "ledger_entry list option"

definition append_human_gate_if_transition ::
  "(rust_str \<Rightarrow> int option) \<Rightarrow> int \<Rightarrow> ledger_entry \<Rightarrow> ledger_file
   \<Rightarrow> ledger_file \<times> (ledger_error, bool) rust_result" where
  "append_human_gate_if_transition parse_ts now e ledger =
     (if \<not> le_human_required e then (ledger, Inl NotAHumanGate)
      else case le_work_id e of
        None \<Rightarrow> (ledger, Inl NoWorkId)
      | Some work_id \<Rightarrow>
          (case ledger of
             None \<Rightarrow> (ledger, Inl UnreadableLedger)
           | Some existing \<Rightarrow>
               if (case effective_human_gate_from_entries parse_ts now existing (le_profile e) (le_repo_id e) work_id of
                     None \<Rightarrow> False
                   | Some active \<Rightarrow>
                       let active_is_review_derived = is_review_job (hg_mode active)
                             \<or> hg_reason_code active = Some ''stuck_loop_gate'';
                           starts_new_review_generation = is_some (le_review_generation e)
                             \<and> active_is_review_derived
                             \<and> (hg_review_contract_version active \<noteq> le_review_contract_version e
                                 \<or> hg_review_generation active \<noteq> le_review_generation e)
                       in \<not> starts_new_review_generation)
               then (ledger, Inr False)
               else (Some (existing @ [e]), Inr True)))"

subsection \<open>Finished reviews\<close>

definition review_is_dedup_eligible :: "ledger_entry \<Rightarrow> bool" where
  "review_is_dedup_eligible e =
     (if is_some (le_failure_class e) then False
      else case le_review_verdict e of
             None \<Rightarrow> False
           | Some v \<Rightarrow>
               if v = ''NEEDS_FIX'' \<or> v = ''REJECT'' then le_review_blocking_findings e \<noteq> []
               else v \<noteq> ''REVIEW_OUTPUT_INVALID'')"

definition is_reset :: "rust_str \<Rightarrow> rust_str \<Rightarrow> rust_str \<Rightarrow> ledger_entry \<Rightarrow> bool" where
  "is_reset profile_name repo_id work_id e =
     (le_profile e = profile_name \<and> le_repo_id e = repo_id \<and> le_mode e = ''clear_attempts'' \<and> concerns work_id e)"

text \<open>The entries after the last one that satisfies \<open>P\<close>, all of them when there is none.\<close>

definition after_last :: "('a \<Rightarrow> bool) \<Rightarrow> 'a list \<Rightarrow> 'a list" where
  "after_last P xs = rev (takeWhile (\<lambda>x. \<not> P x) (rev xs))"

definition review_already_exists ::
  "ledger_entry list \<Rightarrow> rust_str \<Rightarrow> rust_str \<Rightarrow> rust_str \<Rightarrow> rust_str \<Rightarrow> rust_str \<Rightarrow> rust_str \<Rightarrow> bool" where
  "review_already_exists entries profile_name repo_id work_id sha fingerprint reviewer_class =
     list_ex (\<lambda>e. le_profile e = profile_name \<and> le_repo_id e = repo_id
         \<and> is_review_job (le_mode e)
         \<and> CURRENT_REVIEW_CONTRACT_VERSION \<le> unwrap_or (le_review_contract_version e) 0
         \<and> concerns work_id e
         \<and> le_review_source_sha e = Some sha
         \<and> le_review_metadata_fingerprint e = Some fingerprint
         \<and> le_review_contract_version e = Some CURRENT_REVIEW_CONTRACT_VERSION
         \<and> le_review_generation e = review_generation (Some sha) (Some fingerprint)
         \<and> le_reviewer_class e = Some reviewer_class
         \<and> review_is_dedup_eligible e)
       (after_last (is_reset profile_name repo_id work_id) entries)"

end
