(* ===== verification/Ledger_Props.thy ===== *)
theory Ledger_Props
  imports Ledger
begin

text \<open>
  Properties of the ledger's projections: human gates are latched and recorded once, the index agrees
  with the scan, approvals follow their last record, and a review is not repeated before a reset.
\<close>

subsection \<open>Gates\<close>

definition in_scope :: "(rust_str \<Rightarrow> int option) \<Rightarrow> int \<Rightarrow> rust_str \<Rightarrow> rust_str \<Rightarrow> rust_str \<Rightarrow> ledger_entry \<Rightarrow> bool" where
  "in_scope parse_ts now profile_name repo_id work_id e \<longleftrightarrow>
     le_profile e = profile_name \<and> le_repo_id e = repo_id \<and> concerns work_id e \<and> \<not> is_entry_stale parse_ts now e"

text \<open>The transitions that release a gate, and the entries that open one.\<close>

definition releases :: "effective_human_gate \<Rightarrow> ledger_entry \<Rightarrow> bool" where
  "releases g e \<longleftrightarrow>
     le_mode e = ''clear_attempts''
     \<or> le_mode e = ''paid_route_approval_grant'' \<and> hg_reason_code g \<noteq> Some ''policy_approval''
     \<or> le_mode e = ''external_approval_grant'' \<and> hg_reason_code g = Some ''external_api_approval_required''
     \<or> le_mode e = ''review'' \<and> \<not> le_human_required e \<and> \<not> launched_no_backend e
        \<and> is_some (le_review_verdict e) \<and> le_failure_class e = None"

definition gating :: "ledger_entry \<Rightarrow> bool" where
  "gating e \<longleftrightarrow> le_human_required e \<and> \<not> launched_no_backend e
     \<and> le_mode e \<notin> {''clear_attempts'', ''paid_route_approval_grant'', ''external_approval_grant''} \<union> set control_modes
     \<and> \<not> (is_review_derived_gate e \<and> unwrap_or (le_review_contract_version e) 0 < CURRENT_REVIEW_CONTRACT_VERSION)"

lemma gate_step_gating: "gating e \<Longrightarrow> gate_step e gate = Some (gate_of_entry e)"
  by (auto simp: gating_def gate_step_def)

lemma gate_step_cases:
  "gate_step e None = (if gating e then Some (gate_of_entry e) else None)"
  "gate_step e (Some g) = (if gating e then Some (gate_of_entry e) else if releases g e then None else Some g)"
  by (auto simp: gate_step_def releases_def gating_def gate_reason_def control_modes_def)

lemma gate_snoc:
  "effective_human_gate_from_entries parse_ts now (entries @ [e]) profile_name repo_id work_id
   = (let gate = effective_human_gate_from_entries parse_ts now entries profile_name repo_id work_id
      in if in_scope parse_ts now profile_name repo_id work_id e then gate_step e gate else gate)"
  by (auto simp: effective_human_gate_from_entries_def effective_human_gate_for_scope_def in_scope_def Let_def)

text \<open>C28. A human gate is latched.  Over the whole history of the ledger, an item is gated exactly when some
  entry of its scope (its profile, repository and work id, not stale) asked for a person and no later entry
  of the scope asked again or released it; the gate is that entry's.  What releases a gate is a clearing of
  attempts, a paid-route grant unless the gate is a policy approval, an external grant if the gate waited
  for one, or a review that ended with a verdict and without a failure; no failed or duplicate review,
  claim, hold, other control record or deferred dispatch does.\<close>

theorem human_gate_is_latched:
  "effective_human_gate_from_entries parse_ts now entries profile_name repo_id work_id = Some g \<longleftrightarrow>
     (\<exists>before e after. entries = before @ e # after \<and> in_scope parse_ts now profile_name repo_id work_id e
        \<and> gating e \<and> g = gate_of_entry e
        \<and> (\<forall>x \<in> set after. in_scope parse_ts now profile_name repo_id work_id x \<longrightarrow> \<not> gating x \<and> \<not> releases g x))"
  (is "?gate entries = Some g \<longleftrightarrow> ?open entries")
proof (induction entries rule: rev_induct)
  case Nil
  show ?case by (simp add: effective_human_gate_from_entries_def effective_human_gate_for_scope_def)
next
  case (snoc x entries)
  let ?s = "in_scope parse_ts now profile_name repo_id work_id"
  have split: "?open (entries @ [x]) \<longleftrightarrow>
      ?s x \<and> gating x \<and> g = gate_of_entry x \<or> ?open entries \<and> (?s x \<longrightarrow> \<not> gating x \<and> \<not> releases g x)"
    (is "_ \<longleftrightarrow> ?now \<or> ?kept")
  proof
    assume "?open (entries @ [x])"
    then obtain before e after where o: "entries @ [x] = before @ e # after" "?s e" "gating e" "g = gate_of_entry e"
      "\<forall>y \<in> set after. ?s y \<longrightarrow> \<not> gating y \<and> \<not> releases g y" by blast
    show "?now \<or> ?kept"
    proof (cases after rule: rev_cases)
      case Nil
      with o show ?thesis by simp
    next
      case (snoc after' y)
      with o(1) have "entries = before @ e # after'" "y = x" by auto
      with o snoc show ?thesis by auto
    qed
  next
    assume "?now \<or> ?kept"
    then show "?open (entries @ [x])"
    proof
      assume ?now
      then show ?thesis by (intro exI [of _ entries] exI [of _ x] exI [of _ "[]"]) simp
    next
      assume ?kept
      then obtain before e after where "entries = before @ e # after" "?s e" "gating e" "g = gate_of_entry e"
        "\<forall>y \<in> set after. ?s y \<longrightarrow> \<not> gating y \<and> \<not> releases g y" by blast
      with \<open>?kept\<close> show ?thesis by (intro exI [of _ before] exI [of _ e] exI [of _ "after @ [x]"]) auto
    qed
  qed
  show ?case
    unfolding split gate_snoc Let_def snoc.IH [symmetric]
    by (cases "?gate entries") (auto simp: gate_step_cases)
qed

text \<open>The comment of the code lets a review clear only its own provisional hold; a review with a verdict
  clears every gate, for example one that waits for the approval of a paid route.\<close>

theorem unrelated_review_clears_gate:
  assumes "effective_human_gate_from_entries parse_ts now entries profile_name repo_id work_id = Some g"
    and "hg_reason_code g = Some ''policy_approval''"
    and "in_scope parse_ts now profile_name repo_id work_id e" "le_mode e = ''review''" "\<not> le_human_required e"
      "le_review_verdict e = Some v" "le_failure_class e = None" "le_validation_result e = None"
  shows "effective_human_gate_from_entries parse_ts now (entries @ [e]) profile_name repo_id work_id = None"
proof -
  have "\<not> gating e" "releases g e"
    using assms(4-8) by (simp_all add: gating_def releases_def launched_no_backend_def is_some_and_def is_some_def)
  with assms(1,3) show ?thesis by (simp add: gate_snoc gate_step_cases Let_def)
qed

lemma own_alias [simp]: "w \<in> set (work_id_aliases w)"
  by (auto simp: work_id_aliases_def Let_def split: option.split)

lemma append_gateD:
  assumes "append_human_gate_if_transition parse_ts now e ledger = (ledger', Inr True)"
  shows "\<exists>entries w. ledger = Some entries \<and> le_work_id e = Some w \<and> le_human_required e \<and> ledger' = Some (entries @ [e])"
  using assms by (auto simp: append_human_gate_if_transition_def split: if_splits option.splits)

text \<open>A gate is recorded once: when a controller slot appends a gate, the item is gated by exactly
  that entry, and a second slot that tries the same transition, having waited for the lock, writes
  nothing.\<close>

theorem gate_recorded_once:
  assumes "append_human_gate_if_transition parse_ts now e (Some entries) = (ledger', Inr True)"
    and "gating e" "\<not> is_entry_stale parse_ts now e"
  shows "\<exists>w. le_work_id e = Some w
    \<and> effective_human_gate_from_entries parse_ts now (the ledger') (le_profile e) (le_repo_id e) w = Some (gate_of_entry e)
    \<and> append_human_gate_if_transition parse_ts now e ledger' = (ledger', Inr False)"
proof -
  from append_gateD [OF assms(1)] obtain w where
    w: "le_work_id e = Some w" "le_human_required e" "ledger' = Some (entries @ [e])" by auto
  have "in_scope parse_ts now (le_profile e) (le_repo_id e) w e"
    using assms(3) w by (simp add: in_scope_def concerns_def is_some_and_def)
  then have g: "effective_human_gate_from_entries parse_ts now (entries @ [e]) (le_profile e) (le_repo_id e) w
      = Some (gate_of_entry e)"
    by (simp add: gate_snoc gate_step_gating assms(2) Let_def)
  then have "append_human_gate_if_transition parse_ts now e ledger' = (ledger', Inr False)"
    using w by (simp add: append_human_gate_if_transition_def gate_of_entry_def Let_def)
  with g w show ?thesis by simp
qed

subsection \<open>The index\<close>

lemma alias_fold:
  assumes "distinct as"
  shows "map_of (fold (\<lambda>alias ix. omap_put alias (unwrap_or (map_of ix alias) [] @ [e]) ix) as ix) k
    = (if k \<in> set as then Some (unwrap_or (map_of ix k) [] @ [e]) else map_of ix k)"
  using assms by (induction as arbitrary: ix) auto

lemma aliases_distinct: "distinct (work_id_aliases w)"
  by (auto simp: work_id_aliases_def Let_def strip_prefix_Some_iff opt_filter_def split: option.splits if_splits)

definition indexed_under :: "rust_str \<Rightarrow> ledger_entry \<Rightarrow> bool" where
  "indexed_under k e \<longleftrightarrow> is_some_and (le_work_id e) (\<lambda>w. k \<in> set (work_id_aliases w))"

lemma index_step_lookup:
  "unwrap_or (map_of (index_step e ix) k) [] = unwrap_or (map_of ix k) [] @ (if indexed_under k e then [e] else [])"
  by (cases "le_work_id e") (auto simp: index_step_def indexed_under_def is_some_and_def alias_fold aliases_distinct)

lemma index_lookup: "unwrap_or (map_of (index_entries_by_work_id entries) k) [] = filter (indexed_under k) entries"
proof (induction entries rule: rev_induct)
  case (snoc e entries)
  then show ?case by (simp add: index_entries_by_work_id_def index_step_lookup)
qed (simp add: index_entries_by_work_id_def)

lemma gate_from_index:
  "effective_human_gate_from_index parse_ts now index repo_id work_id
   = effective_human_gate_for_scope parse_ts now (unwrap_or (map_of index work_id) []) None repo_id work_id"
  by (cases "map_of index work_id") (simp_all add: effective_human_gate_from_index_def effective_human_gate_for_scope_def)

text \<open>A ticket name is a number, or it has no number.\<close>

definition plain_work_id :: "rust_str \<Rightarrow> bool" where
  "plain_work_id w \<longleftrightarrow>
     (case strip_prefix ''TICKET-'' w of
        None \<Rightarrow> True
      | Some rest \<Rightarrow> takeWhile is_ascii_digit rest = [] \<or> takeWhile is_ascii_digit rest = rest)"

lemma aliases_ticket:
  "ds \<noteq> [] \<Longrightarrow> list_all is_ascii_digit ds \<Longrightarrow> work_id_aliases (''TICKET-'' @ ds) = [''TICKET-'' @ ds, CHR ''#'' # ds]"
  by (simp add: work_id_aliases_def takeWhile_eq_all_conv [THEN iffD2] list_all_iff)

lemma aliases_issue:
  "ds \<noteq> [] \<Longrightarrow> list_all is_ascii_digit ds \<Longrightarrow> work_id_aliases (CHR ''#'' # ds) = [CHR ''#'' # ds, ''TICKET-'' @ ds]"
  by (simp add: work_id_aliases_def opt_filter_def)

lemma alias_symmetric:
  assumes "plain_work_id w" "i \<in> set (work_id_aliases w)"
  shows "w \<in> set (work_id_aliases i)"
proof (cases "i = w")
  case False
  then consider (ticket) ds where "w = ''TICKET-'' @ ds" "i = CHR ''#'' # ds" "ds \<noteq> []" "list_all is_ascii_digit ds"
    | (issue) ds where "w = CHR ''#'' # ds" "i = ''TICKET-'' @ ds" "ds \<noteq> []" "list_all is_ascii_digit ds"
    using assms
    by (auto simp: work_id_aliases_def plain_work_id_def Let_def opt_filter_def strip_prefix_Some_iff takeWhile_eq_all_conv
        list_all_iff split: option.splits if_splits)
      (metis takeWhile.simps(1))
  then show ?thesis
    using aliases_ticket aliases_issue by cases auto
qed simp

text \<open>The index agrees with the scan: for the entries of one profile, the gate looked up through the
  index of work items is the gate found by scanning the whole history, for every item whose ticket name
  is a plain number or has none.\<close>

theorem gate_index_agrees:
  assumes "list_all (\<lambda>e. le_profile e = profile_name) entries" "plain_work_id work_id"
  shows "effective_human_gate_from_index parse_ts now (index_entries_by_work_id entries) repo_id work_id
    = effective_human_gate_from_entries parse_ts now entries profile_name repo_id work_id"
proof -
  have "indexed_under work_id e" if "concerns work_id e" for e
    using that alias_symmetric [OF assms(2)] by (auto simp: concerns_def indexed_under_def is_some_and_def split: option.splits)
  then have "filter (\<lambda>e. le_repo_id e = repo_id \<and> concerns work_id e \<and> \<not> is_entry_stale parse_ts now e)
               (filter (indexed_under work_id) entries)
           = filter (\<lambda>e. le_profile e = profile_name \<and> le_repo_id e = repo_id \<and> concerns work_id e
                         \<and> \<not> is_entry_stale parse_ts now e) entries"
    using assms(1) by (auto simp: list_all_iff intro!: filter_cong)
  then show ?thesis
    by (simp add: gate_from_index index_lookup effective_human_gate_from_entries_def effective_human_gate_for_scope_def
        eq_commute [of profile_name])
qed

subsection \<open>Approvals of paid routes\<close>

definition about_destination :: "(ledger_entry \<Rightarrow> destination) \<Rightarrow> destination \<Rightarrow> ledger_entry \<Rightarrow> bool" where
  "about_destination dest d e \<longleftrightarrow>
     dest e = d \<and> (le_mode e = ''paid_route_approval_grant'' \<or> le_mode e = ''paid_route_approval_revoke'')"

lemma grant_fold:
  "d \<in> fold (grant_step dest) es A
   \<longleftrightarrow> (case filter (about_destination dest d) es of
         [] \<Rightarrow> d \<in> A
       | x # xs \<Rightarrow> le_mode (List.last (x # xs)) = ''paid_route_approval_grant'')"
proof (induction es rule: rev_induct)
  case (snoc e es)
  then show ?case
    by (auto simp: grant_step_def about_destination_def split: list.splits if_splits)
qed simp

text \<open>An approval is exact and revocable: a destination of a paid route is approved for an item
  exactly when the last grant or revocation recorded for this destination in the item's history is a
  grant.\<close>

theorem paid_approval_by_last_record:
  "d \<in> active_paid_route_approval_destinations_from_entries entries profile_name work_id
   \<longleftrightarrow> (case filter (\<lambda>e. le_profile e = profile_name \<and> concerns work_id e \<and> about_destination approval_destination d e) entries of
         [] \<Rightarrow> False
       | x # xs \<Rightarrow> le_mode (List.last (x # xs)) = ''paid_route_approval_grant'')"
  by (simp add: active_paid_route_approval_destinations_from_entries_def grant_fold split: list.split)

subsection \<open>Finished reviews\<close>

lemma after_last_snoc: "after_last P (xs @ [x]) = (if P x then [] else after_last P xs @ [x])"
  by (simp add: after_last_def)

text \<open>A commit is reviewed once per reviewer class until an operator resets the item: a finished
  review suppresses another one for the same commit and description whatever is recorded later, and a
  reset makes the next review possible again.\<close>

theorem reviewed_until_reset:
  assumes "review_already_exists entries profile_name repo_id work_id sha fingerprint cls"
  shows "review_already_exists (entries @ [e]) profile_name repo_id work_id sha fingerprint cls
    \<longleftrightarrow> \<not> is_reset profile_name repo_id work_id e"
  using assms by (auto simp: review_already_exists_def after_last_snoc)

subsection \<open>Concrete inputs\<close>

definition blank_entry :: "rust_str \<Rightarrow> rust_str option \<Rightarrow> ledger_entry" where
  "blank_entry mode work_id =
     \<lparr> le_timestamp = ''0'', le_profile = ''p'', le_repo_id = ''r'', le_effective_backend = ''codex'',
       le_effective_model = None, le_backend_instance = None, le_human_required = False,
       le_human_required_reason_code = None, le_routing_candidates = None, le_mode = mode, le_work_id = work_id,
       le_branch = None, le_duration_seconds = None, le_validation_result = None, le_review_verdict = None,
       le_reviewer_backend = None, le_reviewer_model = None, le_review_source_sha = None,
       le_review_metadata_fingerprint = None, le_review_contract_version = None, le_review_generation = None,
       le_reviewer_class = None, le_review_gate_reason = None, le_review_blocking_findings = [],
       le_error_summary = None, le_failure_class = None, le_attempts_started = None, le_dispatch_reason = None,
       le_external_approval = None, le_confidence_impact = None, le_usage_classification = None,
       le_mr_url = None, le_session_id = None,
       le_session_dir = None, le_failure_stage = None \<rparr>"

definition ex_gate :: ledger_entry where
  "ex_gate = (blank_entry ''improve'' (Some ''#42''))\<lparr> le_human_required := True,
     le_human_required_reason_code := Some ''policy_approval'' \<rparr>"

definition ex_review :: "rust_str option \<Rightarrow> ledger_entry" where
  "ex_review verdict = (blank_entry ''review'' (Some ''TICKET-42''))\<lparr> le_review_verdict := verdict,
     le_review_source_sha := Some ''sha'', le_review_metadata_fingerprint := Some ''m'',
     le_review_contract_version := Some 1, le_review_generation := Some ''review-v1:sha:m'',
     le_reviewer_class := Some ''strong'' \<rparr>"

lemma ex_aliases: "work_id_aliases ''#42'' = [''#42'', ''TICKET-42'']" "work_id_aliases ''TICKET-42'' = [''TICKET-42'', ''#42'']"
  by (simp_all add: work_id_aliases_def opt_filter_def is_ascii_digit_def)

lemmas ledger_eval =
  blank_entry_def ex_gate_def ex_review_def effective_human_gate_from_entries_def effective_human_gate_for_scope_def
  concerns_def is_some_and_def ex_aliases is_entry_stale_def entry_time_def LEDGER_ENTRY_STALE_AFTER_def gate_step_def
  launched_no_backend_def is_review_derived_gate_def is_review_job_def job_kind_parse_def gate_reason_def control_modes_def
  CURRENT_REVIEW_CONTRACT_VERSION_def unwrap_or_def is_some_def Let_def

lemma ex_gated: "effective_human_gate_from_entries (\<lambda>_. Some 0) 0 [ex_gate] ''p'' ''r'' ''#42'' = Some (gate_of_entry ex_gate)"
  by (simp add: ledger_eval)

theorem human_gate_is_latched_witness:
  "effective_human_gate_from_entries (\<lambda>_. Some 0) 0 [ex_gate, ex_review None] ''p'' ''r'' ''#42'' = Some (gate_of_entry ex_gate)"
proof -
  have "in_scope (\<lambda>_. Some 0) 0 ''p'' ''r'' ''#42'' ex_gate" "gating ex_gate" "\<not> gating (ex_review None)"
    "\<not> releases (gate_of_entry ex_gate) (ex_review None)"
    by (simp_all add: in_scope_def gating_def releases_def ledger_eval)
  then show ?thesis
    unfolding human_gate_is_latched
    by (intro exI [of _ "[]"] exI [of _ ex_gate] exI [of _ "[ex_review None]"]) simp
qed

theorem unrelated_review_clears_gate_witness:
  "hg_reason_code (gate_of_entry ex_gate) = Some ''policy_approval''
   \<and> effective_human_gate_from_entries (\<lambda>_. Some 0) 0 [ex_gate, ex_review (Some ''APPROVE'')] ''p'' ''r'' ''#42'' = None"
  using unrelated_review_clears_gate [OF ex_gated, of "ex_review (Some ''APPROVE'')" "''APPROVE''"]
  by (simp add: in_scope_def gate_of_entry_def ledger_eval)

theorem gate_recorded_once_witness:
  "append_human_gate_if_transition (\<lambda>_. Some 0) 0 ex_gate (Some []) = (Some [ex_gate], Inr True)
   \<and> append_human_gate_if_transition (\<lambda>_. Some 0) 0 ex_gate (Some [ex_gate]) = (Some [ex_gate], Inr False)"
proof -
  have first: "append_human_gate_if_transition (\<lambda>_. Some 0) 0 ex_gate (Some []) = (Some [ex_gate], Inr True)"
    by (simp add: append_human_gate_if_transition_def ledger_eval)
  have "gating ex_gate" "\<not> is_entry_stale (\<lambda>_. Some 0) 0 ex_gate"
    by (simp_all add: gating_def ledger_eval)
  from gate_recorded_once [OF first this] first show ?thesis by auto
qed

theorem gate_index_agrees_witness:
  "effective_human_gate_from_index (\<lambda>_. Some 0) 0 (index_entries_by_work_id [ex_gate]) ''r'' ''TICKET-42''
   = Some (gate_of_entry ex_gate)"
proof -
  have "list_all (\<lambda>e. le_profile e = ''p'') [ex_gate]" "plain_work_id ''TICKET-42''"
    by (simp_all add: plain_work_id_def ledger_eval is_ascii_digit_def)
  from gate_index_agrees [OF this] show ?thesis
    by (simp add: ledger_eval)
qed

theorem reviewed_until_reset_witness:
  "review_already_exists [ex_review (Some ''APPROVE''), ex_gate] ''p'' ''r'' ''#42'' ''sha'' ''m'' ''strong''"
proof -
  have "review_already_exists [ex_review (Some ''APPROVE'')] ''p'' ''r'' ''#42'' ''sha'' ''m'' ''strong''"
    by (simp add: review_already_exists_def after_last_def is_reset_def review_is_dedup_eligible_def review_generation_def
        opt_filter_def trim_def trim_end_def ws1_def ws2_def ws3_def ledger_eval nat_str.simps digit_char_def char_of_def bit_0)
  from reviewed_until_reset [OF this, of ex_gate] show ?thesis
    by (simp add: is_reset_def ledger_eval)
qed

end
