(* ===== verification/External_Approval.thy ===== *)
theory External_Approval
  imports Ledger Quota_Store
begin

text \<open>
  External approvals (\<open>src/ledger/approvals.rs\<close>): an operator grants a work item the use of named
  credentials for one kind of operation, within a request count, a dollar cap and an expiry.  Requests,
  grants, consumptions and endings are ledger records; the state of a scope is a fold over them.
\<close>

subsection \<open>The state of one scope\<close>

record external_approval_tally =
  at_request :: "external_approval_record option"
  at_grant :: "external_approval_record option"
  at_consumed_requests :: nat
  at_consumed_dollars :: "rat option"
  at_dollars_unknown :: bool
  at_revoked :: bool
  at_expired :: bool
  at_denied_reason :: "rust_str option"

definition default_tally :: external_approval_tally where
  "default_tally =
     \<lparr> at_request = None, at_grant = None, at_consumed_requests = 0, at_consumed_dollars = None,
       at_dollars_unknown = False, at_revoked = False, at_expired = False, at_denied_reason = None \<rparr>"

record external_approval_scope_state =
  as_approval :: external_approval_record
  as_tally :: external_approval_tally

record external_approval_state_eval =
  av_state :: rust_str
  av_active :: bool
  av_denial_reason :: "rust_str option"

definition recorded_state :: "external_approval_record \<Rightarrow> external_approval_tally \<Rightarrow> rust_str" where
  "recorded_state a t =
     unwrap_or (ea_state a)
       (if is_some (at_request t) \<and> at_grant t = None then ''requested''
        else if 0 < at_consumed_requests t \<or> is_some (at_consumed_dollars t) then ''consumed''
        else ''approved'')"

text \<open>The part of \<open>approval_state\<close> before the caps.\<close>

definition lifecycle_state ::
  "(rust_str \<Rightarrow> int option) \<Rightarrow> int \<Rightarrow> external_approval_record \<Rightarrow> external_approval_tally
   \<Rightarrow> external_approval_state_eval" where
  "lifecycle_state parse_ts now a t =
     (let state = recorded_state a t;
          active = (is_some (at_grant t) \<and> state \<noteq> ''requested'' \<and> state \<noteq> ''completed'');
          denial = opt_or (at_denied_reason t) (ea_denial_reason a);
          expiry = map_option parse_ts (ea_expires_at a);
          expired_now = (case expiry of Some (Some e) \<Rightarrow> e \<le> now | _ \<Rightarrow> False)
      in if at_revoked t \<or> ea_state a = Some ''revoked''
         then \<lparr> av_state = ''revoked'', av_active = False, av_denial_reason = denial \<rparr>
         else if at_expired t \<or> ea_state a = Some ''expired'' \<or> expired_now
         then \<lparr> av_state = ''expired'', av_active = False, av_denial_reason = opt_or denial (Some ''expired'') \<rparr>
         else if expiry = Some None
         then \<lparr> av_state = ''denied'', av_active = False,
                av_denial_reason = opt_or denial (Some ''invalid expiry timestamp'') \<rparr>
         else if is_some (at_denied_reason t) \<or> ea_state a = Some ''denied''
         then \<lparr> av_state = ''denied'', av_active = False, av_denial_reason = denial \<rparr>
         else if state = ''requested''
         then \<lparr> av_state = state, av_active = False, av_denial_reason = denial \<rparr>
         else if state = ''consumed''
         then \<lparr> av_state = state, av_active = is_some (at_grant t), av_denial_reason = denial \<rparr>
         else \<lparr> av_state = state, av_active = active, av_denial_reason = denial \<rparr>)"

definition deny :: "rust_str \<Rightarrow> external_approval_state_eval \<Rightarrow> external_approval_state_eval" where
  "deny rsn v = \<lparr> av_state = ''denied'', av_active = False, av_denial_reason = opt_or (av_denial_reason v) (Some rsn) \<rparr>"

definition request_cap ::
  "external_approval_record \<Rightarrow> external_approval_tally \<Rightarrow> external_approval_state_eval \<Rightarrow> external_approval_state_eval" where
  "request_cap a t v =
     (case ea_max_requests a of
        None \<Rightarrow> v
      | Some m \<Rightarrow> if m \<le> at_consumed_requests t then deny ''request cap reached'' v else v)"

definition dollar_cap ::
  "external_approval_record \<Rightarrow> external_approval_tally \<Rightarrow> external_approval_state_eval \<Rightarrow> external_approval_state_eval" where
  "dollar_cap a t v =
     (case ea_max_dollars a of
        None \<Rightarrow> v
      | Some cap \<Rightarrow>
          if at_dollars_unknown t then deny ''usage unknown'' v
          else (case cap of
                  Finite m \<Rightarrow> if m \<le> unwrap_or (at_consumed_dollars t) 0 then deny ''dollar cap reached'' v else v
                | NonFinite \<Rightarrow> v))"

definition invalid_cap :: "f64 option \<Rightarrow> bool" where
  "invalid_cap cap = is_some_and cap (\<lambda>c. case c of Finite m \<Rightarrow> m < 0 | NonFinite \<Rightarrow> True)"

definition approval_state ::
  "(rust_str \<Rightarrow> int option) \<Rightarrow> int \<Rightarrow> external_approval_record \<Rightarrow> external_approval_tally
   \<Rightarrow> external_approval_state_eval" where
  "approval_state parse_ts now a t =
     (let v = lifecycle_state parse_ts now a t
      in if invalid_cap (ea_max_dollars a)
         then \<lparr> av_state = ''denied'', av_active = False, av_denial_reason = Some ''invalid dollar cap'' \<rparr>
         else if av_active v
         then (let w = request_cap a t v in if av_active w then dollar_cap a t w else w)
         else v)"

subsection \<open>The fold over the ledger\<close>

definition merge_external_approval_record ::
  "external_approval_record \<Rightarrow> external_approval_record \<Rightarrow> external_approval_record" where
  "merge_external_approval_record current update =
     current\<lparr> ea_state := (if is_some (ea_state update) then ea_state update else ea_state current),
             ea_denial_reason := (if is_some (ea_denial_reason update) then ea_denial_reason update
                                  else ea_denial_reason current) \<rparr>"

text \<open>Addition of binary64 values: rounded, and not finite beyond the greatest value.\<close>

definition F64_MAX :: rat where "F64_MAX = (2 ^ 53 - 1) * 2 ^ 971"

definition f64_add :: "rat \<Rightarrow> rat \<Rightarrow> f64" where
  "f64_add a b = (let r = f64_round (a + b) in if \<bar>r\<bar> \<le> F64_MAX then Finite r else NonFinite)"

definition saturating_add_u64 :: "nat \<Rightarrow> nat \<Rightarrow> nat" where
  "saturating_add_u64 a b = min (a + b) u64_max"

definition spend :: "f64 option \<Rightarrow> external_approval_tally \<Rightarrow> external_approval_tally" where
  "spend dollars t =
     (case dollars of
        Some (Finite d) \<Rightarrow>
          if 0 \<le> d
          then (case f64_add (unwrap_or (at_consumed_dollars t) 0) d of
                  Finite s \<Rightarrow> t\<lparr> at_consumed_dollars := Some s \<rparr>
                | NonFinite \<Rightarrow> t\<lparr> at_dollars_unknown := True \<rparr>)
          else t\<lparr> at_dollars_unknown := True \<rparr>
      | _ \<Rightarrow> t\<lparr> at_dollars_unknown := True \<rparr>)"

type_synonym scope_key = "rust_str \<times> rust_str"

definition scope_key :: "external_approval_record \<Rightarrow> scope_key" where
  "scope_key a = (unwrap_or (ea_credential_label a) [], unwrap_or (ea_operation_kind a) [])"

definition denial_text :: "external_approval_record \<Rightarrow> rust_str option" where
  "denial_text a = opt_or (ea_denial_reason a) (Some ''denied'')"

text \<open>One record of a scope.  A request and a grant start the scope anew.\<close>

definition scope_step ::
  "rust_str \<Rightarrow> external_approval_record \<Rightarrow> external_approval_scope_state option
   \<Rightarrow> external_approval_scope_state option" where
  "scope_step mode a s =
     (let merged = (\<lambda>st. st\<lparr> as_approval := merge_external_approval_record (as_approval st) a \<rparr>);
          fresh = (\<lambda>t. Some \<lparr> as_approval = a, as_tally = t \<rparr>)
      in if mode = ''external_approval_request'' then fresh (default_tally\<lparr> at_request := Some a \<rparr>)
         else if mode = ''external_approval_grant'' then fresh (default_tally\<lparr> at_grant := Some a \<rparr>)
         else if mode = ''external_approval_consume''
         then map_option (\<lambda>st. (merged st)\<lparr> as_tally := spend (ea_consumed_dollars a)
                 ((as_tally st)\<lparr> at_consumed_requests :=
                    saturating_add_u64 (at_consumed_requests (as_tally st)) (unwrap_or (ea_consumed_requests a) 1) \<rparr>) \<rparr>) s
         else if mode = ''external_approval_revoke''
         then (case s of
                 Some st \<Rightarrow> Some ((merged st)\<lparr> as_tally := (as_tally st)\<lparr> at_revoked := True \<rparr> \<rparr>)
               | None \<Rightarrow> fresh default_tally)
         else if mode = ''external_approval_expire''
         then (case s of
                 Some st \<Rightarrow> Some ((merged st)\<lparr> as_tally := (as_tally st)\<lparr> at_expired := True \<rparr> \<rparr>)
               | None \<Rightarrow> fresh default_tally)
         else if mode = ''external_approval_deny''
         then (case s of
                 Some st \<Rightarrow> Some ((merged st)\<lparr> as_tally := (as_tally st)\<lparr> at_denied_reason := denial_text a \<rparr> \<rparr>)
               | None \<Rightarrow> fresh (default_tally\<lparr> at_denied_reason := denial_text a \<rparr>))
         else if mode = ''external_approval_complete'' then map_option merged s
         else s)"

type_synonym scope_states = "(scope_key \<times> external_approval_scope_state) list"

definition approval_step :: "ledger_entry \<Rightarrow> scope_states \<Rightarrow> scope_states" where
  "approval_step e states =
     (case le_external_approval e of
        None \<Rightarrow> states
      | Some a \<Rightarrow>
          (case scope_step (le_mode e) a (map_of states (scope_key a)) of
             None \<Rightarrow> states
           | Some st \<Rightarrow> omap_put (scope_key a) st states))"

definition of_work_item :: "rust_str \<Rightarrow> rust_str \<Rightarrow> rust_str \<Rightarrow> ledger_entry \<Rightarrow> bool" where
  "of_work_item profile_name repo_id work_id e =
     (le_profile e = profile_name \<and> le_repo_id e = repo_id \<and> le_work_id e = Some work_id)"

definition scope_states_from_entries ::
  "ledger_entry list \<Rightarrow> rust_str \<Rightarrow> rust_str \<Rightarrow> rust_str \<Rightarrow> scope_states" where
  "scope_states_from_entries entries profile_name repo_id work_id =
     fold approval_step (filter (of_work_item profile_name repo_id work_id) entries) []"

subsection \<open>Snapshots\<close>

record external_approval_snapshot =
  es_profile :: rust_str
  es_repo_id :: rust_str
  es_work_id :: rust_str
  es_credential_label :: rust_str
  es_operation_kind :: rust_str
  es_state :: rust_str
  es_active :: bool
  es_allowed_env_vars :: "rust_str list"
  es_max_requests :: "nat option"
  es_max_dollars :: "f64 option"
  es_expires_at :: "rust_str option"
  es_purpose :: "rust_str option"
  es_consumed_requests :: nat
  es_consumed_dollars :: "rat option"
  es_denial_reason :: "rust_str option"

definition snapshot_of ::
  "(rust_str \<Rightarrow> int option) \<Rightarrow> int \<Rightarrow> rust_str \<Rightarrow> rust_str \<Rightarrow> rust_str \<Rightarrow> scope_key \<times> external_approval_scope_state
   \<Rightarrow> external_approval_snapshot" where
  "snapshot_of parse_ts now profile_name repo_id work_id = (\<lambda>((label, op), st).
     let v = approval_state parse_ts now (as_approval st) (as_tally st); a = as_approval st
     in \<lparr> es_profile = profile_name, es_repo_id = repo_id, es_work_id = work_id, es_credential_label = label,
          es_operation_kind = op, es_state = av_state v, es_active = av_active v,
          es_allowed_env_vars = ea_allowed_env_vars a, es_max_requests = ea_max_requests a,
          es_max_dollars = ea_max_dollars a, es_expires_at = ea_expires_at a, es_purpose = ea_purpose a,
          es_consumed_requests = at_consumed_requests (as_tally st),
          es_consumed_dollars = at_consumed_dollars (as_tally st), es_denial_reason = av_denial_reason v \<rparr>)"

definition external_approval_snapshot_from_entries ::
  "(rust_str \<Rightarrow> int option) \<Rightarrow> int \<Rightarrow> ledger_entry list \<Rightarrow> rust_str \<Rightarrow> rust_str \<Rightarrow> rust_str \<Rightarrow> rust_str \<Rightarrow> rust_str
   \<Rightarrow> external_approval_snapshot option" where
  "external_approval_snapshot_from_entries parse_ts now entries profile_name repo_id work_id label op =
     map_option (\<lambda>st. snapshot_of parse_ts now profile_name repo_id work_id ((label, op), st))
       (map_of (scope_states_from_entries entries profile_name repo_id work_id) (label, op))"

text \<open>Sorted by item, label and operation: the items in order, each with its ordered map of scopes.\<close>

definition external_approval_snapshots_from_entries ::
  "(rust_str \<Rightarrow> int option) \<Rightarrow> int \<Rightarrow> ledger_entry list \<Rightarrow> rust_str \<Rightarrow> rust_str \<Rightarrow> external_approval_snapshot list" where
  "external_approval_snapshots_from_entries parse_ts now entries profile_name repo_id =
     concat (map (\<lambda>w. map (snapshot_of parse_ts now profile_name repo_id w)
                        (scope_states_from_entries entries profile_name repo_id w))
       (sorted_list_of_set (set (List.map_filter le_work_id
          (filter (\<lambda>e. le_profile e = profile_name \<and> le_repo_id e = repo_id \<and> is_some (le_external_approval e)) entries)))))"

subsection \<open>Use of a grant\<close>

text \<open>The states of one label; several operations of one credential are ambiguous.\<close>

definition sole_state :: "scope_states \<Rightarrow> rust_str \<Rightarrow> external_approval_scope_state option" where
  "sole_state states label =
     (case filter (\<lambda>((l, _), _). l = label) states of [(_, st)] \<Rightarrow> Some st | _ \<Rightarrow> None)"

definition labels_of :: "scope_states \<Rightarrow> rust_str list" where
  "labels_of states = remdups (map (fst \<circ> fst) states)"

definition active_external_approval_env_vars_from_entries ::
  "(rust_str \<Rightarrow> int option) \<Rightarrow> int \<Rightarrow> ledger_entry list \<Rightarrow> rust_str \<Rightarrow> rust_str \<Rightarrow> rust_str \<Rightarrow> rust_str set" where
  "active_external_approval_env_vars_from_entries parse_ts now entries profile_name repo_id work_id =
     (let states = scope_states_from_entries entries profile_name repo_id work_id
      in set (concat (map (\<lambda>label.
           case sole_state states label of
             None \<Rightarrow> []
           | Some st \<Rightarrow> if av_active (approval_state parse_ts now (as_approval st) (as_tally st))
                        then ea_allowed_env_vars (as_approval st) else []) (labels_of states))))"

text \<open>\<open>LedgerEntry::new_external_approval\<close>: \<open>stamp\<close> is the control record of the work item with its
  profile, repository and time.\<close>

definition new_external_approval ::
  "ledger_entry \<Rightarrow> rust_str \<Rightarrow> rust_str \<Rightarrow> external_approval_record \<Rightarrow> ledger_entry" where
  "new_external_approval stamp work_id mode a =
     stamp\<lparr> le_mode := mode, le_work_id := Some work_id, le_external_approval := Some a \<rparr>"

definition consumption_of :: "external_approval_record \<Rightarrow> external_approval_record" where
  "consumption_of a = a\<lparr> ea_state := Some ''consumed'', ea_consumed_requests := Some 1,
     ea_consumed_dollars := None, ea_denial_reason := None \<rparr>"

definition consumptions ::
  "(rust_str \<Rightarrow> int option) \<Rightarrow> int \<Rightarrow> (rust_str \<Rightarrow> rust_str list option) \<Rightarrow> ledger_entry \<Rightarrow> rust_str \<Rightarrow> scope_states
   \<Rightarrow> ledger_entry list" where
  "consumptions parse_ts now credential_scope stamp work_id states =
     List.map_filter (\<lambda>label.
       case (sole_state states label, credential_scope label) of
         (Some st, Some vars) \<Rightarrow>
           if vars = [] \<or> \<not> av_active (approval_state parse_ts now (as_approval st) (as_tally st)) then None
           else Some (new_external_approval stamp work_id ''external_approval_consume'' (consumption_of (as_approval st)))
       | _ \<Rightarrow> None) (labels_of states)"

definition record_external_approval_consumption_for_work_item ::
  "(rust_str \<Rightarrow> int option) \<Rightarrow> int \<Rightarrow> (rust_str \<Rightarrow> rust_str list option) \<Rightarrow> ledger_entry \<Rightarrow> rust_str option \<Rightarrow> ledger_file
   \<Rightarrow> ledger_file \<times> nat" where
  "record_external_approval_consumption_for_work_item parse_ts now credential_scope stamp work_id ledger =
     (case (work_id, ledger) of
        (Some w, Some entries) \<Rightarrow>
          let cs = consumptions parse_ts now credential_scope stamp w
                     (scope_states_from_entries entries (le_profile stamp) (le_repo_id stamp) w)
          in (Some (entries @ cs), length cs)
      | _ \<Rightarrow> (ledger, 0))"

subsection \<open>Recording a transition\<close>

definition bad_identifier :: "rust_str \<Rightarrow> bool" where
  "bad_identifier v = (trim v = [] \<or> trim v \<noteq> v \<or> has_control v)"

definition positive_cap :: "f64 option \<Rightarrow> bool" where
  "positive_cap cap = (case cap of None \<Rightarrow> True | Some (Finite m) \<Rightarrow> 0 < m | Some NonFinite \<Rightarrow> False)"

definition f64_le :: "f64 \<Rightarrow> f64 \<Rightarrow> bool" where
  "f64_le a b = (case (a, b) of (Finite x, Finite y) \<Rightarrow> x \<le> y | _ \<Rightarrow> False)"

text \<open>The checks of a grant against the pending request, first failure first.\<close>

definition grant_refusal ::
  "(rust_str \<Rightarrow> int option) \<Rightarrow> external_approval_snapshot \<Rightarrow> int option \<Rightarrow> external_approval_record \<Rightarrow> rust_str option" where
  "grant_refusal parse_ts requested expiry a =
     (if es_state requested \<noteq> ''requested''
      then Some ''approval is not pending; record a new request before granting again''
      else if es_max_requests requested = Some 0 \<or> \<not> positive_cap (es_max_dollars requested)
      then Some ''pending request has invalid bounds; record a new request''
      else if ea_allowed_env_vars a = []
              \<or> \<not> list_all (\<lambda>name. name \<in> set (es_allowed_env_vars requested)) (ea_allowed_env_vars a)
      then Some ''configured credentials exceed the requested scope; record a new request''
      else if (case (ea_max_requests a, es_max_requests requested) of (Some g, Some r) \<Rightarrow> r < g | _ \<Rightarrow> False)
      then Some ''request cap exceeds the pending request''
      else if (case (ea_max_dollars a, es_max_dollars requested) of (Some g, Some r) \<Rightarrow> \<not> f64_le g r | _ \<Rightarrow> False)
      then Some ''dollar cap exceeds the pending request''
      else if (case es_expires_at requested of
                 None \<Rightarrow> False
               | Some r \<Rightarrow> (case parse_ts r of None \<Rightarrow> True | Some _ \<Rightarrow> False))
      then Some ''pending request has invalid expiry''
      else if (case Option.bind (es_expires_at requested) parse_ts of
                 Some r \<Rightarrow> is_some_and expiry (\<lambda>g. r < g)
               | None \<Rightarrow> False)
      then Some ''expiry exceeds the pending request''
      else if ea_purpose a \<noteq> None \<and> ea_purpose a \<noteq> es_purpose requested
      then Some ''purpose differs from the pending request; record a new request''
      else None)"

definition inherit_bounds :: "external_approval_snapshot \<Rightarrow> external_approval_record \<Rightarrow> external_approval_record" where
  "inherit_bounds requested a =
     a\<lparr> ea_max_requests := opt_or (ea_max_requests a) (es_max_requests requested),
        ea_max_dollars := opt_or (ea_max_dollars a) (es_max_dollars requested),
        ea_expires_at := opt_or (ea_expires_at a) (es_expires_at requested),
        ea_purpose := opt_or (ea_purpose a) (es_purpose requested) \<rparr>"

definition prepare_external_approval ::
  "(rust_str \<Rightarrow> int option) \<Rightarrow> int \<Rightarrow> ledger_entry list \<Rightarrow> ledger_entry \<Rightarrow> (ledger_error, ledger_entry) rust_result" where
  "prepare_external_approval parse_ts now entries e =
     (let refuse = (\<lambda>s. Inl (ApprovalRefused s))
      in case le_work_id e of
           None \<Rightarrow> refuse ''approval requires a work item''
         | Some work_id \<Rightarrow>
      (case le_external_approval e of
           None \<Rightarrow> refuse ''approval scope is missing''
         | Some a \<Rightarrow>
      (case (ea_credential_label a, ea_operation_kind a) of
           (None, _) \<Rightarrow> refuse ''credential label is missing''
         | (Some label, None) \<Rightarrow> refuse ''operation kind is missing''
         | (Some label, Some op) \<Rightarrow>
      if list_ex bad_identifier [le_profile e, le_repo_id e, work_id, label, op]
      then refuse ''approval identifiers must be nonempty and contain no control characters''
      else if is_some_and (ea_purpose a) (\<lambda>p. trim p = [] \<or> has_control p)
      then refuse ''approval purpose must be nonempty and contain no control characters''
      else if ea_max_requests a = Some 0 then refuse ''--max-requests must be positive''
      else if \<not> positive_cap (ea_max_dollars a) then refuse ''--max-dollars must be finite and positive''
      else (case map_option parse_ts (ea_expires_at a) of
              Some None \<Rightarrow> refuse ''--expires-at must be a valid RFC3339 timestamp''
            | parsed \<Rightarrow>
                let expiry = Option.bind parsed (\<lambda>x. x)
                in if is_some_and expiry (\<lambda>t. t \<le> now) then refuse ''--expires-at must be in the future''
                   else if le_mode e = ''external_approval_request''
                   then (if ea_allowed_env_vars a = [] then refuse ''choose a configured credential scope'' else Inr e)
                   else if le_mode e = ''external_approval_grant''
                   then (case external_approval_snapshot_from_entries parse_ts now entries (le_profile e) (le_repo_id e)
                                work_id label op of
                           None \<Rightarrow> refuse ''no matching pending request; record an external-approval request first''
                         | Some requested \<Rightarrow>
                             (case grant_refusal parse_ts requested expiry a of
                                Some msg \<Rightarrow> refuse msg
                              | None \<Rightarrow> Inr (e\<lparr> le_external_approval := Some (inherit_bounds requested a) \<rparr>)))
                   else if le_mode e \<in> {''external_approval_revoke'', ''external_approval_expire'',
                                        ''external_approval_deny'', ''external_approval_complete''} then Inr e
                   else refuse ''unsupported external approval transition''))))"

definition append_external_approval ::
  "(rust_str \<Rightarrow> int option) \<Rightarrow> int \<Rightarrow> ledger_entry \<Rightarrow> ledger_file \<Rightarrow> ledger_file \<times> (ledger_error, ledger_entry) rust_result" where
  "append_external_approval parse_ts now e ledger =
     (case ledger of
        None \<Rightarrow> (ledger, Inl UnreadableLedger)
      | Some entries \<Rightarrow>
          (case prepare_external_approval parse_ts now entries e of
             Inl err \<Rightarrow> (ledger, Inl err)
           | Inr e' \<Rightarrow> (Some (entries @ [e']), Inr e')))"

definition completion_of :: "external_approval_snapshot \<Rightarrow> external_approval_record" where
  "completion_of s =
     \<lparr> ea_state = Some ''completed'', ea_operation_kind = Some (es_operation_kind s),
       ea_credential_label = Some (es_credential_label s), ea_allowed_env_vars = [], ea_max_requests = None,
       ea_max_dollars = None, ea_expires_at = None, ea_purpose = None, ea_consumed_requests = None,
       ea_consumed_dollars = None, ea_denial_reason = None \<rparr>"

definition completes :: "rust_str \<Rightarrow> external_approval_snapshot \<Rightarrow> bool" where
  "completes work_id s =
     (es_work_id s = work_id \<and> 0 < es_consumed_requests s
      \<and> (es_state s = ''consumed''
          \<or> is_some_and (es_denial_reason s)
              (\<lambda>r. r \<in> {''request cap reached'', ''dollar cap reached'', ''usage unknown''})))"

text \<open>The first error ends the loop; what was appended before stays.\<close>

fun complete_each ::
  "(rust_str \<Rightarrow> int option) \<Rightarrow> int \<Rightarrow> ledger_entry \<Rightarrow> rust_str \<Rightarrow> external_approval_snapshot list \<Rightarrow> nat \<Rightarrow> ledger_file
   \<Rightarrow> ledger_file \<times> (ledger_error, nat) rust_result" where
  "complete_each parse_ts now stamp work_id [] n ledger = (ledger, Inr n)"
| "complete_each parse_ts now stamp work_id (s # ss) n ledger =
     (case append_external_approval parse_ts now
             (new_external_approval stamp work_id ''external_approval_complete'' (completion_of s)) ledger of
        (ledger', Inl err) \<Rightarrow> (ledger', Inl err)
      | (ledger', Inr _) \<Rightarrow> complete_each parse_ts now stamp work_id ss (Suc n) ledger')"

definition complete_external_approvals_for_work_item ::
  "(rust_str \<Rightarrow> int option) \<Rightarrow> int \<Rightarrow> ledger_entry \<Rightarrow> rust_str option \<Rightarrow> ledger_file
   \<Rightarrow> ledger_file \<times> (ledger_error, nat) rust_result" where
  "complete_external_approvals_for_work_item parse_ts now stamp work_id ledger =
     (case work_id of
        None \<Rightarrow> (ledger, Inr 0)
      | Some w \<Rightarrow>
          (case ledger of
             None \<Rightarrow> (ledger, Inl UnreadableLedger)
           | Some entries \<Rightarrow>
               complete_each parse_ts now stamp w
                 (filter (completes w) (external_approval_snapshots_from_entries parse_ts now entries
                                          (le_profile stamp) (le_repo_id stamp))) 0 ledger))"

end
