(* ===== verification/External_Approval_Props.thy ===== *)
theory External_Approval_Props
  imports External_Approval Ledger_Props
begin

text \<open>
  Properties of external approvals: when a credential is released to a worker, and how far a grant may
  go beyond its request.
\<close>

subsection \<open>The history of a scope\<close>

type_synonym approval_event = "rust_str \<times> external_approval_record"

definition approval_modes :: "rust_str list" where
  "approval_modes = [''external_approval_request'', ''external_approval_grant'', ''external_approval_consume'',
     ''external_approval_revoke'', ''external_approval_expire'', ''external_approval_deny'', ''external_approval_complete'']"

definition event_of :: "scope_key \<Rightarrow> ledger_entry \<Rightarrow> approval_event option" where
  "event_of key e = Option.bind (le_external_approval e) (\<lambda>a.
     if scope_key a = key \<and> le_mode e \<in> set approval_modes then Some (le_mode e, a) else None)"

definition scope_history :: "ledger_entry list \<Rightarrow> rust_str \<Rightarrow> rust_str \<Rightarrow> rust_str \<Rightarrow> scope_key \<Rightarrow> approval_event list" where
  "scope_history entries profile_name repo_id work_id key =
     List.map_filter (event_of key) (filter (of_work_item profile_name repo_id work_id) entries)"

definition run :: "approval_event list \<Rightarrow> external_approval_scope_state option \<Rightarrow> external_approval_scope_state option" where
  "run = fold (\<lambda>(mode, a). scope_step mode a)"

lemma run_simps [simp]: "run [] s = s" "run ((mode, a) # es) s = run es (scope_step mode a s)"
  "run (es @ fs) s = run fs (run es s)"
  by (simp_all add: run_def)

lemma scope_step_Some: "scope_step mode a (Some st) \<noteq> None"
  by (simp add: scope_step_def Let_def)

lemma scope_step_other: "mode \<notin> set approval_modes \<Longrightarrow> scope_step mode a s = s"
  by (simp add: scope_step_def approval_modes_def Let_def)

lemma approval_step_lookup:
  "map_of (approval_step e states) key
   = (case event_of key e of None \<Rightarrow> map_of states key | Some (mode, a) \<Rightarrow> scope_step mode a (map_of states key))"
proof (cases "le_external_approval e")
  case (Some a)
  show ?thesis
  proof (cases "scope_step (le_mode e) a (map_of states (scope_key a))")
    case None
    then have "map_of states (scope_key a) = None" using scope_step_Some by (metis option.exhaust)
    then show ?thesis using None Some by (auto simp: approval_step_def event_of_def scope_step_other)
  next
    case (Some st)
    then show ?thesis using \<open>le_external_approval e = Some a\<close>
      by (auto simp: approval_step_def event_of_def scope_step_other)
  qed
qed (simp add: approval_step_def event_of_def)

lemma fold_approval_lookup:
  "map_of (fold approval_step es states) key = run (List.map_filter (event_of key) es) (map_of states key)"
  by (induction es arbitrary: states) (auto simp: approval_step_lookup map_filter_simps split: option.split)

lemma scope_state_lookup:
  "map_of (scope_states_from_entries entries p r w) key = run (scope_history entries p r w key) None"
  by (simp add: scope_states_from_entries_def scope_history_def fold_approval_lookup)

lemma omap_ok_approval_step: "omap_ok states \<Longrightarrow> omap_ok (approval_step e states)"
  by (simp add: approval_step_def split: option.split)

lemma scope_states_ok: "omap_ok (scope_states_from_entries entries p r w)"
proof -
  have "omap_ok (fold approval_step es states)" if "omap_ok states" for es states
    using that by (induction es arbitrary: states) (auto simp: omap_ok_approval_step)
  then show ?thesis by (simp add: scope_states_from_entries_def)
qed

subsection \<open>After a grant\<close>

definition opens :: "approval_event \<Rightarrow> bool" where
  "opens ev \<longleftrightarrow> fst ev = ''external_approval_request'' \<or> fst ev = ''external_approval_grant''"

definition ends :: "approval_event \<Rightarrow> bool" where
  "ends ev \<longleftrightarrow> fst ev \<in> {''external_approval_revoke'', ''external_approval_expire'', ''external_approval_deny''}"

definition consumes :: "approval_event \<Rightarrow> bool" where
  "consumes ev \<longleftrightarrow> fst ev = ''external_approval_consume''"

definition used_requests :: "approval_event list \<Rightarrow> nat" where
  "used_requests evs = sum_list (map (\<lambda>ev. unwrap_or (ea_consumed_requests (snd ev)) 1) (filter consumes evs))"

definition amount :: "approval_event \<Rightarrow> rat option" where
  "amount ev = (case ea_consumed_dollars (snd ev) of Some (Finite d) \<Rightarrow> if 0 \<le> d then Some d else None | _ \<Rightarrow> None)"

text \<open>The priced uses, added in binary64.\<close>

definition total_spent :: "approval_event list \<Rightarrow> rat" where
  "total_spent evs = fold (\<lambda>ev acc. f64_round (acc + unwrap_or (amount ev) 0)) (filter consumes evs) 0"

definition last_state :: "approval_event list \<Rightarrow> rust_str option" where
  "last_state evs = fold (\<lambda>ev s. if is_some (ea_state (snd ev)) then ea_state (snd ev) else s) evs None"

lemma last_state_snoc: "last_state (evs @ [ev]) = (if is_some (ea_state (snd ev)) then ea_state (snd ev) else last_state evs)"
  by (simp add: last_state_def)

text \<open>What the state of a scope remembers of the events since it was opened by \<open>b\<close>.\<close>

definition remembers :: "external_approval_record \<Rightarrow> approval_event list \<Rightarrow> external_approval_scope_state \<Rightarrow> bool" where
  "remembers b post st \<longleftrightarrow>
     ea_allowed_env_vars (as_approval st) = ea_allowed_env_vars b
     \<and> ea_max_requests (as_approval st) = ea_max_requests b \<and> ea_max_dollars (as_approval st) = ea_max_dollars b
     \<and> ea_expires_at (as_approval st) = ea_expires_at b
     \<and> (ea_state (as_approval st) = (case last_state post of None \<Rightarrow> ea_state b | Some s \<Rightarrow> Some s))
     \<and> at_consumed_requests (as_tally st) = min (used_requests post) u64_max
     \<and> (at_revoked (as_tally st) \<longleftrightarrow> list_ex (\<lambda>ev. fst ev = ''external_approval_revoke'') post)
     \<and> (at_expired (as_tally st) \<longleftrightarrow> list_ex (\<lambda>ev. fst ev = ''external_approval_expire'') post)
     \<and> (is_some (at_denied_reason (as_tally st)) \<longleftrightarrow> list_ex (\<lambda>ev. fst ev = ''external_approval_deny'') post)
     \<and> (\<not> at_dollars_unknown (as_tally st) \<longrightarrow> list_all (\<lambda>ev. consumes ev \<longrightarrow> is_some (amount ev)) post
          \<and> unwrap_or (at_consumed_dollars (as_tally st)) 0 = total_spent post)"

lemma merge_simps [simp]:
  "ea_allowed_env_vars (merge_external_approval_record c u) = ea_allowed_env_vars c"
  "ea_max_requests (merge_external_approval_record c u) = ea_max_requests c"
  "ea_max_dollars (merge_external_approval_record c u) = ea_max_dollars c"
  "ea_expires_at (merge_external_approval_record c u) = ea_expires_at c"
  "ea_purpose (merge_external_approval_record c u) = ea_purpose c"
  "ea_state (merge_external_approval_record c u) = (if is_some (ea_state u) then ea_state u else ea_state c)"
  by (simp_all add: merge_external_approval_record_def)

lemma spend_simps [simp]:
  "at_request (spend d t) = at_request t" "at_grant (spend d t) = at_grant t"
  "at_consumed_requests (spend d t) = at_consumed_requests t" "at_revoked (spend d t) = at_revoked t"
  "at_expired (spend d t) = at_expired t" "at_denied_reason (spend d t) = at_denied_reason t"
  by (auto simp: spend_def split: option.split f64.split)

lemma spend_known:
  "\<not> at_dollars_unknown (spend d t) \<Longrightarrow> \<not> at_dollars_unknown t
     \<and> (\<exists>x \<ge> 0. d = Some (Finite x)
            \<and> at_consumed_dollars (spend d t) = Some (f64_round (unwrap_or (at_consumed_dollars t) 0 + x)))"
  by (auto simp: spend_def f64_add_def Let_def split: option.splits f64.splits if_splits)

lemma snoc_simps [simp]:
  "used_requests (evs @ [ev]) = used_requests evs + (if consumes ev then unwrap_or (ea_consumed_requests (snd ev)) 1 else 0)"
  "total_spent (evs @ [ev]) = (if consumes ev then f64_round (total_spent evs + unwrap_or (amount ev) 0) else total_spent evs)"
  by (simp_all add: used_requests_def total_spent_def)

lemma min_saturate: "saturating_add_u64 (min n u64_max) k = min (n + k) u64_max"
  by (simp add: saturating_add_u64_def min_def)

lemma remembers_step:
  assumes "remembers b post st" "mode \<in> set approval_modes" "\<not> opens (mode, a)"
  shows "\<exists>st'. scope_step mode a (Some st) = Some st' \<and> remembers b (post @ [(mode, a)]) st'
    \<and> at_grant (as_tally st') = at_grant (as_tally st) \<and> at_request (as_tally st') = at_request (as_tally st)"
proof -
  have "mode = ''external_approval_consume'' \<or> mode = ''external_approval_revoke''
    \<or> mode = ''external_approval_expire'' \<or> mode = ''external_approval_deny'' \<or> mode = ''external_approval_complete''"
    using assms(2,3) by (simp add: opens_def approval_modes_def)
  then show ?thesis
  proof (elim disjE)
    assume 1: "mode = ''external_approval_consume''"
    let ?t = "(as_tally st)\<lparr> at_consumed_requests := saturating_add_u64 (at_consumed_requests (as_tally st))
                (unwrap_or (ea_consumed_requests a) 1) \<rparr>"
    have "is_some (amount (mode, a)) \<and> \<not> at_dollars_unknown (as_tally st)
        \<and> at_consumed_dollars (spend (ea_consumed_dollars a) ?t)
            = Some (f64_round (unwrap_or (at_consumed_dollars (as_tally st)) 0 + unwrap_or (amount (mode, a)) 0))"
      if "\<not> at_dollars_unknown (spend (ea_consumed_dollars a) ?t)"
      using spend_known [OF that] by (auto simp: amount_def)
    then show ?thesis using assms(1) 1
      by (auto simp: scope_step_def remembers_def last_state_snoc consumes_def min_saturate Let_def is_some_iff)
  qed (use assms(1) in \<open>auto simp: scope_step_def remembers_def last_state_snoc consumes_def Let_def denial_text_def opt_or_def is_some_iff split: option.split\<close>)
qed

lemma remembers_run:
  assumes "remembers b post st" "list_all (\<lambda>ev. fst ev \<in> set approval_modes \<and> \<not> opens ev) evs"
  shows "\<exists>st'. run evs (Some st) = Some st' \<and> remembers b (post @ evs) st'
    \<and> at_grant (as_tally st') = at_grant (as_tally st) \<and> at_request (as_tally st') = at_request (as_tally st)"
  using assms
proof (induction evs arbitrary: post st)
  case (Cons ev evs)
  obtain mode a where ev: "ev = (mode, a)" by (cases ev)
  from remembers_step [of b post st mode a] Cons.prems obtain st1 where
    "scope_step mode a (Some st) = Some st1" "remembers b (post @ [ev]) st1"
    "at_grant (as_tally st1) = at_grant (as_tally st)" "at_request (as_tally st1) = at_request (as_tally st)"
    by (auto simp: ev)
  then show ?case using Cons.IH [of "post @ [ev]" st1] Cons.prems by (auto simp: ev)
qed simp

lemma remembers_open:
  "scope_step ''external_approval_grant'' g s = Some \<lparr> as_approval = g, as_tally = default_tally\<lparr> at_grant := Some g \<rparr> \<rparr>"
  "remembers g [] \<lparr> as_approval = g, as_tally = default_tally\<lparr> at_grant := Some g \<rparr> \<rparr>"
  by (simp_all add: scope_step_def remembers_def default_tally_def last_state_def used_requests_def total_spent_def unwrap_or_def)

lemma history_modes: "list_all (\<lambda>ev. fst ev \<in> set approval_modes) (scope_history entries p r w key)"
  by (induction entries)
    (auto simp: scope_history_def map_filter_simps event_of_def split: option.splits bind_splits if_splits)

text \<open>The last opening event of a history.\<close>

lemma split_at_last_open:
  assumes "list_ex opens evs"
  obtains pre ev post where "evs = pre @ ev # post" "opens ev" "list_all (\<lambda>e. \<not> opens e) post"
  using split_list_last_prop [of evs opens] assms by (auto simp: list_ex_iff list_all_iff)

lemma never_opened_has_no_grant:
  assumes "list_all (\<lambda>ev. fst ev \<in> set approval_modes \<and> \<not> opens ev) evs" "run evs s = Some st"
    and "\<forall>st0. s = Some st0 \<longrightarrow> at_grant (as_tally st0) = None"
  shows "at_grant (as_tally st) = None"
  using assms
proof (induction evs arbitrary: s)
  case (Cons ev evs)
  obtain mode a where ev: "ev = (mode, a)" by (cases ev)
  have "at_grant (as_tally st1) = None" if "scope_step mode a s = Some st1" for st1
    using that Cons.prems(1,3)
    by (auto simp: ev scope_step_def opens_def approval_modes_def Let_def default_tally_def split: option.splits if_splits)
  then show ?case using Cons by (auto simp: ev)
qed simp

lemma granted_history:
  assumes "map_of (scope_states_from_entries entries p r w) key = Some st" "at_grant (as_tally st) \<noteq> None"
  obtains pre g post where "scope_history entries p r w key = pre @ (''external_approval_grant'', g) # post"
    "list_all (\<lambda>ev. fst ev \<in> set approval_modes \<and> \<not> opens ev) post" "remembers g post st"
proof -
  let ?h = "scope_history entries p r w key"
  have run: "run ?h None = Some st" using assms(1) by (simp add: scope_state_lookup)
  have "list_ex opens ?h"
    using never_opened_has_no_grant [OF _ run] assms(2) history_modes [of entries p r w key]
    by (auto simp: list_all_iff list_ex_iff)
  then obtain pre ev post where h: "?h = pre @ ev # post" "opens ev" "list_all (\<lambda>e. \<not> opens e) post"
    by (rule split_at_last_open)
  have post: "list_all (\<lambda>ev. fst ev \<in> set approval_modes \<and> \<not> opens ev) post"
    using h(3) history_modes [of entries p r w key] by (auto simp: h(1) list_all_iff)
  obtain mode a where ev: "ev = (mode, a)" by (cases ev)
  show ?thesis
  proof (cases "mode = ''external_approval_grant''")
    case True
    have "run post (Some \<lparr> as_approval = a, as_tally = default_tally\<lparr> at_grant := Some a \<rparr> \<rparr>) = Some st"
      using run by (simp add: h(1) ev True remembers_open)
    moreover from remembers_run [OF remembers_open(2) post, of a] obtain st' where
      "run post (Some \<lparr> as_approval = a, as_tally = default_tally\<lparr> at_grant := Some a \<rparr> \<rparr>) = Some st'"
      "remembers a ([] @ post) st'" by blast
    ultimately have "remembers a post st" by simp
    then show ?thesis using that [of pre a post] post h(1) ev True by simp
  next
    case False
    then have m: "mode = ''external_approval_request''" using h(2) by (simp add: ev opens_def)
    let ?s = "\<lparr> as_approval = a, as_tally = default_tally\<lparr> at_request := Some a \<rparr> \<rparr>"
    have "run post (Some ?s) = Some st"
      using run by (simp add: h(1) ev m scope_step_def)
    then have "at_grant (as_tally st) = None"
      by (rule never_opened_has_no_grant [OF post]) (simp add: default_tally_def)
    with assms(2) show ?thesis by simp
  qed
qed

subsection \<open>Active approvals\<close>

lemma lifecycle_active:
  assumes "av_active (lifecycle_state parse_ts now a t)"
  shows "at_grant t \<noteq> None" "\<not> at_revoked t" "\<not> at_expired t" "at_denied_reason t = None"
    "ea_state a \<notin> {Some ''requested'', Some ''revoked'', Some ''expired'', Some ''denied'', Some ''completed''}"
    "case ea_expires_at a of None \<Rightarrow> True | Some s \<Rightarrow> \<exists>e > now. parse_ts s = Some e"
  using assms
  by (auto simp: lifecycle_state_def recorded_state_def Let_def is_some_def unwrap_or_def not_le
      split: if_splits option.splits)

lemma deny_inactive [simp]: "\<not> av_active (deny rsn v)"
  by (simp add: deny_def)

lemma approval_active:
  assumes "av_active (approval_state parse_ts now a t)"
  shows "av_active (lifecycle_state parse_ts now a t)"
    "case ea_max_requests a of None \<Rightarrow> True | Some m \<Rightarrow> at_consumed_requests t < m"
    "case ea_max_dollars a of
       None \<Rightarrow> True
     | Some c \<Rightarrow> \<not> at_dollars_unknown t \<and> (\<exists>m. c = Finite m \<and> unwrap_or (at_consumed_dollars t) 0 < m)"
  using assms
  by (auto simp: approval_state_def request_cap_def dollar_cap_def invalid_cap_def is_some_and_def Let_def not_le
      split: if_splits option.splits f64.splits)

lemma sole_stateD:
  assumes "omap_ok states" "sole_state states label = Some st"
  obtains op where "map_of states (label, op) = Some st" "\<forall>op'. op' \<noteq> op \<longrightarrow> map_of states (label, op') = None"
proof -
  from assms(2) obtain op where f: "filter (\<lambda>((l, _), _). l = label) states = [((label, op), st)]"
    by (auto simp: sole_state_def split: list.splits prod.splits dest: filter_eq_ConsD)
  have mem: "x \<in> set states \<and> fst (fst x) = label \<longleftrightarrow> x = ((label, op), st)" for x
  proof -
    have "x \<in> set (filter (\<lambda>((l, _), _). l = label) states) \<longleftrightarrow> x = ((label, op), st)" unfolding f by simp
    then show ?thesis by (cases x) auto
  qed
  have "((label, op), st) \<in> set states" using mem by blast
  then have "map_of states (label, op) = Some st"
    using assms(1) by (simp add: omap_mem_iff)
  moreover have "map_of states (label, op') = None" if "op' \<noteq> op" for op'
  proof (rule ccontr)
    assume "map_of states (label, op') \<noteq> None"
    then obtain st' where "((label, op'), st') \<in> set states" by (auto dest: map_of_SomeD)
    with mem [of "((label, op'), st')"] that show False by simp
  qed
  ultimately show ?thesis using that by blast
qed

text \<open>The condition under which a grant with the events \<open>post\<close> after it may be used.\<close>

definition usable :: "(rust_str \<Rightarrow> int option) \<Rightarrow> int \<Rightarrow> external_approval_record \<Rightarrow> approval_event list \<Rightarrow> bool" where
  "usable parse_ts now g post \<longleftrightarrow>
     list_all (\<lambda>ev. \<not> opens ev \<and> \<not> ends ev) post
     \<and> (case last_state post of None \<Rightarrow> True | Some s \<Rightarrow> s \<noteq> ''completed'' \<and> s \<noteq> ''revoked'' \<and> s \<noteq> ''denied'')
     \<and> (case ea_expires_at g of None \<Rightarrow> True | Some s \<Rightarrow> \<exists>e > now. parse_ts s = Some e)
     \<and> (case ea_max_requests g of None \<Rightarrow> True | Some m \<Rightarrow> min (used_requests post) u64_max < m)
     \<and> (case ea_max_dollars g of
           None \<Rightarrow> True
         | Some c \<Rightarrow> (\<exists>m > total_spent post. c = Finite m) \<and> list_all (\<lambda>ev. consumes ev \<longrightarrow> is_some (amount ev)) post)"

text \<open>C29. Credentials reach a worker only under a live grant: an environment variable is released to a
  work item only if the item's history of some scope ends with a grant that names the variable,
  followed by no revocation, expiry, denial or new request, not completed, before its expiry, with
  fewer recorded uses than its request cap, and with every use priced and the sum below the cap
  when it has a dollar cap; and the
  credential has no second operation on record, which would make the grant ambiguous.\<close>

theorem credentials_need_live_grant:
  assumes "var \<in> active_external_approval_env_vars_from_entries parse_ts now entries p r w"
  shows "\<exists>label op pre g post. scope_history entries p r w (label, op) = pre @ (''external_approval_grant'', g) # post
    \<and> var \<in> set (ea_allowed_env_vars g) \<and> usable parse_ts now g post
    \<and> (\<forall>op'. op' \<noteq> op \<longrightarrow> map_of (scope_states_from_entries entries p r w) (label, op') = None)"
proof -
  let ?states = "scope_states_from_entries entries p r w"
  from assms obtain label st where st: "sole_state ?states label = Some st"
      "av_active (approval_state parse_ts now (as_approval st) (as_tally st))" "var \<in> set (ea_allowed_env_vars (as_approval st))"
    by (auto simp: active_external_approval_env_vars_from_entries_def Let_def split: option.splits if_splits) metis
  from sole_stateD [OF scope_states_ok st(1)] obtain op where
    op: "map_of ?states (label, op) = Some st" "\<forall>op'. op' \<noteq> op \<longrightarrow> map_of ?states (label, op') = None" by blast
  note act = approval_active [OF st(2)]
  note life = lifecycle_active [OF act(1)]
  from granted_history [OF op(1) life(1)] obtain pre g post where
    h: "scope_history entries p r w (label, op) = pre @ (''external_approval_grant'', g) # post"
      "list_all (\<lambda>ev. fst ev \<in> set approval_modes \<and> \<not> opens ev) post" and rem: "remembers g post st" .
  have "list_all (\<lambda>ev. \<not> opens ev \<and> \<not> ends ev) post"
    using h(2) rem life(2,3,4) by (auto simp: remembers_def ends_def list_all_iff list_ex_iff is_some_def)
  moreover have "case last_state post of None \<Rightarrow> True | Some s \<Rightarrow> s \<noteq> ''completed'' \<and> s \<noteq> ''revoked'' \<and> s \<noteq> ''denied''"
    using rem life(5) by (simp add: remembers_def split: option.splits)
  moreover have "case ea_expires_at g of None \<Rightarrow> True | Some s \<Rightarrow> \<exists>e > now. parse_ts s = Some e"
    and "case ea_max_requests g of None \<Rightarrow> True | Some m \<Rightarrow> min (used_requests post) u64_max < m"
    and "var \<in> set (ea_allowed_env_vars g)"
    using rem life(6) act(2) st(3) by (auto simp: remembers_def split: option.splits)
  moreover have "case ea_max_dollars g of None \<Rightarrow> True
      | Some c \<Rightarrow> (\<exists>m > total_spent post. c = Finite m) \<and> list_all (\<lambda>ev. consumes ev \<longrightarrow> is_some (amount ev)) post"
    using rem act(3) by (auto simp: remembers_def split: option.splits)
  ultimately show ?thesis using h(1) op(2) unfolding usable_def by blast
qed

subsection \<open>Grants and requests\<close>

text \<open>The bounds of one snapshot are within those of another.\<close>

definition within_bounds ::
  "(rust_str \<Rightarrow> int option) \<Rightarrow> external_approval_snapshot \<Rightarrow> external_approval_snapshot \<Rightarrow> bool" where
  "within_bounds parse_ts new old \<longleftrightarrow>
     set (es_allowed_env_vars new) \<subseteq> set (es_allowed_env_vars old)
     \<and> (case es_max_requests old of None \<Rightarrow> True | Some m \<Rightarrow> \<exists>k \<le> m. es_max_requests new = Some k)
     \<and> (case es_max_dollars old of None \<Rightarrow> True | Some c \<Rightarrow> \<exists>d. es_max_dollars new = Some d \<and> f64_le d c)
     \<and> (case es_expires_at old of
           None \<Rightarrow> True
         | Some s \<Rightarrow> \<exists>s' t t'. es_expires_at new = Some s' \<and> parse_ts s' = Some t' \<and> parse_ts s = Some t \<and> t' \<le> t)
     \<and> (es_purpose old \<noteq> None \<longrightarrow> es_purpose new = es_purpose old)"

lemma f64_le_refl: "positive_cap (Some c) \<Longrightarrow> f64_le c c"
  by (cases c) (simp_all add: positive_cap_def f64_le_def)

lemma inherit_within:
  assumes "grant_refusal parse_ts requested (Option.bind (map_option parse_ts (ea_expires_at a)) (\<lambda>x. x)) a = None"
    and "map_option parse_ts (ea_expires_at a) \<noteq> Some None"
    and new: "es_allowed_env_vars new = ea_allowed_env_vars a" "es_max_requests new = opt_or (ea_max_requests a) (es_max_requests requested)"
      "es_max_dollars new = opt_or (ea_max_dollars a) (es_max_dollars requested)"
      "es_expires_at new = opt_or (ea_expires_at a) (es_expires_at requested)"
      "es_purpose new = opt_or (ea_purpose a) (es_purpose requested)"
  shows "within_bounds parse_ts new requested"
proof -
  note ok = assms(1) [unfolded grant_refusal_def, simplified]
  have "set (es_allowed_env_vars new) \<subseteq> set (es_allowed_env_vars requested)"
    using ok by (auto simp: new list_all_iff split: if_splits)
  moreover have "case es_max_requests requested of None \<Rightarrow> True | Some m \<Rightarrow> \<exists>k \<le> m. es_max_requests new = Some k"
    using ok by (auto simp: new opt_or_def split: if_splits option.splits)
  moreover have "case es_max_dollars requested of None \<Rightarrow> True | Some c \<Rightarrow> \<exists>d. es_max_dollars new = Some d \<and> f64_le d c"
    using ok f64_le_refl by (auto simp: new opt_or_def split: if_splits option.splits)
  moreover have "case es_expires_at requested of None \<Rightarrow> True
      | Some s \<Rightarrow> \<exists>s' t t'. es_expires_at new = Some s' \<and> parse_ts s' = Some t' \<and> parse_ts s = Some t \<and> t' \<le> t"
    using ok assms(2) by (auto simp: new opt_or_def is_some_and_def split: if_splits option.splits)
  moreover have "es_purpose requested \<noteq> None \<longrightarrow> es_purpose new = es_purpose requested"
    using ok by (auto simp: new opt_or_def split: if_splits option.splits)
  ultimately show ?thesis by (simp add: within_bounds_def)
qed

lemma prepare_grantD:
  assumes "prepare_external_approval parse_ts now entries e = Inr e'" "le_mode e = ''external_approval_grant''"
  obtains w a label op requested where "le_work_id e = Some w" "le_external_approval e = Some a"
    "ea_credential_label a = Some label" "ea_operation_kind a = Some op"
    "external_approval_snapshot_from_entries parse_ts now entries (le_profile e) (le_repo_id e) w label op = Some requested"
    "grant_refusal parse_ts requested (Option.bind (map_option parse_ts (ea_expires_at a)) (\<lambda>x. x)) a = None"
    "e' = e\<lparr> le_external_approval := Some (inherit_bounds requested a) \<rparr>"
    "map_option parse_ts (ea_expires_at a) \<noteq> Some None"
  using assms
  by (auto simp: prepare_external_approval_def Let_def split: option.splits if_splits)

text \<open>The scope of an accepted grant: the work item, label and operation that its own record names.\<close>

definition grant_scope :: "ledger_entry \<Rightarrow> rust_str \<Rightarrow> rust_str \<Rightarrow> rust_str \<Rightarrow> external_approval_record \<Rightarrow> bool" where
  "grant_scope e w label op a \<longleftrightarrow>
     le_work_id e = Some w \<and> le_external_approval e = Some a
     \<and> ea_credential_label a = Some label \<and> ea_operation_kind a = Some op"

text \<open>C30. A grant never widens its request: an accepted grant answers a pending request of the very work
  item, label and operation that its record names. Afterwards that scope carries the credentials of the
  grant, and the caps, expiry and purpose it states or, for those it leaves out, inherits; these are no
  more credentials, no higher request or dollar cap, no later expiry and no other purpose than the
  request has. Every other scope is as it was.\<close>

theorem grant_within_request:
  assumes "append_external_approval parse_ts now e (Some entries) = (ledger', Inr e')"
    and "le_mode e = ''external_approval_grant''"
  shows "\<exists>w label op a before after. grant_scope e w label op a
    \<and> external_approval_snapshot_from_entries parse_ts now entries (le_profile e) (le_repo_id e) w label op = Some before
    \<and> es_state before = ''requested''
    \<and> external_approval_snapshot_from_entries parse_ts now (the ledger') (le_profile e) (le_repo_id e) w label op = Some after
    \<and> within_bounds parse_ts after before
    \<and> es_allowed_env_vars after = ea_allowed_env_vars a
    \<and> es_max_requests after = opt_or (ea_max_requests a) (es_max_requests before)
    \<and> es_max_dollars after = opt_or (ea_max_dollars a) (es_max_dollars before)
    \<and> es_expires_at after = opt_or (ea_expires_at a) (es_expires_at before)
    \<and> (\<forall>w' label' op'. (w', label', op') \<noteq> (w, label, op) \<longrightarrow>
         external_approval_snapshot_from_entries parse_ts now (the ledger') (le_profile e) (le_repo_id e) w' label' op'
         = external_approval_snapshot_from_entries parse_ts now entries (le_profile e) (le_repo_id e) w' label' op')"
proof -
  from assms(1) have prep: "prepare_external_approval parse_ts now entries e = Inr e'" and l: "ledger' = Some (entries @ [e'])"
    by (auto simp: append_external_approval_def split: sum.splits)
  from prepare_grantD [OF prep assms(2)] obtain w a label op requested where
    w: "le_work_id e = Some w" and a: "le_external_approval e = Some a"
      "ea_credential_label a = Some label" "ea_operation_kind a = Some op"
    and before: "external_approval_snapshot_from_entries parse_ts now entries (le_profile e) (le_repo_id e) w label op = Some requested"
    and ok: "grant_refusal parse_ts requested (Option.bind (map_option parse_ts (ea_expires_at a)) (\<lambda>x. x)) a = None"
    and e': "e' = e\<lparr> le_external_approval := Some (inherit_bounds requested a) \<rparr>"
    and ts: "map_option parse_ts (ea_expires_at a) \<noteq> Some None" .
  let ?a = "inherit_bounds requested a"
  let ?st = "\<lparr> as_approval = ?a, as_tally = default_tally\<lparr> at_grant := Some ?a \<rparr> \<rparr>"
  let ?after = "snapshot_of parse_ts now (le_profile e) (le_repo_id e) w ((label, op), ?st)"
  have key: "scope_key ?a = (label, op)" using a by (simp add: scope_key_def inherit_bounds_def unwrap_or_def)
  have "map_of (scope_states_from_entries (entries @ [e']) (le_profile e) (le_repo_id e) w) (label, op) = Some ?st"
    using w key assms(2) remembers_open(1) [of ?a]
    by (simp add: scope_state_lookup scope_history_def map_filter_simps of_work_item_def e' event_of_def approval_modes_def)
  then have after: "external_approval_snapshot_from_entries parse_ts now (the ledger') (le_profile e) (le_repo_id e) w label op
      = Some ?after"
    by (simp add: l external_approval_snapshot_from_entries_def)
  have "scope_history (entries @ [e']) (le_profile e) (le_repo_id e) w' k = scope_history entries (le_profile e) (le_repo_id e) w' k"
    if "(w', k) \<noteq> (w, (label, op))" for w' k
    using that w key by (auto simp: scope_history_def map_filter_simps of_work_item_def e' event_of_def)
  then have others: "external_approval_snapshot_from_entries parse_ts now (the ledger') (le_profile e) (le_repo_id e) w' label' op'
      = external_approval_snapshot_from_entries parse_ts now entries (le_profile e) (le_repo_id e) w' label' op'"
    if "(w', label', op') \<noteq> (w, label, op)" for w' label' op'
    using that by (simp add: l external_approval_snapshot_from_entries_def scope_state_lookup)
  have req: "es_state requested = ''requested''"
    using ok by (auto simp: grant_refusal_def split: if_splits)
  have sel: "es_allowed_env_vars ?after = ea_allowed_env_vars a"
    "es_max_requests ?after = opt_or (ea_max_requests a) (es_max_requests requested)"
    "es_max_dollars ?after = opt_or (ea_max_dollars a) (es_max_dollars requested)"
    "es_expires_at ?after = opt_or (ea_expires_at a) (es_expires_at requested)"
    "es_purpose ?after = opt_or (ea_purpose a) (es_purpose requested)"
    by (simp_all add: snapshot_of_def inherit_bounds_def Let_def)
  have "within_bounds parse_ts ?after requested" by (rule inherit_within [OF ok ts sel])
  moreover have "grant_scope e w label op a" using w a by (simp add: grant_scope_def)
  ultimately show ?thesis using before after req sel others by blast
qed

subsection \<open>Concrete inputs\<close>

definition ex_scope :: external_approval_record where
  "ex_scope = \<lparr> ea_state = None, ea_operation_kind = Some ''publish'', ea_credential_label = Some ''npm'',
     ea_allowed_env_vars = [''NPM_TOKEN''], ea_max_requests = Some 2, ea_max_dollars = None, ea_expires_at = None,
     ea_purpose = None, ea_consumed_requests = None, ea_consumed_dollars = None, ea_denial_reason = None \<rparr>"

definition ex_event :: "rust_str \<Rightarrow> external_approval_record \<Rightarrow> ledger_entry" where
  "ex_event mode a = new_external_approval (blank_entry ''clear_attempts'' (Some ''#42'')) ''#42'' mode a"

definition ex_requested :: ledger_entry where "ex_requested = ex_event ''external_approval_request'' ex_scope"

definition ex_granted :: ledger_entry where
  "ex_granted = ex_event ''external_approval_grant'' (ex_scope\<lparr> ea_max_requests := None \<rparr>)"

lemmas approval_eval =
  ex_scope_def ex_event_def ex_requested_def ex_granted_def new_external_approval_def blank_entry_def
  scope_states_from_entries_def of_work_item_def approval_step_def scope_step_def scope_key_def
  external_approval_snapshot_from_entries_def snapshot_of_def approval_state_def lifecycle_state_def
  recorded_state_def request_cap_def dollar_cap_def invalid_cap_def default_tally_def
  unwrap_or_def opt_or_def is_some_def is_some_and_def Let_def

lemma ex_grant_accepted:
  "append_external_approval (\<lambda>_. None) 0 ex_granted (Some [ex_requested])
   = (Some [ex_requested, ex_event ''external_approval_grant'' ex_scope], Inr (ex_event ''external_approval_grant'' ex_scope))"
proof -
  have "\<not> bad_identifier ''p''" "\<not> bad_identifier ''r''" "\<not> bad_identifier ''#42''" "\<not> bad_identifier ''npm''"
    "\<not> bad_identifier ''publish''"
    by (simp_all add: bad_identifier_def trim_def trim_end_def ws1_def ws2_def ws3_def)
  then show ?thesis
    by (simp add: append_external_approval_def prepare_external_approval_def grant_refusal_def inherit_bounds_def
        positive_cap_def approval_eval)
qed

theorem grant_within_request_witness:
  "\<exists>w label op a before after. grant_scope ex_granted w label op a \<and> es_state before = ''requested''
    \<and> external_approval_snapshot_from_entries (\<lambda>_. None) 0 [ex_requested, ex_event ''external_approval_grant'' ex_scope]
        ''p'' ''r'' w label op = Some after
    \<and> within_bounds (\<lambda>_. None) after before \<and> es_allowed_env_vars after = ea_allowed_env_vars a"
proof -
  have "le_mode ex_granted = ''external_approval_grant''" "le_profile ex_granted = ''p''" "le_repo_id ex_granted = ''r''"
    by (simp_all add: ex_granted_def ex_event_def new_external_approval_def blank_entry_def)
  with grant_within_request [OF ex_grant_accepted] show ?thesis unfolding option.sel by metis
qed

theorem credentials_need_live_grant_witness:
  "\<exists>label op pre g post.
     scope_history [ex_requested, ex_event ''external_approval_grant'' ex_scope] ''p'' ''r'' ''#42'' (label, op)
       = pre @ (''external_approval_grant'', g) # post
     \<and> ''NPM_TOKEN'' \<in> set (ea_allowed_env_vars g) \<and> usable (\<lambda>_. None) 0 g post"
proof -
  have "''NPM_TOKEN'' \<in> active_external_approval_env_vars_from_entries (\<lambda>_. None) 0
      [ex_requested, ex_event ''external_approval_grant'' ex_scope] ''p'' ''r'' ''#42''"
    by (simp add: active_external_approval_env_vars_from_entries_def labels_of_def sole_state_def approval_eval)
  from credentials_need_live_grant [OF this] show ?thesis by blast
qed

end
