(* ===== verification/Issue_Budget.thy ===== *)
theory Issue_Budget
  imports Ledger Decision
begin

text \<open>
  The per-issue budget: what one issue has consumed according to the ledger
  (\<open>src/dispatch/prior_attempts.rs\<close>), its evaluation against the configured limits and its projection
  under every alias of the issue (\<open>src/status/issue_budget.rs\<close>), which the controller reads.
\<close>

subsection \<open>Usage\<close>

record issue_budget_usage =
  iu_attempts :: nat
  iu_elapsed_seconds :: rat
  iu_manager_rounds :: nat
  iu_last_failure_class :: "rust_str option"

definition default_usage :: issue_budget_usage where
  "default_usage = \<lparr> iu_attempts = 0, iu_elapsed_seconds = 0, iu_manager_rounds = 0, iu_last_failure_class = None \<rparr>"

text \<open>The usage per issue and the issue that owns a branch.\<close>

type_synonym usage_state = "(rust_str \<times> issue_budget_usage) list \<times> (rust_str \<times> rust_str) list"

text \<open>The counters are \<open>u32\<close>: \<open>+=\<close> wraps in a build without overflow checks.\<close>

definition add_attempt :: "ledger_entry \<Rightarrow> issue_budget_usage \<Rightarrow> issue_budget_usage" where
  "add_attempt e u =
     u\<lparr> iu_attempts := (iu_attempts u + max (unwrap_or (le_attempts_started e) 0) 1) mod 2 ^ 32,
        iu_elapsed_seconds := f64_round (iu_elapsed_seconds u + unwrap_or (le_duration_seconds e) 0),
        iu_last_failure_class := opt_or (le_failure_class e) (iu_last_failure_class u) \<rparr>"

definition add_round :: "ledger_entry \<Rightarrow> issue_budget_usage \<Rightarrow> issue_budget_usage" where
  "add_round e u =
     u\<lparr> iu_manager_rounds := (iu_manager_rounds u + 1) mod 2 ^ 32,
        iu_elapsed_seconds := f64_round (iu_elapsed_seconds u + unwrap_or (le_duration_seconds e) 0) \<rparr>"

definition update_usage ::
  "rust_str \<Rightarrow> (issue_budget_usage \<Rightarrow> issue_budget_usage) \<Rightarrow> (rust_str \<times> issue_budget_usage) list
   \<Rightarrow> (rust_str \<times> issue_budget_usage) list" where
  "update_usage key f usages = omap_put key (f (unwrap_or (map_of usages key) default_usage)) usages"

definition usage_step :: "ledger_entry \<Rightarrow> usage_state \<Rightarrow> usage_state" where
  "usage_step e = (\<lambda>(usages, owner).
     let own = map_option canonical_work_id (le_work_id e)
     in if le_mode e = ''clear_attempts''
        then (case own of
                None \<Rightarrow> (usages, owner)
              | Some key \<Rightarrow> (filter (\<lambda>(k, _). k \<noteq> key) usages, filter (\<lambda>(_, k). k \<noteq> key) owner))
        else if launched_no_backend e then (usages, owner)
        else (case job_kind_parse (le_mode e) of
                Inl _ \<Rightarrow> (usages, owner)
              | Inr jk \<Rightarrow>
                  (case (own, family jk) of
                     (Some key, ImproveLike) \<Rightarrow>
                       (update_usage key (add_attempt e) usages,
                        (case le_branch e of None \<Rightarrow> owner | Some b \<Rightarrow> omap_put b key owner))
                   | (_, FamilyReview) \<Rightarrow>
                       if is_some (le_review_verdict e)
                       then (case opt_or own (Option.bind (le_branch e) (map_of owner)) of
                               None \<Rightarrow> (usages, owner)
                             | Some key \<Rightarrow> (update_usage key (add_round e) usages, owner))
                       else (usages, owner)
                   | _ \<Rightarrow> (usages, owner))))"

definition budget_entry :: "(rust_str \<Rightarrow> int option) \<Rightarrow> int \<Rightarrow> rust_str \<Rightarrow> rust_str \<Rightarrow> ledger_entry \<Rightarrow> bool" where
  "budget_entry parse_ts now profile_name repo_id e =
     (le_profile e = profile_name \<and> le_repo_id e = repo_id \<and> \<not> is_entry_stale parse_ts now e)"

definition issue_budget_usages ::
  "(rust_str \<Rightarrow> int option) \<Rightarrow> int \<Rightarrow> ledger_entry list \<Rightarrow> rust_str \<Rightarrow> rust_str \<Rightarrow> (rust_str \<times> issue_budget_usage) list" where
  "issue_budget_usages parse_ts now entries profile_name repo_id =
     fst (fold usage_step (filter (budget_entry parse_ts now profile_name repo_id) entries) ([], []))"

subsection \<open>Evaluation\<close>

text \<open>\<open>as u32\<close> saturates.\<close>

definition elapsed_minutes_of :: "rat \<Rightarrow> nat" where
  "elapsed_minutes_of secs = min (nat \<lfloor>f64_round (secs / 60)\<rfloor>) u32_max"

definition spent_reason :: "issue_budget \<Rightarrow> issue_budget_usage \<Rightarrow> (rust_str \<times> bool) option" where
  "spent_reason b u =
     (let minutes = elapsed_minutes_of (iu_elapsed_seconds u)
      in if is_some_and (max_attempts b) (\<lambda>m. m \<le> iu_attempts u)
         then Some (''issue budget spent: '' @ nat_str (iu_attempts u) @ ''/''
                      @ nat_str (unwrap_or (max_attempts b) 0) @ '' attempts'', False)
         else if is_some_and (max_elapsed_minutes b) (\<lambda>m. of_nat m * 60 \<le> iu_elapsed_seconds u)
         then Some (''issue budget spent: '' @ nat_str minutes @ ''/''
                      @ nat_str (unwrap_or (max_elapsed_minutes b) 0) @ '' minutes elapsed'', True)
         else if is_some_and (max_manager_rounds b) (\<lambda>m. m \<le> iu_manager_rounds u)
         then Some (''issue budget spent: '' @ nat_str (iu_manager_rounds u) @ ''/''
                      @ nat_str (unwrap_or (max_manager_rounds b) 0) @ '' manager rounds'', True)
         else None)"

definition budget_attempts_left :: "issue_budget \<Rightarrow> issue_budget_usage \<Rightarrow> nat option" where
  "budget_attempts_left b u = map_option (\<lambda>m. saturating_sub m (iu_attempts u)) (max_attempts b)"

definition reserve_reason :: "issue_budget \<Rightarrow> issue_budget_usage \<Rightarrow> rust_str option" where
  "reserve_reason b u =
     map_option (\<lambda>cls. ''issue budget: '' @ nat_str (unwrap_or (budget_attempts_left b u) 0)
         @ '' attempt(s) left, reserved for escalation; last failure ('' @ cls @ '') is not escalatable'')
       (opt_filter (\<lambda>cls. \<not> is_genuine_agent_failure cls) (iu_last_failure_class u))"

definition evaluate :: "issue_budget \<Rightarrow> issue_budget_usage \<Rightarrow> issue_budget_status" where
  "evaluate b u =
     (let reserve = escalation_reserve_attempts b;
          only = is_some_and (budget_attempts_left b u) (\<lambda>left. 0 < left \<and> left \<le> reserve);
          spent = spent_reason b u;
          hold = (case spent of Some (r, _) \<Rightarrow> Some r | None \<Rightarrow> if only then reserve_reason b u else None)
      in \<lparr> attempts_used = iu_attempts u, bs_max_attempts = max_attempts b, bs_escalation_reserve = reserve,
           elapsed_minutes = elapsed_minutes_of (iu_elapsed_seconds u),
           bs_max_elapsed_minutes = max_elapsed_minutes b, manager_rounds_used = iu_manager_rounds u,
           bs_max_manager_rounds = max_manager_rounds b, escalation_only = only, exhausted = is_some hold,
           lifecycle_hold = is_some_and spent snd, hold_reason = hold \<rparr>)"

subsection \<open>Projection\<close>

text \<open>The budget field of the evidence kept per work id.\<close>

type_synonym budget_evidence = "(rust_str \<times> issue_budget_status option) list"

definition put_status :: "issue_budget_status \<Rightarrow> rust_str \<Rightarrow> budget_evidence \<Rightarrow> budget_evidence" where
  "put_status st key evidence = fold (\<lambda>alias ev. omap_put alias (Some st) ev) (work_id_aliases key) evidence"

definition project_usages ::
  "issue_budget \<Rightarrow> (rust_str \<times> issue_budget_usage) list \<Rightarrow> budget_evidence \<Rightarrow> budget_evidence" where
  "project_usages b usages evidence =
     fold (\<lambda>(key, u) ev. if u = default_usage then ev else put_status (evaluate b u) key ev) usages evidence"

definition project ::
  "(rust_str \<Rightarrow> int option) \<Rightarrow> int \<Rightarrow> issue_budget \<Rightarrow> ledger_entry list \<Rightarrow> rust_str \<Rightarrow> rust_str \<Rightarrow> budget_evidence
   \<Rightarrow> budget_evidence" where
  "project parse_ts now b entries profile_name repo_id evidence =
     project_usages b (issue_budget_usages parse_ts now entries profile_name repo_id) evidence"

definition axis :: "nat \<Rightarrow> nat option \<Rightarrow> rust_str" where
  "axis used m = nat_str used @ ''/'' @ (case m of Some k \<Rightarrow> nat_str k | None \<Rightarrow> ''unlimited'')"

definition describe :: "issue_budget_status \<Rightarrow> rust_str" where
  "describe b =
     ''attempts '' @ axis (attempts_used b) (bs_max_attempts b)
     @ (if is_some (bs_max_attempts b) \<and> 0 < bs_escalation_reserve b
        then '' ('' @ nat_str (bs_escalation_reserve b) @ '' reserved for escalation)'' else [])
     @ '', elapsed '' @ axis (elapsed_minutes b) (bs_max_elapsed_minutes b) @ '' min, manager rounds ''
     @ axis (manager_rounds_used b) (bs_max_manager_rounds b)
     @ (case hold_reason b of
          Some r \<Rightarrow> ''; HELD: '' @ r
        | None \<Rightarrow> if escalation_only b then ''; escalation only'' else [])"

definition status_lines :: "budget_evidence \<Rightarrow> rust_str list" where
  "status_lines evidence =
     (let shown = filter (\<lambda>(w, b). is_some b
            \<and> \<not> list_ex (\<lambda>alias. alias < w \<and> alias \<in> fst ` set evidence) (work_id_aliases w)) evidence
      in if shown = [] then []
         else ''Issue budgets:'' # map (\<lambda>(w, b). ''  - '' @ w @ '': '' @ describe (the b)) shown)"

end
