(* ===== verification/Issue_Budget_Props.thy ===== *)
theory Issue_Budget_Props
  imports Issue_Budget Ledger_Props Decision_Props
begin

text \<open>
  Properties of the per-issue budget: what is counted, under which names it is found, and that the
  controller starts no ticket whose attempts are spent.
\<close>

subsection \<open>Aliases and keys\<close>

lemma canonical_ticket:
  "ds \<noteq> [] \<Longrightarrow> list_all is_ascii_digit ds \<Longrightarrow> canonical_work_id (''TICKET-'' @ ds) = CHR ''#'' # ds"
  using aliases_ticket [of ds] by (simp add: canonical_work_id_def starts_with_def unwrap_or_def is_some_def)

lemma canonical_issue:
  "ds \<noteq> [] \<Longrightarrow> list_all is_ascii_digit ds \<Longrightarrow> canonical_work_id (CHR ''#'' # ds) = CHR ''#'' # ds"
  using aliases_issue [of ds] by (simp add: canonical_work_id_def starts_with_def unwrap_or_def is_some_def)

lemma takeWhile_all: "list_all P (takeWhile P xs)"
  by (auto simp: list_all_iff dest: set_takeWhileD)

text \<open>A canonical identity is an issue number, or an identity without aliases.\<close>

lemma canonical_cases:
  obtains (number) ds where "canonical_work_id w = CHR ''#'' # ds" "ds \<noteq> []" "list_all is_ascii_digit ds"
  | (plain) "canonical_work_id w = w" "work_id_aliases w = [w]"
proof -
  let ?ticket = "Option.bind (strip_prefix ''TICKET-'' w)
    (\<lambda>rest. let digits = takeWhile is_ascii_digit rest in if digits = [] then None else Some digits)"
  let ?issue = "opt_filter (\<lambda>n. n \<noteq> [] \<and> list_all is_ascii_digit n) (strip_prefix ''#'' w)"
  show ?thesis
  proof (cases ?ticket)
    case (Some ds)
    then obtain rest where r: "w = ''TICKET-'' @ rest" "ds = takeWhile is_ascii_digit rest" "ds \<noteq> []"
      by (auto simp: bind_eq_Some_conv strip_prefix_Some_iff Let_def split: if_splits)
    have "work_id_aliases w = [w, CHR ''#'' # ds]" by (simp add: work_id_aliases_def Some [unfolded Let_def] Let_def)
    then have "canonical_work_id w = CHR ''#'' # ds"
      by (simp add: canonical_work_id_def starts_with_def unwrap_or_def is_some_def r(1))
    then show ?thesis using number [of ds] r takeWhile_all by metis
  next
    case None
    show ?thesis
    proof (cases ?issue)
      case (Some ds)
      then have "w = CHR ''#'' # ds" "ds \<noteq> []" "list_all is_ascii_digit ds"
        by (auto simp: opt_filter_def strip_prefix_Some_iff split: option.splits if_splits)
      then show ?thesis using number [of ds] canonical_issue by metis
    next
      case None2: None
      have "work_id_aliases w = [w]" by (simp add: work_id_aliases_def None [unfolded Let_def] None2 Let_def)
      then show ?thesis using plain by (simp add: canonical_work_id_def unwrap_or_def)
    qed
  qed
qed

lemma canonical_alias:
  assumes "i \<in> set (work_id_aliases (canonical_work_id w))"
  shows "canonical_work_id i = canonical_work_id w"
proof (cases w rule: canonical_cases)
  case (number ds)
  then show ?thesis
    using assms canonical_issue [of ds] canonical_ticket [of ds] by (auto simp: aliases_issue)
next
  case plain
  then show ?thesis using assms by simp
qed

lemma canonical_idem [simp]: "canonical_work_id (canonical_work_id w) = canonical_work_id w"
  by (rule canonical_alias) simp

lemma plain_is_alias:
  assumes "plain_work_id w"
  shows "w \<in> set (work_id_aliases (canonical_work_id w))"
proof (cases w rule: canonical_cases)
  case (number ds)
  have "canonical_work_id w \<in> set (work_id_aliases w)"
    by (auto simp: canonical_work_id_def unwrap_or_def split: option.split dest: find_SomeD)
  then show ?thesis by (rule alias_symmetric [OF assms])
qed simp

subsection \<open>The projection under aliases\<close>

lemma put_status_lookup:
  "map_of (put_status st key ev) i = (if i \<in> set (work_id_aliases key) then Some (Some st) else map_of ev i)"
proof -
  have "map_of (fold (\<lambda>alias ev. omap_put alias (Some st) ev) as ev) i
      = (if i \<in> set as then Some (Some st) else map_of ev i)" for as
    by (induction as arbitrary: ev) auto
  then show ?thesis by (simp add: put_status_def)
qed

lemma project_lookup:
  assumes "distinct (map fst usages)" "\<forall>k \<in> fst ` set usages. canonical_work_id k = k"
  shows "map_of (project_usages b usages ev) i
    = (case map_of usages (canonical_work_id i) of
         Some u \<Rightarrow> if u \<noteq> default_usage \<and> i \<in> set (work_id_aliases (canonical_work_id i)) then Some (Some (evaluate b u))
                   else map_of ev i
       | None \<Rightarrow> map_of ev i)"
  using assms
proof (induction usages arbitrary: ev)
  case (Cons ku usages)
  obtain k u where ku: "ku = (k, u)" by (cases ku)
  let ?ev = "if u = default_usage then ev else put_status (evaluate b u) k ev"
  have k: "canonical_work_id k = k" "map_of usages k = None"
    using Cons.prems by (auto simp: ku map_of_eq_None_iff)
  have "i \<in> set (work_id_aliases k) \<Longrightarrow> canonical_work_id i = k"
    using canonical_alias [of i k] k by simp
  moreover have "map_of (project_usages b (ku # usages) ev) i = map_of (project_usages b usages ?ev) i"
    by (simp add: project_usages_def ku)
  ultimately show ?case
    using Cons k by (auto simp: ku put_status_lookup split: option.splits)
qed (simp add: project_usages_def)

subsection \<open>What is counted\<close>

definition owner_key :: "ledger_entry \<Rightarrow> rust_str option" where
  "owner_key e = map_option canonical_work_id (le_work_id e)"

definition clears :: "rust_str \<Rightarrow> ledger_entry \<Rightarrow> bool" where
  "clears key e \<longleftrightarrow> le_mode e = ''clear_attempts'' \<and> owner_key e = Some key"

definition attempt_of :: "rust_str \<Rightarrow> ledger_entry \<Rightarrow> bool" where
  "attempt_of key e \<longleftrightarrow> owner_key e = Some key \<and> \<not> launched_no_backend e
     \<and> (case job_kind_parse (le_mode e) of Inl _ \<Rightarrow> False | Inr jk \<Rightarrow> family jk = ImproveLike)"

definition charge :: "ledger_entry \<Rightarrow> nat" where
  "charge e = max (unwrap_or (le_attempts_started e) 0) 1"

definition attempts_of :: "(rust_str \<times> issue_budget_usage) list \<Rightarrow> rust_str \<Rightarrow> nat" where
  "attempts_of usages key = iu_attempts (unwrap_or (map_of usages key) default_usage)"

lemma update_usage_lookup:
  "map_of (update_usage k f usages) key = (if key = k then Some (f (unwrap_or (map_of usages k) default_usage)) else map_of usages key)"
  by (simp add: update_usage_def)

lemma attempts_of_update:
  "attempts_of (update_usage k (add_attempt e) usages) key
   = (if key = k then (attempts_of usages key + charge e) mod 2 ^ 32 else attempts_of usages key)"
  "attempts_of (update_usage k (add_round e) usages) key = attempts_of usages key"
  by (simp_all add: attempts_of_def update_usage_lookup add_attempt_def add_round_def charge_def)

lemma attempts_of_removed: "attempts_of (filter (\<lambda>(k, _). k \<noteq> k0) usages) key = (if key = k0 then 0 else attempts_of usages key)"
  by (simp add: attempts_of_def default_usage_def map_of_filter_key)

lemma clear_is_no_job: "job_kind_parse ''clear_attempts'' = Inl (UnknownJobKind ''clear_attempts'')"
  by (simp add: job_kind_parse_def)

lemma attempts_of_step:
  "attempts_of (fst (usage_step e (usages, owner))) key
   = (if clears key e then 0
      else if attempt_of key e then (attempts_of usages key + charge e) mod 2 ^ 32 else attempts_of usages key)"
  by (auto simp: usage_step_def clears_def attempt_of_def owner_key_def attempts_of_update attempts_of_removed
      clear_is_no_job Let_def opt_or_def
      split: option.splits sum.splits job_family.splits if_splits)

lemma attempts_counted:
  "attempts_of (fst (fold usage_step es ([], []))) key
   = sum_list (map charge (filter (attempt_of key) (after_last (clears key) es))) mod 2 ^ 32"
proof (induction es rule: rev_induct)
  case (snoc e es)
  have "\<not> (clears key e \<and> attempt_of key e)" by (auto simp: clears_def attempt_of_def clear_is_no_job)
  then show ?case
    using snoc attempts_of_step [of e "fst (fold usage_step es ([], []))" "snd (fold usage_step es ([], []))" key]
    by (auto simp: after_last_snoc mod_add_left_eq)
qed (simp add: attempts_of_def default_usage_def after_last_def)

text \<open>Usages and branch owners are filed under canonical identities.\<close>

definition usage_wf :: "usage_state \<Rightarrow> bool" where
  "usage_wf st \<longleftrightarrow> omap_ok (fst st) \<and> (\<forall>k \<in> fst ` set (fst st). canonical_work_id k = k)
     \<and> (\<forall>k \<in> snd ` set (snd st). canonical_work_id k = k)"

lemma usage_wf_update:
  "usage_wf (us, ow) \<Longrightarrow> canonical_work_id k = k \<Longrightarrow> usage_wf (update_usage k f us, ow)"
  by (auto simp: usage_wf_def update_usage_def)

lemma usage_wf_owner:
  assumes "usage_wf (us, ow)" "canonical_work_id k = k"
  shows "usage_wf (us, omap_put b k ow)"
  using assms set_omap_put_subset [of b k ow] by (fastforce simp: usage_wf_def)

lemma usage_wf_filter: "usage_wf (us, ow) \<Longrightarrow> usage_wf (filter P us, filter Q ow)"
  by (auto simp: usage_wf_def omap_ok_filter)

lemma owner_canonical: "usage_wf (us, ow) \<Longrightarrow> map_of ow b = Some k \<Longrightarrow> canonical_work_id k = k"
  by (force simp: usage_wf_def dest: map_of_SomeD)

lemma usage_wf_step: "usage_wf st \<Longrightarrow> usage_wf (usage_step e st)"
proof (cases st)
  case (Pair us ow)
  assume wf: "usage_wf st"
  show ?thesis using wf
    by (auto simp: Pair usage_step_def Let_def opt_or_def bind_eq_Some_conv
        split: option.splits sum.splits job_family.splits if_splits
        intro!: usage_wf_update usage_wf_owner usage_wf_filter
        dest: owner_canonical)
qed

lemma usages_wf: "usage_wf (fold usage_step es ([], []))"
proof (induction es rule: rev_induct)
  case Nil
  show ?case by (simp add: usage_wf_def)
qed (simp add: usage_wf_step)

subsection \<open>Properties\<close>

text \<open>The attempts on record for an issue since its last reset; the code's counter has 32 bits.\<close>

definition recorded_attempts ::
  "(rust_str \<Rightarrow> int option) \<Rightarrow> int \<Rightarrow> ledger_entry list \<Rightarrow> rust_str \<Rightarrow> rust_str \<Rightarrow> rust_str \<Rightarrow> nat" where
  "recorded_attempts parse_ts now entries profile_name repo_id key =
     sum_list (map charge (filter (attempt_of key)
       (after_last (clears key) (filter (budget_entry parse_ts now profile_name repo_id) entries))))"

lemma evaluated_spent:
  assumes "max_attempts b = Some m" "m \<le> iu_attempts u"
  shows "exhausted (evaluate b u)"
  using assms by (simp add: evaluate_def spent_reason_def is_some_and_def is_some_def Let_def)

lemma spent_issue_projected:
  assumes "max_attempts b = Some m" "plain_work_id w"
    and "max m 1 \<le> recorded_attempts parse_ts now entries p r (canonical_work_id w) mod 2 ^ 32"
  shows "\<exists>st. map_of (project parse_ts now b entries p r ev) w = Some (Some st) \<and> exhausted st"
proof -
  let ?es = "filter (budget_entry parse_ts now p r) entries"
  let ?us = "issue_budget_usages parse_ts now entries p r" and ?k = "canonical_work_id w"
  have us: "?us = fst (fold usage_step ?es ([], []))" by (simp add: issue_budget_usages_def)
  have wf: "distinct (map fst ?us)" "\<forall>k \<in> fst ` set ?us. canonical_work_id k = k"
    using usages_wf [of ?es] unfolding us by (simp_all add: usage_wf_def omap_ok_distinct)
  have n: "max m 1 \<le> attempts_of ?us ?k"
    using assms(3) attempts_counted [of ?es ?k] by (simp add: us recorded_attempts_def)
  then obtain u where u: "map_of ?us ?k = Some u" "max m 1 \<le> iu_attempts u"
    by (cases "map_of ?us ?k") (auto simp: attempts_of_def default_usage_def)
  then have "u \<noteq> default_usage" by (auto simp: default_usage_def)
  then have "map_of (project parse_ts now b entries p r ev) w = Some (Some (evaluate b u))"
    using project_lookup [OF wf] u(1) plain_is_alias [OF assms(2)] by (simp add: project_def)
  then show ?thesis using evaluated_spent [OF assms(1)] u(2) by auto
qed

text \<open>C31. From the ledger to the decision: when the snapshot carries the budget projected from the
  ledger, every ticket with a plain work identity (a number, TICKET and a number, or a name) that the
  controller starts, retries or escalates has fewer attempts on record than its limit. They are those
  recorded under any alias of the issue since its last reset, each dispatch counting at least once, in a
  counter of 32 bits that wraps; a cap of zero still admits a first attempt.\<close>

theorem started_ticket_has_attempts_left:
  assumes "decide_next_action now s = a" "kind a \<in> new_work_kinds"
    and "waypoint_budgets s = map_of (project parse_ts now' b entries p r ev)" "max_attempts b = Some m"
  shows "\<exists>t \<in> set (available_tickets s). act_path a = ticket_path t
    \<and> (\<forall>w. at_work_id t = Some w \<longrightarrow> plain_work_id w
          \<longrightarrow> recorded_attempts parse_ts now' entries p r (canonical_work_id w) mod 2 ^ 32 < max m 1)"
proof -
  from new_work_ticket [OF assms(1,2)] obtain t where
    t: "t \<in> set (available_tickets s)" "act_path a = ticket_path t" "ticket_ready s t" by blast
  have "recorded_attempts parse_ts now' entries p r (canonical_work_id w) mod 2 ^ 32 < max m 1"
    if w: "at_work_id t = Some w" "plain_work_id w" for w
  proof (rule ccontr)
    assume "\<not> recorded_attempts parse_ts now' entries p r (canonical_work_id w) mod 2 ^ 32 < max m 1"
    then have "max m 1 \<le> recorded_attempts parse_ts now' entries p r (canonical_work_id w) mod 2 ^ 32" by linarith
    from spent_issue_projected [OF assms(4) w(2) this, of ev] obtain st where
      "waypoint_budgets s w = Some (Some st)" "exhausted st" using assms(3) by auto
    then have "budget_refuses_attempt s t"
      using w(1) by (simp add: budget_refuses_attempt_def issue_budget_for_def is_some_and_def)
    with t(3) show False by (simp add: ticket_ready_def)
  qed
  with t show ?thesis by blast
qed

text \<open>A reset releases an issue: once a clearing of its attempts is recorded, under any alias, the
  issue has no usage at all, and the usage of every other issue is what it was.\<close>

theorem reset_clears_usage:
  assumes "clears key e" "budget_entry parse_ts now p r e"
  shows "map_of (issue_budget_usages parse_ts now (entries @ [e]) p r) k
    = (if k = key then None else map_of (issue_budget_usages parse_ts now entries p r) k)"
proof -
  let ?st = "fold usage_step (filter (budget_entry parse_ts now p r) entries) ([], [])"
  obtain us ow where st: "?st = (us, ow)" by (cases ?st)
  have "fst (usage_step e ?st) = filter (\<lambda>(k, _). k \<noteq> key) us"
    using assms(1) unfolding st by (auto simp: usage_step_def clears_def owner_key_def Let_def)
  then show ?thesis using assms(2) by (simp add: issue_budget_usages_def map_of_filter_key st)
qed

subsection \<open>Concrete inputs\<close>

definition ex_budget :: issue_budget where
  "ex_budget = \<lparr> max_attempts = Some 3, max_elapsed_minutes = None, max_manager_rounds = None, cfg_escalation_reserve = None \<rparr>"

definition ex_attempt :: ledger_entry where
  "ex_attempt = (blank_entry ''improve'' (Some ''TICKET-9''))\<lparr> le_failure_class := Some ''agent_failure'' \<rparr>"

definition ex_evidence :: budget_evidence where
  "ex_evidence = project (\<lambda>_. Some 0) 0 ex_budget [ex_attempt] ''p'' ''r'' []"

lemma ex_aliases_9: "work_id_aliases ''#9'' = [''#9'', ''TICKET-9'']" "work_id_aliases ''TICKET-9'' = [''TICKET-9'', ''#9'']"
  by (simp_all add: work_id_aliases_def opt_filter_def is_ascii_digit_def)

lemma ex_evidence_eval:
  "map_of ex_evidence ''#9'' = Some (Some (evaluate ex_budget (add_attempt ex_attempt default_usage)))"
  "map_of ex_evidence ''#12'' = None"
  by (simp_all add: ex_evidence_def project_def project_usages_def issue_budget_usages_def usage_step_def budget_entry_def
      ex_attempt_def ex_aliases_9 canonical_work_id_def starts_with_def update_usage_def put_status_def is_entry_stale_def
      entry_time_def LEDGER_ENTRY_STALE_AFTER_def blank_entry_def job_kind_parse_def launched_no_backend_def is_some_and_def
      unwrap_or_def is_some_def Let_def add_attempt_def default_usage_def)

lemma ex_not_exhausted: "\<not> exhausted (evaluate ex_budget (add_attempt ex_attempt default_usage))"
  by (simp add: evaluate_def spent_reason_def budget_attempts_left_def escalation_reserve_attempts_def ex_budget_def
      add_attempt_def default_usage_def ex_attempt_def blank_entry_def is_some_and_def unwrap_or_def is_some_def Let_def)

definition budget_snapshot :: status_snapshot where
  "budget_snapshot = ticket_snapshot\<lparr> waypoint_budgets := map_of ex_evidence \<rparr>"

lemma budget_snapshot_decision:
  "decide_next_action example_now budget_snapshot =
     DispatchTicket ''#9'' (Some ''#9'') None None ''eligible undispatched ticket''"
  by (simp add: budget_snapshot_def decision_eval example_defs ex_evidence_eval ex_not_exhausted)

theorem started_ticket_has_attempts_left_witness:
  "kind (decide_next_action example_now budget_snapshot) = ''dispatch_ticket''
   \<and> recorded_attempts (\<lambda>_. Some 0) 0 [ex_attempt] ''p'' ''r'' (canonical_work_id ''#9'') mod 2 ^ 32 < 3"
proof -
  have "waypoint_budgets budget_snapshot = map_of (project (\<lambda>_. Some 0) 0 ex_budget [ex_attempt] ''p'' ''r'' [])"
    by (simp add: budget_snapshot_def ex_evidence_def)
  moreover have "max_attempts ex_budget = Some 3" by (simp add: ex_budget_def)
  moreover have "kind (DispatchTicket ''#9'' (Some ''#9'') None None ''eligible undispatched ticket'') \<in> new_work_kinds"
    by (simp add: new_work_kinds_def)
  ultimately have "\<exists>t \<in> set (available_tickets budget_snapshot). ''#9'' = ticket_path t
     \<and> (\<forall>w. at_work_id t = Some w \<longrightarrow> plain_work_id w
          \<longrightarrow> recorded_attempts (\<lambda>_. Some 0) 0 [ex_attempt] ''p'' ''r'' (canonical_work_id w) mod 2 ^ 32 < max 3 1)"
    using started_ticket_has_attempts_left [OF budget_snapshot_decision] unfolding next_action.sel by blast
  then have "recorded_attempts (\<lambda>_. Some 0) 0 [ex_attempt] ''p'' ''r'' (canonical_work_id ''#9'') mod 2 ^ 32 < 3"
    by (simp add: budget_snapshot_def ticket_snapshot_def example_ticket_def plain_work_id_def)
  then show ?thesis by (simp add: budget_snapshot_decision)
qed

theorem reset_clears_usage_witness:
  "map_of (issue_budget_usages (\<lambda>_. Some 0) 0 ([ex_attempt] @ [blank_entry ''clear_attempts'' (Some ''#9'')]) ''p'' ''r'') ''#9'' = None"
proof -
  have "clears ''#9'' (blank_entry ''clear_attempts'' (Some ''#9''))"
    "budget_entry (\<lambda>_. Some 0) 0 ''p'' ''r'' (blank_entry ''clear_attempts'' (Some ''#9''))"
    by (simp_all add: clears_def owner_key_def budget_entry_def is_entry_stale_def entry_time_def LEDGER_ENTRY_STALE_AFTER_def
        blank_entry_def canonical_work_id_def ex_aliases_9 starts_with_def is_some_def unwrap_or_def)
  from reset_clears_usage [OF this, of "[ex_attempt]" "''#9''"] show ?thesis by simp
qed

end
