(* ===== verification/Text_Scan.thy ===== *)
theory Text_Scan
  imports Identity
begin

text \<open>
  Scanning of agent output (\<open>dispatch/text.rs\<close>): the search for the verdict object in a reply, the
  truncation of UTF-8 texts and the headings of a document, with the \<open>str\<close> operations they use.
  Whether a text is JSON is decided by \<open>serde_json\<close>, which is an argument of the scanners.
\<close>

subsection \<open>Operations of the standard library\<close>

fun find_str :: "rust_str \<Rightarrow> rust_str \<Rightarrow> nat option" where
  "find_str p [] = (if p = [] then Some 0 else None)"
| "find_str p (c # cs) = (if starts_with p (c # cs) then Some 0 else map_option Suc (find_str p cs))"

lemma find_str_SomeD: "find_str p s = Some i \<Longrightarrow> \<exists>v. s = take i s @ p @ v \<and> i \<le> length s"
proof (induction s arbitrary: i)
  case Nil
  then show ?case by (auto split: if_splits)
next
  case (Cons c cs)
  then show ?case by (auto simp: starts_with_iff split: if_splits)
qed

lemma find_str_bound: "find_str p s = Some i \<Longrightarrow> i + length p \<le> length s"
proof -
  assume "find_str p s = Some i"
  then obtain v where v: "s = take i s @ p @ v" and i: "i \<le> length s" by (blast dest: find_str_SomeD)
  from arg_cong [OF v, of length] have "length s = length (take i s) + (length p + length v)"
    by (simp only: length_append)
  moreover have "length (take i s) = i" using i by simp
  ultimately show ?thesis by linarith
qed

lemma find_str_drop: "find_str p s = Some i \<Longrightarrow> s = take i s @ p @ drop (i + length p) s"
  by (metis find_str_SomeD append_eq_conv_conj append_take_drop_id drop_drop add.commute)

lemma find_str_None_iff: "find_str p s = None \<longleftrightarrow> \<not> contains_str p s"
proof (induction s)
  case (Cons c cs)
  then show ?case by auto
qed simp

text \<open>\<open>str::lines\<close>: pieces that end with a newline, each without a final carriage return; a text that
  ends with a newline has no further line.\<close>

definition strip_cr :: "rust_str \<Rightarrow> rust_str" where
  "strip_cr s = (if s \<noteq> [] \<and> last s = CHR 0x0D then butlast s else s)"

fun lines_acc :: "rust_str \<Rightarrow> rust_str \<Rightarrow> rust_str list" where
  "lines_acc acc [] = (if acc = [] then [] else [rev acc])"
| "lines_acc acc (c # cs) =
     (if c = CHR 0x0A then strip_cr (rev acc) # lines_acc [] cs else lines_acc (c # acc) cs)"

definition lines_of :: "rust_str \<Rightarrow> rust_str list" where
  "lines_of s = lines_acc [] s"

definition trim_end_matches :: "char \<Rightarrow> rust_str \<Rightarrow> rust_str" where
  "trim_end_matches c s = rev (dropWhile (\<lambda>x. x = c) (rev s))"

definition trim_start_matches :: "char \<Rightarrow> rust_str \<Rightarrow> rust_str" where
  "trim_start_matches c s = dropWhile (\<lambda>x. x = c) s"

subsection \<open>JSON objects in a reply\<close>

text \<open>The inner loop: from an opening brace to its closing brace, outside string literals; the result is
  the length of the span.\<close>

fun match_span :: "int \<Rightarrow> bool \<Rightarrow> bool \<Rightarrow> rust_str \<Rightarrow> nat option" where
  "match_span depth in_string escaped [] = None"
| "match_span depth in_string escaped (ch # rest) =
     (if in_string
      then map_option Suc
             (if escaped then match_span depth True False rest
              else if ch = CHR 0x5C then match_span depth True True rest
              else if ch = CHR 0x22 then match_span depth False False rest
              else match_span depth True False rest)
      else if ch = CHR 0x22 then map_option Suc (match_span depth True escaped rest)
      else if ch = CHR ''{'' then map_option Suc (match_span (depth + 1) False escaped rest)
      else if ch = CHR ''}'' then
        (if depth - 1 = 0 then Some 1 else map_option Suc (match_span (depth - 1) False escaped rest))
      else map_option Suc (match_span depth False escaped rest))"

lemma match_span_bounds: "match_span d q e s = Some n \<Longrightarrow> 0 < n \<and> n \<le> length s"
  by (induction d q e s arbitrary: n rule: match_span.induct) (auto split: if_splits)

function scan_objects :: "(rust_str \<Rightarrow> bool) \<Rightarrow> rust_str \<Rightarrow> rust_str option \<Rightarrow> rust_str option" where
  "scan_objects is_json text last_valid =
     (case text of
        [] \<Rightarrow> last_valid
      | c # rest \<Rightarrow>
          if c \<noteq> CHR ''{'' then scan_objects is_json rest last_valid
          else (case match_span 0 False False text of
                  None \<Rightarrow> scan_objects is_json rest last_valid
                | Some n \<Rightarrow>
                    scan_objects is_json (drop n text)
                      (if is_json (take n text) then Some (take n text) else last_valid)))"
  by pat_completeness auto
termination
  by (relation "measure (\<lambda>(_, text, _). length text)") (auto dest: match_span_bounds)

declare scan_objects.simps [simp del]

definition FENCE_OPEN :: rust_str where "FENCE_OPEN = ''```json''"
definition FENCE_CLOSE :: rust_str where "FENCE_CLOSE = ''```''"

function scan_fences :: "(rust_str \<Rightarrow> bool) \<Rightarrow> rust_str \<Rightarrow> rust_str option \<Rightarrow> rust_str option" where
  "scan_fences is_json text last_valid =
     (case find_str FENCE_OPEN text of
        None \<Rightarrow> last_valid
      | Some i \<Rightarrow>
          let content = drop (i + length FENCE_OPEN) text
          in case find_str FENCE_CLOSE content of
               None \<Rightarrow> last_valid
             | Some j \<Rightarrow>
                 let candidate = trim (take j content)
                 in scan_fences is_json (drop (j + length FENCE_CLOSE) content)
                      (if is_json candidate then Some candidate else last_valid))"
  by pat_completeness auto
termination
  by (relation "measure (\<lambda>(_, text, _). length text)")
    (auto simp: FENCE_OPEN_def FENCE_CLOSE_def dest!: find_str_bound)

declare scan_fences.simps [simp del]

definition extract_last_fenced_json_block :: "(rust_str \<Rightarrow> bool) \<Rightarrow> rust_str \<Rightarrow> rust_str option" where
  "extract_last_fenced_json_block is_json text = scan_fences is_json text None"

definition extract_first_json_object :: "(rust_str \<Rightarrow> bool) \<Rightarrow> rust_str \<Rightarrow> rust_str option" where
  "extract_first_json_object is_json text =
     (case extract_last_fenced_json_block is_json text of
        Some fenced \<Rightarrow> Some fenced
      | None \<Rightarrow> scan_objects is_json text None)"

subsection \<open>Other texts\<close>

definition first_markdown_heading :: "rust_str \<Rightarrow> rust_str option" where
  "first_markdown_heading body =
     first (List.map_filter
       (\<lambda>line. if starts_with ''#'' line
               then opt_filter (\<lambda>s. s \<noteq> []) (Some (trim (trim_start_matches (CHR ''#'') line)))
               else None)
       (map trim (lines_of body)))"

definition is_char_boundary :: "rust_str \<Rightarrow> nat \<Rightarrow> bool" where
  "is_char_boundary s i = (i = 0 \<or> i = length s \<or> i < length s \<and> \<not> (128 \<le> byte (s ! i) \<and> byte (s ! i) < 192))"

text \<open>The byte indices of \<open>char_indices\<close>.\<close>

definition char_starts :: "rust_str \<Rightarrow> nat list" where
  "char_starts s = filter (\<lambda>i. is_char_boundary s i) [0..<length s]"

definition utf8_safe_suffix :: "rust_str \<Rightarrow> nat \<Rightarrow> rust_str" where
  "utf8_safe_suffix s max_bytes =
     (if s = [] \<or> max_bytes = 0 then []
      else let byte_start = saturating_sub (length s) max_bytes;
               safe_start = (if \<not> is_char_boundary s byte_start
                             then unwrap_or (List.find (\<lambda>i. byte_start \<le> i) (char_starts s)) (length s)
                             else byte_start)
           in drop safe_start s)"

definition utf8_safe_prefix :: "rust_str \<Rightarrow> nat \<Rightarrow> rust_str" where
  "utf8_safe_prefix s max_bytes =
     (if s = [] \<or> max_bytes = 0 then []
      else let byte_end = min (length s) max_bytes;
               safe_end = (if \<not> is_char_boundary s byte_end
                           then unwrap_or (first (rev (takeWhile (\<lambda>i. i < byte_end) (char_starts s)))) 0
                           else byte_end)
           in take safe_end s)"

end
