(* ===== verification/Review_Verdict.thy ===== *)
theory Review_Verdict
  imports Text_Scan Route_Decide
begin

text \<open>
  The reviewer's verdict (\<open>models.rs\<close>) and the deterministic gate that stands between a reviewer's
  reply and a merge (\<open>dispatch/review/policy.rs\<close>, \<open>policy/ci_wait.rs\<close>): parsing, the CI wait, the
  validation of repair instructions, the evidence gate and the reviewer's tier.  The JSON reader of
  \<open>serde_json\<close> is an argument: a test of JSON syntax and the reader of a verdict.
\<close>

subsection \<open>Verdicts\<close>

record actionable_finding =
  af_summary :: rust_str
  af_file :: rust_str
  af_line :: "rust_str option"
  af_status :: rust_str
  af_evidence :: "rust_str list"

record review_verdict =
  rv_verdict :: rust_str
  rv_confidence :: rust_str
  rv_human_required :: bool
  rv_blocking_findings :: "rust_str list"
  rv_actionable_findings :: "actionable_finding list"
  rv_non_blocking_findings :: "rust_str list"
  rv_risk_notes :: "rust_str list"
  rv_evidence :: "rust_str list"
  rv_compatibility_evidence :: "rust_str list"
  rv_safety_gate_reason :: "rust_str option"
  rv_reviewer_backend :: "rust_str option"
  rv_reviewer_model :: "rust_str option"
  rv_reviewer_tier :: "rust_str option"
  rv_requested_backend :: "rust_str option"
  rv_effective_backend :: "rust_str option"
  rv_requested_model :: "rust_str option"
  rv_effective_model :: "rust_str option"
  rv_fallback_used :: "bool option"

datatype review_error = NoVerdictJson | VerdictJson | ReviewOutputInvalid rust_str

subsection \<open>Facts of the control plane\<close>

record review_diff_bundle =
  db_diff :: rust_str
  db_files :: rust_str

record review_gate_context =
  gx_changed_files :: "rust_str list"
  gx_ci_passed :: bool
  gx_ci_failed :: bool
  gx_contract_files :: "rust_str list"
  gx_compatibility_mechanisms :: "rust_str list"
  gx_acceptance_criteria :: "rust_str list"
  gx_source_provider :: rust_str
  gx_enforce_grounding :: bool
  gx_hold_contract_changes :: bool

definition is_contract_path :: "rust_str \<Rightarrow> bool" where
  "is_contract_path path =
     list_ex (\<lambda>p. starts_with p path)
       [''packages/contracts/'', ''migrations/'', ''src/ledger/'', ''src/telemetry/'']"

definition mechanisms_of :: "rust_str \<Rightarrow> rust_str list" where
  "mechanisms_of diff_lower =
     (if contains_str ''schema_version'' diff_lower then [''schema-version''] else [])
     @ (if contains_str ''serde(default)'' diff_lower then [''backward-compatible-default''] else [])
     @ (if contains_str ''migrat'' diff_lower then [''migration''] else [])"

definition from_diff_bundle :: "review_diff_bundle \<Rightarrow> rust_str option \<Rightarrow> review_gate_context" where
  "from_diff_bundle bundle ci_status =
     (let changed = filter (\<lambda>p. p \<noteq> []) (map trim (lines_of (db_files bundle)))
      in \<lparr> gx_changed_files = changed,
           gx_ci_passed = is_some_and ci_status
             (\<lambda>st. to_ascii_lowercase (trim st) \<in> {''passed'', ''success'', ''green''}),
           gx_ci_failed = is_some_and ci_status (\<lambda>st. st \<in> {''failed'', ''failure'', ''red''}),
           gx_contract_files = filter is_contract_path changed,
           gx_compatibility_mechanisms = mechanisms_of (to_ascii_lowercase (db_diff bundle)),
           gx_acceptance_criteria = [], gx_source_provider = [],
           gx_enforce_grounding = True, gx_hold_contract_changes = True \<rparr>)"

definition with_contract_hold :: "bool \<Rightarrow> review_gate_context \<Rightarrow> review_gate_context" where
  "with_contract_hold hold ctx = ctx\<lparr> gx_hold_contract_changes := hold \<rparr>"

definition with_source_acceptance :: "rust_str list \<Rightarrow> rust_str \<Rightarrow> review_gate_context \<Rightarrow> review_gate_context" where
  "with_source_acceptance criteria provider ctx =
     ctx\<lparr> gx_acceptance_criteria := criteria,
          gx_source_provider := to_ascii_lowercase (trim provider) \<rparr>"

definition has_contract_surface_change :: "review_gate_context \<Rightarrow> bool" where
  "has_contract_surface_change ctx = (gx_contract_files ctx \<noteq> [])"

subsection \<open>Grounding of evidence\<close>

definition has_marker :: "rust_str list \<Rightarrow> rust_str \<Rightarrow> bool" where
  "has_marker markers s = list_ex (\<lambda>m. contains_str m (to_ascii_lowercase s)) markers"

definition criterion_requires_external_state :: "rust_str \<Rightarrow> bool" where
  "criterion_requires_external_state =
     has_marker [''live'', ''latest'', ''stale'', ''open issue'', ''closed issue'', ''queue'', ''backlog'',
       ''provider state'', ''remaining quota'', ''availability'', ''without a pat'']"

definition admits_unverified_state :: "rust_str \<Rightarrow> bool" where
  "admits_unverified_state =
     has_marker [''not verified'', ''not re-verified'', ''not reverified'', ''unverified'', ''not checked'',
       ''could be stale'', ''may be stale'', ''might be stale'', ''unable to verify'', ''could not verify'']"

definition finding_text_disclaims_actionability :: "rust_str \<Rightarrow> bool" where
  "finding_text_disclaims_actionability =
     has_marker [''withdrawn'', ''not blocking'', ''actually fine'', ''no issue here'', ''cannot be confirmed'',
       ''can'' @ CHR 0x27 # ''t be confirmed'', ''unverified risk'', ''unverified concern'',
       ''partially unverified'', ''may or may not'', ''not strictly broken'']"

text \<open>The separators that may follow a path: a dash of three kinds (the em and en dash in UTF-8) or an
  opening bracket.\<close>

definition path_suffixes :: "rust_str list" where
  "path_suffixes =
     [[CHR '' '', CHR 0xE2, CHR 0x80, CHR 0x94, CHR '' ''], [CHR '' '', CHR 0xE2, CHR 0x80, CHR 0x93, CHR '' ''],
      '' - '', '' ('', '' ['']"

definition mapping_references_changed_file :: "review_gate_context \<Rightarrow> rust_str \<Rightarrow> bool" where
  "mapping_references_changed_file ctx mapping =
     list_ex (\<lambda>candidate.
         case strip_prefix candidate (trim mapping) of
           None \<Rightarrow> False
         | Some sfx \<Rightarrow> sfx = [] \<or> list_ex (\<lambda>p. starts_with p sfx) path_suffixes)
       (gx_changed_files ctx)"

definition acceptance_mapping_is_grounded :: "review_gate_context \<Rightarrow> rust_str \<Rightarrow> bool \<Rightarrow> bool" where
  "acceptance_mapping_is_grounded ctx mapping external =
     (case strip_prefix ''provider:'' mapping of
        Some rest \<Rightarrow>
          (case split_once (CHR '':'') rest of
             None \<Rightarrow> False
           | Some (provider, reference) \<Rightarrow>
               external \<and> trim reference \<noteq> []
               \<and> eq_ignore_ascii_case (trim provider) (gx_source_provider ctx))
      | None \<Rightarrow>
          (case strip_prefix ''snapshot:'' mapping of
             Some rest \<Rightarrow>
               (case split_once (CHR '':'') rest of
                  None \<Rightarrow> False
                | Some (path, verification) \<Rightarrow>
                    external \<and> trim verification \<noteq> [] \<and> trim path \<in> set (gx_changed_files ctx))
           | None \<Rightarrow>
               if external then False
               else (case strip_prefix ''file:'' mapping of
                       Some path \<Rightarrow> mapping_references_changed_file ctx path
                     | None \<Rightarrow> is_some_and (strip_prefix ''test:'' mapping) (\<lambda>detail. trim detail \<noteq> []))))"

definition mappings_of :: "nat \<Rightarrow> rust_str list \<Rightarrow> rust_str list" where
  "mappings_of number evs =
     List.map_filter (\<lambda>item. strip_prefix (''ac:'' @ nat_str number @ '':'') (trim item)) evs"

fun criteria_gate :: "review_gate_context \<Rightarrow> rust_str list \<Rightarrow> nat \<Rightarrow> rust_str list \<Rightarrow> rust_str option" where
  "criteria_gate ctx evs number [] = None"
| "criteria_gate ctx evs number (criterion # rest) =
     (let mappings = mappings_of number evs;
          external = criterion_requires_external_state criterion
      in if mappings = []
         then Some (''APPROVE omitted evidence for source acceptance criterion '' @ nat_str number @ '': ''
                    @ utf8_safe_prefix criterion 160)
         else if \<not> list_ex (\<lambda>m. acceptance_mapping_is_grounded ctx m external) mappings
         then Some (''APPROVE evidence for source acceptance criterion '' @ nat_str number @ '' was not grounded''
                    @ (if external then '' in direct provider evidence or a testable changed snapshot''
                       else '' in a changed file or concrete test result''))
         else criteria_gate ctx evs (number + 1) rest)"

definition acceptance_gate_reason :: "review_gate_context \<Rightarrow> review_verdict \<Rightarrow> rust_str option" where
  "acceptance_gate_reason ctx v =
     (if gx_acceptance_criteria ctx = [] then None
      else if list_ex criterion_requires_external_state (gx_acceptance_criteria ctx)
              \<and> list_ex admits_unverified_state (rv_non_blocking_findings v @ rv_risk_notes v)
      then Some ''APPROVE admitted that required current/external acceptance state remained unverified''
      else criteria_gate ctx (rv_evidence v) 1 (gx_acceptance_criteria ctx))"

definition names_file :: "rust_str list \<Rightarrow> rust_str \<Rightarrow> bool" where
  "names_file files item = is_some_and (strip_prefix ''file:'' (trim item)) (\<lambda>path. trim path \<in> set files)"

definition evidence_is_grounded :: "review_gate_context \<Rightarrow> rust_str list \<Rightarrow> bool" where
  "evidence_is_grounded ctx evs = list_ex (names_file (gx_changed_files ctx)) evs"

definition falsely_claims_passed_ci :: "review_gate_context \<Rightarrow> rust_str list \<Rightarrow> bool" where
  "falsely_claims_passed_ci ctx evs =
     (\<not> gx_ci_passed ctx \<and> list_ex (\<lambda>item. eq_ignore_ascii_case (trim item) ''ci:passed'') evs)"

definition compatibility_is_grounded :: "review_gate_context \<Rightarrow> rust_str list \<Rightarrow> bool" where
  "compatibility_is_grounded ctx evs =
     (list_ex (names_file (gx_contract_files ctx)) evs
      \<and> list_ex (\<lambda>item. is_some_and (strip_prefix ''mechanism:'' (trim item))
                     (\<lambda>m. trim m \<in> set (gx_compatibility_mechanisms ctx))) evs)"

subsection \<open>Repair instructions\<close>

definition finding_grounded :: "rust_str \<Rightarrow> rust_str \<Rightarrow> bool" where
  "finding_grounded path item =
     (case strip_prefix ''diff:'' (trim item) of
        None \<Rightarrow> False
      | Some rest \<Rightarrow>
          (case split_once (CHR '':'') rest of
             None \<Rightarrow> False
           | Some (evidence_file, detail) \<Rightarrow> trim evidence_file = path \<and> trim detail \<noteq> []))"

definition check_finding :: "review_gate_context \<Rightarrow> nat \<Rightarrow> actionable_finding \<Rightarrow> (review_error, rust_str) rust_result" where
  "check_finding ctx number f =
     (let path = trim (af_file f); summary = trim (af_summary f);
          bad = (\<lambda>what. Inl (ReviewOutputInvalid (''actionable finding '' @ nat_str number @ what)))
      in if \<not> eq_ignore_ascii_case (trim (af_status f)) ''confirmed''
         then bad '' status must be confirmed''
         else if path = [] \<or> gx_enforce_grounding ctx \<and> path \<notin> set (gx_changed_files ctx)
         then bad '' did not name an exact changed file''
         else if summary = [] then bad '' omitted its summary''
         else if finding_text_disclaims_actionability summary
                 \<or> list_ex finding_text_disclaims_actionability (af_evidence f)
         then bad '' explicitly withdrew, contradicted, or left the finding unverified''
         else if \<not> list_ex (finding_grounded path) (af_evidence f)
         then bad ('' omitted direct diff:'' @ path @ '':<observation> evidence'')
         else Inr ((case opt_filter (\<lambda>l. l \<noteq> []) (map_option trim (af_line f)) of
                      None \<Rightarrow> path
                    | Some line \<Rightarrow> path @ '':'' @ line) @ '': '' @ summary))"

fun check_findings ::
  "review_gate_context \<Rightarrow> nat \<Rightarrow> actionable_finding list \<Rightarrow> (review_error, rust_str list) rust_result" where
  "check_findings ctx number [] = Inr []"
| "check_findings ctx number (f # fs) =
     (case check_finding ctx number f of
        Inl e \<Rightarrow> Inl e
      | Inr r \<Rightarrow> (case check_findings ctx (number + 1) fs of Inl e \<Rightarrow> Inl e | Inr rs \<Rightarrow> Inr (r # rs)))"

definition repair_verdicts :: "rust_str list" where
  "repair_verdicts = [''NEEDS_FIX'', ''REJECT'']"

definition normalize_actionable_findings ::
  "review_gate_context \<Rightarrow> review_verdict \<Rightarrow> (review_error, review_verdict) rust_result" where
  "normalize_actionable_findings ctx v =
     (if rv_actionable_findings v = []
      then (if rv_verdict v \<in> set repair_verdicts \<and> gx_enforce_grounding ctx
            then Inl (ReviewOutputInvalid ''NEEDS_FIX/REJECT omitted actionable_findings'')
            else Inr v)
      else (case check_findings ctx 1 (rv_actionable_findings v) of
              Inl e \<Rightarrow> Inl e
            | Inr rendered \<Rightarrow> Inr (v\<lparr> rv_blocking_findings := rendered \<rparr>)))"

text \<open>\<open>ci_wait::defer\<close>: the verdict it leaves and whether it deferred.\<close>

definition ci_defer :: "review_gate_context \<Rightarrow> review_verdict \<Rightarrow> review_verdict \<times> bool" where
  "ci_defer ctx v =
     (let ci_only = gx_ci_failed ctx \<and> rv_verdict v = ''NEEDS_FIX'' \<and> rv_actionable_findings v = []
            \<and> rv_blocking_findings v \<noteq> []
            \<and> list_all (\<lambda>f. is_some_and (strip_prefix ''ci:failed:'' f) (\<lambda>job. trim job \<noteq> []))
                (rv_blocking_findings v)
      in (if ci_only then v\<lparr> rv_safety_gate_reason := Some ''ci_failed_waiting_for_push'', rv_human_required := False \<rparr>
          else v, ci_only))"

subsection \<open>The evidence gate\<close>

definition REVIEW_FORMAT_ONLY_VIOLATION_REASON :: rust_str where
  "REVIEW_FORMAT_ONLY_VIOLATION_REASON =
     ''APPROVE included substantive prose; every finding must be represented in the review JSON''"

definition REVIEW_FORMAT_REPAIR_INSTRUCTIONS :: rust_str where
  "REVIEW_FORMAT_REPAIR_INSTRUCTIONS =
     ''Retrying: respond with ONLY the inert heading `Review notes` followed by the JSON object. ''
     @ ''Include no extra prose before or after the JSON.''"

definition CONTRACT_GATE_REASON :: rust_str where
  "CONTRACT_GATE_REASON =
     ''APPROVE changed a contract surface without a control-plane-verifiable compatibility mechanism and evidence''"

definition inert_line :: "bool \<Rightarrow> rust_str \<Rightarrow> bool" where
  "inert_line agy_trace line =
     (line = [] \<or> agy_trace \<and> starts_with ''I will '' line
      \<or> trim (trim_end_matches (CHR '':'') (to_ascii_lowercase line))
          \<in> {''review notes'', ''## review notes'', ''### review notes'', ''```json'', ''```''})"

definition review_text_has_substantive_prose :: "(rust_str \<Rightarrow> bool) \<Rightarrow> rust_str \<Rightarrow> rust_str \<Rightarrow> bool" where
  "review_text_has_substantive_prose is_json body backend =
     (case extract_first_json_object is_json body of
        None \<Rightarrow> True
      | Some json \<Rightarrow>
          (case find_str json body of
             None \<Rightarrow> True
           | Some start \<Rightarrow>
               list_ex (\<lambda>line. \<not> inert_line (backend \<in> {''agy'', ''agy-second''}) (trim line))
                 (lines_of (take start body @ drop (start + length json) body))))"

definition evidence_gate_reason ::
  "(rust_str \<Rightarrow> bool) \<Rightarrow> rust_str \<Rightarrow> rust_str \<Rightarrow> review_gate_context \<Rightarrow> review_verdict \<Rightarrow> rust_str option" where
  "evidence_gate_reason is_json body backend ctx v =
     (if rv_blocking_findings v \<noteq> [] then Some ''APPROVE contradicted non-empty blocking_findings''
      else if review_text_has_substantive_prose is_json body backend
      then Some REVIEW_FORMAT_ONLY_VIOLATION_REASON
      else if rv_evidence v = [] then Some ''APPROVE omitted required concrete review evidence''
      else if gx_enforce_grounding ctx \<and> falsely_claims_passed_ci ctx (rv_evidence v)
      then Some ''APPROVE claimed passed CI while the control plane did not report it''
      else if gx_enforce_grounding ctx \<and> \<not> evidence_is_grounded ctx (rv_evidence v)
      then Some ''APPROVE evidence was not grounded in an exact changed file from the control plane''
      else if gx_hold_contract_changes ctx \<and> has_contract_surface_change ctx
              \<and> (gx_compatibility_mechanisms ctx = []
                 \<or> \<not> compatibility_is_grounded ctx (rv_compatibility_evidence v))
      then Some CONTRACT_GATE_REASON
      else None)"

definition enforce_review_evidence_gate ::
  "(rust_str \<Rightarrow> bool) \<Rightarrow> rust_str \<Rightarrow> rust_str \<Rightarrow> review_gate_context \<Rightarrow> review_verdict \<Rightarrow> review_verdict" where
  "enforce_review_evidence_gate is_json body backend ctx v =
     (if rv_verdict v \<noteq> ''APPROVE'' then v
      else (case acceptance_gate_reason ctx v of
              Some r \<Rightarrow>
                v\<lparr> rv_verdict := ''NEEDS_FIX'', rv_human_required := False,
                   rv_blocking_findings :=
                     (if r \<in> set (rv_blocking_findings v) then rv_blocking_findings v
                      else rv_blocking_findings v @ [r]),
                   rv_safety_gate_reason := Some r \<rparr>
            | None \<Rightarrow>
                (case evidence_gate_reason is_json body backend ctx v of
                   None \<Rightarrow> v
                 | Some r \<Rightarrow> v\<lparr> rv_verdict := ''HUMAN_REVIEW'', rv_human_required := True,
                                rv_safety_gate_reason := Some r \<rparr>)))"

definition repair_instructions :: "review_gate_context \<Rightarrow> review_verdict \<Rightarrow> rust_str option" where
  "repair_instructions ctx v =
     (if rv_verdict v \<noteq> ''HUMAN_REVIEW'' then None
      else (case rv_safety_gate_reason v of
              None \<Rightarrow> None
            | Some r \<Rightarrow>
                if r = REVIEW_FORMAT_ONLY_VIOLATION_REASON then Some REVIEW_FORMAT_REPAIR_INSTRUCTIONS
                else if r = CONTRACT_GATE_REASON then Some
                  (''Your APPROVE changed persisted or wire contract files without compatibility evidence: ''
                   @ join '', '' (gx_contract_files ctx)
                   @ ''. Re-check them. If the change is compatible, keep APPROVE and add compatibility_evidence ''
                   @ ''with file:<one of those paths> and mechanism:<''
                   @ (if gx_compatibility_mechanisms ctx = [] then ''none found in the diff''
                      else join ''|'' (gx_compatibility_mechanisms ctx))
                   @ ''> naming a mechanism actually present in the diff. If it is not compatible, return ''
                   @ ''NEEDS_FIX with a concrete actionable finding. Respond with ONLY the inert heading ''
                   @ ''`Review notes` followed by the JSON object.'')
                else None))"

subsection \<open>Reviewer tiers\<close>

datatype reviewer_tier = Strong | Standard | Weak | Escalatory

fun tier_str :: "reviewer_tier \<Rightarrow> rust_str" where
  "tier_str Strong = ''strong''"
| "tier_str Standard = ''standard''"
| "tier_str Weak = ''weak''"
| "tier_str Escalatory = ''escalatory''"

definition selected :: "route_decision \<Rightarrow> rust_str option \<Rightarrow> rust_str option \<Rightarrow> bool" where
  "selected route backend_cfg model_cfg =
     (is_some_and backend_cfg (\<lambda>b. b = rd_effective_backend route)
      \<and> (model_cfg = None \<or> model_cfg = rd_effective_model route))"

definition matches_candidate :: "route_decision \<Rightarrow> candidate_config \<Rightarrow> bool" where
  "matches_candidate route c = selected route (Some (cc_backend c)) (cc_model c)"

definition legacy_weak :: "routing_policy \<Rightarrow> candidate_config \<Rightarrow> bool" where
  "legacy_weak p esc =
     (rp_escalatory_reviewers p = [] \<and> rp_weak_review_backend p = Some (cc_backend esc)
      \<and> rp_weak_review_model p = cc_model esc)"

definition derive_reviewer_tier ::
  "(rust_str \<Rightarrow> bool) \<Rightarrow> routing_policy \<Rightarrow> route_profile \<Rightarrow> route_decision \<Rightarrow> reviewer_tier" where
  "derive_reviewer_tier is_sub defaults prof route =
     (let p = pf_routing prof;
          routine = opt_or (effective_routine_reviewer p) (effective_routine_reviewer defaults);
          escalatory = rp_escalatory_reviewers p @ rp_escalatory_reviewers defaults;
          both = (\<lambda>f. opt_or (f p) (f defaults));
          effective = effective_routing is_sub prof defaults
      in case List.find (matches_candidate route) escalatory of
           Some esc \<Rightarrow> if legacy_weak p esc then Weak else Escalatory
         | None \<Rightarrow>
             if is_some_and routine (matches_candidate route) then Strong
             else if selected route (both rp_weak_review_backend) (both rp_weak_review_model) then Weak
             else if selected route (both rp_strong_review_backend) (both rp_strong_review_model) then Strong
             else if is_some_and (opt_or (rp_review_candidates p) (rp_review_candidates defaults)) (list_ex (matches_candidate route)) then Strong
             else if is_some (allowed_models_for effective ''review'')
                     \<and> allows_model effective ''review'' (rd_effective_backend route) (rd_effective_model route)
             then Strong
             else Standard)"

definition reviewer_dedup_class :: "reviewer_tier \<Rightarrow> route_decision \<Rightarrow> rust_str" where
  "reviewer_dedup_class tier route =
     (case tier of
        Escalatory \<Rightarrow> ''escalatory:'' @ rd_effective_backend route @ ''/''
                        @ unwrap_or (rd_effective_model route) ''default''
      | _ \<Rightarrow> tier_str tier)"

subsection \<open>From a reply to a verdict\<close>

definition apply_tier :: "reviewer_tier \<Rightarrow> review_verdict \<Rightarrow> review_verdict" where
  "apply_tier tier v0 =
     (let v1 = (if tier = Weak \<and> rv_confidence v0 = ''high'' then v0\<lparr> rv_confidence := ''medium'' \<rparr> else v0);
          v2 = (if tier = Weak \<and> rv_verdict v1 = ''APPROVE'' then v1\<lparr> rv_human_required := True \<rparr> else v1)
      in if rv_verdict v2 = ''HUMAN_REVIEW'' \<or> rv_verdict v2 = ''APPROVE'' \<and> rv_confidence v2 = ''low''
         then v2\<lparr> rv_human_required := True \<rparr> else v2)"

definition record_reviewer :: "reviewer_tier \<Rightarrow> route_decision \<Rightarrow> review_verdict \<Rightarrow> review_verdict" where
  "record_reviewer tier route v =
     v\<lparr> rv_reviewer_tier := Some (tier_str tier), rv_reviewer_backend := Some (rd_effective_backend route),
        rv_reviewer_model := rd_effective_model route, rv_requested_backend := Some (rd_requested_backend route),
        rv_effective_backend := Some (rd_effective_backend route), rv_requested_model := rd_requested_model route,
        rv_effective_model := rd_effective_model route, rv_fallback_used := Some (rd_fallback_used route) \<rparr>"

definition parse_review_verdict_with_context ::
  "(rust_str \<Rightarrow> bool) \<Rightarrow> (rust_str \<Rightarrow> review_verdict option) \<Rightarrow> rust_str \<Rightarrow> route_decision \<Rightarrow> reviewer_tier
   \<Rightarrow> review_gate_context \<Rightarrow> (review_error, review_verdict) rust_result" where
  "parse_review_verdict_with_context is_json read_verdict body route tier ctx =
     (case extract_first_json_object is_json body of
        None \<Rightarrow> Inl NoVerdictJson
      | Some json \<Rightarrow>
          (case read_verdict json of
             None \<Rightarrow> Inl VerdictJson
           | Some parsed \<Rightarrow>
               (let (v, deferred) = ci_defer ctx parsed
                in case (if deferred then Inr v else normalize_actionable_findings ctx v) of
                     Inl e \<Rightarrow> Inl e
                   | Inr w \<Rightarrow>
                       Inr (record_reviewer tier route (apply_tier tier
                         (enforce_review_evidence_gate is_json body (rd_effective_backend route) ctx w))))))"

end
