(* ===== verification/Text_Scan_Props.thy ===== *)
theory Text_Scan_Props
  imports Text_Scan "HOL-Library.Sublist"
begin

text \<open>
  The scanners of \<open>dispatch/text.rs\<close>: what they return is JSON and occurs in the reply, an
  object with no other brace around it is found, and a cut text is the longest one that ends (or
  begins) on a character boundary within the limit.
\<close>

subsection \<open>Objects in a reply\<close>

lemma contains_take: "contains_str (take n s) s"
  unfolding contains_str_iff by (intro exI [of _ "[]"] exI [of _ "drop n s"]) simp

lemma contains_drop: "contains_str p (drop n s) \<Longrightarrow> contains_str p s"
  unfolding contains_str_iff by (metis append.assoc append_take_drop_id)

lemma contains_Cons: "contains_str p cs \<Longrightarrow> contains_str p (c # cs)"
  using contains_drop [of p 1 "c # cs"] by simp

lemma contains_trans: "contains_str p q \<Longrightarrow> contains_str q s \<Longrightarrow> contains_str p s"
  unfolding contains_str_iff by (metis append.assoc)

lemma suffix_trim_start: "suffix (trim_start s) s"
  by (induction s rule: trim_start.induct) (auto simp: suffix_Cons)

lemma suffix_trim_rev: "suffix (trim_rev s) s"
  by (induction s rule: trim_rev.induct) (auto simp: suffix_Cons)

lemma trim_end_prefix: "prefix (trim_end s) s"
  using suffix_trim_rev [of "rev s"] by (simp add: trim_end_def suffix_to_prefix)

lemma contains_trim: "contains_str (trim s) s"
proof -
  obtain u where u: "s = u @ trim_start s" using suffix_trim_start [of s] by (auto simp: suffix_def)
  obtain v where v: "trim_start s = trim s @ v"
    using trim_end_prefix [of "trim_start s"] by (auto simp: prefix_def trim_def)
  show ?thesis unfolding contains_str_iff by (intro exI [of _ u] exI [of _ v]) (use u v in metis)
qed

lemma scan_objects_hit:
  "match_span 0 False False (CHR ''{'' # rest) = Some n \<Longrightarrow>
   scan_objects is_json (CHR ''{'' # rest) acc
   = scan_objects is_json (drop n (CHR ''{'' # rest))
       (if is_json (take n (CHR ''{'' # rest)) then Some (take n (CHR ''{'' # rest)) else acc)"
  by (subst scan_objects.simps) (simp del: match_span.simps)

lemma scan_objects_miss:
  "c \<noteq> CHR ''{'' \<or> match_span 0 False False (c # rest) = None \<Longrightarrow>
   scan_objects is_json (c # rest) acc = scan_objects is_json rest acc"
  by (subst scan_objects.simps) (auto simp del: match_span.simps)

lemma scan_objects_sound:
  assumes "scan_objects is_json body acc = Some j"
  shows "acc = Some j \<or> is_json j \<and> contains_str j body"
  using assms
proof (induction "length body" arbitrary: body acc rule: less_induct)
  case less
  show ?case
  proof (cases body)
    case Nil
    with less.prems show ?thesis by (simp add: scan_objects.simps)
  next
    case (Cons c rest)
    show ?thesis
    proof (cases "c = CHR ''{'' \<and> match_span 0 False False body \<noteq> None")
      case True
      then obtain n where n: "c = CHR ''{''" "match_span 0 False False body = Some n" by auto
      let ?acc = "if is_json (take n body) then Some (take n body) else acc"
      have "length (drop n body) < length body" using match_span_bounds [OF n(2)] by auto
      moreover have "scan_objects is_json (drop n body) ?acc = Some j"
        using less.prems n Cons by (metis scan_objects_hit)
      ultimately have "?acc = Some j \<or> is_json j \<and> contains_str j (drop n body)" using less.hyps by blast
      then show ?thesis by (auto simp: contains_take intro: contains_drop split: if_splits)
    next
      case False
      with less.prems Cons have "scan_objects is_json rest acc = Some j" by (metis scan_objects_miss)
      with less.hyps [of rest acc] Cons show ?thesis by (auto intro: contains_Cons)
    qed
  qed
qed

lemma scan_fences_hit:
  assumes "find_str FENCE_OPEN body = Some i" "content = drop (i + length FENCE_OPEN) body"
    and "find_str FENCE_CLOSE content = Some k"
  shows "scan_fences is_json body acc = scan_fences is_json (drop (k + length FENCE_CLOSE) content)
    (if is_json (trim (take k content)) then Some (trim (take k content)) else acc)"
  using assms by (subst scan_fences.simps) (simp add: Let_def)

lemma scan_fences_sound:
  assumes "scan_fences is_json body acc = Some j"
  shows "acc = Some j \<or> is_json j \<and> contains_str j body"
  using assms
proof (induction "length body" arbitrary: body acc rule: less_induct)
  case less
  show ?case
  proof (cases "\<exists>i k. find_str FENCE_OPEN body = Some i
      \<and> find_str FENCE_CLOSE (drop (i + length FENCE_OPEN) body) = Some k")
    case False
    with less.prems show ?thesis
      by (subst (asm) scan_fences.simps) (auto simp: Let_def split: option.splits)
  next
    case True
    then obtain i k content where hit: "find_str FENCE_OPEN body = Some i"
      "content = drop (i + length FENCE_OPEN) body" "find_str FENCE_CLOSE content = Some k" by blast
    let ?acc = "if is_json (trim (take k content)) then Some (trim (take k content)) else acc"
    let ?rest = "drop (k + length FENCE_CLOSE) content"
    have sub: "contains_str p content \<Longrightarrow> contains_str p body" for p
      unfolding hit(2) by (rule contains_drop)
    have "length ?rest < length body"
      using find_str_bound [OF hit(1)] hit(2) by (simp add: FENCE_OPEN_def FENCE_CLOSE_def)
    moreover have "scan_fences is_json ?rest ?acc = Some j" using less.prems scan_fences_hit [OF hit] by simp
    ultimately have "?acc = Some j \<or> is_json j \<and> contains_str j ?rest" using less.hyps by blast
    then show ?thesis
      by (auto intro: sub contains_drop contains_trans [OF contains_trim contains_take] split: if_splits)
  qed
qed

lemma extract_sound:
  "extract_first_json_object is_json text = Some j \<Longrightarrow> is_json j \<and> contains_str j text"
  by (auto simp: extract_first_json_object_def extract_last_fenced_json_block_def split: option.splits
      dest: scan_objects_sound scan_fences_sound)

text \<open>A balanced object that no other brace surrounds is found.\<close>

lemma scan_objects_skip: "CHR ''{'' \<notin> set pre \<Longrightarrow> scan_objects is_json (pre @ s) acc = scan_objects is_json s acc"
  by (induction pre) (auto simp: scan_objects_miss)

lemma scan_objects_plain: "CHR ''{'' \<notin> set s \<Longrightarrow> scan_objects is_json s acc = acc"
  using scan_objects_skip [of s is_json "[]" acc] by (simp add: scan_objects.simps [of is_json "[]"])

lemma extract_single_object:
  assumes "CHR ''{'' \<notin> set pre" "CHR ''{'' \<notin> set post" "\<not> contains_str FENCE_OPEN (pre @ j @ post)"
    and "match_span 0 False False (j @ post) = Some (length j)" "hd j = CHR ''{''" "is_json j"
  shows "extract_first_json_object is_json (pre @ j @ post) = Some j"
proof -
  have "j \<noteq> []" using assms(4) match_span_bounds by fastforce
  then obtain rest where j: "j = CHR ''{'' # rest" using assms(5) by (cases j) auto
  have "scan_objects is_json (j @ post) None = Some j"
    using scan_objects_hit [of "rest @ post" "length j" is_json None] assms(2,4,6) j
    by (simp add: scan_objects_plain)
  moreover have "scan_fences is_json (pre @ j @ post) None = None"
    using assms(3) by (simp add: scan_fences.simps [of is_json "pre @ j @ post"] find_str_None_iff [symmetric])
  ultimately show ?thesis
    using assms(1) by (simp add: extract_first_json_object_def extract_last_fenced_json_block_def scan_objects_skip)
qed

subsection \<open>Cutting texts\<close>

lemma boundary_0 [simp]: "is_char_boundary s 0"
  by (simp add: is_char_boundary_def)

lemma boundary_length [simp]: "is_char_boundary s (length s)"
  by (simp add: is_char_boundary_def)

lemma boundary_le: "is_char_boundary s i \<Longrightarrow> i \<le> length s"
  by (auto simp: is_char_boundary_def)

text \<open>The cut ends on the last boundary within the limit; the start of the rest on the first one.\<close>

lemma takeWhile_less_sorted: "sorted xs \<Longrightarrow> takeWhile (\<lambda>i. i < b) xs = filter (\<lambda>i. i < b) (xs :: nat list)"
proof (induction xs)
  case (Cons a xs)
  then have "filter (\<lambda>i. i < b) xs = []" if "\<not> a < b" using that by (auto simp: filter_empty_conv)
  with Cons show ?case by auto
qed simp

lemma first_rev_filter_upt:
  assumes "first (rev (filter P [0..<n])) = Some k"
  shows "P k \<and> k < n \<and> (\<forall>i. P i \<longrightarrow> i < n \<longrightarrow> i \<le> k)"
  using assms by (induction n) (auto split: if_splits simp: less_Suc_eq le_less)

lemma first_filter_upt:
  assumes "first (filter P [0..<n]) = Some k"
  shows "P k \<and> k < n \<and> (\<forall>i. P i \<longrightarrow> i < n \<longrightarrow> k \<le> i)"
proof -
  have "sorted (filter P [0..<n])" by (simp add: sorted_wrt_filter)
  with assms have "k \<in> set (filter P [0..<n]) \<and> (\<forall>i \<in> set (filter P [0..<n]). k \<le> i)"
    by (cases "filter P [0..<n]") auto
  then show ?thesis by auto
qed

text \<open>A cut keeps the longest part that ends on a character boundary within the limit.\<close>

lemma prefix_cut:
  assumes "s \<noteq> []" "0 < n"
  shows "\<exists>k. utf8_safe_prefix s n = take k s \<and> k \<le> n \<and> is_char_boundary s k
    \<and> (\<forall>i. is_char_boundary s i \<longrightarrow> i \<le> n \<longrightarrow> i \<le> k)"
proof (cases "is_char_boundary s (min (length s) n)")
  case True
  with assms show ?thesis
    by (intro exI [of _ "min (length s) n"]) (auto simp: utf8_safe_prefix_def Let_def dest: boundary_le)
next
  case False
  then have n: "n < length s" by (auto simp: min_def split: if_splits)
  let ?starts = "filter (\<lambda>i. is_char_boundary s i \<and> i < n) [0..<length s]"
  have "0 \<in> set ?starts" using assms by auto
  then have "rev ?starts \<noteq> []" by (metis empty_iff list.set(1) set_rev)
  then obtain k where k: "first (rev ?starts) = Some k" using first_hd by blast
  have "takeWhile (\<lambda>i. i < n) (char_starts s) = ?starts"
    by (simp add: char_starts_def takeWhile_less_sorted sorted_wrt_filter conj_commute)
  with k n False assms have "utf8_safe_prefix s n = take k s"
    by (simp add: utf8_safe_prefix_def Let_def)
  with first_rev_filter_upt [OF k] n False show ?thesis
    by (intro exI [of _ k]) (auto simp: le_less min_def split: if_splits)
qed

lemma suffix_cut:
  assumes "s \<noteq> []" "0 < n"
  shows "\<exists>k. utf8_safe_suffix s n = drop k s \<and> length s - k \<le> n \<and> is_char_boundary s k
    \<and> (\<forall>i. is_char_boundary s i \<longrightarrow> length s - i \<le> n \<longrightarrow> k \<le> i)"
proof (cases "is_char_boundary s (length s - n)")
  case True
  with assms show ?thesis
    by (intro exI [of _ "length s - n"]) (auto simp: utf8_safe_suffix_def Let_def)
next
  case False
  let ?b = "length s - n" and ?starts = "filter (\<lambda>i. is_char_boundary s i \<and> length s - n \<le> i) [0..<length s]"
  have find: "List.find (\<lambda>i. ?b \<le> i) (char_starts s) = first ?starts"
    by (simp add: char_starts_def find_first_filter conj_commute)
  show ?thesis
  proof (cases "first ?starts")
    case None
    then have "i = length s" if "is_char_boundary s i" "?b \<le> i" for i
      using that boundary_le [of s i] by (auto simp: filter_empty_conv le_less)
    with None find False assms show ?thesis
      by (intro exI [of _ "length s"]) (fastforce simp: utf8_safe_suffix_def Let_def)
  next
    case (Some k)
    with find False assms have "utf8_safe_suffix s n = drop k s" by (simp add: utf8_safe_suffix_def Let_def)
    with first_filter_upt [OF Some] show ?thesis
      by (intro exI [of _ k]) (auto simp: not_le dest: boundary_le intro: leI)
  qed
qed

text \<open>Cut texts are well formed and as long as possible: the prefix (suffix) of a text within a number
  of bytes ends (begins) on a character boundary, is within the limit, and no other cut on a boundary
  within the limit is longer.\<close>

theorem cut_texts_are_longest:
  "(\<exists>k. utf8_safe_prefix s n = take k s \<and> k \<le> n \<and> is_char_boundary s k
     \<and> (\<forall>i. is_char_boundary s i \<longrightarrow> i \<le> n \<longrightarrow> i \<le> k))
   \<and> (\<exists>k. utf8_safe_suffix s n = drop k s \<and> length s - k \<le> n \<and> is_char_boundary s k
     \<and> (\<forall>i. is_char_boundary s i \<longrightarrow> length s - i \<le> n \<longrightarrow> k \<le> i))"
proof (cases "s = [] \<or> n = 0")
  case True
  then have "utf8_safe_prefix s n = take 0 s" "utf8_safe_suffix s n = drop (length s) s"
    by (auto simp: utf8_safe_prefix_def utf8_safe_suffix_def)
  moreover have "\<forall>i. is_char_boundary s i \<longrightarrow> i \<le> n \<longrightarrow> i \<le> 0" using True by (auto dest: boundary_le)
  moreover have "\<forall>i. is_char_boundary s i \<longrightarrow> length s - i \<le> n \<longrightarrow> length s \<le> i" using True by auto
  ultimately show ?thesis by (metis boundary_0 boundary_length diff_self_eq_0 le0)
next
  case False
  then show ?thesis using prefix_cut [of s n] suffix_cut [of s n] by blast
qed

theorem cut_texts_are_longest_witness:
  "utf8_safe_prefix [CHR ''a'', CHR 0xC3, CHR 0xA9] 2 = ''a''"
proof -
  let ?s = "[CHR ''a'', CHR 0xC3, CHR 0xA9]"
  obtain k where k: "utf8_safe_prefix ?s 2 = take k ?s" "k \<le> 2" "is_char_boundary ?s k"
    "\<And>i. is_char_boundary ?s i \<Longrightarrow> i \<le> 2 \<Longrightarrow> i \<le> k"
    using cut_texts_are_longest [of ?s 2] by blast
  have "1 \<le> k" using k(4) [of 1] by (simp add: is_char_boundary_def)
  moreover have "k \<noteq> 2" using k(3) by (auto simp: is_char_boundary_def)
  ultimately have "k = 1" using k(2) by linarith
  then show ?thesis using k(1) by simp
qed

end
