(* ===== verification/Review_Verdict_Props.thy ===== *)
theory Review_Verdict_Props
  imports Review_Verdict Text_Scan_Props
begin

text \<open>
  What the deterministic gate guarantees of a verdict, whatever the reviewer wrote: an approval that
  survives is grounded in facts of the control plane, and an order to repair names changed files with
  direct evidence.
\<close>

subsection \<open>The stages of the gate\<close>

lemma apply_tier_simps [simp]:
  "rv_verdict (apply_tier tier v) = rv_verdict v"
  "rv_evidence (apply_tier tier v) = rv_evidence v"
  "rv_blocking_findings (apply_tier tier v) = rv_blocking_findings v"
  "rv_actionable_findings (apply_tier tier v) = rv_actionable_findings v"
  "rv_compatibility_evidence (apply_tier tier v) = rv_compatibility_evidence v"
  "rv_safety_gate_reason (apply_tier tier v) = rv_safety_gate_reason v"
  "rv_non_blocking_findings (apply_tier tier v) = rv_non_blocking_findings v"
  "rv_risk_notes (apply_tier tier v) = rv_risk_notes v"
  by (simp_all add: apply_tier_def Let_def)

lemma apply_tier_human:
  "rv_verdict v = ''APPROVE'' \<Longrightarrow> tier = Weak \<or> rv_confidence (apply_tier tier v) = ''low''
   \<Longrightarrow> rv_human_required (apply_tier tier v)"
  "rv_verdict v = ''HUMAN_REVIEW'' \<Longrightarrow> rv_human_required (apply_tier tier v)"
  by (auto simp: apply_tier_def Let_def split: if_splits)

lemma record_reviewer_simps [simp]:
  "rv_verdict (record_reviewer tier route v) = rv_verdict v"
  "rv_confidence (record_reviewer tier route v) = rv_confidence v"
  "rv_human_required (record_reviewer tier route v) = rv_human_required v"
  "rv_evidence (record_reviewer tier route v) = rv_evidence v"
  "rv_blocking_findings (record_reviewer tier route v) = rv_blocking_findings v"
  "rv_actionable_findings (record_reviewer tier route v) = rv_actionable_findings v"
  "rv_compatibility_evidence (record_reviewer tier route v) = rv_compatibility_evidence v"
  "rv_safety_gate_reason (record_reviewer tier route v) = rv_safety_gate_reason v"
  "rv_non_blocking_findings (record_reviewer tier route v) = rv_non_blocking_findings v"
  "rv_risk_notes (record_reviewer tier route v) = rv_risk_notes v"
  "rv_reviewer_tier (record_reviewer tier route v) = Some (tier_str tier)"
  by (simp_all add: record_reviewer_def)

text \<open>A verdict before the gate: deferred for CI or with its findings checked.\<close>

definition prepared :: "review_gate_context \<Rightarrow> review_verdict \<Rightarrow> review_verdict \<Rightarrow> bool" where
  "prepared ctx parsed w =
     (snd (ci_defer ctx parsed) \<and> w = fst (ci_defer ctx parsed)
      \<or> \<not> snd (ci_defer ctx parsed) \<and> normalize_actionable_findings ctx parsed = Inr w)"

lemma ci_defer_not: "\<not> snd (ci_defer ctx v) \<Longrightarrow> fst (ci_defer ctx v) = v"
  by (auto simp: ci_defer_def Let_def)

lemma parse_review_success:
  assumes "parse_review_verdict_with_context is_json read_verdict body route tier ctx = Inr v"
  shows "\<exists>json parsed w. extract_first_json_object is_json body = Some json \<and> read_verdict json = Some parsed
    \<and> prepared ctx parsed w
    \<and> v = record_reviewer tier route (apply_tier tier
        (enforce_review_evidence_gate is_json body (rd_effective_backend route) ctx w))"
proof -
  from assms obtain json parsed where j: "extract_first_json_object is_json body = Some json"
    "read_verdict json = Some parsed"
    by (auto simp: parse_review_verdict_with_context_def split: option.splits)
  obtain v' deferred where d: "ci_defer ctx parsed = (v', deferred)" by (cases "ci_defer ctx parsed")
  from assms j d obtain w where "(if deferred then Inr v' else normalize_actionable_findings ctx v') = Inr w"
    "v = record_reviewer tier route (apply_tier tier
        (enforce_review_evidence_gate is_json body (rd_effective_backend route) ctx w))"
    by (auto simp: parse_review_verdict_with_context_def split: sum.splits if_splits)
  moreover from this d ci_defer_not [of ctx parsed] have "prepared ctx parsed w"
    by (auto simp: prepared_def split: if_splits)
  ultimately show ?thesis using j by blast
qed

lemma enforce_keeps_approval:
  assumes "rv_verdict (enforce_review_evidence_gate is_json body backend ctx w) = ''APPROVE''"
  shows "enforce_review_evidence_gate is_json body backend ctx w = w" "rv_verdict w = ''APPROVE''"
    "acceptance_gate_reason ctx w = None" "evidence_gate_reason is_json body backend ctx w = None"
  using assms by (auto simp: enforce_review_evidence_gate_def split: if_splits option.splits)

lemma criteria_gate_None:
  assumes "criteria_gate ctx evs n cs = None" "k < length cs"
  shows "\<exists>m \<in> set (mappings_of (n + k) evs).
    acceptance_mapping_is_grounded ctx m (criterion_requires_external_state (cs ! k))"
  using assms
proof (induction cs arbitrary: n k)
  case (Cons c cs)
  from Cons.prems(1) have here: "list_ex (\<lambda>m. acceptance_mapping_is_grounded ctx m (criterion_requires_external_state c))
      (mappings_of n evs)" and rest: "criteria_gate ctx evs (n + 1) cs = None"
    by (auto simp: Let_def split: if_splits)
  show ?case
  proof (cases k)
    case 0
    with here show ?thesis by (auto simp: list_ex_iff)
  next
    case (Suc k')
    with Cons.IH [OF rest, of k'] Cons.prems(2) show ?thesis by simp
  qed
qed simp

lemma mappings_of_mem:
  "m \<in> set (mappings_of n evs) \<longleftrightarrow> (\<exists>item \<in> set evs. trim item = ''ac:'' @ nat_str n @ '':'' @ m)"
  by (auto simp: mappings_of_def set_map_filter strip_prefix_Some_iff)

lemma names_file_iff:
  "names_file files item \<longleftrightarrow> (\<exists>p. trim item = ''file:'' @ p \<and> trim p \<in> set files)"
  by (auto simp: names_file_def is_some_and_iff strip_prefix_Some_iff)

lemma prose_free:
  assumes "\<not> review_text_has_substantive_prose is_json body backend"
  shows "\<exists>pre json post. extract_first_json_object is_json body = Some json \<and> body = pre @ json @ post
    \<and> list_all (\<lambda>line. inert_line (backend \<in> {''agy'', ''agy-second''}) (trim line)) (lines_of (pre @ post))"
proof -
  from assms obtain json i where j: "extract_first_json_object is_json body = Some json"
    "find_str json body = Some i"
    "\<not> list_ex (\<lambda>line. \<not> inert_line (backend \<in> {''agy'', ''agy-second''}) (trim line))
       (lines_of (take i body @ drop (i + length json) body))"
    by (auto simp: review_text_has_substantive_prose_def split: option.splits)
  with find_str_drop [OF j(2)] show ?thesis
    by (intro exI [of _ "take i body"] exI [of _ json] exI [of _ "drop (i + length json) body"])
      (auto simp: list_ex_iff list_all_iff)
qed

subsection \<open>Approvals\<close>

text \<open>What the control plane can check of an approval.\<close>

definition grounded_approval :: "review_gate_context \<Rightarrow> review_verdict \<Rightarrow> bool" where
  "grounded_approval ctx v \<longleftrightarrow>
     rv_blocking_findings v = []
     \<and> (\<exists>item \<in> set (rv_evidence v). \<exists>p. trim item = ''file:'' @ p \<and> trim p \<in> set (gx_changed_files ctx))
     \<and> (\<forall>item \<in> set (rv_evidence v). to_ascii_lowercase (trim item) = ''ci:passed'' \<longrightarrow> gx_ci_passed ctx)
     \<and> (\<forall>k < length (gx_acceptance_criteria ctx). \<exists>item \<in> set (rv_evidence v). \<exists>m.
          trim item = ''ac:'' @ nat_str (k + 1) @ '':'' @ m
          \<and> acceptance_mapping_is_grounded ctx m (criterion_requires_external_state (gx_acceptance_criteria ctx ! k)))
     \<and> (gx_hold_contract_changes ctx \<and> gx_contract_files ctx \<noteq> [] \<longrightarrow>
          (\<exists>item \<in> set (rv_compatibility_evidence v). \<exists>p. trim item = ''file:'' @ p \<and> trim p \<in> set (gx_contract_files ctx)))"

lemma acceptance_grounded:
  assumes "acceptance_gate_reason ctx v = None" "k < length (gx_acceptance_criteria ctx)"
  shows "\<exists>item \<in> set (rv_evidence v). \<exists>m. trim item = ''ac:'' @ nat_str (k + 1) @ '':'' @ m
    \<and> acceptance_mapping_is_grounded ctx m (criterion_requires_external_state (gx_acceptance_criteria ctx ! k))"
proof -
  from assms have "criteria_gate ctx (rv_evidence v) 1 (gx_acceptance_criteria ctx) = None"
    by (auto simp: acceptance_gate_reason_def split: if_splits)
  from criteria_gate_None [OF this assms(2)] obtain m where "m \<in> set (mappings_of (1 + k) (rv_evidence v))"
    "acceptance_mapping_is_grounded ctx m (criterion_requires_external_state (gx_acceptance_criteria ctx ! k))" by blast
  then show ?thesis unfolding mappings_of_mem by (metis add.commute)
qed

lemma gate_grounds_approval:
  assumes "acceptance_gate_reason ctx v = None" "evidence_gate_reason is_json body backend ctx v = None"
    and "gx_enforce_grounding ctx"
  shows "grounded_approval ctx v \<and> \<not> review_text_has_substantive_prose is_json body backend"
proof -
  from assms(2,3) have gates: "rv_blocking_findings v = []" "\<not> review_text_has_substantive_prose is_json body backend"
    "\<not> falsely_claims_passed_ci ctx (rv_evidence v)" "evidence_is_grounded ctx (rv_evidence v)"
    "gx_hold_contract_changes ctx \<and> gx_contract_files ctx \<noteq> []
     \<longrightarrow> compatibility_is_grounded ctx (rv_compatibility_evidence v)"
    by (auto simp: evidence_gate_reason_def has_contract_surface_change_def split: if_splits)
  have "to_ascii_lowercase ''ci:passed'' = ''ci:passed''" by code_simp
  with gates(3) have "\<forall>item \<in> set (rv_evidence v). to_ascii_lowercase (trim item) = ''ci:passed'' \<longrightarrow> gx_ci_passed ctx"
    by (auto simp: falsely_claims_passed_ci_def list_ex_iff eq_ignore_ascii_case_def)
  with gates acceptance_grounded [OF assms(1)] show ?thesis
    by (auto simp: grounded_approval_def evidence_is_grounded_def compatibility_is_grounded_def list_ex_iff names_file_iff)
qed

text \<open>C32. An approval is worth what the control plane can check: whatever a reviewer answers, a verdict
  that is still an approval after the gate has no blocking finding, cites a changed file, claims passed
  CI only if the control plane saw it, maps every acceptance criterion of the source to grounded
  evidence, gives compatibility evidence for a held contract change, and comes from a reply with
  nothing but inert lines around the verdict object; an approval by a weak reviewer or with low
  confidence asks for a person, and the recorded tier is the one of the route.\<close>

theorem approval_needs_evidence:
  assumes "parse_review_verdict_with_context is_json read_verdict body route tier ctx = Inr v"
    and "rv_verdict v = ''APPROVE''" "gx_enforce_grounding ctx"
  shows "grounded_approval ctx v
    \<and> (\<exists>pre json post. body = pre @ json @ post \<and> is_json json \<and> read_verdict json \<noteq> None
        \<and> list_all (\<lambda>line. inert_line (rd_effective_backend route \<in> {''agy'', ''agy-second''}) (trim line))
            (lines_of (pre @ post)))
    \<and> (tier = Weak \<or> rv_confidence v = ''low'' \<longrightarrow> rv_human_required v)
    \<and> rv_reviewer_tier v = Some (tier_str tier)"
proof -
  obtain json parsed w where p: "extract_first_json_object is_json body = Some json" "read_verdict json = Some parsed"
    "v = record_reviewer tier route (apply_tier tier
        (enforce_review_evidence_gate is_json body (rd_effective_backend route) ctx w))"
    using parse_review_success [OF assms(1)] by blast
  from assms(2) p(3) have "rv_verdict (enforce_review_evidence_gate is_json body (rd_effective_backend route) ctx w) = ''APPROVE''"
    by simp
  note kept = enforce_keeps_approval [OF this]
  from gate_grounds_approval [OF kept(3,4) assms(3)] have g: "grounded_approval ctx w"
    "\<not> review_text_has_substantive_prose is_json body (rd_effective_backend route)" by auto
  from g(1) have "grounded_approval ctx v" by (simp add: grounded_approval_def p(3) kept(1))
  moreover have "tier = Weak \<or> rv_confidence v = ''low'' \<longrightarrow> rv_human_required v"
    using apply_tier_human(1) [OF kept(2)] by (auto simp: p(3) kept(1))
  moreover have "rv_reviewer_tier v = Some (tier_str tier)" by (simp add: p(3))
  ultimately show ?thesis using prose_free [OF g(2)] p(1,2) extract_sound [OF p(1)] by auto
qed

subsection \<open>Orders to repair\<close>

definition repairable :: "review_gate_context \<Rightarrow> actionable_finding \<Rightarrow> bool" where
  "repairable ctx f \<longleftrightarrow>
     trim (af_file f) \<in> set (gx_changed_files ctx) \<and> trim (af_summary f) \<noteq> []
     \<and> to_ascii_lowercase (trim (af_status f)) = ''confirmed''
     \<and> (\<exists>item \<in> set (af_evidence f). \<exists>path observation. trim item = ''diff:'' @ path @ '':'' @ observation
          \<and> trim path = trim (af_file f) \<and> trim observation \<noteq> [])"

lemma finding_groundedD:
  assumes "finding_grounded f item"
  shows "\<exists>path obs. trim item = ''diff:'' @ path @ '':'' @ obs \<and> trim path = f \<and> trim obs \<noteq> []"
proof -
  from assms obtain rest path obs where "strip_prefix ''diff:'' (trim item) = Some rest"
    "split_once (CHR '':'') rest = Some (path, obs)" "trim path = f" "trim obs \<noteq> []"
    by (auto simp: finding_grounded_def split: option.splits)
  then show ?thesis by (auto simp: strip_prefix_Some_iff split_once_Some_iff)
qed

lemma check_finding_repairable:
  assumes "check_finding ctx n f = Inr r" "gx_enforce_grounding ctx"
  shows "repairable ctx f"
proof -
  have "to_ascii_lowercase ''confirmed'' = ''confirmed''" by code_simp
  with assms have "list_ex (finding_grounded (trim (af_file f))) (af_evidence f)"
    "trim (af_file f) \<in> set (gx_changed_files ctx)" "trim (af_summary f) \<noteq> []"
    "to_ascii_lowercase (trim (af_status f)) = ''confirmed''"
    by (auto simp: check_finding_def Let_def eq_ignore_ascii_case_def split: if_splits)
  then show ?thesis unfolding repairable_def list_ex_iff by (blast dest: finding_groundedD)
qed

lemma check_findings_repairable:
  "check_findings ctx n fs = Inr rs \<Longrightarrow> gx_enforce_grounding ctx
   \<Longrightarrow> list_all (repairable ctx) fs \<and> length rs = length fs"
  by (induction fs arbitrary: n rs) (auto split: sum.splits dest: check_finding_repairable)

lemma acceptance_reason_shape:
  assumes "acceptance_gate_reason ctx v = Some r"
  shows "starts_with ''APPROVE '' r"
proof -
  have "criteria_gate ctx evs n cs = Some r \<Longrightarrow> starts_with ''APPROVE '' r" for evs n cs
    by (induction cs arbitrary: n) (auto simp: Let_def starts_with_def split: if_splits)
  with assms show ?thesis by (auto simp: acceptance_gate_reason_def starts_with_def split: if_splits)
qed

lemma apply_tier_plain:
  "rv_verdict v \<noteq> ''APPROVE'' \<Longrightarrow> rv_verdict v \<noteq> ''HUMAN_REVIEW''
   \<Longrightarrow> rv_human_required (apply_tier tier v) = rv_human_required v"
  by (simp add: apply_tier_def Let_def)

lemma prepared_repair:
  assumes "prepared ctx parsed w" "rv_verdict w \<in> {''NEEDS_FIX'', ''REJECT''}" "gx_enforce_grounding ctx"
  shows "rv_actionable_findings w \<noteq> [] \<and> list_all (repairable ctx) (rv_actionable_findings w)
      \<and> length (rv_blocking_findings w) = length (rv_actionable_findings w)
    \<or> rv_safety_gate_reason w = Some ''ci_failed_waiting_for_push'' \<and> gx_ci_failed ctx \<and> \<not> rv_human_required w
      \<and> rv_blocking_findings w \<noteq> [] \<and> list_all (starts_with ''ci:failed:'') (rv_blocking_findings w)"
proof (cases "snd (ci_defer ctx parsed)")
  case True
  with assms(1) have "w = fst (ci_defer ctx parsed)" by (simp add: prepared_def)
  with True show ?thesis
    by (auto simp: ci_defer_def Let_def list_all_iff is_some_and_iff starts_with_def)
next
  case False
  with assms(1) have n: "normalize_actionable_findings ctx parsed = Inr w" by (simp add: prepared_def)
  show ?thesis
  proof (cases "rv_actionable_findings parsed = []")
    case True
    with n assms(2,3) show ?thesis
      by (auto simp: normalize_actionable_findings_def repair_verdicts_def split: if_splits)
  next
    case False
    with n obtain rs where "check_findings ctx 1 (rv_actionable_findings parsed) = Inr rs"
      "w = parsed\<lparr> rv_blocking_findings := rs \<rparr>"
      by (auto simp: normalize_actionable_findings_def split: sum.splits)
    with False check_findings_repairable [OF _ assms(3)] show ?thesis by fastforce
  qed
qed

text \<open>C33. A repair is ordered only on checked grounds: a verdict that asks for a fix or rejects, after the
  gate, either carries confirmed findings each of which names a changed file and cites the diff of this
  very file (one rendered instruction per finding), or waits for the next push because every finding is
  a failed CI job and the control plane saw CI fail, or is an approval turned back by the acceptance
  criteria, with the unmet criterion as an instruction.\<close>

theorem repair_orders_are_grounded:
  assumes "parse_review_verdict_with_context is_json read_verdict body route tier ctx = Inr v"
    and "rv_verdict v \<in> {''NEEDS_FIX'', ''REJECT''}" "gx_enforce_grounding ctx"
  shows "rv_actionable_findings v \<noteq> [] \<and> list_all (repairable ctx) (rv_actionable_findings v)
      \<and> length (rv_blocking_findings v) = length (rv_actionable_findings v)
    \<or> rv_safety_gate_reason v = Some ''ci_failed_waiting_for_push'' \<and> gx_ci_failed ctx \<and> \<not> rv_human_required v
      \<and> rv_blocking_findings v \<noteq> [] \<and> list_all (starts_with ''ci:failed:'') (rv_blocking_findings v)
    \<or> (\<exists>r \<in> set (rv_blocking_findings v). rv_safety_gate_reason v = Some r \<and> starts_with ''APPROVE '' r)"
proof -
  obtain json parsed w where p: "prepared ctx parsed w"
    "v = record_reviewer tier route (apply_tier tier
        (enforce_review_evidence_gate is_json body (rd_effective_backend route) ctx w))"
    using parse_review_success [OF assms(1)] by blast
  show ?thesis
  proof (cases "rv_verdict w = ''APPROVE''")
    case True
    with assms(2) p(2) obtain r where r: "acceptance_gate_reason ctx w = Some r"
      by (auto simp: enforce_review_evidence_gate_def split: option.splits if_splits)
    with True p(2) have "r \<in> set (rv_blocking_findings v)" "rv_safety_gate_reason v = Some r"
      by (auto simp: enforce_review_evidence_gate_def)
    with acceptance_reason_shape [OF r] show ?thesis by blast
  next
    case False
    then have v: "v = record_reviewer tier route (apply_tier tier w)"
      using p(2) by (simp add: enforce_review_evidence_gate_def)
    with assms(2) have "rv_verdict w \<in> {''NEEDS_FIX'', ''REJECT''}" by simp
    moreover from this have "rv_human_required (apply_tier tier w) = rv_human_required w"
      by (intro apply_tier_plain) auto
    ultimately show ?thesis using prepared_repair [OF p(1) _ assms(3)] by (simp add: v) blast
  qed
qed

text \<open>The reviewer's own gate reason is kept: the field is read from the reply and an approval that passes
  the gate, or a grounded order to repair, carries whatever the reviewer wrote there.\<close>

theorem gate_reason_from_reviewer:
  assumes "parse_review_verdict_with_context is_json read_verdict body route tier ctx = Inr v"
    and "extract_first_json_object is_json body = Some json" "read_verdict json = Some parsed"
    and "rv_verdict v = ''APPROVE''"
  shows "rv_safety_gate_reason v = rv_safety_gate_reason parsed"
proof -
  obtain w where p: "prepared ctx parsed w" "v = record_reviewer tier route (apply_tier tier
        (enforce_review_evidence_gate is_json body (rd_effective_backend route) ctx w))"
    using parse_review_success [OF assms(1)] assms(2,3) by auto
  from p(2) assms(4)
  have "rv_verdict (enforce_review_evidence_gate is_json body (rd_effective_backend route) ctx w) = ''APPROVE''" by simp
  with p(2) have kept: "v = record_reviewer tier route (apply_tier tier w)" "rv_verdict w = ''APPROVE''"
    using enforce_keeps_approval(1,2) by metis+
  then have "\<not> snd (ci_defer ctx parsed)" using p(1) by (auto simp: prepared_def ci_defer_def Let_def)
  with p(1) have "normalize_actionable_findings ctx parsed = Inr w" by (simp add: prepared_def)
  then show ?thesis
    by (auto simp: kept normalize_actionable_findings_def split: if_splits sum.splits)
qed

subsection \<open>Concrete replies\<close>

definition ex_reply :: rust_str where
  "ex_reply = ''Review notes:'' @ CHR 0x0A # ''{}''"

definition ex_json :: "rust_str \<Rightarrow> bool" where
  "ex_json s = (s = ''{}'')"

definition ex_review_ctx :: review_gate_context where
  "ex_review_ctx = with_source_acceptance [''Document the flag''] ''github''
     (from_diff_bundle \<lparr> db_diff = ''+flag'', db_files = ''docs/flags.md'' \<rparr> None)"

definition ex_approval :: review_verdict where
  "ex_approval = \<lparr> rv_verdict = ''APPROVE'', rv_confidence = ''high'', rv_human_required = False,
     rv_blocking_findings = [], rv_actionable_findings = [], rv_non_blocking_findings = [], rv_risk_notes = [],
     rv_evidence = [''file:docs/flags.md'', ''ac:1:file:docs/flags.md''], rv_compatibility_evidence = [],
     rv_safety_gate_reason = None, rv_reviewer_backend = None, rv_reviewer_model = None, rv_reviewer_tier = None,
     rv_requested_backend = None, rv_effective_backend = None, rv_requested_model = None,
     rv_effective_model = None, rv_fallback_used = None \<rparr>"

definition ex_reject :: review_verdict where
  "ex_reject = ex_approval\<lparr> rv_verdict := ''REJECT'',
     rv_actionable_findings := [\<lparr> af_summary = ''wrong default'', af_file = ''docs/flags.md'', af_line = Some ''3'',
       af_status = ''confirmed'', af_evidence = [''diff:docs/flags.md:the default is stated as on''] \<rparr>] \<rparr>"

definition ex_review_route :: route_decision where
  "ex_review_route = from_identity (legacy_candidate ''claude'' (Some ''opus'') None) ''configured'' False None False"

definition ex_parse :: "review_verdict \<Rightarrow> reviewer_tier \<Rightarrow> (review_error, review_verdict) rust_result" where
  "ex_parse reply tier = parse_review_verdict_with_context ex_json (\<lambda>_. Some reply) ex_reply ex_review_route tier ex_review_ctx"

lemma ex_approval_parsed: "map_sum id rv_verdict (ex_parse ex_approval Weak) = Inr ''APPROVE''"
  by code_simp

lemma ex_reject_parsed: "map_sum id rv_verdict (ex_parse ex_reject Strong) = Inr ''REJECT''"
  by code_simp

lemma ex_parse_obtains:
  assumes "map_sum id rv_verdict (ex_parse reply tier) = Inr x"
  shows "\<exists>v. ex_parse reply tier = Inr v \<and> rv_verdict v = x"
  using assms by (cases "ex_parse reply tier") auto

lemma ex_ctx_grounded: "gx_enforce_grounding ex_review_ctx"
  by (simp add: ex_review_ctx_def with_source_acceptance_def from_diff_bundle_def Let_def)

theorem approval_needs_evidence_witness:
  "\<exists>v. ex_parse ex_approval Weak = Inr v \<and> grounded_approval ex_review_ctx v \<and> rv_human_required v"
proof -
  obtain v where v: "ex_parse ex_approval Weak = Inr v" "rv_verdict v = ''APPROVE''"
    using ex_parse_obtains [OF ex_approval_parsed] by blast
  show ?thesis
    using approval_needs_evidence [OF v(1) [unfolded ex_parse_def] v(2) ex_ctx_grounded] v(1) by blast
qed

theorem repair_orders_are_grounded_witness:
  "\<exists>v. ex_parse ex_reject Strong = Inr v \<and> rv_verdict v = ''REJECT''
    \<and> list_all (repairable ex_review_ctx) (rv_actionable_findings v)"
proof -
  obtain v where v: "ex_parse ex_reject Strong = Inr v" "rv_verdict v = ''REJECT''"
    using ex_parse_obtains [OF ex_reject_parsed] by blast
  have "map_sum id rv_safety_gate_reason (ex_parse ex_reject Strong) = Inr None" by code_simp
  with v(1) have "rv_safety_gate_reason v = None" by simp
  then show ?thesis
    using repair_orders_are_grounded [OF v(1) [unfolded ex_parse_def] _ ex_ctx_grounded] v by auto
qed

end
