(* ===== verification/Review_Head.thy ===== *)
theory Review_Head
  imports Text_Scan Ledger Snapshot
begin

text \<open>
  Receipts of completed reviews (\<open>review_head.rs\<close>, \<open>dispatch/review/head.rs\<close>): the marker that a
  published verdict carries, the search for it in a comment thread page by page, and the projection
  into the row of a merge request that stops a repeated review.  The JSON codec of a receipt and the
  provider's pages are arguments.
\<close>

subsection \<open>Receipts\<close>

record receipt =
  rc_head :: rust_str
  rc_receipt_backend :: rust_str
  rc_receipt_model :: "rust_str option"

record receipt_codec =
  rx_to_json :: "receipt \<Rightarrow> rust_str"
  rx_from_json :: "rust_str \<Rightarrow> receipt option"

definition MARKER :: rust_str where "MARKER = ''<!-- gah-review-head-v1 ''"

definition NL :: rust_str where "NL = [CHR 0x0A]"

definition stamp :: "receipt_codec \<Rightarrow> rust_str \<Rightarrow> ledger_entry \<Rightarrow> rust_str" where
  "stamp codec body e =
     (case le_review_source_sha e of
        None \<Rightarrow> body
      | Some head \<Rightarrow>
          body @ NL @ MARKER
          @ rx_to_json codec \<lparr> rc_head = head, rc_receipt_backend = le_effective_backend e,
                               rc_receipt_model = le_effective_model e \<rparr>
          @ '' -->'' @ NL)"

fun strip_suffix :: "rust_str \<Rightarrow> rust_str \<Rightarrow> rust_str option" where
  "strip_suffix sfx s = map_option rev (strip_prefix (rev sfx) (rev s))"

datatype receipt_error = MalformedReceipt | ReceiptJson | DuplicateReceipt

fun receipt_lines :: "receipt_codec \<Rightarrow> rust_str option \<Rightarrow> rust_str list \<Rightarrow> (receipt_error, rust_str option) rust_result" where
  "receipt_lines codec head [] = Inr head"
| "receipt_lines codec head (line # rest) =
     (case Option.bind (strip_prefix MARKER line) (strip_suffix '' -->'') of
        None \<Rightarrow> Inl MalformedReceipt
      | Some json \<Rightarrow>
          (case rx_from_json codec json of
             None \<Rightarrow> Inl ReceiptJson
           | Some r \<Rightarrow>
               if head = None \<and> trim (rc_head r) \<noteq> [] \<and> trim (rc_receipt_backend r) \<noteq> []
               then receipt_lines codec (Some (rc_head r)) rest
               else Inl DuplicateReceipt))"

definition comment_head :: "receipt_codec \<Rightarrow> rust_str \<Rightarrow> (receipt_error, rust_str option) rust_result" where
  "comment_head codec body = receipt_lines codec None (filter (starts_with MARKER) (lines_of body))"

definition final_verdicts :: "rust_str list" where
  "final_verdicts = [''APPROVE'', ''NEEDS_FIX'', ''REJECT'', ''HUMAN_REVIEW'']"

definition has_receipt :: "receipt_codec \<Rightarrow> rust_str \<Rightarrow> rust_str \<Rightarrow> bool" where
  "has_receipt codec body head =
     (is_some_and
        (Option.bind (first (lines_of body)) (\<lambda>line.
           Option.bind (strip_prefix ''GAH review verdict: `'' line) (strip_suffix ''`'')))
        (\<lambda>v. v \<in> set final_verdicts)
      \<and> (case comment_head codec body of Inl _ \<Rightarrow> False | Inr h \<Rightarrow> h = Some head))"

subsection \<open>Completed reviews\<close>

definition locally_reviewed ::
  "ledger_entry list \<Rightarrow> rust_str \<Rightarrow> rust_str \<Rightarrow> rust_str \<Rightarrow> rust_str option \<Rightarrow> rust_str \<Rightarrow> bool" where
  "locally_reviewed entries profile_name repo_id branch url head =
     list_ex (\<lambda>e. le_profile e = profile_name \<and> le_repo_id e = repo_id \<and> le_mode e = ''review''
         \<and> le_failure_class e = None \<and> le_branch e = Some branch
         \<and> (url = None \<or> le_mr_url e = url) \<and> le_review_source_sha e = Some head
         \<and> (le_validation_result e = Some ''skipped_duplicate_review''
            \<or> is_some_and (le_review_verdict e) (\<lambda>v. v \<in> set final_verdicts)))
       entries"

datatype head_error = InvalidNumber | BadProvider | ProviderFailed

type_synonym comment_pages = "nat \<Rightarrow> (head_error, rust_str list) rust_result"

partial_function (option) read_pages ::
  "comment_pages \<Rightarrow> (rust_str \<Rightarrow> bool) \<Rightarrow> nat \<Rightarrow> (head_error, bool) rust_result option" where
  "read_pages pages found page =
     (case pages page of
        Inl e \<Rightarrow> Some (Inl e)
      | Inr comments \<Rightarrow>
          if list_ex found comments then Some (Inr True)
          else if length comments < 100 then Some (Inr False)
          else read_pages pages found (page + 1))"

definition remotely_reviewed ::
  "receipt_codec \<Rightarrow> rust_str \<Rightarrow> comment_pages \<Rightarrow> rust_str \<Rightarrow> rust_str \<Rightarrow> (head_error, bool) rust_result option" where
  "remotely_reviewed codec provider pages number head =
     (if number = [] \<or> \<not> list_all is_ascii_digit number then Some (Inl InvalidNumber)
      else (case provider_kind_parse provider of
              Inl _ \<Rightarrow> Some (Inl BadProvider)
            | Inr _ \<Rightarrow> read_pages pages (\<lambda>body. has_receipt codec body head) 1))"

text \<open>The environment of a look-up: the codec, the provider's name and, per merge request number, its pages.\<close>

record head_env =
  he_codec :: receipt_codec
  he_provider :: rust_str
  he_pages :: "rust_str \<Rightarrow> comment_pages"

definition head_reviewed ::
  "head_env \<Rightarrow> bool \<Rightarrow> bool \<Rightarrow> rust_str option \<Rightarrow> rust_str \<Rightarrow> (head_error, bool) rust_result option" where
  "head_reviewed env loc needs number head =
     (if loc then Some (Inr True)
      else if \<not> needs then Some (Inr False)
      else (case number of
              None \<Rightarrow> Some (Inr False)
            | Some n \<Rightarrow> remotely_reviewed (he_codec env) (he_provider env) (he_pages env n) n head))"

definition row_needs_review :: "sync_mr \<Rightarrow> bool" where
  "row_needs_review row =
     (classification row = ''NEEDS_REVIEW''
      \<or> (classification row = ''CI_FAILED'' \<or> classification row = ''NEEDS_FIX'')
        \<and> \<not> (review_generation_status row = None
             \<and> is_some_and (mr_review_verdict row) (\<lambda>v. v = ''NEEDS_FIX'' \<or> v = ''REJECT'')))"

definition project_head ::
  "head_env \<Rightarrow> rust_str \<Rightarrow> rust_str \<Rightarrow> ledger_entry list \<Rightarrow> sync_mr \<Rightarrow> (head_error, sync_mr) rust_result option" where
  "project_head env profile_name repo_id entries row =
     (case source_sha row of
        None \<Rightarrow> Some (Inr row)
      | Some head \<Rightarrow>
          (case head_reviewed env (locally_reviewed entries profile_name repo_id (mr_branch row) (mr_url row) head)
                  (row_needs_review row) (mr_id row) head of
             None \<Rightarrow> None
           | Some (Inl e) \<Rightarrow> Some (Inl e)
           | Some (Inr reviewed) \<Rightarrow>
               Some (Inr (if reviewed then row\<lparr> last_reviewed_head := Some head \<rparr> else row))))"

text \<open>The stop of a dispatched review: the target's head, branch, address and number.\<close>

record review_target =
  rt_source_sha :: "rust_str option"
  rt_source_branch :: rust_str
  rt_mr_url :: "rust_str option"
  rt_mr_id :: "rust_str option"

datatype skip_error = PolicyDenied | LedgerUnreadable | HeadError head_error

definition skip_reviewed_head ::
  "head_env \<Rightarrow> bool \<Rightarrow> ledger_entry list option \<Rightarrow> rust_str \<Rightarrow> review_target \<Rightarrow> ledger_entry
   \<Rightarrow> (ledger_entry \<times> (skip_error, bool) rust_result) option" where
  "skip_reviewed_head env policy_ok ledger repo_id target e =
     (if \<not> policy_ok then Some (e, Inl PolicyDenied)
      else (case rt_source_sha target of
              None \<Rightarrow> Some (e, Inr False)
            | Some head \<Rightarrow>
                (case ledger of
                   None \<Rightarrow> Some (e, Inl LedgerUnreadable)
                 | Some entries \<Rightarrow>
                     map_option
                       (\<lambda>res. case res of
                          Inl err \<Rightarrow> (e, Inl (HeadError err))
                        | Inr True \<Rightarrow> (e\<lparr> le_validation_result := Some ''skipped_duplicate_review'' \<rparr>, Inr True)
                        | Inr False \<Rightarrow> (e, Inr False))
                       (head_reviewed env
                          (locally_reviewed entries (le_profile e) repo_id (rt_source_branch target)
                             (rt_mr_url target) head)
                          True (rt_mr_id target) head))))"

text \<open>Escalation belongs to the head, whatever the description says.\<close>

definition generation_head :: "rust_str option \<Rightarrow> rust_str option" where
  "generation_head generation =
     Option.bind generation (\<lambda>g.
       Option.bind (strip_prefix (''review-v'' @ nat_str CURRENT_REVIEW_CONTRACT_VERSION @ '':'') g) (\<lambda>rest.
         map_option fst (split_once (CHR '':'') rest)))"

definition same_head :: "ledger_entry \<Rightarrow> rust_str option \<Rightarrow> bool" where
  "same_head e generation =
     (is_some (generation_head generation) \<and> le_review_source_sha e = generation_head generation)"

end
