(* ===== verification/Review_Head_Props.thy ===== *)
theory Review_Head_Props
  imports Review_Head Text_Scan_Props Decision_Props Ledger_Props
begin

text \<open>
  A receipt can be read back from the comment that carries it, a comment thread is read to its end, and
  a published verdict stops every further review of its head, from the comment to the controller's
  decision.
\<close>

subsection \<open>Lines\<close>

lemma lines_acc_append: "lines_acc acc (a @ CHR 0x0A # b) = lines_acc acc (a @ [CHR 0x0A]) @ lines_acc [] b"
  by (induction a arbitrary: acc) auto

lemma lines_of_append_NL: "lines_of (a @ NL @ b) = lines_of (a @ NL) @ lines_of b"
  by (simp add: lines_of_def NL_def lines_acc_append [of "[]" a b])

lemma lines_acc_single: "CHR 0x0A \<notin> set a \<Longrightarrow> lines_acc acc (a @ [CHR 0x0A]) = [strip_cr (rev acc @ a)]"
  by (induction a arbitrary: acc) auto

lemma lines_of_line: "CHR 0x0A \<notin> set a \<Longrightarrow> a \<noteq> [] \<Longrightarrow> last a \<noteq> CHR 0x0D \<Longrightarrow> lines_of (a @ NL) = [a]"
  by (simp add: lines_of_def NL_def lines_acc_single strip_cr_def)

lemma strip_suffix_append [simp]: "strip_suffix sfx (s @ sfx) = Some s"
  by simp

subsection \<open>Receipts\<close>

definition receipt_of :: "rust_str \<Rightarrow> ledger_entry \<Rightarrow> receipt" where
  "receipt_of head e = \<lparr> rc_head = head, rc_receipt_backend = le_effective_backend e,
     rc_receipt_model = le_effective_model e \<rparr>"

text \<open>What is relied on of the JSON codec: reading inverts writing on this receipt, and the written form is
  one line (\<open>serde_json\<close> escapes control characters in strings).\<close>

definition codec_ok :: "receipt_codec \<Rightarrow> receipt \<Rightarrow> bool" where
  "codec_ok codec r \<longleftrightarrow> rx_from_json codec (rx_to_json codec r) = Some r \<and> CHR 0x0A \<notin> set (rx_to_json codec r)"

definition unmarked :: "rust_str \<Rightarrow> bool" where
  "unmarked body \<longleftrightarrow> list_all (\<lambda>line. \<not> starts_with MARKER line) (lines_of (body @ NL))"

lemma stamped_lines:
  assumes "le_review_source_sha e = Some head" "codec_ok codec (receipt_of head e)"
  shows "lines_of (stamp codec body e)
    = lines_of (body @ NL) @ [MARKER @ rx_to_json codec (receipt_of head e) @ '' -->'']"
proof -
  let ?line = "MARKER @ rx_to_json codec (receipt_of head e) @ '' -->''"
  have "stamp codec body e = body @ NL @ (?line @ NL)" using assms(1) by (simp add: stamp_def receipt_of_def)
  moreover have "lines_of (?line @ NL) = [?line]"
    using assms(2) by (intro lines_of_line) (auto simp: codec_ok_def MARKER_def)
  ultimately show ?thesis using lines_of_append_NL [of body "?line @ NL"] by (simp only:)
qed

lemma stamped_head:
  assumes "le_review_source_sha e = Some head" "codec_ok codec (receipt_of head e)" "unmarked body"
    and "trim head \<noteq> []" "trim (le_effective_backend e) \<noteq> []"
  shows "comment_head codec (stamp codec body e) = Inr (Some head)"
proof -
  let ?json = "rx_to_json codec (receipt_of head e)"
  have "filter (starts_with MARKER) (lines_of (body @ NL)) = []"
    using assms(3) by (simp add: unmarked_def filter_empty_conv list_all_iff)
  moreover have "starts_with MARKER (MARKER @ ?json @ '' -->'')" by (auto simp: starts_with_iff)
  ultimately have "filter (starts_with MARKER) (lines_of (stamp codec body e)) = [MARKER @ ?json @ '' -->'']"
    using stamped_lines [OF assms(1,2)] by simp
  moreover have "strip_suffix '' -->'' (?json @ '' -->'') = Some ?json" by (rule strip_suffix_append)
  ultimately show ?thesis
    using assms(2,4,5) by (simp add: comment_head_def codec_ok_def receipt_of_def del: strip_suffix.simps)
qed

lemma unstamped_head: "unmarked body \<Longrightarrow> comment_head codec (body @ NL) = Inr None"
  by (simp add: comment_head_def unmarked_def list_all_iff filter_empty_conv [THEN iffD2])

text \<open>A receipt is read back: stamping a comment that has no marker line yields a comment from which
  exactly the reviewed head is read, while the comment without the stamp has no head.\<close>

theorem receipt_roundtrip:
  assumes "le_review_source_sha e = Some head" "codec_ok codec (receipt_of head e)" "unmarked body"
    and "trim head \<noteq> []" "trim (le_effective_backend e) \<noteq> []"
  shows "comment_head codec (stamp codec body e) = Inr (Some head) \<and> comment_head codec (body @ NL) = Inr None"
  using stamped_head [OF assms] unstamped_head [OF assms(3)] by blast

subsection \<open>Threads\<close>

definition served :: "rust_str list \<Rightarrow> comment_pages" where
  "served comments page = Inr (take 100 (drop (100 * (page - 1)) comments))"

lemma read_pages_served:
  "read_pages (served comments) found (Suc n) = Some (Inr (list_ex found (drop (100 * n) comments)))"
proof (induction "length comments - 100 * n" arbitrary: n rule: less_induct)
  case less
  let ?page = "take 100 (drop (100 * n) comments)"
  have split: "drop (100 * n) comments = ?page @ drop (100 * Suc n) comments"
    by (metis append_take_drop_id drop_drop add.commute mult_Suc_right)
  show ?case
  proof (cases "length ?page < 100")
    case True
    then have "drop (100 * n) comments = ?page" by simp
    with True show ?thesis by (subst read_pages.simps) (auto simp: served_def)
  next
    case False
    then have "length comments - 100 * Suc n < length comments - 100 * n" by auto
    from less [OF this] False show ?thesis
      by (subst read_pages.simps, subst split) (auto simp: served_def)
  qed
qed

text \<open>A thread is read to its end: when the provider serves a thread in pages of a hundred comments the
  search over the pages returns, for a thread of any length, and finds a receipt exactly when some
  comment of the thread carries it.\<close>

theorem thread_is_read_to_end:
  assumes "number \<noteq> []" "list_all is_ascii_digit number" "provider_kind_parse provider = Inr k"
  shows "remotely_reviewed codec provider (served comments) number head
    = Some (Inr (list_ex (\<lambda>body. has_receipt codec body head) comments))"
  using assms read_pages_served [of comments _ 0] by (simp add: remotely_reviewed_def)

subsection \<open>From the comment to the decision\<close>

definition verdict_comment :: "rust_str \<Rightarrow> rust_str \<Rightarrow> rust_str" where
  "verdict_comment verdict rest = ''GAH review verdict: `'' @ verdict @ ''`'' @ NL @ rest"

lemma published_has_receipt:
  assumes "verdict \<in> set final_verdicts" "unmarked (verdict_comment verdict rest)"
    and "le_review_source_sha e = Some head" "codec_ok codec (receipt_of head e)"
    and "trim head \<noteq> []" "trim (le_effective_backend e) \<noteq> []"
  shows "has_receipt codec (stamp codec (verdict_comment verdict rest) e) head"
proof -
  let ?line = "''GAH review verdict: `'' @ verdict @ ''`''"
  have v: "CHR 0x0A \<notin> set verdict" using assms(1) by (auto simp: final_verdicts_def)
  have "verdict_comment verdict rest @ NL = ?line @ NL @ (rest @ NL)" by (simp add: verdict_comment_def)
  moreover have "lines_of (?line @ NL) = [?line]" using v by (intro lines_of_line) auto
  ultimately have "lines_of (verdict_comment verdict rest @ NL) = ?line # lines_of (rest @ NL)"
    using lines_of_append_NL [of ?line "rest @ NL"] by simp
  then have "first (lines_of (stamp codec (verdict_comment verdict rest) e)) = Some ?line"
    using stamped_lines [OF assms(3,4)] by simp
  moreover have "strip_suffix ''`'' (verdict @ ''`'') = Some verdict" by (rule strip_suffix_append)
  moreover have "strip_prefix ''GAH review verdict: `'' ?line = Some (verdict @ ''`'')" by (rule strip_prefix_append)
  ultimately show ?thesis
    using assms(1) stamped_head [OF assms(3,4,2,5,6)]
    by (simp add: has_receipt_def del: strip_prefix.simps strip_suffix.simps)
qed

text \<open>C34. A published verdict stops reviewers everywhere: once a comment of the thread carries a final
  verdict stamped for the head of a merge request that asks for review, the projection on any node, with
  an empty ledger or not, marks the head as reviewed, and no decision of the controller, whatever else it
  observes, asks for another review of this merge request.\<close>

theorem published_review_stops_reviewers:
  assumes "source_sha row = Some head" "row_needs_review row" "mr_id row = Some number"
    and "number \<noteq> []" "list_all is_ascii_digit number" "provider_kind_parse (he_provider env) = Inr k"
    and "he_pages env number = served comments"
    and "stamp (he_codec env) (verdict_comment verdict rest) e \<in> set comments"
    and "verdict \<in> set final_verdicts" "unmarked (verdict_comment verdict rest)"
    and "le_review_source_sha e = Some head" "codec_ok (he_codec env) (receipt_of head e)"
    and "trim head \<noteq> []" "trim (le_effective_backend e) \<noteq> []"
  shows "\<exists>row'. project_head env profile_name repo_id entries row = Some (Inr row')
    \<and> row' = row\<lparr> last_reviewed_head := Some head \<rparr> \<and> mr_slot s row' \<noteq> NeedsReview"
proof -
  have "list_ex (\<lambda>body. has_receipt (he_codec env) body head) comments"
    using published_has_receipt [OF assms(9-14)] assms(8) by (auto simp: list_ex_iff)
  then have "head_reviewed env l (row_needs_review row) (mr_id row) head = Some (Inr True)" for l
    using assms(2-7) read_pages_served [of comments _ 0] by (simp add: head_reviewed_def remotely_reviewed_def)
  then have "project_head env profile_name repo_id entries row = Some (Inr (row\<lparr> last_reviewed_head := Some head \<rparr>))"
    using assms(1) by (simp add: project_head_def)
  moreover have "mr_slot s (row\<lparr> last_reviewed_head := Some head \<rparr>) \<noteq> NeedsReview"
    using assms(1) by (auto simp: mr_slot_NeedsReview unchanged_def)
  ultimately show ?thesis by blast
qed

subsection \<open>A concrete thread\<close>

definition ex_codec :: receipt_codec where
  "ex_codec = \<lparr> rx_to_json = rc_head,
     rx_from_json = (\<lambda>s. Some \<lparr> rc_head = s, rc_receipt_backend = ''codex'', rc_receipt_model = None \<rparr>) \<rparr>"

definition ex_reviewed_entry :: ledger_entry where
  "ex_reviewed_entry = (blank_entry ''review'' None)\<lparr> le_review_source_sha := Some ''abc123'' \<rparr>"

definition ex_comment :: rust_str where
  "ex_comment = stamp ex_codec (verdict_comment ''APPROVE'' ''Looks fine.'') ex_reviewed_entry"

definition ex_head_env :: head_env where
  "ex_head_env = \<lparr> he_codec = ex_codec, he_provider = ''github'', he_pages = (\<lambda>_. served [''hello'', ex_comment]) \<rparr>"

definition ex_row :: sync_mr where
  "ex_row = (example_mr ''gah/a'' ''NEEDS_REVIEW'')\<lparr> source_sha := Some ''abc123'', mr_id := Some ''7'' \<rparr>"

lemma ex_codec_ok: "codec_ok ex_codec (receipt_of ''abc123'' ex_reviewed_entry)"
  by (simp add: codec_ok_def ex_codec_def receipt_of_def ex_reviewed_entry_def blank_entry_def)

lemma ex_unmarked: "unmarked (verdict_comment ''APPROVE'' ''Looks fine.'')"
  by code_simp

lemma ex_trims: "trim ''abc123'' \<noteq> []" "trim (le_effective_backend ex_reviewed_entry) \<noteq> []"
  by code_simp+

lemma ex_reviewed_sha: "le_review_source_sha ex_reviewed_entry = Some ''abc123''"
  by (simp add: ex_reviewed_entry_def)

theorem receipt_roundtrip_witness:
  "comment_head ex_codec ex_comment = Inr (Some ''abc123'')"
  using receipt_roundtrip [OF ex_reviewed_sha ex_codec_ok ex_unmarked ex_trims] by (simp add: ex_comment_def)

theorem thread_is_read_to_end_witness:
  "remotely_reviewed ex_codec ''gitlab'' (served (replicate 250 ''hello'')) ''7'' ''abc123''
   = Some (Inr (list_ex (\<lambda>body. has_receipt ex_codec body ''abc123'') (replicate 250 ''hello'')))"
  by (rule thread_is_read_to_end [where k = Gitlab]) (simp_all add: is_ascii_digit_def provider_kind_parse_def)

theorem published_review_stops_reviewers_witness:
  "\<exists>row'. project_head ex_head_env ''p'' ''r'' [] ex_row = Some (Inr row') \<and> unchanged row'
     \<and> mr_slot example_snapshot row' \<noteq> NeedsReview"
proof -
  have "\<exists>row'. project_head ex_head_env ''p'' ''r'' [] ex_row = Some (Inr row')
      \<and> row' = ex_row\<lparr> last_reviewed_head := Some ''abc123'' \<rparr> \<and> mr_slot example_snapshot row' \<noteq> NeedsReview"
  proof (rule published_review_stops_reviewers [where number = "''7''" and k = Github
        and verdict = "''APPROVE''" and rest = "''Looks fine.''" and e = ex_reviewed_entry])
    show "codec_ok (he_codec ex_head_env) (receipt_of ''abc123'' ex_reviewed_entry)"
      using ex_codec_ok by (simp add: ex_head_env_def)
    show "he_pages ex_head_env ''7'' = served [''hello'', ex_comment]" by (simp add: ex_head_env_def)
    show "stamp (he_codec ex_head_env) (verdict_comment ''APPROVE'' ''Looks fine.'') ex_reviewed_entry
        \<in> set [''hello'', ex_comment]" by (simp add: ex_comment_def ex_head_env_def)
  qed (simp_all add: ex_unmarked ex_trims ex_reviewed_sha ex_row_def row_needs_review_def example_mr_def is_ascii_digit_def
      ex_head_env_def provider_kind_parse_def final_verdicts_def)
  then show ?thesis by (auto simp: unchanged_def ex_row_def)
qed

end
