(* ===== verification/Review_Policy.thy ===== *)
theory Review_Policy
  imports Review_Verdict Review_Head
begin

text \<open>
  The budget of reviews per ticket and the chain of second opinions (\<open>dispatch/review/policy.rs\<close>):
  whether another review may run, why a review escalates, and which reviewer comes next.  The ledger is
  its parsed entries, \<open>None\<close> when it cannot be read.
\<close>

subsection \<open>The budget\<close>

text \<open>Where a review runs: the configuration of its profile and the keys of its records.\<close>

record review_scope =
  sc_is_sub :: "rust_str \<Rightarrow> bool"
  sc_defaults :: routing_policy
  sc_profile :: route_profile
  sc_profile_name :: rust_str
  sc_repo_id :: rust_str

definition scope_routing :: "review_scope \<Rightarrow> routing_policy" where
  "scope_routing sc = effective_routing (sc_is_sub sc) (sc_profile sc) (sc_defaults sc)"

definition uncounted_results :: "rust_str list" where
  "uncounted_results = [''review_budget_exhausted'', ''skipped_duplicate_review'', ''deferred_capacity'', ''cancelled_shutdown'']"

definition counted_review :: "review_scope \<Rightarrow> rust_str option \<Rightarrow> ledger_entry \<Rightarrow> bool" where
  "counted_review sc generation e =
     (le_profile e = sc_profile_name sc \<and> le_repo_id e = sc_repo_id sc \<and> is_review_job (le_mode e)
      \<and> le_review_contract_version e = Some CURRENT_REVIEW_CONTRACT_VERSION
      \<and> same_head e generation
      \<and> \<not> is_some_and (le_validation_result e) (\<lambda>r. r \<in> set uncounted_results))"

definition ticket_reset :: "review_scope \<Rightarrow> ledger_entry \<Rightarrow> bool" where
  "ticket_reset sc e =
     (le_profile e = sc_profile_name sc \<and> le_repo_id e = sc_repo_id sc \<and> le_mode e = ''clear_attempts'')"

definition ticket_reviews :: "review_scope \<Rightarrow> rust_str \<Rightarrow> rust_str option \<Rightarrow> ledger_entry list \<Rightarrow> ledger_entry list" where
  "ticket_reviews sc work_id generation entries =
     filter (counted_review sc generation) (after_last (ticket_reset sc) (entries_for_work_id work_id entries))"

definition same_reviewer :: "rust_str \<Rightarrow> route_decision \<Rightarrow> ledger_entry \<Rightarrow> bool" where
  "same_reviewer cls route e =
     (le_reviewer_class e = Some cls
      \<or> le_effective_backend e = rd_effective_backend route \<and> le_effective_model e = rd_effective_model route)"

definition untried_escalation :: "review_scope \<Rightarrow> route_decision \<Rightarrow> ledger_entry list \<Rightarrow> bool" where
  "untried_escalation sc route reviews =
     (let tier = derive_reviewer_tier (sc_is_sub sc) (sc_defaults sc) (sc_profile sc) route
      in tier = Escalatory \<and> \<not> list_ex (same_reviewer (reviewer_dedup_class tier route) route) reviews)"

datatype budget_error = BudgetLedgerUnreadable

text \<open>The cost class comes from the diagnostics of the route.\<close>

definition check_review_budget ::
  "review_scope \<Rightarrow> rust_str option \<Rightarrow> route_decision \<Rightarrow> rust_str option \<Rightarrow> rust_str option \<Rightarrow> ledger_entry list option
   \<Rightarrow> (budget_error, rust_str option) rust_result" where
  "check_review_budget sc work_id route cost_class generation ledger =
     (case opt_filter (\<lambda>w. trim w \<noteq> []) work_id of
        None \<Rightarrow> Inr None
      | Some w \<Rightarrow>
          (case ledger of
             None \<Rightarrow> Inl BudgetLedgerUnreadable
           | Some entries \<Rightarrow>
               (let reviews = ticket_reviews sc w generation entries;
                    cycles = length reviews;
                    cap = max_review_cycles_per_ticket (scope_routing sc);
                    paid = length (filter (\<lambda>e. le_usage_classification e = Some ''api_key_backed'') reviews);
                    paid_cap = max_paid_reviews_per_ticket (scope_routing sc)
                in if cap \<le> cycles \<and> \<not> untried_escalation sc route reviews
                   then Inr (Some (''review budget exhausted for '' @ w @ '': '' @ nat_str cycles @ ''/''
                                   @ nat_str cap @ '' review cycles used''))
                   else if cost_class = Some ''paid'' \<and> paid_cap \<le> paid
                   then Inr (Some (''paid review budget exhausted for '' @ w @ '': '' @ nat_str paid @ ''/''
                                   @ nat_str paid_cap @ '' API-backed reviews used''))
                   else Inr None)))"

subsection \<open>Second opinions\<close>

definition branch_review :: "review_scope \<Rightarrow> rust_str \<Rightarrow> ledger_entry \<Rightarrow> bool" where
  "branch_review sc branch e =
     (le_profile e = sc_profile_name sc \<and> le_repo_id e = sc_repo_id sc \<and> is_review_job (le_mode e)
      \<and> le_branch e = Some branch)"

definition branch_aliases :: "review_scope \<Rightarrow> rust_str \<Rightarrow> ledger_entry list \<Rightarrow> rust_str list" where
  "branch_aliases sc branch entries =
     concat (map work_id_aliases (List.map_filter le_work_id (filter (branch_review sc branch) entries)))"

definition branch_reset :: "review_scope \<Rightarrow> rust_str list \<Rightarrow> ledger_entry \<Rightarrow> bool" where
  "branch_reset sc aliases e =
     (ticket_reset sc e
      \<and> is_some_and (le_work_id e) (\<lambda>w. list_ex (\<lambda>alias. alias \<in> set aliases) (work_id_aliases w)))"

definition active_branch_review_entries :: "review_scope \<Rightarrow> rust_str \<Rightarrow> ledger_entry list \<Rightarrow> ledger_entry list" where
  "active_branch_review_entries sc branch entries =
     (let aliases = branch_aliases sc branch entries
      in if aliases = [] then entries else after_last (branch_reset sc aliases) entries)"

definition opinion_results :: "rust_str list" where
  "opinion_results = [''APPROVE'', ''NEEDS_FIX'', ''REJECT'', ''HUMAN_REVIEW'', ''review_output_invalid'']"

definition current_opinion :: "review_scope \<Rightarrow> rust_str \<Rightarrow> rust_str option \<Rightarrow> ledger_entry \<Rightarrow> bool" where
  "current_opinion sc branch generation e =
     (le_profile e = sc_profile_name sc \<and> is_review_job (le_mode e) \<and> le_branch e = Some branch
      \<and> le_review_contract_version e = Some CURRENT_REVIEW_CONTRACT_VERSION
      \<and> same_head e generation \<and> is_some (le_review_source_sha e))"

definition review_escalation_reason ::
  "review_scope \<Rightarrow> rust_str \<Rightarrow> rust_str option \<Rightarrow> ledger_entry list option \<Rightarrow> rust_str option" where
  "review_escalation_reason sc branch generation ledger =
     (case ledger of
        None \<Rightarrow> None
      | Some entries \<Rightarrow>
          (let threshold = max_fix_attempts_per_mr (scope_routing sc);
               recent = take threshold
                 (filter (\<lambda>e. current_opinion sc branch generation e
                              \<and> is_some_and (le_validation_result e) (\<lambda>r. r \<in> set opinion_results))
                    (rev (active_branch_review_entries sc branch entries)));
               latest = (\<lambda>p. is_some_and (first recent) p)
           in if latest (\<lambda>e. le_validation_result e = Some ''HUMAN_REVIEW'') then Some ''human_review''
              else if latest (\<lambda>e. le_validation_result e = Some ''review_output_invalid'') then Some ''review_output_invalid''
              else if latest (\<lambda>e. le_confidence_impact e = Some ''low'') then Some ''low_confidence''
              else if length recent = threshold
                      \<and> list_all (\<lambda>e. le_validation_result e = Some ''NEEDS_FIX'' \<or> le_validation_result e = Some ''REJECT'') recent
              then Some ''repeated_needs_fix''
              else None))"

definition effective_model_for :: "candidate_config \<Rightarrow> route_profile \<Rightarrow> rust_str option" where
  "effective_model_for c prof =
     (if cc_backend c = ''codex'' \<and> cc_model c = None then extract_model_from_args (pf_codex_args prof) else cc_model c)"

type_synonym reviewer_pair = "rust_str \<times> rust_str option"

definition reviewer_pair :: "route_profile \<Rightarrow> candidate_config \<Rightarrow> reviewer_pair" where
  "reviewer_pair prof c = (cc_backend c, effective_model_for c prof)"

text \<open>The availability store and the clock, with the parameters of execution identities.\<close>

record avail_env =
  ae_identity :: identity_env
  ae_parse_ts :: "rust_str \<Rightarrow> int option"
  ae_state :: state_file
  ae_now :: int

definition candidate_is_available :: "avail_env \<Rightarrow> (rust_str \<Rightarrow> bool) \<Rightarrow> route_profile \<Rightarrow> candidate_config \<Rightarrow> bool" where
  "candidate_is_available env is_sub prof c =
     (case availability_for_identity (ae_parse_ts env) (ae_state env)
             (execution_identity_for_candidate (ae_identity env) (effective_routing is_sub prof empty_policy) c) (ae_now env) of
        Inl _ \<Rightarrow> True
      | Inr d \<Rightarrow> ad_eligible d)"

definition pick_next_untried ::
  "avail_env \<Rightarrow> (rust_str \<Rightarrow> bool) \<Rightarrow> route_profile \<Rightarrow> candidate_config list \<Rightarrow> reviewer_pair list \<Rightarrow> candidate_config option" where
  "pick_next_untried env is_sub prof candidates attempted =
     (let untried = filter (\<lambda>c. reviewer_pair prof c \<notin> set attempted) candidates
      in opt_or (List.find (candidate_is_available env is_sub prof) untried) (first untried))"

definition unspent_results :: "rust_str list" where
  "unspent_results = [''skipped_duplicate_review'', ''cancelled_shutdown'', ''deferred_capacity'']"

definition attempted_reviewers ::
  "review_scope \<Rightarrow> rust_str \<Rightarrow> reviewer_pair option \<Rightarrow> rust_str option \<Rightarrow> ledger_entry list \<Rightarrow> reviewer_pair list" where
  "attempted_reviewers sc branch current generation entries =
     map (\<lambda>e. (le_effective_backend e, le_effective_model e))
       (filter (\<lambda>e. current_opinion sc branch generation e
                    \<and> \<not> is_some_and (le_validation_result e) (\<lambda>r. r \<in> set unspent_results))
          (active_branch_review_entries sc branch entries))
     @ (case current of None \<Rightarrow> [] | Some p \<Rightarrow> [p])"

definition next_review_candidate ::
  "avail_env \<Rightarrow> review_scope \<Rightarrow> rust_str \<Rightarrow> reviewer_pair option \<Rightarrow> rust_str option \<Rightarrow> ledger_entry list option
   \<Rightarrow> candidate_config option" where
  "next_review_candidate env sc branch current generation ledger =
     Option.bind ledger (\<lambda>entries.
       pick_next_untried env (sc_is_sub sc) (sc_profile sc)
         (case allowed_models_for (scope_routing sc) ''review'' of
            Some allowed \<Rightarrow> allowed
          | None \<Rightarrow> unwrap_or (rp_review_candidates (scope_routing sc)) [])
         (attempted_reviewers sc branch current generation entries))"

definition next_escalatory_reviewer ::
  "avail_env \<Rightarrow> review_scope \<Rightarrow> rust_str \<Rightarrow> reviewer_pair option \<Rightarrow> rust_str option \<Rightarrow> ledger_entry list option
   \<Rightarrow> candidate_config option" where
  "next_escalatory_reviewer env sc branch current generation ledger =
     Option.bind ledger (\<lambda>entries.
       pick_next_untried env (sc_is_sub sc) (sc_profile sc)
         (filter (allows_candidate (scope_routing sc) ''review'') (effective_escalatory_reviewers (scope_routing sc)))
         (attempted_reviewers sc branch current generation entries))"

end
