(* ===== verification/Review_Policy_Props.thy ===== *)
theory Review_Policy_Props
  imports Review_Policy Ledger_Props
begin

text \<open>
  The chain of second opinions asks no reviewer twice and ends, and the reviews of a ticket are bounded
  by the cycle cap and the configured chain.  Both rest on one argument: a hist in which every admitted
  record carries a key that no earlier admitted record has, from a finite pool, is short.
\<close>

subsection \<open>Logs with fresh keys\<close>

text \<open>The records \<open>es\<close> may be appended one after the other to a history.\<close>

fun log_chain :: "('e list \<Rightarrow> 'e \<Rightarrow> bool) \<Rightarrow> 'e list \<Rightarrow> 'e list \<Rightarrow> bool" where
  "log_chain admits hist [] = True"
| "log_chain admits hist (e # es) = (admits hist e \<and> log_chain admits (hist @ [e]) es)"

lemma log_chain_append: "log_chain admits hist (es @ fs) \<longleftrightarrow> log_chain admits hist es \<and> log_chain admits (hist @ es) fs"
  by (induction es arbitrary: hist) auto

locale fresh_log =
  fixes admits :: "'e list \<Rightarrow> 'e \<Rightarrow> bool"
    and records :: "'e \<Rightarrow> bool"
    and key :: "'e \<Rightarrow> 'k"
    and pool :: "'k set"
  assumes finite_pool: "finite pool"
    and admits_records: "admits hist e \<Longrightarrow> records e"
    and admits_pool: "admits hist e \<Longrightarrow> key e \<in> pool"
    and admits_fresh: "admits (hist @ added) e \<Longrightarrow> list_all records added \<Longrightarrow> x \<in> set added \<Longrightarrow> key x \<noteq> key e"
begin

lemma chain_keys: "log_chain admits hist es \<Longrightarrow> list_all records es \<and> distinct (map key es) \<and> key ` set es \<subseteq> pool"
proof (induction es rule: rev_induct)
  case (snoc e es)
  then have "list_all records es" "admits (hist @ es) e" by (auto simp: log_chain_append)
  then have "key e \<notin> key ` set es" using admits_fresh by fastforce
  with snoc show ?case by (auto simp: log_chain_append admits_records admits_pool)
qed simp

lemma chain_bound: "log_chain admits hist es \<Longrightarrow> length es \<le> card pool"
proof -
  assume "log_chain admits hist es"
  then have d: "distinct (map key es)" and p: "set (map key es) \<subseteq> pool" using chain_keys by auto
  have "length es = card (set (map key es))" using distinct_card [OF d] by simp
  also have "\<dots> \<le> card pool" using p finite_pool by (rule card_mono [rotated])
  finally show ?thesis .
qed

end

subsection \<open>The next reviewer\<close>

lemma pick_next_untried_Some:
  assumes "pick_next_untried env is_sub prof candidates attempted = Some c"
  shows "c \<in> set candidates" "reviewer_pair prof c \<notin> set attempted"
  using assms by (auto simp: pick_next_untried_def Let_def opt_or_Some_iff dest: find_SomeD first_in_set)

lemma pick_next_untried_None_iff:
  "pick_next_untried env is_sub prof candidates attempted = None
   \<longleftrightarrow> (\<forall>c \<in> set candidates. reviewer_pair prof c \<in> set attempted)"
  by (auto simp: pick_next_untried_def Let_def filter_empty_conv)

definition second_opinions :: "review_scope \<Rightarrow> candidate_config list" where
  "second_opinions sc =
     filter (allows_candidate (scope_routing sc) ''review'') (effective_escalatory_reviewers (scope_routing sc))"

lemma next_escalatory_iff:
  "next_escalatory_reviewer env sc branch current generation (Some entries)
   = pick_next_untried env (sc_is_sub sc) (sc_profile sc) (second_opinions sc)
       (attempted_reviewers sc branch current generation entries)"
  by (simp add: next_escalatory_reviewer_def second_opinions_def)

text \<open>
  The look-up of a reviewer's availability resolves candidates against the built-in defaults: a reviewer
  bound to an instance that only the configured defaults declare loses its quota pool there, so a block of
  the pool is overlooked when the chain prefers available reviewers.
\<close>

lemma map_of_merge_instances:
  assumes "map_of project name = None"
  shows "map_of (merge_instance_maps canonical project) name = map_of canonical name"
proof -
  have "name \<notin> fst ` set ps \<Longrightarrow> map_of (fold (\<lambda>(n, p) m. map_insert n
      (case map_of m n of Some c \<Rightarrow> merge_instance c p | None \<Rightarrow> p) m) ps m) name = map_of m name" for ps m
    by (induction ps arbitrary: m) (auto simp: map_of_map_insert)
  with assms show ?thesis by (simp add: merge_instance_maps_def map_of_eq_None_iff)
qed

lemma reviewer_pool_forgotten:
  assumes "cc_instance c = Some name" "cc_quota_pool c = None"
    and "map_of (rp_backend_instances (pf_routing prof)) name = None"
  shows "ei_quota_pool (execution_identity_for_candidate env (effective_routing is_sub prof empty_policy) c) = None"
proof -
  have "map_of (rp_backend_instances (effective_routing is_sub prof empty_policy)) name = None"
    using assms(3)
    by (simp add: effective_routing_def normalize_subscription_candidates_def stored_routing_def merge_routing_policy_def
        map_of_merge_instances empty_policy_def Let_def)
  then show ?thesis
    using assms(1,2) by (simp add: execution_identity_for_candidate_def Let_def legacy_candidate_def)
qed

text \<open>The record of an opinion, and why it is remembered: it lies after every reset of the hist.\<close>

definition records_opinion :: "review_scope \<Rightarrow> rust_str \<Rightarrow> rust_str option \<Rightarrow> ledger_entry \<Rightarrow> bool" where
  "records_opinion sc branch generation e \<longleftrightarrow>
     current_opinion sc branch generation e \<and> \<not> is_some_and (le_validation_result e) (\<lambda>r. r \<in> set unspent_results)"

definition entry_pair :: "ledger_entry \<Rightarrow> reviewer_pair" where
  "entry_pair e = (le_effective_backend e, le_effective_model e)"

lemma after_last_append: "list_all (\<lambda>x. \<not> P x) ys \<Longrightarrow> after_last P (xs @ ys) = after_last P xs @ ys"
  by (induction ys rule: rev_induct) (auto simp: after_last_snoc append_assoc [symmetric] simp del: append_assoc)

lemma review_is_no_reset: "is_review_job (le_mode e) \<Longrightarrow> \<not> ticket_reset sc e"
proof
  assume "is_review_job (le_mode e)" "ticket_reset sc e"
  moreover have "\<not> is_review_job ''clear_attempts''" by code_simp
  ultimately show False by (simp add: ticket_reset_def)
qed

lemma opinion_remembered:
  assumes "list_all (records_opinion sc branch generation) added" "x \<in> set added"
  shows "entry_pair x \<in> set (attempted_reviewers sc branch current generation (hist @ added))"
proof -
  have "\<not> branch_reset sc aliases e" if "e \<in> set added" for aliases e
    using that assms(1) review_is_no_reset
    by (auto simp: branch_reset_def list_all_iff records_opinion_def current_opinion_def)
  then have "x \<in> set (active_branch_review_entries sc branch (hist @ added))"
    using assms(2) by (auto simp: active_branch_review_entries_def Let_def after_last_append list_all_iff)
  with assms show ?thesis
    by (auto simp: attempted_reviewers_def entry_pair_def records_opinion_def list_all_iff intro!: image_eqI [of _ _ x])
qed

text \<open>One escalation: the chain names a reviewer and a record of its opinion on this head is appended.\<close>

definition escalates ::
  "avail_env \<Rightarrow> review_scope \<Rightarrow> rust_str \<Rightarrow> rust_str option \<Rightarrow> ledger_entry list \<Rightarrow> ledger_entry \<Rightarrow> bool" where
  "escalates env sc branch generation hist e \<longleftrightarrow>
     records_opinion sc branch generation e
     \<and> is_some_and (next_escalatory_reviewer env sc branch None generation (Some hist))
         (\<lambda>c. entry_pair e = reviewer_pair (sc_profile sc) c)"

interpretation escalation: fresh_log "escalates env sc branch generation" "records_opinion sc branch generation"
  entry_pair "reviewer_pair (sc_profile sc) ` set (second_opinions sc)"
  for env sc branch generation
proof
  show "escalates env sc branch generation hist e \<Longrightarrow> records_opinion sc branch generation e" for hist e
    by (simp add: escalates_def)
  show "escalates env sc branch generation hist e \<Longrightarrow> entry_pair e \<in> reviewer_pair (sc_profile sc) ` set (second_opinions sc)"
    for hist e
    by (auto simp: escalates_def is_some_and_iff next_escalatory_iff dest: pick_next_untried_Some)
  show "entry_pair x \<noteq> entry_pair e"
    if "escalates env sc branch generation (hist @ added) e" "list_all (records_opinion sc branch generation) added"
      "x \<in> set added" for hist added e x
    using that opinion_remembered [OF that(2,3), of None hist]
    by (auto simp: escalates_def is_some_and_iff next_escalatory_iff dest: pick_next_untried_Some)
qed simp

text \<open>The chain of second opinions asks no one twice and ends: of reviews that follow the chain one
  after the other, whatever the hist held before, no two are by the same reviewer and there are at most
  as many as the chain has allowed reviewers; a reviewer is always named while one of them has not given
  an opinion on this head, and the named one is allowed, in the chain and new.\<close>

theorem escalation_asks_each_once:
  assumes "log_chain (escalates env sc branch generation) hist es"
  shows "distinct (map entry_pair es) \<and> length es \<le> length (second_opinions sc)
    \<and> (case next_escalatory_reviewer env sc branch None generation (Some (hist @ es)) of
         None \<Rightarrow> (\<forall>c \<in> set (second_opinions sc). reviewer_pair (sc_profile sc) c
                    \<in> set (attempted_reviewers sc branch None generation (hist @ es)))
       | Some c \<Rightarrow> c \<in> set (second_opinions sc) \<and> reviewer_pair (sc_profile sc) c \<notin> entry_pair ` set es)"
proof -
  let ?pool = "reviewer_pair (sc_profile sc) ` set (second_opinions sc)"
  have "card ?pool \<le> length (second_opinions sc)"
    using card_image_le [of "set (second_opinions sc)"] card_length [of "second_opinions sc"] le_trans by fastforce
  with escalation.chain_bound [OF assms] have "length es \<le> length (second_opinions sc)" by linarith
  moreover have "case next_escalatory_reviewer env sc branch None generation (Some (hist @ es)) of
         None \<Rightarrow> (\<forall>c \<in> set (second_opinions sc). reviewer_pair (sc_profile sc) c
                    \<in> set (attempted_reviewers sc branch None generation (hist @ es)))
       | Some c \<Rightarrow> c \<in> set (second_opinions sc) \<and> reviewer_pair (sc_profile sc) c \<notin> entry_pair ` set es"
    using escalation.chain_keys [OF assms] opinion_remembered [of sc branch generation es _ None hist]
    by (auto simp: next_escalatory_iff pick_next_untried_None_iff split: option.split dest: pick_next_untried_Some)
  ultimately show ?thesis using escalation.chain_keys [OF assms] by blast
qed

subsection \<open>The budget of a ticket\<close>

definition configured_chain :: "review_scope \<Rightarrow> candidate_config list" where
  "configured_chain sc = rp_escalatory_reviewers (pf_routing (sc_profile sc)) @ rp_escalatory_reviewers (sc_defaults sc)"

definition explicit_chain :: "review_scope \<Rightarrow> bool" where
  "explicit_chain sc \<longleftrightarrow> list_all (\<lambda>c. cc_model c \<noteq> None) (configured_chain sc)"

lemma escalatory_in_chain:
  assumes "derive_reviewer_tier is_sub defaults prof route = Escalatory"
  shows "\<exists>c \<in> set (rp_escalatory_reviewers (pf_routing prof) @ rp_escalatory_reviewers defaults). matches_candidate route c"
  using assms by (auto simp: derive_reviewer_tier_def Let_def split: option.splits if_splits dest!: find_SomeD)

definition ticket_review :: "review_scope \<Rightarrow> rust_str \<Rightarrow> rust_str option \<Rightarrow> ledger_entry \<Rightarrow> bool" where
  "ticket_review sc w generation e \<longleftrightarrow> concerns w e \<and> counted_review sc generation e"

text \<open>A review that ran: its route passed the budget and the record carries the route's destination.\<close>

definition admitted_review ::
  "review_scope \<Rightarrow> rust_str \<Rightarrow> rust_str option \<Rightarrow> ledger_entry list \<Rightarrow> ledger_entry \<Rightarrow> bool" where
  "admitted_review sc w generation hist e \<longleftrightarrow>
     ticket_review sc w generation e
     \<and> (\<exists>route cost. entry_pair e = (rd_effective_backend route, rd_effective_model route)
          \<and> check_review_budget sc (Some w) route cost generation (Some hist) = Inr None)"

definition cycle_cap :: "review_scope \<Rightarrow> nat" where
  "cycle_cap sc = max_review_cycles_per_ticket (scope_routing sc)"

definition over_cap_review ::
  "review_scope \<Rightarrow> rust_str \<Rightarrow> rust_str option \<Rightarrow> ledger_entry list \<Rightarrow> ledger_entry \<Rightarrow> bool" where
  "over_cap_review sc w generation hist e \<longleftrightarrow>
     trim w \<noteq> [] \<and> explicit_chain sc \<and> cycle_cap sc \<le> length (ticket_reviews sc w generation hist)
     \<and> admitted_review sc w generation hist e"

lemma ticket_reviews_append:
  assumes "list_all (ticket_review sc w generation) added"
  shows "ticket_reviews sc w generation (hist @ added) = ticket_reviews sc w generation hist @ added"
proof -
  have "filter (concerns w) added = added" "list_all (\<lambda>e. \<not> ticket_reset sc e) added"
    "filter (counted_review sc generation) added = added"
    using assms review_is_no_reset by (auto simp: list_all_iff ticket_review_def counted_review_def intro!: filter_True)
  then show ?thesis by (simp add: ticket_reviews_def entries_for_work_id_def after_last_append)
qed

lemma over_cap_escalates:
  assumes "over_cap_review sc w generation hist e"
  shows "\<exists>route. entry_pair e = (rd_effective_backend route, rd_effective_model route)
    \<and> untried_escalation sc route (ticket_reviews sc w generation hist)"
  using assms
  by (auto simp: over_cap_review_def admitted_review_def check_review_budget_def cycle_cap_def Let_def split: if_splits)

interpretation budget: fresh_log "over_cap_review sc w generation" "ticket_review sc w generation" entry_pair
  "(\<lambda>c. (cc_backend c, cc_model c)) ` set (configured_chain sc)"
  for sc w generation
proof
  show "over_cap_review sc w generation hist e \<Longrightarrow> ticket_review sc w generation e" for hist e
    by (simp add: over_cap_review_def admitted_review_def)
  show "entry_pair e \<in> (\<lambda>c. (cc_backend c, cc_model c)) ` set (configured_chain sc)"
    if o: "over_cap_review sc w generation hist e" for hist e
  proof -
    obtain route where r: "entry_pair e = (rd_effective_backend route, rd_effective_model route)"
      "untried_escalation sc route (ticket_reviews sc w generation hist)" using over_cap_escalates [OF o] by blast
    then obtain c where c: "c \<in> set (configured_chain sc)" "matches_candidate route c"
      using escalatory_in_chain by (fastforce simp: untried_escalation_def Let_def configured_chain_def)
    moreover have "cc_model c \<noteq> None" using o c(1) by (auto simp: over_cap_review_def explicit_chain_def list_all_iff)
    ultimately have "entry_pair e = (cc_backend c, cc_model c)"
      using r(1) by (auto simp: matches_candidate_def selected_def)
    with c(1) show ?thesis by blast
  qed
  show "entry_pair x \<noteq> entry_pair e"
    if o: "over_cap_review sc w generation (hist @ added) e" and a: "list_all (ticket_review sc w generation) added"
      and x: "x \<in> set added" for hist added e x
  proof -
    obtain route where "entry_pair e = (rd_effective_backend route, rd_effective_model route)"
      "untried_escalation sc route (ticket_reviews sc w generation (hist @ added))" using over_cap_escalates [OF o] by blast
    moreover have "x \<in> set (ticket_reviews sc w generation (hist @ added))" using ticket_reviews_append [OF a] x by simp
    ultimately show ?thesis
      by (auto simp: untried_escalation_def Let_def list_ex_iff same_reviewer_def entry_pair_def)
  qed
qed simp

lemma admitted_ticket: "log_chain (admitted_review sc w generation) hist es \<Longrightarrow> list_all (ticket_review sc w generation) es"
  by (induction es arbitrary: hist) (auto simp: admitted_review_def)

lemma over_cap_chain:
  assumes "log_chain (admitted_review sc w generation) hist es" "trim w \<noteq> []" "explicit_chain sc"
    and "cycle_cap sc \<le> length (ticket_reviews sc w generation hist)"
  shows "log_chain (over_cap_review sc w generation) hist es"
  using assms
proof (induction es arbitrary: hist)
  case (Cons e es)
  then have "ticket_reviews sc w generation (hist @ [e]) = ticket_reviews sc w generation hist @ [e]"
    by (intro ticket_reviews_append) (simp add: admitted_review_def)
  with Cons show ?case by (simp add: over_cap_review_def)
qed simp

text \<open>Reviews of a ticket are bounded: however reviews of one head follow each other, as long as each
  passed the budget, their number is at most the larger of the cycle cap and what was on record, plus one
  for each configured second opinion (when these name their model).\<close>

theorem reviews_are_bounded:
  assumes "log_chain (admitted_review sc w generation) hist es" "trim w \<noteq> []" "explicit_chain sc"
  shows "length (ticket_reviews sc w generation (hist @ es))
    \<le> max (cycle_cap sc) (length (ticket_reviews sc w generation hist)) + length (configured_chain sc)"
proof -
  let ?n = "length (ticket_reviews sc w generation hist)"
  define m where "m = cycle_cap sc - ?n"
  have all: "list_all (ticket_review sc w generation) es" using admitted_ticket [OF assms(1)] .
  then have take: "list_all (ticket_review sc w generation) (take m es)"
    by (auto simp: list_all_iff dest: in_set_takeD)
  have total: "length (ticket_reviews sc w generation (hist @ es)) = ?n + length es"
    by (simp add: ticket_reviews_append [OF all])
  show ?thesis
  proof (cases "length es \<le> m")
    case True
    then show ?thesis unfolding total m_def by linarith
  next
    case False
    have "log_chain (admitted_review sc w generation) (hist @ take m es) (drop m es)"
      using assms(1) log_chain_append [of _ hist "take m es" "drop m es"] by simp
    moreover have "cycle_cap sc \<le> length (ticket_reviews sc w generation (hist @ take m es))"
      using False unfolding ticket_reviews_append [OF take] by (simp add: m_def)
    ultimately have "length (drop m es) \<le> card ((\<lambda>c. (cc_backend c, cc_model c)) ` set (configured_chain sc))"
      using budget.chain_bound over_cap_chain [OF _ assms(2,3)] by blast
    also have "\<dots> \<le> length (configured_chain sc)"
      using card_image_le [of "set (configured_chain sc)"] card_length [of "configured_chain sc"] le_trans by fastforce
    finally show ?thesis unfolding total m_def by simp
  qed
qed

subsection \<open>A concrete chain\<close>

definition ex_reviewer :: candidate_config where
  "ex_reviewer = default_candidate\<lparr> cc_backend := ''claude'', cc_model := Some ''opus'' \<rparr>"

definition ex_scope :: review_scope where
  "ex_scope = \<lparr> sc_is_sub = (\<lambda>_. False), sc_defaults = empty_policy,
     sc_profile = \<lparr> pf_routing = empty_policy\<lparr> rp_escalatory_reviewers := [ex_reviewer], rp_max_review_cycles := Some 0 \<rparr>,
       pf_pacing = default_pacing, pf_max_concurrent_per_model = [], pf_codex_args = [], pf_opencode_args = [],
       pf_claude_args = [], pf_agy_path = None, pf_agy_second_home = None \<rparr>,
     sc_profile_name = ''p'', sc_repo_id = ''r'' \<rparr>"

definition ex_generation :: "rust_str option" where
  "ex_generation = review_generation (Some ''abc'') (Some ''f'')"

definition ex_opinion :: ledger_entry where
  "ex_opinion = (blank_entry ''review'' (Some ''#7''))\<lparr> le_branch := Some ''b'', le_effective_backend := ''claude'',
     le_effective_model := Some ''opus'', le_review_source_sha := Some ''abc'', le_review_contract_version := Some 1,
     le_validation_result := Some ''APPROVE'' \<rparr>"

definition ex_avail :: avail_env where
  "ex_avail = \<lparr> ae_identity = \<lparr> ie_is_exec = (\<lambda>_. True), ie_on_path = Some, ie_agy_catalog = (\<lambda>_ _ _. None) \<rparr>,
     ae_parse_ts = (\<lambda>_. None), ae_state = NotFound, ae_now = 0 \<rparr>"

lemma ex_scope_policy: "effective_escalatory_reviewers (scope_routing ex_scope) = [ex_reviewer]"
  by code_simp

lemma ex_escalates: "escalates ex_avail ex_scope ''b'' ex_generation [] ex_opinion"
  by code_simp

lemma ex_second_opinions: "second_opinions ex_scope = [ex_reviewer]"
  by code_simp

theorem escalation_asks_each_once_witness:
  "next_escalatory_reviewer ex_avail ex_scope ''b'' None ex_generation (Some [ex_opinion]) = None
   \<and> second_opinions ex_scope = [ex_reviewer]"
proof -
  have "log_chain (escalates ex_avail ex_scope ''b'' ex_generation) [] [ex_opinion]" using ex_escalates by simp
  note once = escalation_asks_each_once [OF this]
  have "reviewer_pair (sc_profile ex_scope) ex_reviewer = entry_pair ex_opinion" by code_simp
  with once ex_second_opinions show ?thesis by (auto split: option.splits)
qed

definition ex_opinion_route :: route_decision where
  "ex_opinion_route = from_identity (legacy_candidate ''claude'' (Some ''opus'') None) ''configured'' False None False"

lemma ex_cycle_cap: "cycle_cap ex_scope = 0"
proof -
  have "rp_max_review_cycles (scope_routing ex_scope) = Some 0" by code_simp
  then show ?thesis by (simp add: cycle_cap_def max_review_cycles_per_ticket_def)
qed

lemma ticket_reviews_Nil [simp]: "ticket_reviews sc w generation [] = []"
  by (simp add: ticket_reviews_def entries_for_work_id_def after_last_def)

lemma ex_admitted: "admitted_review ex_scope ''#7'' ex_generation [] ex_opinion"
proof -
  have "ticket_review ex_scope ''#7'' ex_generation ex_opinion" by code_simp
  moreover have "entry_pair ex_opinion = (rd_effective_backend ex_opinion_route, rd_effective_model ex_opinion_route)"
    by code_simp
  moreover have "check_review_budget ex_scope (Some ''#7'') ex_opinion_route None ex_generation (Some []) = Inr None"
  proof -
    have "untried_escalation ex_scope ex_opinion_route []" "trim ''#7'' \<noteq> []" by code_simp+
    then show ?thesis by (simp add: check_review_budget_def Let_def)
  qed
  ultimately show ?thesis unfolding admitted_review_def by blast
qed

theorem reviews_are_bounded_witness:
  "length (ticket_reviews ex_scope ''#7'' ex_generation [ex_opinion]) \<le> 1"
proof -
  have "log_chain (admitted_review ex_scope ''#7'' ex_generation) [] [ex_opinion]" using ex_admitted by simp
  moreover have "trim ''#7'' \<noteq> []" "explicit_chain ex_scope" by code_simp+
  moreover have "length (configured_chain ex_scope) = 1" by code_simp
  ultimately show ?thesis
    using reviews_are_bounded [of ex_scope "''#7''" ex_generation "[]" "[ex_opinion]"] by (simp add: ex_cycle_cap)
qed

end
