(* ===== verification/Float_Text.thy ===== *)
theory Float_Text
  imports Quota
begin

text \<open>
  Decimal text of binary64 numbers as the standard library of the source prints and reads it:
  \<open>{:.k}\<close> rounds the exact value to \<open>k\<close> decimals, ties to even; \<open>str::parse::<f64>\<close> rounds the
  exact decimal to the nearest number.
\<close>

subsection \<open>Printing with a fixed number of decimals\<close>

definition pad_left :: "nat \<Rightarrow> rust_str \<Rightarrow> rust_str" where
  "pad_left k s = replicate (k - length s) (CHR ''0'') @ s"

definition fmt_fixed :: "nat \<Rightarrow> rat \<Rightarrow> rust_str" where
  "fmt_fixed k x =
     (let n = nat (round_even (\<bar>x\<bar> * 10 ^ k))
      in (if x < 0 then ''-'' else []) @ nat_str (n div 10 ^ k)
         @ (if k = 0 then [] else CHR ''.'' # pad_left k (nat_str (n mod 10 ^ k))))"

subsection \<open>Reading\<close>

definition signed :: "rust_str \<Rightarrow> bool \<times> rust_str" where
  "signed s =
     (case s of
        c # t \<Rightarrow> if c = CHR ''-'' then (True, t) else if c = CHR ''+'' then (False, t) else (False, s)
      | [] \<Rightarrow> (False, s))"

definition parse_exponent :: "rust_str \<Rightarrow> int option" where
  "parse_exponent s =
     (case s of
        [] \<Rightarrow> Some 0
      | c # t \<Rightarrow>
          if c \<noteq> CHR ''e'' \<and> c \<noteq> CHR ''E'' then None
          else case signed t of
                 (neg, d) \<Rightarrow>
                   if d = [] then None
                   else map_option (\<lambda>n. if neg then - int n else int n) (digits_value 0 d))"

text \<open>The nearest binary64 number; beyond the greatest one the result is infinite.\<close>

definition to_f64 :: "bool \<Rightarrow> nat \<Rightarrow> int \<Rightarrow> f64" where
  "to_f64 neg m e =
     (let v = f64_round (of_nat m * 10 powi e)
      in if 2 ^ 1024 \<le> v then NonFinite else Finite (if neg then - v else v))"

definition parse_f64 :: "rust_str \<Rightarrow> f64 option" where
  "parse_f64 s =
     (case signed s of
        (neg, body) \<Rightarrow>
          if to_ascii_lowercase body \<in> {''inf'', ''infinity'', ''nan''} then Some NonFinite
          else
            let ints = takeWhile is_ascii_digit body;
                r = dropWhile is_ascii_digit body;
                (frac, tail) =
                  (case r of
                     c # t \<Rightarrow>
                       if c = CHR ''.'' then (takeWhile is_ascii_digit t, dropWhile is_ascii_digit t)
                       else ([], r)
                   | [] \<Rightarrow> ([], r))
            in if ints = [] \<and> frac = [] then None
               else case digits_value 0 (ints @ frac) of
                      None \<Rightarrow> None
                    | Some m \<Rightarrow>
                        map_option (\<lambda>e. to_f64 neg m (e - int (length frac))) (parse_exponent tail))"

subsection \<open>A printed number reads back\<close>

lemma digits_value_zeros: "digits_value 0 (replicate k (CHR ''0'') @ s) = digits_value 0 s"
  by (induction k) (auto simp: is_ascii_digit_def)

lemma digits_value_shift:
  "digits_value 0 s = Some v \<Longrightarrow> digits_value a s = Some (a * 10 ^ length s + v)"
proof (induction s arbitrary: v rule: rev_induct)
  case Nil
  then show ?case by simp
next
  case (snoc c s)
  then show ?case
    by (auto simp: digits_value_append bind_eq_Some_conv split: if_splits)
qed

lemma nat_str_length: "n < 10 ^ k \<Longrightarrow> 0 < k \<Longrightarrow> length (nat_str n) \<le> k"
proof (induction n arbitrary: k rule: nat_str.induct)
  case (1 n)
  show ?case
  proof (cases "n < 10")
    case True
    with 1 show ?thesis by (subst nat_str.simps) simp
  next
    case False
    with 1(2) have "k \<noteq> 1" by auto
    with 1(3) have k: "0 < k - 1" by simp
    from 1(3) have "(10::nat) ^ k = 10 ^ (k - 1) * 10" by (cases k) simp_all
    with 1(2) have "n div 10 < 10 ^ (k - 1)" by (simp only: div_less_iff_less_mult zero_less_numeral)
    with 1(1) [OF False this k] False k show ?thesis by (subst nat_str.simps) simp
  qed
qed

lemma pad_left_digits: "list_all is_ascii_digit (pad_left k (nat_str n))"
  using nat_str_digits [of n]
  by (auto simp: pad_left_def list_all_iff) (simp add: is_ascii_digit_def)

lemma length_pad_left: "n < 10 ^ k \<Longrightarrow> 0 < k \<Longrightarrow> length (pad_left k (nat_str n)) = k"
  using nat_str_length [of n k] by (simp add: pad_left_def)

lemma digits_value_pad_left: "digits_value 0 (pad_left k (nat_str n)) = Some n"
  by (simp add: pad_left_def digits_value_zeros)

lemma digit_word: "is_ascii_digit c \<Longrightarrow> to_ascii_lowercase (c # s) \<notin> {''inf'', ''infinity'', ''nan''}"
  by (auto simp: to_ascii_lowercase_def to_lower1_def is_ascii_digit_def is_ascii_upper_def)

lemma takeWhile_digits_dot:
  "list_all is_ascii_digit d \<Longrightarrow> takeWhile is_ascii_digit (d @ CHR ''.'' # f) = d"
  "list_all is_ascii_digit d \<Longrightarrow> dropWhile is_ascii_digit (d @ CHR ''.'' # f) = CHR ''.'' # f"
  by (induction d) (auto simp: is_ascii_digit_def)

lemma takeWhile_all_digits:
  "list_all is_ascii_digit d \<Longrightarrow> takeWhile is_ascii_digit d = d"
  "list_all is_ascii_digit d \<Longrightarrow> dropWhile is_ascii_digit d = []"
  by (induction d) auto

lemma parse_f64_decimal:
  assumes "list_all is_ascii_digit d" "d \<noteq> []" "list_all is_ascii_digit f"
    and "digits_value 0 (d @ f) = Some m"
  shows "parse_f64 (d @ CHR ''.'' # f) = Some (to_f64 False m (- int (length f)))"
proof -
  obtain c t where d: "d = c # t" using assms(2) by (cases d) auto
  with assms(1) have c: "is_ascii_digit c" by simp
  then have "signed (d @ CHR ''.'' # f) = (False, d @ CHR ''.'' # f)"
    by (auto simp: signed_def d is_ascii_digit_def)
  moreover have "to_ascii_lowercase (d @ CHR ''.'' # f) \<notin> {''inf'', ''infinity'', ''nan''}"
    unfolding d append_Cons by (rule digit_word [OF c])
  ultimately show ?thesis
    using assms by (simp add: parse_f64_def takeWhile_digits_dot takeWhile_all_digits parse_exponent_def)
qed

text \<open>Quarters, as long as they are below \<open>2 ^ 51\<close>, survive printing with three decimals.\<close>

lemma fmt_fixed_quarters:
  "fmt_fixed 3 (of_nat n / 4)
     = nat_str (250 * n div 1000) @ CHR ''.'' # pad_left 3 (nat_str (250 * n mod 1000))"
proof -
  have "of_nat n / 4 * 10 ^ 3 = (of_int (int (250 * n)) :: rat)" by simp
  then have "round_even (of_nat n / 4 * 10 ^ 3) = int (250 * n)" by (metis round_even_int)
  moreover have "\<bar>of_nat n / 4\<bar> = (of_nat n / 4 :: rat)" "\<not> of_nat n / 4 < (0::rat)" by simp_all
  moreover have "(10::nat) ^ 3 = 1000" by simp
  ultimately show ?thesis
    unfolding fmt_fixed_def by (simp only: Let_def nat_int if_False append_Nil) simp
qed

lemma f64_round_quarters: "n < 2 ^ 53 \<Longrightarrow> f64_round (of_nat n / 4) = of_nat n / 4"
proof (cases "n = 0")
  case False
  assume "n < 2 ^ 53"
  with False show ?thesis
    using f64_pos_dyadic [of "int n" 2] by (simp add: f64_round_def)
qed simp

theorem parse_fmt_quarters:
  assumes "n < 2 ^ 53"
  shows "parse_f64 (fmt_fixed 3 (of_nat n / 4)) = Some (Finite (of_nat n / 4))"
proof -
  let ?d = "nat_str (250 * n div 1000)" and ?f = "pad_left 3 (nat_str (250 * n mod 1000))"
  have "digits_value 0 (?d @ ?f) = Some (250 * n div 1000 * 1000 + 250 * n mod 1000)"
    using digits_value_shift [OF digits_value_pad_left, of "250 * n div 1000" 3 "250 * n mod 1000"]
    by (simp add: digits_value_append length_pad_left)
  then have v: "digits_value 0 (?d @ ?f) = Some (250 * n)" by presburger
  have p: "parse_f64 (?d @ CHR ''.'' # ?f) = Some (to_f64 False (250 * n) (- 3))"
    using parse_f64_decimal [OF _ _ pad_left_digits v] nat_str_digits
    by (simp add: list_all_iff length_pad_left)
  have "of_nat (250 * n) * 10 powi (- 3) = (of_nat n / 4 :: rat)"
    by (simp add: power_int_minus field_simps)
  moreover have "(of_nat n / 4 :: rat) < 2 ^ 1024"
  proof -
    have "(of_nat n :: rat) < of_nat (2 ^ 53)" using assms by (simp only: of_nat_less_iff)
    moreover have "(2::rat) ^ 53 \<le> 2 ^ 1024" by (rule power_increasing) simp_all
    moreover have "(of_nat n :: rat) / 4 \<le> of_nat n" by simp
    ultimately show ?thesis by (simp only: of_nat_power of_nat_numeral)
  qed
  ultimately have "to_f64 False (250 * n) (- 3) = Finite (of_nat n / 4)"
    using assms by (simp add: to_f64_def f64_round_quarters Let_def)
  with p show ?thesis by (simp only: fmt_fixed_quarters)
qed

end
