(* ===== verification/Node_Capacity.thy ===== *)
theory Node_Capacity
  imports Action Float_Text Text_Scan
begin

text \<open>
  Admission of workers to the node: the operator's limits (\<^verbatim>\<open>config/node_capacity.rs\<close>), the check of
  one worker against pressure and commitments, and the registry of leases through which every
  controller of the host shares the node (\<^verbatim>\<open>controller/runtime/node_capacity.rs\<close>).  The registry is a
  directory: the model keeps its entries in listing order, each with its lock and its text; what the
  file system answers is an argument.  Sizes are \<open>u64\<close> values, unchecked products wrap as in a release
  build.
\<close>

subsection \<open>Settings\<close>

definition MIB :: nat where "MIB = 1024 * 1024"
definition ADAPTIVE_FLOOR_MIN_MIB :: nat where "ADAPTIVE_FLOOR_MIN_MIB = 2048"

record node_capacity_settings =
  worker_memory_mib :: nat
  memory_floor_mib :: nat
  worker_cpu_cores :: nat
  cpu_ceiling_percent :: nat

definition default_node_capacity :: node_capacity_settings where
  "default_node_capacity =
     \<lparr>worker_memory_mib = 4096, memory_floor_mib = 0, worker_cpu_cores = 2, cpu_ceiling_percent = 90\<rparr>"

definition cpu_ceiling :: "node_capacity_settings \<Rightarrow> nat \<Rightarrow> rat" where
  "cpu_ceiling self logical_cpus =
     max (f64_round (f64_round (f64_round (of_nat (max logical_cpus 1)) * of_nat (cpu_ceiling_percent self)) / 100)) 1"

definition floor_description :: "node_capacity_settings \<Rightarrow> rust_str" where
  "floor_description self =
     (if memory_floor_mib self = 0
      then ''max('' @ nat_str ADAPTIVE_FLOOR_MIN_MIB @ '' MiB, total / 6)''
      else nat_str (memory_floor_mib self) @ '' MiB'')"

definition memory_reserve_bytes :: "node_capacity_settings \<Rightarrow> nat \<Rightarrow> nat" where
  "memory_reserve_bytes self total_memory_bytes =
     (if memory_floor_mib self = 0
      then max (wrapping_mul_u64 ADAPTIVE_FLOOR_MIN_MIB MIB) (total_memory_bytes div 6)
      else wrapping_mul_u64 (memory_floor_mib self) MIB)"

definition validate :: "node_capacity_settings \<Rightarrow> (rust_str, unit) rust_result" where
  "validate self =
     (if \<not> 512 \<le> worker_memory_mib self
      then Inl ''node_capacity.worker_memory_mib must be at least 512''
      else if \<not> (memory_floor_mib self = 0 \<or> 512 \<le> memory_floor_mib self)
      then Inl ''node_capacity.memory_floor_mib must be zero or at least 512''
      else if \<not> (worker_memory_mib self \<le> u64_max div MIB \<and> memory_floor_mib self \<le> u64_max div MIB)
      then Inl ''node_capacity memory value is too large''
      else if \<not> (1 \<le> worker_cpu_cores self \<and> worker_cpu_cores self \<le> 64)
      then Inl ''node_capacity.worker_cpu_cores must be between 1 and 64''
      else if \<not> (10 \<le> cpu_ceiling_percent self \<and> cpu_ceiling_percent self \<le> 400)
      then Inl ''node_capacity.cpu_ceiling_percent must be between 10 and 400''
      else Inr ())"

definition sanitized :: "node_capacity_settings \<Rightarrow> node_capacity_settings" where
  "sanitized self = (case validate self of Inr _ \<Rightarrow> self | Inl _ \<Rightarrow> default_node_capacity)"

definition validate_against_node_total ::
  "node_capacity_settings \<Rightarrow> nat \<Rightarrow> (rust_str, unit) rust_result" where
  "validate_against_node_total self total_memory_bytes =
     (let worker_bytes = wrapping_mul_u64 (worker_memory_mib self) MIB;
          floor_bytes = memory_reserve_bytes self total_memory_bytes
      in if saturating_add_u64 worker_bytes floor_bytes \<le> total_memory_bytes then Inr ()
         else Inl (''node_capacity needs ''
                @ nat_str (wrapping_add_u64 (worker_memory_mib self) (floor_bytes div MIB))
                @ '' MiB ('' @ nat_str (worker_memory_mib self) @ '' worker reservation + ''
                @ nat_str (floor_bytes div MIB) @ '' memory floor) but this node only has ''
                @ nat_str (total_memory_bytes div MIB)
                @ '' MiB total; implementation workers would be deferred forever''))"

subsection \<open>Pressure and reservations\<close>

definition GIB :: nat where "GIB = 1024 * 1024 * 1024"
definition MIN_CRITICAL_MEMORY :: nat where "MIN_CRITICAL_MEMORY = 512 * 1024 * 1024"

record node_pressure =
  memory_total_bytes :: nat
  memory_available_bytes :: nat
  logical_cpus :: nat
  load_one :: rat
  memory_full_psi_avg10 :: "rat option"
  cpu_some_psi_avg10 :: "rat option"

record worker_reservation =
  memory_bytes :: nat
  cpu_units :: rat

definition no_reservation :: worker_reservation where
  "no_reservation = \<lparr>memory_bytes = 0, cpu_units = 0\<rparr>"

definition add_assign :: "worker_reservation \<Rightarrow> worker_reservation \<Rightarrow> worker_reservation" where
  "add_assign self other =
     \<lparr>memory_bytes = saturating_add_u64 (memory_bytes self) (memory_bytes other),
      cpu_units = f64_round (cpu_units self + cpu_units other)\<rparr>"

definition sub_assign :: "worker_reservation \<Rightarrow> worker_reservation \<Rightarrow> worker_reservation" where
  "sub_assign self other =
     \<lparr>memory_bytes = saturating_sub (memory_bytes self) (memory_bytes other),
      cpu_units = max (f64_round (cpu_units self - cpu_units other)) 0\<rparr>"

datatype admission = Admit worker_reservation | Defer rust_str

fun reservation_for :: "next_action \<Rightarrow> node_capacity_settings \<Rightarrow> worker_reservation" where
  "reservation_for (DispatchTicket p w b m r) s =
     \<lparr>memory_bytes = wrapping_mul_u64 (wrapping_mul_u64 (worker_memory_mib s) 1024) 1024,
      cpu_units = of_nat (worker_cpu_cores s)\<rparr>"
| "reservation_for (FixMr w b u g r) s =
     \<lparr>memory_bytes = wrapping_mul_u64 (wrapping_mul_u64 (worker_memory_mib s) 1024) 1024,
      cpu_units = of_nat (worker_cpu_cores s)\<rparr>"
| "reservation_for (Retry w p r) s =
     \<lparr>memory_bytes = wrapping_mul_u64 (wrapping_mul_u64 (worker_memory_mib s) 1024) 1024,
      cpu_units = of_nat (worker_cpu_cores s)\<rparr>"
| "reservation_for (Escalate w p r) s =
     \<lparr>memory_bytes = wrapping_mul_u64 (wrapping_mul_u64 (worker_memory_mib s) 1024) 1024,
      cpu_units = of_nat (worker_cpu_cores s)\<rparr>"
| "reservation_for (DecomposeIssue p w t r) s = \<lparr>memory_bytes = 2 * GIB, cpu_units = 1\<rparr>"
| "reservation_for (ReviewMr w b u r) s = \<lparr>memory_bytes = GIB, cpu_units = 1 / 2\<rparr>"
| "reservation_for (MarkReadyForReview w b u r) s =
     \<lparr>memory_bytes = 256 * 1024 * 1024, cpu_units = 1 / 4\<rparr>"
| "reservation_for (MergeMr w b u g r) s =
     \<lparr>memory_bytes = 256 * 1024 * 1024, cpu_units = 1 / 4\<rparr>"
| "reservation_for (ReconcilePmParent w s' f c r) s =
     \<lparr>memory_bytes = 256 * 1024 * 1024, cpu_units = 1 / 4\<rparr>"
| "reservation_for (WaitUntil t r) s = no_reservation"
| "reservation_for (HumanRequired w r f c) s = no_reservation"
| "reservation_for (NoOp r) s = no_reservation"

subsection \<open>Admission of one worker\<close>

definition critical_memory :: "node_pressure \<Rightarrow> nat" where
  "critical_memory pressure = max MIN_CRITICAL_MEMORY (memory_total_bytes pressure div 32)"

definition projected_available :: "worker_reservation \<Rightarrow> worker_reservation \<Rightarrow> node_pressure \<Rightarrow> nat" where
  "projected_available requested committed pressure =
     saturating_sub
       (min (memory_available_bytes pressure)
          (saturating_sub (memory_total_bytes pressure) (memory_bytes committed)))
       (memory_bytes requested)"

definition projected_cpu :: "worker_reservation \<Rightarrow> worker_reservation \<Rightarrow> node_pressure \<Rightarrow> rat" where
  "projected_cpu requested committed pressure =
     f64_round (max (load_one pressure) (cpu_units committed) + cpu_units requested)"

definition reserve_message ::
  "worker_reservation \<Rightarrow> worker_reservation \<Rightarrow> node_pressure \<Rightarrow> node_capacity_settings \<Rightarrow> rust_str" where
  "reserve_message requested committed pressure settings =
     ''node memory reserve would be crossed (''
     @ nat_str (memory_available_bytes pressure div (1024 * 1024)) @ '' MiB available, ''
     @ nat_str (saturating_add_u64 (memory_bytes committed) (memory_bytes requested) div (1024 * 1024))
     @ '' MiB reserved for active/new workers, ''
     @ nat_str (memory_reserve_bytes settings (memory_total_bytes pressure) div (1024 * 1024))
     @ '' MiB safety floor; node_capacity: worker reservation '' @ nat_str (worker_memory_mib settings)
     @ '' MiB, memory floor '' @ floor_description settings @ '')''"

definition cpu_message ::
  "worker_reservation \<Rightarrow> worker_reservation \<Rightarrow> node_pressure \<Rightarrow> rat \<Rightarrow> rust_str" where
  "cpu_message requested committed pressure limit =
     ''node CPU reserve would be crossed (max(load '' @ fmt_fixed 2 (load_one pressure)
     @ '', committed '' @ fmt_fixed 2 (cpu_units committed) @ '') + ''
     @ fmt_fixed 2 (cpu_units requested) @ '' requested > '' @ fmt_fixed 2 limit @ '')''"

definition admission_for_settings ::
  "next_action \<Rightarrow> nat \<Rightarrow> worker_reservation \<Rightarrow> node_pressure \<Rightarrow> node_capacity_settings \<Rightarrow> admission" where
  "admission_for_settings action active_workers committed pressure settings =
     (let requested = reservation_for action settings;
          memory_reserve = memory_reserve_bytes settings (memory_total_bytes pressure)
      in if memory_available_bytes pressure \<le> critical_memory pressure
         then Defer (''node memory is critical (''
                @ nat_str (memory_available_bytes pressure div (1024 * 1024)) @ '' MiB available)'')
         else if projected_available requested committed pressure < memory_reserve
         then Defer (reserve_message requested committed pressure settings)
         else if 1 \<le> unwrap_or (memory_full_psi_avg10 pressure) 0
         then Defer (''node memory PSI is saturated (''
                @ fmt_fixed 2 (unwrap_or (memory_full_psi_avg10 pressure) 0) @ ''% full avg10)'')
         else if 0 < active_workers \<and> cpu_ceiling settings (logical_cpus pressure)
                                        < projected_cpu requested committed pressure
         then Defer (cpu_message requested committed pressure (cpu_ceiling settings (logical_cpus pressure)))
         else if 0 < active_workers \<and> 50 \<le> unwrap_or (cpu_some_psi_avg10 pressure) 0
         then Defer (''node CPU PSI is saturated (''
                @ fmt_fixed 2 (unwrap_or (cpu_some_psi_avg10 pressure) 0) @ ''% some avg10)'')
         else Admit requested)"

subsection \<open>The text of a lease\<close>

definition encode_reservation :: "worker_reservation \<Rightarrow> rust_str" where
  "encode_reservation reservation =
     nat_str (memory_bytes reservation) @ '' '' @ fmt_fixed 3 (cpu_units reservation) @ [CHR 0x0A]"

definition decode_reservation :: "rust_str \<Rightarrow> (rust_str, worker_reservation) rust_result" where
  "decode_reservation encoded =
     (let parts = split_whitespace encoded
      in case Option.bind (first parts) (parse_unsigned u64_max) of
           None \<Rightarrow> Inl ''invalid node-capacity memory reservation''
         | Some mem \<Rightarrow>
             (case Option.bind (first (drop 1 parts)) parse_f64 of
                None \<Rightarrow> Inl ''invalid node-capacity CPU reservation''
              | Some NonFinite \<Rightarrow> Inl ''node-capacity CPU reservation must be finite and non-negative''
              | Some (Finite cpu) \<Rightarrow>
                  if cpu < 0
                  then Inl ''node-capacity CPU reservation must be finite and non-negative''
                  else if drop 2 parts \<noteq> []
                  then Inl ''unexpected fields in node-capacity reservation''
                  else Inr \<lparr>memory_bytes = mem, cpu_units = cpu\<rparr>))"

subsection \<open>Readings of the kernel\<close>

fun find_map :: "('a \<Rightarrow> 'b option) \<Rightarrow> 'a list \<Rightarrow> 'b option" where
  "find_map f [] = None"
| "find_map f (x # xs) = (case f x of Some y \<Rightarrow> Some y | None \<Rightarrow> find_map f xs)"

definition meminfo_kib :: "rust_str \<Rightarrow> rust_str \<Rightarrow> nat option" where
  "meminfo_kib contents key =
     find_map
       (\<lambda>line. Option.bind (split_once (CHR '':'') line)
          (\<lambda>(name, v). if name = key
             then Option.bind (first (split_whitespace v)) (parse_unsigned u64_max) else None))
       (lines_of contents)"

text \<open>\<open>read_psi_avg10\<close> on the contents of the file, \<open>None\<close> when it cannot be read.\<close>

definition psi_avg10 :: "rust_str option \<Rightarrow> rust_str \<Rightarrow> f64 option" where
  "psi_avg10 contents cls =
     Option.bind contents
       (\<lambda>text. find_map
          (\<lambda>line. case split_whitespace line of
               [] \<Rightarrow> None
             | c # rest \<Rightarrow>
                 if c \<noteq> cls then None
                 else find_map (\<lambda>field. Option.bind (strip_prefix ''avg10='' field) parse_f64) rest)
          (lines_of text))"

record macos_pages =
  pages_free :: nat
  pages_file_backed :: nat
  pages_purgeable :: nat
  page_size :: nat

definition reclaimable_bytes :: "macos_pages \<Rightarrow> nat" where
  "reclaimable_bytes self =
     min (saturating_add_u64 (saturating_add_u64 (pages_free self) (pages_file_backed self))
            (pages_purgeable self) * page_size self) u64_max"

subsection \<open>The registry of leases\<close>

record lease_entry =
  le_name :: rust_str
  le_held :: bool
  le_text :: rust_str

datatype open_outcome = Opened | OpenMissing | OpenFailed rust_str

text \<open>
  What the file system answers: the error of preparing and locking the registry, opening an entry, an
  error of its lock other than being held, reading it, removing it; the fresh name, the error of
  creating the new file, and the error of locking, writing or syncing it together with the text that
  reached the file.
\<close>

record lease_io =
  io_registry :: "rust_str option"
  io_open :: "rust_str \<Rightarrow> open_outcome"
  io_lock :: "rust_str \<Rightarrow> rust_str option"
  io_read :: "rust_str \<Rightarrow> rust_str option"
  io_removed :: "rust_str \<Rightarrow> bool"
  io_uuid :: rust_str
  io_create :: "rust_str option"
  io_commit :: "(rust_str \<times> rust_str) option"

text \<open>\<open>Path::extension\<close>: what follows the last dot, unless nothing precedes it.\<close>

definition path_extension :: "rust_str \<Rightarrow> rust_str option" where
  "path_extension name =
     (case dropWhile (\<lambda>c. c \<noteq> CHR ''.'') (rev name) of
        [] \<Rightarrow> None
      | d # stem \<Rightarrow>
          if stem = [] \<or> name = ''..'' then None
          else Some (rev (takeWhile (\<lambda>c. c \<noteq> CHR ''.'') (rev name))))"

definition is_lease :: "lease_entry \<Rightarrow> bool" where
  "is_lease e = (path_extension (le_name e) = Some ''lease'')"

text \<open>The loop over the directory: what remains of it, and the commitments found or the error.\<close>

fun sweep ::
  "lease_io \<Rightarrow> lease_entry list \<Rightarrow> worker_reservation \<Rightarrow> nat
     \<Rightarrow> lease_entry list \<times> (rust_str, worker_reservation \<times> nat) rust_result" where
  "sweep io [] committed active = ([], Inr (committed, active))"
| "sweep io (e # es) committed active =
     (if \<not> is_lease e then apfst ((#) e) (sweep io es committed active)
      else case io_open io (le_name e) of
             OpenFailed err \<Rightarrow> (e # es, Inl err)
           | OpenMissing \<Rightarrow> sweep io es committed active
           | Opened \<Rightarrow>
               (case io_lock io (le_name e) of
                  Some err \<Rightarrow> (e # es, Inl err)
                | None \<Rightarrow>
                    if \<not> le_held e then
                      (if io_removed io (le_name e) then sweep io es committed active
                       else apfst ((#) e) (sweep io es committed active))
                    else case io_read io (le_name e) of
                           Some err \<Rightarrow> (e # es, Inl err)
                         | None \<Rightarrow>
                             (case decode_reservation (le_text e) of
                                Inl err \<Rightarrow> (e # es, Inl err)
                              | Inr r \<Rightarrow>
                                  apfst ((#) e) (sweep io es (add_assign committed r) (active + 1)))))"

datatype live_admission = LiveAdmit rust_str | LiveDefer rust_str

definition lease_path :: "lease_io \<Rightarrow> rust_str" where
  "lease_path io = io_uuid io @ ''.lease''"

definition create_lease ::
  "lease_io \<Rightarrow> lease_entry list \<Rightarrow> worker_reservation
     \<Rightarrow> lease_entry list \<times> (rust_str, live_admission) rust_result" where
  "create_lease io dir reservation =
     (if lease_path io \<in> le_name ` set dir then (dir, Inl ''file exists'')
      else case io_create io of
             Some err \<Rightarrow> (dir, Inl err)
           | None \<Rightarrow>
               (case io_commit io of
                  Some (err, written) \<Rightarrow>
                    (dir @ [\<lparr>le_name = lease_path io, le_held = False, le_text = written\<rparr>], Inl err)
                | None \<Rightarrow>
                    (dir @ [\<lparr>le_name = lease_path io, le_held = True,
                             le_text = encode_reservation reservation\<rparr>],
                     Inr (LiveAdmit (lease_path io)))))"

definition acquire_in_dir ::
  "lease_io \<Rightarrow> lease_entry list \<Rightarrow> next_action \<Rightarrow> node_pressure \<Rightarrow> nat \<Rightarrow> node_capacity_settings
     \<Rightarrow> lease_entry list \<times> (rust_str, live_admission) rust_result" where
  "acquire_in_dir io dir action pressure local_active_workers settings =
     (case io_registry io of
        Some err \<Rightarrow> (dir, Inl err)
      | None \<Rightarrow>
          (case sweep io dir no_reservation 0 of
             (d, Inl err) \<Rightarrow> (d, Inl err)
           | (d, Inr (committed, active_workers)) \<Rightarrow>
               (case admission_for_settings action (max active_workers local_active_workers)
                       committed pressure settings of
                  Defer why \<Rightarrow> (d, Inr (LiveDefer why))
                | Admit reservation \<Rightarrow> create_lease io d reservation)))"

definition try_acquire ::
  "(rust_str, node_pressure) rust_result \<Rightarrow> lease_io \<Rightarrow> lease_entry list \<Rightarrow> next_action \<Rightarrow> nat
     \<Rightarrow> node_capacity_settings \<Rightarrow> lease_entry list \<times> (rust_str, live_admission) rust_result" where
  "try_acquire sample io dir action local_active_workers settings =
     (case sample of
        Inl err \<Rightarrow> (dir, Inl err)
      | Inr pressure \<Rightarrow> acquire_in_dir io dir action pressure local_active_workers settings)"

text \<open>The kernel releases the lock of a holder that is gone; its file stays.\<close>

definition unlock :: "rust_str \<Rightarrow> lease_entry list \<Rightarrow> lease_entry list" where
  "unlock name dir = map (\<lambda>e. if le_name e = name then e\<lparr>le_held := False\<rparr> else e) dir"

definition drop_lease :: "lease_io \<Rightarrow> rust_str \<Rightarrow> lease_entry list \<Rightarrow> lease_entry list" where
  "drop_lease io name dir =
     (if io_registry io = None \<and> io_removed io name
      then filter (\<lambda>e. le_name e \<noteq> name) dir
      else unlock name dir)"

end
