(* ===== verification/Node_Capacity_Props.thy ===== *)
theory Node_Capacity_Props
  imports Node_Capacity
begin

text \<open>
  Properties of node admission: what an admitted worker is known to leave free, when the settings can
  be satisfied at all, the text of a lease, and the registry under every interleaving of acquisitions,
  releases and crashes of the controllers that share it.
\<close>

subsection \<open>One admission\<close>

lemma admit_iff:
  "admission_for_settings a n c p s = Admit r \<longleftrightarrow>
     r = reservation_for a s
     \<and> critical_memory p < memory_available_bytes p
     \<and> memory_reserve_bytes s (memory_total_bytes p) \<le> projected_available (reservation_for a s) c p
     \<and> unwrap_or (memory_full_psi_avg10 p) 0 < 1
     \<and> (0 < n \<longrightarrow> projected_cpu (reservation_for a s) c p \<le> cpu_ceiling s (logical_cpus p)
                 \<and> unwrap_or (cpu_some_psi_avg10 p) 0 < 50)"
  by (auto simp: admission_for_settings_def Let_def)

lemma validate_InrD:
  assumes "validate s = Inr u"
  shows "512 \<le> worker_memory_mib s" "memory_floor_mib s = 0 \<or> 512 \<le> memory_floor_mib s"
    "worker_memory_mib s \<le> u64_max div MIB" "memory_floor_mib s \<le> u64_max div MIB"
    "1 \<le> worker_cpu_cores s" "worker_cpu_cores s \<le> 64"
  using assms by (auto simp: validate_def split: if_splits)

lemma mib_bytes: "w \<le> u64_max div MIB \<Longrightarrow> w * MIB \<le> u64_max"
  by (metis div_times_less_eq_dividend mult_le_mono1 order_trans)

lemma u64_max_less: "n \<le> u64_max \<longleftrightarrow> n < 2 ^ 64"
  by (auto simp: u64_max_def)

lemma wrapping_mib: "w \<le> u64_max div MIB \<Longrightarrow> wrapping_mul_u64 w MIB = w * MIB"
  using mib_bytes [of w] by (simp add: wrapping_mul_u64_exact u64_max_less)

lemma wrapping_mib_twice:
  "w \<le> u64_max div MIB \<Longrightarrow> wrapping_mul_u64 (wrapping_mul_u64 w 1024) 1024 = w * MIB"
  using mib_bytes [of w] by (simp add: wrapping_mul_u64_def u64_max_less MIB_def)

lemma default_floor: "wrapping_mul_u64 ADAPTIVE_FLOOR_MIN_MIB MIB = 2147483648"
  by (simp add: wrapping_mul_u64_def ADAPTIVE_FLOOR_MIN_MIB_def MIB_def)

lemma memory_reserve_large:
  assumes "validate s = Inr u"
  shows "512 * MIB \<le> memory_reserve_bytes s t"
proof (cases "memory_floor_mib s = 0")
  case True
  then have "2147483648 \<le> memory_reserve_bytes s t" by (simp add: memory_reserve_bytes_def default_floor)
  then show ?thesis by (simp add: MIB_def)
next
  case False
  with validate_InrD [OF assms] show ?thesis
    by (simp add: memory_reserve_bytes_def wrapping_mib)
qed

lemma memory_reserve_u64:
  assumes "validate s = Inr u" "t \<le> u64_max"
  shows "memory_reserve_bytes s t \<le> u64_max"
proof (cases "memory_floor_mib s = 0")
  case True
  with assms(2) show ?thesis
    by (simp add: memory_reserve_bytes_def default_floor) (simp add: u64_max_def)
next
  case False
  with validate_InrD [OF assms(1)] mib_bytes show ?thesis
    by (simp add: memory_reserve_bytes_def wrapping_mib)
qed

text \<open>With a positive floor, admission leaves the floor free beside everything that is committed.\<close>

lemma admit_leaves_reserve:
  assumes "admission_for_settings a n c p s = Admit r" "validate s = Inr u"
  shows "memory_bytes c + memory_bytes r + memory_reserve_bytes s (memory_total_bytes p)
           \<le> memory_total_bytes p"
    and "memory_bytes r + memory_reserve_bytes s (memory_total_bytes p) \<le> memory_available_bytes p"
proof -
  have "0 < memory_reserve_bytes s (memory_total_bytes p)"
    using memory_reserve_large [OF assms(2), of "memory_total_bytes p"] by (simp add: MIB_def)
  then show "memory_bytes c + memory_bytes r + memory_reserve_bytes s (memory_total_bytes p)
           \<le> memory_total_bytes p"
    and "memory_bytes r + memory_reserve_bytes s (memory_total_bytes p) \<le> memory_available_bytes p"
    using assms(1) by (auto simp: admit_iff projected_available_def)
qed

subsection \<open>Less pressure never turns an admission into a deferral\<close>

definition eases :: "node_pressure \<Rightarrow> node_pressure \<Rightarrow> bool" where
  "eases q p =
     (memory_total_bytes q = memory_total_bytes p \<and> logical_cpus q = logical_cpus p
      \<and> memory_available_bytes p \<le> memory_available_bytes q \<and> load_one q \<le> load_one p
      \<and> unwrap_or (memory_full_psi_avg10 q) 0 \<le> unwrap_or (memory_full_psi_avg10 p) 0
      \<and> unwrap_or (cpu_some_psi_avg10 q) 0 \<le> unwrap_or (cpu_some_psi_avg10 p) 0)"

lemma projected_available_mono:
  "eases q p \<Longrightarrow> memory_bytes c' \<le> memory_bytes c
     \<Longrightarrow> projected_available r c p \<le> projected_available r c' q"
  by (auto simp: eases_def projected_available_def)

lemma projected_cpu_mono:
  "eases q p \<Longrightarrow> cpu_units c' \<le> cpu_units c \<Longrightarrow> projected_cpu r c' q \<le> projected_cpu r c p"
  unfolding projected_cpu_def by (rule f64_round_mono) (auto simp: eases_def)

definition sample_node :: node_pressure where
  "sample_node =
     \<lparr>memory_total_bytes = 16 * GIB, memory_available_bytes = 15 * GIB, logical_cpus = 8,
      load_one = 1, memory_full_psi_avg10 = None, cpu_some_psi_avg10 = None\<rparr>"

lemmas capacity_eval =
  admit_iff critical_memory_def MIN_CRITICAL_MEMORY_def sample_node_def GIB_def
  default_node_capacity_def memory_reserve_bytes_def default_floor projected_available_def
  no_reservation_def

text \<open>Admission is monotone: on a node of the same size, with no less memory available, no more
  load or stall, no larger commitments and no more active workers, an action that was admitted is
  admitted again, with the same reservation. Releasing a lease can therefore never block a worker.\<close>

theorem relief_keeps_admission:
  assumes "admission_for_settings a n c p s = Admit r"
    and "eases q p" "m \<le> n" "memory_bytes c' \<le> memory_bytes c" "cpu_units c' \<le> cpu_units c"
  shows "admission_for_settings a m c' q s = Admit r"
proof -
  have "critical_memory q = critical_memory p" using assms(2) by (simp add: eases_def critical_memory_def)
  with assms projected_available_mono [OF assms(2,4), of "reservation_for a s"]
    projected_cpu_mono [OF assms(2,5), of "reservation_for a s"]
  show ?thesis by (auto simp: admit_iff eases_def)
qed

lemma sample_admission:
  "admission_for_settings (NoOp r) 0 no_reservation sample_node default_node_capacity = Admit no_reservation"
  by (simp add: capacity_eval)

theorem relief_keeps_admission_witness:
  "admission_for_settings (NoOp ''idle'') 0 no_reservation
     (sample_node\<lparr>memory_available_bytes := 16 * GIB, load_one := 1 / 2\<rparr>) default_node_capacity
   = Admit no_reservation"
  by (rule relief_keeps_admission [OF sample_admission])
     (simp_all add: eases_def sample_node_def GIB_def)

subsection \<open>Settings that can be satisfied\<close>

definition is_implementation :: "next_action \<Rightarrow> bool" where
  "is_implementation a =
     (case a of DispatchTicket _ _ _ _ _ \<Rightarrow> True | FixMr _ _ _ _ _ \<Rightarrow> True | Retry _ _ _ \<Rightarrow> True
        | Escalate _ _ _ \<Rightarrow> True | _ \<Rightarrow> False)"

lemma implementation_reservation:
  assumes "is_implementation a" "validate s = Inr u"
  shows "reservation_for a s = \<lparr>memory_bytes = worker_memory_mib s * MIB, cpu_units = of_nat (worker_cpu_cores s)\<rparr>"
  using assms validate_InrD(3) [OF assms(2)]
  by (cases a) (simp_all add: is_implementation_def wrapping_mib_twice)

definition idle_node :: "nat \<Rightarrow> nat \<Rightarrow> node_pressure" where
  "idle_node total_bytes cpus =
     \<lparr>memory_total_bytes = total_bytes, memory_available_bytes = total_bytes, logical_cpus = cpus,
      load_one = 0, memory_full_psi_avg10 = None, cpu_some_psi_avg10 = None\<rparr>"

lemma validate_against_node_total_iff:
  assumes "validate s = Inr u" "t < u64_max"
  shows "validate_against_node_total s t = Inr () \<longleftrightarrow>
           worker_memory_mib s * MIB + memory_reserve_bytes s t \<le> t"
  using assms(2) wrapping_mib [OF validate_InrD(3) [OF assms(1)]]
  by (auto simp: validate_against_node_total_def Let_def saturating_add_u64_def)

text \<open>The check of \<open>gah config set\<close> is exact: valid settings pass it for a node of a given size
  if and only if there is some state of a node of that size (memory available within its total) in
  which admission lets an implementation worker in beside no other worker. When it fails, such a worker
  is deferred under every pressure and every set of commitments, as its message says.\<close>

theorem node_total_check_exact:
  assumes "validate s = Inr u" "t < u64_max" "is_implementation a"
  shows "(validate_against_node_total s t = Inr () \<longleftrightarrow>
            (\<exists>p r. memory_total_bytes p = t \<and> memory_available_bytes p \<le> t
               \<and> admission_for_settings a 0 no_reservation p s = Admit r))
         \<and> (validate_against_node_total s t \<noteq> Inr () \<longrightarrow>
              (\<forall>n c p r. memory_total_bytes p = t \<longrightarrow> admission_for_settings a n c p s \<noteq> Admit r))"
proof -
  have res: "memory_bytes (reservation_for a s) = worker_memory_mib s * MIB"
    using implementation_reservation [OF assms(3,1)] by simp
  have refused: "admission_for_settings a n c p s = Admit r \<Longrightarrow> memory_total_bytes p = t
      \<Longrightarrow> validate_against_node_total s t = Inr ()" for n c p r
    using admit_leaves_reserve(1) [OF _ assms(1), of a n c p r] res
    by (auto simp: validate_against_node_total_iff [OF assms(1,2)] admit_iff)
  have "admission_for_settings a 0 no_reservation (idle_node t 1) s = Admit (reservation_for a s)"
    if ok: "validate_against_node_total s t = Inr ()"
  proof -
    have le: "worker_memory_mib s * MIB + memory_reserve_bytes s t \<le> t"
      using ok by (simp add: validate_against_node_total_iff [OF assms(1,2)])
    have "512 * MIB \<le> worker_memory_mib s * MIB" using validate_InrD(1) [OF assms(1)] by simp
    with le memory_reserve_large [OF assms(1), of t] have "1024 * MIB \<le> t" by linarith
    then have "critical_memory (idle_node t 1) < t"
      by (auto simp: critical_memory_def idle_node_def MIN_CRITICAL_MEMORY_def MIB_def)
    with le show ?thesis
      by (simp add: admit_iff idle_node_def projected_available_def no_reservation_def res)
  qed
  then have "validate_against_node_total s t = Inr () \<longleftrightarrow>
           (\<exists>p r. memory_total_bytes p = t \<and> memory_available_bytes p \<le> t
              \<and> admission_for_settings a 0 no_reservation p s = Admit r)"
    using refused by (force simp: idle_node_def)
  with refused show ?thesis by blast
qed

lemma default_settings_valid: "validate default_node_capacity = Inr ()"
  by (simp add: validate_def default_node_capacity_def u64_max_def MIB_def)

theorem node_total_check_exact_witness:
  "validate_against_node_total default_node_capacity (8 * GIB) = Inr ()
     \<longleftrightarrow> (\<exists>p r. memory_total_bytes p = 8 * GIB \<and> memory_available_bytes p \<le> 8 * GIB
           \<and> admission_for_settings (Retry ''1'' ''t'' ''r'') 0 no_reservation p default_node_capacity = Admit r)"
  by (rule node_total_check_exact [OF default_settings_valid, THEN conjunct1])
     (simp_all add: GIB_def u64_max_def is_implementation_def)

subsection \<open>The text of a lease\<close>

lemma fixed_cpu: "\<exists>k. cpu_units (reservation_for a s) = of_nat k / 4 \<and> k \<le> max 4 (4 * worker_cpu_cores s)"
proof (cases a)
  case (DecomposeIssue p w t r)
  then show ?thesis by (intro exI [of _ 4]) simp
next
  case (ReviewMr w b u r)
  then show ?thesis by (intro exI [of _ 2]) simp
next
  case (MarkReadyForReview w b u r)
  then show ?thesis by (intro exI [of _ 1]) simp
next
  case (MergeMr w b u g r)
  then show ?thesis by (intro exI [of _ 1]) simp
next
  case (ReconcilePmParent w s' f c r)
  then show ?thesis by (intro exI [of _ 1]) simp
qed (auto simp: no_reservation_def intro: exI [of _ 0] exI [of _ "4 * worker_cpu_cores s"])

lemma memory_u64: "memory_bytes (reservation_for a s) \<le> u64_max"
  by (cases a) (simp_all add: wrapping_mul_u64_def u64_max_def no_reservation_def GIB_def)

lemma is_ascii_solid_fmt: "list_all ascii_solid (fmt_fixed 3 (of_nat k / 4))"
  using nat_str_digits [of "250 * k div 1000"] pad_left_digits [of 3 "250 * k mod 1000"]
  unfolding fmt_fixed_quarters by (auto simp: list_all_iff digit_solid) (simp add: ascii_solid_def)

lemma split_encoded:
  "split_whitespace (nat_str m @ '' '' @ fmt_fixed 3 (of_nat k / 4) @ [CHR 0x0A])
     = [nat_str m, fmt_fixed 3 (of_nat k / 4)]"
proof -
  have m: "list_all ascii_solid (nat_str m)" using nat_str_digits [of m] by (auto simp: list_all_iff digit_solid)
  have b: "ws1 (CHR '' '')" "ws1 (CHR 0x0A)" by (simp_all add: ws1_def)
  have n: "fmt_fixed 3 (of_nat k / 4) \<noteq> []" by (simp add: fmt_fixed_quarters)
  show ?thesis
    by (simp add: split_whitespace_def split_ws_solid [OF m] split_ws_blank [OF b(1)]
        split_ws_solid [OF is_ascii_solid_fmt] split_ws_blank [OF b(2)] n)
qed

lemma decode_encode_quarters:
  assumes "memory_bytes r \<le> u64_max" "cpu_units r = of_nat k / 4" "k < 2 ^ 53"
  shows "decode_reservation (encode_reservation r) = Inr r"
proof -
  obtain m c where r: "r = \<lparr>memory_bytes = m, cpu_units = c\<rparr>" by (cases r)
  with assms have c: "c = of_nat k / 4" and m: "m \<le> u64_max" by simp_all
  show ?thesis
    unfolding r c decode_reservation_def encode_reservation_def worker_reservation.select_convs split_encoded
    by (simp only: Let_def) (simp add: parse_unsigned_nat_str [OF m] parse_fmt_quarters [OF assms(3)])
qed

lemma decode_encode_reservation:
  assumes "worker_cpu_cores s \<le> u32_max"
  shows "decode_reservation (encode_reservation (reservation_for a s)) = Inr (reservation_for a s)"
proof -
  obtain k where k: "cpu_units (reservation_for a s) = of_nat k / 4" "k \<le> max 4 (4 * worker_cpu_cores s)"
    using fixed_cpu by blast
  from assms k(2) have "k < 2 ^ 53" by (auto simp: u32_max_def)
  with memory_u64 k(1) show ?thesis by (rule decode_encode_quarters)
qed

text \<open>C21. What admission writes into a lease file is what the next scan reads from it: for every
  action and every settings whose core count is a \<open>u32\<close>, decoding the encoded reservation gives the
  reservation back, with its memory and its CPU share unchanged.\<close>

theorem lease_roundtrip:
  assumes "worker_cpu_cores s \<le> u32_max"
  shows "decode_reservation (encode_reservation (reservation_for a s)) = Inr (reservation_for a s)"
  using assms by (rule decode_encode_reservation)

theorem lease_roundtrip_witness:
  "decode_reservation (encode_reservation (reservation_for (ReviewMr None ''b'' None ''r'') default_node_capacity))
   = Inr (reservation_for (ReviewMr None ''b'' None ''r'') default_node_capacity)"
  by (rule lease_roundtrip) (simp add: default_node_capacity_def u32_max_def)

end
