(* ===== verification/Node_Registry_Props.thy ===== *)
theory Node_Registry_Props
  imports Node_Capacity_Props
begin

text \<open>
  The registry of leases as a state machine: any number of controllers acquire, release and crash in
  any order, each acquisition under the registry lock.  The invariant bounds what the held leases
  commit; stale files never count.
\<close>

subsection \<open>Held leases\<close>

definition live :: "lease_entry list \<Rightarrow> lease_entry list" where
  "live dir = filter (\<lambda>e. is_lease e \<and> le_held e) dir"

definition lease_memory :: "lease_entry \<Rightarrow> nat" where
  "lease_memory e = (case decode_reservation (le_text e) of Inr r \<Rightarrow> memory_bytes r | Inl _ \<Rightarrow> 0)"

definition held_memory :: "lease_entry list \<Rightarrow> nat" where
  "held_memory dir = sum_list (map lease_memory (live dir))"

text \<open>A file that another process holds locked exists, so opening it does not report it missing.\<close>

definition finds_held :: "lease_io \<Rightarrow> lease_entry list \<Rightarrow> bool" where
  "finds_held io dir = list_all (\<lambda>e. io_open io (le_name e) \<noteq> OpenMissing) (live dir)"

lemma live_simps [simp]:
  "live [] = []"
  "live (e # es) = (if is_lease e \<and> le_held e then e # live es else live es)"
  "live (xs @ ys) = live xs @ live ys"
  by (simp_all add: live_def)

lemma held_memory_simps [simp]:
  "held_memory [] = 0"
  "held_memory (e # es) = (if is_lease e \<and> le_held e then lease_memory e else 0) + held_memory es"
  "held_memory (xs @ ys) = held_memory xs + held_memory ys"
  by (simp_all add: held_memory_def)

lemma finds_held_Cons [simp]:
  "finds_held io (e # es) \<longleftrightarrow>
     (is_lease e \<and> le_held e \<longrightarrow> io_open io (le_name e) \<noteq> OpenMissing) \<and> finds_held io es"
  by (auto simp: finds_held_def)

text \<open>A sweep keeps every held lease, whether it succeeds or fails.\<close>

lemma live_sweep: "finds_held io dir \<Longrightarrow> live (fst (sweep io dir c n)) = live dir"
  by (induction io dir c n rule: sweep.induct)
     (auto split: open_outcome.splits option.splits sum.splits)

text \<open>A successful sweep adds up exactly the held leases.\<close>

lemma saturated_sum: "min (min (a + b) u + h) u = min (a + (b + h)) (u::nat)"
  by linarith

lemma memory_add_assign [simp]:
  "memory_bytes (add_assign c r) = min (memory_bytes c + memory_bytes r) u64_max"
  by (simp add: add_assign_def saturating_add_u64_def)

lemma memory_no_reservation [simp]: "memory_bytes no_reservation = 0"
  by (simp add: no_reservation_def)

lemma lease_memory_decoded: "decode_reservation (le_text e) = Inr r \<Longrightarrow> memory_bytes r = lease_memory e"
  by (simp add: lease_memory_def)

lemma sweep_counts:
  assumes "snd (sweep io dir c n) = Inr (c', n')" "finds_held io dir" "memory_bytes c \<le> u64_max"
  shows "n' = n + length (live dir) \<and> memory_bytes c' = min (memory_bytes c + held_memory dir) u64_max"
  using assms
proof (induction dir arbitrary: c n)
  case Nil
  then show ?case by simp
next
  case (Cons e es)
  show ?case
  proof (cases "is_lease e \<and> le_held e")
    case True
    with Cons.prems obtain r where r: "decode_reservation (le_text e) = Inr r"
      and rest: "snd (sweep io es (add_assign c r) (n + 1)) = Inr (c', n')"
      by (auto split: open_outcome.splits option.splits sum.splits)
    from Cons.IH [OF rest] Cons.prems(2) show ?thesis
      by (simp add: True saturated_sum lease_memory_decoded [OF r])
  next
    case False
    with Cons.prems(1) have "snd (sweep io es c n) = Inr (c', n')"
      by (auto split: open_outcome.splits option.splits sum.splits if_splits)
    from Cons.IH [OF this] Cons.prems(2,3) False show ?thesis by auto
  qed
qed

lemma held_memory_cong: "live a = live b \<Longrightarrow> held_memory a = held_memory b"
  by (simp add: held_memory_def)

lemma live_unlock: "\<exists>P. live (unlock name dir) = filter P (live dir)"
proof -
  have "live (unlock name dir) = filter (\<lambda>e. le_name e \<noteq> name) (live dir)"
    by (induction dir) (auto simp: unlock_def is_lease_def)
  then show ?thesis by blast
qed

lemma live_drop_lease: "\<exists>P. live (drop_lease io name dir) = filter P (live dir)"
proof (cases "io_registry io = None \<and> io_removed io name")
  case True
  then have "live (drop_lease io name dir) = filter (\<lambda>e. le_name e \<noteq> name) (live dir)"
    by (simp add: drop_lease_def live_def conj_commute)
  then show ?thesis by blast
next
  case False
  then have "drop_lease io name dir = unlock name dir" by (auto simp: drop_lease_def)
  then show ?thesis using live_unlock by simp
qed

lemma sum_list_filter_le: "sum_list (map f (filter P xs)) \<le> sum_list (map (f :: _ \<Rightarrow> nat) xs)"
  by (induction xs) auto

lemma lease_name_is_lease: "io_uuid io \<noteq> [] \<Longrightarrow> le_name e = lease_path io \<Longrightarrow> is_lease e"
  by (cases "rev (io_uuid io)") (auto simp: is_lease_def path_extension_def lease_path_def)

subsection \<open>Every interleaving\<close>

text \<open>One step of the host: a controller acquires (with any action, any readings of the node and any
  outcome of the file operations), releases a lease or dies holding it.\<close>

inductive lease_step :: "nat \<Rightarrow> node_capacity_settings \<Rightarrow> lease_entry list \<Rightarrow> lease_entry list \<Rightarrow> bool"
  for t s where
    acquires: "finds_held io dir \<Longrightarrow> io_uuid io \<noteq> [] \<Longrightarrow> memory_total_bytes p = t
       \<Longrightarrow> lease_step t s dir (fst (acquire_in_dir io dir a p n s))"
  | releases: "lease_step t s dir (drop_lease io name dir)"
  | crashes: "lease_step t s dir (unlock name dir)"

inductive lease_reachable :: "nat \<Rightarrow> node_capacity_settings \<Rightarrow> lease_entry list \<Rightarrow> bool" for t s where
    starts: "live dir = [] \<Longrightarrow> lease_reachable t s dir"
  | steps: "lease_reachable t s dir \<Longrightarrow> lease_step t s dir dir' \<Longrightarrow> lease_reachable t s dir'"

definition within_node :: "nat \<Rightarrow> node_capacity_settings \<Rightarrow> lease_entry list \<Rightarrow> bool" where
  "within_node t s dir = (live dir \<noteq> [] \<longrightarrow> held_memory dir + memory_reserve_bytes s t \<le> t)"

lemma within_node_subset:
  assumes "within_node t s dir" "live dir' = filter P (live dir)"
  shows "within_node t s dir'"
proof -
  have "held_memory dir' \<le> held_memory dir"
    using sum_list_filter_le [of lease_memory P "live dir"] by (simp add: held_memory_def assms(2))
  with assms show ?thesis by (auto simp: within_node_def)
qed

lemma lease_memory_new:
  assumes "validate s = Inr u" "le_text e = encode_reservation (reservation_for a s)"
  shows "lease_memory e = memory_bytes (reservation_for a s)"
proof -
  from validate_InrD(6) [OF assms(1)] have "worker_cpu_cores s \<le> u32_max" by (simp add: u32_max_def)
  with assms(2) show ?thesis by (simp add: lease_memory_def decode_encode_reservation)
qed

lemma create_lease_cases:
  "fst (create_lease io d r) = d
   \<or> (\<exists>e. fst (create_lease io d r) = d @ [e] \<and> \<not> le_held e)
   \<or> fst (create_lease io d r)
       = d @ [\<lparr>le_name = lease_path io, le_held = True, le_text = encode_reservation r\<rparr>]"
  by (auto simp: create_lease_def split: option.splits)

lemma acquire_within_node:
  assumes inv: "within_node t s dir" and v: "validate s = Inr u" and t: "t \<le> u64_max"
    and io: "finds_held io dir" "io_uuid io \<noteq> []" and p: "memory_total_bytes p = t"
  shows "within_node t s (fst (acquire_in_dir io dir a p n s))"
proof -
  obtain d res where sw: "sweep io dir no_reservation 0 = (d, res)" by fastforce
  have live: "live d = live dir" using live_sweep [OF io(1), of no_reservation 0] by (simp add: sw)
  then have kept: "within_node t s d" using inv by (simp add: within_node_def held_memory_cong [OF live])
  consider "fst (acquire_in_dir io dir a p n s) = dir" | "fst (acquire_in_dir io dir a p n s) = d"
    | c m r where "res = Inr (c, m)" "admission_for_settings a (max m n) c p s = Admit r"
        "fst (acquire_in_dir io dir a p n s) = fst (create_lease io d r)"
  proof (cases "io_registry io")
    case None
    show ?thesis
    proof (cases res)
      case (Inr cm)
      then obtain c m where cm: "res = Inr (c, m)" by (cases cm) auto
      with None that show ?thesis
        by (cases "admission_for_settings a (max m n) c p s") (auto simp: acquire_in_dir_def sw)
    qed (use None that in \<open>auto simp: acquire_in_dir_def sw\<close>)
  qed (use that in \<open>auto simp: acquire_in_dir_def\<close>)
  then show ?thesis
  proof cases
    case 3
    have "memory_bytes c = min (held_memory d) u64_max"
      using sweep_counts [of io dir no_reservation 0 c m] io(1) 3(1)
      by (simp add: sw held_memory_cong [OF live])
    moreover have "held_memory d \<le> u64_max"
      using kept t by (cases "live d = []") (auto simp: within_node_def held_memory_def)
    ultimately have c: "memory_bytes c = held_memory d" by simp
    have r: "r = reservation_for a s" using 3(2) by (simp add: admit_iff)
    have "held_memory d + memory_bytes (reservation_for a s) + memory_reserve_bytes s t \<le> t"
      using admit_leaves_reserve(1) [OF 3(2) v] p by (simp add: c r)
    then have "within_node t s
        (d @ [\<lparr>le_name = lease_path io, le_held = True, le_text = encode_reservation r\<rparr>])"
      using lease_memory_new [OF v] lease_name_is_lease [OF io(2)] by (auto simp: within_node_def r)
    with kept create_lease_cases [of io d r] show ?thesis
      unfolding 3(3) by (auto simp: within_node_def)
  qed (use inv kept in simp_all)
qed

text \<open>C20. The node is never over-committed: from a directory without live leases, after any
  interleaving of acquisitions, releases and crashes of any number of controllers, whatever the file
  operations answer and whatever is sampled as available, the memory reserved by the held leases and
  the configured free-memory floor together fit into the node's total.\<close>

theorem node_never_overcommitted:
  assumes "lease_reachable t s dir" "validate s = Inr u" "t \<le> u64_max" "live dir \<noteq> []"
  shows "held_memory dir + memory_reserve_bytes s t \<le> t"
proof -
  from assms(1) have "within_node t s dir"
  proof induction
    case (starts dir)
    then show ?case by (simp add: within_node_def)
  next
    case (steps dir dir')
    from steps.hyps(2) show ?case
    proof cases
      case (acquires io p a n)
      then show ?thesis using acquire_within_node [OF steps.IH assms(2,3)] by simp
    next
      case (releases io name)
      then show ?thesis using within_node_subset [OF steps.IH] live_drop_lease by metis
    next
      case (crashes name)
      then show ?thesis using within_node_subset [OF steps.IH] live_unlock by metis
    qed
  qed
  with assms(4) show ?thesis by (simp add: within_node_def)
qed

definition sample_io :: lease_io where
  "sample_io =
     \<lparr>io_registry = None, io_open = (\<lambda>_. Opened), io_lock = (\<lambda>_. None), io_read = (\<lambda>_. None),
      io_removed = (\<lambda>_. True), io_uuid = ''a'', io_create = None, io_commit = None\<rparr>"

definition stale_dir :: "lease_entry list" where
  "stale_dir =
     [\<lparr>le_name = ''registry.lock'', le_held = True, le_text = ''''\<rparr>,
      \<lparr>le_name = ''old.lease'', le_held = False, le_text = ''torn''\<rparr>]"

lemma stale_dir_live: "live stale_dir = []"
  by (simp add: stale_dir_def is_lease_def path_extension_def)

definition sample_retry :: next_action where "sample_retry = Retry ''1'' ''t'' ''r''"

lemma sample_retry_memory:
  "memory_bytes (reservation_for sample_retry default_node_capacity) = 4294967296"
  by (simp add: sample_retry_def wrapping_mul_u64_def default_node_capacity_def)

lemma default_reserve: "memory_reserve_bytes default_node_capacity (16 * GIB) = 2863311530"
  by (simp add: memory_reserve_bytes_def default_node_capacity_def default_floor GIB_def)

lemma sample_node_sizes:
  "memory_total_bytes sample_node = 16 * GIB" "memory_available_bytes sample_node = 16106127360"
  "memory_full_psi_avg10 sample_node = None" "critical_memory sample_node = 536870912"
  by (simp_all add: sample_node_def critical_memory_def MIN_CRITICAL_MEMORY_def GIB_def)

lemma sample_retry_admitted:
  "admission_for_settings sample_retry 0 no_reservation sample_node default_node_capacity
     = Admit (reservation_for sample_retry default_node_capacity)"
  by (simp add: admit_iff sample_node_sizes default_reserve projected_available_def sample_retry_memory)
     (simp add: GIB_def)

subsection \<open>Stale leases\<close>

definition io_works :: "lease_io \<Rightarrow> lease_entry list \<Rightarrow> bool" where
  "io_works io dir =
     (io_registry io = None \<and> io_create io = None \<and> io_commit io = None
      \<and> lease_path io \<notin> le_name ` set dir
      \<and> list_all (\<lambda>e. io_open io (le_name e) = Opened \<and> io_lock io (le_name e) = None) dir)"

lemma sweep_stale:
  assumes "live dir = []" "list_all (\<lambda>e. io_open io (le_name e) = Opened \<and> io_lock io (le_name e) = None) dir"
  shows "snd (sweep io dir c n) = Inr (c, n) \<and> set (fst (sweep io dir c n)) \<subseteq> set dir"
  using assms by (induction dir) (auto split: if_splits)

lemma acquire_stale:
  assumes "live dir = []" "io_works io dir"
    and "admission_for_settings a n no_reservation p s = Admit r"
  shows "\<exists>d. acquire_in_dir io dir a p n s
           = (d @ [\<lparr>le_name = lease_path io, le_held = True, le_text = encode_reservation r\<rparr>],
              Inr (LiveAdmit (lease_path io)))
         \<and> set d \<subseteq> set dir"
proof -
  obtain d res where sw: "sweep io dir no_reservation 0 = (d, res)" by fastforce
  from sweep_stale [OF assms(1), of io no_reservation 0] assms(2)
  have res: "res = Inr (no_reservation, 0)" and d: "set d \<subseteq> set dir" by (auto simp: io_works_def sw)
  with assms(2) have "lease_path io \<notin> le_name ` set d" by (auto simp: io_works_def)
  with d assms(2,3) show ?thesis
    by (auto simp: acquire_in_dir_def sw res io_works_def create_lease_def)
qed

text \<open>Crashed controllers cannot strand capacity: when no lease of the directory is held any
  more, whatever files are left in it and whatever is written in them, a worker whose reservation and
  floor fit into the available memory is admitted, whatever the CPU load, and its lease is the only
  live one.\<close>

theorem stale_leases_strand_nothing:
  assumes "live dir = []" "io_works io dir" "io_uuid io \<noteq> []" "validate s = Inr u"
    and "critical_memory p < memory_available_bytes p" "memory_available_bytes p \<le> memory_total_bytes p"
    and "memory_bytes (reservation_for a s) + memory_reserve_bytes s (memory_total_bytes p)
           \<le> memory_available_bytes p"
    and "unwrap_or (memory_full_psi_avg10 p) 0 < 1"
  shows "snd (acquire_in_dir io dir a p 0 s) = Inr (LiveAdmit (lease_path io))
         \<and> map le_name (live (fst (acquire_in_dir io dir a p 0 s))) = [lease_path io]
         \<and> held_memory (fst (acquire_in_dir io dir a p 0 s)) = memory_bytes (reservation_for a s)"
proof -
  let ?e = "\<lparr>le_name = lease_path io, le_held = True,
             le_text = encode_reservation (reservation_for a s)\<rparr>"
  have "admission_for_settings a 0 no_reservation p s = Admit (reservation_for a s)"
    using assms(5-8) by (simp add: admit_iff projected_available_def)
  from acquire_stale [OF assms(1,2) this] obtain d
    where d: "acquire_in_dir io dir a p 0 s = (d @ [?e], Inr (LiveAdmit (lease_path io)))"
      "set d \<subseteq> set dir" by blast
  have "live d = []" using assms(1) d(2) by (auto simp: live_def filter_empty_conv)
  moreover have "is_lease ?e" by (rule lease_name_is_lease [OF assms(3)]) simp
  ultimately show ?thesis
    using lease_memory_new [OF assms(4), of ?e a] by (simp add: d held_memory_def)
qed

lemma sample_io_works: "io_works sample_io stale_dir"
  by (simp add: io_works_def sample_io_def stale_dir_def lease_path_def)

theorem stale_leases_strand_nothing_witness:
  "snd (acquire_in_dir sample_io stale_dir sample_retry sample_node 0 default_node_capacity)
     = Inr (LiveAdmit ''a.lease'')"
proof -
  have "lease_path sample_io = ''a.lease''" by (simp add: lease_path_def sample_io_def)
  moreover have "io_uuid sample_io \<noteq> []" by (simp add: sample_io_def)
  moreover note stale_leases_strand_nothing
    [OF stale_dir_live sample_io_works _ default_settings_valid, of sample_node sample_retry]
  ultimately show ?thesis
    by (simp add: sample_node_sizes default_reserve sample_retry_memory) (simp add: GIB_def)
qed

text \<open>A state of the registry with one live lease, reached from a directory of stale files.\<close>

definition one_lease :: "lease_entry list" where
  "one_lease = fst (acquire_in_dir sample_io stale_dir sample_retry sample_node 0 default_node_capacity)"

lemma one_lease_state:
  "lease_reachable (16 * GIB) default_node_capacity one_lease"
  "live one_lease \<noteq> []" "held_memory one_lease = 4294967296"
proof -
  have "finds_held sample_io stale_dir" by (simp add: finds_held_def stale_dir_live)
  then have "lease_step (16 * GIB) default_node_capacity stale_dir one_lease"
    unfolding one_lease_def
    by (rule acquires) (simp_all add: sample_io_def sample_node_def)
  with starts [OF stale_dir_live] show "lease_reachable (16 * GIB) default_node_capacity one_lease"
    by (rule steps)
  obtain d where d: "one_lease = d @ [\<lparr>le_name = lease_path sample_io, le_held = True,
      le_text = encode_reservation (reservation_for sample_retry default_node_capacity)\<rparr>]"
      "set d \<subseteq> set stale_dir"
    using acquire_stale [OF stale_dir_live sample_io_works sample_retry_admitted]
    by (auto simp: one_lease_def)
  have dead: "live d = []" using stale_dir_live d(2) by (auto simp: live_def filter_empty_conv)
  have "is_lease \<lparr>le_name = lease_path sample_io, le_held = True,
      le_text = encode_reservation (reservation_for sample_retry default_node_capacity)\<rparr>"
    by (rule lease_name_is_lease) (simp_all add: sample_io_def)
  then show "live one_lease \<noteq> []" "held_memory one_lease = 4294967296"
    using dead lease_memory_new [OF default_settings_valid, of _ sample_retry]
    by (simp_all add: d(1) held_memory_def sample_retry_memory)
qed

theorem node_never_overcommitted_witness:
  "held_memory one_lease + memory_reserve_bytes default_node_capacity (16 * GIB) \<le> 16 * GIB"
  by (rule node_never_overcommitted [OF one_lease_state(1) default_settings_valid _ one_lease_state(2)])
     (simp add: GIB_def u64_max_def)

end
