(* ===== verification/Recovery.thy ===== *)
theory Recovery
  imports Decision Ledger Work_Claim Text_Scan
begin

text \<open>
  What the controller reads from its event stream before it acts (\<^verbatim>\<open>events.rs\<close>,
  \<^verbatim>\<open>controller/recovery.rs\<close>): work suppressed after a capacity deferral, stuck loops, abandoned runs,
  reports that were made already, and re-decisions around branches that are attached elsewhere.

  The stream is the list of its parsed events, oldest first; it only grows.  The rendered clock and the
  secret redactor, which every event passes on its way to the file, are arguments.
\<close>

subsection \<open>Events\<close>

datatype event_type =
    ObservationCompleted | ContextBuilt | ActionDecided | ActionOverridden | DispatchStarted
  | DispatchFinished | BackendMarkedUnavailable | WaitSelected | HumanRequiredEvent
  | ReviewBudgetExhausted | DuplicateGuardTriggered | PmPlanned | PmPublished | PmDuplicate | PmBlocked
  | PmFailed | PmReconciled | PromptPolicyChanged | LoopStopped | WorkDeferred | TerminalFailure
  | TerminalFailureResolved | NotificationDeliveryFailed

fun event_str :: "event_type \<Rightarrow> rust_str" where
  "event_str ObservationCompleted = ''observation_completed''"
| "event_str ContextBuilt = ''context_built''"
| "event_str ActionDecided = ''action_decided''"
| "event_str ActionOverridden = ''action_overridden''"
| "event_str DispatchStarted = ''dispatch_started''"
| "event_str DispatchFinished = ''dispatch_finished''"
| "event_str BackendMarkedUnavailable = ''backend_marked_unavailable''"
| "event_str WaitSelected = ''wait_selected''"
| "event_str HumanRequiredEvent = ''human_required''"
| "event_str ReviewBudgetExhausted = ''review_budget_exhausted''"
| "event_str DuplicateGuardTriggered = ''duplicate_guard_triggered''"
| "event_str PmPlanned = ''pm_planned''"
| "event_str PmPublished = ''pm_published''"
| "event_str PmDuplicate = ''pm_duplicate''"
| "event_str PmBlocked = ''pm_blocked''"
| "event_str PmFailed = ''pm_failed''"
| "event_str PmReconciled = ''pm_reconciled''"
| "event_str PromptPolicyChanged = ''prompt_policy_changed''"
| "event_str LoopStopped = ''loop_stopped''"
| "event_str WorkDeferred = ''work_deferred''"
| "event_str TerminalFailure = ''terminal_failure''"
| "event_str TerminalFailureResolved = ''terminal_failure_resolved''"
| "event_str NotificationDeliveryFailed = ''notification_delivery_failed''"

record controller_event =
  ev_timestamp :: rust_str
  ev_type :: rust_str
  ev_profile :: "rust_str option"
  ev_work_id :: "rust_str option"
  ev_run_id :: "rust_str option"
  ev_details :: rust_str
  ev_reason_code :: "rust_str option"
  ev_contract :: "nat option"
  ev_plan :: "remediation_plan option"

record event_env =
  ee_now :: rust_str
  ee_redact :: "rust_str \<Rightarrow> rust_str"

text \<open>\<open>append\<close>: every string of the event is redacted (the texts inside a plan are left as they are).\<close>

definition redact_event :: "(rust_str \<Rightarrow> rust_str) \<Rightarrow> controller_event \<Rightarrow> controller_event" where
  "redact_event r e =
     e\<lparr> ev_timestamp := r (ev_timestamp e), ev_type := r (ev_type e),
        ev_profile := map_option r (ev_profile e), ev_work_id := map_option r (ev_work_id e),
        ev_run_id := map_option r (ev_run_id e), ev_details := r (ev_details e),
        ev_reason_code := map_option r (ev_reason_code e) \<rparr>"

definition append_event ::
  "event_env \<Rightarrow> controller_event \<Rightarrow> controller_event list \<Rightarrow> controller_event list" where
  "append_event env e events = events @ [redact_event (ee_redact env) e]"

definition record_with_run_id_and_reason_code ::
  "event_env \<Rightarrow> event_type \<Rightarrow> rust_str option \<Rightarrow> rust_str option \<Rightarrow> rust_str option \<Rightarrow> rust_str
     \<Rightarrow> rust_str option \<Rightarrow> controller_event list \<Rightarrow> controller_event list" where
  "record_with_run_id_and_reason_code env t prof work_id run_id details reason_code =
     append_event env
       \<lparr> ev_timestamp = ee_now env, ev_type = event_str t, ev_profile = prof, ev_work_id = work_id,
         ev_run_id = run_id, ev_details = details, ev_reason_code = reason_code,
         ev_contract = Some CURRENT_REVIEW_CONTRACT_VERSION, ev_plan = None \<rparr>"

definition record_event ::
  "event_env \<Rightarrow> event_type \<Rightarrow> rust_str option \<Rightarrow> rust_str option \<Rightarrow> rust_str
     \<Rightarrow> controller_event list \<Rightarrow> controller_event list" where
  "record_event env t prof work_id details =
     record_with_run_id_and_reason_code env t prof work_id None details None"

definition record_with_run_id ::
  "event_env \<Rightarrow> event_type \<Rightarrow> rust_str option \<Rightarrow> rust_str option \<Rightarrow> rust_str option \<Rightarrow> rust_str
     \<Rightarrow> controller_event list \<Rightarrow> controller_event list" where
  "record_with_run_id env t prof work_id run_id details =
     record_with_run_id_and_reason_code env t prof work_id run_id details None"

definition record_with_reason_code_and_plan ::
  "event_env \<Rightarrow> event_type \<Rightarrow> rust_str option \<Rightarrow> rust_str option \<Rightarrow> rust_str \<Rightarrow> rust_str option
     \<Rightarrow> remediation_plan option \<Rightarrow> controller_event list \<Rightarrow> controller_event list" where
  "record_with_reason_code_and_plan env t prof work_id details reason_code plan =
     append_event env
       \<lparr> ev_timestamp = ee_now env, ev_type = event_str t, ev_profile = prof, ev_work_id = work_id,
         ev_run_id = None, ev_details = details, ev_reason_code = reason_code,
         ev_contract = Some CURRENT_REVIEW_CONTRACT_VERSION, ev_plan = plan \<rparr>"

subsection \<open>Runs that never finished\<close>

definition run_of :: "rust_str \<Rightarrow> rust_str set \<Rightarrow> controller_event \<Rightarrow> rust_str option" where
  "run_of prof types e = (if ev_profile e = Some prof \<and> ev_type e \<in> types then ev_run_id e else None)"

definition started_types :: "rust_str set" where
  "started_types = {''dispatch_started''}"

definition finished_types :: "rust_str set" where
  "finished_types = {''dispatch_finished'', ''duplicate_guard_triggered'', ''review_budget_exhausted''}"

definition orphaned_dispatch_runs ::
  "controller_event list \<Rightarrow> rust_str \<Rightarrow> (rust_str \<times> rust_str option) list" where
  "orphaned_dispatch_runs events prof =
     filter (\<lambda>(run_id, _). run_id \<notin> set (List.map_filter (run_of prof finished_types) events))
       (List.map_filter (\<lambda>e. map_option (\<lambda>r. (r, ev_work_id e)) (run_of prof started_types e)) events)"

text \<open>\<open>live\<close> are the identities that living manual workers hold, or the error of reading them.\<close>

definition abandoned_entry ::
  "rust_str \<Rightarrow> rust_str \<Rightarrow> rust_str \<Rightarrow> rust_str \<times> rust_str option \<Rightarrow> ledger_entry" where
  "abandoned_entry now profile_name repo_id orphan =
     (new_ledger_entry now profile_name repo_id ''unknown'' ''abandoned'' (Some (fst orphan)))
       \<lparr> le_work_id := snd orphan, le_dispatch_reason := Some ''abandoned_reconciliation'',
         le_validation_result := Some ''not_run_abandoned'',
         le_error_summary := Some ''dispatch abandoned before terminal telemetry was persisted'',
         le_failure_class := Some ''harness_error'' \<rparr>"

definition close_orphan ::
  "event_env \<Rightarrow> rust_str \<Rightarrow> rust_str \<Rightarrow> rust_str set \<Rightarrow> rust_str \<times> rust_str option
     \<Rightarrow> ledger_entry list \<times> controller_event list \<Rightarrow> ledger_entry list \<times> controller_event list" where
  "close_orphan env profile_name repo_id sessions orphan st =
     ((if fst orphan \<in> sessions then fst st
       else fst st @ [abandoned_entry (ee_now env) profile_name repo_id orphan]),
      record_with_run_id env DispatchFinished (Some profile_name) (snd orphan) (Some (fst orphan))
        ''abandoned (reconciled before next dispatch)'' (snd st))"

definition reconcile_abandoned_dispatches ::
  "event_env \<Rightarrow> rust_str \<Rightarrow> rust_str \<Rightarrow> (claim_error, rust_str set) rust_result
     \<Rightarrow> ledger_entry list \<Rightarrow> controller_event list
     \<Rightarrow> (ledger_entry list \<times> controller_event list) \<times> nat" where
  "reconcile_abandoned_dispatches env profile_name repo_id live entries events =
     (case live of
        Inl _ \<Rightarrow> ((entries, events), 0)
      | Inr ids \<Rightarrow>
          let orphans = filter (\<lambda>(_, work_id). \<not> is_some_and work_id (\<lambda>w. normalize_work_identity w \<in> ids))
                          (orphaned_dispatch_runs events profile_name);
              sessions = set (List.map_filter le_session_id entries)
          in (fold (close_orphan env profile_name repo_id sessions) orphans (entries, events),
              length orphans))"

subsection \<open>Capacity deferrals\<close>

definition CAPACITY_DEFERRAL_BACKOFF :: int where
  "CAPACITY_DEFERRAL_BACKOFF = 5 * 60 * 1000000000"

definition reset_text :: "rust_str \<Rightarrow> rust_str option" where
  "reset_text details =
     Option.bind (find_str ''earliest reset: '' details)
       (\<lambda>i. map_option
          (\<lambda>t. rev (dropWhile (\<lambda>c. c = CHR '';'' \<or> c = CHR '','' \<or> c = CHR '')'') (rev t)))
          (first (split_whitespace (drop (i + length ''earliest reset: '') details))))"

definition capacity_deferral_retry_at ::
  "(rust_str \<Rightarrow> int option) \<Rightarrow> rust_str \<Rightarrow> int \<Rightarrow> int" where
  "capacity_deferral_retry_at parse_ts details deferred_at =
     unwrap_or (opt_filter (\<lambda>reset. deferred_at < reset) (Option.bind (reset_text details) parse_ts))
       (deferred_at + CAPACITY_DEFERRAL_BACKOFF)"

definition reset_modes :: "rust_str list" where
  "reset_modes =
     [''clear_attempts'', ''paid_route_approval_grant'', ''external_approval_request'',
      ''external_approval_grant'', ''external_approval_consume'', ''external_approval_revoke'',
      ''external_approval_expire'', ''external_approval_deny'']"

definition reset_step ::
  "(rust_str \<Rightarrow> int option) \<Rightarrow> rust_str \<Rightarrow> rust_str \<Rightarrow> ledger_entry \<Rightarrow> (rust_str \<rightharpoonup> int) \<Rightarrow> (rust_str \<rightharpoonup> int)" where
  "reset_step parse_ts profile_name repo_id e m =
     (if le_profile e \<noteq> profile_name \<or> le_repo_id e \<noteq> repo_id \<or> le_mode e \<notin> set reset_modes then m
      else case (le_work_id e, parse_ts (le_timestamp e)) of
             (Some w, Some t) \<Rightarrow>
               (let i = normalize_work_identity w
                in m(i \<mapsto> (case m i of Some current \<Rightarrow> max current t | None \<Rightarrow> t)))
           | _ \<Rightarrow> m)"

definition reset_at ::
  "(rust_str \<Rightarrow> int option) \<Rightarrow> rust_str \<Rightarrow> rust_str \<Rightarrow> ledger_entry list \<Rightarrow> (rust_str \<rightharpoonup> int)" where
  "reset_at parse_ts profile_name repo_id entries =
     fold (reset_step parse_ts profile_name repo_id) entries Map.empty"

definition recorded_route_state :: "rust_str \<Rightarrow> rust_str option" where
  "recorded_route_state details =
     first (List.map_filter (strip_prefix ''route_state='') (rev (split_whitespace details)))"

text \<open>The verdict on the newest terminal event of an item.\<close>

definition defers ::
  "(rust_str \<Rightarrow> int option) \<Rightarrow> int \<Rightarrow> rust_str option \<Rightarrow> (rust_str \<rightharpoonup> int) \<Rightarrow> rust_str \<Rightarrow> controller_event \<Rightarrow> bool" where
  "defers parse_ts now current_route_state resets work_id e =
     (ev_reason_code e \<noteq> Some ''node_capacity_deferred''
      \<and> contains_str '': deferred_capacity:'' (ev_details e)
      \<and> \<not> (case (recorded_route_state (ev_details e), current_route_state) of
              (Some recorded, Some current) \<Rightarrow> recorded \<noteq> current | _ \<Rightarrow> False)
      \<and> is_some_and (parse_ts (ev_timestamp e))
           (\<lambda>t. \<not> is_some_and (resets work_id) (\<lambda>reset. t < reset)
                \<and> now < capacity_deferral_retry_at parse_ts (ev_details e) t))"

fun scan_deferrals ::
  "(rust_str \<Rightarrow> controller_event \<Rightarrow> bool) \<Rightarrow> rust_str \<Rightarrow> controller_event list \<Rightarrow> rust_str set \<Rightarrow> rust_str set
     \<Rightarrow> rust_str set" where
  "scan_deferrals holds profile_name [] seen deferred = deferred"
| "scan_deferrals holds profile_name (e # es) seen deferred =
     (if ev_profile e \<noteq> Some profile_name \<or> ev_type e \<noteq> ''dispatch_finished''
      then scan_deferrals holds profile_name es seen deferred
      else case ev_work_id e of
             None \<Rightarrow> scan_deferrals holds profile_name es seen deferred
           | Some w \<Rightarrow>
               (let i = normalize_work_identity w
                in if i \<in> seen then scan_deferrals holds profile_name es seen deferred
                   else scan_deferrals holds profile_name es (insert i seen)
                          (if holds i e then insert i deferred else deferred)))"

definition recently_capacity_deferred_work_ids ::
  "(rust_str \<Rightarrow> int option) \<Rightarrow> controller_event list \<Rightarrow> ledger_entry list \<Rightarrow> rust_str \<Rightarrow> rust_str \<Rightarrow> int
     \<Rightarrow> rust_str option \<Rightarrow> rust_str set" where
  "recently_capacity_deferred_work_ids parse_ts events entries profile_name repo_id now current_route_state =
     scan_deferrals
       (defers parse_ts now current_route_state (reset_at parse_ts profile_name repo_id entries))
       profile_name (rev events) {} {}"

subsection \<open>Stuck loops\<close>

definition STUCK_LOOP_THRESHOLD :: nat where "STUCK_LOOP_THRESHOLD = 3"

definition timestamp_at_or_before :: "(rust_str \<Rightarrow> int option) \<Rightarrow> rust_str \<Rightarrow> rust_str \<Rightarrow> bool" where
  "timestamp_at_or_before parse_ts timestamp boundary =
     (case (parse_ts timestamp, parse_ts boundary) of
        (Some t, Some b) \<Rightarrow> t \<le> b
      | _ \<Rightarrow> timestamp \<le> boundary)"

text \<open>The events of the item in the profile, newest first, back to the operator's reset or to an event
  of an older review contract.\<close>

definition concerns_item :: "rust_str \<Rightarrow> rust_str \<Rightarrow> controller_event \<Rightarrow> bool" where
  "concerns_item profile_name work_id e = (ev_profile e = Some profile_name \<and> ev_work_id e = Some work_id)"

definition history_ends ::
  "(rust_str \<Rightarrow> int option) \<Rightarrow> rust_str option \<Rightarrow> controller_event \<Rightarrow> bool" where
  "history_ends parse_ts reset_after e =
     (is_some_and reset_after (timestamp_at_or_before parse_ts (ev_timestamp e))
      \<or> unwrap_or (ev_contract e) 0 < CURRENT_REVIEW_CONTRACT_VERSION)"

definition other_generation :: "rust_str option \<Rightarrow> controller_event \<Rightarrow> bool" where
  "other_generation generation e =
     is_some_and generation
       (\<lambda>g. ''review_generation='' @ g \<notin> set (split_whitespace (ev_details e)))"

fun count_decisions ::
  "(controller_event \<Rightarrow> bool) \<Rightarrow> (controller_event \<Rightarrow> bool) \<Rightarrow> rust_str option \<Rightarrow> rust_str
     \<Rightarrow> controller_event list \<Rightarrow> nat \<Rightarrow> bool" where
  "count_decisions concerning ends generation prefix [] consecutive = False"
| "count_decisions concerning ends generation prefix (e # es) consecutive =
     (if \<not> concerning e then count_decisions concerning ends generation prefix es consecutive
      else if ends e then False
      else if ev_type e = ''dispatch_finished'' \<and> contains_str '': deferred_capacity:'' (ev_details e)
      then False
      else if ev_type e = ''work_deferred'' then False
      else if ev_type e \<noteq> ''action_decided''
      then count_decisions concerning ends generation prefix es consecutive
      else if other_generation generation e
      then count_decisions concerning ends generation prefix es consecutive
      else if \<not> starts_with prefix (ev_details e) then False
      else if STUCK_LOOP_THRESHOLD \<le> consecutive + 1 then True
      else count_decisions concerning ends generation prefix es (consecutive + 1))"

definition approval_refusal :: "controller_event \<Rightarrow> bool" where
  "approval_refusal e =
     (ev_reason_code e = Some (reason_str PolicyApproval)
      \<or> contains_str ''operator approval required'' (ev_details e)
      \<or> contains_str ''paid route approval required'' (ev_details e))"

fun count_approvals ::
  "(controller_event \<Rightarrow> bool) \<Rightarrow> (controller_event \<Rightarrow> bool) \<Rightarrow> controller_event list \<Rightarrow> nat \<Rightarrow> bool" where
  "count_approvals concerning ends [] consecutive = False"
| "count_approvals concerning ends (e # es) consecutive =
     (if \<not> concerning e then count_approvals concerning ends es consecutive
      else if ends e then False
      else if ev_type e \<noteq> ''dispatch_finished'' then count_approvals concerning ends es consecutive
      else if \<not> approval_refusal e then False
      else if STUCK_LOOP_THRESHOLD \<le> consecutive + 1 then True
      else count_approvals concerning ends es (consecutive + 1))"

definition launches_work :: "next_action \<Rightarrow> bool" where
  "launches_work a =
     (case a of Retry _ _ _ \<Rightarrow> True | Escalate _ _ _ \<Rightarrow> True | DispatchTicket _ _ _ _ _ \<Rightarrow> True | _ \<Rightarrow> False)"

definition detect_stuck_loop ::
  "(rust_str \<Rightarrow> int option) \<Rightarrow> controller_event list \<Rightarrow> rust_str \<Rightarrow> next_action \<Rightarrow> rust_str option
     \<Rightarrow> rust_str option \<Rightarrow> rust_str option" where
  "detect_stuck_loop parse_ts events profile_name action reset_after generation =
     (case work_id_of action of
        None \<Rightarrow> None
      | Some work_id \<Rightarrow>
          if count_decisions (concerns_item profile_name work_id) (history_ends parse_ts reset_after)
               generation (kind action @ '':'') (rev events) 0
          then Some (''stuck-loop detected: '' @ [squote] @ kind action @ [squote] @ '' selected ''
                 @ nat_str STUCK_LOOP_THRESHOLD @ '' times in a row for '' @ work_id
                 @ '' with no intervening state change'')
          else if launches_work action
               \<and> count_approvals (concerns_item profile_name work_id) (history_ends parse_ts reset_after)
                   (rev events) 0
          then Some (''stuck-loop detected: route approval required '' @ nat_str STUCK_LOOP_THRESHOLD
                 @ '' times in a row for '' @ work_id @ '' with no intervening state change'')
          else None)"

definition latest_clear_attempts_timestamp ::
  "ledger_entry list \<Rightarrow> rust_str \<Rightarrow> rust_str \<Rightarrow> rust_str \<Rightarrow> rust_str option" where
  "latest_clear_attempts_timestamp entries profile_name repo_id work_id =
     map_option le_timestamp (List.find (is_reset profile_name repo_id work_id) (rev entries))"

subsection \<open>Recording a decision\<close>

text \<open>\<open>profile_known\<close> tells whether the profile is configured.\<close>

definition remediation_plan_for_action ::
  "bool \<Rightarrow> rust_str \<Rightarrow> next_action \<Rightarrow> remediation_plan option" where
  "remediation_plan_for_action profile_known profile_name action =
     (case human_required_reason_code action of
        None \<Rightarrow> None
      | Some code \<Rightarrow>
          if \<not> profile_known then None
          else Some (plan_remediation
                 (remediation_context.make profile_name
                    (opt_or (human_required_work_id action) (work_id_of action))
                    (human_required_reference action) (from_code code) (Some ''human_required'')
                    None None)))"

definition generation_suffix :: "rust_str option \<Rightarrow> rust_str" where
  "generation_suffix generation =
     (case generation of Some g \<Rightarrow> '' review_generation='' @ g | None \<Rightarrow> [])"

definition record_action_events ::
  "event_env \<Rightarrow> bool \<Rightarrow> rust_str \<Rightarrow> next_action \<Rightarrow> next_action \<Rightarrow> rust_str option
     \<Rightarrow> controller_event list \<Rightarrow> controller_event list" where
  "record_action_events env profile_known profile_name original effective generation events =
     (let evs = record_with_reason_code_and_plan env ActionDecided (Some profile_name)
                  (work_id_of original)
                  (kind original @ '': '' @ reason original @ generation_suffix generation)
                  (human_required_reason_code original)
                  (remediation_plan_for_action profile_known profile_name original) events
      in if original \<noteq> effective then
           record_with_reason_code_and_plan env ActionOverridden (Some profile_name)
             (work_id_of original)
             (kind original @ '' -> '' @ kind effective @ '': '' @ reason effective
                @ generation_suffix generation)
             (human_required_reason_code effective)
             (remediation_plan_for_action profile_known profile_name effective) evs
         else evs)"

subsection \<open>Excluding work from a re-decision\<close>

definition retain_snapshot_candidates ::
  "rust_str set \<Rightarrow> rust_str set \<Rightarrow> status_snapshot \<Rightarrow> status_snapshot" where
  "retain_snapshot_candidates excluded_work_ids excluded_branches s =
     (let ids = normalize_work_identity ` excluded_work_ids
      in s\<lparr> merge_requests :=
              filter (\<lambda>mr. \<not> is_some_and (mr_work_id mr) (\<lambda>w. normalize_work_identity w \<in> ids)
                           \<and> mr_branch mr \<notin> excluded_branches) (merge_requests s),
            available_tickets :=
              filter (\<lambda>t. normalized_work_identity t \<notin> ids) (available_tickets s),
            issue_intake_rejections :=
              filter (\<lambda>i. \<not> is_some_and (ir_work_id i) (\<lambda>w. normalize_work_identity w \<in> ids))
                (issue_intake_rejections s) \<rparr>)"

record branch_attachment =
  ba_path :: rust_str
  ba_clean :: bool

text \<open>
  The world seen by successive rounds: round \<open>i\<close> looks up the attachment of a branch and, when it has
  to choose again, builds a fresh snapshot; both may fail.
\<close>

record attach_env =
  ae_attachment :: "nat \<Rightarrow> rust_str \<Rightarrow> (rust_str, branch_attachment option) rust_result"
  ae_snapshot :: "nat \<Rightarrow> (rust_str, status_snapshot) rust_result"
  ae_now_plus :: "nat \<Rightarrow> nat \<Rightarrow> rust_str"
  ae_events :: event_env
  ae_excluded :: "rust_str set"

definition record_deferral ::
  "event_env \<Rightarrow> rust_str \<Rightarrow> rust_str \<Rightarrow> rust_str option \<Rightarrow> branch_attachment
     \<Rightarrow> controller_event list \<Rightarrow> controller_event list" where
  "record_deferral env profile_name branch work_id attachment =
     record_event env WorkDeferred (Some profile_name) work_id
       (''branch '' @ [squote] @ branch @ [squote] @ '' already attached to worktree ''
          @ ba_path attachment @ '' (clean='' @ (if ba_clean attachment then ''true'' else ''false'')
          @ ''); deferring to next eligible item'')"

definition choose_next ::
  "attach_env \<Rightarrow> nat \<Rightarrow> rust_str set \<Rightarrow> rust_str set \<Rightarrow> (rust_str, next_action) rust_result" where
  "choose_next env i work_ids branches =
     (case ae_snapshot env i of
        Inl err \<Rightarrow> Inl err
      | Inr fresh \<Rightarrow>
          Inr (decide_next_action (ae_now_plus env i)
                 (retain_snapshot_candidates (ae_excluded env \<union> work_ids) branches fresh)))"

definition resolved :: "rust_str set \<Rightarrow> next_action \<Rightarrow> next_action option" where
  "resolved branches candidate = (if branches = {} then None else Some candidate)"

definition with_identity :: "rust_str option \<Rightarrow> rust_str set \<Rightarrow> rust_str set" where
  "with_identity work_id ids =
     (case work_id of Some w \<Rightarrow> insert (normalize_work_identity w) ids | None \<Rightarrow> ids)"

text \<open>\<open>resolve_attached_branch_conflicts\<close>; \<open>None\<close> outside means that the loop does not end.\<close>

partial_function (option) resolve_attached_branch_conflicts ::
  "attach_env \<Rightarrow> rust_str \<Rightarrow> nat \<Rightarrow> next_action \<Rightarrow> rust_str set \<Rightarrow> rust_str set \<Rightarrow> controller_event list
     \<Rightarrow> (controller_event list \<times> (rust_str, next_action option) rust_result) option" where
  "resolve_attached_branch_conflicts env profile_name i candidate work_ids branches events =
     (case candidate of
        FixMr work_id branch url g why \<Rightarrow>
          (case ae_attachment env i branch of
             Inl err \<Rightarrow> Some (events, Inl err)
           | Inr None \<Rightarrow> Some (events, Inr (resolved branches candidate))
           | Inr (Some attachment) \<Rightarrow>
               (let branches' = insert branch branches;
                    work_ids' = with_identity work_id work_ids;
                    events' = record_deferral (ae_events env) profile_name branch work_id attachment events
                in case choose_next env i work_ids' branches' of
                     Inl err \<Rightarrow> Some (events', Inl err)
                   | Inr next_one \<Rightarrow>
                       resolve_attached_branch_conflicts env profile_name (Suc i) next_one
                         work_ids' branches' events'))
      | _ \<Rightarrow> Some (events, Inr (resolved branches candidate)))"

definition defer_if_branch_attached ::
  "attach_env \<Rightarrow> rust_str \<Rightarrow> next_action \<Rightarrow> controller_event list
     \<Rightarrow> (controller_event list \<times> (rust_str, next_action option) rust_result) option" where
  "defer_if_branch_attached env profile_name action events =
     resolve_attached_branch_conflicts env profile_name 0 action {} {} events"

subsection \<open>Reports\<close>

definition blocker_label :: "blocker \<Rightarrow> rust_str" where
  "blocker_label b =
     unwrap_or (b_source_reference b) ''unknown'' @ '' [''
       @ unwrap_or (opt_or (b_reason_code b) (b_reason b)) (b_kind b) @ '']''"

definition no_admission_diagnostics ::
  "status_snapshot \<Rightarrow> nat \<Rightarrow> nat \<Rightarrow> rust_str option \<Rightarrow> rust_str" where
  "no_admission_diagnostics s active_workers worker_limit node_deferral =
     ''No work admitted -- ''
     @ join ''; ''
         [(if blocked_work_items s = [] then ''blocked items: none''
           else ''blocked items ('' @ nat_str (length (blocked_work_items s)) @ ''): ''
                @ join '', '' (map blocker_label (blocked_work_items s))),
          ''node capacity: '' @ nat_str active_workers @ [CHR ''/''] @ nat_str worker_limit
            @ (case node_deferral of
                 Some why \<Rightarrow> '' workers active, admission deferred ('' @ why @ '')''
               | None \<Rightarrow> '' workers active, no node deferral''),
          (if merge_requests s = [] \<and> available_tickets s = []
           then ''queue: empty (no open MRs or eligible tickets)''
           else ''queue: '' @ nat_str (length (merge_requests s)) @ '' open MR(s), ''
                @ nat_str (length (available_tickets s)) @ '' ticket(s) considered'')]"

definition human_required_report_identity :: "next_action \<Rightarrow> rust_str option" where
  "human_required_report_identity action =
     (case action of HumanRequired w _ f _ \<Rightarrow> opt_or w f | _ \<Rightarrow> work_id_of action)"

definition is_report :: "rust_str \<Rightarrow> rust_str option \<Rightarrow> controller_event \<Rightarrow> bool" where
  "is_report profile_name identity e =
     (ev_type e = ''human_required'' \<and> ev_profile e = Some profile_name \<and> ev_work_id e = identity)"

definition matching_human_required_report ::
  "controller_event list \<Rightarrow> rust_str \<Rightarrow> rust_str option \<Rightarrow> rust_str option \<Rightarrow> bool" where
  "matching_human_required_report history profile_name identity reason_code =
     is_some_and (List.find (is_report profile_name identity) (rev history))
       (\<lambda>e. ev_reason_code e = reason_code)"

definition human_required_already_reported ::
  "controller_event list \<Rightarrow> rust_str \<Rightarrow> next_action \<Rightarrow> bool" where
  "human_required_already_reported history profile_name action =
     (case action of
        HumanRequired _ _ _ _ \<Rightarrow>
          matching_human_required_report history profile_name (human_required_report_identity action)
            (human_required_reason_code action)
      | _ \<Rightarrow> False)"

definition blocked_mr :: "status_snapshot \<Rightarrow> rust_str \<Rightarrow> sync_mr option" where
  "blocked_mr s reference =
     List.find (\<lambda>mr. mr_branch mr = reference \<or> mr_work_id mr = Some reference) (merge_requests s)"

definition blocked_identity :: "status_snapshot \<Rightarrow> rust_str \<Rightarrow> rust_str" where
  "blocked_identity s reference =
     (case blocked_mr s reference of
        None \<Rightarrow> reference
      | Some mr \<Rightarrow> unwrap_or (opt_or (mr_work_id mr) (mr_url mr)) (mr_branch mr))"

text \<open>The notifications sent, by identity and code, and the stream.  The history is read once; the profile
  is configured.\<close>

definition report_blocked ::
  "event_env \<Rightarrow> rust_str \<Rightarrow> status_snapshot \<Rightarrow> controller_event list \<Rightarrow> blocker
     \<Rightarrow> (rust_str \<times> rust_str option) list \<times> controller_event list
     \<Rightarrow> (rust_str \<times> rust_str option) list \<times> controller_event list" where
  "report_blocked env profile_name s history b st =
     (case b_source_reference b of
        None \<Rightarrow> st
      | Some reference \<Rightarrow>
          let identity = blocked_identity s reference;
              reason_code = opt_or (b_reason_code b) (b_reason b);
              why = unwrap_or (opt_or (b_message b) (b_reason b)) ''human required''
          in if matching_human_required_report history profile_name (Some identity) reason_code then st
             else (fst st @ [(identity, reason_code)],
                   record_with_reason_code_and_plan env HumanRequiredEvent (Some profile_name)
                     (Some identity) (''Blocked work item '' @ reference @ '': '' @ why) reason_code
                     (opt_or (b_remediation_plan b)
                        (remediation_plan_for_action True profile_name
                           (HumanRequired (Some identity) why (Some reference) reason_code)))
                     (snd st)))"

definition report_blocked_work_items_once ::
  "event_env \<Rightarrow> rust_str \<Rightarrow> status_snapshot \<Rightarrow> controller_event list
     \<Rightarrow> (rust_str \<times> rust_str option) list \<times> controller_event list" where
  "report_blocked_work_items_once env profile_name s history =
     fold (report_blocked env profile_name s history)
       (filter (\<lambda>b. b_kind b = ''human_required'') (blocked_work_items s)) ([], history)"

definition record_stop_event ::
  "event_env \<Rightarrow> bool \<Rightarrow> rust_str \<Rightarrow> next_action \<Rightarrow> event_type \<Rightarrow> rust_str \<Rightarrow> controller_event list
     \<Rightarrow> controller_event list \<times> bool" where
  "record_stop_event env profile_known profile_name action stop_event_type outcome history =
     (if human_required_already_reported history profile_name action then (history, False)
      else if kind action = ''human_required'' then
        (record_with_reason_code_and_plan env stop_event_type (Some profile_name)
           (human_required_report_identity action) outcome (human_required_reason_code action)
           (remediation_plan_for_action profile_known profile_name action) history, True)
      else (record_event env stop_event_type (Some profile_name) (work_id_of action) outcome history, True))"

end
