(* ===== verification/Loop_Pass.thy ===== *)
theory Loop_Pass
  imports Recovery
begin

text \<open>
  One pass of the single-worker controller (\<^verbatim>\<open>controller/runtime.rs\<close>): select an action, gate it,
  take the claim of its work item, execute it, and move on to the next item while the selected one is
  held elsewhere; and the bookkeeping of a parallel batch.  Executing an action, building a snapshot
  and reading worktrees are arguments.
\<close>

subsection \<open>Outcomes\<close>

definition HELD_ELSEWHERE_PREFIX :: rust_str where "HELD_ELSEWHERE_PREFIX = ''Skipped ''"

definition outcome_held_elsewhere :: "rust_str \<Rightarrow> bool" where
  "outcome_held_elsewhere outcome = starts_with HELD_ELSEWHERE_PREFIX outcome"

definition selects_work :: "next_action \<Rightarrow> bool" where
  "selects_work a =
     (case a of WaitUntil _ _ \<Rightarrow> False | HumanRequired _ _ _ _ \<Rightarrow> False | NoOp _ \<Rightarrow> False | _ \<Rightarrow> True)"

definition action_admitted_work :: "next_action \<Rightarrow> rust_str \<Rightarrow> bool" where
  "action_admitted_work a outcome =
     (selects_work a \<and> \<not> outcome_held_elsewhere outcome
      \<and> (\<not> starts_with ''Deferred '' outcome \<or> \<not> contains_str ''no backend launched'' outcome))"

definition parallel_outcome_is_failure :: "rust_str \<Rightarrow> bool" where
  "parallel_outcome_is_failure outcome =
     (starts_with ''Error:'' outcome \<and> \<not> contains_str ''shutdown requested'' outcome)"

definition has_follow_up_in_batch :: "next_action \<Rightarrow> rust_str \<Rightarrow> bool" where
  "has_follow_up_in_batch a outcome =
     ((case a of DispatchTicket _ _ _ _ _ \<Rightarrow> True | FixMr _ _ _ _ _ \<Rightarrow> True | Retry _ _ _ \<Rightarrow> True
        | Escalate _ _ _ \<Rightarrow> True | ReviewMr _ _ _ _ \<Rightarrow> True | _ \<Rightarrow> False)
      \<and> \<not> starts_with ''Error:'' outcome \<and> \<not> starts_with ''Deferred '' outcome
      \<and> \<not> outcome_held_elsewhere outcome)"

subsection \<open>Moving past held work\<close>

text \<open>
  \<open>select_and_run\<close> runs one selection in round \<open>i\<close> on the state \<open>st\<close>; \<open>None\<close> is a selection, or a
  pass, that does not end.
\<close>

type_synonym 'st selection =
  "nat \<Rightarrow> status_snapshot \<Rightarrow> rust_str set \<Rightarrow> 'st
     \<Rightarrow> ('st \<times> (rust_str, next_action \<times> rust_str) rust_result) option"

partial_function (option) run_moving_past_held_work ::
  "'st selection \<Rightarrow> (nat \<Rightarrow> nat \<Rightarrow> rust_str) \<Rightarrow> nat \<Rightarrow> status_snapshot \<Rightarrow> rust_str set \<Rightarrow> 'st
     \<Rightarrow> ('st \<times> (rust_str, next_action \<times> rust_str) rust_result) option" where
  "run_moving_past_held_work select_and_run now_plus i view excluded st =
     Option.bind (select_and_run i view excluded st)
       (\<lambda>(st', res).
          case res of
            Inl err \<Rightarrow> Some (st', Inl err)
          | Inr (a, outcome) \<Rightarrow>
              (case work_id_of a of
                 None \<Rightarrow> Some (st', Inr (a, outcome))
               | Some w \<Rightarrow>
                   if \<not> outcome_held_elsewhere outcome then Some (st', Inr (a, outcome))
                   else
                     let excluded' = insert w excluded;
                         view' = retain_snapshot_candidates excluded' {} view
                     in if \<not> selects_work (decide_next_action (now_plus i) view')
                        then Some (st', Inr (a, outcome))
                        else run_moving_past_held_work select_and_run now_plus (Suc i) view' excluded' st'))"

subsection \<open>One selection\<close>

definition action_review_generation :: "status_snapshot \<Rightarrow> next_action \<Rightarrow> rust_str option" where
  "action_review_generation s a =
     (case a of
        ReviewMr _ b _ _ \<Rightarrow> Option.bind (List.find (\<lambda>mr. mr_branch mr = b) (merge_requests s)) mr_review_generation
      | MarkReadyForReview _ b _ _ \<Rightarrow> Option.bind (List.find (\<lambda>mr. mr_branch mr = b) (merge_requests s)) mr_review_generation
      | FixMr _ b _ _ _ \<Rightarrow> Option.bind (List.find (\<lambda>mr. mr_branch mr = b) (merge_requests s)) mr_review_generation
      | MergeMr _ b _ _ _ \<Rightarrow> Option.bind (List.find (\<lambda>mr. mr_branch mr = b) (merge_requests s)) mr_review_generation
      | _ \<Rightarrow> None)"

record pass_state =
  ps_claims :: claim_file
  ps_events :: "controller_event list"
  ps_ledger :: ledger_file

record pass_env =
  pe_profile :: rust_str
  pe_repo :: rust_str
  pe_scope :: rust_str
  pe_parse_ts :: "rust_str \<Rightarrow> int option"
  pe_now :: int
  pe_now_plus :: "nat \<Rightarrow> rust_str"
  pe_events :: event_env
  pe_fresh :: "(rust_str, status_snapshot) rust_result"
  pe_attach :: attach_env
  pe_claimant :: claim_env
  pe_gate :: "(claim_error, bool) rust_result"
  pe_execute :: "next_action \<Rightarrow> pass_state \<Rightarrow> pass_state \<times> (rust_str, rust_str) rust_result"

definition stuck_loop_gate ::
  "rust_str \<Rightarrow> rust_str \<Rightarrow> rust_str \<Rightarrow> rust_str \<Rightarrow> rust_str \<Rightarrow> rust_str option \<Rightarrow> ledger_entry" where
  "stuck_loop_gate now profile_name repo_id work_id why generation =
     (let gate = (new_ledger_entry now profile_name repo_id ''auto'' ''fix'' None)
            \<lparr> le_work_id := Some work_id, le_human_required := True,
              le_dispatch_reason := Some ''stuck_loop_gate'',
              le_human_required_reason_code := Some ''stuck_loop_gate'', le_error_summary := Some why \<rparr>
      in case generation of
           None \<Rightarrow> gate
         | Some g \<Rightarrow> gate\<lparr> le_review_contract_version := Some CURRENT_REVIEW_CONTRACT_VERSION,
                           le_review_generation := Some g \<rparr>)"

definition append_stuck_loop_gate_if_transition ::
  "pass_env \<Rightarrow> rust_str \<Rightarrow> rust_str \<Rightarrow> rust_str option \<Rightarrow> ledger_file \<Rightarrow> ledger_file \<times> (ledger_error, bool) rust_result" where
  "append_stuck_loop_gate_if_transition env work_id why generation =
     append_human_gate_if_transition (pe_parse_ts env) (pe_now env)
       (stuck_loop_gate (ee_now (pe_events env)) (pe_profile env) (pe_repo env) work_id why generation)"

text \<open>The stuck-loop block: a failure to write the gate is only a warning.\<close>

definition redispatch_stuck ::
  "pass_env \<Rightarrow> next_action \<Rightarrow> rust_str \<Rightarrow> rust_str set \<Rightarrow> (rust_str, next_action) rust_result" where
  "redispatch_stuck env original why excluded =
     (case pe_fresh env of
        Inl err \<Rightarrow> Inl err
      | Inr fresh \<Rightarrow>
          let scoped = retain_snapshot_candidates (excluded \<union> set_option (work_id_of original)) {} fresh;
              again = decide_next_action (pe_now_plus env) scoped
          in Inr (if kind again = ''no_op''
                  then HumanRequired (work_id_of original) why (work_id_of original)
                         (Some (reason_str StuckLoopGate))
                  else again))"

definition gated_action ::
  "pass_env \<Rightarrow> status_snapshot \<Rightarrow> rust_str set \<Rightarrow> controller_event list \<Rightarrow> ledger_entry list \<Rightarrow> next_action
     \<Rightarrow> pass_state \<Rightarrow> pass_state \<times> (rust_str, next_action) rust_result" where
  "gated_action env view excluded history entries original st =
     (let generation = action_review_generation view original;
          reset_after = Option.bind (work_id_of original)
            (latest_clear_attempts_timestamp entries (pe_profile env) (pe_repo env))
      in case detect_stuck_loop (pe_parse_ts env) history (pe_profile env) original reset_after generation of
           None \<Rightarrow> (st, Inr original)
         | Some why \<Rightarrow>
             ((case work_id_of original of
                 None \<Rightarrow> st
               | Some w \<Rightarrow>
                   st\<lparr> ps_ledger := fst (append_stuck_loop_gate_if_transition env w why generation (ps_ledger st)) \<rparr>),
              redispatch_stuck env original why excluded))"

definition held_outcome :: "rust_str \<Rightarrow> rust_str" where
  "held_outcome work_id =
     HELD_ELSEWHERE_PREFIX @ ''already-claimed work '' @ [squote] @ work_id @ [squote]"

definition claim_identity :: "next_action \<Rightarrow> rust_str option" where
  "claim_identity a = (if selects_work a then map_option normalize_work_identity (work_id_of a) else None)"

text \<open>Every error of the claim store is reported by the same text.\<close>

definition execute_claimed ::
  "pass_env \<Rightarrow> next_action \<Rightarrow> rust_str \<Rightarrow> pass_state \<Rightarrow> pass_state \<times> (rust_str, rust_str) rust_result" where
  "execute_claimed env a work_id st =
     (case try_claim_with_mode (pe_claimant env) (pe_gate env) (pe_scope env) work_id False (ps_claims st) of
        (claims, Inl _) \<Rightarrow> (st\<lparr> ps_claims := claims \<rparr>, Inl ''work claim store'')
      | (claims, Inr False) \<Rightarrow> (st\<lparr> ps_claims := claims \<rparr>, Inr (held_outcome work_id))
      | (claims, Inr True) \<Rightarrow>
          (case pe_execute env a (st\<lparr> ps_claims := claims \<rparr>) of
             (st', res) \<Rightarrow>
               (case release_owned_claims (pe_claimant env) (pe_scope env) (Some work_id) (ps_claims st') of
                  (claims', Inl _) \<Rightarrow> (st'\<lparr> ps_claims := claims' \<rparr>, Inl ''work claim store'')
                | (claims', Inr _) \<Rightarrow> (st'\<lparr> ps_claims := claims' \<rparr>, res))))"

definition execute_selected ::
  "pass_env \<Rightarrow> next_action \<Rightarrow> pass_state \<Rightarrow> pass_state \<times> (rust_str, rust_str) rust_result" where
  "execute_selected env a st =
     (case claim_identity a of
        Some work_id \<Rightarrow> execute_claimed env a work_id st
      | None \<Rightarrow> pe_execute env a st)"

definition run_selected_action ::
  "pass_env \<Rightarrow> controller_event list \<Rightarrow> ledger_entry list \<Rightarrow> status_snapshot \<Rightarrow> rust_str set \<Rightarrow> pass_state
     \<Rightarrow> (pass_state \<times> (rust_str, next_action \<times> rust_str) rust_result) option" where
  "run_selected_action env history entries view excluded st =
     (let original = decide_next_action (pe_now_plus env) view
      in case gated_action env view excluded history entries original st of
           (st1, Inl err) \<Rightarrow> Some (st1, Inl err)
         | (st1, Inr gated) \<Rightarrow>
             Option.bind
               (defer_if_branch_attached ((pe_attach env)\<lparr> ae_excluded := excluded \<rparr>) (pe_profile env)
                  gated (ps_events st1))
               (\<lambda>(evs, attached).
                  case attached of
                    Inl err \<Rightarrow> Some (st1\<lparr> ps_events := evs \<rparr>, Inl err)
                  | Inr replacement \<Rightarrow>
                      (let a = unwrap_or replacement gated;
                           st2 = st1\<lparr> ps_events :=
                             record_action_events (pe_events env) True (pe_profile env) original a
                               (action_review_generation view original) evs \<rparr>
                       in case execute_selected env a st2 of
                            (st3, Inl err) \<Rightarrow> Some (st3, Inl err)
                          | (st3, Inr outcome) \<Rightarrow> Some (st3, Inr (a, outcome)))))"

subsection \<open>The pass\<close>

definition suppress_recent_capacity_deferrals ::
  "(rust_str \<Rightarrow> int option) \<Rightarrow> int \<Rightarrow> rust_str option \<Rightarrow> controller_event list \<Rightarrow> ledger_entry list
     \<Rightarrow> rust_str \<Rightarrow> rust_str \<Rightarrow> status_snapshot \<Rightarrow> status_snapshot \<times> rust_str set" where
  "suppress_recent_capacity_deferrals parse_ts now route_state events entries profile_name repo_id s =
     (let deferred = recently_capacity_deferred_work_ids parse_ts events entries profile_name repo_id now route_state
      in (retain_snapshot_candidates deferred {} s, deferred))"

text \<open>
  What a pass asks of the rest of the program: the work living manual workers hold, the import of
  requested changes (it may append to the ledger), the periodic probe, the snapshot for a ledger,
  pruning, and the fingerprint of the routing state.
\<close>

record tick_env =
  te_live :: "(claim_error, rust_str set) rust_result"
  te_import :: "ledger_entry list \<Rightarrow> (rust_str, ledger_entry list) rust_result"
  te_probe :: "(rust_str, unit) rust_result"
  te_snapshot :: "ledger_entry list \<Rightarrow> (rust_str, status_snapshot) rust_result"
  te_prune :: "ledger_entry list \<Rightarrow> status_snapshot \<Rightarrow> (rust_str, unit) rust_result"
  te_route_state :: "rust_str option"

text \<open>Up to the snapshot: the ledger entries the pass works on, and what it observed.\<close>

definition observe_pass ::
  "tick_env \<Rightarrow> pass_env \<Rightarrow> pass_state \<Rightarrow> pass_state \<times> (rust_str, status_snapshot \<times> ledger_entry list) rust_result" where
  "observe_pass te env st =
     (case ps_ledger st of
        None \<Rightarrow> (st, Inl ''reading ledger'')
      | Some entries \<Rightarrow>
          (case reconcile_abandoned_dispatches (pe_events env) (pe_profile env) (pe_repo env) (te_live te)
                  entries (ps_events st) of
             ((entries1, events1), _) \<Rightarrow>
               (let st1 = st\<lparr> ps_ledger := Some entries1, ps_events := events1 \<rparr>
                in case te_import te entries1 of
                     Inl err \<Rightarrow> (st1, Inl err)
                   | Inr entries2 \<Rightarrow>
                       (let st2 = st1\<lparr> ps_ledger := Some entries2 \<rparr>
                        in case te_probe te of
                             Inl err \<Rightarrow> (st2, Inl err)
                           | Inr _ \<Rightarrow>
                               (case te_snapshot te entries2 of
                                  Inl err \<Rightarrow> (st2, Inl err)
                                | Inr s \<Rightarrow>
                                    (case te_prune te entries2 s of
                                       Inl err \<Rightarrow> (st2, Inl err)
                                     | Inr _ \<Rightarrow>
                                         (st2\<lparr> ps_events := record_event (pe_events env) ObservationCompleted
                                                 (Some (pe_profile env)) None (''profile='' @ pe_profile env)
                                                 (ps_events st2) \<rparr>,
                                          Inr (s, entries2))))))))"

definition stop_event_type :: "next_action \<Rightarrow> event_type" where
  "stop_event_type a =
     (case a of WaitUntil _ _ \<Rightarrow> WaitSelected | HumanRequired _ _ _ _ \<Rightarrow> HumanRequiredEvent | _ \<Rightarrow> LoopStopped)"

definition node_deferral :: "rust_str \<Rightarrow> rust_str option" where
  "node_deferral outcome =
     (if starts_with ''Deferred '' outcome
      then map_option (\<lambda>i. drop (i + length ''; admission reason: '') outcome)
             (find_str ''; admission reason: '' outcome)
      else None)"

definition admission_note :: "status_snapshot \<Rightarrow> next_action \<Rightarrow> rust_str \<Rightarrow> rust_str option" where
  "admission_note s a outcome =
     (if action_admitted_work a outcome then None
      else Some (no_admission_diagnostics s 0 1 (node_deferral outcome)))"

text \<open>The pass of one worker: its action, outcome, whether the stop is news, and the note.\<close>

definition run_pass ::
  "tick_env \<Rightarrow> pass_env \<Rightarrow> (nat \<Rightarrow> nat \<Rightarrow> rust_str) \<Rightarrow> pass_state
     \<Rightarrow> (pass_state \<times> (rust_str, next_action \<times> rust_str \<times> bool \<times> rust_str option) rust_result) option" where
  "run_pass te env now_plus st =
     (case observe_pass te env st of
        (st1, Inl err) \<Rightarrow> Some (st1, Inl err)
      | (st1, Inr (s, entries)) \<Rightarrow>
          (let history = ps_events st1;
               (view, deferred) = suppress_recent_capacity_deferrals (pe_parse_ts env) (pe_now env)
                 (te_route_state te) history entries (pe_profile env) (pe_repo env) s;
               st2 = st1\<lparr> ps_events := snd (report_blocked_work_items_once (pe_events env) (pe_profile env)
                            view history) \<rparr>
           in Option.bind
                (run_moving_past_held_work (\<lambda>i. run_selected_action env history entries) now_plus 0
                   view deferred st2)
                (\<lambda>(st3, res).
                   case res of
                     Inl err \<Rightarrow> Some (st3, Inl err)
                   | Inr (a, outcome) \<Rightarrow>
                       (case record_stop_event (pe_events env) True (pe_profile env) a (stop_event_type a)
                               outcome (ps_events st3) of
                          (events, newly) \<Rightarrow>
                            Some (st3\<lparr> ps_events := events \<rparr>,
                                  Inr (a, outcome, newly, admission_note view a outcome))))))"

subsection \<open>A parallel batch\<close>

record batch_budget =
  bb_fill_attempts :: nat
  bb_alternatives :: nat
  bb_suppressed :: bool

definition allow_bounded_node_alternative :: "rust_str \<Rightarrow> batch_budget \<Rightarrow> batch_budget \<times> bool" where
  "allow_bounded_node_alternative outcome b =
     (if bb_suppressed b \<or> bb_alternatives b = 0 \<or> \<not> starts_with ''Deferred '' outcome
         \<or> \<not> contains_str ''because node capacity is busy'' outcome
      then (b, False)
      else (b\<lparr> bb_alternatives := bb_alternatives b - 1, bb_fill_attempts := max (bb_fill_attempts b) 1 \<rparr>, True))"

definition update_parallel_refill_budget :: "rust_str \<Rightarrow> nat \<Rightarrow> batch_budget \<Rightarrow> batch_budget \<times> bool" where
  "update_parallel_refill_budget outcome parallel_limit b =
     ((if starts_with ''Error:'' outcome then b\<lparr> bb_suppressed := True, bb_fill_attempts := 0 \<rparr>
       else if starts_with ''Deferred '' outcome then b\<lparr> bb_fill_attempts := 0 \<rparr>
       else if \<not> bb_suppressed b then b\<lparr> bb_fill_attempts := parallel_limit \<rparr>
       else b),
      parallel_outcome_is_failure outcome)"

definition complete_outcome :: "nat \<Rightarrow> rust_str \<Rightarrow> batch_budget \<Rightarrow> batch_budget" where
  "complete_outcome parallel_limit outcome b =
     (case allow_bounded_node_alternative outcome b of
        (b', True) \<Rightarrow> b'
      | (b', False) \<Rightarrow> fst (update_parallel_refill_budget outcome parallel_limit b'))"

subsection \<open>What a parallel pass may take\<close>

definition action_creates_managed_mr :: "next_action \<Rightarrow> bool" where
  "action_creates_managed_mr a =
     (case a of DispatchTicket _ _ _ _ _ \<Rightarrow> True | Retry _ _ _ \<Rightarrow> True | Escalate _ _ _ \<Rightarrow> True | _ \<Rightarrow> False)"

definition action_intake_key :: "next_action \<Rightarrow> rust_str option" where
  "action_intake_key a =
     (case a of
        DispatchTicket path work_id _ _ _ \<Rightarrow> Some (normalize_work_identity (unwrap_or work_id path))
      | Retry work_id _ _ \<Rightarrow> Some (normalize_work_identity work_id)
      | Escalate work_id _ _ \<Rightarrow> Some (normalize_work_identity work_id)
      | _ \<Rightarrow> None)"

definition apply_parallel_projection :: "rust_str set \<Rightarrow> nat \<Rightarrow> status_snapshot \<Rightarrow> status_snapshot" where
  "apply_parallel_projection active_intake_keys limit s =
     (let unobserved_local = card (active_intake_keys - set (active_claim_work_ids s));
          inflight = saturating_add_u32 (inflight_implementation_count s) unobserved_local
      in s\<lparr> profile := (profile s)\<lparr> max_open_managed_mrs := limit \<rparr>,
            inflight_implementation_count := inflight,
            implementation_intake_paused :=
              limit \<le> saturating_add_u32 (open_managed_mr_count s) inflight \<rparr>)"

definition unclaimed :: "rust_str list \<Rightarrow> rust_str set \<Rightarrow> rust_str option \<Rightarrow> bool" where
  "unclaimed claimed_work_ids executed_work_ids work_id =
     (case work_id of
        None \<Rightarrow> True
      | Some w \<Rightarrow> normalize_work_identity w \<notin> set claimed_work_ids
                  \<and> normalize_work_identity w \<notin> executed_work_ids)"

definition retain_unclaimed_work ::
  "rust_str list \<Rightarrow> rust_str set \<Rightarrow> status_snapshot \<Rightarrow> status_snapshot" where
  "retain_unclaimed_work claimed executed s =
     s\<lparr> available_tickets := filter (\<lambda>t. unclaimed claimed executed (at_work_id t)) (available_tickets s),
        issue_intake_rejections := filter (\<lambda>i. unclaimed claimed executed (ir_work_id i)) (issue_intake_rejections s),
        merge_requests := filter (\<lambda>mr. unclaimed claimed executed (mr_work_id mr)) (merge_requests s) \<rparr>"

definition unavailable_work_ids :: "rust_str set \<Rightarrow> rust_str list \<Rightarrow> rust_str set \<Rightarrow> rust_str set" where
  "unavailable_work_ids deferred claimed executed = deferred \<union> set claimed \<union> executed"

end
