(* ===== verification/Recovery_Props.thy ===== *)
theory Recovery_Props
  imports Recovery Decision_Props
begin

text \<open>
  Properties of the recovery decisions: each scan of the event stream against a declarative reading of
  it, reconciliation and reports that happen once, and the end of the search for an unattached branch.
\<close>

subsection \<open>Capacity deferrals\<close>

text \<open>The dispatch results of one work item, newest first.\<close>

definition results_of :: "rust_str \<Rightarrow> rust_str \<Rightarrow> controller_event list \<Rightarrow> controller_event list" where
  "results_of profile_name i events =
     filter (\<lambda>e. ev_profile e = Some profile_name \<and> ev_type e = ''dispatch_finished''
               \<and> is_some_and (ev_work_id e) (\<lambda>w. normalize_work_identity w = i)) (rev events)"

lemma scan_deferrals_iff:
  "i \<in> scan_deferrals holds prof es seen deferred \<longleftrightarrow>
     i \<in> deferred
     \<or> i \<notin> seen
       \<and> is_some_and (first (filter (\<lambda>e. ev_profile e = Some prof \<and> ev_type e = ''dispatch_finished''
            \<and> is_some_and (ev_work_id e) (\<lambda>w. normalize_work_identity w = i)) es)) (holds i)"
proof (induction es arbitrary: seen deferred)
  case Nil
  then show ?case by simp
next
  case (Cons e es)
  show ?case
  proof (cases "ev_profile e = Some prof \<and> ev_type e = ''dispatch_finished''")
    case False
    then have "scan_deferrals holds prof (e # es) seen deferred = scan_deferrals holds prof es seen deferred"
      by auto
    with False Cons.IH [of seen deferred] show ?thesis by auto
  next
    case res: True
    show ?thesis
    proof (cases "ev_work_id e")
      case None
      with res Cons.IH [of seen deferred] show ?thesis by simp
    next
      case (Some w)
      show ?thesis
      proof (cases "normalize_work_identity w \<in> seen")
        case True
        with res Some Cons.IH [of seen deferred] show ?thesis by (auto simp: Let_def)
      next
        case False
        with res Some Cons.IH show ?thesis by (simp add: Let_def) blast
      qed
    qed
  qed
qed

text \<open>C13. Work is suppressed by its newest dispatch result alone: an item is skipped exactly when the
  newest \<open>dispatch_finished\<close> event of any spelling of its identity in the profile is a capacity deferral
  that still holds - not a node deferral, recorded under the present routing state, not followed by an
  operator's reset or approval, and younger than its announced reset or five minutes.\<close>

theorem deferral_by_newest_result:
  "i \<in> recently_capacity_deferred_work_ids parse_ts events entries prof repo now state \<longleftrightarrow>
     is_some_and (first (results_of prof i events))
       (defers parse_ts now state (reset_at parse_ts prof repo entries) i)"
  by (simp add: recently_capacity_deferred_work_ids_def scan_deferrals_iff results_of_def)

lemma reset_at_snoc:
  "reset_at parse_ts prof repo (entries @ [e])
     = reset_step parse_ts prof repo e (reset_at parse_ts prof repo entries)"
  by (simp add: reset_at_def)

text \<open>Bounded, and lifted by the operator: consequences of the definition of a deferral.\<close>

lemma deferral_expires:
  assumes "defers parse_ts now state resets i e" "parse_ts (ev_timestamp e) = Some t"
  shows "now < capacity_deferral_retry_at parse_ts (ev_details e) t"
  using assms by (simp add: defers_def)

lemma retry_at_after: "t < capacity_deferral_retry_at parse_ts details t"
  by (auto simp: capacity_deferral_retry_at_def CAPACITY_DEFERRAL_BACKOFF_def unwrap_or_def opt_filter_def
      split: option.splits)

text \<open>An operator's reset lifts every earlier suppression: once an entry that clears the attempts or
  changes an approval of the item is in the ledger of the profile and repository, no dispatch result
  before it suppresses the item, whatever instant its text announces.\<close>

theorem reset_lifts_deferral:
  assumes "le_profile e = prof" "le_repo_id e = repo" "le_mode e \<in> set reset_modes"
    and "le_work_id e = Some w" "parse_ts (le_timestamp e) = Some t"
    and "\<forall>r \<in> set (results_of prof (normalize_work_identity w) events).
           \<forall>t'. parse_ts (ev_timestamp r) = Some t' \<longrightarrow> t' < t"
  shows "normalize_work_identity w
           \<notin> recently_capacity_deferred_work_ids parse_ts events (entries @ [e]) prof repo now state"
proof -
  let ?i = "normalize_work_identity w"
  obtain m where m: "reset_at parse_ts prof repo (entries @ [e]) ?i = Some m" "t \<le> m"
    using assms(1-5) by (auto simp: reset_at_snoc reset_step_def Let_def split: option.splits)
  have "\<not> defers parse_ts now state (reset_at parse_ts prof repo (entries @ [e])) ?i r"
    if r: "first (results_of prof ?i events) = Some r" for r
  proof -
    from r have "r \<in> set (results_of prof ?i events)" by (rule first_in_set)
    with assms(6) m show ?thesis by (fastforce simp: defers_def is_some_and_iff)
  qed
  then show ?thesis by (auto simp: deferral_by_newest_result is_some_and_iff)
qed

subsection \<open>Stuck loops\<close>

text \<open>The declarative reading: the item's history back to a boundary, its decisions for the generation
  in question, and whether the last three of them chose the same kind of action.\<close>

definition quiet_boundary :: "(controller_event \<Rightarrow> bool) \<Rightarrow> controller_event \<Rightarrow> bool" where
  "quiet_boundary ends e =
     (ends e \<or> ev_type e = ''work_deferred''
      \<or> ev_type e = ''dispatch_finished'' \<and> contains_str '': deferred_capacity:'' (ev_details e))"

definition decisions_since ::
  "(controller_event \<Rightarrow> bool) \<Rightarrow> (controller_event \<Rightarrow> bool) \<Rightarrow> rust_str option
     \<Rightarrow> controller_event list \<Rightarrow> controller_event list" where
  "decisions_since concerning ends generation es =
     filter (\<lambda>e. ev_type e = ''action_decided'' \<and> \<not> other_generation generation e)
       (takeWhile (\<lambda>e. \<not> quiet_boundary ends e) (filter concerning es))"

lemma count_decisions_iff:
  "c < STUCK_LOOP_THRESHOLD \<Longrightarrow>
   count_decisions concerning ends generation prefix es c \<longleftrightarrow>
     STUCK_LOOP_THRESHOLD - c
       \<le> length (takeWhile (\<lambda>e. starts_with prefix (ev_details e)) (decisions_since concerning ends generation es))"
proof (induction es arbitrary: c)
  case Nil
  then show ?case by (simp add: decisions_since_def)
next
  case (Cons e es)
  let ?counts = "ev_type e = ''action_decided'' \<and> \<not> other_generation generation e"
  consider (other) "\<not> concerning e" | (stop) "concerning e" "quiet_boundary ends e"
    | (skip) "concerning e" "\<not> quiet_boundary ends e" "\<not> ?counts"
    | (decision) "concerning e" "\<not> quiet_boundary ends e" "?counts"
    by blast
  then show ?case
  proof cases
    case other
    with Cons show ?thesis by (simp add: decisions_since_def)
  next
    case stop
    with Cons.prems show ?thesis by (auto simp: decisions_since_def quiet_boundary_def)
  next
    case skip
    then have "count_decisions concerning ends generation prefix (e # es) c
        = count_decisions concerning ends generation prefix es c"
      by (auto simp: quiet_boundary_def)
    with skip Cons show ?thesis by (auto simp: decisions_since_def)
  next
    case decision
    then have since: "decisions_since concerning ends generation (e # es)
        = e # decisions_since concerning ends generation es"
      by (simp add: decisions_since_def)
    have step: "count_decisions concerning ends generation prefix (e # es) c \<longleftrightarrow>
        starts_with prefix (ev_details e)
        \<and> (STUCK_LOOP_THRESHOLD \<le> c + 1 \<or> count_decisions concerning ends generation prefix es (c + 1))"
      using decision by (auto simp: quiet_boundary_def)
    show ?thesis
    proof (cases "STUCK_LOOP_THRESHOLD \<le> c + 1")
      case True
      with Cons.prems show ?thesis unfolding step since by auto
    next
      case False
      with Cons.IH [of "c + 1"] show ?thesis unfolding step since by auto
    qed
  qed
qed

definition refusals_since ::
  "(controller_event \<Rightarrow> bool) \<Rightarrow> (controller_event \<Rightarrow> bool) \<Rightarrow> controller_event list \<Rightarrow> controller_event list" where
  "refusals_since concerning ends es =
     takeWhile approval_refusal
       (filter (\<lambda>e. ev_type e = ''dispatch_finished'') (takeWhile (\<lambda>e. \<not> ends e) (filter concerning es)))"

lemma count_approvals_iff:
  "c < STUCK_LOOP_THRESHOLD \<Longrightarrow>
   count_approvals concerning ends es c \<longleftrightarrow>
     STUCK_LOOP_THRESHOLD - c \<le> length (refusals_since concerning ends es)"
proof (induction es arbitrary: c)
  case Nil
  then show ?case by (simp add: refusals_since_def)
next
  case (Cons e es)
  consider (other) "\<not> concerning e" | (stop) "concerning e" "ends e"
    | (skip) "concerning e" "\<not> ends e" "ev_type e \<noteq> ''dispatch_finished''"
    | (result) "concerning e" "\<not> ends e" "ev_type e = ''dispatch_finished''"
    by blast
  then show ?case
  proof cases
    case result
    show ?thesis
    proof (cases "approval_refusal e \<and> \<not> STUCK_LOOP_THRESHOLD \<le> c + 1")
      case True
      with result Cons.IH [of "c + 1"] show ?thesis by (auto simp: refusals_since_def)
    next
      case False
      with result Cons.prems show ?thesis by (auto simp: refusals_since_def)
    qed
  qed (use Cons in \<open>auto simp: refusals_since_def\<close>)
qed

text \<open>C12. A loop counts as stuck exactly when the three newest decisions about the item all chose the
  action's kind, or, for an action that launches work, its three newest dispatch results were all
  refused for want of an approval; both are read back to the operator's reset or an older review
  contract, decisions also to the last deferral, and decisions for another review generation do not
  count either way.\<close>

theorem stuck_iff_three_in_a_row:
  "is_some (detect_stuck_loop parse_ts events prof a reset generation) \<longleftrightarrow>
     (\<exists>w. work_id_of a = Some w
        \<and> (3 \<le> length (takeWhile (\<lambda>e. starts_with (kind a @ '':'') (ev_details e))
                   (decisions_since (concerns_item prof w) (history_ends parse_ts reset) generation (rev events)))
          \<or> launches_work a
            \<and> 3 \<le> length (refusals_since (concerns_item prof w) (history_ends parse_ts reset) (rev events))))"
  using count_decisions_iff [of 0] count_approvals_iff [of 0]
  by (auto simp: detect_stuck_loop_def STUCK_LOOP_THRESHOLD_def split: option.splits)

text \<open>A reset by the operator ends every stuck loop: nothing before it counts.\<close>

lemma takeWhile_none: "\<forall>x \<in> set xs. \<not> P x \<Longrightarrow> takeWhile P xs = []"
  by (cases xs) auto

lemma reset_unsticks:
  assumes "\<forall>e \<in> set events. timestamp_at_or_before parse_ts (ev_timestamp e) r"
  shows "detect_stuck_loop parse_ts events prof a (Some r) generation = None"
proof -
  have "takeWhile (\<lambda>e. \<not> quiet_boundary (history_ends parse_ts (Some r)) e) (filter c (rev events)) = []"
    "takeWhile (\<lambda>e. \<not> history_ends parse_ts (Some r) e) (filter c (rev events)) = []" for c
    using assms by (auto intro!: takeWhile_none simp: quiet_boundary_def history_ends_def)
  then have "\<not> is_some (detect_stuck_loop parse_ts events prof a (Some r) generation)"
    unfolding stuck_iff_three_in_a_row decisions_since_def refusals_since_def by simp
  then show ?thesis by simp
qed

subsection \<open>Abandoned runs\<close>

definition closing_event :: "event_env \<Rightarrow> rust_str \<Rightarrow> rust_str \<times> rust_str option \<Rightarrow> controller_event" where
  "closing_event env prof orphan =
     redact_event (ee_redact env)
       \<lparr> ev_timestamp = ee_now env, ev_type = ''dispatch_finished'', ev_profile = Some prof,
         ev_work_id = snd orphan, ev_run_id = Some (fst orphan),
         ev_details = ''abandoned (reconciled before next dispatch)'', ev_reason_code = None,
         ev_contract = Some CURRENT_REVIEW_CONTRACT_VERSION, ev_plan = None \<rparr>"

lemma fold_close_orphan:
  "fold (close_orphan env prof repo sessions) orphans (entries, events) =
     (entries @ map (abandoned_entry (ee_now env) prof repo) (filter (\<lambda>x. fst x \<notin> sessions) orphans),
      events @ map (closing_event env prof) orphans)"
  by (induction orphans arbitrary: entries events)
     (auto simp: close_orphan_def record_with_run_id_def record_with_run_id_and_reason_code_def
        append_event_def closing_event_def)

text \<open>The redactor leaves a profile name, an event type and run identifiers alone: they are not secrets.\<close>

definition redactor_keeps :: "event_env \<Rightarrow> rust_str set \<Rightarrow> bool" where
  "redactor_keeps env strs = (\<forall>x \<in> strs. ee_redact env x = x)"

lemma run_of_closing:
  assumes "redactor_keeps env {prof, ''dispatch_finished'', fst x}"
  shows "run_of prof finished_types (closing_event env prof x) = Some (fst x)"
    and "run_of prof started_types (closing_event env prof x) = None"
  using assms
  by (simp_all add: run_of_def closing_event_def redact_event_def redactor_keeps_def finished_types_def
      started_types_def)

lemma orphans_after_closing:
  assumes "redactor_keeps env ({prof, ''dispatch_finished''} \<union> fst ` set shut)"
  shows "orphaned_dispatch_runs (events @ map (closing_event env prof) shut) prof
     = filter (\<lambda>x. fst x \<notin> fst ` set shut) (orphaned_dispatch_runs events prof)"
proof -
  have fin: "set (List.map_filter (run_of prof finished_types) (map (closing_event env prof) shut)) = fst ` set shut"
    and start: "List.map_filter (\<lambda>e. map_option (\<lambda>r. (r, ev_work_id e)) (run_of prof started_types e))
        (map (closing_event env prof) shut) = []"
    using assms run_of_closing [of env prof]
    by (induction shut) (auto simp: redactor_keeps_def List.map_filter_simps)
  show ?thesis
    unfolding orphaned_dispatch_runs_def
    by (simp add: fin start case_prod_unfold)
qed

lemma written_for_orphan:
  "le_session_id (abandoned_entry now prof repo x) = Some (fst x)"
  "le_work_id (abandoned_entry now prof repo x) = snd x"
  "le_validation_result (abandoned_entry now prof repo x) = Some ''not_run_abandoned''"
  by (simp_all add: abandoned_entry_def new_ledger_entry_def)

text \<open>C14. Abandoned runs are closed once: a reconciliation appends to the ledger exactly one entry, with
  the run, its work identity and the result not_run_abandoned, for each open run of the profile that no
  living manual worker holds and that has no ledger entry of its session, in their order; it appends to
  the stream exactly one closing event for each open run that is not held and returns their number.
  Afterwards the only runs still open are held ones, and reconciling again changes nothing.\<close>

theorem abandoned_runs_closed_once:
  assumes "reconcile_abandoned_dispatches env prof repo (Inr ids) entries events = ((entries', events'), n)"
    and "redactor_keeps env ({prof, ''dispatch_finished''} \<union> fst ` set (orphaned_dispatch_runs events prof))"
    and "ended = filter (\<lambda>(r, w). \<not> is_some_and w (\<lambda>i. normalize_work_identity i \<in> ids))
                   (orphaned_dispatch_runs events prof)"
    and "unrecorded = filter (\<lambda>(r, w). \<forall>e \<in> set entries. le_session_id e \<noteq> Some r) ended"
  shows "(\<exists>written. entries' = entries @ written
            \<and> map (\<lambda>e. (le_session_id e, le_work_id e)) written = map (\<lambda>(r, w). (Some r, w)) unrecorded
            \<and> (\<forall>e \<in> set written. le_validation_result e = Some ''not_run_abandoned''))
       \<and> (\<exists>closing. events' = events @ closing
            \<and> map (run_of prof finished_types) closing = map (\<lambda>(r, w). Some r) ended)
       \<and> n = length ended
       \<and> (\<forall>(r, w) \<in> set (orphaned_dispatch_runs events' prof).
            is_some_and w (\<lambda>i. normalize_work_identity i \<in> ids))
       \<and> reconcile_abandoned_dispatches env prof repo (Inr ids) entries' events' = ((entries', events'), 0)"
proof -
  let ?held = "\<lambda>x. is_some_and (snd x) (\<lambda>w. normalize_work_identity w \<in> ids)"
  let ?orphans = "orphaned_dispatch_runs events prof"
  have ended: "ended = filter (\<lambda>x. \<not> ?held x) ?orphans"
    using assms(3) by (simp add: case_prod_unfold)
  have unrecorded: "unrecorded = filter (\<lambda>x. fst x \<notin> set (List.map_filter le_session_id entries)) ended"
    unfolding assms(4) by (rule filter_cong) (force simp: set_map_filter case_prod_unfold)+
  have ev: "events' = events @ map (closing_event env prof) ended"
    and en: "entries' = entries @ map (abandoned_entry (ee_now env) prof repo) unrecorded"
    and n: "n = length ended"
    using assms(1) unfolding ended unrecorded
    by (auto simp: reconcile_abandoned_dispatches_def Let_def fold_close_orphan case_prod_unfold)
  have keeps: "redactor_keeps env ({prof, ''dispatch_finished''} \<union> fst ` set ended)"
    using assms(2) by (auto simp: redactor_keeps_def ended)
  have "map (run_of prof finished_types) (map (closing_event env prof) ended) = map (\<lambda>(r, w). Some r) ended"
    using keeps run_of_closing(1) [of env prof] by (auto simp: redactor_keeps_def)
  moreover have "orphaned_dispatch_runs events' prof = filter (\<lambda>x. fst x \<notin> fst ` set ended) ?orphans"
    unfolding ev by (rule orphans_after_closing [OF keeps])
  then have held: "\<forall>x \<in> set (orphaned_dispatch_runs events' prof). ?held x" by (force simp: ended)
  then have "filter (\<lambda>(_, w). \<not> is_some_and w (\<lambda>w. normalize_work_identity w \<in> ids))
      (orphaned_dispatch_runs events' prof) = []"
    by (auto simp: filter_empty_conv)
  then have "reconcile_abandoned_dispatches env prof repo (Inr ids) entries' events' = ((entries', events'), 0)"
    by (simp add: reconcile_abandoned_dispatches_def Let_def)
  moreover have "map (\<lambda>e. (le_session_id e, le_work_id e)) (map (abandoned_entry (ee_now env) prof repo) unrecorded)
      = map (\<lambda>(r, w). (Some r, w)) unrecorded"
    "\<forall>e \<in> set (map (abandoned_entry (ee_now env) prof repo) unrecorded).
       le_validation_result e = Some ''not_run_abandoned''"
    by (auto simp: written_for_orphan)
  ultimately show ?thesis
    using ev en n held
    by (intro conjI exI [of _ "map (abandoned_entry (ee_now env) prof repo) unrecorded"]
          exI [of _ "map (closing_event env prof) ended"]) (auto simp: case_prod_unfold)
qed

subsection \<open>Reports to a person\<close>

definition report_code :: "blocker \<Rightarrow> rust_str option" where
  "report_code b = opt_or (b_reason_code b) (b_reason b)"

definition report_identity :: "status_snapshot \<Rightarrow> blocker \<Rightarrow> rust_str" where
  "report_identity s b = blocked_identity s (unwrap_or (b_source_reference b) [])"

text \<open>The items a tick may report, and those it does report.\<close>

definition reportable :: "status_snapshot \<Rightarrow> blocker list" where
  "reportable s =
     filter (\<lambda>b. b_kind b = ''human_required'' \<and> is_some (b_source_reference b)) (blocked_work_items s)"

definition due :: "rust_str \<Rightarrow> status_snapshot \<Rightarrow> controller_event list \<Rightarrow> blocker \<Rightarrow> bool" where
  "due prof s history b =
     (is_some (b_source_reference b)
      \<and> \<not> matching_human_required_report history prof (Some (report_identity s b)) (report_code b))"

definition report_event :: "event_env \<Rightarrow> rust_str \<Rightarrow> status_snapshot \<Rightarrow> blocker \<Rightarrow> controller_event" where
  "report_event env prof s b =
     (let reference = unwrap_or (b_source_reference b) [];
          why = unwrap_or (opt_or (b_message b) (b_reason b)) ''human required''
      in redact_event (ee_redact env)
           \<lparr> ev_timestamp = ee_now env, ev_type = ''human_required'', ev_profile = Some prof,
             ev_work_id = Some (report_identity s b), ev_run_id = None,
             ev_details = ''Blocked work item '' @ reference @ '': '' @ why,
             ev_reason_code = report_code b, ev_contract = Some CURRENT_REVIEW_CONTRACT_VERSION,
             ev_plan = opt_or (b_remediation_plan b)
               (remediation_plan_for_action True prof
                  (HumanRequired (Some (report_identity s b)) why (Some reference) (report_code b))) \<rparr>)"

lemma report_blocked_eq:
  "report_blocked env prof s history b st =
     (if due prof s history b
      then (fst st @ [(report_identity s b, report_code b)], snd st @ [report_event env prof s b])
      else st)"
  by (auto simp: report_blocked_def due_def report_identity_def report_code_def report_event_def Let_def
      record_with_reason_code_and_plan_def append_event_def split: option.splits)

lemma fold_report_blocked:
  "fold (report_blocked env prof s history) bs st =
     (fst st @ map (\<lambda>b. (report_identity s b, report_code b)) (filter (due prof s history) bs),
      snd st @ map (report_event env prof s) (filter (due prof s history) bs))"
  by (induction bs arbitrary: st) (auto simp: report_blocked_eq)

lemma report_once_eq:
  "report_blocked_work_items_once env prof s history =
     (map (\<lambda>b. (report_identity s b, report_code b)) (filter (due prof s history) (reportable s)),
      history @ map (report_event env prof s) (filter (due prof s history) (reportable s)))"
proof -
  have "filter (due prof s history) (reportable s)
      = filter (due prof s history) (filter (\<lambda>b. b_kind b = ''human_required'') (blocked_work_items s))"
    unfolding reportable_def filter_filter by (rule filter_cong) (auto simp: due_def)
  then show ?thesis by (simp only: report_blocked_work_items_once_def fold_report_blocked) simp
qed

lemma matching_append:
  "matching_human_required_report (h @ h') prof i c \<longleftrightarrow>
     (case List.find (is_report prof i) (rev h') of
        Some e \<Rightarrow> ev_reason_code e = c
      | None \<Rightarrow> matching_human_required_report h prof i c)"
  by (induction h' rule: rev_induct) (auto simp: matching_human_required_report_def)

lemma report_event_is_report:
  assumes "redactor_keeps env ({prof, ''human_required''} \<union> report_identity s ` set (reportable s)
             \<union> {c. \<exists>b \<in> set (reportable s). report_code b = Some c})"
    and "b \<in> set (reportable s)"
  shows "is_report prof (Some i) (report_event env prof s b) \<longleftrightarrow> report_identity s b = i"
    and "ev_reason_code (report_event env prof s b) = report_code b"
  using assms
  by (auto simp: is_report_def report_event_def Let_def redact_event_def redactor_keeps_def
      map_option_case split: option.splits)

text \<open>An item that waits for a person is reported once: when no item of the snapshot has two
  different reasons, a tick that reports the blocked items leaves nothing to report for the same
  snapshot; the next one sends no notification and appends no event.\<close>

theorem blocked_items_reported_once:
  assumes "redactor_keeps env ({prof, ''human_required''} \<union> report_identity s ` set (reportable s)
             \<union> {c. \<exists>b \<in> set (reportable s). report_code b = Some c})"
    and "\<forall>b \<in> set (reportable s). \<forall>b' \<in> set (reportable s).
           report_identity s b = report_identity s b' \<longrightarrow> report_code b = report_code b'"
    and "report_blocked_work_items_once env prof s history = (sent, history')"
  shows "report_blocked_work_items_once env prof s history' = ([], history')"
proof -
  let ?d = "filter (due prof s history) (reportable s)"
  have h: "history' = history @ map (report_event env prof s) ?d"
    using assms(3) by (simp add: report_once_eq)
  have "\<not> due prof s history' b" if b: "b \<in> set (reportable s)" for b
  proof (cases "List.find (is_report prof (Some (report_identity s b))) (rev (map (report_event env prof s) ?d))")
    case None
    then have "b \<notin> set ?d"
      using report_event_is_report(1) [OF assms(1) b, of "report_identity s b"]
      by (auto simp: find_None_iff')
    with b None show ?thesis by (auto simp: due_def h matching_append)
  next
    case (Some e)
    from find_SomeD [OF Some] obtain b' where b': "b' \<in> set (reportable s)"
      "e = report_event env prof s b'" "is_report prof (Some (report_identity s b)) e"
      by auto
    with report_event_is_report [OF assms(1) b'(1)]
    have "report_identity s b' = report_identity s b" "ev_reason_code e = report_code b'" by auto
    with assms(2) b b'(1) have "ev_reason_code e = report_code b" by metis
    with Some show ?thesis by (simp add: due_def h matching_append)
  qed
  then have "filter (due prof s history') (reportable s) = []" by (simp add: filter_empty_conv)
  then show ?thesis by (simp add: report_once_eq)
qed

text \<open>An item with two reasons, for example a gate of the ledger under its work id and an exceeded
  repair cap under its branch, is reported in every tick, whatever was reported before.\<close>

theorem two_reasons_report_forever:
  assumes "b \<in> set (reportable s)" "b' \<in> set (reportable s)"
    and "report_identity s b = report_identity s b'" "report_code b \<noteq> report_code b'"
  shows "fst (report_blocked_work_items_once env prof s history) \<noteq> []"
proof -
  have "due prof s history b \<or> due prof s history b'"
    using assms by (auto simp: due_def reportable_def matching_human_required_report_def is_some_and_iff)
  with assms(1,2) show ?thesis by (auto simp: report_once_eq filter_empty_conv)
qed

subsection \<open>Branches that are attached elsewhere\<close>

lemma decided_repair_in_snapshot:
  assumes "decide_next_action now s = FixMr w b u g r"
  shows "\<exists>mr \<in> set (merge_requests s). mr_branch mr = b \<and> mr_work_id mr = w"
proof -
  have "fix_action (buckets s) = Some (FixMr w b u g r)"
    using assms decide_fix_iff [of "FixMr w b u g r" now s] by simp
  then obtain mr where "first (fix_candidates (buckets s)) = Some mr" "mr_branch mr = b" "mr_work_id mr = w"
    by (auto simp: fix_action_def)
  then show ?thesis by (auto simp: snapshot_simps dest!: first_in_set)
qed

lemma chosen_repair_is_new:
  assumes "choose_next env i work_ids branches = Inr (FixMr w b u g r)"
  shows "b \<notin> branches \<and> (\<exists>s. ae_snapshot env i = Inr s \<and> b \<in> mr_branch ` set (merge_requests s))"
  using assms
  by (auto simp: choose_next_def retain_snapshot_candidates_def Let_def split: sum.splits
      dest!: decided_repair_in_snapshot)

definition unattached :: "attach_env \<Rightarrow> nat \<Rightarrow> next_action \<Rightarrow> bool" where
  "unattached env j a \<longleftrightarrow> (\<forall>w b u g r. a = FixMr w b u g r \<longrightarrow> ae_attachment env j b = Inr None)"

definition sound_resolution ::
  "attach_env \<Rightarrow> nat \<Rightarrow> next_action \<Rightarrow> rust_str set \<Rightarrow> controller_event list
     \<Rightarrow> controller_event list \<times> (rust_str, next_action option) rust_result \<Rightarrow> bool" where
  "sound_resolution env i a branches events res =
     (case snd res of
        Inl _ \<Rightarrow> True
      | Inr None \<Rightarrow> branches = {} \<and> unattached env i a \<and> fst res = events
      | Inr (Some a') \<Rightarrow> \<exists>j. unattached env j a')"

lemma resolve_other:
  assumes "\<forall>w b u g r. a \<noteq> FixMr w b u g r"
  shows "resolve_attached_branch_conflicts env prof i a work_ids branches events
    = Some (events, Inr (resolved branches a))"
  by (subst resolve_attached_branch_conflicts.simps) (use assms in \<open>cases a; simp\<close>)

lemma resolve_sound:
  assumes "finite U"
    and "\<And>j s. ae_snapshot env j = Inr s \<Longrightarrow> mr_branch ` set (merge_requests s) \<subseteq> U"
    and "\<And>w b u g r. a = FixMr w b u g r \<Longrightarrow> b \<in> U - branches"
  shows "\<exists>res. resolve_attached_branch_conflicts env prof i a work_ids branches events = Some res
           \<and> sound_resolution env i a branches events res"
  using assms(3)
proof (induction "card (U - branches)" arbitrary: i a work_ids branches events rule: less_induct)
  case less
  show ?case
  proof (cases "\<exists>w b u g r. a = FixMr w b u g r")
    case False
    then show ?thesis
      by (auto simp: resolve_other sound_resolution_def resolved_def unattached_def)
  next
    case True
    then obtain w b u g r where a: "a = FixMr w b u g r" by blast
    with less.prems have b: "b \<in> U - branches" by blast
    let ?B = "insert b branches" and ?W = "with_identity w work_ids"
    show ?thesis
    proof (cases "ae_attachment env i b")
      case (Inl err)
      then show ?thesis
        by (subst resolve_attached_branch_conflicts.simps) (simp add: a sound_resolution_def)
    next
      case (Inr att)
      show ?thesis
      proof (cases att)
        case None
        with Inr show ?thesis
          by (subst resolve_attached_branch_conflicts.simps)
             (auto simp: a sound_resolution_def resolved_def unattached_def)
      next
        case (Some t)
        let ?E = "record_deferral (ae_events env) prof b w t events"
        show ?thesis
        proof (cases "choose_next env i ?W ?B")
          case (Inl err)
          with Some \<open>ae_attachment env i b = Inr att\<close> show ?thesis
            by (subst resolve_attached_branch_conflicts.simps) (simp add: a sound_resolution_def Let_def)
        next
          case (Inr a')
          have "U - ?B \<subset> U - branches" using b by blast
          then have "card (U - ?B) < card (U - branches)"
            using assms(1) by (intro psubset_card_mono) auto
          moreover have "b' \<in> U - ?B" if "a' = FixMr w' b' u' g' r'" for w' b' u' g' r'
            using chosen_repair_is_new [of env i ?W ?B w' b' u' g' r'] Inr that assms(2) by blast
          ultimately obtain res where res:
            "resolve_attached_branch_conflicts env prof (Suc i) a' ?W ?B ?E = Some res"
            "sound_resolution env (Suc i) a' ?B ?E res"
            using less.hyps [of ?B a' "Suc i" ?W ?E] by blast
          have "resolve_attached_branch_conflicts env prof i a work_ids branches events = Some res"
            using Some Inr \<open>ae_attachment env i b = Inr att\<close> res(1)
            by (subst resolve_attached_branch_conflicts.simps) (simp add: a Let_def)
          moreover have "sound_resolution env i a branches events res"
            using res(2) by (auto simp: sound_resolution_def split: sum.splits option.splits)
          ultimately show ?thesis by blast
        qed
      qed
    qed
  qed
qed

text \<open>The search for work whose branch is free ends: when the snapshots name finitely many branches,
  deferring attached branches returns after finitely many re-decisions, whatever the rounds observe.
  An action that replaces the decided one is no repair of a branch found attached, and the decided one
  is kept, with no event, only if its own branch was found free.\<close>

theorem attached_branches_avoided:
  assumes "finite U"
    and "\<And>j s. ae_snapshot env j = Inr s \<Longrightarrow> mr_branch ` set (merge_requests s) \<subseteq> U"
  shows "\<exists>res. defer_if_branch_attached env prof a events = Some res
           \<and> sound_resolution env 0 a {} events res"
proof -
  let ?U = "insert (act_branch a) U"
  have "\<And>j s. ae_snapshot env j = Inr s \<Longrightarrow> mr_branch ` set (merge_requests s) \<subseteq> ?U"
    using assms(2) by blast
  then show ?thesis
    unfolding defer_if_branch_attached_def using assms(1)
    by (intro resolve_sound [of ?U]) auto
qed

subsection \<open>Concrete streams used by the witnesses\<close>

definition example_clock :: "rust_str \<Rightarrow> int option" where
  "example_clock t = (if t = ''t1'' then Some 1 else if t = ''t2'' then Some 2 else None)"

definition example_event_env :: event_env where
  "example_event_env = \<lparr> ee_now = ''t2'', ee_redact = (\<lambda>s. s) \<rparr>"

definition example_event :: "event_type \<Rightarrow> rust_str \<Rightarrow> controller_event" where
  "example_event t details =
     \<lparr> ev_timestamp = ''t1'', ev_type = event_str t, ev_profile = Some ''p'', ev_work_id = Some ''#9'',
       ev_run_id = Some ''run'', ev_details = details, ev_reason_code = None,
       ev_contract = Some CURRENT_REVIEW_CONTRACT_VERSION, ev_plan = None \<rparr>"

definition example_clear :: ledger_entry where
  "example_clear = (new_ledger_entry ''t2'' ''p'' ''r'' ''none'' ''clear_attempts'' None)\<lparr> le_work_id := Some ''#9'' \<rparr>"

lemma normalize_example [simp]: "normalize_work_identity ''#9'' = ''#9''" by code_simp

definition example_deferral :: controller_event where
  "example_deferral = example_event DispatchFinished ''run: deferred_capacity: busy''"

lemma example_deferred:
  "''#9'' \<in> recently_capacity_deferred_work_ids example_clock [example_deferral] [] ''p'' ''r'' 3 None"
  by code_simp

lemma reset_lifts_deferral_witness:
  "''#9'' \<in> recently_capacity_deferred_work_ids example_clock [example_deferral] [] ''p'' ''r'' 3 None
   \<and> normalize_work_identity ''#9'' \<notin> recently_capacity_deferred_work_ids example_clock [example_deferral]
       ([] @ [example_clear]) ''p'' ''r'' 3 None"
  by (intro conjI example_deferred reset_lifts_deferral [where t = 2])
     (simp_all add: example_clear_def new_ledger_entry_def example_clock_def example_deferral_def
        example_event_def results_of_def reset_modes_def)

definition example_closed :: "(ledger_entry list \<times> controller_event list) \<times> nat" where
  "example_closed = reconcile_abandoned_dispatches example_event_env ''p'' ''r'' (Inr {}) []
     [example_event DispatchStarted ''dispatch'']"

lemma abandoned_runs_closed_once_witness:
  "snd example_closed = 1
   \<and> reconcile_abandoned_dispatches example_event_env ''p'' ''r'' (Inr {})
       (fst (fst example_closed)) (snd (fst example_closed)) = (fst example_closed, 0)"
  using abandoned_runs_closed_once [of example_event_env "''p''" "''r''" "{}" "[]"
      "[example_event DispatchStarted ''dispatch'']" "fst (fst example_closed)" "snd (fst example_closed)"
      "snd example_closed"]
  by (simp add: example_closed_def redactor_keeps_def example_event_env_def)
     (simp add: reconcile_abandoned_dispatches_def orphaned_dispatch_runs_def run_of_def example_event_def
        started_types_def finished_types_def List.map_filter_simps is_some_and_def)

definition example_blocked :: status_snapshot where
  "example_blocked = example_snapshot\<lparr> blocked_work_items :=
     [\<lparr> b_kind = ''human_required'', b_reason = Some ''gate'', b_message = None,
        b_source_reference = Some ''#9'', b_reason_code = None, b_remediation_plan = None \<rparr>] \<rparr>"

lemma blocked_items_reported_once_witness:
  "fst (report_blocked_work_items_once example_event_env ''p'' example_blocked []) = [(''#9'', Some ''gate'')]
   \<and> report_blocked_work_items_once example_event_env ''p'' example_blocked
       (snd (report_blocked_work_items_once example_event_env ''p'' example_blocked []))
     = ([], snd (report_blocked_work_items_once example_event_env ''p'' example_blocked []))"
proof
  show "fst (report_blocked_work_items_once example_event_env ''p'' example_blocked []) = [(''#9'', Some ''gate'')]"
    by (simp add: report_once_eq reportable_def example_blocked_def example_snapshot_def due_def
        matching_human_required_report_def report_code_def report_identity_def blocked_identity_def
        blocked_mr_def unwrap_or_def is_some_and_def)
  show "report_blocked_work_items_once example_event_env ''p'' example_blocked
       (snd (report_blocked_work_items_once example_event_env ''p'' example_blocked []))
     = ([], snd (report_blocked_work_items_once example_event_env ''p'' example_blocked []))"
    by (rule blocked_items_reported_once [OF _ _ prod.collapse [symmetric]])
       (auto simp: redactor_keeps_def example_event_env_def reportable_def example_blocked_def
          example_snapshot_def)
qed

definition example_attach :: attach_env where
  "example_attach =
     \<lparr> ae_attachment = (\<lambda>i b. Inr (if b = ''gah/a'' then Some \<lparr> ba_path = ''/w'', ba_clean = True \<rparr> else None)),
       ae_snapshot = (\<lambda>i. Inr repair_snapshot), ae_now_plus = (\<lambda>i. example_now),
       ae_events = example_event_env, ae_excluded = {} \<rparr>"

lemma attached_branches_avoided_witness:
  "\<exists>res. defer_if_branch_attached example_attach ''p'' (FixMr (Some ''#9'') ''gah/a'' None None ''red'') [] = Some res
      \<and> sound_resolution example_attach 0 (FixMr (Some ''#9'') ''gah/a'' None None ''red'') {} [] res"
  by (rule attached_branches_avoided [of "{''gah/a''}"])
     (auto simp: example_attach_def repair_snapshot_def example_mr_def)

end
