(* ===== verification/Loop_Pass_Props.thy ===== *)
theory Loop_Pass_Props
  imports Loop_Pass Recovery_Props Ledger_Props
begin

text \<open>
  Properties of a controller pass: it ends although items are held elsewhere (and the one kind of item
  for which it does not), what a stuck loop leads to, and the budgets of a parallel batch.
\<close>

subsection \<open>Where a decided work item comes from\<close>

definition candidate_ids :: "status_snapshot \<Rightarrow> rust_str set" where
  "candidate_ids s =
     normalize_work_identity ` set (List.map_filter mr_work_id (merge_requests s))
     \<union> normalized_work_identity ` set (available_tickets s)
     \<union> normalize_work_identity ` set (List.map_filter ir_work_id (issue_intake_rejections s))"

lemma candidate_ids_iff:
  "i \<in> candidate_ids s \<longleftrightarrow>
     (\<exists>mr \<in> set (merge_requests s). \<exists>w. mr_work_id mr = Some w \<and> i = normalize_work_identity w)
     \<or> (\<exists>t \<in> set (available_tickets s). i = normalized_work_identity t)
     \<or> (\<exists>r \<in> set (issue_intake_rejections s). \<exists>w. ir_work_id r = Some w \<and> i = normalize_work_identity w)"
  by (simp add: candidate_ids_def image_iff set_map_filter Bex_def) blast

lemma candidate_mr:
  "mr \<in> set (merge_requests s) \<Longrightarrow> mr_work_id mr = Some w \<Longrightarrow> normalize_work_identity w \<in> candidate_ids s"
  unfolding candidate_ids_iff by blast

lemma candidate_rejection:
  "i \<in> set (issue_intake_rejections s) \<Longrightarrow> ir_work_id i = Some w
     \<Longrightarrow> normalize_work_identity w \<in> candidate_ids s"
  unfolding candidate_ids_iff by blast

text \<open>The scanner fills the normalised identity of a ticket from its work id, or from its path.\<close>

definition tickets_normalized :: "status_snapshot \<Rightarrow> bool" where
  "tickets_normalized s =
     list_all (\<lambda>t. normalized_work_identity t = normalize_work_identity (ticket_key t)) (available_tickets s)"

lemma finite_candidate_ids [simp]: "finite (candidate_ids s)"
  by (simp add: candidate_ids_def)

lemma candidate_ids_retain:
  "candidate_ids (retain_snapshot_candidates ids branches s)
     \<subseteq> candidate_ids s - normalize_work_identity ` ids"
proof
  fix i
  assume i: "i \<in> candidate_ids (retain_snapshot_candidates ids branches s)"
  define I where "I = normalize_work_identity ` ids"
  from i consider
    (mr) mr w where "mr \<in> set (merge_requests s)" "mr_work_id mr = Some w" "i = normalize_work_identity w" "i \<notin> I"
  | (ticket) t where "t \<in> set (available_tickets s)" "i = normalized_work_identity t" "i \<notin> I"
  | (rejection) r w where "r \<in> set (issue_intake_rejections s)" "ir_work_id r = Some w"
      "i = normalize_work_identity w" "i \<notin> I"
    unfolding candidate_ids_iff retain_snapshot_candidates_def Let_def I_def [symmetric] by auto
  then show "i \<in> candidate_ids s - normalize_work_identity ` ids"
    unfolding I_def [symmetric] by cases (auto simp: candidate_ids_iff)
qed

lemma retain_retain:
  "retain_snapshot_candidates I B (retain_snapshot_candidates J C s)
     = retain_snapshot_candidates (I \<union> J) (B \<union> C) s"
proof -
  let ?I = "normalize_work_identity ` I" and ?J = "normalize_work_identity ` J"
  have "filter (\<lambda>x. \<not> is_some_and (f x) (\<lambda>w. normalize_work_identity w \<in> ?I) \<and> g x \<notin> B)
      (filter (\<lambda>x. \<not> is_some_and (f x) (\<lambda>w. normalize_work_identity w \<in> ?J) \<and> g x \<notin> C) xs)
      = filter (\<lambda>x. \<not> is_some_and (f x) (\<lambda>w. normalize_work_identity w \<in> ?I \<union> ?J) \<and> g x \<notin> B \<union> C) xs"
    for f :: "sync_mr \<Rightarrow> rust_str option" and g xs
    unfolding filter_filter by (rule filter_cong) (auto simp: is_some_and_iff)
  moreover have "filter (\<lambda>x. \<not> is_some_and (f x) (\<lambda>w. normalize_work_identity w \<in> ?I))
      (filter (\<lambda>x. \<not> is_some_and (f x) (\<lambda>w. normalize_work_identity w \<in> ?J)) xs)
      = filter (\<lambda>x. \<not> is_some_and (f x) (\<lambda>w. normalize_work_identity w \<in> ?I \<union> ?J)) xs"
    for f :: "issue_intake_rejection \<Rightarrow> rust_str option" and xs
    unfolding filter_filter by (rule filter_cong) (auto simp: is_some_and_iff)
  moreover have "filter (\<lambda>x. f x \<notin> ?I) (filter (\<lambda>x. f x \<notin> ?J) xs) = filter (\<lambda>x. f x \<notin> ?I \<union> ?J) xs"
    for f :: "available_ticket \<Rightarrow> rust_str" and xs
    unfolding filter_filter by (rule filter_cong) auto
  ultimately show ?thesis
    by (simp only: retain_snapshot_candidates_def Let_def image_Un status_snapshot.simps
        status_snapshot.update_convs status_snapshot.select_convs) simp
qed

lemma tickets_normalized_retain:
  "tickets_normalized s \<Longrightarrow> tickets_normalized (retain_snapshot_candidates ids branches s)"
  by (auto simp: tickets_normalized_def retain_snapshot_candidates_def Let_def list_all_iff)

lemma pm_parents_retain [simp]:
  "pm_parent_states (retain_snapshot_candidates ids branches s) = pm_parent_states s"
  by (simp add: retain_snapshot_candidates_def Let_def)

lemma lifecycle_blocks_mr:
  "mark_ready_action (buckets s) = Some a \<Longrightarrow> \<exists>mr \<in> set (merge_requests s). mr_work_id mr = work_id_of a"
  "merge_action s (buckets s) = Some a \<Longrightarrow> \<exists>mr \<in> set (merge_requests s). mr_work_id mr = work_id_of a"
  "review_action (buckets s) = Some a \<Longrightarrow> \<exists>mr \<in> set (merge_requests s). mr_work_id mr = work_id_of a"
  "fix_action (buckets s) = Some a \<Longrightarrow> \<exists>mr \<in> set (merge_requests s). mr_work_id mr = work_id_of a"
  by (auto simp: mark_ready_action_def merge_action_def review_action_def fix_action_def snapshot_simps
      dest!: first_in_set split: if_splits)

lemma decided_candidate:
  assumes "decide_next_action now s = a" "selects_work a" "kind a \<noteq> ''reconcile_pm_parent''"
    and "tickets_normalized s" "work_id_of a = Some w"
  shows "normalize_work_identity w \<in> candidate_ids s"
proof -
  have mr: "normalize_work_identity w \<in> candidate_ids s"
    if "\<exists>mr \<in> set (merge_requests s). mr_work_id mr = work_id_of a"
    using that assms(5) by (auto intro: candidate_mr)
  have ticket: "normalize_work_identity w \<in> candidate_ids s"
    if "t \<in> set (available_tickets s)" "work_id_of a = Some (ticket_key t)" for t
    using that assms(4,5) by (auto simp: candidate_ids_def tickets_normalized_def list_all_iff)
  show ?thesis
  proof (cases a)
    case (ReviewMr x1 x2 x3 x4)
    with decide_review_iff [of a now s] assms(1) show ?thesis by (auto intro!: mr dest: lifecycle_blocks_mr)
  next
    case (MarkReadyForReview x1 x2 x3 x4)
    with decide_ready_iff [of a now s] assms(1) show ?thesis by (auto intro!: mr dest: lifecycle_blocks_mr)
  next
    case (FixMr x1 x2 x3 x4 x5)
    with decide_fix_iff [of a now s] assms(1) show ?thesis by (auto intro!: mr dest: lifecycle_blocks_mr)
  next
    case (MergeMr x1 x2 x3 x4 x5)
    with decide_merge_iff [of a now s] assms(1) show ?thesis by (auto intro!: mr dest: lifecycle_blocks_mr)
  next
    case (DispatchTicket x1 x2 x3 x4 x5)
    with decide_dispatch_iff [of a now s] assms(1) have d: "dispatch_action s = Some a" by simp
    then obtain t where "t \<in> set (available_tickets s)" "work_id_of a = at_work_id t" by (rule dispatch_actionD)
    with assms(5) show ?thesis by (intro ticket [of t]) (simp_all add: ticket_key_def)
  next
    case (Retry x1 x2 x3)
    with decide_retry_iff [of a now s] assms(1) have "retry_action s = Some a" by simp
    then show ?thesis by (rule retry_actionD) (rule ticket)
  next
    case (Escalate x1 x2 x3)
    with decide_escalate_iff [of a now s] assms(1) have "escalate_action s = Some a" by simp
    then show ?thesis by (rule escalate_actionD) (rule ticket)
  next
    case (DecomposeIssue x1 x2 x3 x4)
    with decide_decompose_iff [of a now s] assms(1) have "planning_action s = Some a" by simp
    then obtain i where i: "i \<in> set (issue_intake_rejections s)" "planning_candidate s i"
      "work_id_of a = Some (unwrap_or (ir_work_id i) (ir_ticket_path i))"
      by (auto simp: planning_action_def dest!: first_sort_key_in)
    then obtain v where "ir_work_id i = Some v" by (auto simp: planning_candidate_def is_some_and_iff)
    with i assms(5) show ?thesis by (auto intro: candidate_rejection)
  qed (use assms(2,3) in \<open>simp_all add: selects_work_def\<close>)
qed

subsection \<open>Moving past held work\<close>

text \<open>A selection runs the decision of its view whenever it reports that the item is held elsewhere.\<close>

definition runs_the_decision :: "'st selection \<Rightarrow> (nat \<Rightarrow> nat \<Rightarrow> rust_str) \<Rightarrow> bool" where
  "runs_the_decision select_and_run now_plus \<longleftrightarrow>
     (\<forall>i view excluded st. \<exists>st' res. select_and_run i view excluded st = Some (st', res)
        \<and> (\<forall>a outcome. res = Inr (a, outcome) \<and> outcome_held_elsewhere outcome
             \<longrightarrow> selects_work a \<and> (\<exists>j. decide_next_action (now_plus j) view = a)))"

definition no_finished_parent :: "status_snapshot \<Rightarrow> bool" where
  "no_finished_parent s = list_all (\<lambda>p. \<not> (completed p \<and> \<not> reconciled p)) (pm_parent_states s)"

lemma decide_reconcile_iff:
  "kind a = ''reconcile_pm_parent'' \<Longrightarrow> decide_next_action now s = a \<longleftrightarrow>
     incomplete_observation s = None \<and> profile_blocked s = None
     \<and> lifecycle_action now s (buckets s) = None \<and> reconcile_action s = Some a"
  by (simp add: decide_unfold block_excluded)

lemma no_reconcile:
  assumes "no_finished_parent s"
  shows "kind (decide_next_action now s) \<noteq> ''reconcile_pm_parent''"
proof
  assume "kind (decide_next_action now s) = ''reconcile_pm_parent''"
  then have "reconcile_action s = Some (decide_next_action now s)" using decide_reconcile_iff by blast
  with assms show False
    by (auto simp: no_finished_parent_def reconcile_action_def list_all_iff dest!: find_SomeD)
qed

text \<open>A pass ends although items are held elsewhere: when every selection runs the decision of its
  view, no finished plan parent waits for its reconciliation and the tickets carry their normalised
  identities, moving past held work returns; its outcome is one that is not held elsewhere, or an
  error, or the held one after which no other work is left.\<close>

theorem moving_past_held_work_ends:
  assumes "runs_the_decision select_and_run now_plus" "no_finished_parent view" "tickets_normalized view"
  shows "\<exists>st' res. run_moving_past_held_work select_and_run now_plus i view excluded st = Some (st', res)
     \<and> (\<forall>a outcome w. res = Inr (a, outcome) \<and> outcome_held_elsewhere outcome \<and> work_id_of a = Some w \<longrightarrow>
          (\<exists>j ids v. w \<in> ids \<and> v = retain_snapshot_candidates ids {} view
             \<and> \<not> selects_work (decide_next_action (now_plus j) v)))"
  using assms(2,3)
proof (induction "card (candidate_ids view)" arbitrary: i view excluded st rule: less_induct)
  case less
  from assms(1) obtain st1 res where sel: "select_and_run i view excluded st = Some (st1, res)"
    and dec: "\<And>a outcome. res = Inr (a, outcome) \<Longrightarrow> outcome_held_elsewhere outcome
      \<Longrightarrow> selects_work a \<and> (\<exists>j. decide_next_action (now_plus j) view = a)"
    unfolding runs_the_decision_def by meson
  show ?case
  proof (cases "\<exists>a outcome w. res = Inr (a, outcome) \<and> work_id_of a = Some w \<and> outcome_held_elsewhere outcome")
    case False
    then have "run_moving_past_held_work select_and_run now_plus i view excluded st = Some (st1, res)"
      by (subst run_moving_past_held_work.simps) (auto simp: sel split: sum.splits option.splits)
    with False show ?thesis by blast
  next
    case True
    then obtain a outcome w where r: "res = Inr (a, outcome)" "work_id_of a = Some w"
      and held: "outcome_held_elsewhere outcome" by blast
    let ?ids = "insert w excluded"
    let ?v = "retain_snapshot_candidates ?ids {} view"
    from dec [OF r(1) held] obtain j where a: "selects_work a" "decide_next_action (now_plus j) view = a"
      by blast
    have w: "normalize_work_identity w \<in> candidate_ids view"
      using decided_candidate [OF a(2,1) _ less.prems(2) r(2)] no_reconcile [OF less.prems(1), of "now_plus j"] a(2)
      by simp
    show ?thesis
    proof (cases "selects_work (decide_next_action (now_plus i) ?v)")
      case False
      then have "run_moving_past_held_work select_and_run now_plus i view excluded st = Some (st1, res)"
        by (subst run_moving_past_held_work.simps) (simp add: sel r held Let_def)
      moreover have "\<exists>j ids v. w \<in> ids \<and> v = retain_snapshot_candidates ids {} view
          \<and> \<not> selects_work (decide_next_action (now_plus j) v)"
        using False by (intro exI [of _ i] exI [of _ ?ids] exI [of _ ?v]) simp
      ultimately show ?thesis by (intro exI [of _ st1] exI [of _ res]) (simp add: r)
    next
      case True
      then have step: "run_moving_past_held_work select_and_run now_plus i view excluded st
          = run_moving_past_held_work select_and_run now_plus (Suc i) ?v ?ids st1"
        by (subst run_moving_past_held_work.simps) (simp add: sel r held Let_def)
      have "candidate_ids ?v \<subset> candidate_ids view"
        using candidate_ids_retain [of ?ids "{}" view] w by blast
      then have lt: "card (candidate_ids ?v) < card (candidate_ids view)"
        by (intro psubset_card_mono) simp_all
      have nf: "no_finished_parent ?v" and tn: "tickets_normalized ?v"
        using less.prems by (simp_all add: no_finished_parent_def tickets_normalized_retain)
      from less.hyps [OF lt nf tn, where i = "Suc i" and excluded = ?ids and st = st1]
      obtain st' res' where rest:
        "run_moving_past_held_work select_and_run now_plus (Suc i) ?v ?ids st1 = Some (st', res')"
        "\<forall>a outcome w. res' = Inr (a, outcome) \<and> outcome_held_elsewhere outcome \<and> work_id_of a = Some w \<longrightarrow>
           (\<exists>j ids v. w \<in> ids \<and> v = retain_snapshot_candidates ids {} ?v
             \<and> \<not> selects_work (decide_next_action (now_plus j) v))"
        by (elim exE conjE) (rule that)
      have twice: "retain_snapshot_candidates ids {} ?v = retain_snapshot_candidates (ids \<union> ?ids) {} view" for ids
        by (simp add: retain_retain)
      have "\<exists>j ids v. w' \<in> ids \<and> v = retain_snapshot_candidates ids {} view
             \<and> \<not> selects_work (decide_next_action (now_plus j) v)"
        if last_one: "res' = Inr (a', o')" "outcome_held_elsewhere o'" "work_id_of a' = Some w'" for a' o' w'
      proof -
        from rest(2) last_one obtain j' ids' where "w' \<in> ids'"
          "\<not> selects_work (decide_next_action (now_plus j') (retain_snapshot_candidates ids' {} ?v))"
          by blast
        with twice [of ids'] show ?thesis by (intro exI [of _ j'] exI [of _ "ids' \<union> ?ids"]) simp
      qed
      with rest(1) step show ?thesis by (intro exI [of _ st'] exI [of _ res']) simp
    qed
  qed
qed

text \<open>A finished plan parent is not among the candidates that an exclusion removes.\<close>

lemma retain_fields [simp]:
  "errors (retain_snapshot_candidates I B s) = errors s"
  "blockers (retain_snapshot_candidates I B s) = blockers s"
  "blocked_work_items (retain_snapshot_candidates I B s) = blocked_work_items s"
  "profile (retain_snapshot_candidates I B s) = profile s"
  "fix_attempt_counts (retain_snapshot_candidates I B s) = fix_attempt_counts s"
  "merge_attempt_counts (retain_snapshot_candidates I B s) = merge_attempt_counts s"
  "review_held_work_ids (retain_snapshot_candidates I B s) = review_held_work_ids s"
  by (simp_all add: retain_snapshot_candidates_def Let_def)

lemma mr_slot_retain [simp]: "mr_slot (retain_snapshot_candidates I B s) mr = mr_slot s mr"
  by (simp add: mr_slot_def ready_slot_def work_item_hold_def fix_attempts_def merge_attempts_def
      cong: option.case_cong if_cong)

lemma lifecycle_None_iff:
  "lifecycle_action now s (buckets s) = None \<longleftrightarrow>
     (\<forall>mr \<in> set (merge_requests s).
        mr_slot s mr \<notin> {MarkReady, Mergeable, NeedsReview, NeedsRepair, Recheck})"
  by (auto simp: lifecycle_action_def mark_ready_action_def merge_action_def review_action_def
      fix_action_def recheck_action_def snapshot_simps filter_empty_conv)

lemma parent_survives_exclusion:
  assumes "decide_next_action now s = a" "kind a = ''reconcile_pm_parent''"
  shows "decide_next_action now' (retain_snapshot_candidates I B s) = a"
proof -
  let ?s = "retain_snapshot_candidates I B s"
  from assms have d: "incomplete_observation s = None" "profile_blocked s = None"
    "lifecycle_action now s (buckets s) = None" "reconcile_action s = Some a"
    by (simp_all add: decide_reconcile_iff)
  have "incomplete_observation ?s = None" "profile_blocked ?s = None" "reconcile_action ?s = Some a"
    using d by (simp_all add: incomplete_observation_def profile_blocked_def reconcile_action_def)
  moreover have "set (merge_requests ?s) \<subseteq> set (merge_requests s)"
    by (auto simp: retain_snapshot_candidates_def Let_def)
  then have "lifecycle_action now' ?s (buckets ?s) = None"
    using d(3) unfolding lifecycle_None_iff by (auto simp: subset_iff)
  ultimately show ?thesis using assms(2) by (simp add: decide_reconcile_iff)
qed

definition refuses_parent ::
  "'st selection \<Rightarrow> (nat \<Rightarrow> nat \<Rightarrow> rust_str) \<Rightarrow> next_action \<Rightarrow> bool" where
  "refuses_parent select_and_run now_plus a \<longleftrightarrow>
     (\<forall>i v ids st. decide_next_action (now_plus i) v = a \<longrightarrow>
        (\<exists>st' outcome. select_and_run i v ids st = Some (st', Inr (a, outcome))
           \<and> outcome_held_elsewhere outcome))"

text \<open>When the reconciliation of a finished parent is decided and its claim is held elsewhere, the pass
  selects it again and again without a pause: for as long as the claim is held it does not return.\<close>

theorem held_parent_spins:
  assumes "decide_next_action now view = a" "kind a = ''reconcile_pm_parent''"
    and "refuses_parent select_and_run now_plus a"
  shows "run_moving_past_held_work select_and_run now_plus i view excluded st = None"
proof -
  let ?P = "\<lambda>sel np i v ids st res.
      sel = select_and_run \<and> np = now_plus \<and> (\<exists>I B. v = retain_snapshot_candidates I B view) \<longrightarrow> False"
  have never: "?P select_and_run now_plus i v ids st res"
    if "run_moving_past_held_work select_and_run now_plus i v ids st = Some res" for i v ids st res
  proof (rule run_moving_past_held_work.raw_induct [where P = ?P, OF _ that], goal_cases)
    case (1 run sel np i v ids st res)
    show ?case
    proof
      assume "sel = select_and_run \<and> np = now_plus \<and> (\<exists>I B. v = retain_snapshot_candidates I B view)"
      then obtain I B where eqs: "sel = select_and_run" "np = now_plus"
        and v: "v = retain_snapshot_candidates I B view" by blast
      let ?v = "retain_snapshot_candidates (insert (act_id a) ids) {} v"
      have "decide_next_action (now_plus i) v = a"
        unfolding v using assms(1,2) by (rule parent_survives_exclusion)
      with assms(3) obtain st' outcome where sel: "select_and_run i v ids st = Some (st', Inr (a, outcome))"
        "outcome_held_elsewhere outcome" unfolding refuses_parent_def by blast
      have v': "?v = retain_snapshot_candidates (insert (act_id a) ids \<union> I) ({} \<union> B) view"
        unfolding v by (rule retain_retain)
      have "decide_next_action (now_plus i) ?v = a"
        unfolding v' using assms(1,2) by (rule parent_survives_exclusion)
      moreover have "selects_work a" "work_id_of a = Some (act_id a)"
        using assms(2) by (cases a; simp add: selects_work_def)+
      ultimately have "run select_and_run now_plus (Suc i) ?v (insert (act_id a) ids) st' = Some res"
        using 1(2) sel by (simp add: eqs Let_def)
      from 1(1) [OF this] v' show False by blast
    qed
  qed
  have "view = retain_snapshot_candidates {} {} view"
    by (simp add: retain_snapshot_candidates_def is_some_and_def split: option.splits)
  then show ?thesis using never [of i view excluded st] by (cases "run_moving_past_held_work select_and_run now_plus i view excluded st") blast+
qed

subsection \<open>Stuck loops\<close>




text \<open>Passes that find an item held elsewhere record the decision each time and no boundary: after three
  of them the item counts as stuck, although it was only being worked on by somebody else.\<close>

definition skipped_pass ::
  "event_env \<Rightarrow> bool \<Rightarrow> rust_str \<Rightarrow> next_action \<Rightarrow> rust_str \<Rightarrow> controller_event list \<Rightarrow> controller_event list" where
  "skipped_pass env known prof a w events =
     fst (record_stop_event env known prof a LoopStopped (held_outcome w)
            (record_action_events env known prof a a None events))"

theorem held_item_becomes_stuck:
  assumes "selects_work a" "work_id_of a = Some w" "\<And>s. ee_redact env s = s"
  shows "is_some (detect_stuck_loop parse_ts
           ((skipped_pass env known prof a w ^^ 3) events) prof a None None)"
proof -
  have red: "ee_redact env = (\<lambda>s. s)" by (rule ext) (rule assms(3))
  have r: "redact_event (ee_redact env) e = e" for e
    by (simp add: redact_event_def red option.map_ident)
  have nr: "\<not> human_required_already_reported h prof a" for h
    using assms(1) by (cases a) (simp_all add: human_required_already_reported_def selects_work_def)
  have k: "kind a \<noteq> ''human_required''" using assms(1) by (cases a) (simp_all add: selects_work_def)
  have pre: "starts_with (kind a @ '':'') (kind a @ CHR '':'' # rest)" for rest
    by (simp add: starts_with_iff)
  show ?thesis
    unfolding stuck_iff_three_in_a_row using assms(2) nr k pre
    by (simp add: pre numeral_3_eq_3 skipped_pass_def record_stop_event_def record_action_events_def Let_def
        record_with_reason_code_and_plan_def record_event_def record_with_run_id_and_reason_code_def
        append_event_def r decisions_since_def concerns_item_def quiet_boundary_def history_ends_def
        other_generation_def CURRENT_REVIEW_CONTRACT_VERSION_def unwrap_or_def is_some_and_def)
qed

subsection \<open>A whole pass\<close>

text \<open>A snapshot whose items are among \<open>U\<close>, with the scanner's identities and no plan parent to reconcile.\<close>

definition fair :: "rust_str set \<Rightarrow> rust_str set \<Rightarrow> status_snapshot \<Rightarrow> bool" where
  "fair ids branches s =
     (candidate_ids s \<subseteq> ids \<and> mr_branch ` set (merge_requests s) \<subseteq> branches
      \<and> tickets_normalized s \<and> no_finished_parent s)"

lemma fair_retain: "fair U V s \<Longrightarrow> fair U V (retain_snapshot_candidates I B s)"
proof -
  have "mr_branch ` set (merge_requests (retain_snapshot_candidates I B s)) \<subseteq> mr_branch ` set (merge_requests s)"
    by (auto simp: retain_snapshot_candidates_def Let_def)
  then show "fair U V s \<Longrightarrow> fair U V (retain_snapshot_candidates I B s)"
    using candidate_ids_retain [of I B s]
    by (simp add: fair_def tickets_normalized_retain no_finished_parent_def) blast
qed

lemma decided_fresh:
  assumes "fair U V s" "selects_work (decide_next_action now s)" "work_id_of (decide_next_action now s) = Some w"
  shows "normalize_work_identity w \<in> candidate_ids s"
  using assms no_reconcile [of s now]
  by (intro decided_candidate [OF refl]) (auto simp: fair_def)

lemma decided_outside:
  assumes "fair U V s" "selects_work (decide_next_action now (retain_snapshot_candidates I B s))"
    and "work_id_of (decide_next_action now (retain_snapshot_candidates I B s)) = Some w"
  shows "normalize_work_identity w \<in> U - normalize_work_identity ` I"
  using decided_fresh [OF fair_retain [OF assms(1)] assms(2,3)] candidate_ids_retain [of I B s] assms(1)
  by (auto simp: fair_def)

lemma resolved_source:
  assumes "resolve_attached_branch_conflicts env prof i a ids branches events = Some (events', Inr (Some a'))"
  shows "a' = a \<or> (\<exists>j I B s. ae_snapshot env j = Inr s
           \<and> a' = decide_next_action (ae_now_plus env j) (retain_snapshot_candidates (ae_excluded env \<union> I) B s))"
proof -
  let ?src = "\<lambda>env a a'. a' = a \<or> (\<exists>j I B s. ae_snapshot env j = Inr s
           \<and> a' = decide_next_action (ae_now_plus env j) (retain_snapshot_candidates (ae_excluded env \<union> I) B s))"
  have "\<forall>events' a'. res = (events', Inr (Some a')) \<longrightarrow> ?src env a a'"
    if "resolve_attached_branch_conflicts env prof i a ids branches events = Some res" for res
  proof (rule resolve_attached_branch_conflicts.raw_induct [where
        P = "\<lambda>env prof i a ids branches events res. \<forall>events' a'. res = (events', Inr (Some a')) \<longrightarrow> ?src env a a'",
        OF _ that], goal_cases)
    case (1 run env prof i a ids branches events res)
    show ?case
    proof (intro allI impI)
      fix events' a'
      assume res: "res = (events', Inr (Some a'))"
      show "?src env a a'"
      proof (cases "a' = a")
        case False
        with 1(2) res obtain w b u g r t where a: "a = FixMr w b u g r"
          and att: "ae_attachment env i b = Inr (Some t)"
          by (auto simp: resolved_def split: next_action.splits sum.splits option.splits if_splits)
        have "(case choose_next env i (with_identity w ids) (insert b branches) of
            Inl err \<Rightarrow> Some (record_deferral (ae_events env) prof b w t events, Inl err)
          | Inr n \<Rightarrow> run env prof (Suc i) n (with_identity w ids) (insert b branches)
              (record_deferral (ae_events env) prof b w t events)) = Some res"
          using 1(2) by (simp add: a att Let_def)
        with res obtain n where
          n: "choose_next env i (with_identity w ids) (insert b branches) = Inr n"
          and rest: "run env prof (Suc i) n (with_identity w ids) (insert b branches)
            (record_deferral (ae_events env) prof b w t events) = Some res"
          by (auto split: sum.splits)
        from n have "\<exists>j I B s. ae_snapshot env j = Inr s
            \<and> n = decide_next_action (ae_now_plus env j) (retain_snapshot_candidates (ae_excluded env \<union> I) B s)"
          by (auto simp: choose_next_def split: sum.splits)
        moreover from 1(1) [OF rest] res have "?src env n a'" by blast
        ultimately show ?thesis by blast
      qed simp
    qed
  qed
  with assms show ?thesis by blast
qed

lemma resolve_returns:
  assumes "finite V" "\<And>j s. ae_snapshot env j = Inr s \<Longrightarrow> mr_branch ` set (merge_requests s) \<subseteq> V"
  shows "\<exists>events' res. defer_if_branch_attached env prof a events = Some (events', res)"
proof -
  let ?V = "insert (act_branch a) V"
  have "\<And>j s. ae_snapshot env j = Inr s \<Longrightarrow> mr_branch ` set (merge_requests s) \<subseteq> ?V"
    using assms(2) by blast
  then show ?thesis
    using resolve_sound [of ?V env a "{}" prof 0 "{}" events] assms(1)
    by (auto simp: defer_if_branch_attached_def)
qed

text \<open>Executing an action reports an item as held elsewhere only for an action that selects work.\<close>

definition skips_only_work :: "pass_env \<Rightarrow> bool" where
  "skips_only_work env \<longleftrightarrow>
     (\<forall>a st st' outcome. pe_execute env a st = (st', Inr outcome) \<and> outcome_held_elsewhere outcome
        \<longrightarrow> selects_work a)"

definition fair_pass :: "rust_str set \<Rightarrow> rust_str set \<Rightarrow> pass_env \<Rightarrow> bool" where
  "fair_pass U V env \<longleftrightarrow>
     finite U \<and> finite V \<and> skips_only_work env
     \<and> (\<forall>s. pe_fresh env = Inr s \<longrightarrow> fair U V s)
     \<and> (\<forall>j s. ae_snapshot (pe_attach env) j = Inr s \<longrightarrow> fair U V s)"

lemma gated_source:
  assumes "gated_action env view excluded history entries original st = (st', Inr a)" "selects_work a"
  shows "a = original \<or> (\<exists>I s. pe_fresh env = Inr s
           \<and> a = decide_next_action (pe_now_plus env) (retain_snapshot_candidates (excluded \<union> I) {} s))"
proof (cases "detect_stuck_loop (pe_parse_ts env) history (pe_profile env) original
    (Option.bind (work_id_of original) (latest_clear_attempts_timestamp entries (pe_profile env) (pe_repo env)))
    (action_review_generation view original)")
  case None
  with assms(1) show ?thesis by (simp add: gated_action_def)
next
  case (Some why)
  with assms(1) have "redispatch_stuck env original why excluded = Inr a" by (simp add: gated_action_def)
  moreover have "a \<noteq> HumanRequired x1 x2 x3 x4" for x1 x2 x3 x4
    using assms(2) by (auto simp: selects_work_def)
  ultimately show ?thesis
    unfolding redispatch_stuck_def Let_def by (auto split: sum.splits if_splits)
qed

lemma held_selects_work:
  assumes "execute_selected env a st = (st', Inr outcome)" "outcome_held_elsewhere outcome" "skips_only_work env"
  shows "selects_work a"
proof (cases "claim_identity a")
  case None
  with assms show ?thesis unfolding execute_selected_def skips_only_work_def by auto
next
  case (Some w)
  then show ?thesis by (auto simp: claim_identity_def split: if_splits)
qed

lemma selection_returns:
  assumes "fair_pass U V env"
  shows "\<exists>st' res. run_selected_action env history entries view excluded st = Some (st', res)"
proof -
  obtain st1 g where g: "gated_action env view excluded history entries
      (decide_next_action (pe_now_plus env) view) st = (st1, g)" by fastforce
  show ?thesis
  proof (cases g)
    case (Inl err)
    with g show ?thesis by (simp add: run_selected_action_def)
  next
    case (Inr a)
    have "\<exists>events' res. defer_if_branch_attached ((pe_attach env)\<lparr> ae_excluded := excluded \<rparr>)
        (pe_profile env) a (ps_events st1) = Some (events', res)"
      using assms by (intro resolve_returns [of V]) (auto simp: fair_pass_def fair_def)
    then obtain events' res where d: "defer_if_branch_attached ((pe_attach env)\<lparr> ae_excluded := excluded \<rparr>)
        (pe_profile env) a (ps_events st1) = Some (events', res)" by blast
    with g Inr show ?thesis
      by (auto simp: run_selected_action_def Let_def split: sum.splits prod.splits)
  qed
qed

lemma selectionE:
  assumes "run_selected_action env history entries view excluded st = Some (st', Inr (a, outcome))"
  obtains st1 g events' r st2 where
    "gated_action env view excluded history entries (decide_next_action (pe_now_plus env) view) st = (st1, Inr g)"
    "defer_if_branch_attached ((pe_attach env)\<lparr> ae_excluded := excluded \<rparr>) (pe_profile env) g (ps_events st1)
       = Some (events', Inr r)"
    "a = unwrap_or r g" "execute_selected env a st2 = (st', Inr outcome)"
proof -
  obtain st1 gr where g: "gated_action env view excluded history entries
      (decide_next_action (pe_now_plus env) view) st = (st1, gr)" by fastforce
  with assms obtain g where gr: "gr = Inr g" by (cases gr) (auto simp: run_selected_action_def)
  obtain d where d: "defer_if_branch_attached ((pe_attach env)\<lparr> ae_excluded := excluded \<rparr>) (pe_profile env) g
      (ps_events st1) = Some d"
    using assms by (auto simp: run_selected_action_def Let_def g gr bind_eq_Some_conv)
  obtain events' rr where dd: "d = (events', rr)" by fastforce
  with assms obtain r where rr: "rr = Inr r" by (cases rr) (auto simp: run_selected_action_def g gr d)
  let ?a = "unwrap_or r g"
  let ?st2 = "st1\<lparr> ps_events := record_action_events (pe_events env) True (pe_profile env)
    (decide_next_action (pe_now_plus env) view) ?a
    (action_review_generation view (decide_next_action (pe_now_plus env) view)) events' \<rparr>"
  obtain st3 x where x: "execute_selected env ?a ?st2 = (st3, x)" by fastforce
  with assms have "x = Inr outcome" "st3 = st'" "a = ?a"
    by (cases x; simp add: run_selected_action_def g gr d dd rr Let_def)+
  with that [OF g [unfolded gr] d [unfolded dd rr]] x show thesis by simp
qed

lemma selection_is_new:
  assumes "fair_pass U V env" "fair U V view"
    and "candidate_ids view \<inter> normalize_work_identity ` excluded = {}"
    and "run_selected_action env history entries view excluded st = Some (st', Inr (a, outcome))"
    and "outcome_held_elsewhere outcome" "work_id_of a = Some w"
  shows "normalize_work_identity w \<in> U - normalize_work_identity ` excluded"
proof -
  let ?original = "decide_next_action (pe_now_plus env) view"
  let ?env = "(pe_attach env)\<lparr> ae_excluded := excluded \<rparr>"
  from assms(4) obtain st1 g events' r st2 where
    g: "gated_action env view excluded history entries ?original st = (st1, Inr g)"
    and d: "defer_if_branch_attached ?env (pe_profile env) g (ps_events st1) = Some (events', Inr r)"
    and a: "a = unwrap_or r g" and ex: "execute_selected env a st2 = (st', Inr outcome)"
    by (rule selectionE)
  have work: "selects_work a"
    using held_selects_work [OF ex assms(5)] assms(1) by (simp add: fair_pass_def)
  have other: "normalize_work_identity w \<in> U - normalize_work_identity ` excluded"
    if "a = decide_next_action now (retain_snapshot_candidates (excluded \<union> I) B s)" "fair U V s" for now I B s
    using decided_outside [OF that(2), of now "excluded \<union> I" B w] work assms(6) that(1) by (simp add: image_Un)
  have gated: "normalize_work_identity w \<in> U - normalize_work_identity ` excluded" if "a = g"
  proof -
    from gated_source [OF g] work that consider "a = ?original"
      | (fresh) I s where "pe_fresh env = Inr s"
        "a = decide_next_action (pe_now_plus env) (retain_snapshot_candidates (excluded \<union> I) {} s)"
      by blast
    then show ?thesis
    proof cases
      case 1
      then have "normalize_work_identity w \<in> candidate_ids view"
        using decided_fresh [OF assms(2)] work assms(6) by metis
      with assms(2,3) show ?thesis by (auto simp: fair_def)
    next
      case fresh
      with other assms(1) show ?thesis unfolding fair_pass_def by blast
    qed
  qed
  show ?thesis
  proof (cases r)
    case None
    with a gated show ?thesis by (simp add: unwrap_or_def)
  next
    case (Some b)
    with a have b: "a = b" by (simp add: unwrap_or_def)
    from resolved_source [OF d [unfolded defer_if_branch_attached_def Some]] b
    consider "a = g" | (again) j I B s where "ae_snapshot (pe_attach env) j = Inr s"
      "a = decide_next_action (ae_now_plus (pe_attach env) j) (retain_snapshot_candidates (excluded \<union> I) B s)"
      by auto
    then show ?thesis
    proof cases
      case again
      with other assms(1) show ?thesis unfolding fair_pass_def by blast
    qed (rule gated)
  qed
qed

text \<open>The selections of a single-worker pass end: when the snapshots it builds name finitely many work items and
  branches, carry normalised tickets and show no plan parent to reconcile, selecting, gating, avoiding
  attached branches, claiming, executing and moving past held items ends, whatever the history, the
  ledger, the claims of other processes and the executed actions do.\<close>

lemma single_pass_returns:
  assumes "fair_pass U V env" "fair U V view"
    and "candidate_ids view \<inter> normalize_work_identity ` excluded = {}"
  shows "\<exists>res. run_moving_past_held_work (\<lambda>i. run_selected_action env history entries) now_plus i view excluded st
           = Some res"
  using assms(2,3)
proof (induction "card (U - normalize_work_identity ` excluded)" arbitrary: i view excluded st rule: less_induct)
  case less
  let ?sel = "\<lambda>i::nat. run_selected_action env history entries"
  obtain st1 res where sel: "run_selected_action env history entries view excluded st = Some (st1, res)"
    using selection_returns [OF assms(1)] by blast
  show ?case
  proof (cases "\<exists>a outcome w. res = Inr (a, outcome) \<and> work_id_of a = Some w \<and> outcome_held_elsewhere outcome")
    case False
    then have "run_moving_past_held_work ?sel now_plus i view excluded st = Some (st1, res)"
      by (subst run_moving_past_held_work.simps) (auto simp: sel split: sum.splits option.splits)
    then show ?thesis by blast
  next
    case True
    then obtain a outcome w where r: "res = Inr (a, outcome)" "work_id_of a = Some w"
      and held: "outcome_held_elsewhere outcome" by blast
    let ?ids = "insert w excluded"
    let ?v = "retain_snapshot_candidates ?ids {} view"
    show ?thesis
    proof (cases "selects_work (decide_next_action (now_plus i) ?v)")
      case False
      then have "run_moving_past_held_work ?sel now_plus i view excluded st = Some (st1, res)"
        by (subst run_moving_past_held_work.simps) (simp add: sel r held Let_def)
      then show ?thesis by blast
    next
      case True
      have w: "normalize_work_identity w \<in> U - normalize_work_identity ` excluded"
        by (rule selection_is_new [OF assms(1) less.prems sel [unfolded r(1)] held r(2)])
      then have "U - normalize_work_identity ` ?ids \<subset> U - normalize_work_identity ` excluded" by auto
      then have lt: "card (U - normalize_work_identity ` ?ids) < card (U - normalize_work_identity ` excluded)"
        using assms(1) by (intro psubset_card_mono) (simp_all add: fair_pass_def)
      have "candidate_ids ?v \<inter> normalize_work_identity ` ?ids = {}"
        using candidate_ids_retain [of ?ids "{}" view] by blast
      from less.hyps [OF lt fair_retain [OF less.prems(1)] this]
      obtain out where "run_moving_past_held_work ?sel now_plus (Suc i) ?v ?ids st1 = Some out" by blast
      with True have "run_moving_past_held_work ?sel now_plus i view excluded st = Some out"
        by (subst run_moving_past_held_work.simps) (simp add: sel r held Let_def)
      then show ?thesis by blast
    qed
  qed
qed

text \<open>The suppressed view shows no suppressed item.\<close>

lemma suppressed_view:
  assumes "fair U V s"
  shows "fair U V (fst (suppress_recent_capacity_deferrals p now route events entries prof repo s))"
    and "candidate_ids (fst (suppress_recent_capacity_deferrals p now route events entries prof repo s))
      \<inter> normalize_work_identity ` snd (suppress_recent_capacity_deferrals p now route events entries prof repo s) = {}"
  using fair_retain [OF assms] candidate_ids_retain
  by (fastforce simp: suppress_recent_capacity_deferrals_def Let_def)+

lemma observed_fair:
  assumes "\<And>entries s. te_snapshot te entries = Inr s \<Longrightarrow> fair U V s"
    and "observe_pass te env st = (st1, r)" "r = Inr (s, entries)"
  shows "fair U V s"
  using assms(2,3)
  by (auto simp: observe_pass_def Let_def split: option.splits prod.splits sum.splits intro: assms(1))

lemma record_stop_event_cases:
  "if snd (record_stop_event env known prof a t outcome h)
   then fst (record_stop_event env known prof a t outcome h) \<noteq> []
     \<and> ev_details (last (fst (record_stop_event env known prof a t outcome h))) = ee_redact env outcome
     \<and> ev_type (last (fst (record_stop_event env known prof a t outcome h))) = ee_redact env (event_str t)
   else human_required_already_reported (fst (record_stop_event env known prof a t outcome h)) prof a"
  by (simp add: record_stop_event_def record_with_reason_code_and_plan_def record_event_def
      record_with_run_id_and_reason_code_def append_event_def redact_event_def)

text \<open>C10. The pass of one worker returns: when every snapshot it builds names only finitely many work
  items and branches, carries normalised tickets and shows no plan parent to reconcile, the whole pass -
  closing abandoned runs, observing, suppressing deferred work, reporting, selecting, gating, claiming,
  executing and moving past held items - returns, with an error or with an action and its outcome; and
  the stream it leaves records that outcome or a report of the same hand-off.  Without the last of these
  conditions it need not return: a finished plan parent whose claim is held elsewhere makes it spin.\<close>

theorem run_pass_returns:
  assumes "fair_pass U V env" "\<And>entries s. te_snapshot te entries = Inr s \<Longrightarrow> fair U V s"
  shows "\<exists>st' res. run_pass te env now_plus st = Some (st', res)
     \<and> (case res of
           Inl _ \<Rightarrow> True
         | Inr (a, outcome, newly, _) \<Rightarrow>
             if newly then ps_events st' \<noteq> []
               \<and> ev_details (last (ps_events st')) = ee_redact (pe_events env) outcome
               \<and> ev_type (last (ps_events st')) = ee_redact (pe_events env) (event_str (stop_event_type a))
             else human_required_already_reported (ps_events st') (pe_profile env) a)"
proof -
  obtain st1 r where o1: "observe_pass te env st = (st1, r)" by fastforce
  show ?thesis
  proof (cases r)
    case (Inl err)
    with o1 show ?thesis by (simp add: run_pass_def)
  next
    case (Inr x)
    then obtain s entries where x: "r = Inr (s, entries)" by (cases x) auto
    have s: "fair U V s" using assms(2) o1 x by (rule observed_fair)
    define ve where "ve = suppress_recent_capacity_deferrals (pe_parse_ts env) (pe_now env)
                 (te_route_state te) (ps_events st1) entries (pe_profile env) (pe_repo env) s"
    define st2 where "st2 = st1\<lparr> ps_events := snd (report_blocked_work_items_once (pe_events env) (pe_profile env)
                            (fst ve) (ps_events st1)) \<rparr>"
    have "\<exists>res. run_moving_past_held_work (\<lambda>i. run_selected_action env (ps_events st1) entries) now_plus 0
             (fst ve) (snd ve) st2 = Some res"
      using s by (intro single_pass_returns [OF assms(1)]) (simp_all add: ve_def suppressed_view)
    then obtain st3 m where m: "run_moving_past_held_work (\<lambda>i. run_selected_action env (ps_events st1) entries)
        now_plus 0 (fst ve) (snd ve) st2 = Some (st3, m)" by auto
    have run: "run_pass te env now_plus st = (case m of
        Inl err \<Rightarrow> Some (st3, Inl err)
      | Inr (a, outcome) \<Rightarrow>
          (case record_stop_event (pe_events env) True (pe_profile env) a (stop_event_type a) outcome (ps_events st3) of
             (events, newly) \<Rightarrow> Some (st3\<lparr> ps_events := events \<rparr>,
                Inr (a, outcome, newly, admission_note (fst ve) a outcome))))"
      using m by (cases m) (simp_all add: run_pass_def o1 x ve_def [symmetric] st2_def case_prod_unfold)
    show ?thesis
    proof (cases m)
      case (Inl err)
      with run show ?thesis by simp
    next
      case (Inr y)
      then obtain a outcome where y: "m = Inr (a, outcome)" by (cases y) auto
      show ?thesis
        using record_stop_event_cases [of "pe_events env" True "pe_profile env" a "stop_event_type a" outcome
            "ps_events st3"]
        unfolding run y by (auto split: prod.splits)
    qed
  qed
qed

subsection \<open>A parallel batch\<close>

lemma complete_outcome_suppressed:
  "bb_suppressed b \<Longrightarrow> bb_fill_attempts b = 0 \<Longrightarrow>
     bb_suppressed (complete_outcome limit out b) \<and> bb_fill_attempts (complete_outcome limit out b) = 0"
  by (simp add: complete_outcome_def allow_bounded_node_alternative_def update_parallel_refill_budget_def)

lemma complete_outcomes_suppressed:
  "bb_suppressed b \<Longrightarrow> bb_fill_attempts b = 0 \<Longrightarrow>
     bb_suppressed (fold (complete_outcome limit) outs b) \<and> bb_fill_attempts (fold (complete_outcome limit) outs b) = 0"
  by (induction outs arbitrary: b) (simp_all add: complete_outcome_suppressed)

text \<open>An error stops the refilling of a parallel batch for good: once a worker's outcome is an error,
  whatever the outcomes before and after it, the batch may make no further attempt to start work.\<close>

theorem errors_stop_refills:
  "bb_fill_attempts
     (fold (complete_outcome limit) (before @ (''Error:'' @ what) # after_it) b) = 0"
proof -
  let ?b = "fold (complete_outcome limit) before b"
  have "bb_suppressed (complete_outcome limit (''Error:'' @ what) ?b)
      \<and> bb_fill_attempts (complete_outcome limit (''Error:'' @ what) ?b) = 0"
    by (simp add: complete_outcome_def allow_bounded_node_alternative_def update_parallel_refill_budget_def
        starts_with_def)
  then show ?thesis using complete_outcomes_suppressed by simp
qed

text \<open>C15. Parallel work stays within the limit on open merge requests: a dispatch, retry or escalation
  decided on a snapshot with the projection of the running workers leaves the open merge requests, the
  implementations in flight and the running ones the snapshot does not show together below the limit,
  and its ticket, if it has a work id, is neither claimed nor already executed in this pass.\<close>

theorem parallel_intake_within_limit:
  assumes "decide_next_action now (retain_unclaimed_work claimed executed (apply_parallel_projection running limit s)) = a"
    and "action_creates_managed_mr a" "limit \<le> u32_max"
  shows "open_managed_mr_count s + inflight_implementation_count s
           + card (running - set (active_claim_work_ids s)) < limit
       \<and> (\<exists>t \<in> set (available_tickets s). act_path a = ticket_path t
            \<and> unclaimed claimed executed (at_work_id t))"
proof -
  let ?s = "retain_unclaimed_work claimed executed (apply_parallel_projection running limit s)"
  have k: "kind a \<in> new_work_kinds"
    using assms(2) by (cases a) (simp_all add: action_creates_managed_mr_def new_work_kinds_def)
  from new_work_ticket [OF assms(1) k] obtain t where
    t: "t \<in> set (available_tickets ?s)" "act_path a = ticket_path t" by blast
  from new_work_intake_open [OF assms(1) k] have "intake_open now ?s" by auto
  then have "\<not> implementation_intake_paused ?s" by (rule intake_open_facts)
  with assms(3) have "open_managed_mr_count s + inflight_implementation_count s
           + card (running - set (active_claim_work_ids s)) < limit"
    by (auto simp: retain_unclaimed_work_def apply_parallel_projection_def saturating_add_u32_def Let_def
        min_def split: if_splits)
  with t show ?thesis
    by (auto simp: retain_unclaimed_work_def apply_parallel_projection_def Let_def)
qed

lemma parallel_example_decision:
  "decide_next_action example_now
       (retain_unclaimed_work [''#9''] {} (apply_parallel_projection {''#3''} 4 ticket_snapshot))
     = DispatchTicket ''#12'' (Some ''#12'') None None ''eligible undispatched ticket''"
proof -
  have n: "normalize_work_identity ''#12'' = ''#12''" by code_simp
  have "retain_unclaimed_work [''#9''] {} (apply_parallel_projection {''#3''} 4 ticket_snapshot)
      = ticket_snapshot\<lparr> available_tickets := [example_ticket ''#12''],
          profile := example_profile\<lparr> max_open_managed_mrs := 4 \<rparr>, inflight_implementation_count := 1 \<rparr>"
    by (simp add: retain_unclaimed_work_def apply_parallel_projection_def Let_def unclaimed_def n
        saturating_add_u32_def u32_max_def example_defs)
  then show ?thesis by (simp add: decision_eval example_defs)
qed

lemma parallel_intake_within_limit_witness:
  "open_managed_mr_count ticket_snapshot + inflight_implementation_count ticket_snapshot
     + card ({''#3''} - set (active_claim_work_ids ticket_snapshot)) < 4
   \<and> (\<exists>t \<in> set (available_tickets ticket_snapshot).
        act_path (decide_next_action example_now
          (retain_unclaimed_work [''#9''] {} (apply_parallel_projection {''#3''} 4 ticket_snapshot))) = ticket_path t
        \<and> unclaimed [''#9''] {} (at_work_id t))"
proof (rule parallel_intake_within_limit [OF refl])
  show "action_creates_managed_mr (decide_next_action example_now
          (retain_unclaimed_work [''#9''] {} (apply_parallel_projection {''#3''} 4 ticket_snapshot)))"
    by (simp add: parallel_example_decision action_creates_managed_mr_def)
  show "4 \<le> u32_max" by (simp add: u32_max_def)
qed

subsection \<open>Concrete passes used by the witnesses\<close>

definition example_selection :: "nat selection" where
  "example_selection i view excluded st =
     (let a = decide_next_action example_now view
      in Some (st + 1, Inr (a, if selects_work a then held_outcome (act_id a) else ''idle'')))"

lemma moving_past_held_work_ends_witness:
  "\<exists>res. run_moving_past_held_work example_selection (\<lambda>i. example_now) 0 ticket_snapshot {} 0 = Some res"
proof -
  have "runs_the_decision example_selection (\<lambda>i. example_now)"
    by (auto simp: runs_the_decision_def example_selection_def Let_def outcome_held_elsewhere_def
        HELD_ELSEWHERE_PREFIX_def starts_with_def)
  moreover have "no_finished_parent ticket_snapshot" "tickets_normalized ticket_snapshot"
    by (simp_all add: no_finished_parent_def tickets_normalized_def ticket_snapshot_def example_snapshot_def
        ticket_key_def example_ticket_def unwrap_or_def) code_simp
  ultimately show ?thesis
    using moving_past_held_work_ends [of example_selection "\<lambda>i. example_now" ticket_snapshot 0 "{}" 0]
    by blast
qed

definition example_pass :: pass_env where
  "example_pass =
     \<lparr> pe_profile = ''p'', pe_repo = ''r'', pe_scope = ''r'', pe_parse_ts = example_clock, pe_now = 2,
       pe_now_plus = example_now, pe_events = example_event_env, pe_fresh = Inr example_snapshot,
       pe_attach = example_attach,
       pe_claimant = \<lparr> ce_host = ''h'', ce_pid = 1, ce_now = 2, ce_alive = (\<lambda>p. True) \<rparr>,
       pe_gate = Inr True, pe_execute = (\<lambda>a st. (st, Inr ''done'')) \<rparr>"


definition example_pass_state :: pass_state where
  "example_pass_state = \<lparr> ps_claims = NoClaims, ps_events = [], ps_ledger = Some [] \<rparr>"




definition example_tick :: tick_env where
  "example_tick =
     \<lparr> te_live = Inr {}, te_import = Inr, te_probe = Inr (), te_snapshot = (\<lambda>es. Inr ticket_snapshot),
       te_prune = (\<lambda>es s. Inr ()), te_route_state = None \<rparr>"

definition example_ids :: "rust_str set" where
  "example_ids = candidate_ids ticket_snapshot \<union> candidate_ids example_snapshot \<union> candidate_ids repair_snapshot"

lemma examples_fair:
  "fair example_ids {''gah/a''} ticket_snapshot" "fair example_ids {''gah/a''} example_snapshot"
  "fair example_ids {''gah/a''} repair_snapshot"
proof -
  have "normalize_work_identity ''#12'' = ''#12''" by code_simp
  then show "fair example_ids {''gah/a''} ticket_snapshot" "fair example_ids {''gah/a''} example_snapshot"
    "fair example_ids {''gah/a''} repair_snapshot"
    by (auto simp: fair_def example_ids_def no_finished_parent_def tickets_normalized_def ticket_key_def
        unwrap_or_def example_defs)
qed

lemma run_pass_returns_witness:
  "\<exists>st' res. run_pass example_tick example_pass (\<lambda>i. example_now) example_pass_state = Some (st', res)
     \<and> (case res of
           Inl _ \<Rightarrow> True
         | Inr (a, outcome, newly, _) \<Rightarrow>
             if newly then ps_events st' \<noteq> []
               \<and> ev_details (last (ps_events st')) = ee_redact (pe_events example_pass) outcome
               \<and> ev_type (last (ps_events st')) = ee_redact (pe_events example_pass) (event_str (stop_event_type a))
             else human_required_already_reported (ps_events st') (pe_profile example_pass) a)"
proof (rule run_pass_returns [of example_ids "{''gah/a''}"])
  show "fair_pass example_ids {''gah/a''} example_pass"
    using examples_fair
    by (simp add: fair_pass_def skips_only_work_def example_pass_def example_attach_def example_ids_def
        outcome_held_elsewhere_def HELD_ELSEWHERE_PREFIX_def starts_with_def)
  show "te_snapshot example_tick entries = Inr s \<Longrightarrow> fair example_ids {''gah/a''} s" for entries s
    using examples_fair by (auto simp: example_tick_def)
qed

end
