(* ===== verification/Json_Value.thy ===== *)
theory Json_Value
  imports Gah_Prelude
begin

text \<open>
  JSON values as \<^verbatim>\<open>serde_json\<close> hands them over, with the accessors the code uses; a number that is not
  an integer keeps its text.  Fallible maps, which the readers of answers share.
\<close>

datatype json =
    JNull | JBool bool | JInt int | JFloat rust_str | JStr rust_str
  | JArr "json list" | JObj "(rust_str \<times> json) list"

definition jget :: "rust_str \<Rightarrow> json \<Rightarrow> json option" where
  "jget k v = (case v of JObj m \<Rightarrow> map_of m k | _ \<Rightarrow> None)"

definition jindex :: "json \<Rightarrow> rust_str \<Rightarrow> json" where
  "jindex v k = unwrap_or (jget k v) JNull"

definition as_u64 :: "json \<Rightarrow> nat option" where
  "as_u64 v = (case v of JInt i \<Rightarrow> if 0 \<le> i \<and> nat i \<le> u64_max then Some (nat i) else None | _ \<Rightarrow> None)"

definition as_str :: "json \<Rightarrow> rust_str option" where
  "as_str v = (case v of JStr s \<Rightarrow> Some s | _ \<Rightarrow> None)"

definition as_array :: "json \<Rightarrow> json list option" where
  "as_array v = (case v of JArr xs \<Rightarrow> Some xs | _ \<Rightarrow> None)"

definition as_i64 :: "json \<Rightarrow> int option" where
  "as_i64 v = (case v of JInt i \<Rightarrow> if - (2 ^ 63) \<le> i \<and> i < 2 ^ 63 then Some i else None | _ \<Rightarrow> None)"

definition as_bool :: "json \<Rightarrow> bool option" where
  "as_bool v = (case v of JBool b \<Rightarrow> Some b | _ \<Rightarrow> None)"

text \<open>The first error of a list of fallible steps, or all their results.\<close>

fun try_map :: "('a \<Rightarrow> ('e, 'b) rust_result) \<Rightarrow> 'a list \<Rightarrow> ('e, 'b list) rust_result" where
  "try_map f [] = Inr []"
| "try_map f (x # xs) =
     (case f x of
        Inl e \<Rightarrow> Inl e
      | Inr y \<Rightarrow> (case try_map f xs of Inl e \<Rightarrow> Inl e | Inr ys \<Rightarrow> Inr (y # ys)))"

lemma try_map_Inr_iff: "try_map f xs = Inr ys \<longleftrightarrow> list_all2 (\<lambda>x y. f x = Inr y) xs ys"
proof (induction xs arbitrary: ys)
  case (Cons x xs)
  then show ?case
    by (cases "f x"; cases "try_map f xs") (auto simp: list_all2_Cons1)
qed auto

end
