(* ===== verification/Dependencies.thy ===== *)
theory Dependencies
  imports Text_Scan Ordered_Map Json_Value
begin

text \<open>
  Declared prerequisites of an issue (\<^verbatim>\<open>dispatch/dependencies.rs\<close>): the \<open>Blocked by:\<close> line of a
  body, the native relationships of the forge, the walk over the graph they span, and the issues that
  may not be dispatched because of it.  What the forge answers is an argument; a reading of an issue
  may differ from one call to the next.
\<close>

subsection \<open>Relationships of the forge\<close>

datatype relationship_error =
    PermissionDenied rust_str | PaginationError rust_str | UnsupportedServerVersion rust_str
  | MalformedResponse rust_str | ProviderError rust_str

fun relationship_error_str :: "relationship_error \<Rightarrow> rust_str" where
  "relationship_error_str (PermissionDenied m) = ''permission denied: '' @ m"
| "relationship_error_str (PaginationError m) = ''pagination error: '' @ m"
| "relationship_error_str (UnsupportedServerVersion m) = ''unsupported server version: '' @ m"
| "relationship_error_str (MalformedResponse m) = ''malformed response: '' @ m"
| "relationship_error_str (ProviderError m) = ''provider error: '' @ m"

record dependency_source =
  source_issue :: rust_str
  target_issue :: rust_str
  provenance :: rust_str

definition is_local_issue_reference :: "rust_str \<Rightarrow> bool" where
  "is_local_issue_reference reference = (reference \<noteq> [] \<and> list_all is_ascii_digit reference)"

definition dependency_identity :: "rust_str \<Rightarrow> rust_str" where
  "dependency_identity reference =
     (if is_local_issue_reference reference then CHR ''#'' # reference else reference)"

definition dependency_provider :: "rust_str \<Rightarrow> rust_str \<Rightarrow> rust_str" where
  "dependency_provider reference fallback =
     unwrap_or (map_option fst (split_once (CHR '':'') reference)) fallback"

text \<open>The answer of one list command: it could not run, or its exit status, standard error and the
  documents on its standard output, each parsed or not.\<close>

datatype gh_output =
    GhFailed rust_str
  | GhExit (gh_success: bool) (gh_stderr: rust_str) (gh_documents: "(rust_str, json) rust_result list")

definition MAX_PAGES :: nat where "MAX_PAGES = 100"

definition mentions :: "rust_str \<Rightarrow> rust_str list \<Rightarrow> bool" where
  "mentions s words = list_ex (\<lambda>w. contains_str w s) words"

definition github_list_error ::
  "rust_str \<Rightarrow> rust_str \<Rightarrow> (relationship_error, json list) rust_result" where
  "github_list_error endpoint stderr =
     (let lower = to_ascii_lowercase stderr
      in if mentions lower [''403'', ''permission'', ''denied'']
         then Inl (PermissionDenied (''GitHub API permission denied for '' @ endpoint @ '': '' @ stderr))
         else if mentions lower [''404'', ''not found''] then Inr []
         else if mentions lower [''400'', ''bad request'']
         then Inl (MalformedResponse (''GitHub API bad request for '' @ endpoint @ '': '' @ stderr))
         else if mentions lower [''429'', ''rate limit'']
         then Inl (PaginationError (''GitHub API rate limited for '' @ endpoint @ '': '' @ stderr))
         else Inl (ProviderError (''GitHub API error for '' @ endpoint @ '': '' @ stderr)))"

definition malformed_list :: "rust_str \<Rightarrow> rust_str \<Rightarrow> relationship_error" where
  "malformed_list endpoint detail = MalformedResponse (''GitHub list '' @ endpoint @ '': '' @ detail)"

fun page_items :: "json list \<Rightarrow> json list \<Rightarrow> json list option" where
  "page_items [] items = Some items"
| "page_items (e # es) items =
     (case e of
        JArr page \<Rightarrow> page_items es (items @ page)
      | JObj _ \<Rightarrow> page_items es (items @ [e])
      | _ \<Rightarrow> None)"

fun read_documents ::
  "rust_str \<Rightarrow> (rust_str, json) rust_result list \<Rightarrow> nat \<Rightarrow> json list
     \<Rightarrow> (relationship_error, json list) rust_result" where
  "read_documents endpoint [] pages items =
     (if pages = 0 then Inl (malformed_list endpoint ''empty response'') else Inr items)"
| "read_documents endpoint (d # ds) pages items =
     (case d of
        Inl err \<Rightarrow> Inl (malformed_list endpoint (''cannot parse response: '' @ err))
      | Inr document \<Rightarrow>
          (case as_array document of
             None \<Rightarrow> Inl (malformed_list endpoint ''expected an array'')
           | Some entries \<Rightarrow>
               (let pages' = pages + max (length (filter (\<lambda>e. is_some (as_array e)) entries)) 1
                in if MAX_PAGES < pages'
                   then Inl (PaginationError (''GitHub list '' @ endpoint @ '' reached ''
                          @ nat_str MAX_PAGES @ '' pages; refusing a partial list''))
                   else case page_items entries items of
                          None \<Rightarrow> Inl (malformed_list endpoint ''page was not an array'')
                        | Some items' \<Rightarrow> read_documents endpoint ds pages' items')))"

text \<open>The command hands over all its documents, or the first one that does not parse.\<close>

definition github_list_pages ::
  "(rust_str \<Rightarrow> rust_str) \<Rightarrow> (rust_str \<Rightarrow> gh_output) \<Rightarrow> rust_str
     \<Rightarrow> (relationship_error, json list) rust_result" where
  "github_list_pages redact gh endpoint =
     (case gh endpoint of
        GhFailed err \<Rightarrow> Inl (ProviderError (''gh api list '' @ endpoint @ '' failed: '' @ err))
      | GhExit ok stderr documents \<Rightarrow>
          if \<not> ok then github_list_error endpoint (redact (trim stderr))
          else read_documents endpoint documents 0 [])"

record native_env =
  ne_provider :: rust_str
  ne_repo :: rust_str
  ne_redact :: "rust_str \<Rightarrow> rust_str"
  ne_gh :: "rust_str \<Rightarrow> gh_output"
  ne_project :: "(rust_str, rust_str) rust_result"
  ne_gitlab :: "rust_str \<Rightarrow> (rust_str, json) rust_result"
  ne_json_str :: "json \<Rightarrow> rust_str"

definition fetch_github_sub_issues ::
  "native_env \<Rightarrow> rust_str \<Rightarrow> (relationship_error, rust_str list) rust_result" where
  "fetch_github_sub_issues env parent_number =
     (if ne_provider env \<noteq> ''github'' then Inr []
      else case github_list_pages (ne_redact env) (ne_gh env)
                  (''repos/'' @ ne_repo env @ ''/issues/'' @ parent_number @ ''/sub_issues'') of
             Inl err \<Rightarrow> Inl err
           | Inr issues \<Rightarrow>
               Inr (filter (\<lambda>n. n \<noteq> parent_number)
                      (List.map_filter (\<lambda>i. map_option nat_str (as_u64 (jindex i ''number''))) issues)))"

text \<open>The number under a key, as an integer or as a text.\<close>

definition iid_of :: "json \<Rightarrow> rust_str \<Rightarrow> rust_str \<Rightarrow> rust_str option" where
  "iid_of link nested flat =
     opt_or (map_option nat_str
               (Option.bind (Option.bind (jget nested link) (jget ''iid'')) as_u64))
       (opt_or (map_option nat_str (as_u64 (jindex link flat))) (as_str (jindex link flat)))"

definition same_project :: "rust_str \<Rightarrow> json \<Rightarrow> bool" where
  "same_project project_id link =
     (case opt_or (map_option nat_str (as_u64 (jindex link ''project_id'')))
             (as_str (jindex link ''project_id'')) of
        None \<Rightarrow> True
      | Some p \<Rightarrow> \<not> is_local_issue_reference project_id \<or> p = project_id)"

definition blocking_link :: "rust_str \<Rightarrow> rust_str \<Rightarrow> json \<Rightarrow> rust_str option" where
  "blocking_link project_id issue_number link =
     (let link_type = unwrap_or (as_str (jindex link ''link_type'')) []
      in if link_type \<noteq> ''blocks'' \<and> link_type \<noteq> ''is_blocked_by'' then None
         else if jget ''source_issue'' link = None \<and> jget ''source_issue_iid'' link = None then
           (if link_type = ''is_blocked_by'' \<and> same_project project_id link
            then map_option nat_str (as_u64 (jindex link ''iid'')) else None)
         else case (iid_of link ''source_issue'' ''source_issue_iid'',
                    iid_of link ''target_issue'' ''target_issue_iid'') of
                (Some s, Some t) \<Rightarrow>
                  if link_type = ''blocks'' \<and> t = issue_number then Some s
                  else if link_type = ''is_blocked_by'' \<and> s = issue_number then Some t
                  else None
              | _ \<Rightarrow> None)"

definition gitlab_links_error ::
  "rust_str \<Rightarrow> rust_str \<Rightarrow> (relationship_error, rust_str list) rust_result" where
  "gitlab_links_error endpoint err =
     (let lower = to_ascii_lowercase err
      in if mentions lower [''403'', ''permission'', ''denied'']
         then Inl (PermissionDenied (''GitLab API permission denied for '' @ endpoint @ '': '' @ err))
         else if mentions lower [''404'', ''not found''] then Inr []
         else if mentions lower [''429'', ''rate limit'']
         then Inl (PaginationError (''GitLab API rate limited for '' @ endpoint @ '': '' @ err))
         else if mentions lower [''version'', ''unsupported'']
         then Inl (UnsupportedServerVersion (''GitLab API unsupported version for '' @ endpoint @ '': '' @ err))
         else Inl (ProviderError (''GitLab API error for '' @ endpoint @ '': '' @ err)))"

definition fetch_gitlab_blocks_links ::
  "native_env \<Rightarrow> rust_str \<Rightarrow> (relationship_error, rust_str list) rust_result" where
  "fetch_gitlab_blocks_links env issue_number =
     (if ne_provider env \<noteq> ''gitlab'' then Inr []
      else case ne_project env of
             Inl err \<Rightarrow> Inl (ProviderError err)
           | Inr project_id \<Rightarrow>
               (let endpoint = ''projects/'' @ project_id @ ''/issues/'' @ issue_number @ ''/links''
                in case ne_gitlab env endpoint of
                     Inl err \<Rightarrow> gitlab_links_error endpoint err
                   | Inr v \<Rightarrow>
                       (case as_array v of
                          None \<Rightarrow> Inl (MalformedResponse (''Expected array of issue links, got: '' @ ne_json_str env v))
                        | Some links \<Rightarrow> Inr (List.map_filter (blocking_link project_id issue_number) links))))"

definition native_sources ::
  "rust_str \<Rightarrow> rust_str \<Rightarrow> (relationship_error, rust_str list) rust_result
     \<Rightarrow> (relationship_error, dependency_source list) rust_result" where
  "native_sources issue_number prov res =
     (case res of
        Inl err \<Rightarrow> Inl err
      | Inr targets \<Rightarrow>
          Inr (map (\<lambda>t. \<lparr> source_issue = issue_number, target_issue = t, provenance = prov \<rparr>) targets))"

definition fetch_native_dependencies ::
  "native_env \<Rightarrow> rust_str \<Rightarrow> (relationship_error, dependency_source list) rust_result" where
  "fetch_native_dependencies env issue_number =
     (if ne_provider env = ''github''
      then native_sources issue_number ''github_sub_issue'' (fetch_github_sub_issues env issue_number)
      else if ne_provider env = ''gitlab''
      then native_sources issue_number ''gitlab_blocks_link'' (fetch_gitlab_blocks_links env issue_number)
      else Inr [])"

subsection \<open>The line of a body\<close>

record dependency_failure =
  df_code :: rust_str
  df_message :: rust_str

definition dep_malformed :: "rust_str \<Rightarrow> dependency_failure" where
  "dep_malformed m = \<lparr> df_code = ''dependency_malformed'', df_message = m \<rparr>"

definition dep_quoted :: "rust_str \<Rightarrow> rust_str" where
  "dep_quoted t = CHR 0x27 # t @ [CHR 0x27]"

definition valid_issue_number :: "rust_str \<Rightarrow> bool" where
  "valid_issue_number n = (n \<noteq> [] \<and> list_all is_ascii_digit n \<and> \<not> starts_with ''0'' n)"

text \<open>One token: the reference it stands for and how a duplicate of it is reported.\<close>

definition parse_local_reference :: "rust_str \<Rightarrow> (dependency_failure, rust_str \<times> rust_str) rust_result" where
  "parse_local_reference token =
     (case strip_prefix ''#'' token of
        None \<Rightarrow> Inl (dep_malformed (''invalid dependency reference '' @ dep_quoted token))
      | Some number \<Rightarrow>
          if \<not> valid_issue_number number
          then Inl (dep_malformed (''invalid dependency reference '' @ dep_quoted token))
          else Inr (number, CHR ''#'' # number))"

definition parse_reference :: "rust_str \<Rightarrow> (dependency_failure, rust_str \<times> rust_str) rust_result" where
  "parse_reference token =
     (if CHR '':'' \<in> set token \<and> CHR ''#'' \<in> set token then
        (case split_char (CHR ''#'') token of
           [before_hash, after_hash] \<Rightarrow>
             (let number = trim after_hash;
                  bad = Inl (dep_malformed (''invalid cross-project dependency reference '' @ dep_quoted token))
              in case split_char (CHR '':'') before_hash of
                   [provider, project] \<Rightarrow>
                     if provider = [] \<or> project = [] then bad
                     else if \<not> valid_issue_number number then bad
                     else Inr (before_hash @ CHR ''#'' # number, token)
                 | _ \<Rightarrow> bad)
         | _ \<Rightarrow> parse_local_reference token)
      else parse_local_reference token)"

text \<open>The references seen so far are those collected so far.\<close>

fun parse_references ::
  "rust_str list \<Rightarrow> rust_str list \<Rightarrow> (dependency_failure, rust_str list) rust_result" where
  "parse_references [] references = Inr references"
| "parse_references (raw # raws) references =
     (case parse_reference (trim raw) of
        Inl err \<Rightarrow> Inl err
      | Inr (reference, label) \<Rightarrow>
          if reference \<in> set references
          then Inl \<lparr> df_code = ''dependency_duplicate'',
                     df_message = ''duplicate dependency reference '' @ dep_quoted label \<rparr>
          else parse_references raws (references @ [reference]))"

definition is_dependency_line :: "rust_str \<Rightarrow> bool" where
  "is_dependency_line l = starts_with ''blocked by'' (to_ascii_lowercase l)"

definition parse_dependency_line ::
  "rust_str \<Rightarrow> (dependency_failure, rust_str list option) rust_result" where
  "parse_dependency_line body =
     (case filter is_dependency_line (map trim (lines_of body)) of
        [] \<Rightarrow> Inr None
      | [line] \<Rightarrow>
          (case strip_prefix ''Blocked by:'' line of
             None \<Rightarrow> Inl (dep_malformed (''dependency line must use exact syntax '' @ dep_quoted ''Blocked by: #12, #34''))
           | Some payload \<Rightarrow>
               if trim payload = [] then Inl (dep_malformed ''dependency line contains no issue references'')
               else map_sum (\<lambda>e. e) Some (parse_references (split_char (CHR '','') payload) []))
      | _ \<Rightarrow> Inl \<lparr> df_code = ''dependency_ambiguous'',
                   df_message = ''multiple '' @ dep_quoted ''Blocked by:'' @ '' compatibility lines are not allowed'' \<rparr>)"

subsection \<open>The walk\<close>

record dependency_issue =
  di_number :: rust_str
  di_body :: rust_str
  di_state :: "rust_str option"

datatype cached_issue = IssueFound dependency_issue | IssueError rust_str

record dependency_observation =
  ob_identity :: rust_str
  ob_provider :: rust_str
  ob_provider_state :: "rust_str option"
  ob_state :: rust_str
  ob_provenance :: "rust_str option"

definition normalize_state :: "rust_str option \<Rightarrow> rust_str" where
  "normalize_state st =
     (case map_option to_ascii_lowercase st of
        Some s \<Rightarrow> if s = ''open'' \<or> s = ''opened'' then ''open''
                  else if s = ''closed'' then ''closed'' else ''unknown''
      | None \<Rightarrow> ''unknown'')"

text \<open>
  The resolver and what the walk has written: the cache, the numbers asked of the forge in order, the
  observations and the provenance of identities.  The \<open>k\<close>-th question is answered by \<open>fetch k\<close>.
\<close>

type_synonym issue_fetch = "nat \<Rightarrow> rust_str \<Rightarrow> (rust_str, dependency_issue) rust_result"

record resolver =
  rs_cache :: "rust_str \<rightharpoonup> cached_issue"
  rs_asked :: "rust_str list"
  rs_observations :: "dependency_observation list"
  rs_provenance :: "rust_str \<rightharpoonup> rust_str"

definition answer :: "issue_fetch \<Rightarrow> nat \<Rightarrow> rust_str \<Rightarrow> cached_issue" where
  "answer fetch k number =
     (case fetch k number of Inr issue \<Rightarrow> IssueFound issue | Inl err \<Rightarrow> IssueError err)"

definition resolve :: "issue_fetch \<Rightarrow> rust_str \<Rightarrow> resolver \<Rightarrow> resolver \<times> cached_issue" where
  "resolve fetch number st =
     (case rs_cache st number of
        Some cached \<Rightarrow> (st, cached)
      | None \<Rightarrow>
          (let resolved = answer fetch (length (rs_asked st)) number
           in (st\<lparr> rs_cache := (rs_cache st)(number \<mapsto> resolved), rs_asked := rs_asked st @ [number] \<rparr>,
               resolved)))"

definition observe :: "rust_str \<Rightarrow> rust_str \<Rightarrow> rust_str \<Rightarrow> resolver \<Rightarrow> resolver" where
  "observe number provider label st =
     st\<lparr> rs_observations := rs_observations st @
       [\<lparr> ob_identity = dependency_identity number, ob_provider = provider, ob_provider_state = None,
          ob_state = label, ob_provenance = rs_provenance st number \<rparr>] \<rparr>"

definition observe_issue :: "rust_str \<Rightarrow> rust_str \<Rightarrow> dependency_issue \<Rightarrow> resolver \<Rightarrow> resolver" where
  "observe_issue number provider issue st =
     (let identity = CHR ''#'' # di_number issue
      in if identity \<in> ob_identity ` set (rs_observations st) then st
         else
           let st' = st\<lparr> rs_observations := rs_observations st @
                 [\<lparr> ob_identity = identity, ob_provider = provider, ob_provider_state = di_state issue,
                    ob_state = normalize_state (di_state issue), ob_provenance = rs_provenance st number \<rparr>] \<rparr>
           in case rs_provenance st number of
                None \<Rightarrow> st'
              | Some p \<Rightarrow> st'\<lparr> rs_provenance := (rs_provenance st)(identity \<mapsto> p) \<rparr>)"

definition first_failure :: "dependency_failure option \<Rightarrow> rust_str \<Rightarrow> rust_str \<Rightarrow> dependency_failure option" where
  "first_failure blocked code message =
     (case blocked of Some e \<Rightarrow> Some e | None \<Rightarrow> Some \<lparr> df_code = code, df_message = message \<rparr>)"

definition cycle_failure :: "rust_str list \<Rightarrow> dependency_failure" where
  "cycle_failure cycle =
     \<lparr> df_code = ''dependency_cycle'',
       df_message = ''dependency cycle detected: '' @ join '' -> '' (map dependency_identity cycle) \<rparr>"

definition missing_issue :: "rust_str \<Rightarrow> bool" where
  "missing_issue err =
     (contains_str ''not found'' (to_ascii_lowercase err) \<or> contains_str ''404'' (to_ascii_lowercase err))"

definition missing_code :: "rust_str \<Rightarrow> rust_str" where
  "missing_code err = (if missing_issue err then ''dependency_missing'' else ''dependency_query_failed'')"

definition missing_label :: "rust_str \<Rightarrow> rust_str" where
  "missing_label err = (if missing_issue err then ''missing'' else ''inaccessible'')"

text \<open>
  One reference of the list: it is passed, with what it leaves of \<open>blocked\<close> and whether it is open; it
  stops the walk; or it is open and its own references come first.
\<close>

datatype visit =
    Passed resolver "dependency_failure option" bool
  | Stopped resolver dependency_failure
  | Descend resolver "rust_str list"

definition visit_issue ::
  "rust_str \<Rightarrow> dependency_issue \<Rightarrow> dependency_failure option \<Rightarrow> resolver \<Rightarrow> visit" where
  "visit_issue number issue blocked st =
     (if normalize_state (di_state issue) = ''closed'' then Passed st blocked False
      else if normalize_state (di_state issue) = ''unknown'' then
        Passed st
          (first_failure blocked ''dependency_unknown_state''
             (''dependency '' @ dependency_identity number @ '' has unknown provider state''))
          False
      else case parse_dependency_line (di_body issue) of
             Inl err \<Rightarrow> Stopped st err
           | Inr None \<Rightarrow> Passed st blocked True
           | Inr (Some nested) \<Rightarrow> Descend st nested)"

definition visit_reference ::
  "issue_fetch \<Rightarrow> rust_str \<Rightarrow> rust_str \<Rightarrow> rust_str list \<Rightarrow> rust_str \<Rightarrow> dependency_failure option \<Rightarrow> resolver
     \<Rightarrow> visit" where
  "visit_reference fetch provider current stack number blocked st =
     (if \<not> is_local_issue_reference number then
        Passed (observe number (dependency_provider number provider) ''inaccessible'' st)
          (first_failure blocked ''dependency_query_failed''
             (''cannot resolve cross-project dependency '' @ dep_quoted number))
          False
      else if number = current \<or> number \<in> set stack then Stopped st (cycle_failure (stack @ [number]))
      else case resolve fetch number st of
             (st1, IssueError err) \<Rightarrow>
               Passed (observe number provider (missing_label err) st1)
                 (first_failure blocked (missing_code err)
                    (''could not resolve dependency '' @ dependency_identity number @ '': '' @ err))
                 False
           | (st1, IssueFound issue) \<Rightarrow>
               visit_issue number issue blocked (observe_issue number provider issue st1))"

text \<open>
  \<open>walk_with_provenance\<close> from some reference on: \<open>has_open\<close> and \<open>blocked\<close> are what the earlier
  references of the same list have left.  The outer \<open>None\<close> is a walk that does not end.
\<close>

partial_function (option) walk ::
  "issue_fetch \<Rightarrow> rust_str \<Rightarrow> rust_str \<Rightarrow> rust_str list \<Rightarrow> bool \<Rightarrow> dependency_failure option
     \<Rightarrow> rust_str list \<Rightarrow> resolver
     \<Rightarrow> (resolver \<times> (dependency_failure, bool) rust_result) option" where
  "walk fetch provider current stack has_open blocked references st =
     (case references of
        [] \<Rightarrow> Some (st, (case blocked of Some e \<Rightarrow> Inl e | None \<Rightarrow> Inr has_open))
      | number # rest \<Rightarrow>
          (case visit_reference fetch provider current stack number blocked st of
             Passed st' blocked' open_too \<Rightarrow>
               walk fetch provider current stack (has_open \<or> open_too) blocked' rest st'
           | Stopped st' err \<Rightarrow> Some (st', Inl err)
           | Descend st' nested \<Rightarrow>
               Option.bind (walk fetch provider number (stack @ [number]) False None nested st')
                 (\<lambda>(st'', res).
                    case res of
                      Inl err \<Rightarrow> Some (st'', Inl err)
                    | Inr nested_open \<Rightarrow> walk fetch provider current stack True blocked rest st'')))"

subsection \<open>The issues of a profile\<close>

record issue_details =
  is_number :: rust_str
  is_title :: rust_str
  is_body :: rust_str
  is_labels :: "rust_str list"
  is_state :: "rust_str option"

record dependency_blocker =
  db_ticket_path :: rust_str
  db_work_id :: rust_str
  db_title :: rust_str
  db_reason_code :: rust_str
  db_reason :: rust_str
  db_dependencies :: "dependency_observation list"

definition dependency_blocker_of ::
  "issue_details \<Rightarrow> rust_str \<Rightarrow> rust_str \<Rightarrow> dependency_observation list \<Rightarrow> dependency_blocker" where
  "dependency_blocker_of issue code why observations =
     \<lparr> db_ticket_path = is_number issue, db_work_id = CHR ''#'' # is_number issue,
       db_title = is_title issue, db_reason_code = code, db_reason = why, db_dependencies = observations \<rparr>"

definition body_sources :: "issue_details \<Rightarrow> dependency_source list" where
  "body_sources issue =
     (case parse_dependency_line (is_body issue) of
        Inr (Some references) \<Rightarrow>
          map (\<lambda>r. \<lparr> source_issue = is_number issue, target_issue = r, provenance = ''body'' \<rparr>) references
      | _ \<Rightarrow> [])"

definition native_blocker ::
  "issue_details \<times> (relationship_error, dependency_source list) rust_result \<Rightarrow> dependency_blocker option" where
  "native_blocker x =
     (case snd x of
        Inl (UnsupportedServerVersion _) \<Rightarrow> None
      | Inl err \<Rightarrow> Some (dependency_blocker_of (fst x) ''dependency_query_failed'' (relationship_error_str err) [])
      | Inr _ \<Rightarrow> None)"

text \<open>\<open>all_dependencies\<close> under one source: the declared ones of all issues, then the native ones.\<close>

definition all_dependencies ::
  "(issue_details \<times> (relationship_error, dependency_source list) rust_result) list \<Rightarrow> dependency_source list" where
  "all_dependencies fetched =
     concat (map (\<lambda>(issue, _). body_sources issue) fetched)
     @ concat (map (\<lambda>(_, res). case res of Inl _ \<Rightarrow> [] | Inr deps \<Rightarrow> deps) fetched)"

definition is_native :: "dependency_source \<Rightarrow> bool" where
  "is_native dep = (provenance dep = ''gitlab_blocks_link'' \<or> provenance dep = ''github_sub_issue'')"

definition dedup_key :: "dependency_source \<Rightarrow> rust_str" where
  "dedup_key dep = source_issue dep @ CHR '':'' # target_issue dep"

definition dedup_step ::
  "dependency_source \<Rightarrow> (rust_str \<times> dependency_source) list \<Rightarrow> (rust_str \<times> dependency_source) list" where
  "dedup_step dep m =
     (case map_of m (dedup_key dep) of
        Some existing \<Rightarrow>
          if provenance existing = ''body'' \<and> is_native dep then omap_put (dedup_key dep) dep m else m
      | None \<Rightarrow> omap_put (dedup_key dep) dep m)"

definition deduplicated :: "dependency_source list \<Rightarrow> rust_str \<Rightarrow> dependency_source list" where
  "deduplicated deps source =
     map snd (fold dedup_step (filter (\<lambda>d. source_issue d = source) deps) [])"

text \<open>The numbers read before the walk: sorted, then without adjacent repetitions, as the code does it.\<close>

definition prefetch_list :: "(rust_str \<rightharpoonup> cached_issue) \<Rightarrow> dependency_source list \<Rightarrow> rust_str list" where
  "prefetch_list cache deps =
     remdups_adj (sort (filter (\<lambda>n. is_local_issue_reference n \<and> cache n = None) (map target_issue deps)))"

text \<open>Each of them is asked for, whatever the cache holds by then; its answer replaces what is there.\<close>

definition prefetch :: "issue_fetch \<Rightarrow> rust_str \<Rightarrow> resolver \<Rightarrow> resolver" where
  "prefetch fetch number st =
     st\<lparr> rs_cache := (rs_cache st)(number \<mapsto> answer fetch (length (rs_asked st)) number),
         rs_asked := rs_asked st @ [number] \<rparr>"

definition known_issues :: "issue_details list \<Rightarrow> rust_str \<rightharpoonup> cached_issue" where
  "known_issues issues =
     fold (\<lambda>i m. m(is_number i \<mapsto> IssueFound \<lparr> di_number = is_number i, di_body = is_body i, di_state = is_state i \<rparr>))
       issues Map.empty"

definition initial_resolver ::
  "issue_fetch \<Rightarrow> issue_details list \<Rightarrow> dependency_source list \<Rightarrow> resolver" where
  "initial_resolver fetch issues deps =
     fold (prefetch fetch) (prefetch_list (known_issues issues) deps)
       \<lparr> rs_cache = known_issues issues, rs_asked = [], rs_observations = [], rs_provenance = Map.empty \<rparr>"

definition inherit_provenance ::
  "(rust_str \<rightharpoonup> rust_str) \<Rightarrow> dependency_observation \<Rightarrow> dependency_observation" where
  "inherit_provenance prov ob =
     (case ob_provenance ob of
        Some _ \<Rightarrow> ob
      | None \<Rightarrow> ob\<lparr> ob_provenance :=
          opt_or (prov (ob_identity ob)) (prov (trim_start_matches (CHR ''#'') (ob_identity ob))) \<rparr>)"

definition open_failure :: dependency_failure where
  "open_failure = \<lparr> df_code = ''dependency_open'',
                    df_message = ''one or more declared prerequisites remain open'' \<rparr>"

definition evaluate_issue ::
  "issue_fetch \<Rightarrow> rust_str \<Rightarrow> dependency_source list \<Rightarrow> issue_details \<Rightarrow> resolver
     \<Rightarrow> (resolver \<times> dependency_blocker option) option" where
  "evaluate_issue fetch provider deps issue st =
     (let own = deduplicated deps (is_number issue)
      in if own = [] then Some (st, None)
         else Option.bind
                (walk fetch provider (is_number issue) [is_number issue] False None (map target_issue own)
                   (st\<lparr> rs_observations := [],
                        rs_provenance := map_of (rev (map (\<lambda>d. (target_issue d, provenance d)) own)) \<rparr>))
                (\<lambda>(st', res).
                   let observations = map (inherit_provenance (rs_provenance st')) (rs_observations st');
                       blocker = (\<lambda>e. Some (dependency_blocker_of issue (df_code e) (df_message e) observations))
                   in Some (st',
                        case res of
                          Inl err \<Rightarrow> blocker err
                        | Inr True \<Rightarrow> blocker open_failure
                        | Inr False \<Rightarrow> None)))"

fun evaluate_all ::
  "issue_fetch \<Rightarrow> rust_str \<Rightarrow> dependency_source list \<Rightarrow> issue_details list \<Rightarrow> resolver
     \<Rightarrow> (resolver \<times> dependency_blocker list) option" where
  "evaluate_all fetch provider deps [] st = Some (st, [])"
| "evaluate_all fetch provider deps (issue # issues) st =
     Option.bind (evaluate_issue fetch provider deps issue st)
       (\<lambda>(st', b). map_option (apsnd (\<lambda>bs. case b of None \<Rightarrow> bs | Some x \<Rightarrow> x # bs))
          (evaluate_all fetch provider deps issues st'))"

definition evaluate_issue_dependencies ::
  "issue_fetch \<Rightarrow> (rust_str \<Rightarrow> (relationship_error, dependency_source list) rust_result) \<Rightarrow> rust_str
     \<Rightarrow> issue_details list \<Rightarrow> (resolver \<times> dependency_blocker list) option" where
  "evaluate_issue_dependencies fetch native provider issues =
     (let fetched = map (\<lambda>i. (i, native (is_number i))) issues;
          deps = all_dependencies fetched
      in map_option (apsnd (\<lambda>bs. List.map_filter native_blocker fetched @ bs))
           (evaluate_all fetch provider deps issues (initial_resolver fetch issues deps)))"

end
