(* ===== verification/Dependencies_Props.thy ===== *)
theory Dependencies_Props
  imports Dependencies
begin

text \<open>
  Properties of declared prerequisites: the line of a body is read back as written, the walk ends and
  asks the forge at most once about an issue, and an issue is let through exactly when everything that
  is declared for it is closed.
\<close>

subsection \<open>What a walk adds\<close>

text \<open>Later states know more issues; each new one was asked for once, in the order of the questions.\<close>

definition extends :: "resolver \<Rightarrow> resolver \<Rightarrow> bool" where
  "extends st st' \<longleftrightarrow>
     rs_cache st \<subseteq>\<^sub>m rs_cache st'
     \<and> (\<exists>new. rs_asked st' = rs_asked st @ new \<and> distinct new
            \<and> set new \<inter> dom (rs_cache st) = {} \<and> dom (rs_cache st') = dom (rs_cache st) \<union> set new)"

lemma extends_refl [simp, intro]: "extends st st"
  by (simp add: extends_def)

lemma extends_trans [trans]:
  assumes "extends st st'" "extends st' st''"
  shows "extends st st''"
proof -
  from assms obtain u v where
    u: "rs_asked st' = rs_asked st @ u" "distinct u" "set u \<inter> dom (rs_cache st) = {}"
      "dom (rs_cache st') = dom (rs_cache st) \<union> set u" and
    v: "rs_asked st'' = rs_asked st' @ v" "distinct v" "set v \<inter> dom (rs_cache st') = {}"
      "dom (rs_cache st'') = dom (rs_cache st') \<union> set v"
    by (auto simp: extends_def)
  have "rs_cache st \<subseteq>\<^sub>m rs_cache st''"
    using assms by (auto simp: extends_def intro: map_le_trans)
  moreover have "rs_asked st'' = rs_asked st @ (u @ v)" "distinct (u @ v)"
    "set (u @ v) \<inter> dom (rs_cache st) = {}" "dom (rs_cache st'') = dom (rs_cache st) \<union> set (u @ v)"
    using u v by auto
  ultimately show ?thesis unfolding extends_def by blast
qed

lemma extends_cong:
  "rs_cache a = rs_cache b \<Longrightarrow> rs_asked a = rs_asked b \<Longrightarrow> extends st a \<longleftrightarrow> extends st b"
  "rs_cache a = rs_cache b \<Longrightarrow> rs_asked a = rs_asked b \<Longrightarrow> extends a st \<longleftrightarrow> extends b st"
  by (simp_all add: extends_def)

lemma observe_simps [simp]:
  "rs_cache (observe n p l st) = rs_cache st" "rs_asked (observe n p l st) = rs_asked st"
  "rs_cache (observe_issue n p i st) = rs_cache st" "rs_asked (observe_issue n p i st) = rs_asked st"
  by (simp_all add: observe_def observe_issue_def Let_def split: option.splits)

lemma resolve_cache:
  assumes "resolve fetch n st = (st', c)"
  shows "rs_cache st' n = Some c" "extends st st'"
  using assms
  by (auto simp: resolve_def extends_def Let_def map_le_def split: option.splits)

definition visited :: "visit \<Rightarrow> resolver" where
  "visited v = (case v of Passed st _ _ \<Rightarrow> st | Stopped st _ \<Rightarrow> st | Descend st _ \<Rightarrow> st)"

lemma visited_simps [simp]:
  "visited (Passed st b o') = st" "visited (Stopped st e) = st" "visited (Descend st ns) = st"
  by (simp_all add: visited_def)

lemma visit_issue_visited [simp]: "visited (visit_issue n i b st) = st"
  by (auto simp: visit_issue_def split: sum.splits option.splits)

lemma visit_extends: "extends st (visited (visit_reference fetch p current stack n b st))"
proof -
  obtain st1 c where r: "resolve fetch n st = (st1, c)" by fastforce
  from resolve_cache(2) [OF r] show ?thesis
    by (auto simp: visit_reference_def r extends_cong(1) [OF observe_simps(1,2)]
        extends_cong(1) [OF observe_simps(3,4)] split: cached_issue.splits)
qed

lemma visit_extendsD:
  "visit_reference fetch p current stack n b st = v \<Longrightarrow> extends st (visited v)"
  using visit_extends by blast

text \<open>Induction over a walk that returns, by what becomes of its first reference.\<close>

lemma walk_induct [consumes 1, case_names Nil Passed Stopped Failed Nested]:
  assumes "walk fetch p current stack has_open blocked refs st = Some (st', r)"
    and Nil: "\<And>current stack h b st. P current stack h b [] st st (case b of Some e \<Rightarrow> Inl e | None \<Rightarrow> Inr h)"
    and Passed: "\<And>current stack h b n rest st st1 b1 o1 st' r.
      visit_reference fetch p current stack n b st = Passed st1 b1 o1 \<Longrightarrow>
      P current stack (h \<or> o1) b1 rest st1 st' r \<Longrightarrow> P current stack h b (n # rest) st st' r"
    and Stopped: "\<And>current stack h b n rest st st1 e.
      visit_reference fetch p current stack n b st = Stopped st1 e \<Longrightarrow>
      P current stack h b (n # rest) st st1 (Inl e)"
    and Failed: "\<And>current stack h b n rest st st1 nested st2 e.
      visit_reference fetch p current stack n b st = Descend st1 nested \<Longrightarrow>
      P n (stack @ [n]) False None nested st1 st2 (Inl e) \<Longrightarrow> P current stack h b (n # rest) st st2 (Inl e)"
    and Nested: "\<And>current stack h b n rest st st1 nested st2 x st' r.
      visit_reference fetch p current stack n b st = Descend st1 nested \<Longrightarrow>
      P n (stack @ [n]) False None nested st1 st2 (Inr x) \<Longrightarrow>
      P current stack True b rest st2 st' r \<Longrightarrow> P current stack h b (n # rest) st st' r"
  shows "P current stack has_open blocked refs st st' r"
proof -
  let ?Q = "\<lambda>f q current stack h b refs st res. f = fetch \<and> q = p \<longrightarrow> P current stack h b refs st (fst res) (snd res)"
  have "?Q fetch p current stack has_open blocked refs st (st', r)"
  proof (rule walk.raw_induct [where P = ?Q, OF _ assms(1)], goal_cases)
    case (1 run f q current stack h b refs st res)
    show ?case
    proof
      assume fq: "f = fetch \<and> q = p"
      show "P current stack h b refs st (fst res) (snd res)"
      proof (cases refs)
        case refs: Nil
        with 1(2) Nil [of current stack h b st] show ?thesis by auto
      next
        case refs: (Cons n rest)
        show ?thesis
        proof (cases "visit_reference fetch p current stack n b st")
          case v: (Passed st1 b1 o1)
          with 1(2) refs fq have "run fetch p current stack (h \<or> o1) b1 rest st1 = Some res" by simp
          from 1(1) [OF this] show ?thesis unfolding refs by (intro Passed [OF v]) simp
        next
          case v: (Stopped st1 e)
          with 1(2) refs fq have "res = (st1, Inl e)" by simp
          then show ?thesis unfolding refs using Stopped [OF v] by simp
        next
          case v: (Descend st1 nested)
          with 1(2) refs fq obtain st2 r2 where inner: "run fetch p n (stack @ [n]) False None nested st1 = Some (st2, r2)"
            and outer: "(case r2 of Inl e \<Rightarrow> Some (st2, Inl e)
                 | Inr _ \<Rightarrow> run fetch p current stack True b rest st2) = Some res"
            by (auto simp: bind_eq_Some_conv)
          from 1(1) [OF inner] have i: "P n (stack @ [n]) False None nested st1 st2 r2" by simp
          show ?thesis
          proof (cases r2)
            case (Inl e)
            with outer Failed [OF v] i show ?thesis by (auto simp: refs)
          next
            case (Inr x)
            with outer have "run fetch p current stack True b rest st2 = Some res" by simp
            from 1(1) [OF this] show ?thesis
              unfolding refs by (intro Nested [OF v i [unfolded Inr]]) simp
          qed
        qed
      qed
    qed
  qed
  then show ?thesis by simp
qed

subsection \<open>What a walk finds\<close>

definition clear :: "(rust_str \<rightharpoonup> cached_issue) \<Rightarrow> rust_str \<Rightarrow> bool" where
  "clear cache n \<longleftrightarrow> is_local_issue_reference n
     \<and> (\<exists>i. cache n = Some (IssueFound i) \<and> normalize_state (di_state i) = ''closed'')"

lemma clear_mono: "clear c n \<Longrightarrow> c \<subseteq>\<^sub>m c' \<Longrightarrow> clear c' n"
  unfolding clear_def by (metis domI map_le_def)

lemma clear_extends: "clear (rs_cache st) n \<Longrightarrow> extends st st' \<Longrightarrow> clear (rs_cache st') n"
  by (auto simp: extends_def intro: clear_mono)

lemma visit_clear:
  assumes "visit_reference fetch p current stack n None st = Passed st' None False"
  shows "clear (rs_cache st') n" "n \<noteq> current" "n \<notin> set stack"
proof -
  obtain st1 c where r: "resolve fetch n st = (st1, c)" by fastforce
  from assms resolve_cache(1) [OF r] show "clear (rs_cache st') n" "n \<noteq> current" "n \<notin> set stack"
    by (auto simp: visit_reference_def r first_failure_def visit_issue_def clear_def
        split: if_splits cached_issue.splits sum.splits option.splits)
qed

lemma visit_of_clear:
  assumes "clear (rs_cache st'') n" "n \<noteq> current" "n \<notin> set stack"
    and "extends (visited (visit_reference fetch p current stack n b st)) st''"
  shows "\<exists>st'. visit_reference fetch p current stack n b st = Passed st' b False"
proof -
  obtain st1 c where r: "resolve fetch n st = (st1, c)" by fastforce
  from assms(1) obtain i where i: "is_local_issue_reference n" "rs_cache st'' n = Some (IssueFound i)"
    "normalize_state (di_state i) = ''closed''" by (auto simp: clear_def)
  have "extends st1 st''"
    using assms(2-4) i(1)
    by (auto simp: visit_reference_def r extends_cong(2) [OF observe_simps(1,2)]
        extends_cong(2) [OF observe_simps(3,4)] split: cached_issue.splits)
  then have "rs_cache st'' n = Some c"
    using resolve_cache(1) [OF r] by (auto simp: extends_def map_le_def dom_def)
  with i assms(2,3) show ?thesis by (simp add: visit_reference_def r visit_issue_def)
qed

lemma passed_blocked:
  assumes "visit_reference fetch p current stack n (Some e) st = Passed st' b o'"
  shows "b = Some e"
  using assms
  by (auto simp: visit_reference_def visit_issue_def first_failure_def
      split: if_splits prod.splits cached_issue.splits sum.splits option.splits)

text \<open>A recorded failure is never forgotten, and neither is an open reference; a walk without either
  found every reference closed.\<close>

lemma walk_post:
  assumes "walk fetch p current stack has_open blocked refs st = Some (st', r)"
  shows "extends st st'
     \<and> (\<forall>x. r = Inr x \<longrightarrow> blocked = None \<and> (has_open \<longrightarrow> x))
     \<and> (r = Inr False \<longrightarrow> (\<forall>n \<in> set refs. clear (rs_cache st') n \<and> n \<noteq> current \<and> n \<notin> set stack))"
  using assms
proof (induction rule: walk_induct)
  case (Passed current stack h b n rest st st1 b1 o1 st' r)
  then have st1: "extends st st1" "extends st1 st'" and b: "\<And>e. b = Some e \<Longrightarrow> b1 = Some e"
    by (auto dest: visit_extendsD passed_blocked)
  have "clear (rs_cache st') n \<and> n \<noteq> current \<and> n \<notin> set stack" if "r = Inr False"
  proof -
    from that Passed.IH have "b1 = None" "o1 = False" by auto
    with b have "b = None" by (cases b) auto
    with Passed.hyps \<open>b1 = None\<close> \<open>o1 = False\<close> visit_clear [of fetch p current stack n st st1] st1(2)
    show ?thesis by (auto intro: clear_extends)
  qed
  with Passed.IH st1 b show ?case by (cases b) (auto intro: extends_trans)
next
  case (Nested current stack h b n rest st st1 nested st2 x st' r)
  then show ?case by (auto dest!: visit_extendsD intro: extends_trans)
qed (auto dest!: visit_extendsD intro: extends_trans split: option.splits)

lemmas walk_extends = walk_post [THEN conjunct1]

text \<open>Conversely, a walk over closed references that are not on its path finds nothing.\<close>

lemma walk_of_clear:
  assumes "walk fetch p current stack has_open blocked refs st = Some (st', r)" "extends st' st''"
    and "\<forall>n \<in> set refs. clear (rs_cache st'') n \<and> n \<noteq> current \<and> n \<notin> set stack"
  shows "r = (case blocked of Some e \<Rightarrow> Inl e | None \<Rightarrow> Inr has_open)"
proof -
  have "extends st st' \<and> (extends st' st''
      \<and> (\<forall>n \<in> set refs. clear (rs_cache st'') n \<and> n \<noteq> current \<and> n \<notin> set stack)
      \<longrightarrow> r = (case blocked of Some e \<Rightarrow> Inl e | None \<Rightarrow> Inr has_open))"
    using assms(1)
  proof (induction rule: walk_induct)
    case (Passed current stack h b n rest st st1 b1 o1 st' r)
    then show ?case
      using visit_of_clear [of st'' n current stack fetch p b st]
      by (auto dest!: visit_extendsD intro: extends_trans split: option.splits)
  next
    case (Stopped current stack h b n rest st st1 e)
    then show ?case
      using visit_of_clear [of st'' n current stack fetch p b st] by (auto dest!: visit_extendsD)
  next
    case (Failed current stack h b n rest st st1 nested st2 e)
    then show ?case
      using visit_of_clear [of st'' n current stack fetch p b st]
      by (auto dest!: visit_extendsD intro: extends_trans)
  next
    case (Nested current stack h b n rest st st1 nested st2 x st' r)
    then have "extends st1 st'" by (auto intro: extends_trans)
    with Nested show ?case
      using visit_of_clear [of st'' n current stack fetch p b st]
      by (auto dest!: visit_extendsD intro: extends_trans)
  qed simp
  with assms(2,3) show ?thesis by blast
qed

subsection \<open>The walk ends\<close>

text \<open>A set of numbers that is closed under the references of every issue that can be read or is known.\<close>

definition within :: "rust_str set \<Rightarrow> dependency_issue \<Rightarrow> bool" where
  "within U i \<longleftrightarrow> (\<forall>rs. parse_dependency_line (di_body i) = Inr (Some rs) \<longrightarrow> set rs \<subseteq> U)"

definition closed_under :: "rust_str set \<Rightarrow> issue_fetch \<Rightarrow> (rust_str \<rightharpoonup> cached_issue) \<Rightarrow> bool" where
  "closed_under U fetch cache \<longleftrightarrow>
     (\<forall>k n i. fetch k n = Inr i \<longrightarrow> within U i) \<and> (\<forall>n i. cache n = Some (IssueFound i) \<longrightarrow> within U i)"

lemma resolve_closed:
  assumes "closed_under U fetch (rs_cache st)" "resolve fetch n st = (st', c)"
  shows "closed_under U fetch (rs_cache st')" "c = IssueFound i \<Longrightarrow> within U i"
  using assms
  by (auto simp: closed_under_def resolve_def answer_def Let_def split: option.splits sum.splits if_splits)

lemma visit_closed:
  assumes "closed_under U fetch (rs_cache st)"
  shows "closed_under U fetch (rs_cache (visited (visit_reference fetch p current stack n b st)))"
proof -
  obtain st2 c where r: "resolve fetch n st = (st2, c)" by fastforce
  from resolve_closed(1) [OF assms r] assms show ?thesis
    by (auto simp: visit_reference_def r split: cached_issue.splits)
qed

lemma descend_nested:
  assumes "visit_reference fetch p current stack n b st = Descend st1 nested"
    and "closed_under U fetch (rs_cache st)"
  shows "set nested \<subseteq> U" "n \<notin> set stack"
proof -
  obtain st2 c where r: "resolve fetch n st = (st2, c)" by fastforce
  with assms(1) obtain i where "c = IssueFound i" "parse_dependency_line (di_body i) = Inr (Some nested)"
    "n \<notin> set stack"
    by (auto simp: visit_reference_def visit_issue_def split: if_splits cached_issue.splits sum.splits option.splits)
  with resolve_closed(2) [OF assms(2) r] show "set nested \<subseteq> U" "n \<notin> set stack"
    by (auto simp: within_def)
qed

lemma walk_returns:
  assumes "finite U" "closed_under U fetch (rs_cache st)" "set refs \<subseteq> U"
  shows "\<exists>st' r. walk fetch p current stack has_open blocked refs st = Some (st', r)
           \<and> closed_under U fetch (rs_cache st')"
  using assms(2,3)
proof (induction "card (U - set stack)" arbitrary: current stack has_open blocked refs st rule: less_induct)
  case less
  show ?case
    using less.prems
  proof (induction refs arbitrary: has_open blocked st)
    case Nil
    then show ?case by (subst walk.simps) simp
  next
    case (Cons n rest)
    let ?v = "visit_reference fetch p current stack n blocked st"
    have v: "closed_under U fetch (rs_cache (visited ?v))" using Cons.prems(1) by (rule visit_closed)
    have rest: "\<exists>st' r. walk fetch p current stack h b rest st1 = Some (st', r) \<and> closed_under U fetch (rs_cache st')"
      if "closed_under U fetch (rs_cache st1)" for h b st1
      using Cons.IH [OF that] Cons.prems(2) by simp
    show ?case
    proof (cases ?v)
      case (Passed st1 b1 o1)
      with v rest [of st1] show ?thesis by (subst walk.simps) simp
    next
      case (Stopped st1 e)
      with v show ?thesis by (subst walk.simps) simp
    next
      case d: (Descend st1 nested)
      note nested = descend_nested [OF d Cons.prems(1)]
      have "U - set (stack @ [n]) \<subset> U - set stack"
        using nested(2) Cons.prems(2) by auto
      then have "card (U - set (stack @ [n])) < card (U - set stack)"
        using assms(1) by (intro psubset_card_mono) auto
      from v d have "closed_under U fetch (rs_cache st1)" by simp
      from less.hyps [OF \<open>card _ < _\<close> this nested(1), of n False None]
      obtain st2 r2 where inner: "walk fetch p n (stack @ [n]) False None nested st1 = Some (st2, r2)"
          "closed_under U fetch (rs_cache st2)"
        by blast
      show ?thesis
      proof (cases r2)
        case (Inl e)
        with d inner show ?thesis by (subst walk.simps) simp
      next
        case (Inr x)
        with d inner(1) rest [OF inner(2), of True blocked] show ?thesis
          by (subst walk.simps) simp
      qed
    qed
  qed
qed

subsection \<open>The merged relationships\<close>

definition keyed :: "rust_str \<Rightarrow> (rust_str \<times> dependency_source) list \<Rightarrow> bool" where
  "keyed src m = list_all (\<lambda>x. fst x = dedup_key (snd x) \<and> source_issue (snd x) = src) m"

lemma dedup_step_keys: "fst ` set (dedup_step d m) = insert (dedup_key d) (fst ` set m)"
  by (auto simp: dedup_step_def map_of_eq_None_iff split: option.splits dest!: map_of_SomeD intro: rev_image_eqI)

lemma dedup_step_keyed: "keyed src m \<Longrightarrow> source_issue d = src \<Longrightarrow> keyed src (dedup_step d m)"
  using set_omap_put_subset [of "dedup_key d" d m]
  by (auto simp: keyed_def list_all_iff dedup_step_def split: option.splits)

lemma fold_dedup:
  "keyed src m \<Longrightarrow> \<forall>d \<in> set ds. source_issue d = src \<Longrightarrow>
     keyed src (fold dedup_step ds m) \<and> fst ` set (fold dedup_step ds m) = dedup_key ` set ds \<union> fst ` set m"
  by (induction ds arbitrary: m) (auto simp: dedup_step_keys dedup_step_keyed)

lemma keyed_targets: "keyed src m \<Longrightarrow> target_issue ` snd ` set m = {t. src @ CHR '':'' # t \<in> fst ` set m}"
  by (induction m) (auto simp: keyed_def dedup_key_def)

lemma deduplicated_targets:
  "target_issue ` set (deduplicated deps src) = {target_issue d | d. d \<in> set deps \<and> source_issue d = src}"
proof -
  let ?ds = "filter (\<lambda>d. source_issue d = src) deps"
  have "keyed src []" "\<forall>d \<in> set ?ds. source_issue d = src" by (simp_all add: keyed_def)
  from fold_dedup [OF this]
  have "keyed src (fold dedup_step ?ds [])" "fst ` set (fold dedup_step ?ds []) = dedup_key ` set ?ds"
    by simp_all
  from keyed_targets [OF this(1)] this(2)
  have "target_issue ` set (deduplicated deps src) = {t. src @ CHR '':'' # t \<in> dedup_key ` set ?ds}"
    by (simp add: deduplicated_def)
  also have "\<dots> = {target_issue d | d. d \<in> set deps \<and> source_issue d = src}"
    by (auto simp: dedup_key_def image_iff)
  finally show ?thesis .
qed

text \<open>What is declared for an issue: the references of its body and the native relationships.\<close>

definition declared :: "issue_details \<Rightarrow> rust_str set" where
  "declared issue =
     (case parse_dependency_line (is_body issue) of Inr (Some rs) \<Rightarrow> set rs | _ \<Rightarrow> {})"

definition related :: "(relationship_error, dependency_source list) rust_result \<Rightarrow> rust_str set" where
  "related res = (case res of Inl _ \<Rightarrow> {} | Inr deps \<Rightarrow> target_issue ` set deps)"

lemma native_source:
  "fetch_native_dependencies env n = Inr deps \<Longrightarrow> d \<in> set deps \<Longrightarrow> source_issue d = n"
  by (auto simp: fetch_native_dependencies_def native_sources_def split: if_splits sum.splits)

lemma body_source: "d \<in> set (body_sources issue) \<Longrightarrow> source_issue d = is_number issue"
  by (auto simp: body_sources_def split: sum.splits option.splits)

lemma body_targets: "target_issue ` set (body_sources issue) = declared issue"
  by (auto simp: body_sources_def declared_def image_image split: sum.splits option.splits)

definition fetched_of :: "native_env \<Rightarrow> issue_details list
     \<Rightarrow> (issue_details \<times> (relationship_error, dependency_source list) rust_result) list" where
  "fetched_of env issues = map (\<lambda>i. (i, fetch_native_dependencies env (is_number i))) issues"

lemma merged_targets:
  assumes "distinct (map is_number issues)" "issue \<in> set issues"
  shows "target_issue ` set (deduplicated (all_dependencies (fetched_of env issues)) (is_number issue))
     = declared issue \<union> related (fetch_native_dependencies env (is_number issue))"
proof -
  let ?n = "is_number issue" and ?deps = "all_dependencies (fetched_of env issues)"
  have same: "i = issue" if "i \<in> set issues" "is_number i = ?n" for i
    using assms that by (auto simp: distinct_map inj_on_def)
  have mem: "d \<in> set ?deps \<longleftrightarrow> (\<exists>i \<in> set issues. d \<in> set (body_sources i))
      \<or> (\<exists>i \<in> set issues. \<exists>ds. fetch_native_dependencies env (is_number i) = Inr ds \<and> d \<in> set ds)" for d
    by (force simp: all_dependencies_def fetched_of_def split: sum.splits)
  have "{d \<in> set ?deps. source_issue d = ?n} = set (body_sources issue)
      \<union> (case fetch_native_dependencies env ?n of Inl _ \<Rightarrow> {} | Inr ds \<Rightarrow> set ds)" (is "?L = ?R")
  proof
    show "?L \<subseteq> ?R"
    proof
      fix d assume d: "d \<in> ?L"
      then consider (body) i where "i \<in> set issues" "d \<in> set (body_sources i)"
        | (native) i ds where "i \<in> set issues" "fetch_native_dependencies env (is_number i) = Inr ds" "d \<in> set ds"
        unfolding mem by auto
      then show "d \<in> ?R"
      proof cases
        case body
        with d same body_source show ?thesis by fastforce
      next
        case native
        with d native_source have "is_number i = ?n" by fastforce
        with native show ?thesis by simp
      qed
    qed
    show "?R \<subseteq> ?L"
      unfolding mem using assms(2) by (auto dest: body_source native_source split: sum.splits)
  qed
  then have "{target_issue d | d. d \<in> set ?deps \<and> source_issue d = ?n} = target_issue ` (set (body_sources issue)
      \<union> (case fetch_native_dependencies env ?n of Inl _ \<Rightarrow> {} | Inr ds \<Rightarrow> set ds))"
    by (auto simp: setcompr_eq_image)
  then show ?thesis
    by (simp add: deduplicated_targets image_Un body_targets related_def split: sum.splits)
qed

subsection \<open>The evaluation of all issues\<close>

definition admissible :: "dependency_source list \<Rightarrow> (rust_str \<rightharpoonup> cached_issue) \<Rightarrow> issue_details \<Rightarrow> bool" where
  "admissible deps cache issue \<longleftrightarrow>
     (\<forall>n \<in> target_issue ` set (deduplicated deps (is_number issue)). clear cache n \<and> n \<noteq> is_number issue)"

lemma evaluate_issue_post:
  assumes "evaluate_issue fetch p deps issue st = Some (st', b)" "extends st' st''"
  shows "extends st st'"
    and "db_ticket_path ` set_option b = (if admissible deps (rs_cache st'') issue then {} else {is_number issue})"
proof -
  let ?own = "deduplicated deps (is_number issue)" and ?n = "is_number issue"
  have "extends st st' \<and> db_ticket_path ` set_option b
      = (if admissible deps (rs_cache st'') issue then {} else {?n})"
  proof (cases "?own = []")
    case True
    with assms(1) show ?thesis by (auto simp: evaluate_issue_def admissible_def)
  next
    case False
    let ?st = "st\<lparr> rs_observations := [],
        rs_provenance := map_of (rev (map (\<lambda>d. (target_issue d, provenance d)) ?own)) \<rparr>"
    let ?walk = "walk fetch p ?n [?n] False None (map target_issue ?own) ?st"
    obtain r where w: "?walk = Some (st', r)"
      and b: "db_ticket_path ` set_option b = (if r = Inr False then {} else {?n})"
    proof (cases ?walk)
      case None
      with False assms(1) that show ?thesis by (simp add: evaluate_issue_def)
    next
      case (Some x)
      obtain st1 r where x: "x = (st1, r)" by fastforce
      have "st1 = st'" "db_ticket_path ` set_option b = (if r = Inr False then {} else {?n})"
        using False assms(1) Some x
        by (auto simp: evaluate_issue_def dependency_blocker_of_def Let_def split: sum.splits bool.splits if_splits)
      with that Some x show ?thesis by simp
    qed
    have "extends ?st st'" using w by (rule walk_extends)
    then have ext: "extends st st'" by (simp add: extends_def)
    have adm: "r = Inr False \<longleftrightarrow> admissible deps (rs_cache st'') issue"
    proof
      assume "r = Inr False"
      with walk_post [OF w] assms(2) show "admissible deps (rs_cache st'') issue"
        by (auto simp: admissible_def intro: clear_extends)
    next
      assume "admissible deps (rs_cache st'') issue"
      with walk_of_clear [OF w assms(2)] show "r = Inr False" by (auto simp: admissible_def)
    qed
    show ?thesis using ext unfolding b adm by simp
  qed
  then show "extends st st'"
    and "db_ticket_path ` set_option b = (if admissible deps (rs_cache st'') issue then {} else {is_number issue})"
    by (rule conjunct1, rule conjunct2)
qed

lemma evaluate_all_post:
  assumes "evaluate_all fetch p deps issues st = Some (st', bs)" "extends st' st''"
  shows "extends st st'
     \<and> db_ticket_path ` set bs = is_number ` {i \<in> set issues. \<not> admissible deps (rs_cache st'') i}"
  using assms
proof (induction issues arbitrary: st bs)
  case Nil
  then show ?case by simp
next
  case (Cons issue issues)
  then obtain st1 b cs where one: "evaluate_issue fetch p deps issue st = Some (st1, b)"
    and rest: "evaluate_all fetch p deps issues st1 = Some (st', cs)"
    and bs: "bs = (case b of None \<Rightarrow> cs | Some x \<Rightarrow> x # cs)"
    by (auto simp: bind_eq_Some_conv)
  from Cons.IH [OF rest Cons.prems(2)] have ext: "extends st1 st'"
    and cs: "db_ticket_path ` set cs = is_number ` {i \<in> set issues. \<not> admissible deps (rs_cache st'') i}"
    by blast+
  have "db_ticket_path ` set bs = db_ticket_path ` set_option b \<union> db_ticket_path ` set cs"
    by (auto simp: bs split: option.splits)
  with evaluate_issue_post [OF one extends_trans [OF ext Cons.prems(2)]] cs ext
  show ?case by (auto intro: extends_trans)
qed

lemma prefetch_extends:
  assumes "distinct ns" "set ns \<inter> dom (rs_cache st) = {}"
  shows "extends st (fold (prefetch fetch) ns st)"
  using assms
proof (induction ns arbitrary: st)
  case (Cons n ns)
  from Cons.prems have "extends st (prefetch fetch n st)"
    by (auto simp: extends_def prefetch_def map_le_def)
  also have "extends (prefetch fetch n st) (fold (prefetch fetch) ns (prefetch fetch n st))"
    by (intro Cons.IH) (use Cons.prems in \<open>auto simp: prefetch_def disjoint_iff dom_def\<close>)
  finally show ?case by simp
qed simp

lemma prefetch_list_missing:
  "distinct (prefetch_list cache deps)" "set (prefetch_list cache deps) \<inter> dom cache = {}"
proof -
  have "distinct (remdups_adj xs)" if "sorted xs" for xs :: "rust_str list"
    using that by (induction xs rule: remdups_adj.induct) auto
  then show "distinct (prefetch_list cache deps)" by (simp add: prefetch_list_def)
  show "set (prefetch_list cache deps) \<inter> dom cache = {}" by (auto simp: prefetch_list_def)
qed

lemma dom_fold_insert:
  "dom (fold (\<lambda>i m. m(k i \<mapsto> v i)) xs m) = dom m \<union> k ` set xs"
  by (induction xs arbitrary: m) auto

lemma known_issues_dom: "dom (known_issues issues) = is_number ` set issues"
  by (simp add: known_issues_def dom_fold_insert)

definition refused :: "(relationship_error, dependency_source list) rust_result \<Rightarrow> bool" where
  "refused res = (case res of Inl (UnsupportedServerVersion _) \<Rightarrow> False | Inl _ \<Rightarrow> True | Inr _ \<Rightarrow> False)"

lemma native_blockers:
  "db_ticket_path ` set (List.map_filter native_blocker (fetched_of env issues))
     = is_number ` {i \<in> set issues. refused (fetch_native_dependencies env (is_number i))}"
proof -
  have "native_blocker (i, res) = (if refused res
      then Some (dependency_blocker_of i ''dependency_query_failed''
             (relationship_error_str (projl res)) []) else None)" for i res
    by (auto simp: native_blocker_def refused_def split: sum.splits relationship_error.splits)
  then show ?thesis
    by (force simp: set_map_filter fetched_of_def dependency_blocker_of_def image_iff split: if_splits)
qed

text \<open>C16. An issue is let through exactly when everything that is declared for it is closed: after an
  evaluation of issues with distinct numbers, no blocker names it if and only if reading its native
  relationships did not fail (a server too old to have them counts as having none) and each reference of
  a well-formed line of its body and each native relationship is another issue of the same project that
  was read and is closed.  A malformed line of a discovered issue declares nothing.\<close>

theorem dependency_gate_exact:
  assumes "evaluate_issue_dependencies fetch (fetch_native_dependencies env) (ne_provider env) issues
             = Some (st, blockers)"
    and "distinct (map is_number issues)" "issue \<in> set issues"
  shows "is_number issue \<notin> db_ticket_path ` set blockers \<longleftrightarrow>
     \<not> refused (fetch_native_dependencies env (is_number issue))
     \<and> (\<forall>n \<in> declared issue \<union> related (fetch_native_dependencies env (is_number issue)).
          clear (rs_cache st) n \<and> n \<noteq> is_number issue)"
proof -
  let ?deps = "all_dependencies (fetched_of env issues)"
  from assms(1) obtain bs where
    ev: "evaluate_all fetch (ne_provider env) ?deps issues (initial_resolver fetch issues ?deps) = Some (st, bs)"
    and blockers: "blockers = List.map_filter native_blocker (fetched_of env issues) @ bs"
    by (auto simp: evaluate_issue_dependencies_def Let_def fetched_of_def [symmetric])
  let ?adm = "\<lambda>m. \<forall>n \<in> target_issue ` set (deduplicated ?deps m). clear (rs_cache st) n \<and> n \<noteq> m"
  have adm: "admissible ?deps (rs_cache st) i \<longleftrightarrow> ?adm (is_number i)" for i
    by (rule admissible_def)
  have "db_ticket_path ` set blockers
      = is_number ` {i \<in> set issues. refused (fetch_native_dependencies env (is_number i))}
        \<union> is_number ` {i \<in> set issues. \<not> ?adm (is_number i)}"
    using evaluate_all_post [OF ev extends_refl] unfolding adm blockers
    by (simp only: set_append image_Un native_blockers)
  then have "is_number issue \<notin> db_ticket_path ` set blockers \<longleftrightarrow>
      \<not> refused (fetch_native_dependencies env (is_number issue)) \<and> ?adm (is_number issue)"
    using assms(3) by (auto simp: image_iff)
  then show ?thesis unfolding merged_targets [OF assms(2,3)] .
qed

text \<open>C17. The forge is asked at most once about an issue, and never about one that the discovery has
  already read: in every evaluation, by the prefetch and the walk together, however many issues share a
  prerequisite and however deep the chains are.\<close>

theorem forge_asked_once:
  assumes "evaluate_issue_dependencies fetch native provider issues = Some (st, blockers)"
  shows "distinct (rs_asked st) \<and> set (rs_asked st) \<inter> is_number ` set issues = {}"
proof -
  let ?deps = "all_dependencies (map (\<lambda>i. (i, native (is_number i))) issues)"
  let ?st0 = "\<lparr> rs_cache = known_issues issues, rs_asked = [], rs_observations = [], rs_provenance = Map.empty \<rparr>"
  from assms obtain bs where
    "evaluate_all fetch provider ?deps issues (initial_resolver fetch issues ?deps) = Some (st, bs)"
    by (auto simp: evaluate_issue_dependencies_def Let_def)
  from evaluate_all_post [OF this extends_refl]
    prefetch_extends [OF prefetch_list_missing(1) [of "known_issues issues" ?deps], of ?st0 fetch]
    prefetch_list_missing(2) [of "known_issues issues" ?deps]
  have "extends ?st0 st" unfolding initial_resolver_def by (auto intro: extends_trans)
  then show ?thesis by (auto simp: extends_def known_issues_dom)
qed

subsection \<open>The evaluation ends\<close>

lemma evaluate_issue_returns:
  assumes "finite U" "closed_under U fetch (rs_cache st)" "target_issue ` set deps \<subseteq> U"
  shows "\<exists>st' b. evaluate_issue fetch p deps issue st = Some (st', b) \<and> closed_under U fetch (rs_cache st')"
proof (cases "deduplicated deps (is_number issue) = []")
  case True
  with assms(2) show ?thesis by (simp add: evaluate_issue_def)
next
  case False
  let ?own = "deduplicated deps (is_number issue)"
  let ?st = "st\<lparr> rs_observations := [],
      rs_provenance := map_of (rev (map (\<lambda>d. (target_issue d, provenance d)) ?own)) \<rparr>"
  have "set (map target_issue ?own) \<subseteq> U"
    using deduplicated_targets [of deps "is_number issue"] assms(3) by auto
  moreover have "closed_under U fetch (rs_cache ?st)" using assms(2) by simp
  ultimately obtain st' r where "walk fetch p (is_number issue) [is_number issue] False None
      (map target_issue ?own) ?st = Some (st', r)" "closed_under U fetch (rs_cache st')"
    using walk_returns [OF assms(1)] by blast
  with False show ?thesis by (simp add: evaluate_issue_def Let_def)
qed

lemma evaluate_all_returns:
  assumes "finite U" "closed_under U fetch (rs_cache st)" "target_issue ` set deps \<subseteq> U"
  shows "\<exists>st' bs. evaluate_all fetch p deps issues st = Some (st', bs)"
  using assms(2)
proof (induction issues arbitrary: st)
  case (Cons issue issues)
  obtain st' b where "evaluate_issue fetch p deps issue st = Some (st', b)" "closed_under U fetch (rs_cache st')"
    using evaluate_issue_returns [OF assms(1) Cons.prems assms(3)] by blast
  with Cons.IH [of st'] show ?case by auto
qed simp

lemma initial_closed:
  assumes "\<forall>k n i. fetch k n = Inr i \<longrightarrow> within U i" "\<forall>i \<in> set issues. declared i \<subseteq> U"
  shows "closed_under U fetch (rs_cache (initial_resolver fetch issues deps))"
proof -
  have known: "closed_under U fetch (known_issues issues)"
  proof -
    have "within U d" if "known_issues issues n = Some (IssueFound d)" for n d
    proof -
      have "(\<exists>i \<in> set is. v = IssueFound \<lparr> di_number = is_number i, di_body = is_body i, di_state = is_state i \<rparr>)
          \<or> m n = Some v"
        if "fold (\<lambda>i m. m(is_number i \<mapsto> IssueFound \<lparr> di_number = is_number i, di_body = is_body i,
              di_state = is_state i \<rparr>)) is m n = Some v" for "is" m v
        using that by (induction "is" arbitrary: m) (fastforce split: if_splits)+
      from this [OF that [unfolded known_issues_def]] obtain i where "i \<in> set issues" "di_body d = is_body i"
        by auto
      with assms(2) show ?thesis by (fastforce simp: within_def declared_def)
    qed
    with assms(1) show ?thesis by (auto simp: closed_under_def)
  qed
  have "closed_under U fetch (rs_cache (fold (prefetch fetch) ns st))" if "closed_under U fetch (rs_cache st)" for ns st
    using that
  proof (induction ns arbitrary: st)
    case (Cons n ns)
    from Cons.prems have "closed_under U fetch (rs_cache (prefetch fetch n st))"
      by (auto simp: closed_under_def prefetch_def answer_def split: sum.splits if_splits)
    from Cons.IH [OF this] show ?case by simp
  qed simp
  with known show ?thesis by (simp add: initial_resolver_def)
qed

text \<open>C18. The evaluation ends: when the bodies of the discovered issues, their native relationships and
  every issue the forge ever answers with refer to finitely many numbers, the walk over the graph
  returns, whatever cycles it has and however the answers change from one call to the next.\<close>

theorem dependency_evaluation_ends:
  assumes "finite U" "\<forall>k n i. fetch k n = Inr i \<longrightarrow> within U i"
    and "\<forall>i \<in> set issues. declared i \<union> related (fetch_native_dependencies env (is_number i)) \<subseteq> U"
  shows "\<exists>st blockers. evaluate_issue_dependencies fetch (fetch_native_dependencies env) provider issues
           = Some (st, blockers)"
proof -
  let ?deps = "all_dependencies (fetched_of env issues)"
  have "target_issue d \<in> U" if "d \<in> set ?deps" for d
  proof -
    from that consider (body) i where "i \<in> set issues" "d \<in> set (body_sources i)"
      | (native) i ds where "i \<in> set issues" "fetch_native_dependencies env (is_number i) = Inr ds" "d \<in> set ds"
      by (force simp: all_dependencies_def fetched_of_def split: sum.splits)
    then show ?thesis
    proof cases
      case body
      with assms(3) body_targets [of i] show ?thesis by blast
    next
      case native
      with assms(3) show ?thesis by (force simp: related_def)
    qed
  qed
  then have "target_issue ` set ?deps \<subseteq> U" by blast
  from evaluate_all_returns [OF assms(1) initial_closed [OF assms(2)] this] assms(3)
  show ?thesis
    by (auto simp: evaluate_issue_dependencies_def Let_def fetched_of_def [symmetric])
qed

subsection \<open>The line of a body\<close>

definition dependency_line :: "rust_str list \<Rightarrow> rust_str" where
  "dependency_line ns = ''Blocked by: '' @ join '', '' (map (\<lambda>n. CHR ''#'' # n) ns)"

lemma trim_space: "trim (CHR '' '' # s) = trim s"
  by (cases s rule: trim_start.cases) (simp_all add: trim_def ws1_def)

lemma valid_number_solid:
  assumes "valid_issue_number n"
  shows "n \<noteq> []" "\<forall>c \<in> set n. is_ascii_digit c" "ascii_solid (last n)" "trim (CHR ''#'' # n) = CHR ''#'' # n"
proof -
  show n: "n \<noteq> []" "\<forall>c \<in> set n. is_ascii_digit c"
    using assms by (auto simp: valid_issue_number_def list_all_iff)
  then show l: "ascii_solid (last n)"
    by (auto simp: is_ascii_digit_def ascii_solid_def dest!: bspec [OF _ last_in_set])
  show "trim (CHR ''#'' # n) = CHR ''#'' # n"
    using n(1) l by (intro trim_solid) (simp_all add: ascii_solid_def)
qed

lemma split_char_join:
  assumes "c \<notin> set sep" "\<forall>x \<in> set xs. c \<notin> set x" "xs \<noteq> []"
  shows "split_char c (join (c # sep) xs) = hd xs # map ((@) sep) (tl xs)"
  using assms(2,3)
proof (induction "c # sep" xs rule: join.induct)
  case (2 x)
  then show ?case by (simp add: split_char_solid)
next
  case (3 x y xs)
  have "split_char c (sep @ z) = (sep @ hd (split_char c z)) # tl (split_char c z)" for z
    using assms(1)
  proof (induction sep)
    case Nil
    then show ?case by simp
  next
    case (Cons a sep)
    then show ?case by (auto split: list.splits)
  qed
  with 3 show ?case by (simp add: split_char_append)
qed simp

lemma references_kept:
  assumes "list_all valid_issue_number ns" "distinct (acc @ ns)"
  shows "parse_references (map (\<lambda>n. CHR '' '' # CHR ''#'' # n) ns) acc = Inr (acc @ ns)"
  using assms
proof (induction ns arbitrary: acc)
  case (Cons n ns)
  have "CHR '':'' \<notin> set (CHR ''#'' # n)"
    using valid_number_solid(2) [of n] Cons.prems(1) by (auto simp: is_ascii_digit_def)
  then have "parse_reference (trim (CHR '' '' # CHR ''#'' # n)) = Inr (n, CHR ''#'' # n)"
    using Cons.prems(1) valid_number_solid(4) [of n]
    by (simp add: trim_space parse_reference_def parse_local_reference_def)
  with Cons.IH [of "acc @ [n]"] Cons.prems show ?case by simp
qed simp

lemma join_ne: "xs \<noteq> [] \<Longrightarrow> last xs \<noteq> [] \<Longrightarrow> join sep xs \<noteq> []"
  by (induction sep xs rule: join.induct) simp_all

lemma last_join: "xs \<noteq> [] \<Longrightarrow> last xs \<noteq> [] \<Longrightarrow> last (join sep xs) = last (last xs)"
proof (induction sep xs rule: join.induct)
  case (3 sep x y xs)
  then have "join sep (y # xs) \<noteq> []" by (intro join_ne) auto
  with 3 show ?case by (simp add: last_append)
qed simp_all

text \<open>C19. The line that declares prerequisites is read back as written: in a body whose other lines do
  not start with the words, in any case and after any white space, a list of different issue numbers
  printed as the code documents it is parsed to exactly these numbers, in their order.\<close>

theorem dependency_line_roundtrip:
  assumes "lines_of body = before @ [dependency_line ns] @ after_it"
    and "\<forall>l \<in> set (before @ after_it). \<not> is_dependency_line (trim l)"
    and "ns \<noteq> []" "distinct ns" "list_all valid_issue_number ns"
  shows "parse_dependency_line body = Inr (Some ns)"
proof -
  let ?xs = "map (\<lambda>n. CHR ''#'' # n) ns"
  let ?line = "dependency_line ns"
  have ln: "last ?line = last (last ns)" and solid: "ascii_solid (last (last ns))"
  proof -
    have "last ns \<noteq> []" and s: "ascii_solid (last (last ns))"
      using assms(3,5) valid_number_solid [of "last ns"] by (auto simp: list_all_iff)
    then have "last (join '', '' ?xs) = last (last ns)"
      using last_join [of ?xs "'', ''"] assms(3) by (simp add: last_map)
    moreover have "join '', '' ?xs \<noteq> []" using assms(3) by (cases ns rule: remdups_adj.cases) auto
    ultimately show "last ?line = last (last ns)" "ascii_solid (last (last ns))"
      using s by (simp_all add: dependency_line_def last_append)
  qed
  have "trim ?line = ?line"
    using solid unfolding ln [symmetric] by (intro trim_solid) (simp_all add: dependency_line_def ascii_solid_def)
  moreover have "is_dependency_line ?line"
  proof -
    have "to_ascii_lowercase ''Blocked by'' = ''blocked by''" by code_simp
    then have "to_ascii_lowercase (''Blocked by'' @ s) = ''blocked by'' @ to_ascii_lowercase s" for s
      by (simp add: to_ascii_lowercase_def)
    from this [of "'': '' @ join '', '' ?xs"] show ?thesis
      by (simp add: is_dependency_line_def dependency_line_def starts_with_iff)
  qed
  ultimately have one: "filter is_dependency_line (map trim (lines_of body)) = [?line]"
    using assms(2) by (auto simp: assms(1) filter_empty_conv)
  have payload: "strip_prefix ''Blocked by:'' ?line = Some (CHR '' '' # join '', '' ?xs)"
    by (simp add: dependency_line_def)
  have comma: "CHR '','' \<notin> set n" if "n \<in> set ns" for n
    using that assms(5) valid_number_solid(2) [of n] by (auto simp: list_all_iff is_ascii_digit_def)
  then have "split_char (CHR '','') (join '', '' ?xs) = hd ?xs # map ((@) '' '') (tl ?xs)"
    using split_char_join [of "CHR '',''" "'' ''" ?xs] assms(3) by simp
  then have pieces: "split_char (CHR '','') (CHR '' '' # join '', '' ?xs) = map (\<lambda>n. CHR '' '' # CHR ''#'' # n) ns"
    using assms(3) by (cases ns) simp_all
  have "trim (CHR '' '' # join '', '' ?xs) \<noteq> []"
  proof -
    have "trim (join '', '' ?xs) = join '', '' ?xs"
      using assms(3) solid ln
      by (intro trim_solid; cases ns rule: remdups_adj.cases)
         (auto simp: dependency_line_def ascii_solid_def last_append)
    moreover have "join '', '' ?xs \<noteq> []" using assms(3) by (cases ns rule: remdups_adj.cases) auto
    ultimately show ?thesis by (simp add: trim_space)
  qed
  then show ?thesis
    using references_kept [OF assms(5), of "[]"] assms(4)
    by (simp add: parse_dependency_line_def one payload pieces del: split_char.simps)
qed

text \<open>A malformed line of a discovered issue is dropped: the issue is let through, although the same
  line in a prerequisite stops the walk.\<close>

definition no_relations :: native_env where
  "no_relations = \<lparr> ne_provider = ''github'', ne_repo = ''o/r'', ne_redact = (\<lambda>s. s),
     ne_gh = (\<lambda>e. GhExit True [] [Inr (JArr [])]), ne_project = Inl ''none'', ne_gitlab = (\<lambda>e. Inl ''none''),
     ne_json_str = (\<lambda>v. []) \<rparr>"

lemma no_relations_native [simp]: "fetch_native_dependencies no_relations n = Inr []"
  by (simp add: fetch_native_dependencies_def native_sources_def no_relations_def fetch_github_sub_issues_def
      github_list_pages_def as_array_def MAX_PAGES_def is_some_def)

theorem malformed_line_is_dropped:
  assumes "parse_dependency_line (is_body issue) = Inl err"
  shows "map_option snd (evaluate_issue_dependencies fetch (fetch_native_dependencies no_relations) ''github'' [issue])
           = Some []"
proof -
  show ?thesis using assms
    by (simp add: evaluate_issue_dependencies_def Let_def all_dependencies_def body_sources_def
        evaluate_issue_def deduplicated_def native_blocker_def)
qed

subsection \<open>A concrete repository\<close>

definition example_body :: rust_str where
  "example_body = ''Intro'' @ [CHR 0x0A] @ dependency_line [''12'', ''34''] @ [CHR 0x0A]"

lemma dependency_line_roundtrip_witness: "parse_dependency_line example_body = Inr (Some [''12'', ''34''])"
proof (rule dependency_line_roundtrip [where before = "[''Intro'']" and after_it = "[]"])
  show "lines_of example_body = [''Intro''] @ [dependency_line [''12'', ''34'']] @ []" by code_simp
  show "\<forall>l \<in> set ([''Intro''] @ []). \<not> is_dependency_line (trim l)" by code_simp
qed (simp_all, code_simp)

definition example_issue :: "rust_str \<Rightarrow> rust_str \<Rightarrow> issue_details" where
  "example_issue n body = \<lparr> is_number = n, is_title = ''T'', is_body = body, is_labels = [], is_state = Some ''open'' \<rparr>"

text \<open>Issue 7 waits for 12, which is closed, and for 34, which is open and waits for 7.\<close>

definition example_fetch :: issue_fetch where
  "example_fetch k n =
     (if n = ''12'' then Inr \<lparr> di_number = n, di_body = [], di_state = Some ''closed'' \<rparr>
      else if n = ''34'' then Inr \<lparr> di_number = n, di_body = dependency_line [''7''], di_state = Some ''open'' \<rparr>
      else Inl ''404'')"

definition example_issues :: "issue_details list" where
  "example_issues = [example_issue ''7'' example_body, example_issue ''8'' (dependency_line [''12''])]"

lemma example_line_8: "parse_dependency_line (dependency_line [''12'']) = Inr (Some [''12''])" by code_simp
lemma example_line_34: "parse_dependency_line (dependency_line [''7'']) = Inr (Some [''7''])" by code_simp
lemma example_line_7: "parse_dependency_line example_body = Inr (Some [''12'', ''34''])" by code_simp
lemma example_line_none: "parse_dependency_line [] = Inr None" by code_simp

lemma dependency_evaluation_ends_witness:
  "\<exists>st blockers. evaluate_issue_dependencies example_fetch (fetch_native_dependencies no_relations) ''github''
      example_issues = Some (st, blockers)"
proof (rule dependency_evaluation_ends [of "{''7'', ''12'', ''34''}"])
  show "\<forall>k n i. example_fetch k n = Inr i \<longrightarrow> within {''7'', ''12'', ''34''} i"
    by (auto simp: example_fetch_def within_def example_line_34 example_line_none split: if_splits)
  show "\<forall>i \<in> set example_issues. declared i \<union> related (fetch_native_dependencies no_relations (is_number i))
      \<subseteq> {''7'', ''12'', ''34''}"
    by (simp add: example_issues_def example_issue_def declared_def related_def example_line_7 example_line_8)
qed simp

lemma example_deps:
  "all_dependencies (map (\<lambda>i. (i, fetch_native_dependencies no_relations (is_number i))) example_issues)
     = [\<lparr> source_issue = ''7'', target_issue = ''12'', provenance = ''body'' \<rparr>,
        \<lparr> source_issue = ''7'', target_issue = ''34'', provenance = ''body'' \<rparr>,
        \<lparr> source_issue = ''8'', target_issue = ''12'', provenance = ''body'' \<rparr>]"
  by (simp add: all_dependencies_def example_issues_def example_issue_def body_sources_def example_line_7 example_line_8)

lemma walk_steps:
  "walk fetch p current stack h b [] st = Some (st, case b of Some e \<Rightarrow> Inl e | None \<Rightarrow> Inr h)"
  "walk fetch p current stack h b (n # rest) st =
     (case visit_reference fetch p current stack n b st of
        Passed st' b' o' \<Rightarrow> walk fetch p current stack (h \<or> o') b' rest st'
      | Stopped st' err \<Rightarrow> Some (st', Inl err)
      | Descend st' nested \<Rightarrow>
          Option.bind (walk fetch p n (stack @ [n]) False None nested st')
            (\<lambda>(st'', res). case res of Inl err \<Rightarrow> Some (st'', Inl err)
               | Inr x \<Rightarrow> walk fetch p current stack True b rest st''))"
  by (subst walk.simps; simp)+

lemma example_evaluates:
  "map_option (\<lambda>(st, bs). (rs_asked st, map (\<lambda>b. (db_ticket_path b, db_reason_code b)) bs))
     (evaluate_issue_dependencies example_fetch (fetch_native_dependencies no_relations) (ne_provider no_relations) example_issues)
   = Some ([''12'', ''34''], [(''7'', ''dependency_cycle'')])"
proof -
  have local: "is_local_issue_reference ''12''" "is_local_issue_reference ''34''" "is_local_issue_reference ''7''"
    by code_simp+
  have normalized: "normalize_state (Some ''closed'') = ''closed''" "normalize_state (Some ''open'') = ''open''"
    by code_simp+
  have sorted: "sort [''34'', ''12''] = [''12'', ''34'']" "sort [''12'', ''34''] = [''12'', ''34'']" by code_simp+
  show ?thesis
    unfolding evaluate_issue_dependencies_def example_deps Let_def
    by (simp add: example_issues_def example_issue_def native_blocker_def List.map_filter_simps
        initial_resolver_def prefetch_list_def known_issues_def sorted local prefetch_def resolve_def
        answer_def example_fetch_def evaluate_issue_def deduplicated_def dedup_step_def dedup_key_def
        walk_steps visit_reference_def visit_issue_def observe_issue_def normalized example_line_34
        cycle_failure_def dependency_blocker_of_def open_failure_def Let_def)
qed

lemma example_result:
  obtains st blockers where
    "evaluate_issue_dependencies example_fetch (fetch_native_dependencies no_relations) (ne_provider no_relations)
       example_issues = Some (st, blockers)"
    "rs_asked st = [''12'', ''34'']" "db_ticket_path ` set blockers = {''7''}"
proof -
  from example_evaluates obtain st blockers where ev: "evaluate_issue_dependencies example_fetch
      (fetch_native_dependencies no_relations) (ne_provider no_relations) example_issues = Some (st, blockers)"
    and r: "rs_asked st = [''12'', ''34'']"
      "map (\<lambda>b. (db_ticket_path b, db_reason_code b)) blockers = [(''7'', ''dependency_cycle'')]"
    by auto
  from arg_cong [OF r(2), of "map fst"] have "map db_ticket_path blockers = [''7'']" by (simp add: comp_def)
  then have "db_ticket_path ` set blockers = {''7''}" by (metis list.set_map list.simps(15) empty_set)
  with that ev r(1) show thesis by blast
qed

lemma dependency_gate_exact_witness:
  "\<exists>st blockers. evaluate_issue_dependencies example_fetch (fetch_native_dependencies no_relations)
       (ne_provider no_relations) example_issues = Some (st, blockers)
     \<and> ''7'' \<in> db_ticket_path ` set blockers \<and> ''8'' \<notin> db_ticket_path ` set blockers
     \<and> clear (rs_cache st) ''12''"
proof -
  let ?i = "example_issue ''8'' (dependency_line [''12''])"
  obtain st blockers where ev: "evaluate_issue_dependencies example_fetch (fetch_native_dependencies no_relations)
      (ne_provider no_relations) example_issues = Some (st, blockers)"
    and paths: "db_ticket_path ` set blockers = {''7''}" by (rule example_result)
  have "distinct (map is_number example_issues)" "?i \<in> set example_issues" "declared ?i = {''12''}"
    by (simp_all add: example_issues_def example_issue_def declared_def example_line_8)
  with dependency_gate_exact [OF ev, of ?i] paths have "clear (rs_cache st) ''12''"
    by (simp add: example_issue_def)
  with ev paths show ?thesis by auto
qed

lemma forge_asked_once_witness:
  "\<exists>st blockers. evaluate_issue_dependencies example_fetch (fetch_native_dependencies no_relations)
       (ne_provider no_relations) example_issues = Some (st, blockers)
     \<and> rs_asked st = [''12'', ''34''] \<and> distinct (rs_asked st)"
proof -
  obtain st blockers where ev: "evaluate_issue_dependencies example_fetch (fetch_native_dependencies no_relations)
      (ne_provider no_relations) example_issues = Some (st, blockers)"
    and asked: "rs_asked st = [''12'', ''34'']" by (rule example_result)
  from forge_asked_once [OF ev] ev asked show ?thesis by auto
qed

end
