(* ===== verification/Merge_Request.thy ===== *)
theory Merge_Request
  imports Ledger Snapshot Text_Scan Json_Value
begin

text \<open>
  Merge requests as the forge reports them and the rows the controller reads (\<^verbatim>\<open>sync.rs\<close>,
  \<^verbatim>\<open>sync/review_state.rs\<close>, \<^verbatim>\<open>sync/repository.rs\<close>, \<^verbatim>\<open>github_ci.rs\<close>): the work item of a title, the class of
  a merge request, the identity of the metadata a reviewer saw, the row with the verdict of the
  ledger, the snapshots of a forge, and the attempts counted per branch.  SHA-256 and the answers of
  the forge are arguments.
\<close>

subsection \<open>Checks of continuous integration\<close>

datatype github_ci_status = CiMissing | CiPending | CiPassed | CiFailed

fun ci_scan :: "rust_str option list \<Rightarrow> bool \<Rightarrow> bool \<Rightarrow> github_ci_status" where
  "ci_scan [] found passed = (if \<not> found then CiMissing else if passed then CiPassed else CiPending)"
| "ci_scan (c # cs) found passed =
     (if c = Some ''FAILURE'' then CiFailed
      else ci_scan cs True
             (passed \<and> (c = Some ''SUCCESS'' \<or> c = Some ''NEUTRAL'' \<or> c = Some ''SKIPPED'')))"

definition github_ci_classify :: "rust_str option list \<Rightarrow> github_ci_status" where
  "github_ci_classify conclusions = ci_scan conclusions False True"

definition github_ci_failed :: "rust_str option list option \<Rightarrow> bool" where
  "github_ci_failed checks = (github_ci_classify (unwrap_or checks []) = CiFailed)"

definition github_ci_passed :: "rust_str option list option \<Rightarrow> bool" where
  "github_ci_passed checks = (github_ci_classify (unwrap_or checks []) = CiPassed)"

definition gitlab_ci_failed :: "rust_str option \<Rightarrow> bool" where
  "gitlab_ci_failed st = (st = Some ''failed'' \<or> st = Some ''canceled'')"

definition gitlab_ci_passed :: "rust_str option \<Rightarrow> bool" where
  "gitlab_ci_passed st = (st = Some ''success'')"

definition gitlab_ci_pending :: "rust_str option \<Rightarrow> bool" where
  "gitlab_ci_pending st =
     (st \<in> {None, Some ''running'', Some ''pending'', Some ''created'', Some ''skipped'', Some ''manual''})"

subsection \<open>The merge request of a forge\<close>

record provider_mr =
  sm_title :: rust_str
  sm_body :: "rust_str option"
  sm_branch :: rust_str
  sm_labels :: "rust_str list"
  sm_url :: "rust_str option"
  sm_id :: "rust_str option"
  sm_state :: "rust_str option"
  sm_draft :: bool
  sm_source_sha :: "rust_str option"
  sm_merged :: bool
  sm_updated_at :: "rust_str option"
  sm_ci_failed :: bool
  sm_ci_passed :: bool
  sm_ci_pending :: bool
  sm_work_id :: "rust_str option"

definition hash_digits :: "rust_str \<Rightarrow> rust_str option" where
  "hash_digits rest =
     (let digits = takeWhile is_ascii_digit rest in if digits = [] then None else Some (CHR ''#'' # digits))"

definition extract_work_id_from_title :: "rust_str \<Rightarrow> rust_str option" where
  "extract_work_id_from_title title =
     (case first (List.map_filter hash_digits (tl (split_char (CHR ''#'') title))) of
        Some issue_id \<Rightarrow> Some issue_id
      | None \<Rightarrow>
          (case find_str ''TICKET-'' title of
             None \<Rightarrow> None
           | Some idx \<Rightarrow>
               (let digits = takeWhile is_ascii_digit (drop (idx + length ''TICKET-'') title)
                in if digits = [] then None else Some (''TICKET-'' @ digits))))"

definition is_closed_unmerged :: "rust_str option \<Rightarrow> bool \<Rightarrow> bool" where
  "is_closed_unmerged st merged = (\<not> merged \<and> map_option to_ascii_lowercase st = Some ''closed'')"

text \<open>\<open>is_stale\<close>: the cutoff is the rendered instant of two weeks ago, compared as a text.\<close>

definition is_stale_mr :: "rust_str \<Rightarrow> rust_str option \<Rightarrow> bool" where
  "is_stale_mr cutoff updated_at = (case updated_at of None \<Rightarrow> False | Some u \<Rightarrow> u < cutoff)"

definition classify :: "rust_str \<Rightarrow> provider_mr \<Rightarrow> rust_str" where
  "classify cutoff mr =
     (if sm_merged mr then ''MERGED''
      else if is_closed_unmerged (sm_state mr) (sm_merged mr) then ''CLOSED_UNMERGED''
      else if sm_ci_failed mr then ''CI_FAILED''
      else if ''gah-needs-fix'' \<in> set (sm_labels mr) then ''NEEDS_FIX''
      else if ''gah-ready-for-human'' \<in> set (sm_labels mr) then ''READY_FOR_HUMAN''
      else if list_ex (\<lambda>l. l = ''gah-human-review'' \<or> l = ''gah-review-weak'' \<or> l = ''gah-review-escalating'')
                (sm_labels mr) then ''NEEDS_REVIEW''
      else if is_stale_mr cutoff (sm_updated_at mr) then ''STALE''
      else if starts_with ''gah/'' (sm_branch mr) then ''NEEDS_REVIEW''
      else ''UNKNOWN'')"

datatype recommended_action =
  ReuseBranch | HumanMergeDecision | RunReview | NoAction | InspectBranch | InspectManually

definition from_class :: "rust_str \<Rightarrow> recommended_action" where
  "from_class c =
     (if c = ''CI_FAILED'' \<or> c = ''NEEDS_FIX'' then ReuseBranch
      else if c = ''READY_FOR_HUMAN'' then HumanMergeDecision
      else if c = ''NEEDS_REVIEW'' then RunReview
      else if c = ''MERGED'' \<or> c = ''CLOSED_UNMERGED'' then NoAction
      else if c = ''STALE'' then InspectBranch
      else InspectManually)"

subsection \<open>The identity of what a reviewer saw\<close>

text \<open>\<open>to_be_bytes\<close> of a 64-bit length.\<close>

definition be_bytes :: "nat \<Rightarrow> rust_str" where
  "be_bytes n = map (\<lambda>i. char_of ((n div 256 ^ (7 - i)) mod 256)) [0..<8]"

definition sized :: "rust_str \<Rightarrow> rust_str" where
  "sized v = be_bytes (length v) @ v"

text \<open>The bytes that are hashed.\<close>

definition fingerprint_message :: "rust_str option \<Rightarrow> rust_str option \<Rightarrow> rust_str option \<Rightarrow> bool \<Rightarrow> rust_str" where
  "fingerprint_message sha title body draft =
     (let stripped = opt_or (Option.bind title (strip_prefix ''Draft: '')) title
      in ''gah-review-metadata-v1'' @ [CHR 0x00]
         @ sized (unwrap_or sha []) @ sized (unwrap_or stripped []) @ sized (unwrap_or body [])
         @ [if draft then CHR 0x01 else CHR 0x00])"

definition review_metadata_fingerprint ::
  "(rust_str \<Rightarrow> rust_str) \<Rightarrow> rust_str option \<Rightarrow> rust_str option \<Rightarrow> rust_str option \<Rightarrow> bool \<Rightarrow> rust_str" where
  "review_metadata_fingerprint sha256 sha title body draft =
     ''sha256:'' @ sha256 (fingerprint_message sha title body draft)"

definition mr_fingerprint :: "(rust_str \<Rightarrow> rust_str) \<Rightarrow> provider_mr \<Rightarrow> rust_str" where
  "mr_fingerprint sha256 mr =
     review_metadata_fingerprint sha256 (sm_source_sha mr) (Some (sm_title mr)) (sm_body mr) (sm_draft mr)"

definition review_metadata_matches :: "(rust_str \<Rightarrow> rust_str) \<Rightarrow> ledger_entry \<Rightarrow> provider_mr \<Rightarrow> bool" where
  "review_metadata_matches sha256 latest mr =
     (let recorded = le_review_metadata_fingerprint latest
      in if recorded = Some (mr_fingerprint sha256 mr) then True
         else \<not> sm_draft mr
              \<and> recorded = Some (review_metadata_fingerprint sha256 (sm_source_sha mr) (Some (sm_title mr))
                                   (sm_body mr) True))"

definition current_review_generation :: "(rust_str \<Rightarrow> rust_str) \<Rightarrow> provider_mr \<Rightarrow> rust_str option" where
  "current_review_generation sha256 mr = review_generation (sm_source_sha mr) (Some (mr_fingerprint sha256 mr))"

definition review_generation_matches ::
  "(rust_str \<Rightarrow> rust_str) \<Rightarrow> rust_str \<Rightarrow> rust_str option \<Rightarrow> rust_str option \<Rightarrow> rust_str option \<Rightarrow> bool \<Rightarrow> bool" where
  "review_generation_matches sha256 generation sha title body draft =
     (review_generation sha (Some (review_metadata_fingerprint sha256 sha title body draft)) = Some generation
      \<or> \<not> draft
        \<and> review_generation sha (Some (review_metadata_fingerprint sha256 sha title body True)) = Some generation)"

definition review_generation_matches_mr :: "(rust_str \<Rightarrow> rust_str) \<Rightarrow> rust_str \<Rightarrow> provider_mr \<Rightarrow> bool" where
  "review_generation_matches_mr sha256 generation mr =
     review_generation_matches sha256 generation (sm_source_sha mr) (Some (sm_title mr)) (sm_body mr) (sm_draft mr)"

definition review_contract_matches :: "(rust_str \<Rightarrow> rust_str) \<Rightarrow> ledger_entry \<Rightarrow> provider_mr \<Rightarrow> bool" where
  "review_contract_matches sha256 latest mr =
     (le_review_contract_version latest = Some CURRENT_REVIEW_CONTRACT_VERSION
      \<and> le_review_generation latest
          = review_generation (le_review_source_sha latest) (le_review_metadata_fingerprint latest)
      \<and> is_some (le_review_generation latest)
      \<and> review_metadata_matches sha256 latest mr
      \<and> is_some_and (le_review_generation latest) (\<lambda>g. review_generation_matches_mr sha256 g mr))"

subsection \<open>The row of a merge request\<close>

type_synonym ledger_index = "(rust_str \<times> ledger_entry list) list"

definition entries_of_mr :: "ledger_index \<Rightarrow> provider_mr \<Rightarrow> ledger_entry list option" where
  "entries_of_mr ledger mr = Option.bind (sm_work_id mr) (map_of ledger)"

definition is_completed_review :: "ledger_entry \<Rightarrow> bool" where
  "is_completed_review e =
     is_some_and (opt_or (le_review_verdict e) (le_validation_result e))
       (\<lambda>v. v \<in> {''APPROVE'', ''NEEDS_FIX'', ''REJECT'', ''HUMAN_REVIEW'', ''REVIEW_OUTPUT_INVALID''})"

definition latest_review_for_mr :: "ledger_index \<Rightarrow> provider_mr \<Rightarrow> ledger_entry option" where
  "latest_review_for_mr ledger mr =
     Option.bind (entries_of_mr ledger mr)
       (\<lambda>entries. List.find (\<lambda>e. le_branch e = Some (sm_branch mr) \<and> is_completed_review e) (rev entries))"

definition is_implementation :: "ledger_entry \<Rightarrow> bool" where
  "is_implementation e = (job_kind_parse (le_mode e) \<in> {Inr Fix, Inr Improve} \<and> le_effective_backend e \<noteq> [])"

definition ledger_info_for_mr ::
  "ledger_index \<Rightarrow> provider_mr \<Rightarrow> rust_str option \<times> rust_str option \<times> rust_str option \<times> rust_str option" where
  "ledger_info_for_mr ledger mr =
     (case entries_of_mr ledger mr of
        None \<Rightarrow> (None, None, None, None)
      | Some entries \<Rightarrow>
          (let implementation =
                 opt_or (List.find (\<lambda>e. is_implementation e \<and> le_mr_url e = sm_url mr) (rev entries))
                   (List.find (\<lambda>e. is_implementation e \<and> le_branch e = Some (sm_branch mr)) (rev entries));
               review = List.find (\<lambda>e. le_branch e = Some (sm_branch mr) \<and> is_some (le_review_verdict e)) (rev entries)
           in (map_option le_effective_backend implementation,
               Option.bind implementation le_effective_model,
               Option.bind review le_review_verdict,
               Option.bind review le_review_gate_reason)))"

definition superseded_status :: "ledger_entry \<Rightarrow> rust_str" where
  "superseded_status latest =
     (if le_review_contract_version latest \<noteq> Some CURRENT_REVIEW_CONTRACT_VERSION
      then ''superseded review contract ''
           @ (case le_review_contract_version latest of None \<Rightarrow> ''legacy'' | Some v \<Rightarrow> nat_str v)
           @ '' -> '' @ nat_str CURRENT_REVIEW_CONTRACT_VERSION
      else if le_review_generation latest = None then ''superseded review missing generation identity''
      else ''superseded review because source or provider metadata changed'')"

definition reviewed_class :: "ledger_entry \<Rightarrow> rust_str \<Rightarrow> rust_str" where
  "reviewed_class latest c =
     (case le_review_verdict latest of
        None \<Rightarrow> c
      | Some v \<Rightarrow>
          if v = ''APPROVE'' then ''READY_FOR_HUMAN''
          else if v = ''NEEDS_FIX'' \<or> v = ''REJECT'' then ''NEEDS_FIX''
          else if v = ''HUMAN_REVIEW'' then (if le_human_required latest then ''READY_FOR_HUMAN'' else ''NEEDS_REVIEW'')
          else if v = ''REVIEW_OUTPUT_INVALID'' then ''NEEDS_REVIEW''
          else c)"

text \<open>The class, the verdict and the reason after the ledger is consulted.\<close>

definition reconciled_class ::
  "rust_str \<Rightarrow> ledger_entry option \<Rightarrow> bool \<Rightarrow> rust_str option \<Rightarrow> rust_str option
     \<Rightarrow> rust_str \<times> rust_str option \<times> rust_str option" where
  "reconciled_class c latest is_current verdict gate =
     (if c = ''MERGED'' \<or> c = ''CLOSED_UNMERGED'' \<or> c = ''CI_FAILED'' then (c, verdict, gate)
      else case latest of
             None \<Rightarrow> (c, verdict, gate)
           | Some e \<Rightarrow>
               if \<not> is_current then (''NEEDS_REVIEW'', None, Some (superseded_status e))
               else (reviewed_class e c, verdict, gate))"

definition sync_mr_to_json ::
  "rust_str \<Rightarrow> (rust_str \<Rightarrow> rust_str) \<Rightarrow> provider_mr \<Rightarrow> ledger_index \<Rightarrow> sync_mr" where
  "sync_mr_to_json cutoff sha256 mr ledger =
     (let latest = latest_review_for_mr ledger mr;
          is_current = is_some_and latest (\<lambda>e. review_contract_matches sha256 e mr);
          (_, _, verdict, gate) = ledger_info_for_mr ledger mr;
          (c, verdict', gate') = reconciled_class (classify cutoff mr) latest is_current verdict gate
      in \<lparr> mr_branch = sm_branch mr, mr_work_id = sm_work_id mr, mr_url = sm_url mr, mr_draft = sm_draft mr,
           mr_ci_passed = sm_ci_passed mr, mr_ci_pending = sm_ci_pending mr, mr_review_verdict = verdict',
           mr_review_gate_reason = gate', merge_review_block_reason = None, source_sha = sm_source_sha mr,
           last_reviewed_head = None,
           mr_review_generation =
             (if is_current then Option.bind latest le_review_generation
              else current_review_generation sha256 mr),
           review_generation_status =
             (if is_current then None else map_option superseded_status latest),
           classification = c, mr_id = sm_id mr \<rparr>)"

subsection \<open>Snapshots of a forge\<close>

datatype fetch_error = CallFailed rust_str | IncompleteState rust_str | UnsupportedProvider rust_str

record github_rest_pr =
  gp_number :: int
  gp_title :: rust_str
  gp_body :: "rust_str option"
  gp_html_url :: rust_str
  gp_state :: rust_str
  gp_draft :: bool
  gp_branch :: rust_str
  gp_sha :: "rust_str option"
  gp_labels :: "rust_str list"
  gp_updated_at :: "rust_str option"

record github_check_runs =
  total_count :: nat
  check_runs :: "(rust_str \<times> rust_str option) list"

record github_pr =
  gh_title :: rust_str
  gh_body :: "rust_str option"
  gh_head_ref_name :: rust_str
  gh_head_ref_oid :: "rust_str option"
  gh_url :: "rust_str option"
  gh_labels :: "rust_str list"
  gh_number :: "int option"
  gh_state :: "rust_str option"
  gh_is_draft :: bool
  gh_merged_at :: "rust_str option"
  gh_updated_at :: "rust_str option"
  gh_checks :: "rust_str option list option"

record gitlab_mr =
  gl_title :: rust_str
  gl_description :: "rust_str option"
  gl_source_branch :: rust_str
  gl_web_url :: "rust_str option"
  gl_labels :: "rust_str list"
  gl_iid :: "json option"
  gl_state :: "rust_str option"
  gl_draft :: bool
  gl_sha :: "rust_str option"
  gl_merged_at :: "rust_str option"
  gl_updated_at :: "rust_str option"
  gl_head_pipeline :: "rust_str option option"

text \<open>The answers of the forge: open pull requests, the check runs of a commit, the full history, the
  \<open>n\<close>-th page of merge requests of a state and the pipelines of a merge request.\<close>

record forge_env =
  fe_open_prs :: "(fetch_error, github_rest_pr list) rust_result"
  fe_check_runs :: "rust_str \<Rightarrow> (fetch_error, github_check_runs) rust_result"
  fe_all_prs :: "(fetch_error, github_pr list) rust_result"
  fe_gitlab_page :: "rust_str \<Rightarrow> nat \<Rightarrow> (fetch_error, gitlab_mr list) rust_result"
  fe_pipelines :: "rust_str \<Rightarrow> (fetch_error, json) rust_result"
  fe_json_str :: "json \<Rightarrow> rust_str"

definition OPEN_PR_LIMIT :: nat where "OPEN_PR_LIMIT = 100"

definition github_open_prs_rest :: "forge_env \<Rightarrow> (fetch_error, github_rest_pr list) rust_result" where
  "github_open_prs_rest env =
     (case fe_open_prs env of
        Inl e \<Rightarrow> Inl e
      | Inr prs \<Rightarrow> if OPEN_PR_LIMIT \<le> length prs then Inl (IncompleteState ''open-PR snapshot'') else Inr prs)"

definition of_github_rest :: "github_rest_pr \<Rightarrow> provider_mr" where
  "of_github_rest pr =
     \<lparr> sm_title = gp_title pr, sm_body = gp_body pr, sm_branch = gp_branch pr, sm_labels = gp_labels pr,
       sm_url = Some (gp_html_url pr), sm_id = Some (int_str (gp_number pr)), sm_state = Some (gp_state pr),
       sm_draft = gp_draft pr, sm_source_sha = gp_sha pr, sm_merged = False, sm_updated_at = gp_updated_at pr,
       sm_ci_failed = False, sm_ci_passed = False, sm_ci_pending = False,
       sm_work_id = extract_work_id_from_title (gp_title pr) \<rparr>"

definition active_github_mrs_without_ci :: "forge_env \<Rightarrow> bool \<Rightarrow> (fetch_error, provider_mr list) rust_result" where
  "active_github_mrs_without_ci env filter_gah_branches =
     (case github_open_prs_rest env of
        Inl e \<Rightarrow> Inl e
      | Inr prs \<Rightarrow>
          Inr (map of_github_rest
                 (filter (\<lambda>pr. \<not> filter_gah_branches \<or> starts_with ''gah/'' (gp_branch pr)) prs)))"

definition github_check_runs_rest ::
  "forge_env \<Rightarrow> rust_str option \<Rightarrow> (fetch_error, rust_str option list) rust_result" where
  "github_check_runs_rest env sha =
     (case opt_filter (\<lambda>s. trim s \<noteq> []) sha of
        None \<Rightarrow> Inr []
      | Some s \<Rightarrow>
          (case fe_check_runs env s of
             Inl e \<Rightarrow> Inl e
           | Inr response \<Rightarrow>
               if length (check_runs response) < total_count response
               then Inl (IncompleteState (''check-run snapshot for '' @ s))
               else Inr (map (\<lambda>(st, conclusion).
                           if to_ascii_lowercase st = ''completed'' then map_option to_ascii_uppercase conclusion
                           else None) (check_runs response))))"

definition with_checks :: "forge_env \<Rightarrow> provider_mr \<Rightarrow> (fetch_error, provider_mr) rust_result" where
  "with_checks env mr =
     (case github_check_runs_rest env (sm_source_sha mr) of
        Inl e \<Rightarrow> Inl e
      | Inr checks \<Rightarrow>
          Inr (mr\<lparr> sm_ci_failed := github_ci_failed (Some checks),
                   sm_ci_passed := github_ci_passed (Some checks) \<rparr>))"

definition fetch_active_github_mrs :: "forge_env \<Rightarrow> bool \<Rightarrow> (fetch_error, provider_mr list) rust_result" where
  "fetch_active_github_mrs env filter_gah_branches =
     (case active_github_mrs_without_ci env filter_gah_branches of
        Inl e \<Rightarrow> Inl e
      | Inr mrs \<Rightarrow> try_map (with_checks env) mrs)"

definition of_github_pr :: "github_pr \<Rightarrow> provider_mr" where
  "of_github_pr pr =
     \<lparr> sm_title = gh_title pr, sm_body = gh_body pr, sm_branch = gh_head_ref_name pr, sm_labels = gh_labels pr,
       sm_url = gh_url pr, sm_id = map_option int_str (gh_number pr), sm_state = gh_state pr,
       sm_draft = gh_is_draft pr, sm_source_sha = gh_head_ref_oid pr, sm_merged = is_some (gh_merged_at pr),
       sm_updated_at = gh_updated_at pr, sm_ci_failed = github_ci_failed (gh_checks pr),
       sm_ci_passed = github_ci_passed (gh_checks pr), sm_ci_pending = False,
       sm_work_id = extract_work_id_from_title (gh_title pr) \<rparr>"

definition fetch_historical_github_mrs :: "forge_env \<Rightarrow> bool \<Rightarrow> (fetch_error, provider_mr list) rust_result" where
  "fetch_historical_github_mrs env filter_gah_branches =
     (case fe_all_prs env of
        Inl e \<Rightarrow> Inl e
      | Inr prs \<Rightarrow>
          Inr (map of_github_pr
                 (filter (\<lambda>pr. \<not> filter_gah_branches \<or> starts_with ''gah/'' (gh_head_ref_name pr)) prs)))"

definition gitlab_latest_pipeline_status :: "forge_env \<Rightarrow> rust_str \<Rightarrow> (fetch_error, rust_str option) rust_result" where
  "gitlab_latest_pipeline_status env iid =
     (case fe_pipelines env iid of
        Inl e \<Rightarrow> Inl e
      | Inr response \<Rightarrow>
          (case as_array response of
             None \<Rightarrow> Inl (CallFailed ''GitLab pipeline lookup returned a non-list response'')
           | Some pipelines \<Rightarrow>
               Inr (Option.bind (Option.bind (first pipelines) (jget ''status'')) as_str)))"

definition of_gitlab :: "forge_env \<Rightarrow> gitlab_mr \<Rightarrow> (fetch_error, provider_mr) rust_result" where
  "of_gitlab env mr =
     (let iid = map_option (\<lambda>v. trim_end_matches (CHR 0x22) (trim_start_matches (CHR 0x22) (fe_json_str env v)))
                  (gl_iid mr);
          own_status = Option.bind (gl_head_pipeline mr) (\<lambda>st. st);
          pipeline =
            (case iid of
               Some i \<Rightarrow> if own_status = None \<and> gl_state mr = Some ''opened''
                         then gitlab_latest_pipeline_status env i else Inr own_status
             | None \<Rightarrow> Inr own_status)
      in case pipeline of
           Inl e \<Rightarrow> Inl e
         | Inr st \<Rightarrow>
             Inr \<lparr> sm_title = gl_title mr, sm_body = gl_description mr, sm_branch = gl_source_branch mr,
                   sm_labels = gl_labels mr, sm_url = gl_web_url mr, sm_id = iid, sm_state = gl_state mr,
                   sm_draft = gl_draft mr, sm_source_sha = gl_sha mr, sm_merged = is_some (gl_merged_at mr),
                   sm_updated_at = gl_updated_at mr, sm_ci_failed = gitlab_ci_failed st,
                   sm_ci_passed = gitlab_ci_passed st, sm_ci_pending = gitlab_ci_pending st,
                   sm_work_id = extract_work_id_from_title (gl_title mr) \<rparr>)"

definition PAGE_SIZE :: nat where "PAGE_SIZE = 100"

text \<open>\<open>gitlab_mrs\<close> from some page on; \<open>None\<close> is a forge whose pages never end.\<close>

partial_function (option) gitlab_pages ::
  "forge_env \<Rightarrow> rust_str \<Rightarrow> bool \<Rightarrow> nat \<Rightarrow> provider_mr list \<Rightarrow> (fetch_error, provider_mr list) rust_result option" where
  "gitlab_pages env st filter_gah_branches page synced =
     (case fe_gitlab_page env st page of
        Inl e \<Rightarrow> Some (Inl e)
      | Inr mrs \<Rightarrow>
          (case try_map (of_gitlab env)
                  (filter (\<lambda>mr. \<not> filter_gah_branches \<or> starts_with ''gah/'' (gl_source_branch mr)) mrs) of
             Inl e \<Rightarrow> Some (Inl e)
           | Inr rows \<Rightarrow>
               if length mrs < PAGE_SIZE then Some (Inr (synced @ rows))
               else gitlab_pages env st filter_gah_branches (page + 1) (synced @ rows)))"

datatype mr_fetch_scope = ActiveMrs | FullHistory

definition gitlab_mrs ::
  "forge_env \<Rightarrow> mr_fetch_scope \<Rightarrow> bool \<Rightarrow> (fetch_error, provider_mr list) rust_result option" where
  "gitlab_mrs env scope filter_gah_branches =
     gitlab_pages env (case scope of ActiveMrs \<Rightarrow> ''opened'' | FullHistory \<Rightarrow> ''all'') filter_gah_branches 1 []"

definition is_open_mr :: "provider_mr \<Rightarrow> bool" where
  "is_open_mr mr =
     (is_some_and (map_option to_ascii_lowercase (sm_state mr)) (\<lambda>s. s = ''open'' \<or> s = ''opened'')
      \<and> \<not> sm_merged mr)"

definition fetch_mrs_for_scope ::
  "forge_env \<Rightarrow> rust_str \<Rightarrow> mr_fetch_scope \<Rightarrow> bool \<Rightarrow> (fetch_error, provider_mr list) rust_result option" where
  "fetch_mrs_for_scope env provider scope filter_gah_branches =
     map_option
       (\<lambda>res. case res of
          Inl e \<Rightarrow> Inl e
        | Inr mrs \<Rightarrow> Inr (if scope = ActiveMrs then filter is_open_mr mrs else mrs))
       (case provider_kind_parse provider of
          Inl _ \<Rightarrow> Some (Inl (UnsupportedProvider provider))
        | Inr Github \<Rightarrow>
            Some (if scope = ActiveMrs then fetch_active_github_mrs env filter_gah_branches
                  else fetch_historical_github_mrs env filter_gah_branches)
        | Inr Gitlab \<Rightarrow> gitlab_mrs env scope filter_gah_branches)"

definition fetch_active_mrs :: "forge_env \<Rightarrow> rust_str \<Rightarrow> (fetch_error, provider_mr list) rust_result option" where
  "fetch_active_mrs env provider = fetch_mrs_for_scope env provider ActiveMrs True"

subsection \<open>Attempts per branch\<close>

record branch_counts =
  bc_counts :: "rust_str \<rightharpoonup> nat"
  bc_branches :: "((rust_str \<times> rust_str \<times> rust_str) \<times> rust_str) list"

definition in_count_scope :: "(rust_str \<times> rust_str) option \<Rightarrow> ledger_entry \<Rightarrow> bool" where
  "in_count_scope scope e =
     (case scope of None \<Rightarrow> True | Some (p, r) \<Rightarrow> le_profile e = p \<and> le_repo_id e = r)"

text \<open>The branches that were seen with a work item of the entry's repository.\<close>

definition branch_of_work :: "branch_counts \<Rightarrow> ledger_entry \<Rightarrow> rust_str \<Rightarrow> rust_str \<Rightarrow> bool" where
  "branch_of_work bc e work_id branch =
     list_ex (\<lambda>((p, r, w), b). b = branch \<and> p = le_profile e \<and> r = le_repo_id e
                \<and> w \<in> set (work_id_aliases work_id)) (bc_branches bc)"

definition count_step :: "(ledger_entry \<Rightarrow> nat) \<Rightarrow> ledger_entry \<Rightarrow> branch_counts \<Rightarrow> branch_counts" where
  "count_step weight e bc =
     (if le_mode e = ''clear_attempts'' then
        (case le_work_id e of
           None \<Rightarrow> bc
         | Some work_id \<Rightarrow>
             bc\<lparr> bc_counts := (\<lambda>b. if branch_of_work bc e work_id b then None else bc_counts bc b) \<rparr>)
      else
        let bc' = (case (le_branch e, le_work_id e) of
                     (Some b, Some w) \<Rightarrow>
                       bc\<lparr> bc_branches := ((le_profile e, le_repo_id e, w), b) # bc_branches bc \<rparr>
                   | _ \<Rightarrow> bc)
        in if weight e = 0 then bc'
           else case le_branch e of
                  None \<Rightarrow> bc'
                | Some b \<Rightarrow> bc'\<lparr> bc_counts := (bc_counts bc')(b \<mapsto> unwrap_or (bc_counts bc' b) 0 + weight e) \<rparr>)"

definition count_branch_attempts ::
  "ledger_entry list \<Rightarrow> (rust_str \<times> rust_str) option \<Rightarrow> (ledger_entry \<Rightarrow> nat) \<Rightarrow> rust_str \<rightharpoonup> nat" where
  "count_branch_attempts entries scope weight =
     bc_counts (fold (count_step weight) (filter (in_count_scope scope) entries)
                  \<lparr> bc_counts = Map.empty, bc_branches = [] \<rparr>)"

definition mr_generations :: "sync_mr list \<Rightarrow> rust_str \<rightharpoonup> rust_str" where
  "mr_generations mrs =
     map_of (rev (List.map_filter (\<lambda>mr. map_option (Pair (mr_branch mr)) (mr_review_generation mr)) mrs))"

definition is_current_repair :: "(rust_str \<rightharpoonup> rust_str) \<Rightarrow> ledger_entry \<Rightarrow> bool" where
  "is_current_repair generations e =
     (job_kind_parse (le_mode e) = Inr Fix
      \<and> le_dispatch_reason e = Some ''post_review_repair''
      \<and> le_review_contract_version e = Some CURRENT_REVIEW_CONTRACT_VERSION
      \<and> is_some_and (le_review_generation e) (\<lambda>g. Option.bind (le_branch e) generations = Some g))"

definition count_current_fix_attempts_for_mrs ::
  "ledger_entry list \<Rightarrow> rust_str \<Rightarrow> rust_str \<Rightarrow> sync_mr list \<Rightarrow> rust_str \<rightharpoonup> nat" where
  "count_current_fix_attempts_for_mrs entries profile_name repo_id mrs =
     count_branch_attempts entries (Some (profile_name, repo_id))
       (\<lambda>e. if is_current_repair (mr_generations mrs) e then 1 else 0)"

definition count_merge_attempts_per_branch_for_scope ::
  "ledger_entry list \<Rightarrow> rust_str \<Rightarrow> rust_str \<Rightarrow> rust_str \<rightharpoonup> nat" where
  "count_merge_attempts_per_branch_for_scope entries profile_name repo_id =
     count_branch_attempts entries (Some (profile_name, repo_id))
       (\<lambda>e. if le_mode e = ''merge'' then unwrap_or (le_attempts_started e) 0 else 0)"

end
