(* ===== verification/Issue_Claim.thy ===== *)
theory Issue_Claim
  imports Merge_Request
begin

text \<open>
  Claims of issues and pull requests that every loop of a repository can see
  (\<^verbatim>\<open>dispatch/issue_claim.rs\<close>): who holds an item, the two halves of a claim, its renewal, the lease a
  dispatch works under and the issues intake leaves to others.  The provider's board is a state with
  the operations of \<open>IssueBoard\<close>; instants and durations are nanoseconds.
\<close>

subsection \<open>Who holds an item\<close>

datatype issue_claim_mode = LocalClaims | GithubAssignee

record issue_claim_policy =
  icp_mode :: issue_claim_mode
  icp_ttl_minutes :: nat
  icp_priority_logins :: "rust_str list"

record claim_comment =
  cc_id :: nat
  cc_login :: rust_str
  cc_created_at :: int
  cc_renewed_at :: int

record claim_view =
  cv_assignees :: "rust_str list"
  cv_claims :: "claim_comment list"

datatype standing = Unclaimed | Mine int | Theirs rust_str | StaleClaims "rust_str list"

definition same_login :: "rust_str \<Rightarrow> rust_str \<Rightarrow> bool" where
  "same_login left right = (to_ascii_lowercase left = to_ascii_lowercase right)"

definition claim_ttl :: "issue_claim_policy \<Rightarrow> int" where
  "claim_ttl policy = int (icp_ttl_minutes policy) * 60 * 1000000000"

text \<open>\<open>max_by_key\<close> takes the last of the greatest, \<open>min_by_key\<close> the first of the least.\<close>

definition latest_claim :: "rust_str \<Rightarrow> claim_comment list \<Rightarrow> claim_comment option" where
  "latest_claim login claims =
     fold (\<lambda>c best. case best of None \<Rightarrow> Some c | Some b \<Rightarrow> if cc_id b \<le> cc_id c then Some c else Some b)
       (filter (\<lambda>c. same_login (cc_login c) login) claims) None"

definition earliest :: "(rust_str \<times> claim_comment) list \<Rightarrow> (rust_str \<times> claim_comment) option" where
  "earliest live =
     fold (\<lambda>x best. case best of None \<Rightarrow> Some x
                    | Some b \<Rightarrow> if cc_id (snd x) < cc_id (snd b) then Some x else Some b) live None"

text \<open>The loop over the assignees: a person or another login assigned by hand ends it.\<close>

fun scan_assignees ::
  "claim_comment list \<Rightarrow> rust_str \<Rightarrow> int \<Rightarrow> int \<Rightarrow> rust_str list \<Rightarrow> (rust_str \<times> claim_comment) list \<Rightarrow> rust_str list
     \<Rightarrow> (rust_str, (rust_str \<times> claim_comment) list \<times> rust_str list) rust_result" where
  "scan_assignees claims me ttl now [] live stale = Inr (live, stale)"
| "scan_assignees claims me ttl now (login # logins) live stale =
     (case latest_claim login claims of
        Some c \<Rightarrow>
          if now - cc_renewed_at c < ttl then scan_assignees claims me ttl now logins (live @ [(login, c)]) stale
          else if \<not> same_login login me then scan_assignees claims me ttl now logins live (stale @ [login])
          else scan_assignees claims me ttl now logins live stale
      | None \<Rightarrow>
          if \<not> same_login login me then Inl login
          else scan_assignees claims me ttl now logins live stale)"

definition claim_winner ::
  "rust_str list \<Rightarrow> (rust_str \<times> claim_comment) list \<Rightarrow> (rust_str \<times> claim_comment) option" where
  "claim_winner priorities live =
     opt_or (first (List.map_filter (\<lambda>preferred. List.find (\<lambda>(login, _). same_login login preferred) live) priorities))
       (earliest live)"

definition standing_of :: "claim_view \<Rightarrow> rust_str \<Rightarrow> issue_claim_policy \<Rightarrow> int \<Rightarrow> standing" where
  "standing_of v me policy now =
     (case scan_assignees (cv_claims v) me (claim_ttl policy) now (cv_assignees v) [] [] of
        Inl login \<Rightarrow> Theirs login
      | Inr (live, stale) \<Rightarrow>
          (case claim_winner (icp_priority_logins policy) live of
             Some (login, c) \<Rightarrow>
               if same_login login me then Mine (cc_renewed_at c + claim_ttl policy) else Theirs login
           | None \<Rightarrow> if stale = [] then Unclaimed else StaleClaims stale))"

subsection \<open>The two halves of a claim\<close>

datatype claim_target = IssueTarget rust_str | PullRequestTarget rust_str

fun target_number :: "claim_target \<Rightarrow> rust_str" where
  "target_number (IssueTarget n) = n"
| "target_number (PullRequestTarget n) = n"

datatype claim_outcome = Won int | Lost rust_str

record 'b issue_board =
  board_view :: "'b \<Rightarrow> rust_str \<Rightarrow> (rust_str, claim_view) rust_result"
  board_assign :: "rust_str \<Rightarrow> rust_str \<Rightarrow> 'b \<Rightarrow> 'b \<times> (rust_str, unit) rust_result"
  board_unassign :: "rust_str \<Rightarrow> rust_str list \<Rightarrow> 'b \<Rightarrow> 'b \<times> (rust_str, unit) rust_result"
  board_post_claim :: "rust_str \<Rightarrow> rust_str \<Rightarrow> 'b \<Rightarrow> 'b \<times> (rust_str, unit) rust_result"
  board_renew_claim :: "nat \<Rightarrow> rust_str \<Rightarrow> 'b \<Rightarrow> 'b \<times> (rust_str, unit) rust_result"
  board_has_open_pr :: "'b \<Rightarrow> rust_str \<Rightarrow> (rust_str, bool) rust_result"

text \<open>The host name and the rendering of an instant in whole seconds.\<close>

record comment_env =
  ce_node :: rust_str
  ce_stamp :: "int \<Rightarrow> rust_str"

definition CLAIM_MARKER :: rust_str where "CLAIM_MARKER = ''<!-- gah-claim ''"

definition claim_text ::
  "comment_env \<Rightarrow> rust_str \<Rightarrow> issue_claim_policy \<Rightarrow> claim_target \<Rightarrow> int \<Rightarrow> int \<Rightarrow> rust_str" where
  "claim_text env me policy target claimed_at now =
     (let expires = ce_stamp env (now + claim_ttl policy);
          node = ce_node env;
          after_lapse = (case target of
             IssueTarget _ \<Rightarrow> ''another loop may take this issue over, unless an open pull request references it''
           | PullRequestTarget _ \<Rightarrow> ''another loop may take this pull request over'')
      in CLAIM_MARKER @ ''login='' @ me @ '' node='' @ node @ '' claimed_at='' @ ce_stamp env claimed_at
         @ '' expires_at='' @ expires @ '' -->'' @ [CHR 0x0A]
         @ ''Claimed by the GAH loop of '' @ me @ '' on `'' @ node @ ''` until '' @ expires
         @ ''; the loop renews this claim while it works. If it lapses, '' @ after_lapse @ ''.'')"

text \<open>What \<open>stake\<close> does with what it reads: an outcome, or the stale logins it removes before it writes.\<close>

definition stake_plan ::
  "standing \<Rightarrow> claim_target \<Rightarrow> (rust_str, bool) rust_result
     \<Rightarrow> (rust_str, claim_outcome + rust_str list) rust_result" where
  "stake_plan st target open_pr =
     (case st of
        Mine expires_at \<Rightarrow> Inr (Inl (Won expires_at))
      | Theirs login \<Rightarrow> Inr (Inl (Lost (''held by '' @ login)))
      | StaleClaims logins \<Rightarrow>
          (case target of
             PullRequestTarget _ \<Rightarrow> Inr (Inr logins)
           | IssueTarget _ \<Rightarrow>
               (case open_pr of
                  Inl e \<Rightarrow> Inl e
                | Inr True \<Rightarrow>
                    Inr (Inl (Lost (''the expired claim of '' @ join '', '' logins
                                    @ '' still has an open pull request'')))
                | Inr False \<Rightarrow> Inr (Inr logins)))
      | Unclaimed \<Rightarrow> Inr (Inr []))"

definition stake_writes ::
  "'b issue_board \<Rightarrow> comment_env \<Rightarrow> issue_claim_policy \<Rightarrow> rust_str \<Rightarrow> claim_target \<Rightarrow> int \<Rightarrow> 'b
     \<Rightarrow> 'b \<times> (rust_str, claim_outcome option) rust_result" where
  "stake_writes board env policy me target now b =
     (let issue = target_number target
      in case board_assign board issue me b of
           (b1, Inl e) \<Rightarrow> (b1, Inl e)
         | (b1, Inr _) \<Rightarrow>
             (case board_post_claim board issue (claim_text env me policy target now now) b1 of
                (b2, Inl e) \<Rightarrow> (fst (board_unassign board issue [me] b2), Inl e)
              | (b2, Inr _) \<Rightarrow> (b2, Inr None)))"

definition stake ::
  "'b issue_board \<Rightarrow> comment_env \<Rightarrow> issue_claim_policy \<Rightarrow> rust_str \<Rightarrow> claim_target \<Rightarrow> int \<Rightarrow> 'b
     \<Rightarrow> 'b \<times> (rust_str, claim_outcome option) rust_result" where
  "stake board env policy me target now b =
     (let issue = target_number target
      in case board_view board b issue of
           Inl e \<Rightarrow> (b, Inl e)
         | Inr v \<Rightarrow>
             (case stake_plan (standing_of v me policy now) target (board_has_open_pr board b issue) of
                Inl e \<Rightarrow> (b, Inl e)
              | Inr (Inl outcome) \<Rightarrow> (b, Inr (Some outcome))
              | Inr (Inr stale) \<Rightarrow>
                  if stale = [] then stake_writes board env policy me target now b
                  else (case board_unassign board issue stale b of
                          (b1, Inl e) \<Rightarrow> (b1, Inl e)
                        | (b1, Inr _) \<Rightarrow> stake_writes board env policy me target now b1)))"

text \<open>The reason to yield at the end of the window, or the expiry of the claim that won.\<close>

definition settle_decision :: "standing \<Rightarrow> int + rust_str" where
  "settle_decision st =
     (case st of
        Mine expires_at \<Rightarrow> Inl expires_at
      | Theirs login \<Rightarrow> Inr (''yielded to '' @ login)
      | _ \<Rightarrow> Inr ''this loop's claim was removed during the verify window'')"

definition settle ::
  "'b issue_board \<Rightarrow> issue_claim_policy \<Rightarrow> rust_str \<Rightarrow> claim_target \<Rightarrow> int \<Rightarrow> 'b
     \<Rightarrow> 'b \<times> (rust_str, claim_outcome) rust_result" where
  "settle board policy me target now b =
     (case board_view board b (target_number target) of
        Inl e \<Rightarrow> (b, Inl e)
      | Inr v \<Rightarrow>
          (case settle_decision (standing_of v me policy now) of
             Inl expires_at \<Rightarrow> (b, Inr (Won expires_at))
           | Inr why \<Rightarrow>
               (case board_unassign board (target_number target) [me] b of
                  (b1, Inl e) \<Rightarrow> (b1, Inl e)
                | (b1, Inr _) \<Rightarrow> (b1, Inr (Lost why)))))"

text \<open>\<open>run_claim\<close>: \<open>pause\<close> is what others do to the board during the window.\<close>

definition run_claim ::
  "'b issue_board \<Rightarrow> comment_env \<Rightarrow> issue_claim_policy \<Rightarrow> rust_str \<Rightarrow> claim_target \<Rightarrow> int \<Rightarrow> ('b \<Rightarrow> 'b \<times> int) \<Rightarrow> 'b
     \<Rightarrow> 'b \<times> (rust_str, claim_outcome) rust_result" where
  "run_claim board env policy me target now pause b =
     (case stake board env policy me target now b of
        (b1, Inl e) \<Rightarrow> (b1, Inl e)
      | (b1, Inr (Some outcome)) \<Rightarrow> (b1, Inr outcome)
      | (b1, Inr None) \<Rightarrow> (let (b2, later_on) = pause b1 in settle board policy me target later_on b2))"

subsection \<open>Renewal and the lease\<close>

definition renew ::
  "'b issue_board \<Rightarrow> comment_env \<Rightarrow> issue_claim_policy \<Rightarrow> rust_str \<Rightarrow> claim_target \<Rightarrow> int \<Rightarrow> 'b
     \<Rightarrow> 'b \<times> (rust_str, rust_str option) rust_result" where
  "renew board env policy me target now b =
     (case board_view board b (target_number target) of
        Inl e \<Rightarrow> (b, Inl e)
      | Inr v \<Rightarrow>
          (case standing_of v me policy now of
             Mine _ \<Rightarrow>
               (case latest_claim me (cv_claims v) of
                  None \<Rightarrow> (b, Inl ''a held claim has a claim comment'')
                | Some own \<Rightarrow>
                    (case board_renew_claim board (cc_id own)
                            (claim_text env me policy target (cc_created_at own) now) b of
                       (b1, Inl e) \<Rightarrow> (b1, Inl e)
                     | (b1, Inr _) \<Rightarrow> (b1, Inr None)))
           | Theirs login \<Rightarrow> (b, Inr (Some (''lease taken over by '' @ login)))
           | _ \<Rightarrow> (b, Inr (Some ''this loop's claim lapsed or was removed while it worked''))))"

datatype lease_loss = ClaimLoss rust_str | PolicyLoss

record lease_state =
  ls_lost :: "lease_loss option"
  ls_deadline :: int

definition ensure_held :: "int \<Rightarrow> lease_state \<Rightarrow> lease_state \<times> (lease_loss, unit) rust_result" where
  "ensure_held now s =
     (let s' = (if ls_lost s = None \<and> ls_deadline s \<le> now
                then s\<lparr> ls_lost := Some (ClaimLoss ''the claim expired before a renewal was confirmed'') \<rparr> else s)
      in (s', case ls_lost s' of Some l \<Rightarrow> Inl l | None \<Rightarrow> Inr ()))"

definition lose :: "rust_str \<Rightarrow> lease_state \<Rightarrow> lease_state" where
  "lose why s = (if ls_lost s = None then s\<lparr> ls_lost := Some (ClaimLoss why) \<rparr> else s)"

definition confirm_renewal :: "int \<Rightarrow> int \<Rightarrow> lease_state \<Rightarrow> lease_state \<times> bool" where
  "confirm_renewal extended now s =
     (let s' = (if ls_lost s = None \<and> ls_deadline s \<le> now
                then s\<lparr> ls_lost := Some (ClaimLoss ''the claim expired before its renewal was confirmed'') \<rparr> else s)
      in if is_some (ls_lost s') then (s', False) else (s'\<lparr> ls_deadline := extended \<rparr>, True))"

definition next_renewal_wait :: "nat \<Rightarrow> nat \<Rightarrow> bool \<Rightarrow> nat" where
  "next_renewal_wait remaining ttl after_failure =
     (if after_failure then min (max (remaining div 2) 1000000000) remaining
      else saturating_sub remaining (ttl * 2 div 3))"

datatype renewal_answer = Renewed | ClaimGone rust_str | RenewalFailed bool

text \<open>One turn of the renewer: it began, the provider answered, and the answer was seen; \<open>True\<close> when it
  goes on.  A failure tells whether a policy blocked the call.\<close>

definition renewer_turn :: "int \<Rightarrow> int \<Rightarrow> renewal_answer \<Rightarrow> int \<Rightarrow> lease_state \<Rightarrow> lease_state \<times> bool" where
  "renewer_turn ttl began ans seen s =
     (if ls_deadline s \<le> began then (lose ''the claim expired before a renewal was confirmed'' s, False)
      else case ans of
             Renewed \<Rightarrow> confirm_renewal (began + ttl) seen s
           | ClaimGone why \<Rightarrow> (lose why s, False)
           | RenewalFailed blocked \<Rightarrow> if blocked then (s\<lparr> ls_lost := Some PolicyLoss \<rparr>, False) else (s, True))"

subsection \<open>What others hold\<close>

definition is_issue_number :: "rust_str \<Rightarrow> bool" where
  "is_issue_number target = (target \<noteq> [] \<and> list_all is_ascii_digit target)"

definition is_active_class :: "rust_str \<Rightarrow> bool" where
  "is_active_class c = (c \<noteq> ''MERGED'' \<and> c \<noteq> ''CLOSED_UNMERGED'' \<and> c \<noteq> ''STALE'')"

definition has_open_pull_request ::
  "rust_str \<Rightarrow> (fetch_error, provider_mr list) rust_result \<Rightarrow> rust_str \<Rightarrow> (fetch_error, bool) rust_result" where
  "has_open_pull_request cutoff mrs issue =
     (case mrs of
        Inl e \<Rightarrow> Inl e
      | Inr rows \<Rightarrow>
          Inr (list_ex (\<lambda>mr. is_some_and (sm_work_id mr) (\<lambda>w. w \<in> set (work_id_aliases (CHR ''#'' # issue)))
                             \<and> is_active_class (classify cutoff mr)) rows))"

text \<open>The provider as intake asks it: the login of this loop and the claim comments of an issue.\<close>

record holders_env =
  he_provider :: rust_str
  he_own_login :: "(rust_str, rust_str) rust_result"
  he_claims :: "rust_str \<Rightarrow> (rust_str, claim_comment list) rust_result"
  he_now :: int

definition held_by_other :: "holders_env \<Rightarrow> issue_claim_policy \<Rightarrow> rust_str \<Rightarrow> rust_str \<times> rust_str list \<Rightarrow> bool" where
  "held_by_other env policy me item =
     (let (number, assignees) = item
      in if list_all (\<lambda>login. same_login login me) assignees then False
         else case he_claims env number of
                Inl _ \<Rightarrow> True
              | Inr claims \<Rightarrow>
                  (case standing_of \<lparr> cv_assignees = assignees, cv_claims = claims \<rparr> me policy (he_now env) of
                     Theirs _ \<Rightarrow> True | _ \<Rightarrow> False))"

definition issues_held_by_others ::
  "holders_env \<Rightarrow> issue_claim_policy \<Rightarrow> (rust_str \<times> rust_str list) list \<Rightarrow> (rust_str, rust_str set) rust_result" where
  "issues_held_by_others env policy issues =
     (if icp_mode policy = LocalClaims then Inr {}
      else if to_ascii_lowercase (he_provider env) \<noteq> ''github''
      then Inl (''issue_claim.mode = '' @ [CHR 0x22] @ ''github_assignee'' @ [CHR 0x22]
                @ '' needs a GitHub profile, not '' @ [CHR 0x27] @ he_provider env @ [CHR 0x27])
      else case he_own_login env of
             Inl e \<Rightarrow> Inl e
           | Inr me \<Rightarrow> Inr (set (map fst (filter (held_by_other env policy me) issues))))"

subsection \<open>The shared issue of the tests\<close>

text \<open>\<open>LoopBoard\<close>: one issue that every loop sees, each under its own login and at the present instant.\<close>

record shared_issue =
  si_view :: claim_view
  si_next_id :: nat
  si_open_pr :: bool
  si_comments_fail :: bool

fun renew_first :: "nat \<Rightarrow> int \<Rightarrow> claim_comment list \<Rightarrow> claim_comment list option" where
  "renew_first i now [] = None"
| "renew_first i now (c # cs) =
     (if cc_id c = i then Some (c\<lparr> cc_renewed_at := now \<rparr> # cs) else map_option (Cons c) (renew_first i now cs))"

definition with_assignees :: "(rust_str list \<Rightarrow> rust_str list) \<Rightarrow> shared_issue \<Rightarrow> shared_issue" where
  "with_assignees f s = s\<lparr> si_view := (si_view s)\<lparr> cv_assignees := f (cv_assignees (si_view s)) \<rparr> \<rparr>"

definition with_claims :: "(claim_comment list \<Rightarrow> claim_comment list) \<Rightarrow> shared_issue \<Rightarrow> shared_issue" where
  "with_claims f s = s\<lparr> si_view := (si_view s)\<lparr> cv_claims := f (cv_claims (si_view s)) \<rparr> \<rparr>"

definition loop_board :: "rust_str \<Rightarrow> int \<Rightarrow> shared_issue issue_board" where
  "loop_board login now =
     \<lparr> board_view = (\<lambda>s _. Inr (si_view s)),
       board_assign = (\<lambda>_ l s. (with_assignees (\<lambda>a. if l \<in> set a then a else a @ [l]) s, Inr ())),
       board_unassign = (\<lambda>_ ls s. (with_assignees (filter (\<lambda>a. a \<notin> set ls)) s, Inr ())),
       board_post_claim = (\<lambda>_ _ s.
         if si_comments_fail s then (s, Inl ''comment refused'')
         else (with_claims (\<lambda>cs. cs @ [\<lparr> cc_id = si_next_id s + 1, cc_login = login, cc_created_at = now,
                                         cc_renewed_at = now \<rparr>])
                 (s\<lparr> si_next_id := si_next_id s + 1 \<rparr>), Inr ())),
       board_renew_claim = (\<lambda>i _ s.
         case renew_first i now (cv_claims (si_view s)) of
           None \<Rightarrow> (s, Inl ''no such comment'')
         | Some cs \<Rightarrow> (with_claims (\<lambda>_. cs) s, Inr ())),
       board_has_open_pr = (\<lambda>s _. Inr (si_open_pr s)) \<rparr>"

end
