(* ===== verification/Issue_Claim_Props.thy ===== *)
theory Issue_Claim_Props
  imports Issue_Claim
begin

text \<open>
  Properties of provider-visible claims: the winner of a contested item is the least live claim of an
  order that every loop computes alike, no loop removes a person or a live claim, two loops never hold
  an item at the same time, and a lease that has lapsed once is never valid again.
\<close>

subsection \<open>Live claims and their order\<close>

lemma same_login_refl [simp]: "same_login a a"
  by (simp add: same_login_def)




lemma latest_fold_None:
  "fold (\<lambda>c best. case best of None \<Rightarrow> Some c | Some b \<Rightarrow> if cc_id b \<le> cc_id c then Some c else Some b) cs best = None
     \<longleftrightarrow> cs = [] \<and> best = None"
  by (induction cs arbitrary: best) (auto split: option.splits)


lemma latest_claim_None: "latest_claim x claims = None \<longleftrightarrow> (\<forall>c \<in> set claims. \<not> same_login (cc_login c) x)"
  unfolding latest_claim_def latest_fold_None by (simp add: filter_empty_conv)


definition live_claim :: "claim_comment list \<Rightarrow> int \<Rightarrow> int \<Rightarrow> rust_str \<Rightarrow> (rust_str \<times> claim_comment) option" where
  "live_claim claims ttl now x =
     Option.bind (latest_claim x claims) (\<lambda>c. if now - cc_renewed_at c < ttl then Some (x, c) else None)"

definition live_claims :: "claim_view \<Rightarrow> int \<Rightarrow> int \<Rightarrow> (rust_str \<times> claim_comment) list" where
  "live_claims v ttl now = List.map_filter (live_claim (cv_claims v) ttl now) (cv_assignees v)"

lemma in_live_claims:
  "(x, c) \<in> set (live_claims v ttl now)
     \<longleftrightarrow> x \<in> set (cv_assignees v) \<and> latest_claim x (cv_claims v) = Some c \<and> now - cc_renewed_at c < ttl"
  by (auto simp: live_claims_def live_claim_def set_map_filter bind_eq_Some_conv split: if_splits)


lemma scan_stale:
  assumes "scan_assignees claims me ttl now logins live stale = Inr (live', stale')"
  shows "(\<forall>x \<in> set logins. same_login x me \<or> latest_claim x claims \<noteq> None)
     \<and> (\<forall>x \<in> set stale'. x \<in> set stale
          \<or> x \<in> set logins \<and> \<not> same_login x me
            \<and> (\<exists>c. latest_claim x claims = Some c \<and> ttl \<le> now - cc_renewed_at c))"
  using assms
  by (induction claims me ttl now logins live stale rule: scan_assignees.induct)
     (auto split: option.splits if_splits)







subsection \<open>Standing\<close>



text \<open>No loop removes a person or a live claim: the logins that staking removes before it writes are
  assigned, are not this loop's own, and had their latest claim lapse; and when anybody is assigned
  without a claim comment, other than this loop itself, staking removes nobody and writes nothing.\<close>

theorem only_lapsed_claims_removed:
  assumes "stake_plan (standing_of v me policy now) target open_pr = Inr (Inr stale)"
  shows "(\<forall>x \<in> set stale. x \<in> set (cv_assignees v) \<and> \<not> same_login x me
            \<and> (\<exists>c. latest_claim x (cv_claims v) = Some c \<and> claim_ttl policy \<le> now - cc_renewed_at c))
     \<and> (\<forall>x \<in> set (cv_assignees v). same_login x me \<or> latest_claim x (cv_claims v) \<noteq> None)"
proof -
  obtain live stale' where scan: "scan_assignees (cv_claims v) me (claim_ttl policy) now (cv_assignees v) [] []
      = Inr (live, stale')"
    using assms by (auto simp: standing_of_def stake_plan_def split: sum.splits)
  with assms have "stale = [] \<or> stale = stale'"
    by (auto simp: standing_of_def stake_plan_def
        split: option.splits prod.splits if_splits claim_target.splits sum.splits bool.splits)
  with scan_stale [OF scan] show ?thesis by auto
qed

subsection \<open>The protocol\<close>

text \<open>
  What a loop is doing about an item: nothing, writing after it read the item (it still has to remove
  stale logins, to assign itself or to post its claim), waiting out the window, or working under a lease.
\<close>

datatype phase = Idle | Viewed "rust_str list" | Assigned | Staked | Holding int

record protocol =
  pt_issue :: shared_issue
  pt_now :: int
  pt_phase :: "rust_str \<Rightarrow> phase"


definition enter :: "rust_str \<Rightarrow> phase \<Rightarrow> shared_issue \<Rightarrow> protocol \<Rightarrow> protocol" where
  "enter me ph issue s = s\<lparr> pt_issue := issue, pt_phase := (pt_phase s)(me := ph) \<rparr>"






definition live_at :: "issue_claim_policy \<Rightarrow> protocol \<Rightarrow> (rust_str \<times> claim_comment) set" where
  "live_at policy s = set (live_claims (si_view (pt_issue s)) (claim_ttl policy) (pt_now s))"

lemma in_live_at:
  "(x, c) \<in> live_at policy s \<longleftrightarrow>
     x \<in> set (cv_assignees (si_view (pt_issue s))) \<and> latest_claim x (cv_claims (si_view (pt_issue s))) = Some c
     \<and> pt_now s - cc_renewed_at c < claim_ttl policy"
  by (simp add: live_at_def in_live_claims)













subsection \<open>The operations of the board\<close>

lemma board_simps [simp]:
  "board_unassign (loop_board me now) n ls i = (with_assignees (filter (\<lambda>a. a \<notin> set ls)) i, Inr ())"
  "board_assign (loop_board me now) n l i = (with_assignees (\<lambda>a. if l \<in> set a then a else a @ [l]) i, Inr ())"
  "board_view (loop_board me now) i n = Inr (si_view i)"
  by (simp_all add: loop_board_def)

lemma view_simps [simp]:
  "cv_assignees (si_view (with_assignees f i)) = f (cv_assignees (si_view i))"
  "cv_claims (si_view (with_assignees f i)) = cv_claims (si_view i)"
  "cv_assignees (si_view (with_claims g i)) = cv_assignees (si_view i)"
  "cv_claims (si_view (with_claims g i)) = g (cv_claims (si_view i))"
  "si_next_id (with_assignees f i) = si_next_id i" "si_next_id (with_claims g i) = si_next_id i"
  by (simp_all add: with_assignees_def with_claims_def)



lemma in_live_enter:
  "(x, c) \<in> live_at policy (enter me ph issue s) \<longleftrightarrow>
     x \<in> set (cv_assignees (si_view issue)) \<and> latest_claim x (cv_claims (si_view issue)) = Some c
     \<and> pt_now s - cc_renewed_at c < claim_ttl policy"
  by (simp add: in_live_at enter_def)

lemma phase_enter [simp]:
  "pt_phase (enter me ph issue s) x = (if x = me then ph else pt_phase s x)"
  "pt_issue (enter me ph issue s) = issue" "pt_now (enter me ph issue s) = pt_now s"
  by (simp_all add: enter_def)




subsection \<open>Two loops never hold the item\<close>


lemma live_enter_same [simp]: "live_at policy (enter me ph (pt_issue s) s) = live_at policy s"
  by (auto simp: in_live_enter in_live_at)










subsection \<open>The lease of a dispatch\<close>

text \<open>A check of the dispatch, or a turn of the renewer that began, was answered and was seen.\<close>

datatype lease_event = Checked int | Turned int renewal_answer int

fun lease_step :: "int \<Rightarrow> lease_event \<Rightarrow> lease_state \<Rightarrow> lease_state" where
  "lease_step ttl (Checked now) s = fst (ensure_held now s)"
| "lease_step ttl (Turned began ans seen) s = fst (renewer_turn ttl began ans seen s)"

fun event_start :: "lease_event \<Rightarrow> int" where
  "event_start (Checked now) = now"
| "event_start (Turned began ans seen) = began"

text \<open>A lease that has lapsed is never valid again: once its deadline has passed, or it was lost, every
  later check of the dispatch fails, whatever renewals are answered or confirmed in between.\<close>

theorem lapsed_lease_stays_lost:
  assumes "ls_lost s \<noteq> None \<or> ls_deadline s \<le> t" "\<forall>ev \<in> set evs. t \<le> event_start ev" "t \<le> now"
  shows "\<exists>l. snd (ensure_held now (fold (lease_step ttl) evs s)) = Inl l"
proof -
  have "ls_lost (fold (lease_step ttl) evs s) \<noteq> None \<or> ls_deadline (fold (lease_step ttl) evs s) \<le> t"
    using assms(1,2)
  proof (induction evs arbitrary: s)
    case (Cons ev evs)
    have "ls_lost (lease_step ttl ev s) \<noteq> None \<or> ls_deadline (lease_step ttl ev s) \<le> t"
      using Cons.prems
      by (cases ev)
         (auto simp: ensure_held_def renewer_turn_def confirm_renewal_def lose_def Let_def
           split: renewal_answer.splits if_splits)
    with Cons show ?case by simp
  qed simp
  with assms(3) show ?thesis by (auto simp: ensure_held_def Let_def split: option.splits)
qed

theorem lapsed_lease_stays_lost_witness:
  "\<exists>l. snd (ensure_held 9 (fold (lease_step 5) [Turned 4 Renewed 6, Turned 7 Renewed 8]
      \<lparr> ls_lost = None, ls_deadline = 3 \<rparr>)) = Inl l"
  by (rule lapsed_lease_stays_lost [where t = 3]) simp_all

text \<open>The renewer never waits past the expiry, and a healthy lease waits less than it has left.\<close>

lemma next_renewal_wait_bound: "next_renewal_wait remaining ttl failed \<le> remaining"
  by (simp add: next_renewal_wait_def)

lemma next_renewal_wait_early:
  assumes "0 < remaining" "2 \<le> ttl"
  shows "next_renewal_wait remaining ttl False < remaining"
proof -
  from assms(2) have "0 < ttl * 2 div 3" by (simp add: div_greater_zero_iff)
  with assms(1) show ?thesis by (simp add: next_renewal_wait_def)
qed

subsection \<open>A concrete contest\<close>

definition ex_policy :: issue_claim_policy where
  "ex_policy = \<lparr> icp_mode = GithubAssignee, icp_ttl_minutes = 60, icp_priority_logins = [''ann''] \<rparr>"

definition ex_env :: comment_env where
  "ex_env = \<lparr> ce_node = ''n'', ce_stamp = (\<lambda>_. ''t'') \<rparr>"

definition ex_issue :: shared_issue where
  "ex_issue = \<lparr> si_view = \<lparr> cv_assignees = [], cv_claims = [] \<rparr>, si_next_id = 0, si_open_pr = False, si_comments_fail = False \<rparr>"

definition ex_claim :: "nat \<Rightarrow> rust_str \<Rightarrow> claim_comment" where
  "ex_claim i login = \<lparr> cc_id = i, cc_login = login, cc_created_at = 0, cc_renewed_at = 0 \<rparr>"

definition ex_board :: "rust_str list \<Rightarrow> claim_comment list \<Rightarrow> shared_issue" where
  "ex_board assignees claims =
     ex_issue\<lparr> si_view := \<lparr> cv_assignees = assignees, cv_claims = claims \<rparr>, si_next_id := length claims \<rparr>"

definition ex_at :: "shared_issue \<Rightarrow> phase \<Rightarrow> phase \<Rightarrow> protocol" where
  "ex_at i a b = \<lparr> pt_issue = i, pt_now = 0, pt_phase = (\<lambda>_. Idle)(''ann'' := a, ''bob'' := b) \<rparr>"

lemma ex_at_simps [simp]:
  "enter ''ann'' ph i' (ex_at i a b) = ex_at i' ph b" "enter ''bob'' ph i' (ex_at i a b) = ex_at i' a ph"
  "pt_phase (ex_at i a b) ''ann'' = a" "pt_phase (ex_at i a b) ''bob'' = b" "pt_issue (ex_at i a b) = i"
  "pt_now (ex_at i a b) = 0"
  by (simp_all add: ex_at_def enter_def fun_eq_iff)

lemma ex_logins [simp]: "same_login ''ann'' ''bob'' = False" "same_login ''bob'' ''ann'' = False"
  by code_simp+

lemma ex_claim_simps [simp]:
  "cc_id (ex_claim i l) = i" "cc_login (ex_claim i l) = l" "cc_renewed_at (ex_claim i l) = 0"
  by (simp_all add: ex_claim_def)






text \<open>An expired claim is removed by another loop, and a person's assignment stops it.\<close>

theorem only_lapsed_claims_removed_witness:
  "stake_plan (standing_of \<lparr> cv_assignees = [''bob''], cv_claims = [ex_claim 1 ''bob''] \<rparr> ''ann'' ex_policy 3600000000000)
     (PullRequestTarget ''7'') (Inr False) = Inr (Inr [''bob''])
   \<and> (\<exists>c. latest_claim ''bob'' [ex_claim 1 ''bob''] = Some c \<and> claim_ttl ex_policy \<le> 3600000000000 - cc_renewed_at c)"
proof -
  have p: "stake_plan (standing_of \<lparr> cv_assignees = [''bob''], cv_claims = [ex_claim 1 ''bob''] \<rparr> ''ann'' ex_policy 3600000000000)
     (PullRequestTarget ''7'') (Inr False) = Inr (Inr [''bob''])"
    by (simp add: standing_of_def stake_plan_def ex_policy_def claim_ttl_def latest_claim_def claim_winner_def
        earliest_def List.map_filter_simps)
  from only_lapsed_claims_removed [OF p] p show ?thesis by simp
qed

text \<open>A loop that restarts in its window finds its own fresh claim and takes it for a settled one: it works
  at once, and the contender whom the policy prefers and whose write was in flight wins as well.\<close>

definition restart_policy :: issue_claim_policy where
  "restart_policy = ex_policy\<lparr> icp_priority_logins := [''bob''] \<rparr>"

theorem restarted_claim_skips_window:
  fixes target :: claim_target
  defines "b1 \<equiv> fst (stake (loop_board ''ann'' 0) ex_env restart_policy ''ann'' target 0 (ex_board [] []))"
  defines "again \<equiv> stake (loop_board ''ann'' 1) ex_env restart_policy ''ann'' target 1 b1"
  defines "b2 \<equiv> fst (stake_writes (loop_board ''bob'' 1) ex_env restart_policy ''bob'' target 1 (fst again))"
  shows "stake_plan (standing_of (si_view (ex_board [] [])) ''bob'' restart_policy 0) target (Inr False) = Inr (Inr [])"
    and "snd again = Inr (Some (Won 3600000000000))"
    and "snd (settle (loop_board ''bob'' 2) restart_policy ''bob'' target 2 b2) = Inr (Won 3600000000001)"
proof -
  let ?a = "ex_claim 1 ''ann''"
  let ?b = "\<lparr> cc_id = 2, cc_login = ''bob'', cc_created_at = 1, cc_renewed_at = 1 \<rparr>"
  have free: "standing_of \<lparr> cv_assignees = [], cv_claims = [] \<rparr> me restart_policy now = Unclaimed" for me now
    by (simp add: standing_of_def claim_winner_def earliest_def List.map_filter_simps restart_policy_def)
  have mine: "standing_of \<lparr> cv_assignees = [''ann''], cv_claims = [?a] \<rparr> ''ann'' restart_policy 1 = Mine 3600000000000"
    "standing_of \<lparr> cv_assignees = [''ann'', ''bob''], cv_claims = [?a, ?b] \<rparr> ''bob'' restart_policy 2 = Mine 3600000000001"
    by (simp_all add: standing_of_def restart_policy_def ex_policy_def claim_ttl_def latest_claim_def claim_winner_def
        earliest_def List.map_filter_simps)
  have b1: "b1 = ex_board [''ann''] [?a]"
    by (simp add: b1_def stake_def stake_writes_def free stake_plan_def ex_board_def ex_issue_def ex_claim_def
        loop_board_def with_assignees_def with_claims_def Let_def)
  have again: "again = (ex_board [''ann''] [?a], Inr (Some (Won 3600000000000)))"
    using mine(1) by (simp add: again_def b1 stake_def ex_board_def stake_plan_def)
  show "stake_plan (standing_of (si_view (ex_board [] [])) ''bob'' restart_policy 0) target (Inr False) = Inr (Inr [])"
    by (simp add: ex_board_def free stake_plan_def)
  show "snd again = Inr (Some (Won 3600000000000))" by (simp add: again)
  have b2: "b2 = ex_board [''ann'', ''bob''] [?a, ?b]"
    by (simp add: b2_def again stake_writes_def ex_board_def ex_issue_def loop_board_def with_assignees_def
        with_claims_def Let_def)
  show "snd (settle (loop_board ''bob'' 2) restart_policy ''bob'' target 2 b2) = Inr (Won 3600000000001)"
    using mine(2) by (simp add: b2 settle_def ex_board_def settle_decision_def)
qed

end
