(* ===== verification/Issue_Intake.thy ===== *)
theory Issue_Intake
  imports Dependencies Issue_Claim
begin

text \<open>
  Which issues of the forge enter the backlog (\<^verbatim>\<open>dispatch/issues.rs\<close>, \<^verbatim>\<open>config/publishing.rs\<close>): who wrote
  an issue and whether the profile trusts them, who holds it, what its labels say, the pages of open
  issues, and the metadata a body declares.  The answers of the forge are arguments.
\<close>

subsection \<open>The policy of a profile\<close>

datatype issue_intake_mode = LegacyIntake | CanonicalAutonomousOnly

fun issue_intake_mode_str :: "issue_intake_mode \<Rightarrow> rust_str" where
  "issue_intake_mode_str LegacyIntake = ''legacy''"
| "issue_intake_mode_str CanonicalAutonomousOnly = ''canonical_autonomous_only''"

record publishing_policy =
  github_issue_author_allowlist :: "rust_str list option"
  trusted_issue_human_authors :: "rust_str list option"
  trusted_issue_bot_authors :: "rust_str list option"
  pub_issue_intake_mode :: issue_intake_mode
  canonical_autonomous_label :: rust_str
  pub_issue_claim :: issue_claim_policy
  configured_decomposition_labels :: "rust_str list"

definition pm_decomposition_labels :: "publishing_policy \<Rightarrow> rust_str list" where
  "pm_decomposition_labels pub =
     (let labels = filter (\<lambda>l. l \<noteq> []) (map trim (configured_decomposition_labels pub))
      in if labels = [] then [''planning'', ''plan''] else labels)"

record intake_profile =
  ip_provider :: rust_str
  ip_repo :: rust_str
  ip_repo_id :: rust_str
  ip_provider_project_id :: "rust_str option"
  ip_publishing :: publishing_policy

definition eq_ignore_case :: "rust_str \<Rightarrow> rust_str \<Rightarrow> bool" where
  "eq_ignore_case a b = (to_ascii_lowercase a = to_ascii_lowercase b)"

subsection \<open>Authors\<close>

datatype issue_author_kind = HumanAuthor | BotAuthor | UnknownAuthor

record issue_author =
  ia_login :: rust_str
  ia_kind :: issue_author_kind

fun issue_author_kind_to_str :: "issue_author_kind \<Rightarrow> rust_str" where
  "issue_author_kind_to_str HumanAuthor = ''human''"
| "issue_author_kind_to_str BotAuthor = ''bot''"
| "issue_author_kind_to_str UnknownAuthor = ''unknown''"

definition login_matches :: "rust_str \<Rightarrow> rust_str list \<Rightarrow> bool" where
  "login_matches login candidates = list_ex (\<lambda>c. eq_ignore_case c login) candidates"

definition parse_github_author :: "json \<Rightarrow> issue_author option" where
  "parse_github_author response =
     Option.bind (opt_or (jget ''author'' response) (jget ''user'' response))
       (\<lambda>author. Option.bind (Option.bind (jget ''login'' author) as_str)
         (\<lambda>raw. let login = trim raw;
                    is_bot = Option.bind (jget ''is_bot'' author) as_bool;
                    type_name = Option.bind (jget ''type'' author) as_str
                in if login = [] then None
                   else Some \<lparr> ia_login = login,
                     ia_kind = (if is_bot = Some True \<or> type_name = Some ''Bot'' then BotAuthor
                                else if is_bot = Some False \<or> type_name = Some ''User''
                                        \<or> type_name = Some ''Organization'' then HumanAuthor
                                else UnknownAuthor) \<rparr>))"

definition parse_gitlab_author :: "intake_profile \<Rightarrow> json \<Rightarrow> issue_author option" where
  "parse_gitlab_author prof response =
     Option.bind (jget ''author'' response)
       (\<lambda>author. Option.bind (opt_or (Option.bind (jget ''username'' author) as_str)
                                (Option.bind (jget ''login'' author) as_str))
         (\<lambda>raw. let login = trim raw;
                    bot = Option.bind (jget ''bot'' author) as_bool;
                    is_bot = Option.bind (jget ''is_bot'' author) as_bool;
                    explicit_kind = (if bot = Some True \<or> is_bot = Some True then BotAuthor
                                     else if bot = Some False \<or> is_bot = Some False then HumanAuthor
                                     else UnknownAuthor);
                    prefix = map_option (\<lambda>i. ''project_'' @ i @ ''_bot_'') (ip_provider_project_id prof)
                in if login = [] then None
                   else Some \<lparr> ia_login = login,
                     ia_kind = (if explicit_kind \<noteq> UnknownAuthor then explicit_kind
                                else if is_some_and prefix (\<lambda>p. starts_with p login) then BotAuthor
                                else HumanAuthor) \<rparr>))"

definition issue_author_is_trusted :: "intake_profile \<Rightarrow> issue_author \<Rightarrow> bool" where
  "issue_author_is_trusted prof author =
     (let pub = ip_publishing prof
      in case ia_kind author of
           UnknownAuthor \<Rightarrow> False
         | BotAuthor \<Rightarrow> is_some_and (trusted_issue_bot_authors pub) (login_matches (ia_login author))
         | HumanAuthor \<Rightarrow>
             (case trusted_issue_human_authors pub of
                Some authors \<Rightarrow> login_matches (ia_login author) authors
              | None \<Rightarrow>
                  if eq_ignore_case (ip_provider prof) ''github'' then
                    (case github_issue_author_allowlist pub of
                       Some allowlist \<Rightarrow> login_matches (ia_login author) allowlist
                     | None \<Rightarrow> is_some_and (split_once (CHR ''/'') (ip_repo prof))
                                 (\<lambda>(owner, _). eq_ignore_case owner (ia_login author)))
                  else False))"

definition gitlab_note_author_is_trusted :: "intake_profile \<Rightarrow> json \<Rightarrow> bool" where
  "gitlab_note_author_is_trusted prof note =
     is_some_and (parse_gitlab_author prof note) (issue_author_is_trusted prof)"

subsection \<open>Holders and labels\<close>

record issue_record =
  ir_details :: issue_details
  ir_author :: "issue_author option"
  ir_assignees :: "rust_str list"

record issue_holders =
  ih_assignees :: "rust_str list"
  ih_own_login :: "rust_str option"

datatype managed_by = ManagedLabel | ManagedAssignee rust_str | AssigneeUnknownSelf rust_str

datatype issue_disposition = OwnerDecision | BlockedIssue | PlanningIssue

fun disposition_code :: "issue_disposition \<Rightarrow> rust_str" where
  "disposition_code OwnerDecision = ''owner_decision''"
| "disposition_code BlockedIssue = ''blocked''"
| "disposition_code PlanningIssue = ''planning''"

fun disposition_reason :: "issue_disposition \<Rightarrow> rust_str" where
  "disposition_reason OwnerDecision = ''owner-decision label present''"
| "disposition_reason BlockedIssue = ''blocked label present''"
| "disposition_reason PlanningIssue = ''planning label present''"

datatype intake_rejection =
    MissingAuthor | MalformedAuthorIdentity | UntrustedAuthor | CanonicalLabelRequired
  | Managed managed_by | Disposition issue_disposition

fun rejection_code :: "intake_rejection \<Rightarrow> rust_str" where
  "rejection_code MissingAuthor = ''missing_author''"
| "rejection_code MalformedAuthorIdentity = ''malformed_author_identity''"
| "rejection_code UntrustedAuthor = ''untrusted_author''"
| "rejection_code CanonicalLabelRequired = ''canonical_autonomous_label_required''"
| "rejection_code (Managed _) = ''managed''"
| "rejection_code (Disposition d) = disposition_code d"

fun rejection_reason :: "rust_str \<Rightarrow> intake_rejection \<Rightarrow> rust_str" where
  "rejection_reason label MissingAuthor = ''author identity missing or unreadable''"
| "rejection_reason label MalformedAuthorIdentity = ''provider returned a malformed author identity''"
| "rejection_reason label UntrustedAuthor = ''author is not trusted by this profile''"
| "rejection_reason label CanonicalLabelRequired = ''missing canonical autonomous label '' @ dep_quoted label"
| "rejection_reason label (Managed ManagedLabel) =
     ''managed: the managed label is on it, so a manager owns this issue''"
| "rejection_reason label (Managed (ManagedAssignee login)) =
     ''managed: assigned to '' @ login @ '', who is not this loop''"
| "rejection_reason label (Managed (AssigneeUnknownSelf login)) =
     ''managed: assigned to '' @ login
     @ ''; this loop's own login could not be read, so the issue counts as someone else's''"
| "rejection_reason label (Disposition d) = disposition_reason d"

definition issue_label_is_managed :: "rust_str \<Rightarrow> bool" where
  "issue_label_is_managed label = (to_ascii_lowercase (trim label) \<in> {''managed'', ''gah:managed''})"

definition managed_rejection :: "rust_str list \<Rightarrow> issue_holders \<Rightarrow> managed_by option" where
  "managed_rejection labels holders =
     (if list_ex issue_label_is_managed labels then Some ManagedLabel
      else case ih_own_login holders of
             None \<Rightarrow> map_option (\<lambda>a. AssigneeUnknownSelf (trim a)) (first (ih_assignees holders))
           | Some me \<Rightarrow>
               map_option (\<lambda>a. ManagedAssignee (trim a))
                 (List.find (\<lambda>a. \<not> eq_ignore_case me (trim a)) (ih_assignees holders)))"

definition assignees_mark_managed :: "intake_profile \<Rightarrow> bool" where
  "assignees_mark_managed prof = (icp_mode (pub_issue_claim (ip_publishing prof)) = LocalClaims)"

text \<open>\<open>own_login\<close> is the login the provider answers for this loop, if it answers.\<close>

definition own_login_for_records :: "rust_str option \<Rightarrow> intake_profile \<Rightarrow> issue_record list \<Rightarrow> rust_str option" where
  "own_login_for_records own_login prof records =
     (if assignees_mark_managed prof \<and> list_ex (\<lambda>r. ir_assignees r \<noteq> []) records
      then opt_filter (\<lambda>l. l \<noteq> []) (map_option trim own_login) else None)"

definition holders_of :: "intake_profile \<Rightarrow> issue_record \<Rightarrow> rust_str option \<Rightarrow> issue_holders" where
  "holders_of prof r own_login =
     \<lparr> ih_assignees = (if assignees_mark_managed prof then ir_assignees r else []), ih_own_login = own_login \<rparr>"

definition issue_disposition_from_labels :: "intake_profile \<Rightarrow> rust_str list \<Rightarrow> issue_disposition option" where
  "issue_disposition_from_labels prof labels =
     (let normalized = map (\<lambda>l. to_ascii_lowercase (trim l)) labels
      in if list_ex (\<lambda>l. l = ''executive:owner-decision'' \<or> l = ''exec:owner-decision'') normalized
         then Some OwnerDecision
         else if list_ex (\<lambda>l. l = ''blocked'' \<or> l = ''gah:blocked'') normalized then Some BlockedIssue
         else if list_ex (\<lambda>l. list_ex (\<lambda>c. eq_ignore_case l (trim c)) (pm_decomposition_labels (ip_publishing prof)))
                normalized
         then Some PlanningIssue else None)"

definition issue_is_canonical_autonomous :: "rust_str list \<Rightarrow> rust_str \<Rightarrow> bool" where
  "issue_is_canonical_autonomous labels canonical_label =
     list_ex (\<lambda>l. eq_ignore_case (trim l) (trim canonical_label)) labels"

definition evaluate_issue_intake ::
  "intake_profile \<Rightarrow> issue_author option \<Rightarrow> rust_str list \<Rightarrow> bool \<Rightarrow> issue_holders option
     \<Rightarrow> (intake_rejection, unit) rust_result" where
  "evaluate_issue_intake prof author labels allow_label_override holders =
     (case author of
        None \<Rightarrow> Inl MissingAuthor
      | Some a \<Rightarrow>
          if ia_kind a = UnknownAuthor then Inl MalformedAuthorIdentity
          else if \<not> issue_author_is_trusted prof a then Inl UntrustedAuthor
          else case Option.bind holders (managed_rejection labels) of
                 Some managed \<Rightarrow> Inl (Managed managed)
               | None \<Rightarrow>
                   (case issue_disposition_from_labels prof labels of
                      Some d \<Rightarrow> Inl (Disposition d)
                    | None \<Rightarrow>
                        if pub_issue_intake_mode (ip_publishing prof) = CanonicalAutonomousOnly
                           \<and> \<not> issue_is_canonical_autonomous labels
                                 (canonical_autonomous_label (ip_publishing prof))
                           \<and> \<not> allow_label_override
                        then Inl CanonicalLabelRequired else Inr ()))"

definition issue_is_auto_dispatch_blocked :: "rust_str list \<Rightarrow> bool" where
  "issue_is_auto_dispatch_blocked labels =
     list_ex (\<lambda>l. issue_label_is_managed l
                \<or> to_ascii_lowercase (trim l) \<in> {''executive:owner-decision'', ''exec:owner-decision'', ''blocked'',
                     ''planning'', ''plan'', ''gah:blocked''}) labels"

subsection \<open>Issues of the forge\<close>

definition text_or_empty :: "json \<Rightarrow> rust_str" where
  "text_or_empty v = unwrap_or (as_str v) []"

definition number_or_empty :: "json \<Rightarrow> rust_str" where
  "number_or_empty v = (case as_i64 v of Some n \<Rightarrow> int_str n | None \<Rightarrow> [])"

definition items_of :: "json \<Rightarrow> json list" where
  "items_of v = unwrap_or (as_array v) []"

definition issue_record_from_github_value :: "json \<Rightarrow> issue_record" where
  "issue_record_from_github_value resp =
     \<lparr> ir_details =
         \<lparr> is_number = number_or_empty (jindex resp ''number''), is_title = text_or_empty (jindex resp ''title''),
           is_body = text_or_empty (jindex resp ''body''),
           is_labels = List.map_filter (\<lambda>l. as_str (jindex l ''name'')) (items_of (jindex resp ''labels'')),
           is_state = as_str (jindex resp ''state'') \<rparr>,
       ir_author = parse_github_author resp,
       ir_assignees = List.map_filter (\<lambda>a. as_str (jindex a ''login'')) (items_of (jindex resp ''assignees'')) \<rparr>"

definition issue_record_from_gitlab_value :: "intake_profile \<Rightarrow> json \<Rightarrow> issue_record" where
  "issue_record_from_gitlab_value prof resp =
     \<lparr> ir_details =
         \<lparr> is_number = number_or_empty (jindex resp ''iid''), is_title = text_or_empty (jindex resp ''title''),
           is_body = text_or_empty (jindex resp ''description''),
           is_labels = List.map_filter as_str (items_of (jindex resp ''labels'')),
           is_state = as_str (jindex resp ''state'') \<rparr>,
       ir_author = parse_gitlab_author prof resp,
       ir_assignees = List.map_filter (\<lambda>a. as_str (jindex a ''username'')) (items_of (jindex resp ''assignees'')) \<rparr>"

record intake_rejection_row =
  rj_ticket_path :: rust_str
  rj_work_id :: "rust_str option"
  rj_title :: "rust_str option"
  rj_provider :: rust_str
  rj_author_login :: "rust_str option"
  rj_author_kind :: "rust_str option"
  rj_reason_code :: rust_str
  rj_reason :: rust_str
  rj_labels :: "rust_str list"

definition issue_rejection_snapshot :: "intake_profile \<Rightarrow> issue_record \<Rightarrow> intake_rejection \<Rightarrow> intake_rejection_row" where
  "issue_rejection_snapshot prof r rejection =
     \<lparr> rj_ticket_path = is_number (ir_details r), rj_work_id = Some (CHR ''#'' # is_number (ir_details r)),
       rj_title = Some (is_title (ir_details r)), rj_provider = ip_provider prof,
       rj_author_login = map_option ia_login (ir_author r),
       rj_author_kind = map_option (\<lambda>a. issue_author_kind_to_str (ia_kind a)) (ir_author r),
       rj_reason_code = rejection_code rejection,
       rj_reason = rejection_reason (canonical_autonomous_label (ip_publishing prof)) rejection,
       rj_labels = is_labels (ir_details r) \<rparr>"

record issue_discovery =
  id_allowed :: "issue_details list"
  id_rejected :: "intake_rejection_row list"
  id_claimed_elsewhere :: "rust_str set"

text \<open>The loop over the records: the admitted ones, and why the others are not.\<close>

definition admitted :: "intake_profile \<Rightarrow> rust_str option \<Rightarrow> issue_record \<Rightarrow> (intake_rejection, unit) rust_result" where
  "admitted prof own_login r =
     evaluate_issue_intake prof (ir_author r) (is_labels (ir_details r)) False (Some (holders_of prof r own_login))"

definition sort_intake ::
  "intake_profile \<Rightarrow> rust_str option \<Rightarrow> issue_record list \<Rightarrow> issue_record list \<times> intake_rejection_row list" where
  "sort_intake prof own_login records =
     (filter (\<lambda>r. admitted prof own_login r = Inr ()) records,
      List.map_filter (\<lambda>r. case admitted prof own_login r of
                         Inl rejection \<Rightarrow> Some (issue_rejection_snapshot prof r rejection) | Inr _ \<Rightarrow> None) records)"

text \<open>What the forge answers during a discovery: the \<open>n\<close>-th page of open issues, and who this loop is.\<close>

record intake_env =
  ie_page :: "nat \<Rightarrow> (rust_str, json list) rust_result"
  ie_own_login :: "rust_str option"
  ie_holders :: holders_env
  ie_project :: "(rust_str, rust_str) rust_result"

definition ISSUE_PAGE_SIZE :: nat where "ISSUE_PAGE_SIZE = 100"
definition ISSUE_MAX_PAGES :: nat where "ISSUE_MAX_PAGES = 2"

fun github_issue_pages :: "intake_env \<Rightarrow> nat list \<Rightarrow> json list \<Rightarrow> (rust_str, json list) rust_result" where
  "github_issue_pages env [] items = Inr items"
| "github_issue_pages env (page # pages) items =
     (case ie_page env page of
        Inl e \<Rightarrow> Inl e
      | Inr page_json \<Rightarrow>
          (let items' = items @ filter (\<lambda>i. jget ''pull_request'' i = None) page_json
           in if length page_json < ISSUE_PAGE_SIZE then Inr items'
              else if page = ISSUE_MAX_PAGES
              then Inl (''GitHub REST open-issue snapshot reached its cap (''
                        @ nat_str (ISSUE_PAGE_SIZE * ISSUE_MAX_PAGES) @ ''); refusing incomplete intake'')
              else github_issue_pages env pages items'))"

definition discover_open_github_issues :: "intake_env \<Rightarrow> intake_profile \<Rightarrow> (rust_str, issue_discovery) rust_result" where
  "discover_open_github_issues env prof =
     (case github_issue_pages env [1..<ISSUE_MAX_PAGES + 1] [] of
        Inl e \<Rightarrow> Inl e
      | Inr items \<Rightarrow>
          (let records = map issue_record_from_github_value items;
               own_login = own_login_for_records (ie_own_login env) prof records;
               (allowed, rejected) = sort_intake prof own_login records
           in case issues_held_by_others (ie_holders env) (pub_issue_claim (ip_publishing prof))
                     (map (\<lambda>r. (is_number (ir_details r), ir_assignees r)) allowed) of
                Inl e \<Rightarrow> Inl e
              | Inr held \<Rightarrow>
                  Inr \<lparr> id_allowed = map ir_details allowed, id_rejected = rejected, id_claimed_elsewhere = held \<rparr>))"

text \<open>The loop of \<open>discover_open_gitlab_issues\<close>; \<open>None\<close> is a forge whose pages never end.\<close>

partial_function (option) gitlab_issue_pages ::
  "intake_env \<Rightarrow> intake_profile \<Rightarrow> nat \<Rightarrow> rust_str option \<Rightarrow> issue_details list \<Rightarrow> intake_rejection_row list
     \<Rightarrow> (rust_str, issue_details list \<times> intake_rejection_row list) rust_result option" where
  "gitlab_issue_pages env prof page own_login allowed rejected =
     (case ie_page env page of
        Inl e \<Rightarrow> Some (Inl e)
      | Inr items \<Rightarrow>
          (let records = map (issue_record_from_gitlab_value prof) items;
               own_login' = opt_or own_login (own_login_for_records (ie_own_login env) prof records);
               intake = sort_intake prof own_login' records;
               allowed' = allowed @ map ir_details (fst intake);
               rejected' = rejected @ snd intake
           in if length items < ISSUE_PAGE_SIZE then Some (Inr (allowed', rejected'))
              else gitlab_issue_pages env prof (page + 1) own_login' allowed' rejected'))"

definition discover_open_gitlab_issues ::
  "intake_env \<Rightarrow> intake_profile \<Rightarrow> (rust_str, issue_discovery) rust_result option" where
  "discover_open_gitlab_issues env prof =
     (case issues_held_by_others (ie_holders env) (pub_issue_claim (ip_publishing prof)) [] of
        Inl e \<Rightarrow> Some (Inl e)
      | Inr held \<Rightarrow>
          (case ie_project env of
             Inl e \<Rightarrow> Some (Inl e)
           | Inr _ \<Rightarrow>
               map_option
                 (\<lambda>res. case res of
                    Inl e \<Rightarrow> Inl e
                  | Inr (allowed, rejected) \<Rightarrow>
                      Inr \<lparr> id_allowed = allowed, id_rejected = rejected, id_claimed_elsewhere = held \<rparr>)
                 (gitlab_issue_pages env prof 1 None [] [])))"

definition try_discover_open_issues ::
  "intake_env \<Rightarrow> intake_profile \<Rightarrow> (rust_str, issue_discovery) rust_result option" where
  "try_discover_open_issues env prof =
     (case provider_kind_parse (ip_provider prof) of
        Inr Github \<Rightarrow> Some (discover_open_github_issues env prof)
      | Inr Gitlab \<Rightarrow> discover_open_gitlab_issues env prof
      | Inl _ \<Rightarrow> Some (Inl (''provider '' @ dep_quoted (ip_provider prof)
                            @ '' does not support native issue discovery'')))"

subsection \<open>References and sections\<close>

definition ticket_number_prefix :: "rust_str \<Rightarrow> rust_str option" where
  "ticket_number_prefix work_id =
     Option.bind (opt_or (strip_prefix ''TICKET-'' work_id) (strip_prefix ''#'' work_id))
       (\<lambda>rest. let digits = takeWhile is_ascii_digit rest in if digits = [] then None else Some digits)"

definition is_issue_number_reference :: "rust_str \<Rightarrow> bool" where
  "is_issue_number_reference s =
     (let trimmed = trim s
      in if trimmed = [] then False
         else case strip_prefix ''#'' trimmed of
                Some number \<Rightarrow> number \<noteq> [] \<and> list_all is_ascii_digit number
              | None \<Rightarrow> list_all is_ascii_digit trimmed)"

definition extract_issue_number :: "rust_str \<Rightarrow> rust_str option" where
  "extract_issue_number s =
     (let trimmed = trim s
      in if trimmed = [] then None
         else case strip_prefix ''#'' trimmed of
                Some number \<Rightarrow> if number = [] then None
                               else if list_all is_ascii_digit number then Some number else None
              | None \<Rightarrow> if list_all is_ascii_digit trimmed then Some trimmed else None)"

definition extract_field_value :: "rust_str \<Rightarrow> rust_str \<Rightarrow> rust_str option" where
  "extract_field_value body label =
     opt_filter (\<lambda>v. v \<noteq> [])
       (first (List.map_filter (\<lambda>l. map_option trim (strip_prefix (label @ '':'') l)) (map trim (lines_of body))))"

fun section_lines :: "rust_str \<Rightarrow> bool \<Rightarrow> rust_str list \<Rightarrow> rust_str list" where
  "section_lines heading capture [] = []"
| "section_lines heading capture (raw # rest) =
     (let trimmed = trim raw
      in if starts_with ''#'' trimmed then
           (if capture then []
            else section_lines heading (eq_ignore_case (trim (trim_start_matches (CHR ''#'') trimmed)) heading) rest)
         else if capture then trim_end raw # section_lines heading capture rest
         else section_lines heading capture rest)"

definition extract_markdown_section :: "rust_str \<Rightarrow> rust_str \<Rightarrow> rust_str option" where
  "extract_markdown_section body heading =
     (let section_text = trim (join [CHR 0x0A] (section_lines heading False (lines_of body)))
      in if section_text = [] then None else Some section_text)"

fun kept_lines :: "rust_str \<Rightarrow> bool \<Rightarrow> rust_str list \<Rightarrow> rust_str" where
  "kept_lines heading skipping [] = []"
| "kept_lines heading skipping (raw # rest) =
     (let trimmed = trim raw;
          skipping' = (if starts_with ''#'' trimmed
                       then eq_ignore_case (trim (trim_start_matches (CHR ''#'') trimmed)) heading else skipping)
      in (if skipping' then [] else raw @ [CHR 0x0A]) @ kept_lines heading skipping' rest)"

definition strip_markdown_section :: "rust_str \<Rightarrow> rust_str \<Rightarrow> rust_str" where
  "strip_markdown_section body heading = kept_lines heading False (lines_of body)"

datatype section_parse_mode = ListMode | FallbackMode

definition strip_list_marker :: "rust_str \<Rightarrow> rust_str option" where
  "strip_list_marker l =
     (case strip_prefix ''- '' l of
        Some rest \<Rightarrow> Some rest
      | None \<Rightarrow>
          (let after_digits = dropWhile is_ascii_digit l
           in if length after_digits = length l then None
              else opt_or (strip_prefix ''. '' after_digits) (strip_prefix '') '' after_digits)))"

definition parse_list_items :: "rust_str \<Rightarrow> rust_str list" where
  "parse_list_items section_text =
     List.map_filter (\<lambda>l. opt_filter (\<lambda>v. v \<noteq> []) (map_option trim (strip_list_marker l)))
       (map trim (lines_of section_text))"

definition extract_markdown_list_section_audited ::
  "rust_str \<Rightarrow> rust_str \<Rightarrow> (rust_str list \<times> section_parse_mode) option" where
  "extract_markdown_list_section_audited body heading =
     map_option (\<lambda>t. let items = parse_list_items t
                     in if items = [] then ([t], FallbackMode) else (items, ListMode))
       (extract_markdown_section body heading)"

definition extract_markdown_list_section :: "rust_str \<Rightarrow> rust_str \<Rightarrow> rust_str list" where
  "extract_markdown_list_section body heading =
     unwrap_or (map_option fst (extract_markdown_list_section_audited body heading)) []"

definition strip_suffix_char :: "char \<Rightarrow> rust_str \<Rightarrow> rust_str option" where
  "strip_suffix_char c s = (if s \<noteq> [] \<and> last s = c then Some (butlast s) else None)"

definition extract_markdown_code_list_section :: "rust_str \<Rightarrow> rust_str \<Rightarrow> rust_str list" where
  "extract_markdown_code_list_section body heading =
     map (\<lambda>item. unwrap_or (Option.bind (strip_prefix [CHR 0x60] item) (strip_suffix_char (CHR 0x60))) item)
       (extract_markdown_list_section body heading)"

definition normalize_match :: "rust_str \<Rightarrow> rust_str" where
  "normalize_match input =
     join '' '' (split_whitespace
       (map (\<lambda>c. if is_ascii_digit c \<or> is_ascii_upper c \<or> is_ascii_lower c then to_lower1 c else CHR '' '') input))"

subsection \<open>Metadata\<close>

record ticket_metadata =
  tm_ticket_id :: "rust_str option"
  tm_work_id :: "rust_str option"
  tm_title :: "rust_str option"
  tm_issue_number :: "rust_str option"
  tm_summary :: "rust_str option"
  tm_priority :: "rust_str option"
  tm_problem :: "rust_str option"
  tm_goal :: "rust_str option"
  tm_suggested_mr_title :: "rust_str option"
  tm_difficulty :: "rust_str option"
  tm_task_class :: "rust_str option"
  tm_risk :: "rust_str option"
  tm_recommended_backend :: "rust_str option"
  tm_recommended_model :: "rust_str option"
  tm_execution_disposition :: "rust_str option"
  tm_source :: "rust_str option"
  tm_acceptance_criteria :: "rust_str list"
  tm_constraints :: "rust_str list"
  tm_verification_commands :: "rust_str list"
  tm_affected_files :: "rust_str list"
  tm_is_authoritative :: bool

definition default_metadata :: ticket_metadata where
  "default_metadata =
     \<lparr> tm_ticket_id = None, tm_work_id = None, tm_title = None, tm_issue_number = None, tm_summary = None,
       tm_priority = None, tm_problem = None, tm_goal = None, tm_suggested_mr_title = None, tm_difficulty = None,
       tm_task_class = None, tm_risk = None, tm_recommended_backend = None, tm_recommended_model = None,
       tm_execution_disposition = None, tm_source = None, tm_acceptance_criteria = [], tm_constraints = [],
       tm_verification_commands = [], tm_affected_files = [], tm_is_authoritative = False \<rparr>"

definition normalize_ticket_title :: "rust_str \<Rightarrow> rust_str" where
  "normalize_ticket_title title =
     (case strip_prefix ''TICKET-'' (trim title) of
        None \<Rightarrow> title
      | Some rest \<Rightarrow>
          (let digit_byte_count = length (takeWhile is_ascii_digit rest)
           in if digit_byte_count = 0 then title
              else let remainder = trim_start (utf8_safe_suffix rest (length rest - digit_byte_count));
                       normalized = trim_start (dropWhile (\<lambda>c. c = CHR '':'' \<or> c = CHR ''-'') remainder)
                   in if normalized = [] then title else normalized))"

text \<open>The \<open>else if\<close> chain over the prefixes of a line: the first prefix that fits takes the line.\<close>

type_synonym field_setter = "rust_str list \<times> (rust_str \<Rightarrow> ticket_metadata \<Rightarrow> ticket_metadata)"

definition set_fields :: "field_setter list \<Rightarrow> rust_str \<Rightarrow> ticket_metadata \<Rightarrow> ticket_metadata" where
  "set_fields setters l m =
     (case first (List.map_filter (\<lambda>(labels, f).
               map_option (\<lambda>v. f (trim v)) (first (List.map_filter (\<lambda>p. strip_prefix p l) labels))) setters) of
        Some f \<Rightarrow> f m
      | None \<Rightarrow> m)"

definition unless_unspecified :: "rust_str \<Rightarrow> rust_str option \<Rightarrow> rust_str option" where
  "unless_unspecified v old = (if v \<noteq> [] \<and> v \<noteq> ''unspecified'' then Some v else old)"

definition shared_fields :: "field_setter list" where
  "shared_fields =
     [([''Difficulty:''], \<lambda>v m. m\<lparr> tm_difficulty := Some v \<rparr>),
      ([''Priority:''], \<lambda>v m. m\<lparr> tm_priority := Some v \<rparr>),
      ([''Task class:'', ''Task Class:''], \<lambda>v m. m\<lparr> tm_task_class := Some v \<rparr>),
      ([''Risk:''], \<lambda>v m. m\<lparr> tm_risk := Some v \<rparr>),
      ([''Recommended backend:''],
        \<lambda>v m. m\<lparr> tm_recommended_backend := unless_unspecified v (tm_recommended_backend m) \<rparr>),
      ([''Recommended model:''],
        \<lambda>v m. m\<lparr> tm_recommended_model := unless_unspecified v (tm_recommended_model m) \<rparr>)]"

definition file_fields :: "field_setter list" where
  "file_fields = shared_fields @
     [([''Execution disposition:'', ''Execution Disposition:''],
        \<lambda>v m. if v = [] then m else m\<lparr> tm_execution_disposition := Some v \<rparr>),
      ([''Goal:''], \<lambda>v m.
        let m' = (if v = [] then m else m\<lparr> tm_goal := Some v \<rparr>)
        in if tm_title m' = None \<and> v \<noteq> [] then m'\<lparr> tm_title := Some v \<rparr> else m'),
      ([''Suggested MR Title:''], \<lambda>v m. m\<lparr> tm_suggested_mr_title := Some v \<rparr>),
      ([''Work ID:''], \<lambda>v m. m\<lparr> tm_work_id := Some v \<rparr>)]"

definition issue_fields :: "field_setter list" where
  "issue_fields = shared_fields @
     [([''Goal:''], \<lambda>v m. if v = [] then m else m\<lparr> tm_goal := Some v \<rparr>),
      ([''Suggested MR Title:''], \<lambda>v m. m\<lparr> tm_suggested_mr_title := Some v \<rparr>),
      ([''Source:''], \<lambda>v m. m\<lparr> tm_source := Some v \<rparr>)]"

definition append_unique_strings :: "rust_str list \<Rightarrow> rust_str list \<Rightarrow> rust_str list" where
  "append_unique_strings target source = fold (\<lambda>item t. if item \<in> set t then t else t @ [item]) source target"

text \<open>A label that looks like a path is an affected file, any other one a constraint.\<close>

definition add_label :: "rust_str \<Rightarrow> ticket_metadata \<Rightarrow> ticket_metadata" where
  "add_label label m =
     (if CHR ''/'' \<in> set label \<or> CHR ''.'' \<in> set label
      then (if label \<in> set (tm_affected_files m) then m
            else m\<lparr> tm_affected_files := tm_affected_files m @ [label] \<rparr>)
      else if label \<in> set (tm_constraints m) then m
      else m\<lparr> tm_constraints := tm_constraints m @ [label] \<rparr>)"

definition parse_ticket_metadata_from_issue :: "issue_details \<Rightarrow> ticket_metadata" where
  "parse_ticket_metadata_from_issue issue =
     (let identity = CHR ''#'' # is_number issue;
          body = is_body issue;
          m0 = default_metadata\<lparr> tm_ticket_id := Some identity, tm_work_id := Some identity,
                 tm_issue_number := Some (is_number issue),
                 tm_title := Some (normalize_ticket_title (trim (is_title issue))) \<rparr>;
          m1 = fold (set_fields issue_fields) (map trim (lines_of body)) m0;
          m2 = m1\<lparr> tm_is_authoritative := is_some (tm_ticket_id m1) \<or> is_some (tm_work_id m1),
                   tm_goal := opt_or (tm_goal m1) (extract_markdown_section body ''Goal''),
                   tm_problem := opt_or (extract_markdown_section body ''Problem'')
                     (opt_or (extract_markdown_section body ''Background'')
                        (extract_markdown_section body ''Description'')) \<rparr>;
          m3 = (if tm_problem m2 = None \<and> tm_goal m2 = None
                then m2\<lparr> tm_problem := extract_markdown_section body ''Scope'' \<rparr> else m2);
          m4 = m3\<lparr> tm_acceptance_criteria := extract_markdown_list_section body ''Acceptance Criteria'',
                   tm_constraints := extract_markdown_list_section body ''Constraints''
                     @ extract_markdown_list_section body ''Invariants''
                     @ extract_markdown_list_section body ''Required Behavior'',
                   tm_verification_commands :=
                     append_unique_strings (extract_markdown_code_list_section body ''Verification Commands'')
                       (extract_markdown_code_list_section body ''Verification''),
                   tm_affected_files :=
                     append_unique_strings (extract_markdown_list_section body ''Affected Files'')
                       (extract_markdown_list_section body ''Move only'') \<rparr>;
          m5 = fold add_label (is_labels issue) m4
      in m5\<lparr> tm_summary := tm_title m5 \<rparr>)"

text \<open>A file of tickets: its path, extension and stem, its text when it can be read, and the text of
  \<^verbatim>\<open>MANAGER_MEMORY.md\<close> beside its directory.\<close>

record ticket_file =
  tf_path :: rust_str
  tf_extension :: "rust_str option"
  tf_stem :: "rust_str option"
  tf_body :: "rust_str option"
  tf_manager_memory :: "rust_str option"

definition stem_ticket_id :: "rust_str \<Rightarrow> rust_str option" where
  "stem_ticket_id stem =
     (case split_char (CHR ''-'') stem of
        p # number # _ \<Rightarrow> if p = ''TICKET'' \<and> number \<noteq> [] then Some (''TICKET-'' @ number) else None
      | _ \<Rightarrow> None)"

definition EM_DASH :: rust_str where "EM_DASH = [CHR '' '', CHR 0xE2, CHR 0x80, CHR 0x94, CHR '' '']"

definition heading_work_id :: "rust_str \<Rightarrow> rust_str option" where
  "heading_work_id heading =
     (let trimmed = trim heading
      in if \<not> starts_with ''TICKET-'' trimmed then None
         else map_option trim
                (opt_or (map_option fst (split_once (CHR '':'') trimmed))
                   (map_option (\<lambda>i. take i trimmed) (find_str EM_DASH trimmed))))"

definition contradicted :: "rust_str \<Rightarrow> rust_str option \<Rightarrow> rust_str \<Rightarrow> bool" where
  "contradicted file_id title l =
     (starts_with ''|'' (trim_start l) \<and> contains_str file_id l
      \<and> (case title of Some t \<Rightarrow> \<not> contains_str (normalize_match t) (normalize_match l) | None \<Rightarrow> True))"

definition parse_ticket_metadata :: "ticket_file \<Rightarrow> ticket_metadata option" where
  "parse_ticket_metadata tf =
     (if tf_extension tf \<noteq> Some ''md'' then None
      else case tf_body tf of
             None \<Rightarrow> None
           | Some body \<Rightarrow>
               (let raw_heading = first_markdown_heading body;
                    title = map_option normalize_ticket_title raw_heading;
                    m0 = default_metadata\<lparr>
                           tm_ticket_id := Option.bind (tf_stem tf) stem_ticket_id,
                           tm_title := title, tm_summary := title,
                           tm_problem := extract_markdown_section body ''Problem'',
                           tm_acceptance_criteria := extract_markdown_list_section body ''Acceptance Criteria'',
                           tm_constraints := extract_markdown_list_section body ''Constraints'',
                           tm_verification_commands := extract_markdown_code_list_section body ''Verification Commands'',
                           tm_affected_files := extract_markdown_list_section body ''Affected Files'',
                           tm_source := opt_filter (\<lambda>v. v \<noteq> [])
                             (map_option trim (opt_or (extract_field_value body ''Source'')
                                (extract_markdown_section body ''Source''))) \<rparr>;
                    m1 = fold (set_fields file_fields) (map trim (lines_of body)) m0;
                    m2 = (if tm_work_id m1 = None
                          then m1\<lparr> tm_work_id := Option.bind raw_heading heading_work_id \<rparr> else m1);
                    agreed = (is_some (tm_ticket_id m2) \<and> tm_ticket_id m2 = tm_work_id m2);
                    denied = (case (tm_ticket_id m2, tf_manager_memory tf) of
                                (Some file_id, Some memory) \<Rightarrow> list_ex (contradicted file_id (tm_title m2)) (lines_of memory)
                              | _ \<Rightarrow> False)
                in Some (m2\<lparr> tm_is_authoritative := agreed \<and> \<not> denied \<rparr>)))"

end
