(* ===== verification/Ticket_Scan.thy ===== *)
theory Ticket_Scan
  imports Issue_Intake Decision Work_Claim
begin

text \<open>
  From the ledger and the forge to the tickets the controller may start (\<^verbatim>\<open>dispatch/claims.rs\<close>): the
  claim entries of running dispatches, the history of a work item, repeated setup failures, the scan of
  ticket files and issues, and the check a dispatch makes before it claims its work.
\<close>

subsection \<open>Claims in the ledger\<close>

text \<open>The clock and its parser, the rendered instant two weeks ago, SHA-256, and whether a character
  beyond ASCII is alphanumeric.\<close>

record scan_env =
  se_parse_ts :: "rust_str \<Rightarrow> int option"
  se_now :: int
  se_cutoff :: rust_str
  se_sha256 :: "rust_str \<Rightarrow> rust_str"
  se_alnum :: "rust_str \<Rightarrow> bool"

definition CLAIM_STALE_AFTER :: int where "CLAIM_STALE_AFTER = 6 * 3600 * 1000000000"

definition is_claim_entry_stale :: "scan_env \<Rightarrow> ledger_entry \<Rightarrow> bool" where
  "is_claim_entry_stale env e =
     (case entry_time (se_parse_ts env) e of None \<Rightarrow> True | Some t \<Rightarrow> CLAIM_STALE_AFTER < se_now env - t)"

definition old_entry :: "scan_env \<Rightarrow> ledger_entry \<Rightarrow> bool" where
  "old_entry env e = is_entry_stale (se_parse_ts env) (se_now env) e"

definition is_control_record :: "rust_str \<Rightarrow> bool" where
  "is_control_record mode =
     (mode \<in> {''paid_route_approval_grant'', ''paid_route_approval_revoke'', ''external_approval_grant'',
        ''external_approval_request'', ''external_approval_consume'', ''external_approval_revoke'',
        ''external_approval_expire'', ''external_approval_deny'', ''review_hold'', ''review_hold_release''})"

definition claim_step :: "scan_env \<Rightarrow> ledger_entry \<Rightarrow> ledger_entry option \<Rightarrow> ledger_entry option" where
  "claim_step env e active =
     (if old_entry env e then active
      else if le_mode e = ''claim'' then (if is_claim_entry_stale env e then None else Some e)
      else if is_control_record (le_mode e) then active
      else None)"

definition active_claim :: "scan_env \<Rightarrow> ledger_entry list \<Rightarrow> ledger_entry option" where
  "active_claim env entries = fold (claim_step env) entries None"

text \<open>\<open>EndedClaimRuns\<close>: the runs that wrote an execution or outcome entry.\<close>

type_synonym ended_runs = "(rust_str \<times> rust_str) set"

definition is_outcome :: "scan_env \<Rightarrow> ledger_entry \<Rightarrow> bool" where
  "is_outcome env e = (le_mode e \<noteq> ''claim'' \<and> \<not> is_control_record (le_mode e) \<and> \<not> old_entry env e)"

definition ended_runs_from_entries :: "scan_env \<Rightarrow> ledger_entry list \<Rightarrow> ended_runs" where
  "ended_runs_from_entries env entries =
     set (List.map_filter (\<lambda>e. map_option (Pair (le_repo_id e)) (le_session_dir e)) (filter (is_outcome env) entries))"

definition run_ends :: "ended_runs \<Rightarrow> ledger_entry \<Rightarrow> bool" where
  "run_ends runs claim = is_some_and (le_session_dir claim) (\<lambda>d. (le_repo_id claim, d) \<in> runs)"

definition holds_active_claim :: "scan_env \<Rightarrow> ledger_entry list \<Rightarrow> ended_runs \<Rightarrow> bool" where
  "holds_active_claim env entries runs = is_some_and (active_claim env entries) (\<lambda>c. \<not> run_ends runs c)"

text \<open>\<open>claim_run_has_ended\<close>; a ledger that cannot be read keeps the claim.\<close>

definition claim_run_has_ended :: "scan_env \<Rightarrow> ledger_entry list option \<Rightarrow> ledger_entry \<Rightarrow> bool" where
  "claim_run_has_ended env ledger claim =
     (if le_session_dir claim = None then False
      else case ledger of
             Some entries \<Rightarrow> run_ends (ended_runs_from_entries env entries) claim
           | None \<Rightarrow> False)"

subsection \<open>Repeated setup failures\<close>

definition is_continuation :: "char \<Rightarrow> bool" where
  "is_continuation c = (128 \<le> byte c \<and> byte c < 192)"

text \<open>The characters of a text, each with its bytes.\<close>

function utf8_chars :: "rust_str \<Rightarrow> rust_str list" where
  "utf8_chars [] = []"
| "utf8_chars (c # cs) = (c # takeWhile is_continuation cs) # utf8_chars (dropWhile is_continuation cs)"
  by pat_completeness auto
termination
  by (relation "measure length") (auto simp: less_Suc_eq_le length_dropWhile_le)

definition is_word_char :: "scan_env \<Rightarrow> rust_str \<Rightarrow> bool" where
  "is_word_char env ch =
     (case ch of
        [c] \<Rightarrow> is_ascii_digit c \<or> is_ascii_upper c \<or> is_ascii_lower c \<or> c \<in> {CHR ''.'', CHR ''_'', CHR ''-''}
      | _ \<Rightarrow> se_alnum env ch)"

function normalize_token :: "scan_env \<Rightarrow> rust_str list \<Rightarrow> bool \<Rightarrow> rust_str option \<Rightarrow> rust_str" where
  "normalize_token env [] in_digits previous = []"
| "normalize_token env (ch # rest) in_digits previous =
     (if ch = ''/'' \<and> \<not> is_some_and previous (is_word_char env) then
        (let skipped = takeWhile (\<lambda>n. is_word_char env n \<or> n = ''/'') rest
         in ''<path>'' @ normalize_token env (dropWhile (\<lambda>n. is_word_char env n \<or> n = ''/'') rest) False
                           (Some (last (ch # skipped))))
      else if list_all is_ascii_digit ch
      then (if in_digits then [] else ''#'') @ normalize_token env rest True (Some ch)
      else ch @ normalize_token env rest False (Some ch))"
  by pat_completeness auto
termination
  by (relation "measure (\<lambda>(_, chs, _). length chs)") (auto simp: less_Suc_eq_le length_dropWhile_le)

definition setup_failure_signature ::
  "scan_env \<Rightarrow> ledger_entry \<Rightarrow> rust_str option \<times> rust_str option \<times> rust_str" where
  "setup_failure_signature env e =
     (le_failure_class e, le_failure_stage e,
      join '' '' (map (\<lambda>t. normalize_token env (utf8_chars t) False None)
                    (split_whitespace (unwrap_or (le_error_summary e) []))))"

definition REPEATED_SETUP_FAILURE_LIMIT :: nat where "REPEATED_SETUP_FAILURE_LIMIT = 3"

definition TRANSIENT_DISPATCH_REFUSALS :: "rust_str list" where
  "TRANSIENT_DISPATCH_REFUSALS =
     [''node admission deferred'', ''capacity deferred'', ''no eligible backend available'', ''shutdown requested'']"

definition ignored_by_repeated_setup :: "ledger_entry \<Rightarrow> bool" where
  "ignored_by_repeated_setup e =
     (is_some_and (le_validation_result e) (\<lambda>v. v = ''cancelled_shutdown'' \<or> v = ''not_run_abandoned'')
      \<or> is_some_and (le_error_summary e) (\<lambda>s. list_ex (\<lambda>m. contains_str m s) TRANSIENT_DISPATCH_REFUSALS))"

definition is_setup_class :: "rust_str option \<Rightarrow> bool" where
  "is_setup_class c = (c = Some ''harness_error'' \<or> c = Some ''environment_error'')"

definition repeated_setup_reason :: "scan_env \<Rightarrow> ledger_entry list \<Rightarrow> rust_str option" where
  "repeated_setup_reason env attempts =
     (let counted = filter (\<lambda>e. \<not> ignored_by_repeated_setup e) attempts
      in if length counted < REPEATED_SETUP_FAILURE_LIMIT then None
         else let recent = drop (length counted - REPEATED_SETUP_FAILURE_LIMIT) counted;
                  newest = last recent
              in if list_all (\<lambda>e. is_setup_class (le_failure_class e)
                                \<and> setup_failure_signature env e = setup_failure_signature env newest) recent
                 then Some (''the same setup failure happened '' @ nat_str REPEATED_SETUP_FAILURE_LIMIT
                            @ '' times in a row: '' @ unwrap_or (le_error_summary newest) [])
                 else None)"

subsection \<open>The history of a work item\<close>

record history =
  hx_setup :: "ledger_entry list"
  hx_count :: nat
  hx_agent_failures :: nat
  hx_last_class :: "rust_str option"
  hx_active_mr :: bool
  hx_merged_mr :: bool

definition empty_history :: history where
  "empty_history = \<lparr> hx_setup = [], hx_count = 0, hx_agent_failures = 0, hx_last_class = None,
     hx_active_mr = False, hx_merged_mr = False \<rparr>"

definition mr_of_entry :: "provider_mr list \<Rightarrow> ledger_entry \<Rightarrow> provider_mr option" where
  "mr_of_entry mrs e =
     List.find (\<lambda>mr. le_branch e = Some (sm_branch mr) \<or> le_mr_url e \<noteq> None \<and> le_mr_url e = sm_url mr) mrs"

definition note_mr :: "scan_env \<Rightarrow> provider_mr \<Rightarrow> history \<Rightarrow> history" where
  "note_mr env mr h =
     (let c = classify (se_cutoff env) mr
      in if c = ''MERGED'' then h\<lparr> hx_merged_mr := True \<rparr>
         else if c \<noteq> ''CLOSED_UNMERGED'' \<and> c \<noteq> ''STALE'' then h\<lparr> hx_active_mr := True \<rparr>
         else h)"

definition history_step :: "scan_env \<Rightarrow> rust_str \<Rightarrow> provider_mr list \<Rightarrow> ledger_entry \<Rightarrow> history \<Rightarrow> history" where
  "history_step env repo_id mrs e h =
     (if le_repo_id e \<noteq> repo_id then h
      else if old_entry env e then h
      else if le_mode e = ''clear_attempts''
      then h\<lparr> hx_setup := [], hx_count := 0, hx_agent_failures := 0, hx_last_class := None \<rparr>
      else if le_mode e = ''claim'' then h
      else if is_control_record (le_mode e) then
        (if le_mode e \<noteq> ''paid_route_approval_revoke'' \<and> le_mode e \<noteq> ''review_hold''
            \<and> le_mode e \<noteq> ''review_hold_release''
         then h\<lparr> hx_last_class := Some ''agent_no_progress'' \<rparr> else h)
      else if launched_no_backend e then h
      else
        let h' = h\<lparr> hx_setup := hx_setup h @ [e], hx_count := hx_count h + 1,
                    hx_agent_failures := hx_agent_failures h
                      + (if is_some_and (le_failure_class e) is_genuine_agent_failure then 1 else 0),
                    hx_last_class := opt_or (le_failure_class e) (hx_last_class h) \<rparr>
        in case mr_of_entry mrs e of Some mr \<Rightarrow> note_mr env mr h' | None \<Rightarrow> h')"

definition mr_carries :: "rust_str \<Rightarrow> provider_mr \<Rightarrow> bool" where
  "mr_carries wid mr = is_some_and (sm_work_id mr) (\<lambda>i. i \<in> set (work_id_aliases wid))"

definition history_of ::
  "scan_env \<Rightarrow> rust_str \<Rightarrow> provider_mr list \<Rightarrow> ledger_entry list \<Rightarrow> rust_str \<Rightarrow> history" where
  "history_of env repo_id mrs entries wid =
     fold (note_mr env) (filter (mr_carries wid) mrs)
       (fold (history_step env repo_id mrs) entries empty_history)"

text \<open>A gate that comes from a review counts only while the reviewed generation is still there.\<close>

definition gate_still_holds :: "scan_env \<Rightarrow> provider_mr list \<Rightarrow> rust_str \<Rightarrow> effective_human_gate \<Rightarrow> bool" where
  "gate_still_holds env mrs wid gate =
     (let review_derived = is_review_job (hg_mode gate)
            \<or> hg_reason_code gate = Some ''stuck_loop_gate'' \<and> is_some (hg_review_generation gate)
      in if \<not> review_derived then True
         else if hg_review_contract_version gate \<noteq> Some CURRENT_REVIEW_CONTRACT_VERSION then False
         else let relevant = filter (mr_carries wid) mrs
              in relevant = []
                 \<or> list_ex (\<lambda>mr. is_some_and (hg_review_generation gate)
                                  (\<lambda>g. review_generation_matches_mr (se_sha256 env) g mr)) relevant)"

record ticket_history =
  th_count :: nat
  th_agent_failures :: nat
  th_last_class :: "rust_str option"
  th_active_mr :: bool
  th_human_required :: bool
  th_active_claim :: bool
  th_reason_code :: "rust_str option"

text \<open>\<open>ledger_lookup_with_setup_reason\<close> and the reason it leaves; \<open>None\<close> drops the ticket.\<close>

definition ledger_lookup ::
  "scan_env \<Rightarrow> rust_str \<Rightarrow> provider_mr list \<Rightarrow> ledger_index \<Rightarrow> ended_runs \<Rightarrow> rust_str option
     \<Rightarrow> (ticket_history \<times> rust_str option) option" where
  "ledger_lookup env repo_id mrs index runs work_id =
     (case work_id of
        None \<Rightarrow>
          Some (\<lparr> th_count = 0, th_agent_failures = 0, th_last_class = None, th_active_mr = False,
                  th_human_required = False, th_active_claim = False, th_reason_code = None \<rparr>, None)
      | Some wid \<Rightarrow>
          (let entries = unwrap_or (map_of index wid) [];
               claimed = holds_active_claim env (filter (\<lambda>e. le_repo_id e = repo_id) entries) runs;
               h = history_of env repo_id mrs entries wid
           in if hx_merged_mr h then None
              else
                let gate = opt_filter (gate_still_holds env mrs wid)
                      (effective_human_gate_from_index (se_parse_ts env) (se_now env) index repo_id wid);
                    repeated = repeated_setup_reason env (hx_setup h)
                in Some (\<lparr> th_count = hx_count h, th_agent_failures = hx_agent_failures h,
                           th_last_class = hx_last_class h, th_active_mr = hx_active_mr h,
                           th_human_required = is_some gate \<or> is_some repeated, th_active_claim = claimed,
                           th_reason_code =
                             (case gate of
                                Some g \<Rightarrow> hg_reason_code g
                              | None \<Rightarrow> map_option (\<lambda>_. reason_str RepeatedSetupFailure) repeated) \<rparr>,
                         if gate = None then repeated else None)))"

definition ledger_lookup_for_scan ::
  "scan_env \<Rightarrow> rust_str \<Rightarrow> provider_mr list \<Rightarrow> ledger_index \<Rightarrow> ended_runs \<Rightarrow> rust_str option \<Rightarrow> ticket_history option" where
  "ledger_lookup_for_scan env repo_id mrs index runs work_id =
     map_option fst (ledger_lookup env repo_id mrs index runs work_id)"

definition setup_failure_reason_for_ticket ::
  "scan_env \<Rightarrow> rust_str \<Rightarrow> ledger_index \<Rightarrow> rust_str \<Rightarrow> rust_str option" where
  "setup_failure_reason_for_ticket env repo_id index work_id =
     Option.bind (ledger_lookup env repo_id [] index {} (Some work_id)) snd"

subsection \<open>The tickets a controller may start\<close>

datatype candidate_source = LegacyTicket | GithubIssue | GitlabIssue

fun candidate_source_rank :: "candidate_source \<Rightarrow> nat" where
  "candidate_source_rank GithubIssue = 0"
| "candidate_source_rank GitlabIssue = 0"
| "candidate_source_rank LegacyTicket = 1"

record candidate_execution_policy =
  xp_intake_mode :: rust_str
  xp_explicit_autonomy_required :: bool
  xp_autonomous_metadata_present :: bool
  xp_dispatchable_now :: bool
  xp_exclusion_reason_code :: "rust_str option"
  xp_exclusion_reason :: "rust_str option"

definition execution_policy ::
  "intake_profile \<Rightarrow> bool \<Rightarrow> bool \<Rightarrow> rust_str option \<Rightarrow> rust_str option \<Rightarrow> candidate_execution_policy" where
  "execution_policy prof autonomous dispatchable code why =
     \<lparr> xp_intake_mode = issue_intake_mode_str (pub_issue_intake_mode (ip_publishing prof)),
       xp_explicit_autonomy_required = (pub_issue_intake_mode (ip_publishing prof) = CanonicalAutonomousOnly),
       xp_autonomous_metadata_present = autonomous, xp_dispatchable_now = dispatchable,
       xp_exclusion_reason_code = code, xp_exclusion_reason = why \<rparr>"

text \<open>The ticket as the scan builds it: what the decision reads, and the rest of the row.\<close>

record scanned_ticket = available_ticket +
  st_source :: candidate_source
  st_policy :: candidate_execution_policy
  st_title :: "rust_str option"
  st_reason_code :: "rust_str option"

definition normalized_identity :: "rust_str option \<Rightarrow> rust_str \<Rightarrow> rust_str" where
  "normalized_identity work_id path = normalize_work_identity (unwrap_or work_id path)"

definition scanned ::
  "rust_str \<Rightarrow> rust_str option \<Rightarrow> candidate_source \<Rightarrow> candidate_execution_policy \<Rightarrow> ticket_metadata
     \<Rightarrow> ticket_priority \<Rightarrow> bool \<Rightarrow> ticket_history \<Rightarrow> scanned_ticket" where
  "scanned path work_id source pol meta prio claimed_elsewhere h =
     \<lparr> ticket_path = path, at_work_id = work_id, normalized_work_identity = normalized_identity work_id path,
       dispatchable_now = xp_dispatchable_now pol,
       recommended_backend = tm_recommended_backend meta, recommended_model = tm_recommended_model meta,
       priority = prio, prior_attempt_count = th_count h, genuine_agent_failure_count = th_agent_failures h,
       last_failure_class = th_last_class h, has_active_mr = th_active_mr h,
       at_human_required = th_human_required h, has_active_claim = th_active_claim h \<or> claimed_elsewhere,
       st_source = source, st_policy = pol, st_title = tm_title meta, st_reason_code = th_reason_code h \<rparr>"

definition closed_ticket_numbers :: "ticket_file list \<Rightarrow> rust_str set" where
  "closed_ticket_numbers files =
     set (List.map_filter (\<lambda>f. if tf_extension f \<noteq> Some ''md'' then None
                              else Option.bind (tf_stem f) ticket_number_prefix) files)"

text \<open>What a scan reads beside the ledger: the files of \<^verbatim>\<open>docs/tickets\<close> and of its \<^verbatim>\<open>closed\<close>
  directory in the order the file system lists them, and the forge.\<close>

record scan_inputs =
  si_tickets :: "ticket_file list"
  si_closed :: "ticket_file list"
  si_intake :: intake_env
  si_fetch :: issue_fetch
  si_native :: "rust_str \<Rightarrow> (relationship_error, dependency_source list) rust_result"

definition legacy_candidate_of ::
  "intake_profile \<Rightarrow> (rust_str option \<Rightarrow> ticket_history option) \<Rightarrow> ticket_file \<Rightarrow> scanned_ticket option" where
  "legacy_candidate_of prof lookup f =
     (if tf_extension f \<noteq> Some ''md'' then None
      else case parse_ticket_metadata f of
             None \<Rightarrow> None
           | Some meta \<Rightarrow>
               if \<not> tm_is_authoritative meta then None
               else
                 let work_id = opt_or (tm_work_id meta) (tm_ticket_id meta)
                 in map_option
                      (\<lambda>h. let autonomous = is_some_and (tm_execution_disposition meta) (eq_ignore_case ''autonomous'');
                               dispatchable = (pub_issue_intake_mode (ip_publishing prof) \<noteq> CanonicalAutonomousOnly
                                                 \<or> autonomous);
                               pol = execution_policy prof autonomous dispatchable
                                       (if dispatchable then None else Some ''autonomous_metadata_required'')
                                       (if dispatchable then None
                                        else Some (''legacy ticket missing execution disposition '' @ CHR 0x27 # ''autonomous'' @ [CHR 0x27]))
                           in scanned (tf_path f) work_id LegacyTicket pol meta
                                (parse_metadata (unwrap_or (tm_priority meta) [])) False h)
                      (lookup work_id))"

definition issue_priority :: "issue_details \<Rightarrow> ticket_metadata \<Rightarrow> ticket_priority" where
  "issue_priority issue meta =
     (let p = parse_provider_labels (is_labels issue)
      in if is_explicit p then p else parse_metadata (unwrap_or (tm_priority meta) []))"

text \<open>An issue that a closed ticket file already names, by its number or by the ticket of its title.\<close>

definition already_closed :: "rust_str set \<Rightarrow> issue_details \<Rightarrow> rust_str option \<Rightarrow> bool" where
  "already_closed closed_ids issue work_id =
     (is_some_and (Option.bind work_id ticket_number_prefix) (\<lambda>n. n \<in> closed_ids)
      \<or> is_some_and (Option.bind (find_str ''TICKET-'' (is_title issue))
                       (\<lambda>i. ticket_number_prefix (drop i (is_title issue)))) (\<lambda>n. n \<in> closed_ids))"

definition issue_source :: "intake_profile \<Rightarrow> candidate_source" where
  "issue_source prof = (if to_ascii_lowercase (ip_provider prof) = ''gitlab'' then GitlabIssue else GithubIssue)"

definition issue_candidate_of ::
  "intake_profile \<Rightarrow> (rust_str option \<Rightarrow> ticket_history option) \<Rightarrow> rust_str set \<Rightarrow> rust_str set \<Rightarrow> rust_str set
     \<Rightarrow> issue_details \<Rightarrow> scanned_ticket option" where
  "issue_candidate_of prof lookup closed_ids blocked_ids claimed_elsewhere issue =
     (if is_number issue \<in> blocked_ids then None
      else
        let meta = parse_ticket_metadata_from_issue issue;
            work_id = tm_work_id meta
        in if \<not> tm_is_authoritative meta then None
           else if already_closed closed_ids issue work_id then None
           else map_option
                  (\<lambda>h. scanned (is_number issue) work_id (issue_source prof)
                         (execution_policy prof
                            (issue_is_canonical_autonomous (is_labels issue)
                               (canonical_autonomous_label (ip_publishing prof))) True None None)
                         meta (issue_priority issue meta) (is_number issue \<in> claimed_elsewhere) h)
                  (lookup work_id))"

type_synonym scan_key = "rust_str \<times> nat \<times> bool \<times> rust_str"

definition scan_key :: "scanned_ticket \<Rightarrow> scan_key" where
  "scan_key t = (normalized_work_identity t, candidate_source_rank (st_source t), \<not> dispatchable_now t, ticket_path t)"

text \<open>\<open>dedup_by\<close>: of a run of candidates with one identity the first stays.\<close>

fun dedup_identity :: "scanned_ticket list \<Rightarrow> scanned_ticket list" where
  "dedup_identity (a # b # ts) =
     (if normalized_work_identity a = normalized_work_identity b then dedup_identity (a # ts)
      else a # dedup_identity (b # ts))"
| "dedup_identity ts = ts"

record ticket_scan =
  ts_available :: "scanned_ticket list"
  ts_blockers :: "dependency_blocker list"
  ts_rejections :: "intake_rejection_row list"
  ts_provider_error :: "rust_str option"

definition discovered ::
  "(rust_str, issue_discovery) rust_result \<Rightarrow> issue_details list \<times> intake_rejection_row list \<times> rust_str set \<times> rust_str option"
where
  "discovered r =
     (case r of
        Inr d \<Rightarrow> (filter (\<lambda>i. \<not> issue_is_auto_dispatch_blocked (is_labels i)) (id_allowed d), id_rejected d,
                  id_claimed_elsewhere d, None)
      | Inl e \<Rightarrow> ([], [], {}, Some e))"

text \<open>\<open>None\<close> when the forge's pages or its graph of prerequisites never end.\<close>

definition scan_available_tickets_with_dependencies ::
  "scan_env \<Rightarrow> intake_profile \<Rightarrow> scan_inputs \<Rightarrow> provider_mr list \<Rightarrow> ledger_index \<Rightarrow> ledger_entry list
     \<Rightarrow> ticket_scan option" where
  "scan_available_tickets_with_dependencies env prof inp mrs index ledger =
     (let runs = ended_runs_from_entries env ledger;
          closed_ids = closed_ticket_numbers (si_closed inp);
          lookup = ledger_lookup_for_scan env (ip_repo_id prof) mrs index runs;
          legacy = List.map_filter (legacy_candidate_of prof lookup) (si_tickets inp)
      in Option.bind (try_discover_open_issues (si_intake inp) prof)
           (\<lambda>r. case discovered r of
                  (issues, rejections, elsewhere, err) \<Rightarrow>
                    Option.bind (evaluate_issue_dependencies (si_fetch inp) (si_native inp) (ip_provider prof) issues)
                      (\<lambda>(st, blockers).
                         let blocked_ids = set (map db_ticket_path blockers);
                             native = List.map_filter
                                        (issue_candidate_of prof lookup closed_ids blocked_ids elsewhere) issues
                         in Some \<lparr> ts_available = dedup_identity (sort_key scan_key (legacy @ native)),
                                   ts_blockers = blockers, ts_rejections = rejections,
                                   ts_provider_error = err \<rparr>)))"

subsection \<open>The claim a dispatch takes\<close>

text \<open>The arguments of a dispatch that name its work.\<close>

record dispatch_target =
  da_mode :: rust_str
  da_target :: rust_str
  da_work_id :: "rust_str option"
  da_existing_branch :: "rust_str option"
  da_reason :: "rust_str option"

text \<open>The file system a target is looked up in: the path of the default candidates file, the file
  behind a path when it exists, and the ids of the candidates a JSON file parses to.\<close>

record target_env =
  tv_default :: rust_str
  tv_file :: "rust_str \<Rightarrow> ticket_file option"
  tv_candidates :: "rust_str \<Rightarrow> rust_str list option"

definition target_path :: "target_env \<Rightarrow> dispatch_target \<Rightarrow> rust_str" where
  "target_path tv a =
     (if da_target a = [] \<and> job_kind_parse (da_mode a) \<in> {Inr Improve, Inr Fix} \<and> is_some (tv_file tv (tv_default tv))
      then tv_default tv else da_target a)"

definition target_work_id :: "target_env \<Rightarrow> dispatch_target \<Rightarrow> rust_str option" where
  "target_work_id tv a =
     (if target_path tv a = [] then None
      else case tv_file tv (target_path tv a) of
             None \<Rightarrow> None
           | Some f \<Rightarrow>
               if tf_extension f = Some ''json'' then Option.bind (tv_candidates tv (target_path tv a)) first
               else if tf_extension f = Some ''md''
               then Option.bind (parse_ticket_metadata f) (\<lambda>m. opt_or (tm_work_id m) (tm_ticket_id m))
               else None)"

definition given :: "rust_str option \<Rightarrow> rust_str option" where
  "given = opt_filter (\<lambda>v. trim v \<noteq> [])"

definition central_claim_work_id :: "target_env \<Rightarrow> dispatch_target \<Rightarrow> rust_str option" where
  "central_claim_work_id tv a =
     opt_or (given (da_work_id a))
       (opt_or (target_work_id tv a)
          (opt_or (if is_issue_number_reference (da_target a) then Some (normalize_work_identity (da_target a)) else None)
             (given (da_existing_branch a))))"

definition manual_worker_work_id :: "target_env \<Rightarrow> dispatch_target \<Rightarrow> rust_str option" where
  "manual_worker_work_id tv a =
     opt_or (target_work_id tv a)
       (if is_issue_number_reference (da_target a) then Some (trim (da_target a)) else None)"

datatype claim_refusal =
  DuplicateWork rust_str "rust_str option" "rust_str option"
| ActiveClaim rust_str
| Unclaimable rust_str
| ProviderFailed rust_str
| LeaseRefused rust_str

text \<open>The open merge request that refuses the entry's work, if it carries one: any that is not merged,
  closed or stale, and not the one under repair.\<close>

definition blocking_mr ::
  "scan_env \<Rightarrow> provider_mr list \<Rightarrow> rust_str option \<Rightarrow> ledger_entry \<Rightarrow> provider_mr option" where
  "blocking_mr env mrs repairing e =
     (if old_entry env e then None
      else opt_filter (\<lambda>mr. repairing \<noteq> Some (sm_branch mr)
                           \<and> classify (se_cutoff env) mr \<notin> {''MERGED'', ''CLOSED_UNMERGED'', ''STALE''})
             (mr_of_entry mrs e))"

text \<open>The matching entries of the ledger, the active merge requests and the whole ledger, each as it can
  be read.  An unreadable ledger lets the work through.\<close>

definition check_claimed_or_open ::
  "scan_env \<Rightarrow> rust_str \<Rightarrow> rust_str \<Rightarrow> ledger_entry list option \<Rightarrow> (rust_str, provider_mr list) rust_result
     \<Rightarrow> ledger_entry list option \<Rightarrow> rust_str option \<Rightarrow> bool \<Rightarrow> (claim_refusal, rust_str) rust_result" where
  "check_claimed_or_open env repo_id work_id matching mrs_result ledger repairing central =
     (case matching of
        None \<Rightarrow> Inr work_id
      | Some [] \<Rightarrow> Inr work_id
      | Some entries \<Rightarrow>
          (case mrs_result of
             Inl e \<Rightarrow> Inl (ProviderFailed e)
           | Inr mrs \<Rightarrow>
               if \<not> central \<and> is_some_and (active_claim env (filter (\<lambda>e. le_repo_id e = repo_id) entries))
                                (\<lambda>c. \<not> claim_run_has_ended env ledger c)
               then Inl (ActiveClaim work_id)
               else case first (List.map_filter (blocking_mr env mrs repairing) entries) of
                      Some mr \<Rightarrow> Inl (DuplicateWork work_id (Some (sm_branch mr)) (sm_url mr))
                    | None \<Rightarrow> Inr work_id))"

text \<open>The reads of \<open>check_duplicate_work\<close> that do not depend on the arguments.\<close>

record claim_reads =
  cr_env :: scan_env
  cr_repo_id :: rust_str
  cr_ledger :: "ledger_entry list option"
  cr_mrs :: "(rust_str, provider_mr list) rust_result"
  cr_target :: target_env

definition check_duplicate_work ::
  "claim_reads \<Rightarrow> dispatch_target \<Rightarrow> bool \<Rightarrow> (claim_refusal, rust_str option) rust_result" where
  "check_duplicate_work r a central =
     (case (if central then central_claim_work_id (cr_target r) a else target_work_id (cr_target r) a) of
        None \<Rightarrow> Inr None
      | Some work_id \<Rightarrow>
          map_sum (\<lambda>x. x) Some
            (check_claimed_or_open (cr_env r) (cr_repo_id r) work_id
               (map_option (entries_for_work_id work_id) (cr_ledger r)) (cr_mrs r) (cr_ledger r)
               (da_existing_branch a) central))"

definition refuse_unclaimable_controller_dispatch :: "dispatch_target \<Rightarrow> (claim_refusal, unit) rust_result" where
  "refuse_unclaimable_controller_dispatch a =
     (if is_some (da_reason a) \<and> job_kind_parse (da_mode a) \<in> {Inr Improve, Inr Fix}
      then Inl (Unclaimable (da_target a)) else Inr ())"

text \<open>What a dispatch does to claim its work: nothing, a lease of the coordinator under the given id, or a
  claim entry in the ledger, and the claimed work id.\<close>

datatype 'g claim_taken = NothingClaimed | CentralLease 'g rust_str | LedgerClaim ledger_entry rust_str

text \<open>The entries of \<open>LedgerEntry::new_clear_attempts\<close> and \<open>new_claim\<close>; \<open>now\<close> is the rendered instant.\<close>

definition new_clear_attempts :: "rust_str \<Rightarrow> rust_str \<Rightarrow> rust_str \<Rightarrow> rust_str \<Rightarrow> ledger_entry" where
  "new_clear_attempts now profile_name repo_id work_id =
     (new_ledger_entry now profile_name repo_id [] ''clear_attempts'' None)\<lparr> le_work_id := Some work_id \<rparr>"

definition new_claim :: "rust_str \<Rightarrow> rust_str \<Rightarrow> rust_str \<Rightarrow> rust_str \<Rightarrow> ledger_entry" where
  "new_claim now profile_name repo_id work_id =
     (new_clear_attempts now profile_name repo_id work_id)\<lparr> le_mode := ''claim'' \<rparr>"

text \<open>A failed append of the claim only warns.\<close>

definition acquire_claim_with ::
  "claim_reads \<Rightarrow> rust_str option \<Rightarrow> (rust_str \<Rightarrow> rust_str \<Rightarrow> (rust_str, 'g) rust_result)
     \<Rightarrow> rust_str \<Rightarrow> rust_str \<Rightarrow> rust_str \<Rightarrow> dispatch_target \<Rightarrow> (claim_refusal, 'g claim_taken) rust_result" where
  "acquire_claim_with r central_url acquire_central now profile_name session_dir a =
     (case check_duplicate_work r a (is_some central_url) of
        Inl e \<Rightarrow> Inl e
      | Inr None \<Rightarrow>
          (if is_some central_url
           then map_sum (\<lambda>x. x) (\<lambda>_. NothingClaimed) (refuse_unclaimable_controller_dispatch a)
           else Inr NothingClaimed)
      | Inr (Some work_id) \<Rightarrow>
          (case central_url of
             Some url \<Rightarrow> (case acquire_central url (normalize_work_identity work_id) of
                            Inl e \<Rightarrow> Inl (LeaseRefused e) | Inr guard \<Rightarrow> Inr (CentralLease guard work_id))
           | None \<Rightarrow> Inr (LedgerClaim ((new_claim now profile_name (cr_repo_id r) work_id)
                                      \<lparr> le_session_dir := Some session_dir \<rparr>) work_id)))"

definition stamp_claimed_work_id :: "ledger_entry \<Rightarrow> rust_str option \<Rightarrow> ledger_entry" where
  "stamp_claimed_work_id e claimed = (if le_work_id e = None then e\<lparr> le_work_id := claimed \<rparr> else e)"

end
