(* ===== verification/Ticket_Scan_Props.thy ===== *)
theory Ticket_Scan_Props
  imports Ticket_Scan Decision_Props
begin

text \<open>
  What the scan of tickets guarantees: an open merge request or a running dispatch keeps a work item
  from being started again, every issue it offers is one of a trusted author that nothing holds back,
  there is one ticket per work item; and what the claim of a dispatch keeps out.
\<close>

subsection \<open>The history of a work item\<close>





subsection \<open>The candidates of a scan\<close>


lemma dedup_identity_covers: "normalized_work_identity ` set (dedup_identity ts) = normalized_work_identity ` set ts"
  by (induction ts rule: dedup_identity.induct) auto

lemma dedup_identity_distinct:
  "sorted (map normalized_work_identity ts) \<Longrightarrow> distinct (map normalized_work_identity (dedup_identity ts))"
proof (induction ts rule: dedup_identity.induct)
  case (1 a b ts)
  show ?case
  proof (cases "normalized_work_identity a = normalized_work_identity b")
    case False
    have "normalized_work_identity a \<notin> normalized_work_identity ` set (b # ts)"
      using 1(3) False by (auto simp: order.antisym)
    then have "normalized_work_identity a \<notin> normalized_work_identity ` set (dedup_identity (b # ts))"
      by (simp only: dedup_identity_covers not_False_eq_True)
    with 1 False show ?thesis by simp
  qed (use 1 in auto)
qed auto

lemma dedup_identity_prefers:
  "sorted (map scan_key ts) \<Longrightarrow> c \<in> set ts \<Longrightarrow>
     \<exists>t\<in>set (dedup_identity ts). normalized_work_identity t = normalized_work_identity c \<and> scan_key t \<le> scan_key c"
proof (induction ts arbitrary: c rule: dedup_identity.induct)
  case (1 a b ts)
  show ?case
  proof (cases "normalized_work_identity a = normalized_work_identity b")
    case True
    have keys: "sorted (map scan_key (a # ts))" using 1(3) by simp
    have a: "scan_key a \<le> scan_key b" using 1(3) by simp
    from 1(1) [OF True keys, of a] obtain t where
      t: "t \<in> set (dedup_identity (a # ts))" "normalized_work_identity t = normalized_work_identity a"
      "scan_key t \<le> scan_key a" by auto
    show ?thesis
    proof (cases "c = b")
      case True
      with t a show ?thesis using \<open>normalized_work_identity a = _\<close> by (auto intro: order.trans)
    next
      case False
      with 1(4) have "c \<in> set (a # ts)" by auto
      from 1(1) [OF True keys this] True show ?thesis by simp
    qed
  next
    case False
    show ?thesis using 1(2) [OF False, of c] 1(3,4) False by auto
  qed
qed auto

lemma sorted_scan_key_identity: "sorted (map scan_key ts) \<Longrightarrow> sorted (map normalized_work_identity ts)"
  by (induction ts) (auto simp: scan_key_def less_eq_prod_def le_less)

abbreviation scan_lookup ::
  "scan_env \<Rightarrow> intake_profile \<Rightarrow> provider_mr list \<Rightarrow> ledger_index \<Rightarrow> ledger_entry list \<Rightarrow> rust_str option \<Rightarrow> ticket_history option"
where
  "scan_lookup env prof mrs index ledger \<equiv>
     ledger_lookup_for_scan env (ip_repo_id prof) mrs index (ended_runs_from_entries env ledger)"

text \<open>What a scan that comes back is made of.\<close>

lemma scan_shape:
  assumes "scan_available_tickets_with_dependencies env prof inp mrs index ledger = Some sc"
  obtains r issues rej elsewhere err where
    "try_discover_open_issues (si_intake inp) prof = Some r" "discovered r = (issues, rej, elsewhere, err)"
    "ts_available sc = dedup_identity (sort_key scan_key
       (List.map_filter (legacy_candidate_of prof (scan_lookup env prof mrs index ledger)) (si_tickets inp)
        @ List.map_filter (issue_candidate_of prof (scan_lookup env prof mrs index ledger)
            (closed_ticket_numbers (si_closed inp)) (set (map db_ticket_path (ts_blockers sc))) elsewhere) issues))"
proof -
  obtain r where r: "try_discover_open_issues (si_intake inp) prof = Some r"
    using assms by (auto simp: scan_available_tickets_with_dependencies_def Let_def bind_eq_Some_conv)
  obtain issues rej elsewhere err where d: "discovered r = (issues, rej, elsewhere, err)"
    by (cases "discovered r") auto
  show thesis
    using assms by (intro that [OF r d])
      (auto simp: scan_available_tickets_with_dependencies_def Let_def r d bind_eq_Some_conv)
qed





text \<open>There is one ticket per work item, and none is lost: a ticket file that makes a candidate is in
  the scan, or a candidate of the same work item that comes before it is (an issue of the forge first, then
  one that may be dispatched).\<close>

theorem one_ticket_per_work_item:
  assumes "scan_available_tickets_with_dependencies env prof inp mrs index ledger = Some sc"
  shows "distinct (map normalized_work_identity (ts_available sc))
       \<and> (\<forall>f \<in> set (si_tickets inp). \<forall>c.
            legacy_candidate_of prof (scan_lookup env prof mrs index ledger) f = Some c \<longrightarrow>
            (\<exists>t \<in> set (ts_available sc). normalized_work_identity t = normalized_work_identity c \<and> scan_key t \<le> scan_key c))"
proof -
  obtain r issues rej elsewhere err where
    av: "ts_available sc = dedup_identity (sort_key scan_key
       (List.map_filter (legacy_candidate_of prof (scan_lookup env prof mrs index ledger)) (si_tickets inp)
        @ List.map_filter (issue_candidate_of prof (scan_lookup env prof mrs index ledger)
            (closed_ticket_numbers (si_closed inp)) (set (map db_ticket_path (ts_blockers sc))) elsewhere) issues))"
    (is "_ = dedup_identity ?sorted_cs")
    by (rule scan_shape [OF assms])
  have keys: "sorted (map scan_key ?sorted_cs)" by simp
  show ?thesis
  proof (intro conjI ballI allI impI)
    show "distinct (map normalized_work_identity (ts_available sc))"
      unfolding av by (rule dedup_identity_distinct [OF sorted_scan_key_identity [OF keys]])
    fix f c assume "f \<in> set (si_tickets inp)"
      "legacy_candidate_of prof (scan_lookup env prof mrs index ledger) f = Some c"
    then have "c \<in> set ?sorted_cs" by (force simp: List.map_filter_def)
    then show "\<exists>t \<in> set (ts_available sc). normalized_work_identity t = normalized_work_identity c \<and> scan_key t \<le> scan_key c"
      unfolding av by (rule dedup_identity_prefers [OF keys])
  qed
qed

subsection \<open>Which issues are let in\<close>








text \<open>Listing returns as soon as a page is short or cannot be read; a forge that serves full pages for ever
  keeps the loop going, since GitLab listings have no limit on pages.\<close>

definition last_page :: "nat \<Rightarrow> ('e, 'a list) rust_result \<Rightarrow> bool" where
  "last_page full listing = (case listing of Inl _ \<Rightarrow> True | Inr items \<Rightarrow> length items < full)"

lemma gitlab_pages_return:
  assumes "last_page PAGE_SIZE (fe_gitlab_page env st (page + k))"
  shows "gitlab_pages env st flt page synced \<noteq> None"
  using assms
proof (induction k arbitrary: page synced)
  case 0
  then show ?case by (subst gitlab_pages.simps) (auto simp: last_page_def split: sum.splits)
next
  case (Suc k)
  then have "gitlab_pages env st flt (page + 1) acc \<noteq> None" for acc by simp
  then show ?case by (subst gitlab_pages.simps) (auto split: sum.splits)
qed

lemma gitlab_issue_pages_return:
  assumes "last_page ISSUE_PAGE_SIZE (ie_page env (page + k))"
  shows "gitlab_issue_pages env prof page own allowed rejected \<noteq> None"
  using assms
proof (induction k arbitrary: page own allowed rejected)
  case 0
  then show ?case by (subst gitlab_issue_pages.simps) (auto simp: last_page_def Let_def split: sum.splits)
next
  case (Suc k)
  then have "gitlab_issue_pages env prof (page + 1) own' a r \<noteq> None" for own' a r by simp
  then show ?case by (subst gitlab_issue_pages.simps) (auto simp: Let_def split: sum.splits)
qed





subsection \<open>The claim of a dispatch\<close>

lemma active_claim_append: "active_claim env (xs @ ys) = fold (claim_step env) ys (active_claim env xs)"
  by (simp add: active_claim_def)

lemma control_records_keep_claim:
  "list_all (\<lambda>x. is_control_record (le_mode x) \<or> old_entry env x) xs \<Longrightarrow> fold (claim_step env) xs c = c"
  by (induction xs arbitrary: c) (auto simp: claim_step_def is_control_record_def)

lemma claims_end_without_claim:
  "list_all (\<lambda>x. le_mode x \<noteq> ''claim'') xs \<Longrightarrow>
     fold (claim_step env) xs c = (if list_ex (is_outcome env) xs then None else c)"
  by (induction xs arbitrary: c) (auto simp: claim_step_def is_outcome_def)

lemma run_ends_iff:
  "run_ends (ended_runs_from_entries env entries) c \<longleftrightarrow>
     (\<exists>x\<in>set entries. is_outcome env x \<and> le_repo_id x = le_repo_id c
        \<and> le_session_dir x = le_session_dir c \<and> le_session_dir c \<noteq> None)"
  by (cases "le_session_dir c")
    (force simp: run_ends_def ended_runs_from_entries_def is_some_and_def List.map_filter_def)+

lemma claim_run_has_ended_iff:
  "claim_run_has_ended env (Some entries) c \<longleftrightarrow> run_ends (ended_runs_from_entries env entries) c"
  by (auto simp: claim_run_has_ended_def run_ends_iff)

lemma fresh_claim_not_stale:
  assumes "entry_time (se_parse_ts env) e = Some w" "se_now env - w \<le> CLAIM_STALE_AFTER"
  shows "\<not> old_entry env e" "\<not> is_claim_entry_stale env e"
  using assms by (simp_all add: old_entry_def is_entry_stale_def is_claim_entry_stale_def CLAIM_STALE_AFTER_def
      LEDGER_ENTRY_STALE_AFTER_def)

text \<open>The claim entry of a dispatch.\<close>

lemma acquire_claim_ledger:
  assumes "acquire_claim_with r None acq now profile_name sd a = Inr (LedgerClaim e wid)"
  shows "le_mode e = ''claim'' \<and> le_repo_id e = cr_repo_id r \<and> le_work_id e = Some wid
       \<and> le_session_dir e = Some sd \<and> le_timestamp e = now"
  using assms by (auto simp: acquire_claim_with_def new_claim_def new_clear_attempts_def new_ledger_entry_def
      refuse_unclaimable_controller_dispatch_def split: sum.splits option.splits if_splits)

lemma refused_by_claim_iff:
  "check_claimed_or_open env repo wid (Some es) mrs ledger repairing central = Inl (ActiveClaim wid') \<longleftrightarrow>
     wid' = wid \<and> \<not> central \<and> (\<exists>ms. mrs = Inr ms)
     \<and> is_some_and (active_claim env (filter (\<lambda>e. le_repo_id e = repo) es)) (\<lambda>c. \<not> claim_run_has_ended env ledger c)"
  by (cases es; cases mrs) (auto simp: check_claimed_or_open_def is_some_and_def active_claim_def split: option.splits)

text \<open>Once a dispatch has claimed a work item in the ledger, no other dispatch of the same repository
  claims it, under this id or its alias, for six hours: not before an entry of the item other than a control
  record, or an outcome of the claiming run itself, is written.\<close>

theorem claim_keeps_others_out:
  assumes "acquire_claim_with r None acq now profile_name sd a = Inr (LedgerClaim e wid)"
    and "cr_ledger r' = Some (before @ e # after)" and "cr_repo_id r' = cr_repo_id r" and "cr_mrs r' = Inr mrs"
    and "target_work_id (cr_target r') a' = Some wid'" and "wid \<in> set (work_id_aliases wid')"
    and "entry_time (se_parse_ts (cr_env r')) e = Some w" and "se_now (cr_env r') - w \<le> CLAIM_STALE_AFTER"
    and "\<forall>x\<in>set after. concerns wid' x \<and> le_repo_id x = cr_repo_id r \<longrightarrow> is_control_record (le_mode x)"
    and "\<forall>x\<in>set (before @ after). is_outcome (cr_env r') x \<and> le_repo_id x = cr_repo_id r \<longrightarrow> le_session_dir x \<noteq> Some sd"
  shows "acquire_claim_with r' None acq' now' profile_name' sd' a' = Inl (ActiveClaim wid')"
proof -
  let ?env = "cr_env r'" and ?ours = "filter (\<lambda>x. le_repo_id x = cr_repo_id r)"
  have e: "le_mode e = ''claim''" "le_repo_id e = cr_repo_id r" "le_work_id e = Some wid" "le_session_dir e = Some sd"
    using acquire_claim_ledger [OF assms(1)] by auto
  have c: "concerns wid' e" using e(3) assms(6) by (simp add: concerns_def is_some_and_def)
  have entries: "entries_for_work_id wid' (before @ e # after)
      = entries_for_work_id wid' before @ e # entries_for_work_id wid' after"
    by (simp add: entries_for_work_id_def c)
  have "list_all (\<lambda>x. is_control_record (le_mode x) \<or> old_entry ?env x) (?ours (entries_for_work_id wid' after))"
    using assms(9) by (auto simp: list_all_iff entries_for_work_id_def)
  then have active: "active_claim ?env (?ours (entries_for_work_id wid' (before @ e # after))) = Some e"
    using fresh_claim_not_stale [OF assms(7,8)] e
    by (simp add: entries active_claim_append control_records_keep_claim claim_step_def)
  have "\<not> claim_run_has_ended ?env (Some (before @ e # after)) e"
    using assms(10) e by (auto simp: claim_run_has_ended_iff run_ends_iff is_outcome_def)
  then have "check_claimed_or_open ?env (cr_repo_id r) wid' (Some (entries_for_work_id wid' (before @ e # after)))
      (Inr mrs) (Some (before @ e # after)) (da_existing_branch a') False = Inl (ActiveClaim wid')"
    using active by (simp add: refused_by_claim_iff is_some_and_def)
  then show ?thesis
    using assms(2-5) by (simp add: acquire_claim_with_def check_duplicate_work_def is_some_def)
qed

text \<open>A claim is given back: once its run has written an outcome, under whatever work id, or an outcome of
  the work item follows it, the claim refuses nobody.\<close>

theorem finished_claim_releases:
  assumes "cr_ledger r = Some (before @ e # after)" and "le_mode e = ''claim''" and "le_repo_id e = cr_repo_id r"
    and "x \<in> set after" and "is_outcome (cr_env r) x" and "le_repo_id x = cr_repo_id r"
    and "concerns wid x \<or> le_session_dir e \<noteq> None \<and> le_session_dir x = le_session_dir e"
    and "\<forall>y\<in>set after. concerns wid y \<longrightarrow> le_mode y \<noteq> ''claim''" and "concerns wid e"
    and "\<not> old_entry (cr_env r) e"
  shows "check_claimed_or_open (cr_env r) (cr_repo_id r) wid (map_option (entries_for_work_id wid) (cr_ledger r))
           (cr_mrs r) (cr_ledger r) repairing central \<noteq> Inl (ActiveClaim wid)"
proof -
  let ?env = "cr_env r" and ?ours = "filter (\<lambda>x. le_repo_id x = cr_repo_id r)"
  let ?after = "?ours (entries_for_work_id wid after)"
  have entries: "entries_for_work_id wid (before @ e # after)
      = entries_for_work_id wid before @ e # entries_for_work_id wid after"
    by (simp add: entries_for_work_id_def assms(9))
  have "list_all (\<lambda>x. le_mode x \<noteq> ''claim'') ?after"
    using assms(8) by (auto simp: list_all_iff entries_for_work_id_def)
  then have active: "active_claim ?env (?ours (entries_for_work_id wid (before @ e # after)))
      = (if list_ex (is_outcome ?env) ?after then None
         else claim_step ?env e (active_claim ?env (?ours (entries_for_work_id wid before))))"
    by (simp add: entries assms(3) active_claim_append claims_end_without_claim)
  have "\<not> is_some_and (active_claim ?env (?ours (entries_for_work_id wid (before @ e # after))))
            (\<lambda>c. \<not> claim_run_has_ended ?env (cr_ledger r) c)"
  proof (cases "list_ex (is_outcome ?env) ?after")
    case False
    with assms(4-7) have "le_session_dir e \<noteq> None \<and> le_session_dir x = le_session_dir e"
      by (auto simp: list_ex_iff entries_for_work_id_def)
    then have "claim_run_has_ended ?env (cr_ledger r) e"
      using assms(1,3-6) by (force simp: claim_run_has_ended_iff run_ends_iff)
    with False show ?thesis
      unfolding active by (auto simp: is_some_and_def claim_step_def assms(2,10) split: if_splits)
  qed (simp add: active is_some_and_def)
  then show ?thesis
    unfolding assms(1) option.map by (simp only: refused_by_claim_iff simp_thms)
qed

subsection \<open>Concrete inputs\<close>

definition ex_env :: scan_env where
  "ex_env = \<lparr> se_parse_ts = (\<lambda>_. Some 0), se_now = 0, se_cutoff = ''2026'', se_sha256 = (\<lambda>s. s), se_alnum = (\<lambda>_. False) \<rparr>"

definition ex_prof :: intake_profile where
  "ex_prof = \<lparr> ip_provider = ''github'', ip_repo = ''octo/repo'', ip_repo_id = ''r'', ip_provider_project_id = None,
     ip_publishing = \<lparr> github_issue_author_allowlist = None, trusted_issue_human_authors = None,
       trusted_issue_bot_authors = None, pub_issue_intake_mode = LegacyIntake, canonical_autonomous_label = ''auto'',
       pub_issue_claim = \<lparr> icp_mode = LocalClaims, icp_ttl_minutes = 60, icp_priority_logins = [] \<rparr>,
       configured_decomposition_labels = [] \<rparr> \<rparr>"

definition ex_item :: json where
  "ex_item = JObj [(''number'', JInt 9), (''title'', JStr ''Speed''), (''body'', JStr []),
     (''user'', JObj [(''login'', JStr ''octo''), (''type'', JStr ''User'')])]"

definition ex_ticket_file :: ticket_file where
  "ex_ticket_file = \<lparr> tf_path = ''TICKET-12-x.md'', tf_extension = Some ''md'', tf_stem = Some ''TICKET-12-x'',
     tf_body = Some ''# TICKET-12: Fast'', tf_manager_memory = None \<rparr>"

definition ex_inputs :: scan_inputs where
  "ex_inputs = \<lparr> si_tickets = [ex_ticket_file], si_closed = [],
     si_intake = \<lparr> ie_page = (\<lambda>_. Inr [ex_item]), ie_own_login = None,
       ie_holders = \<lparr> he_provider = ''github'', he_own_login = Inl [], he_claims = (\<lambda>_. Inr []), he_now = 0 \<rparr>,
       ie_project = Inr [] \<rparr>,
     si_fetch = (\<lambda>_ _. Inl []), si_native = (\<lambda>_. Inr []) \<rparr>"

definition ex_mr :: provider_mr where
  "ex_mr = \<lparr> sm_title = [], sm_body = None, sm_branch = ''b'', sm_labels = [], sm_url = None, sm_id = None,
     sm_state = Some ''OPEN'', sm_draft = False, sm_source_sha = None, sm_merged = False, sm_updated_at = None,
     sm_ci_failed = False, sm_ci_passed = True, sm_ci_pending = False, sm_work_id = Some ''TICKET-12'' \<rparr>"

text \<open>The ticket file and the issue make one ticket each; the file's work item has an open merge request.\<close>

definition ex_scanned :: "rust_str \<Rightarrow> rust_str \<Rightarrow> bool \<Rightarrow> candidate_source \<Rightarrow> rust_str \<Rightarrow> scanned_ticket" where
  "ex_scanned path wid active_mr source title =
     available_ticket.extend
       ((example_ticket path)\<lparr> at_work_id := Some wid, normalized_work_identity := normalize_work_identity wid,
          priority := Unspecified, has_active_mr := active_mr \<rparr>)
       (scanned_ticket.fields source
          (execution_policy ex_prof False True None None) (Some title) None)"

definition ex_scan :: ticket_scan where
  "ex_scan = \<lparr> ts_available = [ex_scanned ''TICKET-12-x.md'' ''TICKET-12'' True LegacyTicket ''Fast'',
                               ex_scanned ''9'' ''#9'' False GithubIssue ''Speed''],
               ts_blockers = [], ts_rejections = [], ts_provider_error = None \<rparr>"

lemma ex_scan_result: "scan_available_tickets_with_dependencies ex_env ex_prof ex_inputs [ex_mr] [] [] = Some ex_scan"
  by code_simp

lemma ex_identities: "normalize_work_identity ''TICKET-12'' = ''#12''" "normalize_work_identity ''#9'' = ''#9''"
  by code_simp+

lemmas ex_scan_defs = ex_scan_def ex_scanned_def available_ticket.defs scanned_ticket.defs example_ticket_def ex_identities



text \<open>Two dispatches of the same ticket file: the first one's claim, and an outcome of its run.\<close>

definition ex_target :: target_env where
  "ex_target = \<lparr> tv_default = [], tv_file = (\<lambda>p. if p = ''t.md'' then Some ex_ticket_file else None),
     tv_candidates = (\<lambda>_. None) \<rparr>"

definition ex_args :: dispatch_target where
  "ex_args = \<lparr> da_mode = ''improve'', da_target = ''t.md'', da_work_id = None, da_existing_branch = None,
     da_reason = None \<rparr>"

definition ex_reads :: "ledger_entry list \<Rightarrow> claim_reads" where
  "ex_reads ledger = \<lparr> cr_env = ex_env, cr_repo_id = ''r'', cr_ledger = Some ledger, cr_mrs = Inr [],
     cr_target = ex_target \<rparr>"

definition ex_claim :: ledger_entry where
  "ex_claim = (new_claim ''0'' ''p'' ''r'' ''TICKET-12'')\<lparr> le_session_dir := Some ''run-1'' \<rparr>"

definition ex_outcome :: ledger_entry where
  "ex_outcome = (new_ledger_entry ''0'' ''p'' ''r'' ''codex'' ''improve'' None)\<lparr> le_session_dir := Some ''run-1'' \<rparr>"

abbreviation ex_acquire :: "ledger_entry list \<Rightarrow> rust_str \<Rightarrow> (claim_refusal, unit claim_taken) rust_result" where
  "ex_acquire ledger sd \<equiv> acquire_claim_with (ex_reads ledger) None (\<lambda>_ _. Inl []) ''0'' ''p'' sd ex_args"

lemma ex_target_work_id: "target_work_id (cr_target (ex_reads ledger)) ex_args = Some ''TICKET-12''"
proof -
  have "target_work_id ex_target ex_args = Some ''TICKET-12''" by code_simp
  then show ?thesis by (simp add: ex_reads_def)
qed

lemma ex_first_claim: "ex_acquire [] ''run-1'' = Inr (LedgerClaim ex_claim ''TICKET-12'')"
  by (simp add: acquire_claim_with_def check_duplicate_work_def is_some_def ex_target_work_id)
    (simp add: check_claimed_or_open_def entries_for_work_id_def ex_reads_def ex_claim_def)


theorem one_ticket_per_work_item_witness: "distinct (map normalized_work_identity (ts_available ex_scan))"
  using one_ticket_per_work_item [OF ex_scan_result] by (rule conjunct1)


lemma ex_claim_fresh:
  "entry_time (se_parse_ts ex_env) ex_claim = Some 0" "se_now ex_env - 0 \<le> CLAIM_STALE_AFTER"
  "le_mode ex_claim = ''claim''" "le_repo_id ex_claim = ''r''" "le_session_dir ex_claim = Some ''run-1''"
  "concerns ''TICKET-12'' ex_claim"
  by (simp_all add: ex_env_def ex_claim_def new_claim_def new_clear_attempts_def new_ledger_entry_def entry_time_def
      CLAIM_STALE_AFTER_def concerns_def is_some_and_def work_id_aliases_def split: option.splits)

theorem claim_keeps_others_out_witness:
  "ex_acquire [ex_claim] ''run-2'' = Inl (ActiveClaim ''TICKET-12'')"
proof (rule claim_keeps_others_out [OF ex_first_claim, where before = "[]" and after = "[]" and mrs = "[]" and w = 0])
  show "''TICKET-12'' \<in> set (work_id_aliases ''TICKET-12'')" by code_simp
qed (use ex_claim_fresh(1,2) ex_target_work_id in \<open>simp_all add: ex_reads_def\<close>)

lemma ex_outcome_facts:
  "is_outcome ex_env ex_outcome" "le_repo_id ex_outcome = ''r''" "le_session_dir ex_outcome = Some ''run-1''"
  "le_mode ex_outcome = ''improve''"
  by (simp_all add: is_outcome_def ex_env_def ex_outcome_def new_ledger_entry_def is_control_record_def old_entry_def
      is_entry_stale_def entry_time_def LEDGER_ENTRY_STALE_AFTER_def)

theorem finished_claim_releases_witness:
  "check_claimed_or_open ex_env ''r'' ''TICKET-12''
       (Some (entries_for_work_id ''TICKET-12'' [ex_claim, ex_outcome])) (Inr []) (Some [ex_claim, ex_outcome]) None False
     \<noteq> Inl (ActiveClaim ''TICKET-12'')"
  using finished_claim_releases [where r = "ex_reads [ex_claim, ex_outcome]" and before = "[]" and e = ex_claim
      and after = "[ex_outcome]" and x = ex_outcome and wid = "''TICKET-12''" and repairing = None and central = False]
    ex_claim_fresh ex_outcome_facts fresh_claim_not_stale(1) [OF ex_claim_fresh(1,2)]
  by (simp add: ex_reads_def)

subsection \<open>What the model showed\<close>

text \<open>A completed external approval is not among the control records: it counts as an attempt at its work item
  and ends the item's claim, which no other record of an approval does.\<close>

theorem completed_approval_counts_as_attempt:
  assumes "le_mode e = ''external_approval_complete''" and "le_repo_id e = repo" and "\<not> old_entry env e"
    and "le_validation_result e = None"
  shows "hx_count (history_step env repo mrs e h) = hx_count h + 1 \<and> claim_step env e c = None
       \<and> hx_count (history_step env repo mrs (e\<lparr> le_mode := ''external_approval_consume'' \<rparr>) h) = hx_count h
       \<and> claim_step env (e\<lparr> le_mode := ''external_approval_consume'' \<rparr>) c = c"
proof -
  have old: "\<not> old_entry env (e\<lparr> le_mode := m \<rparr>)" for m
  proof -
    have "entry_time p (e\<lparr> le_mode := m \<rparr>) = entry_time p e" for p by (simp add: entry_time_def split: option.split)
    with assms(3) show ?thesis by (simp add: old_entry_def is_entry_stale_def)
  qed
  have "hx_count (note_mr env mr h') = hx_count h'" for mr h' by (simp add: note_mr_def Let_def)
  then show ?thesis
    using assms old
    by (simp add: history_step_def claim_step_def is_control_record_def launched_no_backend_def is_some_and_def Let_def
        split: option.splits)
qed

text \<open>The guard of a dispatch and the scan do not agree: an open merge request that names the work item in its
  title, but no branch or URL of the ledger, hides the ticket and does not refuse the dispatch.\<close>

theorem guard_and_scan_disagree:
  "has_active_mr (hd (ts_available ex_scan)) \<and> at_work_id (hd (ts_available ex_scan)) = Some ''TICKET-12''
   \<and> check_claimed_or_open ex_env ''r'' ''TICKET-12''
       (Some (entries_for_work_id ''TICKET-12'' [new_clear_attempts ''0'' ''p'' ''r'' ''TICKET-12'']))
       (Inr [ex_mr]) (Some []) None False = Inr ''TICKET-12''"
proof (intro conjI)
  show "has_active_mr (hd (ts_available ex_scan))" "at_work_id (hd (ts_available ex_scan)) = Some ''TICKET-12''"
    by (simp_all add: ex_scan_defs)
  show "check_claimed_or_open ex_env ''r'' ''TICKET-12''
       (Some (entries_for_work_id ''TICKET-12'' [new_clear_attempts ''0'' ''p'' ''r'' ''TICKET-12'']))
       (Inr [ex_mr]) (Some []) None False = Inr ''TICKET-12''"
    by (simp add: check_claimed_or_open_def entries_for_work_id_def new_clear_attempts_def new_ledger_entry_def
        concerns_def is_some_and_def active_claim_def claim_step_def is_control_record_def blocking_mr_def mr_of_entry_def
        opt_filter_def ex_mr_def List.map_filter_def split: option.splits)
qed

end
