(* ===== verification/Spec2Isabelle.thy ===== *)
theory Spec2Isabelle
  imports Decision_Props Route_Examples Quota_Store_Props Work_Claim_Props Reservation_Props Worker_Scaling_Props Ledger_Props External_Approval_Props Issue_Budget_Props Review_Verdict_Props Review_Head_Props Review_Policy_Props Node_Registry_Props Loop_Pass_Props Dependencies_Props Issue_Claim_Props Ticket_Scan_Props
begin

text \<open>
  \<^bold>\<open>A verification library for git-agent-harness (gah).\<close>

  gah drives coding agents over a forge: a controller observes merge requests, tickets and budgets,
  decides one action per tick and carries it out by dispatching an agent on a work item; routing
  decides which back end, account and model the agent runs on, within the operator's policy and the
  recorded availability of each account; reviews, budgets, approvals and claims decide what may happen
  to a work item at all.  The Rust core under \<open>src/src\<close> is modelled here by a shallow embedding: every
  function is a HOL function with the branches and the order of the code, records are records,
  enumerations are datatypes, and every error return, \<open>bail!\<close> and \<open>expect\<close> is a value of a sum or
  option type.

  \<^bold>\<open>Parts and theories.\<close>  A theory \<open>X_Props\<close> holds the properties of \<open>X\<close>.
  \<^item> \<open>Gah_Prelude\<close>: Rust strings, options, results, saturating and wrapping integers, sorting, and the
    generic lemmas.  \<open>Text_Scan\<close>: searching texts (\<open>text_scan.rs\<close>).  \<open>Float_Text\<close>: decimal text of
    binary64 numbers.  \<open>Ordered_Map\<close>: ordered maps as association lists.
  \<^item> \<open>Wire\<close>: the vocabularies with their parsers and printers (\<open>backend_kind.rs\<close>, \<open>job_kind.rs\<close>,
    \<open>provider_kind.rs\<close>, \<open>config/merge_policy.rs\<close>, \<open>controller/human_required_reason.rs\<close>).
  \<^item> Controller: \<open>Action\<close> (\<open>controller/action.rs\<close>, \<open>controller/remediation.rs\<close>), \<open>Snapshot\<close> (what is
    observed: \<open>models.rs\<close>, \<open>sync.rs\<close>, \<open>status.rs\<close>), \<open>Decision\<close> (\<open>controller/decision.rs\<close>, one
    definition per block of \<open>decide_next_action\<close>), \<open>Recovery\<close> (the event stream \<open>events.rs\<close> and what
    \<open>controller/recovery.rs\<close> reads from it), \<open>Loop_Pass\<close> (one pass: \<open>run_pass\<close> and
    \<open>run_selected_action\<close> of \<open>controller/runtime.rs\<close>, \<open>runtime/intake.rs\<close>,
    \<open>runtime/dispatch_state.rs\<close>, the budgets of a parallel batch), \<open>Node_Capacity\<close> with
    \<open>Node_Registry_Props\<close> (admission to the node and its registry of leases: \<open>config/node_capacity.rs\<close>,
    \<open>controller/runtime/node_capacity.rs\<close>), \<open>Worker_Scaling\<close> (\<open>routing/worker_scaling.rs\<close>,
    \<open>config/worker_scaling.rs\<close>).
  \<^item> Intake: \<open>Dependencies\<close> (\<open>dispatch/dependencies.rs\<close>: the \<open>Blocked by:\<close> line of a body, the native
    relationships of the forge, the walk over the graph they span, and the issues that are held),
    \<open>Json_Value\<close> (the values of a decoded answer), \<open>Merge_Request\<close> (\<open>sync.rs\<close>, \<open>sync/review_state.rs\<close>,
    \<open>sync/repository.rs\<close>, \<open>github_ci.rs\<close>: merge requests of the forge, their class, CI state, review
    generation, row and attempts), \<open>Issue_Intake\<close> (\<open>dispatch/issues.rs\<close>: which issues are let in, and the
    metadata of tickets), \<open>Ticket_Scan\<close> (\<open>dispatch/claims.rs\<close>: the history of a ticket, the scan of
    tickets and issues, the guard against duplicate work and the claims of the ledger).
  \<^item> Shared state: \<open>Work_Claim\<close> (\<open>work_claim.rs\<close>), \<open>Issue_Claim\<close> (\<open>dispatch/issue_claim.rs\<close>: claims of
    issues on the forge, by assignee and comment, and the lease of a dispatch), \<open>Ledger\<close> (gates, holds and approvals over the entries
    of \<open>ledger/entry.rs\<close>), \<open>External_Approval\<close> (\<open>ledger/approvals.rs\<close>), \<open>Issue_Budget\<close>
    (\<open>dispatch/prior_attempts.rs\<close> and the policy), \<open>Availability\<close> (\<open>availability.rs\<close>,
    \<open>availability/quota_failures.rs\<close>), \<open>Quota_Store\<close> (\<open>quota_store.rs\<close> and its parts).
  \<^item> Routing: \<open>Identity\<close> (\<open>execution_identity.rs\<close>), \<open>Quota\<close> (\<open>quota.rs\<close>,
    \<open>routing/subscription.rs\<close>, comparators), \<open>Route_Config\<close> (\<open>config/routing_policy.rs\<close>,
    \<open>config/backend_instances.rs\<close>, \<open>runner/resolve.rs\<close>), \<open>Route_Order\<close> (\<open>routing/policy.rs\<close>),
    \<open>Route_Decide\<close> (\<open>routing/decision.rs\<close>, \<open>routing/types.rs\<close>), \<open>Reservation\<close>
    (\<open>routing/reservation.rs\<close> and the waiting of \<open>dispatch/attempts.rs\<close>).  \<open>Route_Examples\<close>: concrete
    policies.
  \<^item> Reviews: \<open>Review_Verdict\<close> (the evidence gate of \<open>models.rs\<close>, \<open>dispatch/review/ci_wait.rs\<close> and
    \<open>policy.rs\<close>), \<open>Review_Head\<close> (receipts: \<open>review_head.rs\<close>, \<open>dispatch/review/head.rs\<close>),
    \<open>Review_Policy\<close> (budget of reviews and second opinions: \<open>dispatch/review/policy.rs\<close>).

  \<^bold>\<open>State and operations.\<close>  The controller and routing are functions of their observations: a status
  snapshot and a profile on one side, a route request, a policy, the runtime state and an environment
  on the other.  A file (availability, quota, claims, ledger, events, leases) is its parsed content;
  every operation maps the file, read and written under the lock the code takes, to a new file or an
  error, and interleavings of processes are step relations whose steps are these operations.  Instants
  are integers of nanoseconds since the epoch.  A pass threads the claim file, the event stream and the
  ledger through its operations in the order of the code.

  \<^bold>\<open>What is shown.\<close>
  \<^item> Controller: automatic merges, repairs, reviews and new work happen only under their guards;
    budgets hold; the decision does not depend on the order in which merge requests of different
    branches are observed; blocked items do not stop unrelated work; a hand-off names its cause; a
    decision to do nothing leaves nothing undone that could be done.
  \<^item> Pass: it returns while no plan parent waits for reconciliation; a stuck item is replaced by a
    hand-off or other work and is gated; the scans of the event
    stream (stuck loops, capacity deferrals) implement declarative readings of it; abandoned runs are
    closed once, blocked items reported once; attached branches are avoided; parallel intake respects
    its limit.
  \<^item> Node: the memory held by leases and the floor fit into the node in every interleaving; stale leases
    strand nothing; a lease is read back as written; the check of the settings is exact.
  \<^item> Prerequisites: an issue is let through exactly when all that is declared for it is read and closed
    (malformed lines aside); the evaluation ends on cycles and asks the forge once about an issue; the line is read back.
  \<^item> Claims, reservations, approvals, budgets: one claim per item under every interleaving; counters of
    running jobs, immediate and waiting ones, are the live guards and within the cap; the human gate of an
    item is characterised over the whole ledger; credentials need a live grant, a grant stays within the
    request of its own scope; started tickets have attempts left.
  \<^item> Claims on the forge: two loops never work on an issue under live leases, no person and no live claim
    is removed, a lapsed lease stays lost.
  \<^item> Intake and scan: an issue that is offered is trusted, unmanaged and unblocked; one ticket per work
    item; work that a merge request carries or a run has claimed is not started; a claim in the ledger
    keeps others out and is released by its outcome.
  \<^item> Availability and quota: the scans implement their contracts; pruning is invisible without records
    under the legacy alias; blocks hold,
    expire and stay in their scope; selected quota windows are current and isolated.
  \<^item> Routing: an allow-list with consistent entries is never escaped, selection is the first eligible candidate, explicit routes
    never move, approval gates cannot be bypassed by a model flag, recovering capacity is awaited, no
    list is empty where the code expects a first element.
  \<^item> Reviews: a surviving approval is grounded in facts; repair orders name changed files with evidence;
    a published verdict stops every further review of its head; second opinions ask each reviewer once
    and end.
  \<^item> Some theorems state behaviour that is a defect or differs from what comments promise: for example
    \<open>stop_for_human_preempts\<close>, \<open>reviewer_history_cycle\<close>, \<open>cloud_coder_alias_never_blocked\<close>,
    \<open>reprobe_blocks_healthy_route\<close>, \<open>quota_compaction_forgets_alias\<close>, \<open>boost_wraps\<close>,
    \<open>reviewer_pool_forgotten\<close>, \<open>held_parent_spins\<close>, \<open>two_reasons_report_forever\<close>,
    \<open>held_item_becomes_stuck\<close>, \<open>malformed_line_is_dropped\<close>, \<open>unrelated_review_clears_gate\<close>,
    \<open>restarted_claim_skips_window\<close>, \<open>completed_approval_counts_as_attempt\<close> and
    \<open>guard_and_scan_disagree\<close>.

  \<^bold>\<open>Numbers, loops and bounds.\<close>  Counters that the code only compares and prints are \<open>nat\<close>; where the
  code saturates or wraps at 32 or 64 bits the operation is written out.  Floating point values are
  rationals, rounded to 53 bits after every operation of the code; exponents are unbounded, since
  percentages, days, prices and loads are far inside the binary64 range; infinities and NaN appear only
  where text is parsed (\<open>f64\<close>).  Loops over lists are structural recursion or folds; scanners of texts
  are functions with a termination proof by the remaining length.  A loop that the code does not bound
  is a \<open>partial_function (option)\<close> whose \<open>None\<close> is not returning: waiting for a slot, reading comment
  pages, listing the merge requests or issues of GitLab, avoiding attached branches, moving past held
  work, walking prerequisites.  For each a theorem states when it returns; no definition uses fuel.

  \<^bold>\<open>Parameters.\<close>  The clock and its RFC 3339 texts, the secret redactor, the JSON codec of a receipt,
  the executable test and \<open>PATH\<close>, the credential kind, the catalogue of \<open>agy\<close>, price formatting, the
  pages a provider returns, SHA-256, alphanumeric characters beyond ASCII, the listing of ticket files, its answers about issues and their links (which may change from one call to
  the next), the answers of the file system to locks, opens and writes, the process
  table, kernel readings, the snapshot of a moment and the execution of an action are arguments, since
  they come from outside or from components not modelled.

  \<^bold>\<open>Assumptions of the claim protocol.\<close>  The issue starts unclaimed; a loop settles only when no other
  is between reading the item and posting its claim, which is what the verification window is for; no
  loop stops in that window; no person removes a loop that holds the item.  The steps of
  \<open>protocol_step\<close> state them.

  \<^bold>\<open>Not modelled.\<close>  Starting and supervising agent processes, git and worktrees, the forge and other
  HTTP services, the servers, the command line, rendering and prompts: their substance is calls of
  programs outside the repository.  Of the controller, the threads and channels of
  \<open>run_parallel_once\<close> and the daemon around a pass: each slot runs the modelled selection under the
  modelled registry, but the timing of threads is not a function of the source.  Of routing, the
  diagnostics tree, which only explains a decision.
\<close>

end
